(* ===== verification/Prelude.thy ===== *)
theory Prelude
  imports Main "HOL-Library.Word" "HOL-Library.Char_ord" "HOL-Library.List_Lexorder"
begin

text \<open>
  Shared vocabulary of the development.

  \<^item> Go strings and byte slices are \<open>string\<close> (lists of 8-bit characters), so \<open>length\<close> is
    Go's \<open>len\<close> and every function of package \<open>strings\<close> below works on bytes, as Go's does.
  \<^item> A Go \<open>error\<close> is the list of sentinels that \<open>errors.Is\<close> finds in its wrap chain, in the
    order of the \<open>%w\<close> verbs; the human-readable text around them is not modelled. A nil error is
    \<open>None\<close>. The sentinels are grouped by the Go package that declares them.
  \<^item> A \<open>context.Context\<close> is the number of \<open>ctx.Err()\<close> checks that still succeed (\<open>None\<close>: it is
    never cancelled), so quantifying over it quantifies over every cancellation point.
  \<^item> A Go map with string keys is an association list with distinct keys.
  \<^item> The locale \<open>transition_system\<close> is the interface of every state machine of the development.
\<close>

named_theorems go_simps "evaluation rules of the modelled parts of Go's standard library"

section \<open>Errors\<close>

datatype wizard_err =
    ErrInvalidStep | ErrSecretInCleanup | ErrUnsupportedKind | ErrInvalidPlan
  | ErrCorruptedSnapshot | ErrPendingSchemaMismatch
  | ErrPreflightSSHDisconnected | ErrPreflightNilStatus

datatype provider_err =
    ErrInvalidProviderConfig | ErrUnknownProvider | ErrProviderAlreadyRegistered
  | ErrUnknownOutputFormat | ErrOutputTooLarge | ErrSubdomainExists
  | ErrNodeVersionUnsupported | ErrAppNotFound | ErrAppNotNode | ErrDNSNotResolving
  | ErrRateLimitLetsEncrypt | ErrDBNameTaken | ErrCLINotFound

datatype validator_err = ErrUnknownValidator | ErrInvalidValidatorSet

datatype smallhost_err =
  ErrInvalidDomain | ErrInvalidUser | ErrInvalidDBName | ErrInvalidNodeVersion | ErrExecutorNotConfigured

datatype cpanel_err = ErrCpInvalidDomain | ErrCpInvalidNodeVersion | ErrCpInvalidDBName

datatype uapi_err =
    ErrInvalidEndpoint | ErrMissingCredentials | ErrRateLimited | ErrAuthenticationFailed | ErrServerError
  | ErrMalformedResponse | ErrModuleFunctionDenied | ErrSprintScopeNotMutable | ErrUnexpectedHTTPStatus
  | ErrAPIResultFailure | ErrUnknownSSLShape | ErrTransportUnavailable | ErrSSHRunnerRequired
  | ErrMutationsDisabled | ErrInvalidArgs | ErrResourceExists | ErrResourceNotFound

datatype github_err =
    ErrGHUnavailable | ErrRepoExists | ErrPATInvalid | ErrPATScopeInsufficient | ErrGHRateLimited
  | ErrWorkflowDispatchFailed | ErrInvalidRepoRef | ErrWorkflowFileMissingSHA | ErrInvalidCommitFileRequest
  | ErrRunGetterNil | ErrHTTPValidationFailed | ErrHTTPServerError | ErrHTTPUnexpectedStatus
  | ErrInvalidPublicKey | ErrRunNotFound | ErrStepsParseError

datatype ssh_err =
    ErrPoolBusy | ErrHostKeyUnknown | ErrHostKeyMismatch | ErrReconnectExhausted
  | ErrHostKeyDBRequired

datatype config_err =
    ErrInvalidJSON | ErrSchemaViolation | ErrSecretInConfig | ErrDanglingProfileAlias
  | ErrCorruptedConfig | ErrSchemaMismatch | ErrMigrationFailed | ErrConfigLocked | ErrNoMigrator

datatype secrets_err =
    ErrBrokenKeyring | ErrSecretNotFound | ErrFallbackLocked | ErrAuthFailed
  | ErrCorruptedSecrets | ErrMasterPasswordTooShort | ErrKeyringUnavailable | ErrSecretsLocked

datatype preset_err =
    ErrInvalidPreset | ErrPresetSchema | ErrSecretInPreset | ErrPresetJSON | ErrPresetNotFound | ErrDuplicateID

datatype misc_err = ErrTypeMismatch | ErrEmptyTracePath | ErrLogPathInvalid | ErrSessionClosed

text \<open>
  \<open>ContextErr\<close> is \<open>context.Canceled\<close>; \<open>OSErr\<close> a failed system call; \<open>ExitErr n\<close> the exit status
  error of the SSH library; \<open>PoolClosed\<close> the unexported \<open>errPoolClosed\<close>; \<open>Retriable\<close> the wrapper type
  \<open>retriableError\<close>; \<open>ExecNotFound\<close> \<open>exec.ErrNotFound\<close>; \<open>Foreign n\<close> any other error of code outside the repository.
\<close>

datatype sentinel =
    WizardE wizard_err | ProviderE provider_err | ValidatorE validator_err
  | SmallhostE smallhost_err | CpanelE cpanel_err | UapiE uapi_err | GithubE github_err | SshE ssh_err
  | ConfigE config_err | SecretsE secrets_err | PresetE preset_err | MiscE misc_err
  | ContextErr | OSErr | PoolClosed | ParseIntErr | ExitErr int | Retriable | ExecNotFound | Foreign nat

type_synonym goerr = "sentinel list"
type_synonym 'a res = "goerr + 'a"

text \<open>An error together with its text, where the code reads the text.\<close>

type_synonym terr = "goerr \<times> string"

definition errors_is :: "goerr \<Rightarrow> sentinel \<Rightarrow> bool" where
  "errors_is e s \<longleftrightarrow> s \<in> set e"

text \<open>\<open>fmt.Errorf("%w: %w", s, e)\<close>: the sentinel is added in front of the wrapped chain.\<close>

definition wrap :: "sentinel \<Rightarrow> goerr \<Rightarrow> goerr" where
  "wrap s e = s # e"

lemma errors_is_wrap [simp]: "errors_is (wrap s e) t \<longleftrightarrow> t = s \<or> errors_is e t"
  by (auto simp: errors_is_def wrap_def)

lemma errors_is_single [simp]: "errors_is [s] t \<longleftrightarrow> t = s"
  by (auto simp: errors_is_def)

lemma wrap_not_Nil [simp]: "wrap s e \<noteq> []"
  by (simp add: wrap_def)

section \<open>Contexts\<close>

type_synonym ctx = "nat option"

definition ctx_err :: "ctx \<Rightarrow> goerr option" where
  "ctx_err c = (if c = Some 0 then Some [ContextErr] else None)"

definition ctx_tick :: "ctx \<Rightarrow> ctx" where
  "ctx_tick c = map_option (\<lambda>n. n - 1) c"

lemma ctx_background [simp]: "ctx_err None = None" "ctx_tick None = None"
  by (simp_all add: ctx_err_def ctx_tick_def)

lemma ctx_cancelled_stays: "ctx_err c = Some e \<Longrightarrow> ctx_err (ctx_tick c) = Some e"
  by (auto simp: ctx_err_def ctx_tick_def split: if_splits)

section \<open>Integers\<close>

text \<open>Go's \<open>/\<close> on integers truncates towards zero.\<close>

definition go_div :: "int \<Rightarrow> int \<Rightarrow> int" where
  "go_div a b = sgn a * sgn b * (\<bar>a\<bar> div \<bar>b\<bar>)"

lemma go_div_nonneg [simp]: "0 \<le> a \<Longrightarrow> 0 < b \<Longrightarrow> go_div a b = a div b"
  by (cases "a = 0") (auto simp: go_div_def)

section \<open>Association lists as Go maps\<close>

type_synonym 'v gomap = "(string \<times> 'v) list"

text \<open>\<open>m[k]\<close> of a \<open>map[string]string\<close>: the empty string when the key is absent.\<close>

definition mget :: "string gomap \<Rightarrow> string \<Rightarrow> string" where
  "mget m k = (case map_of m k of None \<Rightarrow> '''' | Some v \<Rightarrow> v)"

definition mput :: "string \<Rightarrow> 'v \<Rightarrow> 'v gomap \<Rightarrow> 'v gomap" where
  "mput k v m = (k, v) # filter (\<lambda>p. fst p \<noteq> k) m"

definition mdel :: "string \<Rightarrow> 'v gomap \<Rightarrow> 'v gomap" where
  "mdel k m = filter (\<lambda>p. fst p \<noteq> k) m"

lemma map_of_filter_key:
  "map_of (filter (\<lambda>p. fst p \<noteq> k) m) j = (if j = k then None else map_of m j)"
  by (induction m) auto

lemma map_of_mput [simp]: "map_of (mput k v m) = (map_of m)(k \<mapsto> v)"
  by (rule ext) (simp add: mput_def map_of_filter_key)

lemma map_of_mdel [simp]: "map_of (mdel k m) = (map_of m)(k := None)"
  by (rule ext) (simp add: mdel_def map_of_filter_key)

lemma distinct_fst_filter: "distinct (map fst m) \<Longrightarrow> distinct (map fst (filter P m))"
  by (induction m) auto

lemma distinct_mput [simp]: "distinct (map fst m) \<Longrightarrow> distinct (map fst (mput k v m))"
  by (auto simp: mput_def distinct_fst_filter)

lemma distinct_mdel [simp]: "distinct (map fst m) \<Longrightarrow> distinct (map fst (mdel k m))"
  by (simp add: mdel_def distinct_fst_filter)

section \<open>Transition systems\<close>

text \<open>
  A state machine is an initial-state predicate and a step relation; an invariant holds initially and
  is kept by every step, hence in every state reached by finitely many steps.
\<close>

inductive reached :: "('s \<Rightarrow> bool) \<Rightarrow> ('s \<Rightarrow> 's \<Rightarrow> bool) \<Rightarrow> 's \<Rightarrow> bool"
  for init :: "'s \<Rightarrow> bool" and step :: "'s \<Rightarrow> 's \<Rightarrow> bool" where
  reached_init: "init s \<Longrightarrow> reached init step s"
| reached_step: "reached init step s \<Longrightarrow> step s t \<Longrightarrow> reached init step t"

locale transition_system =
  fixes init :: "'s \<Rightarrow> bool"
    and step :: "'s \<Rightarrow> 's \<Rightarrow> bool"
    and inv :: "'s \<Rightarrow> bool"
  assumes inv_init: "init s \<Longrightarrow> inv s"
    and inv_step: "step s t \<Longrightarrow> inv s \<Longrightarrow> inv t"
begin

lemma reached_inv: "reached init step s \<Longrightarrow> inv s"
  by (induction rule: reached.induct) (auto intro: inv_init inv_step)

lemma run_inv: "step\<^sup>*\<^sup>* s t \<Longrightarrow> inv s \<Longrightarrow> inv t"
  by (induction rule: rtranclp_induct) (auto intro: inv_step)

end

end
