(* ===== verification/Go_Strings.thy ===== *)
theory Go_Strings
  imports Prelude
begin

text \<open>
  The functions of Go's \<open>strings\<close>, \<open>bytes\<close> and \<open>strconv\<close> packages that the modelled code calls.
  \<open>trim_space\<close> is \<open>strings.TrimSpace\<close>: a rune counts as white space exactly when its UTF-8 encoding
  is one of \<open>space_seqs\<close>, so trimming removes those byte sequences from both ends. \<open>to_lower\<close> and
  \<open>str_fields\<close> are \<open>strings.ToLower\<close> and \<open>strings.Fields\<close> on ASCII text, which is all the callers
  pass: panel output has been through \<open>stripAndNormalize\<close>, which refuses bytes above 0x7e.
\<close>

section \<open>Quotes\<close>

definition squote :: char where "squote = CHR 0x27"
definition dquote :: char where "dquote = CHR 0x22"
definition backslash :: char where "backslash = CHR 0x5C"

section \<open>Prefixes, suffixes, substrings\<close>

definition has_prefix :: "string \<Rightarrow> string \<Rightarrow> bool" where
  "has_prefix s p \<longleftrightarrow> take (length p) s = p"

definition has_suffix :: "string \<Rightarrow> string \<Rightarrow> bool" where
  "has_suffix s p \<longleftrightarrow> has_prefix (rev s) (rev p)"

fun contains :: "string \<Rightarrow> string \<Rightarrow> bool" where
  "contains [] p \<longleftrightarrow> p = []"
| "contains (x # xs) p \<longleftrightarrow> has_prefix (x # xs) p \<or> contains xs p"

definition trim_prefix :: "string \<Rightarrow> string \<Rightarrow> string" where
  "trim_prefix s p = (if has_prefix s p then drop (length p) s else s)"

lemma has_prefix_iff: "has_prefix s p \<longleftrightarrow> (\<exists>t. s = p @ t)"
  by (metis append_eq_conv_conj append_take_drop_id has_prefix_def)

lemma has_prefix_Nil [simp, go_simps]: "has_prefix s []"
  by (simp add: has_prefix_def)

lemma has_prefix_Cons [simp, go_simps]:
  "has_prefix (x # xs) (y # ys) \<longleftrightarrow> x = y \<and> has_prefix xs ys"
  "has_prefix [] (y # ys) \<longleftrightarrow> False"
  by (simp_all add: has_prefix_def)

lemma has_prefix_append [simp]: "has_prefix (p @ t) p"
  by (simp add: has_prefix_def)

lemma contains_iff: "contains s p \<longleftrightarrow> (\<exists>u v. s = u @ p @ v)"
proof (induction s)
  case Nil
  then show ?case by auto
next
  case (Cons x xs)
  have "(\<exists>u v. x # xs = u @ p @ v) \<longleftrightarrow> (\<exists>v. x # xs = p @ v) \<or> (\<exists>u v. xs = u @ p @ v)"
    by (auto simp: Cons_eq_append_conv)
  then show ?case
    using Cons by (simp only: contains.simps has_prefix_iff)
qed

lemma contains_single: "contains s [c] \<longleftrightarrow> c \<in> set s"
  by (induction s) auto

text \<open>\<open>strings.ContainsAny\<close>.\<close>

definition contains_any :: "string \<Rightarrow> string \<Rightarrow> bool" where
  "contains_any s chars \<longleftrightarrow> list_ex (\<lambda>c. c \<in> set chars) s"

lemma contains_any_iff: "contains_any s cs \<longleftrightarrow> set s \<inter> set cs \<noteq> {}"
  by (auto simp: contains_any_def list_ex_iff)

section \<open>Splitting and joining\<close>

fun split_char :: "char \<Rightarrow> string \<Rightarrow> string list" where
  "split_char c [] = [[]]"
| "split_char c (x # xs) =
     (if x = c then [] # split_char c xs
      else (case split_char c xs of [] \<Rightarrow> [[x]] | y # ys \<Rightarrow> (x # y) # ys))"

fun join :: "string \<Rightarrow> string list \<Rightarrow> string" where
  "join sep [] = []"
| "join sep [x] = x"
| "join sep (x # y # ys) = x @ sep @ join sep (y # ys)"

lemma split_char_not_Nil [simp]: "split_char c s \<noteq> []"
  by (induction s) (auto split: list.splits)

lemma join_split_char: "join [c] (split_char c s) = s"
proof (induction s)
  case (Cons x xs)
  obtain y ys where yy: "split_char c xs = y # ys"
    by (meson neq_Nil_conv split_char_not_Nil)
  with Cons have IH: "join [c] (y # ys) = xs" by simp
  show ?case
  proof (cases ys)
    case Nil
    then show ?thesis using yy IH by auto
  next
    case (Cons z zs)
    then show ?thesis using yy IH by auto
  qed
qed simp

lemma split_char_parts: "p \<in> set (split_char c s) \<Longrightarrow> c \<notin> set p"
  by (induction s arbitrary: p) (auto split: list.splits if_splits)

lemma set_split_char: "x \<in> set s \<Longrightarrow> x = c \<or> (\<exists>p \<in> set (split_char c s). x \<in> set p)"
  by (induction s) (auto split: list.splits)

lemma split_char_subset: "p \<in> set (split_char c s) \<Longrightarrow> set p \<subseteq> set s"
  by (induction s arbitrary: p) (fastforce split: list.splits if_splits)+

lemma split_char_none: "c \<notin> set s \<Longrightarrow> split_char c s = [s]"
  by (induction s) auto

lemma split_char_append: "split_char c (p @ c # s) = split_char c p @ split_char c s"
  by (induction p) (auto split: list.splits simp: append_eq_Cons_conv)

lemma split_char_sep: "c \<notin> set p \<Longrightarrow> split_char c (p @ c # s) = p # split_char c s"
  by (simp add: split_char_append split_char_none)

section \<open>Trimming white space\<close>

definition space_seqs :: "string list" where
  "space_seqs =
     [[CHR 0x09], [CHR 0x0A], [CHR 0x0B], [CHR 0x0C], [CHR 0x0D], [CHR 0x20],
      [CHR 0xC2, CHR 0x85], [CHR 0xC2, CHR 0xA0], [CHR 0xE1, CHR 0x9A, CHR 0x80],
      [CHR 0xE2, CHR 0x80, CHR 0x80], [CHR 0xE2, CHR 0x80, CHR 0x81],
      [CHR 0xE2, CHR 0x80, CHR 0x82], [CHR 0xE2, CHR 0x80, CHR 0x83],
      [CHR 0xE2, CHR 0x80, CHR 0x84], [CHR 0xE2, CHR 0x80, CHR 0x85],
      [CHR 0xE2, CHR 0x80, CHR 0x86], [CHR 0xE2, CHR 0x80, CHR 0x87],
      [CHR 0xE2, CHR 0x80, CHR 0x88], [CHR 0xE2, CHR 0x80, CHR 0x89],
      [CHR 0xE2, CHR 0x80, CHR 0x8A], [CHR 0xE2, CHR 0x80, CHR 0xA8],
      [CHR 0xE2, CHR 0x80, CHR 0xA9], [CHR 0xE2, CHR 0x80, CHR 0xAF],
      [CHR 0xE2, CHR 0x81, CHR 0x9F], [CHR 0xE3, CHR 0x80, CHR 0x80]]"

function strip_seqs :: "string list \<Rightarrow> string \<Rightarrow> string" where
  "strip_seqs qs s =
     (case find (\<lambda>q. q \<noteq> [] \<and> has_prefix s q) qs of
        None \<Rightarrow> s
      | Some q \<Rightarrow> strip_seqs qs (drop (length q) s))"
  by pat_completeness auto
termination
proof (relation "measure (length \<circ> snd)")
  fix qs :: "string list" and s q
  assume "find (\<lambda>q. q \<noteq> [] \<and> has_prefix s q) qs = Some q"
  then have "q \<noteq> []" "has_prefix s q" by (auto simp: find_Some_iff)
  then show "((qs, drop (length q) s), (qs, s)) \<in> measure (length \<circ> snd)"
    by (auto simp: has_prefix_iff)
qed simp

declare strip_seqs.simps [simp del]

definition trim_space :: "string \<Rightarrow> string" where
  "trim_space s = rev (strip_seqs (map rev space_seqs) (rev (strip_seqs space_seqs s)))"

lemma strip_seqs_suffix: "\<exists>u. s = u @ strip_seqs qs s"
proof (induction qs s rule: strip_seqs.induct)
  case (1 qs s)
  show ?case
  proof (cases "find (\<lambda>q. q \<noteq> [] \<and> has_prefix s q) qs")
    case None
    then show ?thesis by (simp add: strip_seqs.simps [of qs s])
  next
    case (Some q)
    with 1 obtain u where u: "drop (length q) s = u @ strip_seqs qs (drop (length q) s)" by blast
    then have "s = (take (length q) s @ u) @ strip_seqs qs (drop (length q) s)"
      by (metis append.assoc append_take_drop_id)
    moreover have "strip_seqs qs s = strip_seqs qs (drop (length q) s)"
      using Some by (simp add: strip_seqs.simps [of qs s])
    ultimately show ?thesis by metis
  qed
qed

lemma strip_seqs_no_prefix: "q \<in> set qs \<Longrightarrow> q \<noteq> [] \<Longrightarrow> \<not> has_prefix (strip_seqs qs s) q"
proof (induction qs s rule: strip_seqs.induct)
  case (1 qs s)
  show ?case
  proof (cases "find (\<lambda>q. q \<noteq> [] \<and> has_prefix s q) qs")
    case None
    then have "strip_seqs qs s = s" by (simp add: strip_seqs.simps [of qs s])
    then show ?thesis using None 1 by (auto simp: find_None_iff)
  next
    case (Some p)
    then show ?thesis using 1 by (auto simp: strip_seqs.simps [of qs s])
  qed
qed

lemma strip_seqs_id: "(\<And>q. q \<in> set qs \<Longrightarrow> q \<noteq> [] \<Longrightarrow> \<not> has_prefix s q) \<Longrightarrow> strip_seqs qs s = s"
  by (subst strip_seqs.simps) (auto simp: find_None_iff split: option.splits dest: find_Some_iff [THEN iffD1])

lemma strip_seqs_Cons_char:
  "[c] \<in> set qs \<Longrightarrow> (\<And>q. q \<in> set qs \<Longrightarrow> has_prefix (c # s) q \<Longrightarrow> q \<noteq> [] \<Longrightarrow> q = [c]) \<Longrightarrow>
   strip_seqs qs (c # s) = strip_seqs qs s"
proof -
  assume c: "[c] \<in> set qs"
    and u: "\<And>q. q \<in> set qs \<Longrightarrow> has_prefix (c # s) q \<Longrightarrow> q \<noteq> [] \<Longrightarrow> q = [c]"
  have "find (\<lambda>q. q \<noteq> [] \<and> has_prefix (c # s) q) qs \<noteq> None"
    using c by (auto simp: find_None_iff)
  then obtain q where q: "find (\<lambda>q. q \<noteq> [] \<and> has_prefix (c # s) q) qs = Some q" by auto
  then have "q \<in> set qs" "q \<noteq> []" "has_prefix (c # s) q"
    by (auto simp: find_Some_iff)
  then have "q = [c]" using u by blast
  with q show ?thesis by (simp add: strip_seqs.simps [of qs "c # s"])
qed

lemma trim_space_subset: "set (trim_space s) \<subseteq> set s"
proof -
  obtain u where "s = u @ strip_seqs space_seqs s" using strip_seqs_suffix by blast
  then have a: "set (strip_seqs space_seqs s) \<subseteq> set s" by (metis Un_upper2 set_append)
  obtain v where "rev (strip_seqs space_seqs s) = v @ rev (trim_space s)"
    using strip_seqs_suffix [of "rev (strip_seqs space_seqs s)"] by (auto simp: trim_space_def)
  then have "set (trim_space s) \<subseteq> set (strip_seqs space_seqs s)"
    by (metis Un_upper2 set_append set_rev)
  with a show ?thesis by blast
qed

lemma trim_space_Nil [simp]: "trim_space [] = []"
  by (simp add: trim_space_def strip_seqs_id has_prefix_def)

section \<open>Replacing, lower case, str_fields\<close>

function replace_all :: "string \<Rightarrow> string \<Rightarrow> string \<Rightarrow> string" where
  "replace_all [] old new = []"
| "replace_all (x # xs) old new =
     (if old \<noteq> [] \<and> has_prefix (x # xs) old
      then new @ replace_all (drop (length old) (x # xs)) old new
      else x # replace_all xs old new)"
  by pat_completeness auto
termination
  by (relation "measure (length \<circ> fst)") (auto simp: has_prefix_iff neq_Nil_conv)

lemma replace_all_subset: "set (replace_all s old new) \<subseteq> set s \<union> set new"
proof (induction s old new rule: replace_all.induct)
  case (2 x xs old new)
  have "set (drop (length old) (x # xs)) \<subseteq> set (x # xs)" by (rule set_drop_subset)
  with 2 show ?case by auto
qed simp

lemma replace_all_char_gone: "c \<notin> set new \<Longrightarrow> c \<notin> set (replace_all s [c] new)"
  by (induction s "[c]" new rule: replace_all.induct) auto

lemma replace_all_absent: "hd old \<notin> set s \<Longrightarrow> old \<noteq> [] \<Longrightarrow> replace_all s old new = s"
  by (induction s old new rule: replace_all.induct) (auto simp: has_prefix_iff neq_Nil_conv)

definition lower_char :: "char \<Rightarrow> char" where
  "lower_char c = (if CHR ''A'' \<le> c \<and> c \<le> CHR ''Z'' then char_of (of_char c + 32 :: nat) else c)"

definition to_lower :: "string \<Rightarrow> string" where
  "to_lower s = map lower_char s"

definition is_ascii_space :: "char \<Rightarrow> bool" where
  "is_ascii_space c \<longleftrightarrow> c \<in> set [CHR 0x09, CHR 0x0A, CHR 0x0B, CHR 0x0C, CHR 0x0D, CHR 0x20]"

fun split_spaces :: "string \<Rightarrow> string list" where
  "split_spaces [] = [[]]"
| "split_spaces (x # xs) =
     (if is_ascii_space x then [] # split_spaces xs
      else (case split_spaces xs of [] \<Rightarrow> [[x]] | y # ys \<Rightarrow> (x # y) # ys))"

definition str_fields :: "string \<Rightarrow> string list" where
  "str_fields s = filter (\<lambda>w. w \<noteq> []) (split_spaces s)"

lemma split_spaces_no_space: "w \<in> set (split_spaces s) \<Longrightarrow> c \<in> set w \<Longrightarrow> \<not> is_ascii_space c"
  by (induction s arbitrary: w) (fastforce split: list.splits if_splits)+

lemma split_spaces_subset: "w \<in> set (split_spaces s) \<Longrightarrow> set w \<subseteq> set s"
  by (induction s arbitrary: w) (fastforce split: list.splits if_splits)+

lemma str_fields_word:
  assumes "w \<in> set (str_fields s)"
  shows "w \<noteq> []" and "set w \<subseteq> set s" and "c \<in> set w \<Longrightarrow> \<not> is_ascii_space c"
  using assms by (auto simp: str_fields_def dest: split_spaces_subset split_spaces_no_space)

section \<open>Numbers\<close>

definition is_digit :: "char \<Rightarrow> bool" where
  "is_digit c \<longleftrightarrow> CHR ''0'' \<le> c \<and> c \<le> CHR ''9''"

definition digit_char :: "nat \<Rightarrow> char" where
  "digit_char d = char_of (48 + d)"

definition digit_val :: "char \<Rightarrow> nat" where
  "digit_val c = of_char c - 48"

fun nat_string :: "nat \<Rightarrow> string" where
  "nat_string n = (if n < 10 then [digit_char n] else nat_string (n div 10) @ [digit_char (n mod 10)])"

declare nat_string.simps [simp del]

definition digits_val :: "string \<Rightarrow> nat" where
  "digits_val s = foldl (\<lambda>a c. 10 * a + digit_val c) 0 s"

text \<open>\<open>strconv.Itoa\<close> and \<open>strconv.FormatInt (_, 10)\<close>.\<close>

definition itoa :: "int \<Rightarrow> string" where
  "itoa n = (if n < 0 then CHR ''-'' # nat_string (nat (- n)) else nat_string (nat n))"

text \<open>
  \<open>strconv.ParseInt (_, 10, 64)\<close> and \<open>strconv.Atoi\<close> on a 64-bit platform: an optional sign, at least
  one digit, nothing else, and a value that fits; \<open>None\<close> is the syntax or the range error.
\<close>

definition in_int64 :: "int \<Rightarrow> bool" where
  "in_int64 n \<longleftrightarrow> - (2 ^ 63) \<le> n \<and> n < 2 ^ 63"

definition parse_nat :: "string \<Rightarrow> nat option" where
  "parse_nat s = (if s \<noteq> [] \<and> list_all is_digit s then Some (digits_val s) else None)"

definition parse_int64 :: "string \<Rightarrow> int option" where
  "parse_int64 s =
     (let (neg, ds) = (case s of
            [] \<Rightarrow> (False, [])
          | c # cs \<Rightarrow> if c = CHR ''-'' then (True, cs) else if c = CHR ''+'' then (False, cs) else (False, s))
      in case parse_nat ds of
           None \<Rightarrow> None
         | Some n \<Rightarrow> (let v = (if neg then - int n else int n) in if in_int64 v then Some v else None))"

text \<open>\<open>strconv.ParseBool\<close>.\<close>

definition parse_bool :: "string \<Rightarrow> bool option" where
  "parse_bool s =
     (if s \<in> set [''1'', ''t'', ''T'', ''TRUE'', ''true'', ''True''] then Some True
      else if s \<in> set [''0'', ''f'', ''F'', ''FALSE'', ''false'', ''False''] then Some False
      else None)"

lemma of_char_digit: "d < 10 \<Longrightarrow> of_char (digit_char d) = 48 + d"
  by (simp add: digit_char_def of_char_of)

lemma digit_val_char [simp]: "d < 10 \<Longrightarrow> digit_val (digit_char d) = d"
  by (simp add: digit_val_def of_char_digit)

lemma is_digit_char [simp]: "d < 10 \<Longrightarrow> is_digit (digit_char d)"
  by (simp add: is_digit_def less_eq_char_def of_char_digit)

lemma nat_string_not_Nil [simp]: "nat_string n \<noteq> []"
  by (subst nat_string.simps) simp

lemma nat_string_digits: "list_all is_digit (nat_string n)"
proof (induction n rule: nat_string.induct)
  case (1 n)
  then show ?case by (subst nat_string.simps) simp
qed

lemma digits_val_snoc: "digits_val (s @ [c]) = 10 * digits_val s + digit_val c"
  by (simp add: digits_val_def)

lemma digits_val_nat_string [simp]: "digits_val (nat_string n) = n"
proof (induction n rule: nat_string.induct)
  case (1 n)
  show ?case
  proof (cases "n < 10")
    case True
    then show ?thesis by (simp add: nat_string.simps [of n] digits_val_def)
  next
    case False
    with 1 have "digits_val (nat_string (n div 10)) = n div 10" by simp
    with False show ?thesis by (simp add: nat_string.simps [of n] digits_val_snoc)
  qed
qed

lemma parse_nat_nat_string [simp]: "parse_nat (nat_string n) = Some n"
  by (simp add: parse_nat_def nat_string_digits)

lemma nat_string_hd_digit: "is_digit (hd (nat_string n))"
  using nat_string_digits [of n] by (cases "nat_string n") auto

lemma not_digit_sign [simp]: "\<not> is_digit CHR ''-''" "\<not> is_digit CHR ''+''" "\<not> is_digit CHR ''.''"
  by (simp_all add: is_digit_def less_eq_char_def)

theorem parse_int64_itoa: "in_int64 n \<Longrightarrow> parse_int64 (itoa n) = Some n"
proof (cases "n < 0")
  case True
  then show "in_int64 n \<Longrightarrow> ?thesis" by (simp add: parse_int64_def itoa_def)
next
  case False
  obtain c cs where c: "nat_string (nat n) = c # cs" by (meson neq_Nil_conv nat_string_not_Nil)
  have "is_digit c" using nat_string_hd_digit [of "nat n"] c by simp
  then have "c \<noteq> CHR ''-''" "c \<noteq> CHR ''+''" by auto
  moreover have "parse_nat (c # cs) = Some (nat n)" using c parse_nat_nat_string by metis
  ultimately show "in_int64 n \<Longrightarrow> ?thesis" using False c by (simp add: parse_int64_def itoa_def)
qed

lemma parse_int64_range: "parse_int64 s = Some n \<Longrightarrow> in_int64 n"
  by (auto simp: parse_int64_def Let_def split: list.splits option.splits if_splits prod.splits)

section \<open>Trimming, joining and splitting: what the callers rely on\<close>

lemma trim_space_id:
  assumes "s \<noteq> [] \<Longrightarrow> \<forall>q\<in>set space_seqs. hd s \<noteq> hd q \<and> last s \<noteq> last q"
  shows "trim_space s = s"
proof (cases "s = []")
  case False
  have ne: "q \<noteq> []" if "q \<in> set space_seqs" for q
    using that by (auto simp: space_seqs_def)
  have "strip_seqs space_seqs s = s"
    using assms False ne by (intro strip_seqs_id) (fastforce simp: has_prefix_iff)
  moreover have "strip_seqs (map rev space_seqs) (rev s) = rev s"
  proof (rule strip_seqs_id)
    fix q assume "q \<in> set (map rev space_seqs)"
    then obtain p where p: "p \<in> set space_seqs" "q = rev p" by auto
    show "\<not> has_prefix (rev s) q"
    proof
      assume "has_prefix (rev s) q"
      then obtain t where "rev s = rev p @ t" using p by (auto simp: has_prefix_iff)
      then have "s = rev t @ p" by (metis rev_append rev_rev_ident)
      then have "last s = last p" using ne [OF p(1)] by simp
      then show False using assms False p by blast
    qed
  qed
  ultimately show ?thesis by (simp add: trim_space_def)
qed simp

text \<open>Printable ASCII at both ends: nothing to trim.\<close>

lemma trim_space_ascii:
  assumes "\<And>c. c \<in> set s \<Longrightarrow> CHR 0x20 < c \<and> c < CHR 0x7F"
  shows "trim_space s = s"
proof (rule trim_space_id)
  assume "s \<noteq> []"
  then have "hd s \<in> set s" "last s \<in> set s" by simp_all
  then have "CHR 0x20 < hd s \<and> hd s < CHR 0x7F" "CHR 0x20 < last s \<and> last s < CHR 0x7F"
    using assms by blast+
  then show "\<forall>q\<in>set space_seqs. hd s \<noteq> hd q \<and> last s \<noteq> last q"
    by (auto simp: space_seqs_def less_char_def)
qed

lemma has_suffix_snoc: "has_suffix (s @ [x]) [y] \<longleftrightarrow> x = y"
  by (simp add: has_suffix_def)

lemma has_suffix_last: "s \<noteq> [] \<Longrightarrow> has_suffix s [c] \<longleftrightarrow> last s = c"
  by (cases s rule: rev_cases) (simp_all add: has_suffix_snoc)

lemma split_char_join:
  "ps \<noteq> [] \<Longrightarrow> \<forall>p \<in> set ps. c \<notin> set p \<Longrightarrow> split_char c (join [c] ps) = ps"
proof (induction ps)
  case (Cons p ps)
  then show ?case by (cases ps) (simp_all add: split_char_none split_char_sep)
qed simp

lemma replace_all_length:
  "length new \<le> length old \<Longrightarrow> length (replace_all s old new) \<le> length s"
proof (induction s old new rule: replace_all.induct)
  case (2 x xs old new)
  show ?case
  proof (cases "old \<noteq> [] \<and> has_prefix (x # xs) old")
    case True
    then obtain t where t: "x # xs = old @ t" by (auto simp: has_prefix_iff)
    have "length (replace_all (drop (length old) (x # xs)) old new) \<le> length (drop (length old) (x # xs))"
      using 2 True by simp
    then have "length new + length (replace_all t old new) \<le> length (x # xs)"
      using t 2(3) by simp
    moreover have "replace_all (x # xs) old new = new @ replace_all t old new"
      using True t unfolding replace_all.simps by (simp only: if_True simp_thms append_eq_conv_conj) simp
    ultimately show ?thesis by simp
  next
    case False
    with 2 show ?thesis by auto
  qed
qed simp

lemma split_spaces_not_Nil [simp]: "split_spaces s \<noteq> []"
  by (induction s) (auto split: list.splits)

lemma split_spaces_sep:
  "(\<forall>c \<in> set w. \<not> is_ascii_space c) \<Longrightarrow> is_ascii_space x \<Longrightarrow> split_spaces (w @ x # s) = w # split_spaces s"
  by (induction w) auto

lemma split_spaces_word: "(\<forall>c \<in> set w. \<not> is_ascii_space c) \<Longrightarrow> split_spaces w = [w]"
  by (induction w) auto

lemma str_fields_space [simp]: "is_ascii_space x \<Longrightarrow> str_fields (x # s) = str_fields s"
  by (simp add: str_fields_def)

lemma str_fields_Nil [simp]: "str_fields [] = []"
  by (simp add: str_fields_def)

lemma str_fields_spaces: "list_all is_ascii_space sp \<Longrightarrow> str_fields (sp @ s) = str_fields s"
  by (induction sp) auto

lemma str_fields_Cons_word:
  assumes "w \<noteq> []" "\<forall>c \<in> set w. \<not> is_ascii_space c" "sp \<noteq> []" "list_all is_ascii_space sp"
  shows "str_fields (w @ sp @ s) = w # str_fields s"
proof -
  obtain x sp' where "sp = x # sp'" using assms(3) by (cases sp) auto
  with assms show ?thesis
    using str_fields_spaces [of sp' s] by (simp add: str_fields_def split_spaces_sep)
qed

lemma str_fields_last_word:
  assumes "w \<noteq> []" "\<forall>c \<in> set w. \<not> is_ascii_space c" "list_all is_ascii_space sp"
  shows "str_fields (w @ sp) = [w]"
proof (cases sp)
  case Nil
  then show ?thesis using assms by (simp add: str_fields_def split_spaces_word)
next
  case (Cons x sp')
  then show ?thesis using str_fields_Cons_word [of w sp "[]"] assms by simp
qed

text \<open>Conversely, a line of three fields with a known type matches.\<close>

lemma fields_decompose:
  "str_fields s = w # ws \<Longrightarrow> \<exists>sp r. s = sp @ w @ r \<and> list_all is_ascii_space sp \<and> str_fields r = ws
     \<and> w \<noteq> [] \<and> (\<forall>c \<in> set w. \<not> is_ascii_space c) \<and> (r = [] \<or> is_ascii_space (hd r))"
proof (induction s arbitrary: w ws)
  case (Cons x s)
  show ?case
  proof (cases "is_ascii_space x")
    case True
    with Cons obtain sp r where "s = sp @ w @ r" "list_all is_ascii_space sp" "str_fields r = ws"
       "w \<noteq> []" "\<forall>c \<in> set w. \<not> is_ascii_space c" "r = [] \<or> is_ascii_space (hd r)" by fastforce
    with True show ?thesis by (intro exI [of _ "x # sp"] exI [of _ r]) auto
  next
    case False
    obtain y ys where y: "split_spaces s = y # ys" by (meson neq_Nil_conv split_spaces_not_Nil)
    then have f: "w = x # y" "ws = filter (\<lambda>w. w \<noteq> []) ys"
      using Cons.prems False by (auto simp: str_fields_def)
    have "\<exists>r. s = y @ r \<and> str_fields r = ws \<and> (\<forall>c \<in> set y. \<not> is_ascii_space c) \<and> (r = [] \<or> is_ascii_space (hd r))"
    proof (cases "y = []")
      case True
      show ?thesis
      proof (cases s)
        case Nil
        then show ?thesis using y f by simp
      next
        case (Cons z zs)
        then have "is_ascii_space z" using y True by (auto split: if_splits list.splits)
        then show ?thesis using y f Cons True by (auto simp: str_fields_def)
      qed
    next
      case ne: False
      then have "str_fields s = y # ws" using y f by (simp add: str_fields_def)
      from Cons.IH [OF this] obtain sp r where r: "s = sp @ y @ r" "list_all is_ascii_space sp" "str_fields r = ws"
        "\<forall>c \<in> set y. \<not> is_ascii_space c" "r = [] \<or> is_ascii_space (hd r)" by blast
      have "sp = []"
      proof (rule ccontr)
        assume "sp \<noteq> []"
        then have "hd (split_spaces s) = []" using r(1,2) by (cases sp) auto
        then show False using y ne by simp
      qed
      with r show ?thesis by auto
    qed
    then obtain r where "s = y @ r" "str_fields r = ws" "\<forall>c \<in> set y. \<not> is_ascii_space c"
      "r = [] \<or> is_ascii_space (hd r)" by blast
    with f(1) False show ?thesis by (intro exI [of _ "[]"] exI [of _ r]) auto
  qed
qed simp

lemma trim_space_hd: "trim_space s = c # t \<Longrightarrow> \<not> is_ascii_space c"
proof
  assume a: "trim_space s = c # t" "is_ascii_space c"
  obtain v where "rev (strip_seqs space_seqs s) = v @ rev (trim_space s)"
    using strip_seqs_suffix [of "rev (strip_seqs space_seqs s)"] by (auto simp: trim_space_def)
  then have "strip_seqs space_seqs s = trim_space s @ rev v"
    by (metis rev_append rev_rev_ident)
  then have "has_prefix (strip_seqs space_seqs s) [c]" using a(1) by simp
  moreover have "[c] \<in> set space_seqs" using a(2) by (auto simp: is_ascii_space_def space_seqs_def)
  ultimately show False using strip_seqs_no_prefix by blast
qed

text \<open>
  \<open>strings.ToLower\<close>, as far as ASCII text in the result is concerned: besides the capital letters, the
  only runes that are lowered to ASCII are the Kelvin sign (to \<open>k\<close>) and the dotted capital I (to \<open>i\<close>).
  Other runes keep bytes outside ASCII.
\<close>

definition str_lower :: "string \<Rightarrow> string" where
  "str_lower s = to_lower (replace_all (replace_all s [CHR 0xE2, CHR 0x84, CHR 0xAA] ''k'') [CHR 0xC4, CHR 0xB0] ''i'')"

end
