(* ===== verification/Regex.thy ===== *)
theory Regex
  imports Go_Strings
begin

text \<open>
  Go's \<open>regexp\<close> package, for the constructs the modelled patterns use: character classes,
  concatenation, alternation, greedy and lazy repetition, the anchors \<open>^\<close> and \<open>$\<close> (with and without the
  flag \<open>m\<close>), the word boundary \<open>\b\<close> and numbered capture groups.

  \<open>matches\<close> computes every way a pattern can match from a position, in the order of preference
  of Go's leftmost-first semantics, and \<open>Match\<close> is the declarative reading of the same patterns;
  \<open>matches_iff\<close> shows that they agree. Patterns are over bytes. The classes used are either ASCII or
  complements of ASCII classes, for which matching bytes and matching UTF-8 runes accept the same
  strings.
\<close>

section \<open>Patterns\<close>

datatype re =
    Eps
  | Cls "char \<Rightarrow> bool"
  | Seq re re
  | Alt re re
  | Star re
  | LStar re
  | Grp nat re
  | BeginText | EndText | BeginLine | EndLine | WordB

text \<open>
  A match state is the byte before the position (none at the start of the text), the text from the
  position on, and the captured groups, the latest first.
\<close>

type_synonym mstate = "char option \<times> string \<times> (nat \<times> string) list"

fun before :: "mstate \<Rightarrow> char option" where "before (p, s, cs) = p"
fun ahead :: "mstate \<Rightarrow> string" where "ahead (p, s, cs) = s"
fun groups :: "mstate \<Rightarrow> (nat \<times> string) list" where "groups (p, s, cs) = cs"

definition is_word_char :: "char \<Rightarrow> bool" where
  "is_word_char c \<longleftrightarrow> (CHR ''a'' \<le> c \<and> c \<le> CHR ''z'') \<or> (CHR ''A'' \<le> c \<and> c \<le> CHR ''Z'')
     \<or> is_digit c \<or> c = CHR ''_''"

definition word_at :: "char option \<Rightarrow> bool" where
  "word_at c = (case c of None \<Rightarrow> False | Some x \<Rightarrow> is_word_char x)"

definition head_opt :: "string \<Rightarrow> char option" where
  "head_opt s = (case s of [] \<Rightarrow> None | x # _ \<Rightarrow> Some x)"

fun assertion :: "re \<Rightarrow> mstate \<Rightarrow> bool" where
  "assertion BeginText (p, s, cs) \<longleftrightarrow> p = None"
| "assertion EndText (p, s, cs) \<longleftrightarrow> s = []"
| "assertion BeginLine (p, s, cs) \<longleftrightarrow> p = None \<or> p = Some (CHR 0x0A)"
| "assertion EndLine (p, s, cs) \<longleftrightarrow> s = [] \<or> hd s = CHR 0x0A"
| "assertion WordB (p, s, cs) \<longleftrightarrow> word_at p \<noteq> word_at (head_opt s)"
| "assertion r t \<longleftrightarrow> False"

fun eat :: "(char \<Rightarrow> bool) \<Rightarrow> mstate \<Rightarrow> mstate list" where
  "eat P (p, [], cs) = []"
| "eat P (p, x # xs, cs) = (if P x then [(Some x, xs, cs)] else [])"

definition capture :: "nat \<Rightarrow> mstate \<Rightarrow> mstate \<Rightarrow> mstate" where
  "capture k t u = (before u, ahead u, (k, take (length (ahead t) - length (ahead u)) (ahead t)) # groups u)"

section \<open>The matcher\<close>

function matches :: "re \<Rightarrow> mstate \<Rightarrow> mstate list" where
  "matches Eps t = [t]"
| "matches (Cls P) t = eat P t"
| "matches (Seq a b) t = concat (map (matches b) (matches a t))"
| "matches (Alt a b) t = matches a t @ matches b t"
| "matches (Star a) t =
     concat (map (\<lambda>u. if length (ahead u) < length (ahead t) then matches (Star a) u else [])
                 (matches a t)) @ [t]"
| "matches (LStar a) t =
     t # concat (map (\<lambda>u. if length (ahead u) < length (ahead t) then matches (LStar a) u else [])
                 (matches a t))"
| "matches (Grp k a) t = map (capture k t) (matches a t)"
| "matches BeginText t = (if assertion BeginText t then [t] else [])"
| "matches EndText t = (if assertion EndText t then [t] else [])"
| "matches BeginLine t = (if assertion BeginLine t then [t] else [])"
| "matches EndLine t = (if assertion EndLine t then [t] else [])"
| "matches WordB t = (if assertion WordB t then [t] else [])"
  by pat_completeness auto
termination
  by (relation "measures [\<lambda>(r, t). size r, \<lambda>(r, t). length (ahead t)]") auto

lemmas matches_Star = matches.simps(5)
lemmas matches_LStar = matches.simps(6)
declare matches_Star [simp del]
declare matches_LStar [simp del]

section \<open>The declarative reading\<close>

inductive Match :: "re \<Rightarrow> mstate \<Rightarrow> mstate \<Rightarrow> bool" where
  m_eps: "Match Eps t t"
| m_cls: "P x \<Longrightarrow> Match (Cls P) (p, x # xs, cs) (Some x, xs, cs)"
| m_seq: "Match a t u \<Longrightarrow> Match b u v \<Longrightarrow> Match (Seq a b) t v"
| m_alt1: "Match a t u \<Longrightarrow> Match (Alt a b) t u"
| m_alt2: "Match b t u \<Longrightarrow> Match (Alt a b) t u"
| m_star0: "Match (Star a) t t"
| m_star: "Match a t u \<Longrightarrow> length (ahead u) < length (ahead t) \<Longrightarrow> Match (Star a) u v \<Longrightarrow>
     Match (Star a) t v"
| m_lstar0: "Match (LStar a) t t"
| m_lstar: "Match a t u \<Longrightarrow> length (ahead u) < length (ahead t) \<Longrightarrow> Match (LStar a) u v \<Longrightarrow>
     Match (LStar a) t v"
| m_grp: "Match a t u \<Longrightarrow> Match (Grp k a) t (capture k t u)"
| m_assert: "assertion r t \<Longrightarrow> Match r t t"

inductive_cases Match_Eps: "Match Eps t u"
inductive_cases Match_Cls: "Match (Cls P) t u"
inductive_cases Match_Seq: "Match (Seq a b) t u"
inductive_cases Match_Alt: "Match (Alt a b) t u"
inductive_cases Match_Star: "Match (Star a) t u"
inductive_cases Match_LStar: "Match (LStar a) t u"
inductive_cases Match_Grp: "Match (Grp k a) t u"

lemmas Match_elims = Match_Eps Match_Cls Match_Seq Match_Alt Match_Star Match_LStar Match_Grp

lemma eat_iff: "u \<in> set (eat P t) \<longleftrightarrow> (\<exists>p x xs cs. t = (p, x # xs, cs) \<and> P x \<and> u = (Some x, xs, cs))"
  by (induction P t rule: eat.induct) auto

lemma assertion_simple: "assertion r t \<Longrightarrow> r \<in> {BeginText, EndText, BeginLine, EndLine, WordB}"
  by (induction r t rule: assertion.induct) auto

lemma matches_sound: "u \<in> set (matches r t) \<Longrightarrow> Match r t u"
proof (induction r t arbitrary: u rule: matches.induct)
  case (2 P t)
  then show ?case by (auto simp: eat_iff intro: m_cls)
next
  case (5 a t)
  from "5.prems" consider "u = t"
    | v where "v \<in> set (matches a t)" "length (ahead v) < length (ahead t)" "u \<in> set (matches (Star a) v)"
    by (auto simp: matches_Star [of a t] split: if_splits)
  then show ?case using "5.IH" by cases (simp_all add: m_star0, blast intro: m_star)
next
  case (6 a t)
  from "6.prems" consider "u = t"
    | v where "v \<in> set (matches a t)" "length (ahead v) < length (ahead t)" "u \<in> set (matches (LStar a) v)"
    by (auto simp: matches_LStar [of a t] split: if_splits)
  then show ?case using "6.IH" by cases (simp_all add: m_lstar0, blast intro: m_lstar)
next
  case (3 a b t)
  from "3.prems" obtain v where "v \<in> set (matches a t)" "u \<in> set (matches b v)" by auto
  with "3.IH" show ?case by (blast intro: m_seq)
next
  case (7 k a t)
  from "7.prems" obtain v where "v \<in> set (matches a t)" "u = capture k t v" by auto
  with "7.IH" show ?case by (blast intro: m_grp)
qed (auto split: if_splits intro: Match.intros)

lemma matches_assert: "assertion r t \<Longrightarrow> t \<in> set (matches r t)"
  by (induction r t rule: assertion.induct) auto

lemma matches_complete: "Match r t u \<Longrightarrow> u \<in> set (matches r t)"
proof (induction rule: Match.induct)
  case (m_star0 a t)
  then show ?case by (simp add: matches_Star [of a t])
next
  case (m_star a t u v)
  then show ?case by (auto simp: matches_Star [of a t])
next
  case (m_lstar0 a t)
  then show ?case by (simp add: matches_LStar [of a t])
next
  case (m_lstar a t u v)
  then show ?case by (auto simp: matches_LStar [of a t])
qed (auto simp: eat_iff matches_assert)

theorem matches_iff: "u \<in> set (matches r t) \<longleftrightarrow> Match r t u"
  using matches_sound matches_complete by blast

text \<open>A match only moves forward: what is ahead afterwards is a suffix of what was ahead before.\<close>

lemma Match_suffix: "Match r t u \<Longrightarrow> \<exists>w. ahead t = w @ ahead u"
proof (induction rule: Match.induct)
  case (m_seq a t u b v)
  then show ?case by (metis append.assoc)
next
  case (m_star a t u v)
  then show ?case by (metis append.assoc)
next
  case (m_lstar a t u v)
  then show ?case by (metis append.assoc)
next
  case (m_grp a t u k)
  then show ?case by (auto simp: capture_def)
qed auto

section \<open>Derived patterns\<close>

definition lit :: "string \<Rightarrow> re" where
  "lit s = foldr (\<lambda>c r. Seq (Cls (\<lambda>x. x = c)) r) s Eps"

definition opt :: "re \<Rightarrow> re" where
  "opt r = Alt r Eps"

definition plus :: "re \<Rightarrow> re" where
  "plus r = Seq r (Star r)"

text \<open>\<open>r{m}\<close>, \<open>r{m,n}\<close> and \<open>r{m,}\<close>.\<close>

fun times :: "nat \<Rightarrow> re \<Rightarrow> re" where
  "times 0 r = Eps"
| "times (Suc n) r = Seq r (times n r)"

fun upto_times :: "nat \<Rightarrow> re \<Rightarrow> re" where
  "upto_times 0 r = Eps"
| "upto_times (Suc n) r = opt (Seq r (upto_times n r))"

definition between :: "nat \<Rightarrow> nat \<Rightarrow> re \<Rightarrow> re" where
  "between m n r = Seq (times m r) (upto_times (n - m) r)"

definition at_least :: "nat \<Rightarrow> re \<Rightarrow> re" where
  "at_least m r = Seq (times m r) (Star r)"

fun seqs :: "re list \<Rightarrow> re" where
  "seqs [] = Eps"
| "seqs [r] = r"
| "seqs (r # s # rs) = Seq r (seqs (s # rs))"

fun alts :: "re list \<Rightarrow> re" where
  "alts [] = Cls (\<lambda>_. False)"
| "alts [r] = r"
| "alts (r # s # rs) = Alt r (alts (s # rs))"

section \<open>Searching\<close>

text \<open>
  \<open>find_from\<close> is the leftmost match of a pattern from a position: the text before the match (reversed),
  the match itself and the state after it. \<open>match_string\<close> is \<open>MatchString\<close>, \<open>submatch\<close> looks a group
  of the first match up as \<open>FindStringSubmatch\<close> does, and \<open>replace_matches\<close> is \<open>ReplaceAllString\<close>
  with a fixed text, for patterns that never match the empty string.
\<close>

fun find_from :: "re \<Rightarrow> char option \<Rightarrow> string \<Rightarrow> string \<Rightarrow> (string \<times> string \<times> mstate) option" where
  "find_from r p acc s =
     (case matches r (p, s, []) of
        t # _ \<Rightarrow> Some (acc, take (length s - length (ahead t)) s, t)
      | [] \<Rightarrow> (case s of [] \<Rightarrow> None | x # xs \<Rightarrow> find_from r (Some x) (x # acc) xs))"

declare find_from.simps [simp del]

definition find_first :: "re \<Rightarrow> string \<Rightarrow> (string \<times> string \<times> mstate) option" where
  "find_first r s = find_from r None [] s"

definition match_string :: "re \<Rightarrow> string \<Rightarrow> bool" where
  "match_string r s \<longleftrightarrow> find_first r s \<noteq> None"

definition submatch :: "re \<Rightarrow> string \<Rightarrow> (nat \<Rightarrow> string option) option" where
  "submatch r s = map_option (\<lambda>(_, _, t). map_of (groups t)) (find_first r s)"

function replace_from :: "re \<Rightarrow> string \<Rightarrow> char option \<Rightarrow> string \<Rightarrow> string" where
  "replace_from r new p s =
     (case find_from r p [] s of
        None \<Rightarrow> s
      | Some (pre, m, t) \<Rightarrow>
          if length (ahead t) < length s
          then rev pre @ new @ replace_from r new (before t) (ahead t)
          else s)"
  by pat_completeness auto
termination
  by (relation "measure (\<lambda>(r, new, p, s). length s)") auto

declare replace_from.simps [simp del]

definition replace_matches :: "re \<Rightarrow> string \<Rightarrow> string \<Rightarrow> string" where
  "replace_matches r new s = replace_from r new None s"

lemma all_splits_Cons:
  "(\<forall>u v. x # xs = u @ v \<longrightarrow> Q u v) \<longleftrightarrow> Q [] (x # xs) \<and> (\<forall>u v. xs = u @ v \<longrightarrow> Q (x # u) v)"
  by (auto simp: Cons_eq_append_conv)

lemma find_from_None: "find_from r p acc s = None \<longleftrightarrow>
  (\<forall>u v. s = u @ v \<longrightarrow> matches r (if u = [] then p else Some (last u), v, []) = [])"
proof (induction r p acc s rule: find_from.induct)
  case (1 r p acc s)
  show ?case
  proof (cases "matches r (p, s, [])")
    case Nil
    show ?thesis
    proof (cases s)
      case Nil
      with \<open>matches r (p, s, []) = []\<close> show ?thesis by (simp add: find_from.simps [of r p acc "[]"])
    next
      case (Cons x xs)
      have "find_from r p acc s = find_from r (Some x) (x # acc) xs"
        using \<open>matches r (p, s, []) = []\<close> Cons by (simp add: find_from.simps [of r p acc "x # xs"])
      also have "\<dots> = None \<longleftrightarrow>
          (\<forall>u v. xs = u @ v \<longrightarrow> matches r (if u = [] then Some x else Some (last u), v, []) = [])"
        using 1 [OF \<open>matches r (p, s, []) = []\<close> Cons] .
      also have "\<dots> \<longleftrightarrow>
          (\<forall>u v. s = u @ v \<longrightarrow> matches r (if u = [] then p else Some (last u), v, []) = [])"
        using \<open>matches r (p, s, []) = []\<close> Cons by (simp add: all_splits_Cons)
      finally show ?thesis .
    qed
  next
    case (Cons t ts)
    then show ?thesis by (auto simp: find_from.simps [of r p acc s] intro: exI [of _ "[]"])
  qed
qed

theorem match_string_iff:
  "match_string r s \<longleftrightarrow>
     (\<exists>u v t. s = u @ v \<and> Match r (if u = [] then None else Some (last u), v, []) t)"
proof -
  have "matches r x \<noteq> [] \<longleftrightarrow> (\<exists>t. Match r x t)" for x
  proof -
    have "matches r x \<noteq> [] \<longleftrightarrow> (\<exists>t. t \<in> set (matches r x))"
      by (metis empty_iff last_in_set list.set(1))
    then show ?thesis by (simp add: matches_iff)
  qed
  then show ?thesis
    unfolding match_string_def find_first_def find_from_None by blast
qed

section \<open>The language of a pattern without anchors and groups\<close>

inductive_set kleene :: "string set \<Rightarrow> string set" for A :: "string set" where
  kleene_Nil: "[] \<in> kleene A"
| kleene_step: "u \<in> A \<Longrightarrow> v \<in> kleene A \<Longrightarrow> u @ v \<in> kleene A"

primrec plain :: "re \<Rightarrow> bool" where
  "plain Eps \<longleftrightarrow> True"
| "plain (Cls P) \<longleftrightarrow> True"
| "plain (Seq a b) \<longleftrightarrow> plain a \<and> plain b"
| "plain (Alt a b) \<longleftrightarrow> plain a \<and> plain b"
| "plain (Star a) \<longleftrightarrow> plain a"
| "plain (LStar a) \<longleftrightarrow> False"
| "plain (Grp k a) \<longleftrightarrow> False"
| "plain BeginText \<longleftrightarrow> False"
| "plain EndText \<longleftrightarrow> False"
| "plain BeginLine \<longleftrightarrow> False"
| "plain EndLine \<longleftrightarrow> False"
| "plain WordB \<longleftrightarrow> False"

primrec lang :: "re \<Rightarrow> string set" where
  "lang Eps = {[]}"
| "lang (Cls P) = {[x] | x. P x}"
| "lang (Seq a b) = {u @ v | u v. u \<in> lang a \<and> v \<in> lang b}"
| "lang (Alt a b) = lang a \<union> lang b"
| "lang (Star a) = kleene (lang a)"
| "lang (LStar a) = kleene (lang a)"
| "lang (Grp k a) = lang a"
| "lang BeginText = {}"
| "lang EndText = {}"
| "lang BeginLine = {}"
| "lang EndLine = {}"
| "lang WordB = {}"

definition adv :: "char option \<Rightarrow> string \<Rightarrow> char option" where
  "adv p w = (if w = [] then p else Some (last w))"

lemma adv_append [simp]: "adv (adv p u) v = adv p (u @ v)"
  by (simp add: adv_def)

lemma adv_Nil [simp]: "adv p [] = p"
  by (simp add: adv_def)

lemma plain_no_assertion: "plain r \<Longrightarrow> \<not> assertion r t"
  by (auto dest: assertion_simple)

lemma Match_plain_lang:
  "Match r t u \<Longrightarrow> plain r \<Longrightarrow>
   \<exists>w \<in> lang r. ahead t = w @ ahead u \<and> before u = adv (before t) w \<and> groups u = groups t"
proof (induction rule: Match.induct)
  case (m_cls P x p xs cs)
  then show ?case by (auto simp: adv_def)
next
  case (m_seq a t u b v)
  then obtain w1 w2 where "w1 \<in> lang a" "ahead t = w1 @ ahead u" "before u = adv (before t) w1"
      "w2 \<in> lang b" "ahead u = w2 @ ahead v" "before v = adv (before u) w2"
      "groups v = groups t" by auto
  then show ?case by (intro bexI [of _ "w1 @ w2"]) auto
next
  case (m_star a t u v)
  then obtain w1 w2 where "w1 \<in> lang a" "ahead t = w1 @ ahead u" "before u = adv (before t) w1"
      "w2 \<in> lang (Star a)" "ahead u = w2 @ ahead v" "before v = adv (before u) w2"
      "groups v = groups t" by auto
  then show ?case by (intro bexI [of _ "w1 @ w2"]) (auto intro: kleene_step)
qed (auto simp: plain_no_assertion intro: kleene_Nil)

lemma lang_Match_plain: "plain r \<Longrightarrow> w \<in> lang r \<Longrightarrow> Match r (p, w @ v, cs) (adv p w, v, cs)"
proof (induction r arbitrary: w p v)
  case (Cls P)
  then show ?case by (auto simp: adv_def intro: m_cls)
next
  case (Seq a b)
  then obtain w1 w2 where w: "w = w1 @ w2" "w1 \<in> lang a" "w2 \<in> lang b" by auto
  have pl: "plain a" "plain b" using Seq.prems by simp_all
  have "Match a (p, w1 @ w2 @ v, cs) (adv p w1, w2 @ v, cs)"
    by (rule Seq.IH(1) [OF pl(1) w(2)])
  moreover have "Match b (adv p w1, w2 @ v, cs) (adv (adv p w1) w2, v, cs)"
    by (rule Seq.IH(2) [OF pl(2) w(3)])
  ultimately show ?case using w by (auto intro: m_seq)
next
  case (Star a)
  from Star.prems(2) have "w \<in> kleene (lang a)" by simp
  then show ?case
  proof (induction arbitrary: p rule: kleene.induct)
    case kleene_Nil
    then show ?case by (simp add: m_star0)
  next
    case (kleene_step u w)
    show ?case
    proof (cases "u = []")
      case True
      then show ?thesis using kleene_step by simp
    next
      case False
      have "Match a (p, u @ w @ v, cs) (adv p u, w @ v, cs)"
        using Star kleene_step by simp
      moreover have "length (ahead (adv p u, w @ v, cs)) < length (ahead (p, u @ w @ v, cs))"
        using False by simp
      moreover have "Match (Star a) (adv p u, w @ v, cs) (adv (adv p u) w, v, cs)"
        by (rule kleene_step.IH)
      ultimately have "Match (Star a) (p, u @ w @ v, cs) (adv (adv p u) w, v, cs)"
        by (rule m_star)
      then show ?thesis by simp
    qed
  qed
qed (auto intro: m_eps m_alt1 m_alt2)

text \<open>A pattern \<open>^r$\<close> accepts exactly the strings of the language of \<open>r\<close>.\<close>

definition whole :: "re \<Rightarrow> re" where
  "whole r = Seq BeginText (Seq r EndText)"

theorem match_whole: "plain r \<Longrightarrow> match_string (whole r) s \<longleftrightarrow> s \<in> lang r"
proof
  assume p: "plain r" and "match_string (whole r) s"
  then obtain u v t where s: "s = u @ v"
      and m: "Match (whole r) (if u = [] then None else Some (last u), v, []) t"
    by (auto simp: match_string_iff)
  let ?b = "if u = [] then None else Some (last u)"
  from m obtain t1 t2 where a: "Match BeginText (?b, v, []) t1" "Match r t1 t2" "Match EndText t2 t"
    by (auto simp: whole_def elim!: Match_Seq)
  from a(1) have "?b = None" "t1 = (None, v, [])" by (auto elim: Match.cases split: if_splits)
  from a(3) have "ahead t2 = []" by (cases t2) (auto elim: Match.cases)
  with Match_plain_lang [OF a(2) p] \<open>t1 = _\<close> have "v \<in> lang r" by auto
  with s \<open>?b = None\<close> show "s \<in> lang r" by (auto split: if_splits)
next
  assume p: "plain r" and "s \<in> lang r"
  from lang_Match_plain [OF this, of None "[]" "[]"]
  have "Match r (None, s, []) (adv None s, [], [])" by simp
  then have "Match (whole r) (None, s, []) (adv None s, [], [])"
    unfolding whole_def by (auto intro!: m_seq [of BeginText _ "(None, s, [])"] m_seq m_assert)
  then show "match_string (whole r) s"
    unfolding match_string_iff by (intro exI [of _ "[]"] exI [of _ s]) auto
qed

lemma match_plain:
  assumes p: "plain r"
  shows "match_string r s \<longleftrightarrow> (\<exists>u w v. s = u @ w @ v \<and> w \<in> lang r)"
proof
  assume "match_string r s"
  then obtain u v t where s: "s = u @ v"
      and m: "Match r (if u = [] then None else Some (last u), v, []) t"
    by (auto simp: match_string_iff)
  from Match_plain_lang [OF m p] s show "\<exists>u w v. s = u @ w @ v \<and> w \<in> lang r" by auto
next
  assume "\<exists>u w v. s = u @ w @ v \<and> w \<in> lang r"
  then obtain u w v where "s = u @ w @ v" "w \<in> lang r" by blast
  with lang_Match_plain [OF p] show "match_string r s" unfolding match_string_iff by metis
qed

subsection \<open>Languages of the derived patterns\<close>

lemma lang_lit [simp]: "lang (lit s) = {s}"
  by (induction s) (auto simp: lit_def)

lemma plain_lit [simp]: "plain (lit s)"
  by (induction s) (auto simp: lit_def)

lemma plain_opt [simp]: "plain (opt r) = plain r"
  by (simp add: opt_def)

lemma lang_opt [simp]: "lang (opt r) = insert [] (lang r)"
  by (auto simp: opt_def)

lemma plain_times [simp]: "plain r \<Longrightarrow> plain (times n r)"
  by (induction n) auto

lemma plain_upto_times [simp]: "plain r \<Longrightarrow> plain (upto_times n r)"
  by (induction n) auto

lemma plain_between [simp]: "plain r \<Longrightarrow> plain (between m n r)"
  by (simp add: between_def)

lemma plain_at_least [simp]: "plain r \<Longrightarrow> plain (at_least m r)"
  by (simp add: at_least_def)

lemma lang_Seq_Cls: "lang (Seq (Cls P) r) = {x # w | x w. P x \<and> w \<in> lang r}"
proof (intro set_eqI iffI)
  fix y assume "y \<in> {x # w | x w. P x \<and> w \<in> lang r}"
  then obtain x w where "y = [x] @ w" "[x] \<in> lang (Cls P)" "w \<in> lang r" by auto
  then show "y \<in> lang (Seq (Cls P) r)" unfolding lang.simps(3) by blast
qed auto

lemma lang_times_Cls: "lang (times n (Cls P)) = {w. length w = n \<and> list_all P w}"
proof (induction n)
  case (Suc n)
  have "w \<in> lang (times (Suc n) (Cls P)) \<longleftrightarrow> length w = Suc n \<and> list_all P w" for w
    by (cases w) (auto simp: Suc lang_Seq_Cls simp del: lang.simps(3))
  then show ?case by blast
qed auto

lemma lang_upto_times_Cls: "lang (upto_times n (Cls P)) = {w. length w \<le> n \<and> list_all P w}"
proof (induction n)
  case (Suc n)
  have "w \<in> lang (upto_times (Suc n) (Cls P)) \<longleftrightarrow> length w \<le> Suc n \<and> list_all P w" for w
    by (cases w) (auto simp: Suc lang_Seq_Cls simp del: lang.simps(3))
  then show ?case by blast
qed auto

lemma lang_between_Cls:
  assumes "m \<le> n"
  shows "lang (between m n (Cls P)) = {w. m \<le> length w \<and> length w \<le> n \<and> list_all P w}" (is "?L = ?R")
proof
  show "?L \<subseteq> ?R"
    using assms by (auto simp: between_def lang_times_Cls lang_upto_times_Cls)
  show "?R \<subseteq> ?L"
  proof
    fix w assume w: "w \<in> ?R"
    then have "w = take m w @ drop m w" "take m w \<in> lang (times m (Cls P))"
      "drop m w \<in> lang (upto_times (n - m) (Cls P))"
      by (auto simp: lang_times_Cls lang_upto_times_Cls list_all_iff dest: in_set_takeD in_set_dropD)
    then show "w \<in> ?L" unfolding between_def lang.simps(3) by blast
  qed
qed

lemma lang_times: "lang (times n r) = {concat ws | ws. length ws = n \<and> set ws \<subseteq> lang r}"
proof (induction n)
  case (Suc n)
  have "w \<in> lang (times (Suc n) r) \<longleftrightarrow> (\<exists>ws. w = concat ws \<and> length ws = Suc n \<and> set ws \<subseteq> lang r)" for w
  proof
    assume "w \<in> lang (times (Suc n) r)"
    then obtain u ws where "w = u @ concat ws" "u \<in> lang r" "length ws = n" "set ws \<subseteq> lang r"
      using Suc by auto
    then show "\<exists>ws. w = concat ws \<and> length ws = Suc n \<and> set ws \<subseteq> lang r"
      by (intro exI [of _ "u # ws"]) simp
  next
    assume "\<exists>ws. w = concat ws \<and> length ws = Suc n \<and> set ws \<subseteq> lang r"
    then obtain u ws where "w = u @ concat ws" "u \<in> lang r" "length ws = n" "set ws \<subseteq> lang r"
      by (auto simp: length_Suc_conv)
    moreover have "concat ws \<in> lang (times n r)" using calculation Suc by blast
    ultimately show "w \<in> lang (times (Suc n) r)" by auto
  qed
  then show ?case by blast
qed auto

lemma lang_upto_times: "lang (upto_times n r) = {concat ws | ws. length ws \<le> n \<and> set ws \<subseteq> lang r}"
proof (induction n)
  case (Suc n)
  have "w \<in> lang (upto_times (Suc n) r) \<longleftrightarrow> (\<exists>ws. w = concat ws \<and> length ws \<le> Suc n \<and> set ws \<subseteq> lang r)" for w
  proof
    assume "w \<in> lang (upto_times (Suc n) r)"
    then consider "w = []" | u ws where "w = u @ concat ws" "u \<in> lang r" "length ws \<le> n" "set ws \<subseteq> lang r"
      using Suc by auto
    then show "\<exists>ws. w = concat ws \<and> length ws \<le> Suc n \<and> set ws \<subseteq> lang r"
    proof cases
      case 1 then show ?thesis by (intro exI [of _ "[]"]) simp
    next
      case (2 u ws) then show ?thesis by (intro exI [of _ "u # ws"]) simp
    qed
  next
    assume "\<exists>ws. w = concat ws \<and> length ws \<le> Suc n \<and> set ws \<subseteq> lang r"
    then obtain ws where ws: "w = concat ws" "length ws \<le> Suc n" "set ws \<subseteq> lang r" by blast
    show "w \<in> lang (upto_times (Suc n) r)"
    proof (cases ws)
      case (Cons u vs)
      then have "concat vs \<in> lang (upto_times n r)" using ws Suc by auto
      then show ?thesis using ws Cons by auto
    qed (use ws in auto)
  qed
  then show ?case by blast
qed auto

lemma lang_between:
  assumes "m \<le> n"
  shows "lang (between m n r) = {concat ws | ws. m \<le> length ws \<and> length ws \<le> n \<and> set ws \<subseteq> lang r}" (is "?L = ?R")
proof (intro set_eqI iffI)
  fix w assume "w \<in> ?L"
  then obtain us vs where "w = concat (us @ vs)" "length us = m" "length vs \<le> n - m" "set (us @ vs) \<subseteq> lang r"
    unfolding between_def lang.simps(3) lang_times lang_upto_times by auto
  then show "w \<in> ?R" using assms by (intro CollectI exI [of _ "us @ vs"]) simp
next
  fix w assume "w \<in> ?R"
  then obtain ws where ws: "w = concat ws" "m \<le> length ws" "length ws \<le> n" "set ws \<subseteq> lang r" by blast
  have "concat (take m ws) \<in> lang (times m r)"
    unfolding lang_times using ws(2,4) by (auto intro!: exI [of _ "take m ws"] dest: in_set_takeD)
  moreover have "concat (drop m ws) \<in> lang (upto_times (n - m) r)"
    unfolding lang_upto_times using ws(3,4) by (auto intro!: exI [of _ "drop m ws"] dest: in_set_dropD)
  moreover have "w = concat (take m ws) @ concat (drop m ws)"
    unfolding ws(1) by (metis append_take_drop_id concat_append)
  ultimately show "w \<in> ?L" unfolding between_def lang.simps(3) by blast
qed

lemma kleene_Cls: "kleene {[x] | x. P x} = {w. list_all P w}"
proof -
  have "w \<in> kleene {[x] | x. P x} \<Longrightarrow> list_all P w" for w
    by (induction rule: kleene.induct) auto
  moreover have "list_all P w \<Longrightarrow> w \<in> kleene {[x] | x. P x}" for w
  proof (induction w)
    case (Cons a w)
    then have "[a] @ w \<in> kleene {[x] | x. P x}" by (intro kleene_step) auto
    then show ?case by simp
  qed (simp add: kleene_Nil)
  ultimately show ?thesis by blast
qed

theorem match_whole_between:
  "m \<le> n \<Longrightarrow> match_string (whole (between m n (Cls P))) s \<longleftrightarrow>
     m \<le> length s \<and> length s \<le> n \<and> list_all P s"
  by (simp add: match_whole lang_between_Cls)

section \<open>Searches and groups\<close>

lemma lang_Star_Cls [simp]: "lang (Star (Cls P)) = {w. list_all P w}"
  by (simp add: kleene_Cls)

lemma lang_Seq_snoc: "lang (Seq r (Cls P)) = {w @ [x] | w x. w \<in> lang r \<and> P x}"
  by auto

lemma find_from_Some:
  "find_from r p acc s = Some (pre, m, t) \<Longrightarrow>
   \<exists>u. pre = rev u @ acc \<and> s = u @ m @ ahead t \<and> t \<in> set (matches r (adv p u, m @ ahead t, []))"
proof (induction r p acc s rule: find_from.induct)
  case (1 r p acc s)
  show ?case
  proof (cases "matches r (p, s, [])")
    case Nil
    then obtain x xs where s: "s = x # xs" and f: "find_from r (Some x) (x # acc) xs = Some (pre, m, t)"
      using 1(2) by (subst (asm) find_from.simps) (auto split: list.splits)
    from 1(1) [OF Nil s f] obtain u where u: "pre = rev u @ x # acc" "xs = u @ m @ ahead t"
        "t \<in> set (matches r (adv (Some x) u, m @ ahead t, []))"
      by blast
    have "adv (Some x) u = adv p (x # u)" by (simp add: adv_def)
    with u s show ?thesis by (intro exI [of _ "x # u"]) auto
  next
    case (Cons y ys)
    then have "t = y" "pre = acc" "m = take (length s - length (ahead y)) s"
      using 1(2) by (auto simp: find_from.simps [of r p acc s])
    moreover have "Match r (p, s, []) y"
      using Cons by (simp add: matches_iff [symmetric])
    then obtain w where "s = w @ ahead y" using Match_suffix by fastforce
    ultimately show ?thesis using Cons by (intro exI [of _ "[]"]) auto
  qed
qed

lemma replace_from_props:
  "length new = 0 \<Longrightarrow> length (replace_from r new p s) \<le> length s \<and> set (replace_from r new p s) \<subseteq> set s"
proof (induction r new p s rule: replace_from.induct)
  case (1 r new p s)
  show ?case
  proof (cases "find_from r p [] s")
    case None
    then show ?thesis by (subst replace_from.simps, subst (2) replace_from.simps) simp
  next
    case (Some a)
    obtain pre m t where a: "a = (pre, m, t)" by (metis prod.exhaust)
    with Some have f: "find_from r p [] s = Some (pre, m, t)" by simp
    from find_from_Some [OF f] obtain u where u: "pre = rev u" "s = u @ m @ ahead t" by auto
    show ?thesis
    proof (cases "length (ahead t) < length s")
      case True
      from 1(1) [OF f refl refl True 1(2)]
      have "length (replace_from r new (before t) (ahead t)) \<le> length (ahead t) \<and>
        set (replace_from r new (before t) (ahead t)) \<subseteq> set (ahead t)" .
      moreover have "replace_from r new p s = u @ replace_from r new (before t) (ahead t)"
        using f True u 1(2) by (subst replace_from.simps) simp
      ultimately show ?thesis using u by auto
    next
      case False
      then have "replace_from r new p s = s" using f by (subst replace_from.simps) simp
      then show ?thesis by simp
    qed
  qed
qed

text \<open>A pattern that starts with a literal byte leaves text without that byte alone.\<close>

lemma replace_matches_absent:
  assumes "c \<notin> set s"
  shows "replace_matches (Seq (Cls (\<lambda>x. x = c)) r) new s = s"
proof -
  have no: "c \<notin> set t \<Longrightarrow> matches (Seq (Cls (\<lambda>x. x = c)) r) (p, t, []) = []" for p t
    by (cases t) auto
  have "find_from (Seq (Cls (\<lambda>x. x = c)) r) None [] s = None"
    unfolding find_from_None using no assms by auto
  then show ?thesis unfolding replace_matches_def by (subst replace_from.simps) simp
qed

text \<open>Matching a group around a pattern without anchors, and such a pattern itself.\<close>

lemma Match_plainD:
  assumes "Match r (p, s, cs) u" "plain r"
  obtains w v where "w \<in> lang r" "s = w @ v" "u = (adv p w, v, cs)"
  using Match_plain_lang [OF assms] by (cases u) auto

lemma Match_GrpD:
  assumes "Match (Grp k r) (p, s, cs) u" "plain r"
  obtains w v where "w \<in> lang r" "s = w @ v" "u = (adv p w, v, (k, w) # cs)"
proof -
  from assms(1) obtain u' where u: "Match r (p, s, cs) u'" "u = capture k (p, s, cs) u'"
    by (auto elim: Match_Grp)
  from u(1) assms(2) obtain w v where "w \<in> lang r" "s = w @ v" "u' = (adv p w, v, cs)"
    by (rule Match_plainD)
  with u(2) that show ?thesis by (simp add: capture_def)
qed

lemma Match_GrpI: "plain r \<Longrightarrow> w \<in> lang r \<Longrightarrow> Match (Grp k r) (p, w @ v, cs) (adv p w, v, (k, w) # cs)"
  using m_grp [OF lang_Match_plain [of r w p v cs], of k] by (simp add: capture_def)

lemma Match_BeginTextD: "Match BeginText t u \<Longrightarrow> u = t \<and> before t = None"
  by (cases t) (auto elim: Match.cases)

lemma Match_EndTextD: "Match EndText t u \<Longrightarrow> u = t \<and> ahead t = []"
  by (cases t) (auto elim: Match.cases)

lemma submatch_Match:
  assumes "submatch r s = Some m"
  obtains u v t where "s = u @ v" "Match r (adv None u, v, []) t" "m = map_of (groups t)"
proof -
  from assms obtain pre w t where f: "find_from r None [] s = Some (pre, w, t)" "m = map_of (groups t)"
    by (auto simp: submatch_def find_first_def)
  from find_from_Some [OF f(1)] obtain u where
    "s = u @ w @ ahead t" "Match r (adv None u, w @ ahead t, []) t"
    unfolding matches_iff by blast
  with f(2) that show ?thesis by blast
qed

lemma submatch_None: "submatch r s = None \<longleftrightarrow> \<not> match_string r s"
  unfolding submatch_def match_string_def by (cases "find_first r s") simp_all

lemma match_stringI: "Match r (adv None u, v, []) t \<Longrightarrow> match_string r (u @ v)"
  unfolding match_string_iff adv_def by blast

text \<open>\<open>needs P r\<close>: every match of \<open>r\<close> consumes a character with \<open>P\<close>.\<close>

primrec needs :: "(char \<Rightarrow> bool) \<Rightarrow> re \<Rightarrow> bool" where
  "needs P Eps \<longleftrightarrow> False"
| "needs P (Cls Q) \<longleftrightarrow> (\<forall>x. Q x \<longrightarrow> P x)"
| "needs P (Seq a b) \<longleftrightarrow> needs P a \<or> needs P b"
| "needs P (Alt a b) \<longleftrightarrow> needs P a \<and> needs P b"
| "needs P (Star a) \<longleftrightarrow> False"
| "needs P (LStar a) \<longleftrightarrow> False"
| "needs P (Grp k a) \<longleftrightarrow> needs P a"
| "needs P BeginText \<longleftrightarrow> False"
| "needs P EndText \<longleftrightarrow> False"
| "needs P BeginLine \<longleftrightarrow> False"
| "needs P EndLine \<longleftrightarrow> False"
| "needs P WordB \<longleftrightarrow> False"

lemma needs_Match: "Match r t u \<Longrightarrow> needs P r \<Longrightarrow> \<exists>c \<in> set (ahead t). P c"
proof (induction rule: Match.induct)
  case (m_seq a t u b v)
  then show ?case using Match_suffix [OF m_seq.hyps(1)] by auto
next
  case (m_assert r t)
  then show ?case by (auto dest: assertion_simple)
qed auto

lemma needs_match_string: "match_string r s \<Longrightarrow> needs P r \<Longrightarrow> \<exists>c \<in> set s. P c"
  by (fastforce simp: match_string_iff dest: needs_Match)

section \<open>Case folding and white space\<close>

text \<open>
  Case-insensitive patterns: besides the other case of a letter, Go's folding also lets U+017F
  stand for \<open>s\<close> and U+212A for \<open>k\<close>.
\<close>

definition long_s :: re where "long_s = lit [CHR 0xC5, CHR 0xBF]"
definition kelvin :: re where "kelvin = lit [CHR 0xE2, CHR 0x84, CHR 0xAA]"

definition ci_char :: "char \<Rightarrow> re" where
  "ci_char c =
     (let both = Cls (\<lambda>x. lower_char x = lower_char c) in
      if lower_char c = CHR ''s'' then Alt both long_s
      else if lower_char c = CHR ''k'' then Alt both kelvin else both)"

definition ci_lit :: "string \<Rightarrow> re" where
  "ci_lit s = foldr (\<lambda>c r. Seq (ci_char c) r) s Eps"

definition is_letter :: "char \<Rightarrow> bool" where
  "is_letter c \<longleftrightarrow> (CHR ''A'' \<le> c \<and> c \<le> CHR ''Z'') \<or> (CHR ''a'' \<le> c \<and> c \<le> CHR ''z'')"

definition ci_class :: "(char \<Rightarrow> bool) \<Rightarrow> re" where
  "ci_class P = alts [Cls (\<lambda>c. is_letter c \<or> P c), long_s, kelvin]"

definition re_space :: re where
  "re_space = Cls (\<lambda>c. c \<in> set [CHR 0x09, CHR 0x0A, CHR 0x0C, CHR 0x0D, CHR 0x20])"

section \<open>Replacing with a template\<close>

text \<open>
  \<open>ReplaceAllString\<close> with a template: a text with references to groups, where a group that took no part
  in the match is empty.
\<close>

datatype part = Text string | Ref nat

fun expand :: "part list \<Rightarrow> (nat \<Rightarrow> string option) \<Rightarrow> string" where
  "expand [] g = []"
| "expand (Text s # ps) g = s @ expand ps g"
| "expand (Ref k # ps) g = (case g k of None \<Rightarrow> [] | Some s \<Rightarrow> s) @ expand ps g"

function replace_template :: "re \<Rightarrow> part list \<Rightarrow> char option \<Rightarrow> string \<Rightarrow> string" where
  "replace_template r tmpl p s =
     (case find_from r p [] s of
        None \<Rightarrow> s
      | Some (pre, m, t) \<Rightarrow>
          if length (ahead t) < length s
          then rev pre @ expand tmpl (map_of (groups t)) @ replace_template r tmpl (before t) (ahead t)
          else s)"
  by pat_completeness auto
termination
  by (relation "measure (\<lambda>(r, tmpl, p, s). length s)") auto

declare replace_template.simps [simp del]

end
