(* ===== verification/Providers.thy ===== *)
theory Providers
  imports Regex
begin

text \<open>
  The package \<open>providers\<close>: the data every hosting adapter exchanges with the rest of the program
  (\<open>src/providers/provider.go\<close>), the registry of adapter factories (\<open>src/providers/registry.go\<close>) and
  the registry of plan validators (\<open>src/providers/validators.go\<close>). The two package-level maps are
  explicit states. A factory and a validator set may be nil; the locale \<open>type_registry\<close> states what
  both registries promise and is interpreted on both.
\<close>

section \<open>Data\<close>

definition DefaultSSHPort :: int where "DefaultSSHPort = 22"
definition DatabaseMySQL :: string where "DatabaseMySQL = ''mysql''"
definition DatabasePostgres :: string where "DatabasePostgres = ''postgresql''"

record ProviderConfig =
  Alias :: string
  PType :: string
  Host :: string
  Port :: int
  User :: string
  Props :: "string gomap option"

record ProviderStatus =
  SSHConnected :: bool
  CLIInstalled :: bool
  LatencyMS :: int

record Subdomain =
  Domain :: string
  SType :: string
  NodeVersion :: string

text \<open>
  The interface every adapter implements, as the record of its methods. A method reads and changes
  the world \<open>'w\<close> (the panel behind the adapter); a cancelled context shows as an error it returns.
\<close>

record 'w HostingProvider =
  Name :: string
  CreateSubdomain :: "string \<Rightarrow> string \<Rightarrow> 'w \<Rightarrow> goerr option \<times> 'w"
  SetupSSL :: "string \<Rightarrow> 'w \<Rightarrow> goerr option \<times> 'w"
  CreateDatabase :: "string \<Rightarrow> string \<Rightarrow> 'w \<Rightarrow> (string \<times> string) res \<times> 'w"
  RestartNodeApp :: "string \<Rightarrow> 'w \<Rightarrow> goerr option \<times> 'w"
  GetDeployPath :: "string \<Rightarrow> string"
  GetLogPath :: "string \<Rightarrow> string"
  TailLog :: "string \<Rightarrow> int \<Rightarrow> 'w \<Rightarrow> string res \<times> 'w"
  CheckStatus :: "'w \<Rightarrow> ProviderStatus option \<times> goerr option \<times> 'w"
  ListSubdomains :: "'w \<Rightarrow> Subdomain list res \<times> 'w"
  RemoveSubdomain :: "string \<Rightarrow> 'w \<Rightarrow> goerr option \<times> 'w"
  RemoveDatabase :: "string \<Rightarrow> string \<Rightarrow> 'w \<Rightarrow> goerr option \<times> 'w"
  RemoveSSL :: "string \<Rightarrow> 'w \<Rightarrow> goerr option \<times> 'w"

section \<open>The factory registry\<close>

type_synonym 'p factory = "ProviderConfig \<Rightarrow> 'p res"

definition Register ::
  "string \<Rightarrow> 'p factory option \<Rightarrow> 'p factory gomap \<Rightarrow> goerr option \<times> 'p factory gomap" where
  "Register providerType factory registry =
     (let providerType = trim_space providerType in
      if providerType = [] then (Some [ProviderE ErrInvalidProviderConfig], registry)
      else case factory of
        None \<Rightarrow> (Some [ProviderE ErrInvalidProviderConfig], registry)
      | Some f \<Rightarrow>
          if map_of registry providerType \<noteq> None
          then (Some [ProviderE ErrProviderAlreadyRegistered], registry)
          else (None, mput providerType f registry))"

definition Unregister :: "string \<Rightarrow> 'p factory gomap \<Rightarrow> bool \<times> 'p factory gomap" where
  "Unregister providerType registry =
     (if map_of registry providerType = None then (False, registry)
      else (True, mdel providerType registry))"

definition Names :: "'p factory gomap \<Rightarrow> string list" where
  "Names registry = sort (map fst registry)"

definition alias_char :: "char \<Rightarrow> bool" where
  "alias_char c \<longleftrightarrow> (CHR ''a'' \<le> c \<and> c \<le> CHR ''z'') \<or> is_digit c \<or> c = CHR ''-''"

definition aliasPattern :: re where
  "aliasPattern = whole (between 1 32 (Cls alias_char))"

definition validateConfig :: "ProviderConfig \<Rightarrow> ProviderConfig res" where
  "validateConfig cfg0 =
     (let cfg = cfg0\<lparr>Alias := trim_space (Alias cfg0), Host := trim_space (Host cfg0),
                     User := trim_space (User cfg0)\<rparr> in
      if Alias cfg = [] then Inl [ProviderE ErrInvalidProviderConfig]
      else if \<not> match_string aliasPattern (Alias cfg) then Inl [ProviderE ErrInvalidProviderConfig]
      else if Host cfg = [] then Inl [ProviderE ErrInvalidProviderConfig]
      else if User cfg = [] then Inl [ProviderE ErrInvalidProviderConfig]
      else
        let cfg = (if Port cfg = 0 then cfg\<lparr>Port := DefaultSSHPort\<rparr> else cfg) in
        if Port cfg < 1 \<or> Port cfg > 65535 then Inl [ProviderE ErrInvalidProviderConfig]
        else Inr (if Props cfg = None then cfg\<lparr>Props := Some []\<rparr> else cfg))"

definition New :: "'p factory gomap \<Rightarrow> ProviderConfig \<Rightarrow> 'p res" where
  "New registry cfg0 =
     (let cfg = cfg0\<lparr>PType := trim_space (PType cfg0)\<rparr> in
      if PType cfg = [] then Inl [ProviderE ErrInvalidProviderConfig]
      else case map_of registry (PType cfg) of
        None \<Rightarrow> Inl [ProviderE ErrUnknownProvider]
      | Some factory \<Rightarrow>
          (case validateConfig cfg of
             Inl e \<Rightarrow> Inl e
           | Inr normalised \<Rightarrow> factory normalised))"

section \<open>The validator registry\<close>

record PlanValidators =
  ValidateDomain :: "(string \<Rightarrow> goerr option) option"
  ValidateNodeVersion :: "(string \<Rightarrow> goerr option) option"
  ValidateDBName :: "(string \<Rightarrow> goerr option) option"

definition IsComplete :: "PlanValidators \<Rightarrow> bool" where
  "IsComplete v \<longleftrightarrow>
     \<not> Option.is_none (ValidateDomain v) \<and> \<not> Option.is_none (ValidateNodeVersion v)
     \<and> \<not> Option.is_none (ValidateDBName v)"

definition RegisterPlanValidators ::
  "string \<Rightarrow> PlanValidators \<Rightarrow> PlanValidators gomap \<Rightarrow> goerr option \<times> PlanValidators gomap" where
  "RegisterPlanValidators providerType s validators =
     (let providerType = trim_space providerType in
      if providerType = [] then (Some [ProviderE ErrInvalidProviderConfig], validators)
      else if \<not> IsComplete s then (Some [ValidatorE ErrInvalidValidatorSet], validators)
      else if \<not> Option.is_none (map_of validators providerType)
      then (Some [ProviderE ErrProviderAlreadyRegistered], validators)
      else (None, mput providerType s validators))"

definition UnregisterPlanValidators ::
  "string \<Rightarrow> PlanValidators gomap \<Rightarrow> bool \<times> PlanValidators gomap" where
  "UnregisterPlanValidators providerType validators =
     (if Option.is_none (map_of validators providerType) then (False, validators)
      else (True, mdel providerType validators))"

definition PlanValidatorsFor :: "PlanValidators gomap \<Rightarrow> string \<Rightarrow> PlanValidators res" where
  "PlanValidatorsFor validators providerType =
     (let providerType = trim_space providerType in
      if providerType = [] then Inl [ProviderE ErrInvalidProviderConfig]
      else case map_of validators providerType of
        None \<Rightarrow> Inl [ValidatorE ErrUnknownValidator]
      | Some s \<Rightarrow> Inr s)"

section \<open>The contract of both registries\<close>

locale type_registry =
  fixes register :: "string \<Rightarrow> 'v \<Rightarrow> 'r \<Rightarrow> goerr option \<times> 'r"
    and unregister :: "string \<Rightarrow> 'r \<Rightarrow> bool \<times> 'r"
    and entry :: "'r \<Rightarrow> string \<Rightarrow> 'c option"
    and content :: "'v \<Rightarrow> 'c option"
  assumes register_ok:
      "\<lbrakk>trim_space t \<noteq> []; content v = Some c; entry r (trim_space t) = None\<rbrakk> \<Longrightarrow>
       fst (register t v r) = None \<and> entry (snd (register t v r)) = (entry r)(trim_space t \<mapsto> c)"
    and register_fail:
      "trim_space t = [] \<or> content v = None \<or> entry r (trim_space t) \<noteq> None \<Longrightarrow>
       fst (register t v r) \<noteq> None \<and> snd (register t v r) = r"
    and unregister_entry:
      "entry (snd (unregister t r)) = (entry r)(t := None)"
    and unregister_result: "fst (unregister t r) \<longleftrightarrow> entry r t \<noteq> None"
begin

lemma register_cases:
  "entry (snd (register t v r)) =
     (if trim_space t \<noteq> [] \<and> content v \<noteq> None \<and> entry r (trim_space t) = None
      then (entry r)(trim_space t := content v) else entry r)"
  using register_ok [of t v _ r] register_fail [of t v r] by (cases "content v") auto

text \<open>The first registration under a name wins: no later one shadows it.\<close>

lemma register_keeps: "entry r k = Some c \<Longrightarrow> entry (snd (register t v r)) k = Some c"
  by (auto simp: register_cases)

lemma registers_keep:
  "entry r k = Some c \<Longrightarrow> entry (fold (\<lambda>(t, v) r. snd (register t v r)) xs r) k = Some c"
  by (induction xs arbitrary: r) (auto simp: register_keeps)

lemma first_wins:
  assumes "fst (register t v r) = None"
  shows "entry (fold (\<lambda>(t, v) r. snd (register t v r)) xs (snd (register t v r))) (trim_space t) = content v"
proof -
  have "\<not> (trim_space t = [] \<or> content v = None \<or> entry r (trim_space t) \<noteq> None)"
    using assms register_fail by blast
  then show ?thesis using registers_keep by (auto simp: register_cases)
qed

lemma register_unregister:
  assumes "fst (register t v r) = None"
  shows "entry (snd (unregister (trim_space t) (snd (register t v r)))) = entry r"
proof -
  have "entry r (trim_space t) = None"
    using assms register_fail by blast
  then show ?thesis by (auto simp: unregister_entry register_cases)
qed

end

interpretation factories: type_registry Register Unregister map_of id
proof
  fix t c and v :: "'p factory option" and r :: "'p factory gomap"
  assume "trim_space t \<noteq> []" "id v = Some c" "map_of r (trim_space t) = None"
  then show "fst (Register t v r) = None \<and>
      map_of (snd (Register t v r)) = (map_of r)(trim_space t \<mapsto> c)"
    by (simp add: Register_def)
next
  fix t and v :: "'p factory option" and r :: "'p factory gomap"
  show "trim_space t = [] \<or> id v = None \<or> map_of r (trim_space t) \<noteq> None \<Longrightarrow>
      fst (Register t v r) \<noteq> None \<and> snd (Register t v r) = r"
    by (auto simp: Register_def Let_def split: option.splits)
qed (auto simp: Unregister_def fun_eq_iff)

definition complete_set :: "PlanValidators \<Rightarrow> PlanValidators option" where
  "complete_set v = (if IsComplete v then Some v else None)"

interpretation validators: type_registry RegisterPlanValidators UnregisterPlanValidators map_of complete_set
  by unfold_locales
    (auto simp: RegisterPlanValidators_def UnregisterPlanValidators_def complete_set_def Let_def
      fun_eq_iff Option.is_none_def split: if_splits)

section \<open>Properties\<close>

definition wf_config :: "ProviderConfig \<Rightarrow> bool" where
  "wf_config cfg \<longleftrightarrow> 1 \<le> length (Alias cfg) \<and> length (Alias cfg) \<le> 32 \<and> list_all alias_char (Alias cfg)
     \<and> Host cfg \<noteq> [] \<and> User cfg \<noteq> [] \<and> 1 \<le> Port cfg \<and> Port cfg \<le> 65535 \<and> Props cfg \<noteq> None"

lemma aliasPattern_iff:
  "match_string aliasPattern s \<longleftrightarrow> 1 \<le> length s \<and> length s \<le> 32 \<and> list_all alias_char s"
  by (simp add: aliasPattern_def match_whole_between)

lemma validateConfig_wf: "validateConfig cfg = Inr cfg' \<Longrightarrow> wf_config cfg' \<and> PType cfg' = PType cfg"
  by (auto simp: validateConfig_def Let_def wf_config_def aliasPattern_iff DefaultSSHPort_def
      split: if_splits)

lemma validateConfig_err: "validateConfig cfg = Inl e \<Longrightarrow> e = [ProviderE ErrInvalidProviderConfig]"
  by (auto simp: validateConfig_def Let_def split: if_splits)

text \<open>
  The first registration under a provider type wins: after a successful \<open>Register\<close> no sequence of
  later registrations, under whatever names, replaces the factory that \<open>New\<close> will look up.
\<close>

theorem first_registration_wins:
  assumes "fst (Register t (Some f) reg) = None"
  shows "map_of (fold (\<lambda>(t, v) r. snd (Register t v r)) later (snd (Register t (Some f) reg))) (trim_space t) = Some f"
  using factories.first_wins [OF assms] by simp

theorem first_registration_wins_witness:
  "map_of (fold (\<lambda>(t, v) r. snd (Register t v r)) [(''smallhost'', Some (\<lambda>_. Inr (2::nat)))]
     (snd (Register '' smallhost'' (Some (\<lambda>_. Inr 1)) []))) (trim_space '' smallhost'') = Some (\<lambda>_. Inr 1)"
  by (rule first_registration_wins) (simp add: Register_def trim_space_def strip_seqs.simps space_seqs_def)

text \<open>
  C29. A provider is only ever built from a well-formed configuration: when \<open>New\<close> succeeds, the factory
  registered under the trimmed type was called with a normalised configuration whose alias matches the
  alias pattern, whose host and user are not empty, whose port is in 1..65535 and whose properties are
  not nil.
\<close>

theorem New_wellformed:
  assumes "New reg cfg = Inr p"
  shows "\<exists>f cfg'. map_of reg (trim_space (PType cfg)) = Some f \<and>
    validateConfig (cfg\<lparr>PType := trim_space (PType cfg)\<rparr>) = Inr cfg' \<and> wf_config cfg' \<and> f cfg' = Inr p"
  using assms validateConfig_wf by (auto simp: New_def Let_def split: if_splits option.splits sum.splits)

definition example_config :: ProviderConfig where
  "example_config = \<lparr>Alias = ''main'', PType = ''smallhost'', Host = ''s1.small.pl'', Port = 0,
     User = ''adam'', Props = None\<rparr>"

definition port_factory :: "int factory" where
  "port_factory c = Inr (Port c)"

lemma example_config_validates:
  "validateConfig example_config = Inr (example_config\<lparr>Port := 22, Props := Some []\<rparr>)"
  by (simp add: validateConfig_def example_config_def aliasPattern_iff alias_char_def is_digit_def
      less_eq_char_def DefaultSSHPort_def trim_space_def strip_seqs.simps space_seqs_def)

theorem New_wellformed_witness:
  "\<exists>f cfg'. map_of [(''smallhost'', port_factory)] (trim_space (PType example_config)) = Some f \<and>
    validateConfig (example_config\<lparr>PType := trim_space (PType example_config)\<rparr>) = Inr cfg' \<and>
    wf_config cfg' \<and> f cfg' = Inr 22"
proof (rule New_wellformed)
  have "example_config\<lparr>PType := ''smallhost''\<rparr> = example_config" by (simp add: example_config_def)
  moreover have "trim_space (PType example_config) = ''smallhost''"
    by (simp add: example_config_def trim_space_def strip_seqs.simps space_seqs_def)
  ultimately show "New [(''smallhost'', port_factory)] example_config = Inr 22"
    by (simp add: New_def example_config_validates Let_def port_factory_def) (simp add: example_config_def)
qed

text \<open>
  A profile with an unknown type is reported as such even when other fields are wrong as well: the
  registry lookup runs before the field checks.
\<close>

lemma New_unknown_first:
  "trim_space (PType cfg) \<noteq> [] \<Longrightarrow> map_of reg (trim_space (PType cfg)) = None \<Longrightarrow>
   New reg cfg = Inl [ProviderE ErrUnknownProvider]"
  by (simp add: New_def Let_def)

end
