(* ===== verification/World.thy ===== *)
theory World
  imports Regex
begin

text \<open>
  What the stateful packages share: JSON documents and the file system.

  A file holds raw bytes (\<open>Blob\<close>) or the text of a JSON document (\<open>Doc\<close>); \<open>encoding/json\<close> is modelled
  from the document on: how a Go value is laid out as a document and how a document is read back into
  a struct (member names compared without case, missing members and null leave the zero value, unknown
  members are ignored, a value of the wrong type is an error). An object lists its members once each.

  The world scripts the outcome of every system call (\<open>outcomes\<close>: the next calls succeed or fail; when
  the script is used up they succeed), the random bytes and the clock, so a statement about all worlds
  is one about every pattern of faults. \<open>past\<close> records the whole file system after every change, which
  is what a crash at that moment leaves behind.
\<close>

section \<open>JSON documents\<close>

datatype json =
    JNull | JBool bool | JNum int | JFrac string | JStr string
  | JArr "json list" | JObj "(string \<times> json) list"

text \<open>The member a struct field is read from: the last one whose name is the tag up to case.\<close>

definition jget :: "string \<Rightarrow> (string \<times> json) list \<Rightarrow> json" where
  "jget name kvs =
     (case filter (\<lambda>kv. to_lower (fst kv) = to_lower name) kvs of
        [] \<Rightarrow> JNull
      | hits \<Rightarrow> snd (last hits))"

text \<open>Reading a field; \<open>None\<close> is \<open>json.UnmarshalTypeError\<close>.\<close>

fun jstring :: "json \<Rightarrow> string option" where
  "jstring (JStr s) = Some s"
| "jstring JNull = Some []"
| "jstring _ = None"

fun jint :: "json \<Rightarrow> int option" where
  "jint (JNum n) = (if in_int64 n then Some n else None)"
| "jint JNull = Some 0"
| "jint _ = None"

fun jbool :: "json \<Rightarrow> bool option" where
  "jbool (JBool b) = Some b"
| "jbool JNull = Some False"
| "jbool _ = None"

text \<open>A slice: null is the nil slice.\<close>

fun jlist :: "(json \<Rightarrow> 'a option) \<Rightarrow> json \<Rightarrow> 'a list option" where
  "jlist f (JArr xs) = those (map f xs)"
| "jlist f JNull = Some []"
| "jlist f _ = None"

text \<open>A \<open>map[string]string\<close>.\<close>

fun jstrmap :: "json \<Rightarrow> string gomap option" where
  "jstrmap (JObj kvs) = map_option (zip (map fst kvs)) (those (map (jstring \<circ> snd) kvs))"
| "jstrmap JNull = Some []"
| "jstrmap _ = None"

text \<open>A \<open>*T\<close>: null is the nil pointer.\<close>

fun jptr :: "(json \<Rightarrow> 'a option) \<Rightarrow> json \<Rightarrow> 'a option option" where
  "jptr f JNull = Some None"
| "jptr f j = map_option Some (f j)"

text \<open>The members of a struct; null leaves the zero value, anything else but an object is an error.\<close>

fun jmembers :: "json \<Rightarrow> (string \<times> json) list option" where
  "jmembers (JObj kvs) = Some kvs"
| "jmembers JNull = Some []"
| "jmembers _ = None"

text \<open>\<open>omitempty\<close>: the member is left out for a zero value.\<close>

definition omit :: "bool \<Rightarrow> string \<Rightarrow> json \<Rightarrow> (string \<times> json) list" where
  "omit is_zero name j = (if is_zero then [] else [(name, j)])"

lemma jget_Nil [simp]: "jget n [] = JNull"
  by (simp add: jget_def)

lemma jget_Cons:
  "jget n ((k, v) # kvs) =
     (if to_lower k = to_lower n \<and> list_all (\<lambda>kv. to_lower (fst kv) \<noteq> to_lower n) kvs then v else jget n kvs)"
proof (cases "filter (\<lambda>kv. to_lower (fst kv) = to_lower n) kvs")
  case Nil
  then have "list_all (\<lambda>kv. to_lower (fst kv) \<noteq> to_lower n) kvs"
    by (auto simp: filter_empty_conv list_all_iff)
  with Nil show ?thesis by (auto simp: jget_def)
next
  case (Cons a as)
  then have "a \<in> set (filter (\<lambda>kv. to_lower (fst kv) = to_lower n) kvs)" by simp
  then have "a \<in> set kvs \<and> to_lower (fst a) = to_lower n" by simp
  then have "\<not> list_all (\<lambda>kv. to_lower (fst kv) \<noteq> to_lower n) kvs"
    by (auto simp: list_all_iff)
  with Cons show ?thesis by (auto simp: jget_def)
qed

lemma jget_append:
  "jget n (xs @ ys) = (if list_all (\<lambda>kv. to_lower (fst kv) \<noteq> to_lower n) ys then jget n xs else jget n ys)"
  by (induction xs) (auto simp: jget_Cons list_all_iff jget_def filter_empty_conv split: list.splits)

lemma jget_omit: "jget n (omit e k v) = (if \<not> e \<and> to_lower k = to_lower n then v else JNull)"
  by (simp add: omit_def jget_Cons)

lemma omit_keys: "list_all P (omit e k v) \<longleftrightarrow> e \<or> P (k, v)"
  by (simp add: omit_def)

lemmas jget_simps = jget_Cons jget_append jget_omit omit_keys

lemma jlist_map [simp]: "(\<And>x. x \<in> set xs \<Longrightarrow> f (g x) = Some x) \<Longrightarrow> jlist f (JArr (map g xs)) = Some xs"
  by (induction xs) auto

lemma jstrmap_encode: "jstrmap (JObj (map (\<lambda>(k, v). (k, JStr v)) m)) = Some m"
proof -
  let ?kvs = "map (\<lambda>(k, v). (k, JStr v)) m"
  have "those (map (jstring \<circ> snd) ?kvs) = Some (map snd m)" "map fst ?kvs = map fst m"
    by (induction m) auto
  then show ?thesis unfolding jstrmap.simps by (simp only: option.map zip_map_fst_snd)
qed

section \<open>Strings in JSON\<close>

text \<open>
  \<open>json.Marshal\<close> replaces every byte that does not start a well-formed UTF-8 sequence by U+FFFD.
  \<open>utf8_len\<close> is the length of the well-formed sequence at the head of a string, 0 if there is none.
\<close>

definition byte_in :: "nat \<Rightarrow> nat \<Rightarrow> char \<Rightarrow> bool" where
  "byte_in lo hi c \<longleftrightarrow> lo \<le> of_char c \<and> (of_char c :: nat) \<le> hi"

definition cont :: "char \<Rightarrow> bool" where "cont c \<longleftrightarrow> byte_in 0x80 0xBF c"

fun utf8_len :: "string \<Rightarrow> nat" where
  "utf8_len [] = 0"
| "utf8_len (a # s) =
     (if byte_in 0 0x7F a then 1
      else case s of
        [] \<Rightarrow> 0
      | b # t \<Rightarrow>
          if byte_in 0xC2 0xDF a then (if cont b then 2 else 0)
          else (case t of
            [] \<Rightarrow> 0
          | c # u \<Rightarrow>
              if (a = CHR 0xE0 \<and> byte_in 0xA0 0xBF b \<or> (byte_in 0xE1 0xEC a \<or> byte_in 0xEE 0xEF a) \<and> cont b
                  \<or> a = CHR 0xED \<and> byte_in 0x80 0x9F b) \<and> cont c then 3
              else (case u of
                [] \<Rightarrow> 0
              | d # _ \<Rightarrow>
                  if (a = CHR 0xF0 \<and> byte_in 0x90 0xBF b \<or> byte_in 0xF1 0xF3 a \<and> cont b
                      \<or> a = CHR 0xF4 \<and> byte_in 0x80 0x8F b) \<and> cont c \<and> cont d then 4 else 0)))"

function utf8_fix :: "string \<Rightarrow> string" where
  "utf8_fix [] = []"
| "utf8_fix (c # s) =
     (let n = utf8_len (c # s) in
      if n = 0 then [CHR 0xEF, CHR 0xBF, CHR 0xBD] @ utf8_fix s
      else take n (c # s) @ utf8_fix (drop n (c # s)))"
  by pat_completeness auto
termination
  by (relation "measure length") auto

definition utf8_ok :: "string \<Rightarrow> bool" where "utf8_ok s \<longleftrightarrow> utf8_fix s = s"

lemma utf8_ascii: "list_all (byte_in 0 0x7F) s \<Longrightarrow> utf8_ok s"
  unfolding utf8_ok_def by (induction s) (auto simp del: utf8_len.simps simp: utf8_len.simps(2) Let_def)

definition jstr :: "string \<Rightarrow> json" where "jstr s = JStr (utf8_fix s)"

lemma jstring_jstr [simp]: "utf8_ok s \<Longrightarrow> jstring (jstr s) = Some s"
  by (simp add: jstr_def utf8_ok_def)

definition jmap :: "string gomap \<Rightarrow> json" where
  "jmap m = JObj (map (\<lambda>(k, v). (utf8_fix k, jstr v)) m)"

lemma jstrmap_jmap:
  assumes "list_all (\<lambda>(k, v). utf8_ok k \<and> utf8_ok v) m"
  shows "jstrmap (jmap m) = Some m"
proof -
  have "map (\<lambda>(k, v). (utf8_fix k, jstr v)) m = map (\<lambda>(k, v). (k, JStr v)) m"
    using assms by (auto simp: list_all_iff utf8_ok_def jstr_def)
  then show ?thesis unfolding jmap_def by (simp only: jstrmap_encode)
qed

section \<open>Times\<close>

text \<open>
  A \<open>time.Time\<close> that is only stored and shown is its RFC 3339 text. \<open>rfc3339\<close> is the syntax that
  \<open>UnmarshalJSON\<close> accepts: the calendar ranges, an optional fraction and \<open>Z\<close> or a numeric offset.
\<close>

type_synonym time_text = string

definition zero_time :: time_text where "zero_time = ''0001-01-01T00:00:00Z''"

definition two_digits :: "string \<Rightarrow> nat option" where
  "two_digits s = (if length s = 2 then parse_nat s else None)"

definition in_range :: "string \<Rightarrow> nat \<Rightarrow> nat \<Rightarrow> bool" where
  "in_range s lo hi = (case two_digits s of None \<Rightarrow> False | Some n \<Rightarrow> lo \<le> n \<and> n \<le> hi)"

definition is_leap :: "nat \<Rightarrow> bool" where
  "is_leap y \<longleftrightarrow> 4 dvd y \<and> (\<not> 100 dvd y \<or> 400 dvd y)"

definition days_in :: "nat \<Rightarrow> nat \<Rightarrow> nat" where
  "days_in m y = (if m = 2 then (if is_leap y then 29 else 28)
                  else if m \<in> set [4, 6, 9, 11] then 30 else 31)"

definition valid_zone :: "string \<Rightarrow> bool" where
  "valid_zone z \<longleftrightarrow> z = ''Z'' \<or>
     (length z = 6 \<and> hd z \<in> set ''+-'' \<and> in_range (take 2 (drop 1 z)) 0 24 \<and> z ! 3 = CHR '':''
      \<and> in_range (drop 4 z) 0 60)"

definition valid_tail :: "string \<Rightarrow> bool" where
  "valid_tail r \<longleftrightarrow>
     (case r of
        c # d # cs \<Rightarrow>
          if c \<in> set ''.,'' \<and> is_digit d then valid_zone (dropWhile is_digit cs) else valid_zone r
      | _ \<Rightarrow> valid_zone r)"

text \<open>The hour may have one digit.\<close>

definition hour_rest :: "string \<Rightarrow> string option" where
  "hour_rest r =
     (case r of
        c # d # cs \<Rightarrow>
          if is_digit c \<and> is_digit d then (if in_range [c, d] 0 23 then Some cs else None)
          else if is_digit c then Some (d # cs) else None
      | _ \<Rightarrow> None)"

definition valid_clock :: "string \<Rightarrow> bool" where
  "valid_clock r \<longleftrightarrow>
     (case hour_rest r of
        None \<Rightarrow> False
      | Some m \<Rightarrow>
          length m \<ge> 7 \<and> m ! 0 = CHR '':'' \<and> in_range (take 2 (drop 1 m)) 0 59 \<and> m ! 3 = CHR '':''
          \<and> in_range (take 2 (drop 4 m)) 0 59 \<and> valid_tail (drop 6 m))"

definition rfc3339 :: "string \<Rightarrow> bool" where
  "rfc3339 s \<longleftrightarrow>
     length s \<ge> 12
     \<and> (case (parse_nat (take 4 s), two_digits (take 2 (drop 5 s))) of
          (Some y, Some m) \<Rightarrow> 1 \<le> m \<and> m \<le> 12 \<and> in_range (take 2 (drop 8 s)) 1 (days_in m y)
        | _ \<Rightarrow> False)
     \<and> s ! 4 = CHR ''-'' \<and> s ! 7 = CHR ''-'' \<and> s ! 10 = CHR ''T''
     \<and> valid_clock (drop 11 s)"

lemma rfc3339_examples:
  "rfc3339 zero_time" "rfc3339 ''2024-02-29T9:05:59,5+02:00''" "\<not> rfc3339 ''2026-02-29T09:05:59Z''"
  by (simp_all add: rfc3339_def zero_time_def parse_nat_def two_digits_def in_range_def valid_clock_def
      hour_rest_def valid_tail_def valid_zone_def days_in_def is_leap_def digits_val_def digit_val_def
      is_digit_def less_eq_char_def)

fun jtime :: "json \<Rightarrow> time_text option" where
  "jtime (JStr s) = (if rfc3339 s then Some s else None)"
| "jtime JNull = Some zero_time"
| "jtime _ = None"

section \<open>The file system\<close>

datatype content = Blob string | Doc json

record World =
  files :: "string \<Rightarrow> content option"
  outcomes :: "bool list"
  rnds :: "string list"
  pid :: int
  clock :: "nat \<Rightarrow> time_text"
  ticks :: nat
  past :: "(string \<Rightarrow> content option) list"

definition sys :: "'z World_scheme \<Rightarrow> bool \<times> 'z World_scheme" where
  "sys w = (case outcomes w of [] \<Rightarrow> (True, w) | b # bs \<Rightarrow> (b, w\<lparr>outcomes := bs\<rparr>))"

definition set_file :: "string \<Rightarrow> content option \<Rightarrow> 'z World_scheme \<Rightarrow> 'z World_scheme" where
  "set_file path c w =
     (let f = (files w)(path := c) in w\<lparr>files := f, past := past w @ [f]\<rparr>)"

definition utc_now :: "'z World_scheme \<Rightarrow> time_text \<times> 'z World_scheme" where
  "utc_now w = (clock w (ticks w), w\<lparr>ticks := Suc (ticks w)\<rparr>)"

text \<open>\<open>io.ReadFull(rand.Reader, _)\<close> followed by \<open>hex.EncodeToString\<close>.\<close>

definition rand_hex :: "'z World_scheme \<Rightarrow> string option \<times> 'z World_scheme" where
  "rand_hex w = (case rnds w of [] \<Rightarrow> (None, w) | r # rs \<Rightarrow> (Some r, w\<lparr>rnds := rs\<rparr>))"

datatype readout = NotExist | ReadFail | Read content

definition os_ReadFile :: "string \<Rightarrow> 'z World_scheme \<Rightarrow> readout \<times> 'z World_scheme" where
  "os_ReadFile path w =
     (case sys w of (ok, w) \<Rightarrow>
        (if \<not> ok then ReadFail else case files w path of None \<Rightarrow> NotExist | Some c \<Rightarrow> Read c, w))"

text \<open>
  \<open>os.OpenFile\<close> with \<open>O_CREATE|O_EXCL\<close>, and \<open>file.Write\<close>; a failed write leaves the file empty. The empty path names no
  file: creating it or renaming to it is \<open>ENOENT\<close>.
\<close>

definition os_create_excl :: "string \<Rightarrow> 'z World_scheme \<Rightarrow> bool \<times> 'z World_scheme" where
  "os_create_excl path w =
     (case sys w of (ok, w) \<Rightarrow>
        if \<not> ok \<or> path = [] \<or> files w path \<noteq> None then (False, w) else (True, set_file path (Some (Blob [])) w))"

definition os_write :: "string \<Rightarrow> content \<Rightarrow> 'z World_scheme \<Rightarrow> bool \<times> 'z World_scheme" where
  "os_write path c w =
     (case sys w of (ok, w) \<Rightarrow> if \<not> ok then (False, w) else (True, set_file path (Some c) w))"

definition os_rename :: "string \<Rightarrow> string \<Rightarrow> 'z World_scheme \<Rightarrow> bool \<times> 'z World_scheme" where
  "os_rename old new w =
     (case sys w of (ok, w) \<Rightarrow>
        if \<not> ok \<or> new = [] \<or> files w old = None then (False, w)
        else let f = (files w)(new := files w old, old := None)
             in (True, w\<lparr>files := f, past := past w @ [f]\<rparr>))"

datatype removal = Removed | RemoveMissing | RemoveFail

definition os_remove :: "string \<Rightarrow> 'z World_scheme \<Rightarrow> removal \<times> 'z World_scheme" where
  "os_remove path w =
     (case sys w of (ok, w) \<Rightarrow>
        if \<not> ok then (RemoveFail, w)
        else if files w path = None then (RemoveMissing, w)
        else (Removed, set_file path None w))"

section \<open>What a path can hold along the way\<close>

text \<open>
  \<open>evolves p A w w'\<close>: from \<open>w\<close> to \<open>w'\<close>, at every moment, the path \<open>p\<close> holds one of the contents \<open>A\<close>.
\<close>

definition evolves :: "string \<Rightarrow> content option set \<Rightarrow> 'z World_scheme \<Rightarrow> 'z World_scheme \<Rightarrow> bool" where
  "evolves p A w w' \<longleftrightarrow>
     (\<exists>new. past w' = past w @ new \<and> (\<forall>f \<in> set new. f p \<in> A)) \<and> (files w p \<in> A \<longrightarrow> files w' p \<in> A)"

lemma evolves_refl [simp]: "evolves p A w w"
  by (simp add: evolves_def)

lemma evolves_trans: "evolves p A w v \<Longrightarrow> evolves p A v u \<Longrightarrow> evolves p A w u"
  by (auto simp: evolves_def ball_Un)

lemma evolves_mono: "evolves p A w v \<Longrightarrow> A \<subseteq> B \<Longrightarrow> files w p \<in> A \<Longrightarrow> evolves p B w v"
  by (auto simp: evolves_def)

lemma sys_simps [simp]:
  "files (snd (sys w)) = files w" "past (snd (sys w)) = past w" "rnds (snd (sys w)) = rnds w"
  "pid (snd (sys w)) = pid w" "clock (snd (sys w)) = clock w" "ticks (snd (sys w)) = ticks w"
  by (simp_all add: sys_def split: list.splits)

lemma sysD: "sys w = (b, w') \<Longrightarrow> files w' = files w \<and> past w' = past w \<and> rnds w' = rnds w
    \<and> pid w' = pid w \<and> clock w' = clock w \<and> ticks w' = ticks w"
  using sys_simps [of w] by simp

lemma sys_no_faults [simp]: "outcomes w = [] \<Longrightarrow> sys w = (True, w)"
  by (simp add: sys_def)

lemma evolves_sys [simp]: "evolves p A w (snd (sys w))"
  by (simp add: evolves_def)

lemma evolves_set_file: "q \<noteq> p \<or> c \<in> A \<Longrightarrow> files w p \<in> A \<Longrightarrow> evolves p A w (set_file q c w)"
  by (auto simp: evolves_def set_file_def Let_def)

text \<open>No call on another path touches \<open>p\<close>; a rename onto \<open>p\<close> swaps the renamed content in.\<close>

lemma evolves_other:
  assumes "q \<noteq> p" "files w p \<in> A"
  shows "evolves p A w (snd (os_create_excl q w))" "evolves p A w (snd (os_write q c w))"
    "evolves p A w (snd (os_remove q w))"
  using assms
  by (auto simp: os_create_excl_def os_write_def os_remove_def evolves_def set_file_def Let_def
      sys_def split: list.splits prod.splits)

lemma evolves_rename:
  assumes "files w old \<in> A" "old \<noteq> p" "files w p \<in> A"
  shows "evolves p A w (snd (os_rename old p w))"
  using assms by (auto simp: os_rename_def evolves_def Let_def sys_def split: list.splits prod.splits)

lemma evolves_read [simp]: "evolves p A w (snd (os_ReadFile q w))"
  by (auto simp: os_ReadFile_def evolves_def sys_def split: list.splits)

lemma evolves_now_rand [simp]: "evolves p A w (snd (utc_now w))" "evolves p A w (snd (rand_hex w))"
  by (auto simp: utc_now_def rand_hex_def evolves_def split: list.splits)

lemma evolves_files: "evolves p A w w' \<Longrightarrow> files w p \<in> A \<Longrightarrow> files w' p \<in> A"
  by (auto simp: evolves_def)

lemma os_write_files: "os_write p c w = (True, w') \<Longrightarrow> files w' p = Some c"
  by (auto simp: os_write_def set_file_def Let_def split: prod.splits if_splits)

lemma os_rename_files: "os_rename old new w = (True, w') \<Longrightarrow> old \<noteq> new \<Longrightarrow> files w' new = files w old"
  by (auto simp: os_rename_def Let_def split: prod.splits if_splits dest!: sysD)

end
