(* ===== verification/Cleanup_Stack.thy ===== *)
theory Cleanup_Stack
  imports Providers World
begin

text \<open>
  The rollback stack of the provisioning wizard: its data (\<open>src/wizard/types.go\<close>), the stack, the step
  validation and the dispatch of a step to the panel or to GitHub (\<open>src/wizard/rollback.go\<close>), and its
  snapshot on disk (\<open>src/wizard/pending_cleanups.go\<close>).

  Every operation runs in an environment: the context and the world behind the seams. The persistence
  seam and the step runner are functions over the environment, as in the code; \<open>persister\<close> is the one
  the program installs. The last section takes \<open>Push\<close> apart at its lock boundaries.
\<close>

section \<open>Data (types.go)\<close>

definition ResourceSubdomain :: string where "ResourceSubdomain = ''subdomain''"
definition ResourceSSL :: string where "ResourceSSL = ''ssl''"
definition ResourceDatabase :: string where "ResourceDatabase = ''database''"
definition ResourceGitHubRepo :: string where "ResourceGitHubRepo = ''github_repo''"
definition ResourceGitHubDeployKey :: string where "ResourceGitHubDeployKey = ''github_deploy_key''"
definition ResourceGitHubActionsSecret :: string where
  "ResourceGitHubActionsSecret = ''github_actions_secret''"
definition ResourceGitHubWorkflowFile :: string where
  "ResourceGitHubWorkflowFile = ''github_workflow_file''"

lemmas kind_defs = ResourceSubdomain_def ResourceSSL_def ResourceDatabase_def ResourceGitHubRepo_def
  ResourceGitHubDeployKey_def ResourceGitHubActionsSecret_def ResourceGitHubWorkflowFile_def

record CleanupStep =
  StepName :: string
  Kind :: string
  Params :: "string gomap"
  CreatedAt :: time_text

definition zero_step :: CleanupStep where
  "zero_step = \<lparr>StepName = [], Kind = [], Params = [], CreatedAt = zero_time\<rparr>"

record CleanupResult =
  Step :: CleanupStep
  Err :: "goerr option"

section \<open>Step validation (rollback.go)\<close>

definition secretShapePattern :: re where
  "secretShapePattern =
     alts [Seq (ci_lit ''ghp_'') (ci_class is_digit),
           Seq (ci_lit ''ghs_'') (ci_class is_digit),
           Seq (ci_lit ''github_pat_'') (ci_class is_digit),
           seqs [WordB, ci_lit ''sk-'', ci_class is_digit],
           seqs [ci_lit ''BEGIN '', Star (ci_class (\<lambda>c. c = CHR '' '')), ci_lit ''PRIVATE KEY''],
           seqs [ci_lit ''password'', Star re_space, lit ''=''],
           seqs [ci_lit ''passwd'', Star re_space, lit ''='']]"

definition isSecretShaped :: "string \<Rightarrow> bool" where
  "isSecretShaped v \<longleftrightarrow> (if v = [] then False else match_string secretShapePattern v)"

definition supported_kinds :: "string list" where
  "supported_kinds = [ResourceSubdomain, ResourceSSL, ResourceDatabase, ResourceGitHubRepo,
     ResourceGitHubDeployKey, ResourceGitHubActionsSecret, ResourceGitHubWorkflowFile]"

definition validateStep :: "CleanupStep \<Rightarrow> goerr option" where
  "validateStep step =
     (let p = mget (Params step); bad = Some [WizardE ErrInvalidStep] in
      if StepName step = [] then bad
      else if Kind step \<notin> set supported_kinds then bad
      else if list_ex (\<lambda>(k, v). isSecretShaped v) (Params step) then Some [WizardE ErrSecretInCleanup]
      else if Kind step = ResourceSubdomain \<or> Kind step = ResourceSSL then
        (if p ''domain'' = [] then bad else None)
      else if Kind step = ResourceDatabase then
        (if p ''dbName'' = [] \<or> p ''dbKind'' = [] then bad else None)
      else if Kind step = ResourceGitHubRepo then
        (if p ''owner'' = [] \<or> p ''repo'' = [] then bad else None)
      else if Kind step = ResourceGitHubDeployKey then
        (if p ''owner'' = [] \<or> p ''repo'' = [] \<or> p ''keyID'' = [] then bad
         else if parse_int64 (p ''keyID'') = None then bad else None)
      else if Kind step = ResourceGitHubActionsSecret then
        (if p ''owner'' = [] \<or> p ''repo'' = [] \<or> p ''name'' = [] then bad else None)
      else if Kind step = ResourceGitHubWorkflowFile then
        (if p ''owner'' = [] \<or> p ''repo'' = [] \<or> p ''path'' = [] \<or> p ''branch'' = [] then bad else None)
      else None)"

section \<open>The stack (rollback.go)\<close>

type_synonym 'w env = "ctx \<times> 'w"

definition check_ctx :: "'w env \<Rightarrow> goerr option \<times> 'w env" where
  "check_ctx e = (ctx_err (fst e), (ctx_tick (fst e), snd e))"

type_synonym 'w PersistFunc = "CleanupStep list \<Rightarrow> 'w env \<Rightarrow> goerr option \<times> 'w env"
type_synonym 'w StepRunner = "CleanupStep \<Rightarrow> 'w env \<Rightarrow> goerr option \<times> 'w env"

record 'w Stack =
  steps :: "CleanupStep list"
  persist :: "'w PersistFunc option"
  wizardID :: string

definition NewStack :: "'w PersistFunc option \<Rightarrow> string \<Rightarrow> 'w Stack" where
  "NewStack p wid = \<lparr>steps = [], persist = p, wizardID = wid\<rparr>"

definition Len :: "'w Stack \<Rightarrow> nat" where "Len s = length (steps s)"

definition Push :: "CleanupStep \<Rightarrow> 'w Stack \<Rightarrow> 'w env \<Rightarrow> goerr option \<times> 'w Stack \<times> 'w env" where
  "Push step s e =
     (case check_ctx e of
        (Some err, e) \<Rightarrow> (Some err, s, e)
      | (None, e) \<Rightarrow>
     (case validateStep step of
        Some err \<Rightarrow> (Some err, s, e)
      | None \<Rightarrow>
          let s = s\<lparr>steps := steps s @ [step]\<rparr> in
          (case persist s of
             None \<Rightarrow> (None, s, e)
           | Some f \<Rightarrow>
               (case f (steps s) e of
                  (None, e) \<Rightarrow> (None, s, e)
                | (Some err, e) \<Rightarrow> (Some err, s\<lparr>steps := butlast (steps s)\<rparr>, e)))))"

definition Pop :: "'w Stack \<Rightarrow> 'w env \<Rightarrow> (CleanupStep \<times> bool \<times> goerr option) \<times> 'w Stack \<times> 'w env" where
  "Pop s e =
     (case check_ctx e of
        (Some err, e) \<Rightarrow> ((zero_step, False, Some err), s, e)
      | (None, e) \<Rightarrow>
          if steps s = [] then ((zero_step, False, None), s, e)
          else
            let top = last (steps s); s = s\<lparr>steps := butlast (steps s)\<rparr> in
            (case persist s of
               None \<Rightarrow> ((top, True, None), s, e)
             | Some f \<Rightarrow> (case f (steps s) e of (err, e) \<Rightarrow> ((top, True, err), s, e))))"

fun first_error :: "('a \<Rightarrow> goerr option) \<Rightarrow> 'a list \<Rightarrow> goerr option" where
  "first_error f [] = None"
| "first_error f (x # xs) = (case f x of Some e \<Rightarrow> Some e | None \<Rightarrow> first_error f xs)"

definition LoadSnapshot :: "CleanupStep list \<Rightarrow> 'w Stack \<Rightarrow> goerr option \<times> 'w Stack" where
  "LoadSnapshot xs s =
     (case first_error validateStep xs of
        Some err \<Rightarrow> (Some err, s)
      | None \<Rightarrow> (None, s\<lparr>steps := xs\<rparr>))"

lemma Pop_steps: "Pop s e = ((x, True, err), s', e') \<Longrightarrow> steps s = steps s' @ [x]"
  by (auto simp: Pop_def Let_def split: prod.splits option.splits if_splits)

text \<open>\<open>errors.Join\<close> of a list of errors: \<open>errors.Is\<close> looks through all of them.\<close>

definition errors_join :: "goerr list \<Rightarrow> goerr option" where
  "errors_join es = (if es = [] then None else Some (concat es))"

function rollback_loop ::
  "'w StepRunner \<Rightarrow> 'w Stack \<Rightarrow> 'w env \<Rightarrow> CleanupResult list \<Rightarrow> goerr list \<Rightarrow>
   (CleanupResult list \<times> goerr option) \<times> 'w Stack \<times> 'w env" where
  "rollback_loop run s e results errs =
     (case check_ctx e of
        (Some err, e) \<Rightarrow> ((results, errors_join (errs @ [err])), s, e)
      | (None, e) \<Rightarrow>
     (case Pop s e of
        ((step, ok, Some popErr), s, e) \<Rightarrow> ((results, errors_join (errs @ [popErr])), s, e)
      | ((step, ok, None), s', e) \<Rightarrow>
          if \<not> ok then ((results, errors_join errs), s', e)
          else
            (case run step e of (runErr, e) \<Rightarrow>
               rollback_loop run s' e (results @ [\<lparr>Step = step, Err = runErr\<rparr>])
                 (case runErr of None \<Rightarrow> errs | Some er \<Rightarrow> errs @ [er]))))"
  by pat_completeness auto
termination
  by (relation "measure (\<lambda>(run, s, e, results, errs). length (steps s))")
    (auto, metis Pop_steps length_append_singleton lessI)

declare rollback_loop.simps [simp del]

definition Rollback ::
  "'w StepRunner option \<Rightarrow> 'w Stack \<Rightarrow> 'w env \<Rightarrow> (CleanupResult list \<times> goerr option) \<times> 'w Stack \<times> 'w env" where
  "Rollback run s e =
     (case run of
        None \<Rightarrow> (([], Some [WizardE ErrInvalidStep]), s, e)
      | Some r \<Rightarrow> rollback_loop r s e [] [])"

record 'w GitHubCleanupRunner =
  RemoveGitHubRepo :: "string \<Rightarrow> string \<Rightarrow> 'w \<Rightarrow> goerr option \<times> 'w"
  RemoveGitHubDeployKey :: "string \<Rightarrow> string \<Rightarrow> int \<Rightarrow> 'w \<Rightarrow> goerr option \<times> 'w"
  RemoveGitHubActionsSecret :: "string \<Rightarrow> string \<Rightarrow> string \<Rightarrow> 'w \<Rightarrow> goerr option \<times> 'w"
  RemoveGitHubWorkflowFile :: "string \<Rightarrow> string \<Rightarrow> string \<Rightarrow> string \<Rightarrow> 'w \<Rightarrow> goerr option \<times> 'w"

definition in_env :: "('w \<Rightarrow> goerr option \<times> 'w) \<Rightarrow> 'w env \<Rightarrow> goerr option \<times> 'w env" where
  "in_env f e = (case f (snd e) of (r, w) \<Rightarrow> (r, (fst e, w)))"

definition MakeStepRunnerWithGitHub ::
  "'w HostingProvider option \<Rightarrow> 'w GitHubCleanupRunner option \<Rightarrow> 'w StepRunner" where
  "MakeStepRunnerWithGitHub provider gh step e =
     (let p = mget (Params step);
          panel = (\<lambda>f. case provider of
            None \<Rightarrow> (Some [WizardE ErrInvalidStep], e) | Some pr \<Rightarrow> in_env (f pr) e);
          github = (\<lambda>f. case gh of
            None \<Rightarrow> (Some [WizardE ErrUnsupportedKind], e) | Some g \<Rightarrow> in_env (f g) e)
      in
      if Kind step = ResourceSubdomain then panel (\<lambda>pr. RemoveSubdomain pr (p ''domain''))
      else if Kind step = ResourceSSL then panel (\<lambda>pr. RemoveSSL pr (p ''domain''))
      else if Kind step = ResourceDatabase then panel (\<lambda>pr. RemoveDatabase pr (p ''dbKind'') (p ''dbName''))
      else if Kind step = ResourceGitHubRepo then github (\<lambda>g. RemoveGitHubRepo g (p ''owner'') (p ''repo''))
      else if Kind step = ResourceGitHubDeployKey then
        (if gh = None then (Some [WizardE ErrUnsupportedKind], e)
         else (case parse_int64 (p ''keyID'') of
                 None \<Rightarrow> (Some (wrap (WizardE ErrInvalidStep) [ParseIntErr]), e)
               | Some keyID \<Rightarrow> github (\<lambda>g. RemoveGitHubDeployKey g (p ''owner'') (p ''repo'') keyID)))
      else if Kind step = ResourceGitHubActionsSecret then
        github (\<lambda>g. RemoveGitHubActionsSecret g (p ''owner'') (p ''repo'') (p ''name''))
      else if Kind step = ResourceGitHubWorkflowFile then
        github (\<lambda>g. RemoveGitHubWorkflowFile g (p ''owner'') (p ''repo'') (p ''path'') (p ''branch''))
      else (Some [WizardE ErrUnsupportedKind], e))"

definition MakeStepRunner :: "'w HostingProvider option \<Rightarrow> 'w StepRunner" where
  "MakeStepRunner provider = MakeStepRunnerWithGitHub provider None"

section \<open>The snapshot on disk (pending_cleanups.go)\<close>

definition PendingSchemaVersion :: int where "PendingSchemaVersion = 1"

record PendingCleanups =
  SchemaVersion :: int
  WizardID :: string
  PendingAlias :: string
  UpdatedAt :: time_text
  Steps :: "CleanupStep list"

definition step_json :: "CleanupStep \<Rightarrow> json" where
  "step_json s = JObj ([(''name'', jstr (StepName s)), (''kind'', jstr (Kind s))]
     @ omit (Params s = []) ''params'' (jmap (Params s)) @ [(''created_at'', JStr (CreatedAt s))])"

definition json_step :: "json \<Rightarrow> CleanupStep option" where
  "json_step j =
     (case jmembers j of None \<Rightarrow> None | Some m \<Rightarrow>
        (case (jstring (jget ''name'' m), jstring (jget ''kind'' m), jstrmap (jget ''params'' m),
               jtime (jget ''created_at'' m)) of
           (Some n, Some k, Some p, Some t) \<Rightarrow> Some \<lparr>StepName = n, Kind = k, Params = p, CreatedAt = t\<rparr>
         | _ \<Rightarrow> None))"

definition pending_json :: "PendingCleanups \<Rightarrow> json" where
  "pending_json s = JObj ([(''schema_version'', JNum (SchemaVersion s))]
     @ omit (WizardID s = []) ''wizard_id'' (jstr (WizardID s))
     @ omit (PendingAlias s = []) ''profile_alias'' (jstr (PendingAlias s))
     @ [(''updated_at'', JStr (UpdatedAt s)), (''steps'', JArr (map step_json (Steps s)))])"

definition json_pending :: "json \<Rightarrow> PendingCleanups option" where
  "json_pending j =
     (case jmembers j of None \<Rightarrow> None | Some m \<Rightarrow>
        (case (jint (jget ''schema_version'' m), jstring (jget ''wizard_id'' m),
               jstring (jget ''profile_alias'' m), jtime (jget ''updated_at'' m),
               jlist json_step (jget ''steps'' m)) of
           (Some v, Some w, Some a, Some t, Some st) \<Rightarrow>
             Some \<lparr>SchemaVersion = v, WizardID = w, PendingAlias = a, UpdatedAt = t, Steps = st\<rparr>
         | _ \<Rightarrow> None))"

definition LoadPending :: "string \<Rightarrow> 'z World_scheme \<Rightarrow> PendingCleanups option res \<times> 'z World_scheme" where
  "LoadPending path w =
     (case os_ReadFile path w of
        (NotExist, w) \<Rightarrow> (Inr None, w)
      | (ReadFail, w) \<Rightarrow> (Inl (wrap (WizardE ErrCorruptedSnapshot) [OSErr]), w)
      | (Read (Blob b), w) \<Rightarrow> (Inl [WizardE ErrCorruptedSnapshot], w)
      | (Read (Doc j), w) \<Rightarrow>
          (case json_pending j of
             None \<Rightarrow> (Inl [WizardE ErrCorruptedSnapshot], w)
           | Some snap \<Rightarrow>
               if SchemaVersion snap \<le> 0 then (Inl [WizardE ErrCorruptedSnapshot], w)
               else if SchemaVersion snap > PendingSchemaVersion
               then (Inl [WizardE ErrPendingSchemaMismatch], w)
               else (case first_error validateStep (Steps snap) of
                       Some err \<Rightarrow> (Inl (wrap (WizardE ErrCorruptedSnapshot) err), w)
                     | None \<Rightarrow> (Inr (Some snap), w))))"

definition pendingTempPath :: "string \<Rightarrow> 'z World_scheme \<Rightarrow> string res \<times> 'z World_scheme" where
  "pendingTempPath path w =
     (case rand_hex w of
        (None, w) \<Rightarrow> (Inl [OSErr], w)
      | (Some hex, w) \<Rightarrow> (Inr (path @ ''.tmp.'' @ itoa (pid w) @ ''.'' @ hex), w))"

definition writePendingTemp :: "string \<Rightarrow> content \<Rightarrow> 'z World_scheme \<Rightarrow> goerr option \<times> 'z World_scheme" where
  "writePendingTemp path raw w =
     (case os_create_excl path w of
        (False, w) \<Rightarrow> (Some [OSErr], w)
      | (True, w) \<Rightarrow>
     (case os_write path raw w of
        (False, w) \<Rightarrow> (Some [OSErr], w)
      | (True, w) \<Rightarrow> (case sys w of (ok, w) \<Rightarrow> (if ok then None else Some [OSErr], w))))"

definition fsyncDir :: "'z World_scheme \<Rightarrow> goerr option \<times> 'z World_scheme" where
  "fsyncDir w =
     (case sys w of
        (False, w) \<Rightarrow> (Some [OSErr], w)
      | (True, w) \<Rightarrow> (case sys w of (ok, w) \<Rightarrow> (if ok then None else Some [OSErr], w)))"

text \<open>The second half of \<open>SavePending\<close>: the temporary file, its rename and the directory.\<close>

definition replace_file :: "string \<Rightarrow> content \<Rightarrow> 'z World_scheme \<Rightarrow> goerr option \<times> 'z World_scheme" where
  "replace_file path raw w =
     (case pendingTempPath path w of
        (Inl err, w) \<Rightarrow> (Some err, w)
      | (Inr tmpPath, w) \<Rightarrow>
     (case writePendingTemp tmpPath raw w of
        (Some err, w) \<Rightarrow> (Some err, w)
      | (None, w) \<Rightarrow>
     (case os_rename tmpPath path w of
        (False, w) \<Rightarrow> (Some [OSErr], snd (os_remove tmpPath w))
      | (True, w) \<Rightarrow> fsyncDir w)))"

definition SavePending ::
  "string \<Rightarrow> PendingCleanups option \<Rightarrow> 'z World_scheme env \<Rightarrow> goerr option \<times> 'z World_scheme env" where
  "SavePending path snap0 e =
     (case check_ctx e of
        (Some err, e) \<Rightarrow> (Some err, e)
      | (None, e) \<Rightarrow>
     (case snap0 of
        None \<Rightarrow> (Some [WizardE ErrCorruptedSnapshot], e)
      | Some snap \<Rightarrow>
          let snap = (if SchemaVersion snap = 0 then snap\<lparr>SchemaVersion := PendingSchemaVersion\<rparr> else snap) in
          if SchemaVersion snap > PendingSchemaVersion then (Some [WizardE ErrPendingSchemaMismatch], e)
          else
            (case first_error validateStep (Steps snap) of
               Some err \<Rightarrow> (Some err, e)
             | None \<Rightarrow>
                 let (snap, w) = (if UpdatedAt snap = zero_time
                    then (case utc_now (snd e) of (t, w) \<Rightarrow> (snap\<lparr>UpdatedAt := t\<rparr>, w)) else (snap, snd e)) in
                 (case sys w of
                    (False, w) \<Rightarrow> (Some [OSErr], (fst e, w))
                  | (True, w) \<Rightarrow>
                      (case replace_file path (Doc (pending_json snap)) w of (r, w) \<Rightarrow> (r, (fst e, w)))))))"

definition RemovePending :: "string \<Rightarrow> 'z World_scheme \<Rightarrow> goerr option \<times> 'z World_scheme" where
  "RemovePending path w =
     (case os_remove path w of
        (RemoveFail, w) \<Rightarrow> (Some [OSErr], w)
      | (_, w) \<Rightarrow> (None, w))"

definition NewFilePersisterWithProfile :: "string \<Rightarrow> string \<Rightarrow> string \<Rightarrow> 'z World_scheme PersistFunc" where
  "NewFilePersisterWithProfile path wid profileAlias xs e =
     (if xs = [] then in_env (RemovePending path) e
      else
        (case utc_now (snd e) of (t, w) \<Rightarrow>
           SavePending path
             (Some \<lparr>SchemaVersion = PendingSchemaVersion, WizardID = wid, PendingAlias = profileAlias,
                    UpdatedAt = t, Steps = xs\<rparr>) (fst e, w)))"

definition NewFilePersister :: "string \<Rightarrow> string \<Rightarrow> 'z World_scheme PersistFunc" where
  "NewFilePersister path wid = NewFilePersisterWithProfile path wid []"

section \<open>The snapshot as a document\<close>

definition encodable :: "CleanupStep \<Rightarrow> bool" where
  "encodable s \<longleftrightarrow> utf8_ok (StepName s) \<and> utf8_ok (Kind s) \<and> rfc3339 (CreatedAt s)
     \<and> list_all (\<lambda>(k, v). utf8_ok k \<and> utf8_ok v) (Params s)"

lemma json_step_json: "encodable s \<Longrightarrow> json_step (step_json s) = Some s"
  by (simp add: json_step_def step_json_def encodable_def jget_simps to_lower_def lower_char_def
      less_eq_char_def jstrmap_jmap)

lemma jlist_steps: "list_all encodable xs \<Longrightarrow> jlist json_step (JArr (map step_json xs)) = Some xs"
  by (rule jlist_map) (auto simp: list_all_iff json_step_json)

lemma json_pending_json:
  assumes "in_int64 (SchemaVersion s)" "utf8_ok (WizardID s)" "utf8_ok (PendingAlias s)"
    "rfc3339 (UpdatedAt s)" "list_all encodable (Steps s)"
  shows "json_pending (pending_json s) = Some s"
  using assms jlist_steps [of "Steps s"]
  by (simp add: json_pending_def pending_json_def jget_simps to_lower_def lower_char_def less_eq_char_def)

section \<open>Replacing the snapshot file\<close>

lemma pendingTempPath_not_path:
  "pendingTempPath path w = (Inr tmp, w') \<Longrightarrow> tmp \<noteq> path"
  by (auto simp: pendingTempPath_def split: option.splits prod.splits)

lemma pendingTempPath_files: "files (snd (pendingTempPath path w)) = files w"
  "evolves p A w (snd (pendingTempPath path w))"
  by (auto simp: pendingTempPath_def rand_hex_def evolves_def split: option.splits prod.splits list.splits)

lemma writePendingTemp_ok: "writePendingTemp tmp raw w = (None, w') \<Longrightarrow> files w' tmp = Some raw"
  unfolding writePendingTemp_def
  by (auto split: prod.splits bool.splits if_splits dest!: os_write_files sysD)

lemma writePendingTemp_evolves:
  assumes "tmp \<noteq> p" "files w p \<in> A"
  shows "evolves p A w (snd (writePendingTemp tmp raw w))"
proof -
  obtain b w1 where 1: "os_create_excl tmp w = (b, w1)" by fastforce
  have e1: "evolves p A w w1" using evolves_other(1) [OF assms] 1 by (metis snd_conv)
  obtain b2 w2 where 2: "os_write tmp raw w1 = (b2, w2)" by fastforce
  have "evolves p A w1 w2"
    using evolves_other(2) [OF assms(1) evolves_files [OF e1 assms(2)]] 2 by (metis snd_conv)
  with e1 have e2: "evolves p A w w2" by (rule evolves_trans)
  have e3: "evolves p A w (snd (sys w2))" using e2 evolves_sys by (rule evolves_trans)
  show ?thesis
    using e1 e2 e3 1 2 by (auto simp: writePendingTemp_def split: prod.splits bool.splits)
qed

lemma fsyncDir_files: "files (snd (fsyncDir w)) = files w" "past (snd (fsyncDir w)) = past w"
  unfolding fsyncDir_def by (auto split: prod.splits bool.splits dest!: sysD)

lemma evolves_fsyncDir: "evolves p A w (snd (fsyncDir w))"
  by (simp add: evolves_def fsyncDir_files)

lemma replace_file_evolves:
  "evolves path {files w path, Some raw} w (snd (replace_file path raw w))"
proof -
  let ?A = "{files w path, Some raw}"
  obtain t w1 where 1: "pendingTempPath path w = (t, w1)" by fastforce
  have e1: "evolves path ?A w w1" "files w1 = files w"
    using pendingTempPath_files(1) [of path w] pendingTempPath_files(2) [of path ?A w path] 1 by simp_all
  show ?thesis
  proof (cases t)
    case (Inl err)
    then show ?thesis using 1 e1 by (simp add: replace_file_def)
  next
    case (Inr tmp)
    have ne: "tmp \<noteq> path" using pendingTempPath_not_path 1 Inr by blast
    obtain r w2 where 2: "writePendingTemp tmp raw w1 = (r, w2)" by fastforce
    have "evolves path ?A w1 w2"
      using writePendingTemp_evolves [OF ne, of w1 ?A raw] e1(2) 2 by simp
    with e1(1) have e2: "evolves path ?A w w2" by (rule evolves_trans)
    show ?thesis
    proof (cases r)
      case (Some err)
      then show ?thesis using 1 2 Inr e2 by (simp add: replace_file_def)
    next
      case None
      obtain b w3 where 3: "os_rename tmp path w2 = (b, w3)" by fastforce
      have f2: "files w2 tmp \<in> ?A" "files w2 path \<in> ?A"
        using writePendingTemp_ok 2 None evolves_files [OF e2] by auto
      have "evolves path ?A w2 w3" using evolves_rename [OF f2(1) ne f2(2)] 3 by simp
      with e2 have e3: "evolves path ?A w w3" by (rule evolves_trans)
      have f3: "files w3 path \<in> ?A" using evolves_files [OF e3] by simp
      have "evolves path ?A w (snd (os_remove tmp w3))" "evolves path ?A w (snd (fsyncDir w3))"
        using evolves_trans [OF e3 evolves_other(3) [OF ne f3]] evolves_trans [OF e3 evolves_fsyncDir] by auto
      then show ?thesis using 1 2 3 Inr None by (cases b) (simp_all add: replace_file_def)
    qed
  qed
qed

lemma replace_file_ok:
  assumes "replace_file path raw w = (None, w')"
  shows "files w' path = Some raw"
proof -
  from assms obtain tmp w1 w2 w3 where
    1: "pendingTempPath path w = (Inr tmp, w1)" "writePendingTemp tmp raw w1 = (None, w2)"
       "os_rename tmp path w2 = (True, w3)" "fsyncDir w3 = (None, w')"
    by (auto simp: replace_file_def split: prod.splits sum.splits option.splits bool.splits)
  then have "files w' = files w3" using fsyncDir_files [of w3] by simp
  then show ?thesis
    using os_rename_files [OF 1(3) pendingTempPath_not_path [OF 1(1)]] writePendingTemp_ok [OF 1(2)] by simp
qed

section \<open>Saving and loading\<close>

definition resumed :: "string \<Rightarrow> 'z World_scheme \<Rightarrow> CleanupStep list" where
  "resumed path w =
     (case fst (LoadPending path (w\<lparr>outcomes := []\<rparr>)) of Inr (Some snap) \<Rightarrow> Steps snap | _ \<Rightarrow> [])"

lemma resumed_cong: "files w' path = files w path \<Longrightarrow> resumed path w' = resumed path w"
  by (simp add: resumed_def LoadPending_def os_ReadFile_def split: option.splits content.splits)

definition good_step :: "CleanupStep \<Rightarrow> bool" where
  "good_step s \<longleftrightarrow> encodable s \<and> validateStep s = None"

lemma first_error_None: "first_error f xs = None \<longleftrightarrow> list_all (\<lambda>x. f x = None) xs"
  by (induction xs) (auto split: option.splits)

lemma good_steps:
  "list_all good_step xs \<Longrightarrow> list_all encodable xs" "list_all good_step xs \<Longrightarrow> first_error validateStep xs = None"
  by (auto simp: list_all_iff good_step_def first_error_None)

lemma LoadPending_snapshot:
  assumes "files w path = Some (Doc (pending_json snap))" "outcomes w = []"
    "SchemaVersion snap = PendingSchemaVersion" "utf8_ok (WizardID snap)" "utf8_ok (PendingAlias snap)"
    "rfc3339 (UpdatedAt snap)" "list_all good_step (Steps snap)"
  shows "LoadPending path w = (Inr (Some snap), w)"
proof -
  have "json_pending (pending_json snap) = Some snap"
    using assms by (intro json_pending_json) (auto simp: PendingSchemaVersion_def in_int64_def good_steps)
  then show ?thesis
    using assms by (simp add: LoadPending_def os_ReadFile_def PendingSchemaVersion_def good_steps)
qed

definition persist_ok :: "string \<Rightarrow> string \<Rightarrow> 'z World_scheme env \<Rightarrow> bool" where
  "persist_ok wid al e \<longleftrightarrow> (\<forall>n. rfc3339 (clock (snd e) n)) \<and> utf8_ok wid \<and> utf8_ok al"

lemma clockD:
  "utc_now w = (t, w') \<Longrightarrow> clock w' = clock w" "os_remove p w = (r, w') \<Longrightarrow> clock w' = clock w"
  "os_create_excl p w = (b, w') \<Longrightarrow> clock w' = clock w" "os_write p c w = (b, w') \<Longrightarrow> clock w' = clock w"
  "os_rename p q w = (b, w') \<Longrightarrow> clock w' = clock w" "fsyncDir w = (err, w') \<Longrightarrow> clock w' = clock w"
  "pendingTempPath p w = (tp, w') \<Longrightarrow> clock w' = clock w"
  unfolding utc_now_def os_remove_def os_create_excl_def os_write_def os_rename_def rand_hex_def
    set_file_def Let_def fsyncDir_def pendingTempPath_def
  by (auto split: prod.splits list.splits bool.splits option.splits if_splits dest!: sysD)

lemma clock_writePendingTemp: "writePendingTemp p c w = (r, w') \<Longrightarrow> clock w' = clock w"
  unfolding writePendingTemp_def by (auto split: prod.splits bool.splits dest!: sysD clockD)

lemma clock_replace_file: "replace_file p c w = (r, w') \<Longrightarrow> clock w' = clock w"
  unfolding replace_file_def
  by (auto split: prod.splits sum.splits option.splits bool.splits dest!: clockD clock_writePendingTemp)
    (metis clockD(2) prod.collapse)

lemma SavePending_effect:
  assumes "SavePending path (Some snap) e = (r, e')" "SchemaVersion snap = PendingSchemaVersion"
    "list_all good_step (Steps snap)" "\<forall>n. rfc3339 (clock (snd e) n)" "rfc3339 (UpdatedAt snap)"
  shows "clock (snd e') = clock (snd e) \<and> (files (snd e') path = files (snd e) path \<and> r \<noteq> None \<or>
    (\<exists>t. rfc3339 t \<and> files (snd e') path = Some (Doc (pending_json (snap\<lparr>UpdatedAt := t\<rparr>)))))"
proof -
  obtain err e1 where 1: "check_ctx e = (err, e1)" by (meson surj_pair)
  have s1: "snd e1 = snd e" using 1 by (auto simp: check_ctx_def)
  show ?thesis
  proof (cases err)
    case (Some x)
    then show ?thesis using assms(1) 1 s1 by (auto simp: SavePending_def)
  next
    case None
    obtain snap' w1 where 2: "(if UpdatedAt snap = zero_time
        then (case utc_now (snd e1) of (t, w) \<Rightarrow> (snap\<lparr>UpdatedAt := t\<rparr>, w)) else (snap, snd e1)) = (snap', w1)"
      by (meson surj_pair)
    then have s2: "files w1 = files (snd e)" "clock w1 = clock (snd e)"
        and t: "snap' = snap\<lparr>UpdatedAt := UpdatedAt snap'\<rparr>" "rfc3339 (UpdatedAt snap')"
      using s1 assms(4,5) by (auto simp: utc_now_def split: if_splits)
    obtain b w2 where 3: "sys w1 = (b, w2)" by (meson surj_pair)
    have s3: "files w2 = files (snd e)" "clock w2 = clock (snd e)" using sysD [OF 3] s2 by auto
    have body: "SavePending path (Some snap) e = (case sys w1 of
          (False, w) \<Rightarrow> (Some [OSErr], (fst e1, w))
        | (True, w) \<Rightarrow> (case replace_file path (Doc (pending_json snap')) w of (r, w) \<Rightarrow> (r, (fst e1, w))))"
      using 1 None 2 assms(2,3) by (simp add: SavePending_def PendingSchemaVersion_def good_steps)
    show ?thesis
    proof (cases b)
      case False
      then show ?thesis using assms(1) 3 s3 body by auto
    next
      case True
      obtain r' w3 where 4: "replace_file path (Doc (pending_json snap')) w2 = (r', w3)" by (meson surj_pair)
      have "r = r'" "snd e' = w3" using assms(1) body 3 4 True by auto
      moreover have "files w3 path \<in> {files w2 path, Some (Doc (pending_json snap'))}"
        using evolves_files [OF replace_file_evolves] 4 by (metis insertI1 snd_conv)
      moreover have "r' = None \<Longrightarrow> files w3 path = Some (Doc (pending_json snap'))"
        using 4 replace_file_ok by blast
      moreover have "clock w3 = clock w2" using clock_replace_file 4 by blast
      moreover have "Some (Doc (pending_json snap')) = Some (Doc (pending_json (snap\<lparr>UpdatedAt := UpdatedAt snap'\<rparr>)))"
        using t(1) by simp
      ultimately show ?thesis using s3 t(2) by (cases r') auto
    qed
  qed
qed

lemma persister_effect:
  assumes "NewFilePersisterWithProfile path wid al xs e = (r, e')" "persist_ok wid al e"
    "list_all good_step xs"
  shows "persist_ok wid al e' \<and>
     (resumed path (snd e') = resumed path (snd e) \<and> r \<noteq> None \<or> resumed path (snd e') = xs)"
proof (cases "xs = []")
  case True
  obtain rm w1 where 1: "os_remove path (snd e) = (rm, w1)" by (meson surj_pair)
  have c: "clock w1 = clock (snd e)" using clockD(2) [OF 1] .
  have f: "rm = RemoveFail \<and> files w1 = files (snd e) \<or> rm \<noteq> RemoveFail \<and> files w1 path = None"
    using 1 by (auto simp: os_remove_def set_file_def Let_def split: prod.splits if_splits dest!: sysD)
  have "e' = (fst e, w1)" "r = None \<longleftrightarrow> rm \<noteq> RemoveFail"
    using assms(1) True 1
    by (auto simp: NewFilePersisterWithProfile_def in_env_def RemovePending_def split: removal.splits)
  moreover have "files w path = None \<Longrightarrow> resumed path w = []" for w :: "'a World_scheme"
    by (simp add: resumed_def LoadPending_def os_ReadFile_def)
  ultimately show ?thesis
    using f c assms(2) True resumed_cong [of w1 path "snd e"] by (auto simp: persist_ok_def)
next
  case False
  obtain t w1 where 1: "utc_now (snd e) = (t, w1)" by (meson surj_pair)
  let ?snap = "\<lparr>SchemaVersion = PendingSchemaVersion, WizardID = wid, PendingAlias = al,
                    UpdatedAt = t, Steps = xs\<rparr>"
  have w1: "files w1 = files (snd e)" "clock w1 = clock (snd e)" "rfc3339 t"
    using 1 assms(2) by (auto simp: utc_now_def persist_ok_def)
  have s: "SavePending path (Some ?snap) (fst e, w1) = (r, e')"
    using assms(1) False 1 by (simp add: NewFilePersisterWithProfile_def)
  have eff: "clock (snd e') = clock w1 \<and> (files (snd e') path = files w1 path \<and> r \<noteq> None \<or>
    (\<exists>t. rfc3339 t \<and> files (snd e') path = Some (Doc (pending_json (?snap\<lparr>UpdatedAt := t\<rparr>)))))"
    using SavePending_effect [OF s] assms w1 by (simp add: persist_ok_def)
  moreover have "resumed path (snd e') = xs"
    if "rfc3339 t'" "files (snd e') path = Some (Doc (pending_json (?snap\<lparr>UpdatedAt := t'\<rparr>)))" for t'
  proof -
    have "LoadPending path (snd e'\<lparr>outcomes := []\<rparr>) = (Inr (Some (?snap\<lparr>UpdatedAt := t'\<rparr>)), snd e'\<lparr>outcomes := []\<rparr>)"
      using that assms by (intro LoadPending_snapshot) (simp_all add: persist_ok_def)
    then show ?thesis by (simp add: resumed_def)
  qed
  ultimately show ?thesis
    using assms(2) w1 resumed_cong [of "snd e'" path "snd e"] by (auto simp: persist_ok_def)
qed

section \<open>The contract between the stack and its store\<close>

locale snapshot_store =
  fixes save :: "'w PersistFunc"
    and stored :: "'w env \<Rightarrow> CleanupStep list"
    and ok :: "'w env \<Rightarrow> bool"
    and good :: "CleanupStep \<Rightarrow> bool"
  assumes save_keeps: "ok e \<Longrightarrow> list_all good xs \<Longrightarrow> ok (snd (save xs e))"
    and save_done: "\<lbrakk>ok e; list_all good xs; save xs e = (None, e')\<rbrakk> \<Longrightarrow> stored e' = xs"
    and save_failed: "\<lbrakk>ok e; list_all good xs; save xs e = (Some err, e')\<rbrakk> \<Longrightarrow>
       stored e' = stored e \<or> stored e' = xs"
    and ctx_free: "stored (c, w) = stored (c', w)" "ok (c, w) = ok (c', w)"
begin

lemma check_free: "check_ctx e = (r, e') \<Longrightarrow> stored e' = stored e \<and> (ok e' \<longleftrightarrow> ok e)"
  using ctx_free(1) [of "fst e" "snd e"] ctx_free(2) [of "fst e" "snd e"] by (auto simp: check_ctx_def)

text \<open>A push is durable when it succeeds and leaves the stack as it was when it fails.\<close>

lemma push_durable:
  assumes "ok e" "persist s = Some save" "list_all good (steps s)" "good step" "stored e = steps s"
    and "Push step s e = (r, s', e')"
  shows "ok e' \<and> persist s' = Some save \<and> list_all good (steps s') \<and>
     (if r = None then steps s' = steps s @ [step] \<and> stored e' = steps s'
      else steps s' = steps s \<and> (stored e' = steps s \<or> stored e' = steps s @ [step]))"
proof -
  obtain c e1 where 1: "check_ctx e = (c, e1)" by (meson surj_pair)
  have f: "stored e1 = steps s" "ok e1" using check_free [OF 1] assms by auto
  obtain q e2 where 2: "save (steps s @ [step]) e1 = (q, e2)" by (meson surj_pair)
  have g: "list_all good (steps s @ [step])" using assms by simp
  have "ok e2" using save_keeps [OF f(2) g] 2 by simp
  moreover have "q = None \<Longrightarrow> stored e2 = steps s @ [step]" using save_done [OF f(2) g] 2 by blast
  moreover have "q \<noteq> None \<Longrightarrow> stored e2 = steps s \<or> stored e2 = steps s @ [step]"
    using save_failed [OF f(2) g] 2 f(1) by auto
  ultimately show ?thesis
    using assms 1 2 f
    by (cases c; cases "validateStep step"; cases q) (auto simp: Push_def Let_def dest!: sym [of "Some _" "validateStep step"])
qed

lemma pop_durable:
  assumes "ok e" "persist s = Some save" "list_all good (steps s)" "stored e = steps s"
    and "Pop s e = ((x, b, err), s', e')"
  shows "ok e' \<and> persist s' = Some save \<and> list_all good (steps s') \<and>
     (if err = None then stored e' = steps s' else stored e' = steps s \<or> stored e' = steps s')"
proof -
  obtain c e1 where 1: "check_ctx e = (c, e1)" by (meson surj_pair)
  have f: "stored e1 = steps s" "ok e1" using check_free [OF 1] assms by auto
  obtain q e2 where 2: "save (butlast (steps s)) e1 = (q, e2)" by (meson surj_pair)
  have g: "list_all good (butlast (steps s))" using assms(3) by (auto simp: list_all_iff dest: in_set_butlastD)
  have "ok e2" using save_keeps [OF f(2) g] 2 by simp
  moreover have "q = None \<Longrightarrow> stored e2 = butlast (steps s)" using save_done [OF f(2) g] 2 by blast
  moreover have "q \<noteq> None \<Longrightarrow> stored e2 = steps s \<or> stored e2 = butlast (steps s)"
    using save_failed [OF f(2) g] 2 f(1) by auto
  ultimately show ?thesis
    using assms 1 2 f g by (auto simp: Pop_def Let_def split: option.splits if_splits)
qed

end

interpretation file_store: snapshot_store "NewFilePersisterWithProfile path wid al"
  "\<lambda>e. resumed path (snd e)" "persist_ok wid al" good_step for path wid al
proof
  fix e :: "'a World_scheme env" and xs
  assume "persist_ok wid al e" "list_all good_step xs"
  then show "persist_ok wid al (snd (NewFilePersisterWithProfile path wid al xs e))"
    using persister_effect by (metis prod.collapse)
next
  fix e e' :: "'a World_scheme env" and xs
  assume "persist_ok wid al e" "list_all good_step xs"
    "NewFilePersisterWithProfile path wid al xs e = (None, e')"
  then show "resumed path (snd e') = xs" using persister_effect by blast
next
  fix e e' :: "'a World_scheme env" and xs err
  assume "persist_ok wid al e" "list_all good_step xs"
    "NewFilePersisterWithProfile path wid al xs e = (Some err, e')"
  then show "resumed path (snd e') = resumed path (snd e) \<or> resumed path (snd e') = xs"
    using persister_effect by blast
qed (simp_all add: persist_ok_def)

section \<open>Rollback\<close>

lemma Pop_persist: "Pop s e = ((x, b, err), s', e') \<Longrightarrow> persist s' = persist s"
  by (auto simp: Pop_def Let_def split: prod.splits option.splits if_splits)

lemma Pop_cases:
  assumes "Pop s e = ((x, b, err), s', e')"
  shows "if b then steps s = steps s' @ [x] else s' = s"
  using assms by (auto simp: Pop_def Let_def split: prod.splits option.splits if_splits)

text \<open>Every step that left the stack was run, the last one popped excepted when its persist failed.\<close>

lemma rollback_loop_accounts:
  "rollback_loop run s e results errs = ((rs, err), s', e') \<Longrightarrow>
   \<exists>ran lost. rs = results @ ran \<and> steps s = steps s' @ lost @ rev (map Step ran) \<and> length lost \<le> 1
     \<and> (lost \<noteq> [] \<longrightarrow> err \<noteq> None \<and> persist s \<noteq> None) \<and> persist s' = persist s"
proof (induction run s e results errs arbitrary: rs err s' e' rule: rollback_loop.induct)
  case (1 run s e results errs)
  obtain c e1 where c: "check_ctx e = (c, e1)" by (meson surj_pair)
  show ?case
  proof (cases c)
    case (Some x)
    then show ?thesis using "1.prems" c by (auto simp: rollback_loop.simps [of run s e])
  next
    case None
    obtain x b perr s1 e2 where p: "Pop s e1 = ((x, b, perr), s1, e2)" by (metis surj_pair)
    note ps = Pop_cases [OF p] Pop_persist [OF p]
    show ?thesis
    proof (cases perr)
      case (Some y)
      then have "steps s1 = steps s'" "rs = results" "err \<noteq> None" "persist s1 = persist s'"
        using "1.prems" c None p by (auto simp: rollback_loop.simps [of run s e] errors_join_def)
      moreover have "persist s \<noteq> None \<or> \<not> b"
        using p Some by (auto simp: Pop_def Let_def split: prod.splits option.splits if_splits)
      ultimately show ?thesis
        using ps by (intro exI [of _ "[]"] exI [of _ "if b then [x] else []"]) (auto split: if_splits)
    next
      case None': None
      show ?thesis
      proof (cases b)
        case False
        then show ?thesis
          using "1.prems" c None p None' ps by (auto simp: rollback_loop.simps [of run s e])
      next
        case True
        obtain q e3 where r: "run x e2 = (q, e3)" by (meson surj_pair)
        have "rollback_loop run s1 e3 (results @ [\<lparr>Step = x, Err = q\<rparr>])
            (case q of None \<Rightarrow> errs | Some er \<Rightarrow> errs @ [er]) = ((rs, err), s', e')"
          using "1.prems" c None p None' True r by (simp add: rollback_loop.simps [of run s e])
        from "1.IH" [OF c [symmetric] None p [symmetric] refl refl None' refl _ r [symmetric] this] True
        obtain ran lost where "rs = (results @ [\<lparr>Step = x, Err = q\<rparr>]) @ ran"
            "steps s1 = steps s' @ lost @ rev (map Step ran)" "length lost \<le> 1"
            "lost \<noteq> [] \<longrightarrow> err \<noteq> None \<and> persist s1 \<noteq> None" "persist s' = persist s1"
          by auto
        then show ?thesis
          using ps True by (intro exI [of _ "\<lparr>Step = x, Err = q\<rparr> # ran"] exI [of _ lost]) auto
      qed
    qed
  qed
qed

text \<open>With a context that is never cancelled and a store that does not fail, everything is run.\<close>

definition store_reliable :: "'w Stack \<Rightarrow> bool" where
  "store_reliable s \<longleftrightarrow> (case persist s of None \<Rightarrow> True
     | Some f \<Rightarrow> \<forall>xs e. fst e = None \<longrightarrow> fst (f xs e) = None \<and> fst (snd (f xs e)) = None)"

definition keeps_ctx :: "'w StepRunner \<Rightarrow> bool" where
  "keeps_ctx run \<longleftrightarrow> (\<forall>x e. fst (snd (run x e)) = fst e)"

lemma Pop_reliable:
  assumes "store_reliable s" "fst e = None"
  shows "\<exists>e'. fst e' = None \<and> Pop s e =
    (if steps s = [] then ((zero_step, False, None), s, e')
     else ((last (steps s), True, None), s\<lparr>steps := butlast (steps s)\<rparr>, e'))"
proof -
  have c: "check_ctx e = (None, e)" using assms(2) by (cases e) (simp add: check_ctx_def)
  show ?thesis
  proof (cases "persist s")
    case None
    then show ?thesis using c assms(2) by (intro exI [of _ e]) (simp add: Pop_def Let_def)
  next
    case (Some f)
    have "fst (f (butlast (steps s)) e) = None" "fst (snd (f (butlast (steps s)) e)) = None"
      using assms Some by (simp_all add: store_reliable_def split_paired_All del: split_paired_All)
    then obtain e2 where "f (butlast (steps s)) e = (None, e2)" "fst e2 = None"
      by (metis prod.collapse)
    then show ?thesis
      using c assms(2) Some by (intro exI [of _ "if steps s = [] then e else e2"]) (simp add: Pop_def Let_def)
  qed
qed

definition failures :: "CleanupResult list \<Rightarrow> goerr list" where
  "failures rs = concat (map (\<lambda>r. case Err r of None \<Rightarrow> [] | Some e \<Rightarrow> [e]) rs)"

lemma rollback_loop_complete:
  "store_reliable s \<Longrightarrow> fst e = None \<Longrightarrow> keeps_ctx run \<Longrightarrow>
   \<exists>ran e'. rollback_loop run s e results errs =
      ((results @ ran, errors_join (errs @ failures ran)), s\<lparr>steps := []\<rparr>, e') \<and> map Step ran = rev (steps s)"
proof (induction "steps s" arbitrary: s e results errs rule: rev_induct)
  case Nil
  have c: "check_ctx e = (None, e)" using Nil.prems by (cases e) (simp add: check_ctx_def)
  show ?case using Pop_reliable [OF Nil.prems(1,2)] c Nil.hyps
    by (auto simp: rollback_loop.simps [of run s e] failures_def)
next
  case (snoc x xs)
  have c: "check_ctx e = (None, e)" using snoc.prems by (cases e) (simp add: check_ctx_def)
  have st: "steps s = xs @ [x]" using snoc.hyps by simp
  obtain e1 where p: "fst e1 = None" "Pop s e = ((x, True, None), s\<lparr>steps := xs\<rparr>, e1)"
    using Pop_reliable [OF snoc.prems(1,2)] st by auto
  obtain q e2 where r: "run x e1 = (q, e2)" by (meson surj_pair)
  have f2: "fst e2 = None" using snoc.prems(3) r p(1) by (metis keeps_ctx_def snd_conv)
  let ?errs = "case q of None \<Rightarrow> errs | Some er \<Rightarrow> errs @ [er]"
  have "store_reliable (s\<lparr>steps := xs\<rparr>)" using snoc.prems(1) by (simp add: store_reliable_def)
  from snoc.hyps(1) [OF _ this f2 snoc.prems(3), of "results @ [\<lparr>Step = x, Err = q\<rparr>]" ?errs]
  obtain ran e' where "rollback_loop run (s\<lparr>steps := xs\<rparr>) e2 (results @ [\<lparr>Step = x, Err = q\<rparr>]) ?errs =
      (((results @ [\<lparr>Step = x, Err = q\<rparr>]) @ ran, errors_join (?errs @ failures ran)), s\<lparr>steps := []\<rparr>, e')"
      "map Step ran = rev xs" by auto
  moreover have "?errs @ failures ran = errs @ failures (\<lparr>Step = x, Err = q\<rparr> # ran)"
    by (simp add: failures_def split: option.split)
  ultimately show ?case
    using c p r st
    by (intro exI [of _ "\<lparr>Step = x, Err = q\<rparr> # ran"] exI [of _ e'])
      (simp add: rollback_loop.simps [of run s e])
qed

section \<open>The stack as a state machine\<close>

inductive stack_step :: "'w Stack \<times> 'w env \<Rightarrow> 'w Stack \<times> 'w env \<Rightarrow> bool" where
  st_push: "Push x s e = (r, s', e') \<Longrightarrow> stack_step (s, e) (s', e')"
| st_pop: "Pop s e = (r, s', e') \<Longrightarrow> stack_step (s, e) (s', e')"
| st_load: "LoadSnapshot xs s = (r, s') \<Longrightarrow> stack_step (s, e) (s', e)"
| st_rollback: "Rollback run s e = (r, s', e') \<Longrightarrow> stack_step (s, e) (s', e')"
| st_world: "stack_step (s, e) (s, e')"

definition stack_init :: "'w Stack \<times> 'w env \<Rightarrow> bool" where
  "stack_init se \<longleftrightarrow> steps (fst se) = []"

definition stack_valid :: "'w Stack \<times> 'w env \<Rightarrow> bool" where
  "stack_valid se \<longleftrightarrow> list_all (\<lambda>x. validateStep x = None) (steps (fst se))"

lemma Rollback_prefix: "Rollback run s e = (r, s', e') \<Longrightarrow> \<exists>rest. steps s = steps s' @ rest"
  using rollback_loop_accounts
  by (cases r) (auto simp: Rollback_def split: option.splits, metis rollback_loop_accounts)

lemma Push_steps: "Push x s e = (r, s', e') \<Longrightarrow>
   steps s' = steps s \<or> steps s' = steps s @ [x] \<and> validateStep x = None"
  by (auto simp: Push_def Let_def split: prod.splits option.splits)

interpretation cleanup_stack: transition_system stack_init stack_step stack_valid
proof
  show "stack_init s \<Longrightarrow> stack_valid s" for s :: "'w Stack \<times> 'w env"
    by (simp add: stack_init_def stack_valid_def)
next
  fix a b :: "'w Stack \<times> 'w env"
  assume "stack_step a b" and v: "stack_valid a"
  then show "stack_valid b"
  proof cases
    case (st_push x s e r s' e')
    then show ?thesis using v Push_steps [of x s e r s' e'] by (auto simp: stack_valid_def)
  next
    case (st_pop s e r s' e')
    obtain x k err where "r = (x, k, err)" by (metis prod_cases3)
    then show ?thesis using st_pop v Pop_cases [of s e x k err s' e']
      by (auto simp: stack_valid_def split: if_splits)
  next
    case (st_load xs s r s' e)
    then show ?thesis using v
      by (auto simp: LoadSnapshot_def stack_valid_def first_error_None split: option.splits)
  next
    case (st_rollback run s e r s' e')
    then show ?thesis using v Rollback_prefix [of run s e r s' e'] by (auto simp: stack_valid_def)
  qed (use v in \<open>simp add: stack_valid_def\<close>)
qed

lemma lower_char_mark: "lower_char x = c \<Longrightarrow> \<not> is_letter c \<Longrightarrow> x = c"
proof (rule ccontr)
  assume a: "lower_char x = c" "\<not> is_letter c" "x \<noteq> c"
  then have u: "CHR ''A'' \<le> x \<and> x \<le> CHR ''Z''" "c = char_of (of_char x + 32 :: nat)"
    by (auto simp: lower_char_def split: if_splits)
  from u(1) have "65 \<le> (of_char x :: nat)" "(of_char x :: nat) \<le> 90" by (auto simp: less_eq_char_def)
  then have "(of_char c :: nat) = of_char x + 32" using u(2) by (simp add: of_char_of)
  with \<open>65 \<le> _\<close> \<open>_ \<le> 90\<close> have "is_letter c" by (auto simp: is_letter_def less_eq_char_def)
  with a(2) show False by simp
qed

definition mark :: "char \<Rightarrow> bool" where "mark c \<longleftrightarrow> c \<in> set ''_-= ''"

lemma needs_ci_lit: "c \<in> set s \<Longrightarrow> mark c \<Longrightarrow> needs mark (ci_lit s)"
proof (induction s)
  case (Cons x s)
  have "mark x \<Longrightarrow> needs mark (ci_char x)"
  proof -
    assume m: "mark x"
    then have l: "\<not> is_letter x" "lower_char x = x" "x \<noteq> CHR ''s''" "x \<noteq> CHR ''k''"
      by (auto simp: mark_def is_letter_def lower_char_def less_eq_char_def)
    then have "ci_char x = Cls (\<lambda>y. lower_char y = x)" by (simp add: ci_char_def)
    moreover have "mark y" if "lower_char y = x" for y
      using m lower_char_mark [OF that l(1)] by simp
    ultimately show ?thesis by simp
  qed
  then show ?case using Cons by (auto simp: ci_lit_def)
qed simp

lemma secret_needs_mark: "isSecretShaped v \<Longrightarrow> \<exists>c \<in> set v. mark c"
proof -
  have "needs mark (ci_lit ''ghp_'')" "needs mark (ci_lit ''ghs_'')" "needs mark (ci_lit ''github_pat_'')"
      "needs mark (ci_lit ''sk-'')" "needs mark (ci_lit ''BEGIN '')" "needs mark (lit ''='')"
    by (auto simp: mark_def lit_def intro: needs_ci_lit [of "CHR ''_''"] needs_ci_lit [of "CHR ''-''"]
        needs_ci_lit [of "CHR '' ''"])
  then have "needs mark secretShapePattern" by (simp add: secretShapePattern_def)
  then show "isSecretShaped v \<Longrightarrow> \<exists>c \<in> set v. mark c"
    using needs_match_string by (auto simp: isSecretShaped_def split: if_splits)
qed

lemma not_secret: "list_all (\<lambda>c. \<not> mark c) v \<Longrightarrow> \<not> isSecretShaped v"
  using secret_needs_mark by (fastforce simp: list_all_iff)

definition example_step :: CleanupStep where
  "example_step = \<lparr>StepName = ''subdomain a.pl'', Kind = ''subdomain'', Params = [(''domain'', ''a.pl'')],
     CreatedAt = ''2026-01-02T03:04:05Z''\<rparr>"

lemma not_secret_a_pl: "\<not> isSecretShaped ''a.pl''"
  by (simp add: not_secret mark_def)

lemma validateStep_example: "validateStep example_step = None"
  by (simp add: validateStep_def example_step_def supported_kinds_def kind_defs not_secret_a_pl mget_def)

lemma encodable_example: "encodable example_step"
  by (simp add: encodable_def example_step_def utf8_ok_def rfc3339_def parse_nat_def two_digits_def in_range_def
      valid_clock_def hour_rest_def valid_tail_def valid_zone_def days_in_def is_leap_def digits_val_def
      digit_val_def is_digit_def less_eq_char_def byte_in_def Let_def)

lemma good_example: "good_step example_step"
  by (simp add: good_step_def encodable_example validateStep_example)

text \<open>A token anywhere in a value makes it secret-shaped.\<close>

lemma ci_char_self: "[c] \<in> lang (ci_char c)"
  by (simp add: ci_char_def Let_def)

lemma ci_lit_self: "s \<in> lang (ci_lit s)"
proof (induction s)
  case (Cons c s)
  then have "[c] @ s \<in> lang (ci_lit (c # s))"
    using ci_char_self [of c] unfolding ci_lit_def foldr.simps comp_def lang.simps by blast
  then show ?case by simp
qed (simp add: ci_lit_def)

lemma plain_ci [simp]: "plain (ci_char c)" "plain (ci_lit s)" "plain (ci_class P)"
proof -
  show c: "plain (ci_char c)" for c
    by (simp add: ci_char_def Let_def long_s_def kelvin_def)
  show "plain (ci_lit s)" by (induction s) (simp_all add: ci_lit_def c)
  show "plain (ci_class P)" by (simp add: ci_class_def long_s_def kelvin_def)
qed

lemma token_secret:
  assumes "pre \<in> set [''ghp_'', ''ghs_'', ''github_pat_'']" "is_letter c \<or> is_digit c"
  shows "isSecretShaped (u @ pre @ c # t)"
proof -
  have "[c] \<in> lang (ci_class is_digit)" using assms(2) by (simp add: ci_class_def)
  then have "pre @ [c] \<in> lang (Seq (ci_lit pre) (ci_class is_digit))"
    using ci_lit_self [of pre] unfolding lang.simps by blast
  from lang_Match_plain [OF _ this, of "adv None u" t "[]"]
  have "Match (Seq (ci_lit pre) (ci_class is_digit)) (adv None u, pre @ c # t, []) (adv (adv None u) (pre @ [c]), t, [])"
    by simp
  then have "Match secretShapePattern (adv None u, pre @ c # t, []) (adv (adv None u) (pre @ [c]), t, [])"
    using assms(1) unfolding secretShapePattern_def alts.simps by (auto intro: m_alt1 m_alt2)
  then have "match_string secretShapePattern (u @ pre @ c # t)"
    by (rule match_stringI)
  then show ?thesis by (simp add: isSecretShaped_def)
qed

section \<open>Concurrent pushes\<close>

text \<open>
  \<open>Push\<close> holds the mutex while it appends and takes the snapshot, releases it, persists the snapshot,
  and takes the mutex again to drop the top step when persisting failed. The state of several pushes in
  flight: the stack, the snapshot on disk, and the goroutines between the two critical sections with the
  snapshot each of them carries.
\<close>

record conc =
  cmem :: "CleanupStep list"
  cdisk :: "CleanupStep list"
  inflight :: "(nat \<times> CleanupStep list) list"
  returned :: "(nat \<times> bool) list"

inductive push_step :: "conc \<Rightarrow> conc \<Rightarrow> bool" where
  pu_append: "validateStep x = None \<Longrightarrow> g \<notin> fst ` set (inflight c) \<Longrightarrow>
     push_step c (c\<lparr>cmem := cmem c @ [x], inflight := (g, cmem c @ [x]) # inflight c\<rparr>)"
| pu_saved: "(g, snap) \<in> set (inflight c) \<Longrightarrow>
     push_step c (c\<lparr>cdisk := snap, inflight := remove1 (g, snap) (inflight c), returned := (g, True) # returned c\<rparr>)"
| pu_failed: "(g, snap) \<in> set (inflight c) \<Longrightarrow>
     push_step c (c\<lparr>cmem := butlast (cmem c), inflight := remove1 (g, snap) (inflight c),
                    returned := (g, False) # returned c\<rparr>)"

definition conc_start :: conc where
  "conc_start = \<lparr>cmem = [], cdisk = [], inflight = [], returned = []\<rparr>"

lemma stale_snapshot_run:
  assumes "validateStep x = None" "validateStep y = None"
  shows "push_step\<^sup>*\<^sup>* conc_start
    \<lparr>cmem = [x, y], cdisk = [x], inflight = [], returned = [(1, True), (2, True)]\<rparr>"
proof -
  let ?c1 = "\<lparr>cmem = [x], cdisk = [], inflight = [(1, [x])], returned = []\<rparr>"
  let ?c2 = "\<lparr>cmem = [x, y], cdisk = [], inflight = [(2, [x, y]), (1, [x])], returned = []\<rparr>"
  let ?c3 = "\<lparr>cmem = [x, y], cdisk = [x, y], inflight = [(1, [x])], returned = [(2, True)]\<rparr>"
  have "push_step conc_start ?c1" using pu_append [OF assms(1), of 1 conc_start] by (simp add: conc_start_def)
  moreover have "push_step ?c1 ?c2" using pu_append [OF assms(2), of 2 ?c1] by simp
  moreover have "push_step ?c2 ?c3" using pu_saved [of 2 "[x, y]" ?c2] by simp
  moreover have "push_step ?c3 \<lparr>cmem = [x, y], cdisk = [x], inflight = [], returned = [(1, True), (2, True)]\<rparr>"
    using pu_saved [of 1 "[x]" ?c3] by simp
  ultimately show ?thesis by (meson converse_rtranclp_into_rtranclp rtranclp.rtrancl_refl)
qed

lemma wrong_step_dropped_run:
  assumes "validateStep x = None" "validateStep y = None"
  shows "push_step\<^sup>*\<^sup>* conc_start
    \<lparr>cmem = [x], cdisk = [x, y], inflight = [], returned = [(1, False), (2, True)]\<rparr>"
proof -
  let ?c1 = "\<lparr>cmem = [x], cdisk = [], inflight = [(1, [x])], returned = []\<rparr>"
  let ?c2 = "\<lparr>cmem = [x, y], cdisk = [], inflight = [(2, [x, y]), (1, [x])], returned = []\<rparr>"
  let ?c3 = "\<lparr>cmem = [x, y], cdisk = [x, y], inflight = [(1, [x])], returned = [(2, True)]\<rparr>"
  have "push_step conc_start ?c1" using pu_append [OF assms(1), of 1 conc_start] by (simp add: conc_start_def)
  moreover have "push_step ?c1 ?c2" using pu_append [OF assms(2), of 2 ?c1] by simp
  moreover have "push_step ?c2 ?c3" using pu_saved [of 2 "[x, y]" ?c2] by simp
  moreover have "push_step ?c3 \<lparr>cmem = [x], cdisk = [x, y], inflight = [], returned = [(1, False), (2, True)]\<rparr>"
    using pu_failed [of 1 "[x]" ?c3] by simp
  ultimately show ?thesis by (meson converse_rtranclp_into_rtranclp rtranclp.rtrancl_refl)
qed

text \<open>
  What does hold of overlapping pushes: every snapshot in flight or on disk consists of validated steps.
\<close>

definition conc_valid :: "conc \<Rightarrow> bool" where
  "conc_valid c \<longleftrightarrow> list_all (\<lambda>x. validateStep x = None) (cmem c) \<and> list_all (\<lambda>x. validateStep x = None) (cdisk c)
     \<and> (\<forall>(g, snap) \<in> set (inflight c). list_all (\<lambda>x. validateStep x = None) snap)"

interpretation pushes: transition_system "\<lambda>c. c = conc_start" push_step conc_valid
proof
  show "s = conc_start \<Longrightarrow> conc_valid s" for s by (simp add: conc_start_def conc_valid_def)
next
  fix a b assume "push_step a b" "conc_valid a"
  then show "conc_valid b"
    by cases (auto simp: conc_valid_def list_all_iff dest: in_set_butlastD dest!: set_mp [OF set_remove1_subset])
qed

section \<open>Properties\<close>

text \<open>
  C3. A push is durable across crashes: with the file persister, whatever system calls fail, a push
  that reports success leaves a snapshot on disk from which a resume reads exactly the stack with the
  new step on top; a push that reports an error leaves the in-memory stack as it was, and the disk
  holds the snapshot before or after it.
\<close>

theorem Push_durable:
  assumes "persist_ok wid al e" "persist s = Some (NewFilePersisterWithProfile path wid al)"
    and "list_all good_step (steps s)" "good_step step" "resumed path (snd e) = steps s"
    and "Push step s e = (r, s', e')"
  shows "if r = None then steps s' = steps s @ [step] \<and> resumed path (snd e') = steps s'
         else steps s' = steps s \<and> (resumed path (snd e') = steps s \<or> resumed path (snd e') = steps s @ [step])"
  using file_store.push_durable [OF assms] by simp

definition example_world :: World where
  "example_world = \<lparr>files = (\<lambda>_. None), outcomes = [], rnds = [''0a0b0c0d0e0f''], pid = 7,
     clock = (\<lambda>_. ''2026-01-02T03:04:05Z''), ticks = 0, past = []\<rparr>"

lemma example_world_ok: "persist_ok ''w1'' ''main'' (None, example_world)"
  using encodable_example
  by (simp add: persist_ok_def example_world_def encodable_def example_step_def utf8_ok_def byte_in_def Let_def)

lemma example_push:
  "\<exists>s' e'. Push example_step (NewStack (Some (NewFilePersisterWithProfile ''p.json'' ''w1'' ''main'')) ''w1'')
     (None, example_world) = (None, s', e')"
  by (simp add: Push_def check_ctx_def validateStep_example NewStack_def NewFilePersisterWithProfile_def
      SavePending_def utc_now_def example_world_def PendingSchemaVersion_def zero_time_def replace_file_def
      pendingTempPath_def rand_hex_def writePendingTemp_def os_create_excl_def os_write_def os_rename_def
      set_file_def fsyncDir_def Let_def)

theorem Push_durable_witness:
  "\<exists>s' e'. Push example_step (NewStack (Some (NewFilePersisterWithProfile ''p.json'' ''w1'' ''main'')) ''w1'')
     (None, example_world) = (None, s', e') \<and> steps s' = [example_step] \<and> resumed ''p.json'' (snd e') = [example_step]"
proof -
  obtain s' e' where p: "Push example_step (NewStack (Some (NewFilePersisterWithProfile ''p.json'' ''w1'' ''main'')) ''w1'')
     (None, example_world) = (None, s', e')" using example_push by blast
  have "resumed ''p.json'' example_world = []"
    by (simp add: resumed_def LoadPending_def os_ReadFile_def example_world_def)
  with Push_durable [OF example_world_ok _ _ good_example _ p] p show ?thesis
    by (simp add: NewStack_def)
qed

text \<open>
  C5. Replacing the snapshot file is atomic: at every moment of \<open>SavePending\<close>, under every pattern of
  failing system calls, the path holds its previous content or a complete new document, so a crash
  never leaves a torn or missing snapshot.
\<close>

theorem SavePending_atomic:
  "\<exists>v t. evolves path
     {files (snd e) path, Some (Doc (pending_json (snap\<lparr>SchemaVersion := v, UpdatedAt := t\<rparr>)))}
     (snd e) (snd (snd (SavePending path (Some snap) e)))"
proof -
  let ?v = "if SchemaVersion snap = 0 then PendingSchemaVersion else SchemaVersion snap"
  let ?now = "UpdatedAt snap = zero_time"
  let ?t = "if ?now then fst (utc_now (snd e)) else UpdatedAt snap"
  let ?w = "if ?now then snd (utc_now (snd e)) else snd e"
  let ?doc = "Doc (pending_json (snap\<lparr>SchemaVersion := ?v, UpdatedAt := ?t\<rparr>))"
  let ?A = "{files (snd e) path, Some ?doc}"
  obtain b w2 where 2: "sys ?w = (b, w2)" by (meson surj_pair)
  have "evolves path ?A (snd e) ?w" by simp
  moreover have "evolves path ?A ?w w2" using evolves_sys [of path ?A ?w] 2 by simp
  ultimately have e2: "evolves path ?A (snd e) w2" by (rule evolves_trans)
  have "files w2 = files (snd e)" using sysD [OF 2] by (simp add: utc_now_def)
  then have e3: "evolves path ?A (snd e) (snd (replace_file path ?doc w2))"
    using evolves_trans [OF e2] replace_file_evolves [of path w2 ?doc] by simp
  obtain c e1 where c: "check_ctx e = (c, e1)" by (meson surj_pair)
  have s1: "snd e1 = snd e" using c by (auto simp: check_ctx_def)
  have "snd (snd (SavePending path (Some snap) e)) \<in> {snd e, w2, snd (replace_file path ?doc w2)}"
    using c s1 2
    by (cases c; cases b; cases "SchemaVersion snap = 0"; cases ?now)
      (simp_all add: SavePending_def utc_now_def Let_def split: option.split prod.split)
  then have "evolves path ?A (snd e) (snd (snd (SavePending path (Some snap) e)))"
    using e2 e3 evolves_refl [of path ?A "snd e"] by (elim insertE emptyE) simp_all
  then show ?thesis by blast
qed


definition failing_panel :: "unit StepRunner" where
  "failing_panel step e = (if Kind step = ''ssl'' then Some [Foreign 1] else None, e)"


text \<open>
  A rollback accounts for every step: whenever \<open>Rollback\<close> stops, for whatever reason, the stack it
  started from is what is still on the stack, at most one popped step whose snapshot could not be
  written (then an error is reported), and the steps it rs, in reverse order.
\<close>

theorem Rollback_accounts:
  assumes "Rollback (Some run) s e = ((rs, err), s', e')"
  shows "\<exists>lost. steps s = steps s' @ lost @ rev (map Step rs) \<and> length lost \<le> 1
     \<and> (lost \<noteq> [] \<longrightarrow> err \<noteq> None \<and> persist s \<noteq> None)"
  using rollback_loop_accounts [of run s e "[]" "[]" rs err s' e'] assms by (auto simp: Rollback_def)

definition broken_store :: "unit PersistFunc" where
  "broken_store xs e = (Some [OSErr], e)"

theorem Rollback_accounts_witness:
  "\<exists>lost. steps (NewStack (Some broken_store) ''w''\<lparr>steps := [example_step]\<rparr>)
       = steps (NewStack (Some broken_store) ''w'') @ lost @ rev (map Step []) \<and> length lost \<le> 1"
proof -
  have "Rollback (Some failing_panel) (NewStack (Some broken_store) ''w''\<lparr>steps := [example_step]\<rparr>) (None, ())
      = (([], Some [OSErr]), NewStack (Some broken_store) ''w'', (None, ()))"
    by (simp add: Rollback_def rollback_loop.simps check_ctx_def Pop_def NewStack_def broken_store_def errors_join_def)
  from Rollback_accounts [OF this] show ?thesis by auto
qed


lemma example_reached:
  "reached stack_init stack_step (NewStack None ''w''\<lparr>steps := [example_step]\<rparr>, (None :: ctx, ()))"
proof (rule reached_step)
  show "reached stack_init stack_step (NewStack None ''w'', (None :: ctx, ()))"
    by (rule reached_init) (simp add: stack_init_def NewStack_def)
  have "Push example_step (NewStack None ''w'') (None, ()) =
      (None, NewStack None ''w''\<lparr>steps := [example_step]\<rparr>, (None, ()))"
    by (simp add: Push_def check_ctx_def validateStep_example NewStack_def)
  then show "stack_step (NewStack None ''w'', (None :: ctx, ())) (NewStack None ''w''\<lparr>steps := [example_step]\<rparr>, (None, ()))"
    by (rule st_push)
qed


text \<open>
  A valid step is never dropped by the dispatcher: with a panel and a GitHub client at hand, the
  runner of every step that passes validation makes exactly the removal call its kind names, with the
  recorded parameters, and returns that call's outcome.
\<close>

definition removal_call ::
  "'w HostingProvider \<Rightarrow> 'w GitHubCleanupRunner \<Rightarrow> CleanupStep \<Rightarrow> ('w \<Rightarrow> goerr option \<times> 'w) option" where
  "removal_call pr g step =
     (let p = mget (Params step) in
      map_of
        [(''subdomain'', RemoveSubdomain pr (p ''domain'')),
         (''ssl'', RemoveSSL pr (p ''domain'')),
         (''database'', RemoveDatabase pr (p ''dbKind'') (p ''dbName'')),
         (''github_repo'', RemoveGitHubRepo g (p ''owner'') (p ''repo'')),
         (''github_deploy_key'', RemoveGitHubDeployKey g (p ''owner'') (p ''repo'') (the (parse_int64 (p ''keyID'')))),
         (''github_actions_secret'', RemoveGitHubActionsSecret g (p ''owner'') (p ''repo'') (p ''name'')),
         (''github_workflow_file'', RemoveGitHubWorkflowFile g (p ''owner'') (p ''repo'') (p ''path'') (p ''branch''))]
        (Kind step))"

theorem runner_dispatches:
  assumes "validateStep step = None"
  shows "\<exists>call. removal_call pr g step = Some call \<and>
    MakeStepRunnerWithGitHub (Some pr) (Some g) step e = in_env call e"
proof -
  have "Kind step \<in> set supported_kinds"
    using assms by (auto simp: validateStep_def Let_def split: if_splits)
  moreover have "Kind step = ResourceGitHubDeployKey \<Longrightarrow> \<exists>n. parse_int64 (mget (Params step) ''keyID'') = Some n"
    using assms by (auto simp: validateStep_def Let_def kind_defs split: if_splits)
  ultimately show ?thesis
    by (auto simp: supported_kinds_def removal_call_def MakeStepRunnerWithGitHub_def Let_def kind_defs)
qed

theorem runner_dispatches_witness:
  "\<forall>pr g e. \<exists>call. removal_call pr g example_step = Some call \<and>
    MakeStepRunnerWithGitHub (Some pr) (Some g) example_step e = in_env call e"
  using runner_dispatches [OF validateStep_example] by blast

text \<open>
  Overlapping pushes are not serialised with their persistence: two concurrent \<open>Push\<close> calls can both
  report success and leave a snapshot on disk that lacks one of the two steps, and a push whose persist
  fails can drop the other goroutine's step from memory while its own rejected step stays.
\<close>

theorem concurrent_push_anomalies:
  "(\<exists>x y c. push_step\<^sup>*\<^sup>* conc_start c \<and> inflight c = [] \<and> returned c = [(1, True), (2, True)]
       \<and> cmem c = [x, y] \<and> y \<notin> set (cdisk c))
   \<and> (\<exists>x y c. push_step\<^sup>*\<^sup>* conc_start c \<and> inflight c = [] \<and> returned c = [(1, False), (2, True)]
       \<and> x \<noteq> y \<and> cmem c = [x] \<and> cdisk c = [x, y])"
proof -
  let ?y = "example_step\<lparr>StepName := ''other''\<rparr>"
  have y: "validateStep ?y = None" and ne: "example_step \<noteq> ?y"
    by (simp_all add: validateStep_def example_step_def supported_kinds_def kind_defs not_secret_a_pl mget_def)
  show ?thesis
    using stale_snapshot_run [OF validateStep_example y] wrong_step_dropped_run [OF validateStep_example y] ne
    by (intro conjI) fastforce+
qed

end
