(* ===== verification/Ssh_Types.thy ===== *)
theory Ssh_Types
  imports Go_Strings
begin

text \<open>
  The values the SSH layer exchanges with its callers (\<open>src/ssh/types.go\<close>, \<open>src/ssh/client_config.go\<close>):
  targets and their pool keys, command results, the host-key algorithm whitelist and the mapping of
  known-hosts outcomes to the package's sentinels. The known-hosts database is a parameter whose answer
  is a plain error or a key error with the keys it wants instead.
\<close>

section \<open>Targets and results (types.go)\<close>

record Target =
  THost :: string
  TPort :: int
  TUser :: string
  TAlias :: string

definition Key :: "Target \<Rightarrow> string" where
  "Key t = TUser t @ ''@'' @ THost t @ '':'' @ itoa (TPort t)"

text \<open>\<open>net.JoinHostPort\<close> brackets a host that contains a colon.\<close>

definition Addr :: "Target \<Rightarrow> string" where
  "Addr t = (if CHR '':'' \<in> set (THost t) then ''['' @ THost t @ '']:'' @ itoa (TPort t)
             else THost t @ '':'' @ itoa (TPort t))"

record ExecResult =
  Stdout :: string
  Stderr :: string
  ExitCode :: int
  Duration :: int

definition exitCode :: "goerr option \<Rightarrow> int" where
  "exitCode err =
     (case err of
        None \<Rightarrow> 0
      | Some e \<Rightarrow> (case find (\<lambda>s. case s of ExitErr n \<Rightarrow> True | _ \<Rightarrow> False) e of
                     Some (ExitErr n) \<Rightarrow> n
                   | _ \<Rightarrow> -1))"

section \<open>Client configuration (client_config.go)\<close>

definition hostKeyAlgorithms :: "bool \<Rightarrow> string list" where
  "hostKeyAlgorithms legacy =
     [''ssh-ed25519'', ''rsa-sha2-512'', ''rsa-sha2-256'', ''ecdsa-sha2-nistp256'']
     @ (if legacy then [''ssh-rsa''] else [])"

text \<open>What the known-hosts check answers: no error, a key error with the wanted keys, or another error.\<close>

datatype 'k check = CheckOK | KeyError "'k list" | CheckErr goerr

definition wrapHostKeyCallback :: "(string \<Rightarrow> 'k \<Rightarrow> 'k check) \<Rightarrow> string \<Rightarrow> 'k \<Rightarrow> goerr option" where
  "wrapHostKeyCallback db hostname key =
     (case db hostname key of
        CheckOK \<Rightarrow> None
      | KeyError want \<Rightarrow>
          if want = [] then Some [SshE ErrHostKeyUnknown] else Some [SshE ErrHostKeyMismatch]
      | CheckErr e \<Rightarrow> Some e)"

record 'k ClientConfig =
  CUser :: string
  HostKeyAlgorithms :: "string list"
  HostKeyCallback :: "string \<Rightarrow> 'k \<Rightarrow> goerr option"
  CTimeout :: int

definition BuildClientConfig ::
  "Target \<Rightarrow> (string \<Rightarrow> 'k \<Rightarrow> 'k check) option \<Rightarrow> bool \<Rightarrow> int \<Rightarrow> 'k ClientConfig res" where
  "BuildClientConfig target db legacy timeout =
     (case db of
        None \<Rightarrow> Inl [SshE ErrHostKeyDBRequired]
      | Some d \<Rightarrow> Inr \<lparr>CUser = TUser target, HostKeyAlgorithms = hostKeyAlgorithms legacy,
                        HostKeyCallback = wrapHostKeyCallback d, CTimeout = timeout\<rparr>)"

section \<open>Pool keys do not collide\<close>

lemma split_at_char: "c \<notin> set p \<Longrightarrow> c \<notin> set q \<Longrightarrow> p @ c # s = q @ c # t \<Longrightarrow> p = q \<and> s = t"
proof (induction p arbitrary: q)
  case Nil
  then show ?case by (cases q) auto
next
  case (Cons x xs)
  then show ?case by (cases q) auto
qed

lemma split_at_last_char: "c \<notin> set s \<Longrightarrow> c \<notin> set t \<Longrightarrow> p @ c # s = q @ c # t \<Longrightarrow> p = q \<and> s = t"
  using split_at_char [of c "rev s" "rev t" "rev p" "rev q"]
  by (metis append.assoc append_Cons append_Nil rev.simps(2) rev_append rev_rev_ident set_rev)

lemma itoa_colon: "CHR '':'' \<notin> set (itoa n)"
proof -
  have "CHR '':'' \<notin> set (nat_string k)" for k
    using nat_string_digits [of k] by (auto simp: list_all_iff is_digit_def less_eq_char_def)
  then show ?thesis by (simp add: itoa_def)
qed

lemma nat_string_inj: "nat_string m = nat_string n \<Longrightarrow> m = n"
  by (metis digits_val_nat_string)

lemma itoa_inj: "itoa m = itoa n \<Longrightarrow> m = n"
proof -
  have no_sign: "nat_string k \<noteq> CHR ''-'' # s" for k s
    using nat_string_hd_digit [of k] by auto
  show "itoa m = itoa n \<Longrightarrow> m = n"
    using no_sign by (auto simp: itoa_def split: if_splits dest!: nat_string_inj) (metis no_sign)+
qed

text \<open>
  Connections are never shared across accounts: two targets whose users contain no at sign have
  the same pool key only if host, port and user agree.
\<close>

theorem Key_injective:
  assumes "CHR ''@'' \<notin> set (TUser s)" "CHR ''@'' \<notin> set (TUser t)" "Key s = Key t"
  shows "TUser s = TUser t \<and> THost s = THost t \<and> TPort s = TPort t"
proof -
  have "TUser s @ CHR ''@'' # THost s @ CHR '':'' # itoa (TPort s) = TUser t @ CHR ''@'' # THost t @ CHR '':'' # itoa (TPort t)"
    using assms(3) by (simp add: Key_def)
  from split_at_char [OF assms(1,2) this] have u: "TUser s = TUser t"
      "THost s @ CHR '':'' # itoa (TPort s) = THost t @ CHR '':'' # itoa (TPort t)" by auto
  from split_at_last_char [OF itoa_colon itoa_colon u(2)] itoa_inj u(1) show ?thesis by blast
qed

definition example_target :: Target where
  "example_target = \<lparr>THost = ''s1.small.pl'', TPort = 22, TUser = ''adam'', TAlias = ''main''\<rparr>"

theorem Key_injective_witness:
  "TUser example_target = TUser (example_target\<lparr>TAlias := ''other''\<rparr>)
   \<and> THost example_target = THost (example_target\<lparr>TAlias := ''other''\<rparr>)
   \<and> TPort example_target = TPort (example_target\<lparr>TAlias := ''other''\<rparr>)"
  by (rule Key_injective) (simp_all add: example_target_def Key_def)

text \<open>
  Without the restriction on the user name the keys do collide: user \<open>a@b\<close> on host \<open>c\<close> and user
  \<open>a\<close> on host \<open>b@c\<close> share one pool bucket.
\<close>

theorem Key_collides:
  "Key \<lparr>THost = ''c'', TPort = p, TUser = ''a@b'', TAlias = x\<rparr> = Key \<lparr>THost = ''b@c'', TPort = p, TUser = ''a'', TAlias = y\<rparr>"
  by (simp add: Key_def)

text \<open>
  A host whose key is not known to be right is never trusted: the callback accepts only what the
  known-hosts database accepts, tells an unknown host from a changed key, and no configuration can be
  built without a database; the SHA-1 algorithm is offered only in compatibility mode and DSA never.
\<close>

theorem host_key_strict:
  "(wrapHostKeyCallback db h k = None \<longleftrightarrow> db h k = CheckOK)
   \<and> (wrapHostKeyCallback db h k = Some [SshE ErrHostKeyUnknown] \<longleftrightarrow>
        db h k = KeyError [] \<or> db h k = CheckErr [SshE ErrHostKeyUnknown])
   \<and> (wrapHostKeyCallback db h k = Some [SshE ErrHostKeyMismatch] \<longleftrightarrow>
        (\<exists>w ws. db h k = KeyError (w # ws)) \<or> db h k = CheckErr [SshE ErrHostKeyMismatch])
   \<and> BuildClientConfig t None legacy timeout = Inl [SshE ErrHostKeyDBRequired]
   \<and> (''ssh-rsa'' \<in> set (hostKeyAlgorithms legacy) \<longleftrightarrow> legacy) \<and> ''ssh-dss'' \<notin> set (hostKeyAlgorithms legacy)"
  by (cases "db h k") (auto simp: wrapHostKeyCallback_def BuildClientConfig_def hostKeyAlgorithms_def neq_Nil_conv)

end
