(* ===== verification/Smallhost.thy ===== *)
theory Smallhost
  imports Providers Ssh_Types
begin

text \<open>
  The small.pl adapter (\<open>src/providers/smallhost\<close>): the input validators and the remote paths
  (\<open>paths.go\<close>), the properties bag (\<open>config.go\<close>), the executor seam (\<open>executor.go\<close>), the parsers of the
  panel's output (\<open>parsers.go\<close>) and the provider methods (\<open>methods.go\<close>). The remote shell behind the
  executor is a parameter: a function from the command line and the world to a result.
\<close>

section \<open>Validators and paths (paths.go)\<close>

definition domainsRoot :: string where "domainsRoot = ''/usr/home''"
definition maxDomainLength :: nat where "maxDomainLength = 253"

definition lower_alnum :: "char \<Rightarrow> bool" where
  "lower_alnum c \<longleftrightarrow> (CHR ''a'' \<le> c \<and> c \<le> CHR ''z'') \<or> is_digit c"

definition domainLabelPattern :: re where
  "domainLabelPattern =
     whole (Seq (Cls lower_alnum)
       (opt (Seq (between 0 61 (Cls (\<lambda>c. lower_alnum c \<or> c = CHR ''-''))) (Cls lower_alnum))))"

definition userPattern :: re where
  "userPattern = whole (between 1 32 (Cls (\<lambda>c. lower_alnum c \<or> c = CHR ''_'' \<or> c = CHR ''-'')))"

definition bad_domain_byte :: "char \<Rightarrow> bool" where
  "bad_domain_byte c \<longleftrightarrow> c \<le> CHR 0x20 \<or> c = CHR 0x7F \<or> c = CHR ''/'' \<or> c = CHR 0x5C"

definition sh_ValidateDomain :: "string \<Rightarrow> goerr option" where
  "sh_ValidateDomain domain =
     (let trimmed = trim_space domain in
      if trimmed = [] then Some [SmallhostE ErrInvalidDomain]
      else if trimmed \<noteq> domain then Some [SmallhostE ErrInvalidDomain]
      else if length domain > maxDomainLength then Some [SmallhostE ErrInvalidDomain]
      else if list_ex bad_domain_byte domain then Some [SmallhostE ErrInvalidDomain]
      else if list_ex (\<lambda>label. label = ''..'' \<or> \<not> match_string domainLabelPattern label)
                (split_char CHR ''.'' domain)
      then Some [SmallhostE ErrInvalidDomain]
      else None)"

definition sh_ValidateUser :: "string \<Rightarrow> goerr option" where
  "sh_ValidateUser user =
     (if user = [] then Some [SmallhostE ErrInvalidUser]
      else if \<not> match_string userPattern user then Some [SmallhostE ErrInvalidUser]
      else None)"

text \<open>\<open>joinPath\<close>: a separator is written unless what is there already ends in one.\<close>

fun join_onto :: "string \<Rightarrow> string list \<Rightarrow> string" where
  "join_onto sb [] = sb"
| "join_onto sb (seg # segs) =
     join_onto ((if has_suffix sb ''/'' then sb else sb @ ''/'') @ seg) segs"

definition joinPath :: "string list \<Rightarrow> string" where
  "joinPath segments = (case segments of [] \<Rightarrow> [] | s # ss \<Rightarrow> join_onto s ss)"

section \<open>Configuration (config.go, executor.go)\<close>

definition providerName :: string where "providerName = ''smallhost''"
definition restartMethodDevil :: string where "restartMethodDevil = ''devil''"

record Properties =
  RestartMethod :: string
  SSHPoolMax :: int
  LegacyAlgorithmCompat :: bool

type_synonym 'w executor = "string \<Rightarrow> 'w \<Rightarrow> (ExecResult \<times> goerr option) \<times> 'w"

text \<open>The clock seam reads the time, in nanoseconds, off the world.\<close>

record 'w Provider =
  cfg :: ProviderConfig
  props :: Properties
  exec_seam :: "'w executor option"
  now :: "'w \<Rightarrow> int"

definition parseProperties :: "string gomap \<Rightarrow> Properties res" where
  "parseProperties raw =
     (let out = \<lparr>RestartMethod = restartMethodDevil, SSHPoolMax = 3, LegacyAlgorithmCompat = False\<rparr> in
      case (case map_of raw ''restart_method'' of
              None \<Rightarrow> Inr out
            | Some v \<Rightarrow> if v \<noteq> restartMethodDevil then Inl [ProviderE ErrInvalidProviderConfig]
                         else Inr (out\<lparr>RestartMethod := v\<rparr>)) of
        Inl e \<Rightarrow> Inl e
      | Inr out \<Rightarrow>
      case (case map_of raw ''ssh_pool_max'' of
              None \<Rightarrow> Inr out
            | Some v \<Rightarrow>
                (case parse_int64 v of
                   None \<Rightarrow> Inl [ProviderE ErrInvalidProviderConfig]
                 | Some n \<Rightarrow> if n < 1 \<or> n > 16 then Inl [ProviderE ErrInvalidProviderConfig]
                              else Inr (out\<lparr>SSHPoolMax := n\<rparr>))) of
        Inl e \<Rightarrow> Inl e
      | Inr out \<Rightarrow>
      (case map_of raw ''ssh_algorithms_legacy_compat'' of
         None \<Rightarrow> Inr out
       | Some v \<Rightarrow>
           (case parse_bool v of
              None \<Rightarrow> Inl [ProviderE ErrInvalidProviderConfig]
            | Some b \<Rightarrow> Inr (out\<lparr>LegacyAlgorithmCompat := b\<rparr>))))"

definition sh_New :: "('w \<Rightarrow> int) \<Rightarrow> ProviderConfig \<Rightarrow> 'w Provider res" where
  "sh_New clock c =
     (if PType c \<noteq> providerName then Inl [ProviderE ErrInvalidProviderConfig]
      else case parseProperties (case Props c of None \<Rightarrow> [] | Some m \<Rightarrow> m) of
        Inl e \<Rightarrow> Inl e
      | Inr ps \<Rightarrow> Inr \<lparr>cfg = c, props = ps, exec_seam = None, now = clock\<rparr>)"

definition SetExecutor :: "'w Provider \<Rightarrow> 'w executor option \<Rightarrow> 'w Provider" where
  "SetExecutor p e = p\<lparr>exec_seam := e\<rparr>"

definition sh_exec :: "'w Provider \<Rightarrow> string \<Rightarrow> 'w \<Rightarrow> (ExecResult \<times> goerr option) \<times> 'w" where
  "sh_exec p command w =
     (case exec_seam p of
        None \<Rightarrow> ((\<lparr>Stdout = [], Stderr = [], ExitCode = 0, Duration = 0\<rparr>,
                  Some (wrap (ProviderE ErrUnknownOutputFormat) [SmallhostE ErrExecutorNotConfigured])), w)
      | Some e \<Rightarrow> e command w)"

definition sh_GetDeployPath :: "'w Provider \<Rightarrow> string \<Rightarrow> string" where
  "sh_GetDeployPath p domain =
     (if sh_ValidateDomain domain \<noteq> None \<or> sh_ValidateUser (User (cfg p)) \<noteq> None then []
      else joinPath [domainsRoot, User (cfg p), ''domains'', domain, ''public_nodejs'', ''public''])"

definition sh_GetLogPath :: "'w Provider \<Rightarrow> string \<Rightarrow> string" where
  "sh_GetLogPath p domain =
     (if sh_ValidateDomain domain \<noteq> None \<or> sh_ValidateUser (User (cfg p)) \<noteq> None then []
      else joinPath [domainsRoot, User (cfg p), ''domains'', domain, ''logs''])"

definition EnvPath :: "'w Provider \<Rightarrow> string \<Rightarrow> string" where
  "EnvPath p domain =
     (if sh_ValidateDomain domain \<noteq> None \<or> sh_ValidateUser (User (cfg p)) \<noteq> None then []
      else joinPath [domainsRoot, User (cfg p), ''domains'', domain, ''public_nodejs'', ''.env''])"

definition StoragePath :: "'w Provider \<Rightarrow> string \<Rightarrow> string" where
  "StoragePath p domain =
     (if sh_ValidateDomain domain \<noteq> None \<or> sh_ValidateUser (User (cfg p)) \<noteq> None then []
      else joinPath [domainsRoot, User (cfg p), ''domains'', domain, ''public_nodejs'', ''public'', ''uploads''])"

section \<open>Parsers of the panel's output (parsers.go)\<close>

definition maxOutputSize :: nat where "maxOutputSize = 2 ^ 20"

definition ansiEscapeRegex :: re where
  "ansiEscapeRegex =
     seqs [Cls (\<lambda>c. c = CHR 0x1B), Cls (\<lambda>c. c = CHR ''[''),
           Star (Cls (\<lambda>c. is_digit c \<or> c = CHR '';'')),
           Cls (\<lambda>c. (CHR ''A'' \<le> c \<and> c \<le> CHR ''Z'') \<or> (CHR ''a'' \<le> c \<and> c \<le> CHR ''z''))]"

definition clean_byte :: "char \<Rightarrow> bool" where
  "clean_byte c \<longleftrightarrow> c = CHR 0x0A \<or> c = CHR 0x09 \<or> (CHR 0x20 \<le> c \<and> c < CHR 0x7F)"

definition stripAndNormalize :: "string \<Rightarrow> string res" where
  "stripAndNormalize raw =
     (if length raw > maxOutputSize then Inl [ProviderE ErrOutputTooLarge]
      else
        let clean = replace_matches ansiEscapeRegex [] raw;
            clean = replace_all clean [CHR 0x0D, CHR 0x0A] [CHR 0x0A];
            clean = replace_all clean [CHR 0x0D] [CHR 0x0A]
        in if list_all clean_byte clean then Inr clean else Inl [ProviderE ErrUnknownOutputFormat])"

definition is_re_space :: "char \<Rightarrow> bool" where
  "is_re_space c \<longleftrightarrow> c \<in> set [CHR 0x09, CHR 0x0A, CHR 0x0C, CHR 0x0D, CHR 0x20]"

definition nonspaces :: re where "nonspaces = plus (Cls (\<lambda>c. \<not> is_re_space c))"
definition spaces1 :: re where "spaces1 = plus (Cls is_re_space)"
definition spaces0 :: re where "spaces0 = Star (Cls is_re_space)"

record WwwAddResult =
  wwwDomain :: string
  wwwNodeVersion :: string

definition wwwAddOKRegex :: re where
  "wwwAddOKRegex =
     seqs [BeginText, lit ''Added domain '', Grp 1 nonspaces, lit '' with nodejs '', Grp 2 nonspaces,
           spaces0, EndText]"

definition group :: "(nat \<Rightarrow> string option) \<Rightarrow> nat \<Rightarrow> string" where
  "group m k = (case m k of None \<Rightarrow> [] | Some s \<Rightarrow> s)"

fun parse_add_lines :: "string list \<Rightarrow> WwwAddResult option" where
  "parse_add_lines [] = None"
| "parse_add_lines (line # lines) =
     (case submatch wwwAddOKRegex (trim_space line) of
        Some m \<Rightarrow> Some \<lparr>wwwDomain = group m 1, wwwNodeVersion = group m 2\<rparr>
      | None \<Rightarrow> parse_add_lines lines)"

definition parseWwwAdd :: "string \<Rightarrow> WwwAddResult res" where
  "parseWwwAdd raw =
     (case stripAndNormalize raw of
        Inl e \<Rightarrow> Inl e
      | Inr clean \<Rightarrow>
          let text = trim_space clean in
          if has_prefix text ''exists:'' then Inl [ProviderE ErrSubdomainExists]
          else if has_prefix text ''invalid node version'' then Inl [ProviderE ErrNodeVersionUnsupported]
          else (case parse_add_lines (split_char CHR 0x0A text) of
                  Some r \<Rightarrow> Inr r
                | None \<Rightarrow> Inl [ProviderE ErrUnknownOutputFormat]))"

definition parseWwwRestart :: "string \<Rightarrow> goerr option" where
  "parseWwwRestart raw =
     (case stripAndNormalize raw of
        Inl e \<Rightarrow> Some e
      | Inr clean \<Rightarrow>
          let text = trim_space clean in
          if has_prefix text ''Restarted '' then None
          else if has_prefix text ''not a nodejs domain'' then Some [ProviderE ErrAppNotNode]
          else if has_prefix text ''not found'' then Some [ProviderE ErrAppNotFound]
          else Some [ProviderE ErrUnknownOutputFormat])"

definition wwwListLineRegex :: re where
  "wwwListLineRegex =
     seqs [BeginText, Grp 1 nonspaces, spaces1, Grp 2 (alts [lit ''nodejs'', lit ''static'', lit ''php'']),
           spaces1, Grp 3 nonspaces, spaces0, EndText]"

definition ipv4Regex :: re where
  "ipv4Regex =
     (let d = between 1 3 (Cls is_digit); dot = Cls (\<lambda>c. c = CHR ''.'')
      in seqs [WordB, d, dot, d, dot, d, dot, d, WordB])"

record VhostEntry =
  vhDomain :: string
  vhIP :: string
  vhType :: string

text \<open>The loop over the rows: the row number, the rows still to do, the entries so far and the account IP.\<close>

fun vhost_rows :: "nat \<Rightarrow> string list \<Rightarrow> VhostEntry list \<Rightarrow> string \<Rightarrow> (VhostEntry list \<times> string) res" where
  "vhost_rows i [] entries accountIP = Inr (entries, accountIP)"
| "vhost_rows i (l # ls) entries accountIP =
     (let line = trim_space l in
      if line = [] then vhost_rows (Suc i) ls entries accountIP
      else if i = 0 \<and> has_prefix line ''domain'' then vhost_rows (Suc i) ls entries accountIP
      else
        (case str_fields line of
           d # ip # ty # _ \<Rightarrow>
             if \<not> match_string ipv4Regex ip then Inl [ProviderE ErrUnknownOutputFormat]
             else vhost_rows (Suc i) ls (entries @ [\<lparr>vhDomain = d, vhIP = ip, vhType = ty\<rparr>])
                    (if accountIP = [] then ip else accountIP)
         | _ \<Rightarrow> Inl [ProviderE ErrUnknownOutputFormat]))"

definition parseVhostList :: "string \<Rightarrow> (VhostEntry list \<times> string) res" where
  "parseVhostList raw =
     (case stripAndNormalize raw of
        Inl e \<Rightarrow> Inl e
      | Inr clean \<Rightarrow>
          (case vhost_rows 0 (split_char CHR 0x0A clean) [] [] of
             Inl e \<Rightarrow> Inl e
           | Inr (entries, accountIP) \<Rightarrow>
               if accountIP = [] then Inl [ProviderE ErrUnknownOutputFormat]
               else Inr (entries, accountIP)))"

definition parseSSLAdd :: "string \<Rightarrow> goerr option" where
  "parseSSLAdd raw =
     (case stripAndNormalize raw of
        Inl e \<Rightarrow> Some e
      | Inr clean \<Rightarrow>
          let text = trim_space clean; lower = to_lower text in
          if has_prefix text ''Certificate installed'' then None
          else if contains lower ''dns not configured'' \<or> contains lower ''dns not resolving''
          then Some [ProviderE ErrDNSNotResolving]
          else if contains lower ''rate limit'' then Some [ProviderE ErrRateLimitLetsEncrypt]
          else Some [ProviderE ErrUnknownOutputFormat])"

definition parseSSLDelete :: "string \<Rightarrow> goerr option" where
  "parseSSLDelete raw =
     (case stripAndNormalize raw of
        Inl e \<Rightarrow> Some e
      | Inr clean \<Rightarrow>
          let text = trim_space clean in
          if has_prefix text ''Removed SSL'' then None
          else if has_prefix text ''no cert'' then None
          else Some [ProviderE ErrUnknownOutputFormat])"

record DBAddResult =
  dbUser :: string
  dbPassword :: string

definition dbUserRegex :: re where
  "dbUserRegex = seqs [BeginLine, lit ''Username:'', spaces1, Grp 1 nonspaces, spaces0, EndLine]"

definition dbPassRegex :: re where
  "dbPassRegex = seqs [BeginLine, lit ''Password:'', spaces1, Grp 1 nonspaces, spaces0, EndLine]"

definition parseDBAdd :: "string \<Rightarrow> DBAddResult res" where
  "parseDBAdd raw =
     (case stripAndNormalize raw of
        Inl e \<Rightarrow> Inl e
      | Inr text \<Rightarrow>
          if contains text ''database exists'' then Inl [ProviderE ErrDBNameTaken]
          else (case (submatch dbUserRegex text, submatch dbPassRegex text) of
                  (Some u, Some p) \<Rightarrow> Inr \<lparr>dbUser = group u 1, dbPassword = group p 1\<rparr>
                | _ \<Rightarrow> Inl [ProviderE ErrUnknownOutputFormat]))"

definition parseDBDelete :: "string \<Rightarrow> goerr option" where
  "parseDBDelete raw =
     (case stripAndNormalize raw of
        Inl e \<Rightarrow> Some e
      | Inr clean \<Rightarrow>
          let text = trim_space clean in
          if has_prefix text ''Deleted '' then None
          else if has_prefix text ''not found'' then None
          else Some [ProviderE ErrUnknownOutputFormat])"

fun www_rows :: "nat \<Rightarrow> string list \<Rightarrow> Subdomain list \<Rightarrow> Subdomain list res" where
  "www_rows i [] out = Inr out"
| "www_rows i (l # ls) out =
     (let line = trim_space l in
      if line = [] then www_rows (Suc i) ls out
      else if i = 0 \<and> has_prefix line ''domain'' then www_rows (Suc i) ls out
      else
        (case submatch wwwListLineRegex line of
           None \<Rightarrow> Inl [ProviderE ErrUnknownOutputFormat]
         | Some m \<Rightarrow>
             www_rows (Suc i) ls
               (out @ [\<lparr>Domain = group m 1, SType = group m 2,
                        NodeVersion = (if group m 3 \<noteq> ''-'' then group m 3 else [])\<rparr>])))"

definition parseWwwList :: "string \<Rightarrow> Subdomain list res" where
  "parseWwwList raw =
     (case stripAndNormalize raw of
        Inl e \<Rightarrow> Inl e
      | Inr clean \<Rightarrow> www_rows 0 (split_char CHR 0x0A clean) [])"

section \<open>Provider methods (methods.go)\<close>

definition dbNamePattern :: re where
  "dbNamePattern = whole (between 1 32 (Cls (\<lambda>c. lower_alnum c \<or> c = CHR ''_'')))"

definition version_char :: "char \<Rightarrow> bool" where
  "version_char c \<longleftrightarrow> (CHR ''a'' \<le> c \<and> c \<le> CHR ''z'') \<or> (CHR ''A'' \<le> c \<and> c \<le> CHR ''Z'') \<or> is_digit c
     \<or> c = CHR ''.'' \<or> c = CHR ''_'' \<or> c = CHR ''-''"

definition nodeVersionPattern :: re where
  "nodeVersionPattern = whole (between 1 16 (Cls version_char))"

definition sh_ValidateDBName :: "string \<Rightarrow> goerr option" where
  "sh_ValidateDBName name =
     (if name = [] then Some [SmallhostE ErrInvalidDBName]
      else if \<not> match_string dbNamePattern name then Some [SmallhostE ErrInvalidDBName]
      else None)"

definition sh_ValidateNodeVersion :: "string \<Rightarrow> goerr option" where
  "sh_ValidateNodeVersion version =
     (if version = [] then Some [SmallhostE ErrInvalidNodeVersion]
      else if \<not> match_string nodeVersionPattern version then Some [SmallhostE ErrInvalidNodeVersion]
      else None)"

definition combine :: "ExecResult \<Rightarrow> string" where
  "combine out =
     (if Stderr out = [] then Stdout out
      else if Stdout out = [] then Stderr out
      else Stdout out @ [CHR 0x0A] @ Stderr out)"

definition parseDeleteOutcome :: "string \<Rightarrow> string \<Rightarrow> goerr option" where
  "parseDeleteOutcome raw successPrefix =
     (case stripAndNormalize raw of
        Inl e \<Rightarrow> Some e
      | Inr clean \<Rightarrow>
          let text = trim_space clean in
          if has_prefix text successPrefix then None
          else if has_prefix text ''not found'' then None
          else Some [ProviderE ErrUnknownOutputFormat])"

text \<open>Running one command and handing its combined output to a parser, or passing its error on.\<close>

definition run_parse :: "'w Provider \<Rightarrow> string \<Rightarrow> (string \<Rightarrow> goerr option) \<Rightarrow> 'w \<Rightarrow> goerr option \<times> 'w" where
  "run_parse p cmd parse w =
     (case sh_exec p cmd w of
        ((out, Some err), w) \<Rightarrow> (Some err, w)
      | ((out, None), w) \<Rightarrow> (parse (combine out), w))"

definition sh_CreateSubdomain :: "'w Provider \<Rightarrow> string \<Rightarrow> string \<Rightarrow> 'w \<Rightarrow> goerr option \<times> 'w" where
  "sh_CreateSubdomain p domain nodeVersion w =
     (case sh_ValidateDomain domain of
        Some err \<Rightarrow> (Some (wrap (ProviderE ErrInvalidProviderConfig) err), w)
      | None \<Rightarrow>
     (case sh_ValidateNodeVersion nodeVersion of
        Some err \<Rightarrow> (Some (wrap (ProviderE ErrInvalidProviderConfig) err), w)
      | None \<Rightarrow>
          run_parse p (join '' '' [''devil'', ''www add'', domain, ''nodejs'', nodeVersion])
            (\<lambda>out. case parseWwwAdd out of Inl e \<Rightarrow> Some e | Inr _ \<Rightarrow> None) w))"

definition sh_RestartNodeApp :: "'w Provider \<Rightarrow> string \<Rightarrow> 'w \<Rightarrow> goerr option \<times> 'w" where
  "sh_RestartNodeApp p domain w =
     (case sh_ValidateDomain domain of
        Some err \<Rightarrow> (Some (wrap (ProviderE ErrInvalidProviderConfig) err), w)
      | None \<Rightarrow> run_parse p (join '' '' [''devil'', ''www restart'', domain]) parseWwwRestart w)"

definition sh_ListSubdomains :: "'w Provider \<Rightarrow> 'w \<Rightarrow> Subdomain list res \<times> 'w" where
  "sh_ListSubdomains p w =
     (case sh_exec p ''devil www list'' w of
        ((out, Some err), w) \<Rightarrow> (Inl err, w)
      | ((out, None), w) \<Rightarrow> (parseWwwList (combine out), w))"

definition sh_RemoveSubdomain :: "'w Provider \<Rightarrow> string \<Rightarrow> 'w \<Rightarrow> goerr option \<times> 'w" where
  "sh_RemoveSubdomain p domain w =
     (case sh_ValidateDomain domain of
        Some err \<Rightarrow> (Some (wrap (ProviderE ErrInvalidProviderConfig) err), w)
      | None \<Rightarrow>
          run_parse p (join '' '' [''devil'', ''www del'', domain])
            (\<lambda>out. parseDeleteOutcome out ''Deleted'') w)"

definition accountIP :: "'w Provider \<Rightarrow> 'w \<Rightarrow> string res \<times> 'w" where
  "accountIP p w =
     (case sh_exec p ''devil vhost list'' w of
        ((out, Some err), w) \<Rightarrow> (Inl err, w)
      | ((out, None), w) \<Rightarrow>
          ((case parseVhostList (combine out) of Inl e \<Rightarrow> Inl e | Inr (_, ip) \<Rightarrow> Inr ip), w))"

definition sh_SetupSSL :: "'w Provider \<Rightarrow> string \<Rightarrow> 'w \<Rightarrow> goerr option \<times> 'w" where
  "sh_SetupSSL p domain w =
     (case sh_ValidateDomain domain of
        Some err \<Rightarrow> (Some (wrap (ProviderE ErrInvalidProviderConfig) err), w)
      | None \<Rightarrow>
     (case accountIP p w of
        (Inl err, w) \<Rightarrow> (Some err, w)
      | (Inr ip, w) \<Rightarrow>
          run_parse p (join '' '' [''devil'', ''ssl www add'', ip, ''le'', ''le'', domain]) parseSSLAdd w))"

definition sh_RemoveSSL :: "'w Provider \<Rightarrow> string \<Rightarrow> 'w \<Rightarrow> goerr option \<times> 'w" where
  "sh_RemoveSSL p domain w =
     (case sh_ValidateDomain domain of
        Some err \<Rightarrow> (Some (wrap (ProviderE ErrInvalidProviderConfig) err), w)
      | None \<Rightarrow>
     (case accountIP p w of
        (Inl err, w) \<Rightarrow> (Some err, w)
      | (Inr ip, w) \<Rightarrow>
          run_parse p (join '' '' [''devil'', ''ssl www del'', ip, domain]) parseSSLDelete w))"

definition dbAddSubcommand :: "string \<Rightarrow> string res" where
  "dbAddSubcommand dbType =
     (if dbType = DatabaseMySQL then Inr ''mysql add''
      else if dbType = DatabasePostgres then Inr ''pgsql add''
      else Inl [ProviderE ErrInvalidProviderConfig])"

definition dbDeleteSubcommand :: "string \<Rightarrow> string res" where
  "dbDeleteSubcommand dbType =
     (if dbType = DatabaseMySQL then Inr ''mysql del''
      else if dbType = DatabasePostgres then Inr ''pgsql del''
      else Inl [ProviderE ErrInvalidProviderConfig])"

definition sh_CreateDatabase ::
  "'w Provider \<Rightarrow> string \<Rightarrow> string \<Rightarrow> 'w \<Rightarrow> (string \<times> string) res \<times> 'w" where
  "sh_CreateDatabase p dbType dbName w =
     (case sh_ValidateDBName dbName of
        Some err \<Rightarrow> (Inl (wrap (ProviderE ErrInvalidProviderConfig) err), w)
      | None \<Rightarrow>
     (case dbAddSubcommand dbType of
        Inl err \<Rightarrow> (Inl err, w)
      | Inr subCmd \<Rightarrow>
     (case sh_exec p (join '' '' [''devil'', subCmd, dbName]) w of
        ((out, Some err), w) \<Rightarrow> (Inl err, w)
      | ((out, None), w) \<Rightarrow>
          ((case parseDBAdd (combine out) of
              Inl e \<Rightarrow> Inl e
            | Inr res \<Rightarrow> Inr (dbUser res, dbPassword res)), w))))"

definition sh_RemoveDatabase :: "'w Provider \<Rightarrow> string \<Rightarrow> string \<Rightarrow> 'w \<Rightarrow> goerr option \<times> 'w" where
  "sh_RemoveDatabase p dbType dbName w =
     (case sh_ValidateDBName dbName of
        Some err \<Rightarrow> (Some (wrap (ProviderE ErrInvalidProviderConfig) err), w)
      | None \<Rightarrow>
     (case dbDeleteSubcommand dbType of
        Inl err \<Rightarrow> (Some err, w)
      | Inr subCmd \<Rightarrow> run_parse p (join '' '' [''devil'', subCmd, dbName]) parseDBDelete w))"

definition clampTailLines :: "int \<Rightarrow> int" where
  "clampTailLines n = (if n \<le> 0 then 200 else if n > 10000 then 10000 else n)"

definition sh_TailLog :: "'w Provider \<Rightarrow> string \<Rightarrow> int \<Rightarrow> 'w \<Rightarrow> string res \<times> 'w" where
  "sh_TailLog p domain lines w =
     (case sh_ValidateDomain domain of
        Some err \<Rightarrow> (Inl (wrap (ProviderE ErrInvalidProviderConfig) err), w)
      | None \<Rightarrow>
          let lines = clampTailLines lines; logDir = sh_GetLogPath p domain in
          if logDir = [] then (Inl [ProviderE ErrInvalidProviderConfig], w)
          else (case sh_exec p (join '' '' [''tail'', ''-n'', itoa lines, ''--'',
                       joinPath [logDir, ''node.log''], joinPath [logDir, ''error.log'']]) w of
                  ((out, Some err), w) \<Rightarrow> (if ExitCode out > 0 then Inr (combine out) else Inl err, w)
                | ((out, None), w) \<Rightarrow> (Inr (Stdout out), w)))"

definition sh_CheckStatus :: "'w Provider \<Rightarrow> 'w \<Rightarrow> ProviderStatus option \<times> goerr option \<times> 'w" where
  "sh_CheckStatus p w =
     (let start = now p w in
      case sh_exec p ''devil --version'' w of
        ((out, err), w') \<Rightarrow>
          let latencyMS = go_div (now p w' - start) 1000000 in
          (case err of
             Some e \<Rightarrow> (Some \<lparr>SSHConnected = False, CLIInstalled = False, LatencyMS = latencyMS\<rparr>, Some e, w')
           | None \<Rightarrow>
               let status = \<lparr>SSHConnected = True, CLIInstalled = (ExitCode out = 0), LatencyMS = latencyMS\<rparr> in
               if ExitCode out = 127 then (Some status, Some [ProviderE ErrCLINotFound], w')
               else (Some status, None, w')))"

text \<open>The adapter as a value of the interface, and what its \<open>init\<close> registers.\<close>

definition smallhost_provider :: "'w Provider \<Rightarrow> 'w HostingProvider" where
  "smallhost_provider p =
     \<lparr>Name = providerName,
      CreateSubdomain = sh_CreateSubdomain p,
      SetupSSL = sh_SetupSSL p,
      CreateDatabase = sh_CreateDatabase p,
      RestartNodeApp = sh_RestartNodeApp p,
      GetDeployPath = sh_GetDeployPath p,
      GetLogPath = sh_GetLogPath p,
      TailLog = sh_TailLog p,
      CheckStatus = sh_CheckStatus p,
      ListSubdomains = sh_ListSubdomains p,
      RemoveSubdomain = sh_RemoveSubdomain p,
      RemoveDatabase = sh_RemoveDatabase p,
      RemoveSSL = sh_RemoveSSL p\<rparr>"

definition smallhost_validators :: PlanValidators where
  "smallhost_validators =
     \<lparr>ValidateDomain = Some sh_ValidateDomain,
      ValidateNodeVersion = Some sh_ValidateNodeVersion,
      ValidateDBName = Some sh_ValidateDBName\<rparr>"

definition smallhost_init ::
  "('w \<Rightarrow> int) \<Rightarrow> 'w Provider factory gomap \<times> PlanValidators gomap \<Rightarrow>
   ('w Provider factory gomap \<times> PlanValidators gomap) res" where
  "smallhost_init clock regs =
     (case Register providerName (Some (sh_New clock)) (fst regs) of
        (Some e, _) \<Rightarrow> Inl e
      | (None, r) \<Rightarrow>
          (case RegisterPlanValidators providerName smallhost_validators (snd regs) of
             (Some e, _) \<Rightarrow> Inl e
           | (None, v) \<Rightarrow> Inr (r, v)))"

definition valid_label :: "string \<Rightarrow> bool" where
  "valid_label l \<longleftrightarrow> 1 \<le> length l \<and> length l \<le> 63 \<and> list_all (\<lambda>c. lower_alnum c \<or> c = CHR ''-'') l
     \<and> hd l \<noteq> CHR ''-'' \<and> last l \<noteq> CHR ''-''"

lemma not_lower_dash [simp]: "\<not> lower_alnum CHR ''-''"
  by (simp add: lower_alnum_def is_digit_def less_eq_char_def)

lemma domainLabelPattern_iff: "match_string domainLabelPattern l \<longleftrightarrow> valid_label l"
proof -
  let ?P = "\<lambda>c. lower_alnum c \<or> c = CHR ''-''"
  have "match_string domainLabelPattern l \<longleftrightarrow>
      (\<exists>x w. l = x # w \<and> lower_alnum x \<and>
         (w = [] \<or> (\<exists>u y. w = u @ [y] \<and> length u \<le> 61 \<and> list_all ?P u \<and> lower_alnum y)))"
    unfolding domainLabelPattern_def
    by (subst match_whole)
      (simp, auto simp: lang_between_Cls lang_Seq_Cls lang_Seq_snoc simp del: lang.simps(3))
  also have "\<dots> \<longleftrightarrow> valid_label l"
  proof
    assume "\<exists>x w. l = x # w \<and> lower_alnum x \<and>
         (w = [] \<or> (\<exists>u y. w = u @ [y] \<and> length u \<le> 61 \<and> list_all ?P u \<and> lower_alnum y))"
    then show "valid_label l" by (auto simp: valid_label_def)
  next
    assume v: "valid_label l"
    then obtain x w where l: "l = x # w" by (cases l) (auto simp: valid_label_def)
    show "\<exists>x w. l = x # w \<and> lower_alnum x \<and>
         (w = [] \<or> (\<exists>u y. w = u @ [y] \<and> length u \<le> 61 \<and> list_all ?P u \<and> lower_alnum y))"
      using v l by (cases w rule: rev_cases) (auto simp: valid_label_def)
  qed
  finally show ?thesis .
qed

section \<open>What the validators accept\<close>

lemma valid_label_chars: "valid_label l \<Longrightarrow> c \<in> set l \<Longrightarrow> lower_alnum c \<or> c = CHR ''-''"
  by (auto simp: valid_label_def list_all_iff)

definition domain_char :: "char \<Rightarrow> bool" where
  "domain_char c \<longleftrightarrow> lower_alnum c \<or> c = CHR ''-'' \<or> c = CHR ''.''"

lemma domain_char_range: "domain_char c \<Longrightarrow> CHR 0x20 < c \<and> c < CHR 0x7F \<and> \<not> bad_domain_byte c"
  by (auto simp: domain_char_def lower_alnum_def is_digit_def bad_domain_byte_def less_eq_char_def less_char_def)

lemma labels_domain_char:
  assumes "\<forall>l \<in> set (split_char CHR ''.'' d). valid_label l" "c \<in> set d"
  shows "domain_char c"
  using set_split_char [OF assms(2), of "CHR ''.''"] assms(1) valid_label_chars
  by (auto simp: domain_char_def)

lemma ValidateDomain_iff:
  "sh_ValidateDomain d = None \<longleftrightarrow> length d \<le> 253 \<and> (\<forall>l \<in> set (split_char CHR ''.'' d). valid_label l)"
proof
  assume "sh_ValidateDomain d = None"
  then show "length d \<le> 253 \<and> (\<forall>l \<in> set (split_char CHR ''.'' d). valid_label l)"
    by (auto simp: sh_ValidateDomain_def Let_def maxDomainLength_def list_ex_iff domainLabelPattern_iff
        split: if_splits)
next
  assume a: "length d \<le> 253 \<and> (\<forall>l \<in> set (split_char CHR ''.'' d). valid_label l)"
  then have c: "\<And>c. c \<in> set d \<Longrightarrow> domain_char c" using labels_domain_char by blast
  then have "trim_space d = d" using domain_char_range by (intro trim_space_ascii) blast
  moreover have "d \<noteq> []" using a by (auto simp: valid_label_def)
  moreover have "\<not> list_ex bad_domain_byte d" using c domain_char_range by (auto simp: list_ex_iff)
  moreover have "\<not> list_ex (\<lambda>label. label = ''..'' \<or> \<not> match_string domainLabelPattern label)
      (split_char CHR ''.'' d)"
    using a split_char_parts [of "''..''" "CHR ''.''" d] by (auto simp: list_ex_iff domainLabelPattern_iff)
  ultimately show "sh_ValidateDomain d = None"
    using a by (simp add: sh_ValidateDomain_def maxDomainLength_def)
qed

lemma ValidateDomain_chars: "sh_ValidateDomain d = None \<Longrightarrow> c \<in> set d \<Longrightarrow> domain_char c"
  using labels_domain_char by (auto simp: ValidateDomain_iff)

lemma ValidateDomain_nonempty: "sh_ValidateDomain d = None \<Longrightarrow> d \<noteq> []"
  by (auto simp: ValidateDomain_iff valid_label_def)

lemma ValidateDomain_err: "sh_ValidateDomain d = Some e \<Longrightarrow> e = [SmallhostE ErrInvalidDomain]"
  by (auto simp: sh_ValidateDomain_def Let_def split: if_splits)

lemma ValidateUser_iff:
  "sh_ValidateUser u = None \<longleftrightarrow> 1 \<le> length u \<and> length u \<le> 32 \<and>
     list_all (\<lambda>c. lower_alnum c \<or> c = CHR ''_'' \<or> c = CHR ''-'') u"
  by (auto simp: sh_ValidateUser_def userPattern_def match_whole_between)

lemma ValidateDBName_iff:
  "sh_ValidateDBName n = None \<longleftrightarrow> 1 \<le> length n \<and> length n \<le> 32 \<and>
     list_all (\<lambda>c. lower_alnum c \<or> c = CHR ''_'') n"
  by (auto simp: sh_ValidateDBName_def dbNamePattern_def match_whole_between)

lemma ValidateNodeVersion_iff:
  "sh_ValidateNodeVersion v = None \<longleftrightarrow> 1 \<le> length v \<and> length v \<le> 16 \<and> list_all version_char v"
  by (auto simp: sh_ValidateNodeVersion_def nodeVersionPattern_def match_whole_between)

section \<open>Paths\<close>

lemma join_onto_join:
  "sb \<noteq> [] \<Longrightarrow> last sb \<noteq> CHR ''/'' \<Longrightarrow> \<forall>x \<in> set segs. x \<noteq> [] \<and> CHR ''/'' \<notin> set x \<Longrightarrow>
   join_onto sb segs = join ''/'' (sb # segs)"
proof (induction segs arbitrary: sb)
  case (Cons x xs)
  have x: "x \<noteq> []" "last x \<noteq> CHR ''/''"
    using Cons.prems last_in_set [of x] by fastforce+
  have "join_onto sb (x # xs) = join_onto (sb @ ''/'' @ x) xs"
    using Cons.prems by (simp add: has_suffix_last)
  also have "\<dots> = join ''/'' ((sb @ ''/'' @ x) # xs)"
    using Cons.prems x by (intro Cons.IH) simp_all
  also have "\<dots> = join ''/'' (sb # x # xs)"
    by (cases xs) simp_all
  finally show ?case .
qed simp

lemma joinPath_split:
  assumes "\<forall>x \<in> set segs. x \<noteq> [] \<and> CHR ''/'' \<notin> set x"
  shows "split_char CHR ''/'' (joinPath (domainsRoot # segs)) = [] # ''usr'' # ''home'' # segs"
proof -
  have "joinPath (domainsRoot # segs) = join ''/'' (domainsRoot # segs)"
    using assms by (simp add: joinPath_def join_onto_join domainsRoot_def)
  also have "\<dots> = join ''/'' ([] # ''usr'' # ''home'' # segs)"
    by (cases segs) (simp_all add: domainsRoot_def)
  finally have j: "joinPath (domainsRoot # segs) = join ''/'' ([] # ''usr'' # ''home'' # segs)" .
  show ?thesis unfolding j using assms by (intro split_char_join) auto
qed

text \<open>The path of a directory below \<open>/usr/home/<user>/domains/<domain>\<close>, by its segments.\<close>

definition confined :: "string \<Rightarrow> string \<Rightarrow> string list \<Rightarrow> string \<Rightarrow> bool" where
  "confined user domain tail path \<longleftrightarrow>
     split_char CHR ''/'' path = [[], ''usr'', ''home'', user, ''domains'', domain] @ tail
     \<and> user \<noteq> [] \<and> domain \<noteq> [] \<and> user \<noteq> ''..'' \<and> domain \<noteq> ''..'' \<and> user \<noteq> ''.'' \<and> domain \<noteq> ''.''"

lemma user_char_not:
  "sh_ValidateUser u = None \<Longrightarrow> u \<noteq> [] \<and> CHR ''/'' \<notin> set u \<and> CHR ''.'' \<notin> set u"
  by (auto simp: ValidateUser_iff list_all_iff lower_alnum_def is_digit_def less_eq_char_def)

lemma domain_not_dots:
  assumes "sh_ValidateDomain d = None"
  shows "d \<noteq> []" "CHR ''/'' \<notin> set d" "d \<noteq> ''.''" "d \<noteq> ''..''"
proof -
  show "d \<noteq> []" by (rule ValidateDomain_nonempty [OF assms])
  show "CHR ''/'' \<notin> set d"
    using ValidateDomain_chars [OF assms] domain_char_range by (auto simp: bad_domain_byte_def)
  show "d \<noteq> ''.''" "d \<noteq> ''..''" using assms by (auto simp: ValidateDomain_iff valid_label_def)
qed

lemma confined_path:
  assumes "sh_ValidateDomain d = None" "sh_ValidateUser u = None"
    and "\<forall>x \<in> set tail. x \<noteq> [] \<and> CHR ''/'' \<notin> set x"
  shows "confined u d tail (joinPath (domainsRoot # u # ''domains'' # d # tail))"
proof -
  have "split_char CHR ''/'' (joinPath (domainsRoot # u # ''domains'' # d # tail))
      = [] # ''usr'' # ''home'' # u # ''domains'' # d # tail"
    using assms user_char_not domain_not_dots by (intro joinPath_split) auto
  then show ?thesis
    using user_char_not [OF assms(2)] domain_not_dots [OF assms(1)] by (auto simp: confined_def)
qed

lemma not_clean [simp]: "\<not> clean_byte CHR 0x1B" "\<not> clean_byte CHR 0x0D" "\<not> clean_byte CHR 0x0B"
  by (simp_all add: clean_byte_def less_eq_char_def)

lemma stripAndNormalize_clean:
  assumes "list_all clean_byte s" "length s \<le> maxOutputSize"
  shows "stripAndNormalize s = Inr s"
proof -
  have n: "CHR 0x1B \<notin> set s" "CHR 0x0D \<notin> set s"
    using assms(1) not_clean by (auto simp: list_all_iff)
  have "replace_matches ansiEscapeRegex [] s = s"
    using n(1) by (simp add: ansiEscapeRegex_def replace_matches_absent)
  then show ?thesis
    using n assms by (simp add: stripAndNormalize_def replace_all_absent)
qed

lemma stripAndNormalize_result:
  assumes "stripAndNormalize s = Inr t"
  shows "list_all clean_byte t" "length t \<le> maxOutputSize"
proof -
  let ?a = "replace_matches ansiEscapeRegex [] s"
  let ?b = "replace_all ?a [CHR 0x0D, CHR 0x0A] [CHR 0x0A]"
  have t: "t = replace_all ?b [CHR 0x0D] [CHR 0x0A]" "length s \<le> maxOutputSize"
    using assms by (auto simp: stripAndNormalize_def Let_def split: if_splits)
  show "list_all clean_byte t"
    using assms by (auto simp: stripAndNormalize_def Let_def split: if_splits)
  have "length ?a \<le> length s" using replace_from_props by (simp add: replace_matches_def)
  moreover have "length ?b \<le> length ?a" "length t \<le> length ?b"
    unfolding t(1) by (rule replace_all_length, simp)+
  ultimately show "length t \<le> maxOutputSize" using t(2) by simp
qed

lemma stripAndNormalize_too_large:
  "stripAndNormalize s = Inl [ProviderE ErrOutputTooLarge] \<longleftrightarrow> length s > maxOutputSize"
  by (auto simp: stripAndNormalize_def Let_def)

section \<open>Fields of a line\<close>

definition site_types :: "string list" where
  "site_types = [''nodejs'', ''static'', ''php'']"

lemma lang_nonspaces: "lang nonspaces = {w. w \<noteq> [] \<and> (\<forall>c \<in> set w. \<not> is_re_space c)}"
  and lang_spaces1: "lang spaces1 = {w. w \<noteq> [] \<and> list_all is_re_space w}"
  and lang_spaces0: "lang spaces0 = {w. list_all is_re_space w}"
  by (auto simp: nonspaces_def spaces1_def spaces0_def plus_def lang_Seq_Cls kleene_Cls list_all_iff
      neq_Nil_conv simp del: lang.simps(3))

lemma plain_spaces [simp]: "plain nonspaces" "plain spaces1" "plain spaces0"
  by (simp_all add: nonspaces_def spaces1_def spaces0_def plus_def)

lemma wwwListLine_Match:
  assumes "Match wwwListLineRegex (p, v, []) t"
  shows "p = None \<and> (\<exists>d s1 ty s2 n s3. v = d @ s1 @ ty @ s2 @ n @ s3 \<and> d \<in> lang nonspaces \<and> s1 \<in> lang spaces1
    \<and> ty \<in> set site_types \<and> s2 \<in> lang spaces1 \<and> n \<in> lang nonspaces \<and> s3 \<in> lang spaces0
    \<and> groups t = [(3, n), (2, ty), (1, d)])"
proof -
  let ?T = "alts [lit ''nodejs'', lit ''static'', lit ''php'']"
  have pT: "plain ?T" by simp
  have lT: "lang ?T = set site_types" by (auto simp: site_types_def)
  from assms obtain a b c d e f g where m: "Match BeginText (p, v, []) a" "Match (Grp 1 nonspaces) a b"
      "Match spaces1 b c" "Match (Grp 2 ?T) c d" "Match spaces1 d e" "Match (Grp 3 nonspaces) e f"
      "Match spaces0 f g" "Match EndText g t"
    unfolding wwwListLineRegex_def by (auto elim!: Match_Seq simp del: alts.simps)
  have a: "a = (p, v, [])" "p = None" using Match_BeginTextD [OF m(1)] by auto
  obtain w1 v1 where 1: "w1 \<in> lang nonspaces" "v = w1 @ v1" "b = (adv p w1, v1, [(1, w1)])"
    using m(2) unfolding a by (elim Match_GrpD) simp_all
  obtain w2 v2 where 2: "w2 \<in> lang spaces1" "v1 = w2 @ v2" "c = (adv (adv p w1) w2, v2, [(1, w1)])"
    using m(3) unfolding 1(3) by (elim Match_plainD) simp_all
  obtain w3 v3 where 3: "w3 \<in> set site_types" "v2 = w3 @ v3"
      "d = (adv (adv (adv p w1) w2) w3, v3, [(2, w3), (1, w1)])"
    using m(4) unfolding 2(3) lT [symmetric] by (elim Match_GrpD [OF _ pT]) simp_all
  obtain w4 v4 where 4: "w4 \<in> lang spaces1" "v3 = w4 @ v4" "ahead e = v4" "groups e = groups d"
    using m(5) unfolding 3(3) by (elim Match_plainD) simp_all
  obtain w5 v5 where 5: "w5 \<in> lang nonspaces" "v4 = w5 @ v5" "ahead f = v5"
      "groups f = (3, w5) # groups d"
    using m(6) 4 by (cases e) (auto elim!: Match_GrpD)
  obtain w6 where 6: "w6 \<in> lang spaces0" "v5 = w6 @ ahead g" "groups g = groups f"
    using m(7) 5 by (cases f) (auto elim!: Match_plainD)
  have "t = g" "ahead g = []" using Match_EndTextD [OF m(8)] by auto
  with a(2) 1 2 3 4 5 6 show ?thesis by (auto 0 0 intro!: exI)
qed

lemma re_space_ascii: "is_re_space c \<Longrightarrow> is_ascii_space c"
  by (auto simp: is_re_space_def is_ascii_space_def)

lemma clean_space: "clean_byte c \<Longrightarrow> is_ascii_space c \<longleftrightarrow> is_re_space c"
  by (auto simp: is_re_space_def is_ascii_space_def clean_byte_def less_eq_char_def)

text \<open>The regular expression of a row reads the three fields of the row.\<close>

lemma wwwListLine_fields:
  assumes c: "list_all clean_byte line" and m: "submatch wwwListLineRegex line = Some m"
  shows "str_fields line = [group m 1, group m 2, group m 3]" "group m 2 \<in> set site_types"
proof -
  from m obtain u v t where l: "line = u @ v" "Match wwwListLineRegex (adv None u, v, []) t"
      "m = map_of (groups t)"
    by (rule submatch_Match)
  from wwwListLine_Match [OF l(2)] obtain d s1 ty s2 n s3 where
    w: "adv None u = None" "v = d @ s1 @ ty @ s2 @ n @ s3" "d \<in> lang nonspaces" "s1 \<in> lang spaces1"
       "ty \<in> set site_types" "s2 \<in> lang spaces1" "n \<in> lang nonspaces" "s3 \<in> lang spaces0"
       "groups t = [(3, n), (2, ty), (1, d)]" by auto
  have g: "group m 1 = d" "group m 2 = ty" "group m 3 = n"
    using l(3) w(9) by (simp_all add: group_def)
  have line: "line = d @ s1 @ ty @ s2 @ n @ s3"
    using l(1) w(1,2) by (auto simp: adv_def split: if_splits)
  have cl: "\<forall>c \<in> set d \<union> set n. clean_byte c" using c line by (auto simp: list_all_iff)
  have sp: "s1 \<noteq> []" "list_all is_ascii_space s1" "s2 \<noteq> []" "list_all is_ascii_space s2"
      "list_all is_ascii_space s3"
    using w re_space_ascii by (auto simp: lang_spaces1 lang_spaces0 list_all_iff)
  have words: "d \<noteq> []" "\<forall>c \<in> set d. \<not> is_ascii_space c" "n \<noteq> []" "\<forall>c \<in> set n. \<not> is_ascii_space c"
    using w(3,7) cl clean_space by (auto simp: lang_nonspaces)
  have ty: "ty \<noteq> []" "\<forall>c \<in> set ty. \<not> is_ascii_space c"
    using w(5) by (auto simp: site_types_def is_ascii_space_def)
  show "str_fields line = [group m 1, group m 2, group m 3]"
    unfolding line g using sp words ty by (simp add: str_fields_Cons_word str_fields_last_word)
  show "group m 2 \<in> set site_types" using g w(5) by simp
qed

lemma wwwListLine_matches:
  assumes c: "list_all clean_byte line" and h: "line \<noteq> [] \<Longrightarrow> \<not> is_ascii_space (hd line)"
    and f: "str_fields line = [d, ty, n]" and ty: "ty \<in> set site_types"
  shows "match_string wwwListLineRegex line"
proof -
  from fields_decompose [OF f] obtain s0 r1 where 1: "line = s0 @ d @ r1" "list_all is_ascii_space s0"
      "str_fields r1 = [ty, n]" "d \<noteq> []" "\<forall>c \<in> set d. \<not> is_ascii_space c" "r1 = [] \<or> is_ascii_space (hd r1)"
    by blast
  from fields_decompose [OF 1(3)] obtain s1 r2 where 2: "r1 = s1 @ ty @ r2" "list_all is_ascii_space s1"
      "str_fields r2 = [n]" "ty \<noteq> []" "\<forall>c \<in> set ty. \<not> is_ascii_space c" "r2 = [] \<or> is_ascii_space (hd r2)"
    by blast
  from fields_decompose [OF 2(3)] obtain s2 r3 where 3: "r2 = s2 @ n @ r3" "list_all is_ascii_space s2"
      "str_fields r3 = []" "n \<noteq> []" "\<forall>c \<in> set n. \<not> is_ascii_space c" "r3 = [] \<or> is_ascii_space (hd r3)"
    by blast
  have 4: "list_all is_ascii_space r3"
  proof (rule ccontr)
    assume "\<not> list_all is_ascii_space r3"
    then obtain c where "c \<in> set r3" "\<not> is_ascii_space c" by (auto simp: list_all_iff)
    moreover have "c \<in> set s \<Longrightarrow> \<not> is_ascii_space c \<Longrightarrow> str_fields s \<noteq> []" for c s
      by (induction s) (auto simp: str_fields_def split: list.splits)
    ultimately show False using 3(3) by blast
  qed
  have "s0 = []" using h 1(1,2) by (cases s0) auto
  then have line: "line = d @ s1 @ ty @ s2 @ n @ r3" using 1 2 3 by simp
  have ne: "s1 \<noteq> []" "s2 \<noteq> []" using 1(6) 2 3(1,5,4,6) 2(6) by (cases s1; cases s2; auto)+
  have cl: "\<forall>c \<in> set line. is_ascii_space c \<longleftrightarrow> is_re_space c"
    using c clean_space by (auto simp: list_all_iff)
  have d: "d \<in> lang nonspaces" and n: "n \<in> lang nonspaces" and s1: "s1 \<in> lang spaces1"
    and s2: "s2 \<in> lang spaces1" and r3: "r3 \<in> lang spaces0"
    using 1 2 3 4 ne cl line by (auto simp: lang_nonspaces lang_spaces1 lang_spaces0 list_all_iff)
  let ?T = "alts [lit ''nodejs'', lit ''static'', lit ''php'']"
  have T: "plain ?T" "ty \<in> lang ?T" using ty by (auto simp: site_types_def)
  have "Match wwwListLineRegex (None, line, [])
      (adv None line, [], [(3, n), (2, ty), (1, d)])"
    unfolding wwwListLineRegex_def seqs.simps line
    by (rule m_seq m_assert [of BeginText] Match_GrpI [OF plain_spaces(1) d]
        lang_Match_plain [OF plain_spaces(2) s1] Match_GrpI [OF T] lang_Match_plain [OF plain_spaces(2) s2]
        Match_GrpI [OF plain_spaces(1) n] lang_Match_plain [OF plain_spaces(3) r3, of _ "[]", simplified]
        m_assert [of EndText] | simp)+
  then show ?thesis unfolding match_string_iff by (intro exI [of _ "[]"] exI [of _ line]) auto
qed

section \<open>The row parser against its reading\<close>

text \<open>
  The reading of \<open>devil www list\<close>: one subdomain per row that is neither blank nor the header, a row
  being three fields with a known type, and no subdomains at all if one row is anything else.
\<close>

definition row_of :: "string \<Rightarrow> Subdomain option" where
  "row_of line =
     (case str_fields line of
        [d, ty, v] \<Rightarrow>
          if ty \<in> set site_types
          then Some \<lparr>Domain = d, SType = ty, NodeVersion = (if v = ''-'' then [] else v)\<rparr> else None
      | _ \<Rightarrow> None)"

definition data_rows :: "string list \<Rightarrow> string list" where
  "data_rows ls =
     filter (\<lambda>l. l \<noteq> [])
       (case map trim_space ls of [] \<Rightarrow> [] | h # rs \<Rightarrow> (if has_prefix h ''domain'' then rs else h # rs))"

lemma clean_trim: "list_all clean_byte l \<Longrightarrow> list_all clean_byte (trim_space l)"
  using trim_space_subset by (fastforce simp: list_all_iff)

lemma row_of_submatch:
  assumes "list_all clean_byte line" "line \<noteq> [] \<Longrightarrow> \<not> is_ascii_space (hd line)"
  shows "row_of line = map_option (\<lambda>m. \<lparr>Domain = group m 1, SType = group m 2,
      NodeVersion = (if group m 3 \<noteq> ''-'' then group m 3 else [])\<rparr>) (submatch wwwListLineRegex line)"
proof (cases "submatch wwwListLineRegex line")
  case None
  then have n: "\<not> match_string wwwListLineRegex line" by (simp add: submatch_None)
  have "row_of line = None"
  proof (rule ccontr)
    assume "row_of line \<noteq> None"
    then obtain d ty v where "str_fields line = [d, ty, v]" "ty \<in> set site_types"
      by (auto simp: row_of_def split: list.splits if_splits)
    then show False using wwwListLine_matches [OF assms] n by blast
  qed
  with None show ?thesis by simp
next
  case (Some m)
  then show ?thesis using wwwListLine_fields [OF assms(1) Some] by (simp add: row_of_def)
qed

lemma www_rows_spec:
  "\<forall>l \<in> set ls. list_all clean_byte l \<Longrightarrow> i \<noteq> 0 \<Longrightarrow>
   www_rows i ls out =
     (case those (map row_of (filter (\<lambda>l. l \<noteq> []) (map trim_space ls))) of
        None \<Rightarrow> Inl [ProviderE ErrUnknownOutputFormat] | Some subs \<Rightarrow> Inr (out @ subs))"
proof (induction ls arbitrary: i out)
  case (Cons l ls)
  show ?case
  proof (cases "trim_space l = []")
    case True
    then show ?thesis using Cons by simp
  next
    case False
    have r: "row_of (trim_space l) = map_option (\<lambda>m. \<lparr>Domain = group m 1, SType = group m 2,
      NodeVersion = (if group m 3 \<noteq> ''-'' then group m 3 else [])\<rparr>) (submatch wwwListLineRegex (trim_space l))"
      using Cons.prems clean_trim trim_space_hd [of l]
      by (intro row_of_submatch) (auto simp: neq_Nil_conv)
    show ?thesis
      using False Cons r
      by (auto simp: Let_def split: option.splits)
  qed
qed simp

lemma parseWwwList_spec:
  assumes "stripAndNormalize raw = Inr clean"
  shows "parseWwwList raw =
     (case those (map row_of (data_rows (split_char CHR 0x0A clean))) of
        None \<Rightarrow> Inl [ProviderE ErrUnknownOutputFormat] | Some subs \<Rightarrow> Inr subs)"
proof -
  obtain l ls where l: "split_char CHR 0x0A clean = l # ls" by (meson neq_Nil_conv split_char_not_Nil)
  have c: "\<forall>x \<in> set (l # ls). list_all clean_byte x"
  proof
    fix x assume "x \<in> set (l # ls)"
    then have "set x \<subseteq> set clean" using split_char_subset [of x "CHR 0x0A" clean] l by simp
    then show "list_all clean_byte x"
      using stripAndNormalize_result(1) [OF assms] by (auto simp: list_all_iff)
  qed
  have c': "\<forall>x \<in> set ls. list_all clean_byte x" using c by simp
  have "parseWwwList raw = www_rows 0 (l # ls) []"
    using assms l by (simp add: parseWwwList_def)
  also have "\<dots> = (case those (map row_of (data_rows (l # ls))) of
        None \<Rightarrow> Inl [ProviderE ErrUnknownOutputFormat] | Some subs \<Rightarrow> Inr subs)"
  proof (cases "trim_space l = [] \<or> has_prefix (trim_space l) ''domain''")
    case True
    then show ?thesis
      using www_rows_spec [OF c', of 1] by (auto simp: data_rows_def Let_def split: option.splits)
  next
    case False
    have r: "row_of (trim_space l) = map_option (\<lambda>m. \<lparr>Domain = group m 1, SType = group m 2,
      NodeVersion = (if group m 3 \<noteq> ''-'' then group m 3 else [])\<rparr>) (submatch wwwListLineRegex (trim_space l))"
      using c clean_trim trim_space_hd [of l] by (intro row_of_submatch) (auto simp: neq_Nil_conv)
    show ?thesis
      using False r www_rows_spec [OF c', of 1]
      by (auto simp: data_rows_def Let_def split: option.splits)
  qed
  finally show ?thesis using l by simp
qed

section \<open>What reaches the remote shell\<close>

definition logged :: "'w executor \<Rightarrow> (string list \<times> 'w) executor" where
  "logged e cmd lw = (case e cmd (snd lw) of (r, w) \<Rightarrow> (r, fst lw @ [cmd], w))"

definition shell_char :: "char \<Rightarrow> bool" where
  "shell_char c \<longleftrightarrow> version_char c \<or> c = CHR '' '' \<or> c = CHR ''/''"

definition shell_safe :: "string \<Rightarrow> bool" where
  "shell_safe cmd \<longleftrightarrow> list_all shell_char cmd"

definition safe_log :: "string list \<times> 'w \<Rightarrow> bool" where
  "safe_log lw \<longleftrightarrow> list_all shell_safe (fst lw)"

lemma sh_exec_logged:
  "exec_seam p = Some (logged e) \<Longrightarrow> shell_safe cmd \<Longrightarrow> safe_log lw \<Longrightarrow> safe_log (snd (sh_exec p cmd lw))"
  by (auto simp: sh_exec_def logged_def safe_log_def split: prod.splits)

lemma run_parse_logged:
  "exec_seam p = Some (logged e) \<Longrightarrow> shell_safe cmd \<Longrightarrow> safe_log lw \<Longrightarrow> safe_log (snd (run_parse p cmd f lw))"
  using sh_exec_logged [of p e cmd lw] by (auto simp: run_parse_def split: prod.splits option.splits)

lemma shell_safe_simps [simp]:
  "shell_safe []" "shell_safe (c # b) \<longleftrightarrow> shell_char c \<and> shell_safe b"
  "shell_safe (a @ b) \<longleftrightarrow> shell_safe a \<and> shell_safe b"
  by (auto simp: shell_safe_def)

lemma shell_safe_subset: "(\<And>c. c \<in> set s \<Longrightarrow> shell_char c) \<Longrightarrow> shell_safe s"
  by (auto simp: shell_safe_def list_all_iff)

lemma shell_safe_inputs:
  "sh_ValidateDomain d = None \<Longrightarrow> shell_safe d" "sh_ValidateNodeVersion v = None \<Longrightarrow> shell_safe v"
  "sh_ValidateDBName n = None \<Longrightarrow> shell_safe n" "sh_ValidateUser u = None \<Longrightarrow> shell_safe u"
proof -
  have c: "domain_char c \<Longrightarrow> shell_char c" for c
    by (auto simp: domain_char_def shell_char_def lower_alnum_def version_char_def)
  show "sh_ValidateDomain d = None \<Longrightarrow> shell_safe d"
    using c ValidateDomain_chars [of d] by (blast intro: shell_safe_subset)
  show "sh_ValidateNodeVersion v = None \<Longrightarrow> shell_safe v"
    "sh_ValidateDBName n = None \<Longrightarrow> shell_safe n" "sh_ValidateUser u = None \<Longrightarrow> shell_safe u"
    by (auto intro!: shell_safe_subset simp: ValidateNodeVersion_iff ValidateDBName_iff ValidateUser_iff
        list_all_iff shell_char_def lower_alnum_def version_char_def)
qed

lemma shell_safe_itoa: "shell_safe (itoa n)"
proof -
  have "shell_safe (nat_string k)" for k
    using nat_string_digits [of k] by (auto simp: shell_safe_def list_all_iff version_char_def shell_char_def)
  then show ?thesis by (auto simp: itoa_def version_char_def shell_char_def)
qed

lemma shell_safe_join_onto: "shell_safe sb \<Longrightarrow> list_all shell_safe xs \<Longrightarrow> shell_safe (join_onto sb xs)"
  by (induction sb xs rule: join_onto.induct) (auto simp: shell_char_def)

lemma shell_safe_joinPath: "list_all shell_safe xs \<Longrightarrow> shell_safe (joinPath xs)"
  by (auto simp: joinPath_def shell_safe_join_onto split: list.splits)

lemmas shell_char_eval = shell_char_def version_char_def is_digit_def less_eq_char_def

lemma shell_safe_log_path: "shell_safe (sh_GetLogPath p d)"
  by (auto simp: sh_GetLogPath_def domainsRoot_def shell_char_eval shell_safe_inputs
      simp del: not_None_eq intro!: shell_safe_joinPath)

lemma logged_methods:
  assumes p: "exec_seam p = Some (logged e)" and l: "safe_log lw"
  shows "safe_log (snd (sh_CreateSubdomain p d v lw))" "safe_log (snd (sh_RestartNodeApp p d lw))"
    "safe_log (snd (sh_ListSubdomains p lw))" "safe_log (snd (sh_RemoveSubdomain p d lw))"
    "safe_log (snd (sh_CreateDatabase p ty n lw))" "safe_log (snd (sh_RemoveDatabase p ty n lw))"
    "safe_log (snd (sh_TailLog p d k lw))" "safe_log (snd (snd (sh_CheckStatus p lw)))"
proof -
  note run = run_parse_logged [OF p _ l] and ex = sh_exec_logged [OF p _ l]
  note safe = shell_char_eval shell_safe_inputs shell_safe_itoa shell_safe_joinPath shell_safe_log_path
  show "safe_log (snd (sh_CreateSubdomain p d v lw))"
    using l by (auto simp: sh_CreateSubdomain_def safe split: option.splits intro!: run)
  show "safe_log (snd (sh_RestartNodeApp p d lw))"
    using l by (auto simp: sh_RestartNodeApp_def safe split: option.splits intro!: run)
  show "safe_log (snd (sh_ListSubdomains p lw))"
    using ex [of "''devil www list''"] by (auto simp: sh_ListSubdomains_def safe split: option.splits prod.splits)
  show "safe_log (snd (sh_RemoveSubdomain p d lw))"
    using l by (auto simp: sh_RemoveSubdomain_def safe split: option.splits intro!: run)
  show "safe_log (snd (sh_RemoveDatabase p ty n lw))"
    using l by (auto simp: sh_RemoveDatabase_def dbDeleteSubcommand_def safe
        split: option.splits if_splits sum.splits intro!: run)
  show "safe_log (snd (snd (sh_CheckStatus p lw)))"
    using ex [of "''devil --version''"]
    by (auto simp: sh_CheckStatus_def Let_def safe split: option.splits prod.splits)
  have "sh_ValidateDBName n = None \<Longrightarrow> dbAddSubcommand ty = Inr sc \<Longrightarrow>
      safe_log (snd (sh_exec p (join '' '' [''devil'', sc, n]) lw))" for sc
    by (rule ex) (auto simp: dbAddSubcommand_def safe split: if_splits)
  then show "safe_log (snd (sh_CreateDatabase p ty n lw))"
    using l unfolding sh_CreateDatabase_def by (fastforce split: option.split sum.split prod.split)
  have "sh_ValidateDomain d = None \<Longrightarrow> safe_log (snd (sh_exec p (join '' '' [''tail'', ''-n'', itoa m, ''--'',
      joinPath [sh_GetLogPath p d, ''node.log''], joinPath [sh_GetLogPath p d, ''error.log'']]) lw))" for m
    by (rule ex) (simp add: safe)
  then show "safe_log (snd (sh_TailLog p d k lw))"
    using l unfolding sh_TailLog_def Let_def
    by (cases "sh_ValidateDomain d") (auto split: option.splits prod.splits simp del: join.simps, (metis snd_conv)+)
qed

section \<open>Properties\<close>

text \<open>
  \<open>ValidateDomain\<close> accepts exactly the names of at most 253 bytes whose dot-separated labels have
  1 to 63 characters from a-z, 0-9 and the hyphen and neither start nor end with a hyphen; everything
  else is refused with \<open>ErrInvalidDomain\<close>.
\<close>

theorem ValidateDomain_accepts:
  "sh_ValidateDomain d =
     (if length d \<le> 253 \<and> list_all valid_label (split_char CHR ''.'' d) then None
      else Some [SmallhostE ErrInvalidDomain])"
  using ValidateDomain_iff [of d] ValidateDomain_err [of d]
  by (cases "sh_ValidateDomain d") (auto simp: list_all_iff)

text \<open>
  The remote paths stay below the account's domain directory: for a valid domain and user the
  deploy, log, env and storage paths split at slashes into \<open>/usr/home/<user>/domains/<domain>\<close> and a
  fixed tail, with no empty, \<open>.\<close> or \<open>..\<close> segment for the two inputs; for any other input all four are
  the empty string.
\<close>

theorem paths_confined:
  "if sh_ValidateDomain d = None \<and> sh_ValidateUser (User (cfg p)) = None
   then confined (User (cfg p)) d [''public_nodejs'', ''public''] (sh_GetDeployPath p d)
      \<and> confined (User (cfg p)) d [''logs''] (sh_GetLogPath p d)
      \<and> confined (User (cfg p)) d [''public_nodejs'', ''.env''] (EnvPath p d)
      \<and> confined (User (cfg p)) d [''public_nodejs'', ''public'', ''uploads''] (StoragePath p d)
   else sh_GetDeployPath p d = [] \<and> sh_GetLogPath p d = [] \<and> EnvPath p d = [] \<and> StoragePath p d = []"
  using confined_path [of d "User (cfg p)"]
  by (auto simp: sh_GetDeployPath_def sh_GetLogPath_def EnvPath_def StoragePath_def)

text \<open>
  Panel output is sanitised once and for all: what \<open>stripAndNormalize\<close> returns holds only line
  feeds, tabs and printable ASCII, is no longer than the 1 MiB limit, and is unchanged by a second pass;
  it fails with \<open>ErrOutputTooLarge\<close> exactly on longer input and with \<open>ErrUnknownOutputFormat\<close> otherwise.
\<close>

theorem stripAndNormalize_sanitises:
  "case stripAndNormalize raw of
     Inr t \<Rightarrow> list_all clean_byte t \<and> length t \<le> maxOutputSize \<and> stripAndNormalize t = Inr t
   | Inl e \<Rightarrow> e = (if length raw > maxOutputSize then [ProviderE ErrOutputTooLarge]
                   else [ProviderE ErrUnknownOutputFormat])"
proof (cases "stripAndNormalize raw")
  case (Inl e)
  then show ?thesis by (auto simp: stripAndNormalize_def Let_def split: if_splits)
next
  case (Inr t)
  then show ?thesis using stripAndNormalize_result [OF Inr] stripAndNormalize_clean by simp
qed

text \<open>
  \<open>parseWwwList\<close> never drops or invents a row: it returns exactly the three fields of every row of
  the sanitised output that is neither blank nor the header line, in order, and fails with
  \<open>ErrUnknownOutputFormat\<close> as soon as one such row is not a name, a known site type and a version.
\<close>

theorem parseWwwList_refines:
  "parseWwwList raw =
     (case stripAndNormalize raw of
        Inl e \<Rightarrow> Inl e
      | Inr clean \<Rightarrow>
          (case those (map row_of (data_rows (split_char CHR 0x0A clean))) of
             None \<Rightarrow> Inl [ProviderE ErrUnknownOutputFormat] | Some subs \<Rightarrow> Inr subs))"
  using parseWwwList_spec [of raw] by (cases "stripAndNormalize raw") (simp_all add: parseWwwList_def)

text \<open>
  C28. No input reaches the remote shell unescaped: whatever domain, version, database name and tail
  length a caller passes, every command the adapter hands to its executor consists of letters, digits,
  blanks and the characters \<open>. _ - /\<close> only (the two SSL operations, which insert an address read from
  the panel, are treated below).
\<close>

theorem commands_shell_safe:
  "safe_log (snd (sh_CreateSubdomain (SetExecutor p (Some (logged e))) d v ([], w)))
   \<and> safe_log (snd (sh_RestartNodeApp (SetExecutor p (Some (logged e))) d ([], w)))
   \<and> safe_log (snd (sh_ListSubdomains (SetExecutor p (Some (logged e))) ([], w)))
   \<and> safe_log (snd (sh_RemoveSubdomain (SetExecutor p (Some (logged e))) d ([], w)))
   \<and> safe_log (snd (sh_CreateDatabase (SetExecutor p (Some (logged e))) ty n ([], w)))
   \<and> safe_log (snd (sh_RemoveDatabase (SetExecutor p (Some (logged e))) ty n ([], w)))
   \<and> safe_log (snd (sh_TailLog (SetExecutor p (Some (logged e))) d k ([], w)))
   \<and> safe_log (snd (snd (sh_CheckStatus (SetExecutor p (Some (logged e))) ([], w))))"
  by (intro conjI logged_methods [of _ e]) (simp_all add: SetExecutor_def safe_log_def)

text \<open>
  The address of the SSL commands comes from the panel's vhost list. \<open>ipv4Regex\<close> has word boundaries
  but no anchors, so a field that only contains an address passes.
\<close>

definition forged_vhosts :: string where
  "forged_vhosts = ''a.pl 1.2.3.4;reboot nodejs''"

definition forging_panel :: "unit executor" where
  "forging_panel cmd w =
     ((\<lparr>Stdout = (if cmd = ''devil vhost list'' then forged_vhosts else ''Certificate installed''),
        Stderr = [], ExitCode = 0, Duration = 0\<rparr>, None), w)"

lemma ipv4Regex_forged: "match_string ipv4Regex ''1.2.3.4;reboot''"
  by code_simp

lemma parse_forged: "parseVhostList forged_vhosts =
   Inr ([\<lparr>vhDomain = ''a.pl'', vhIP = ''1.2.3.4;reboot'', vhType = ''nodejs''\<rparr>], ''1.2.3.4;reboot'')"
proof -
  have "stripAndNormalize forged_vhosts = Inr forged_vhosts"
    by (rule stripAndNormalize_clean)
      (simp_all add: forged_vhosts_def clean_byte_def less_eq_char_def less_char_def maxOutputSize_def)
  moreover have "trim_space forged_vhosts = forged_vhosts"
    by (rule trim_space_id) (simp add: forged_vhosts_def space_seqs_def)
  moreover have "str_fields forged_vhosts = [''a.pl'', ''1.2.3.4;reboot'', ''nodejs'']"
    by (simp add: forged_vhosts_def str_fields_def is_ascii_space_def)
  moreover have "split_char CHR 0x0A forged_vhosts = [forged_vhosts]"
    by (simp add: forged_vhosts_def)
  moreover have "forged_vhosts \<noteq> []" "\<not> has_prefix forged_vhosts ''domain''"
    by (simp_all add: forged_vhosts_def)
  ultimately show ?thesis
    by (simp add: parseVhostList_def ipv4Regex_forged)
qed

lemma valid_a_pl: "sh_ValidateDomain ''a.pl'' = None"
  by (simp add: ValidateDomain_iff valid_label_def lower_alnum_def less_eq_char_def)


text \<open>
  The properties bag of an adapter is bounded: a provider is built only for the type
  \<open>smallhost\<close>, with the devil restart method and a connection pool of 1 to 16 sessions.
\<close>

theorem New_properties_bounded:
  "case sh_New clock c of
     Inr p \<Rightarrow> PType c = ''smallhost'' \<and> cfg p = c \<and> RestartMethod (props p) = ''devil''
        \<and> 1 \<le> SSHPoolMax (props p) \<and> SSHPoolMax (props p) \<le> 16 \<and> exec_seam p = None
   | Inl e \<Rightarrow> e = [ProviderE ErrInvalidProviderConfig]"
  by (auto simp: sh_New_def parseProperties_def providerName_def restartMethodDevil_def Let_def
      split: sum.split option.split)

end
