(* ===== verification/Wizard.thy ===== *)
theory Wizard
  imports Cleanup_Stack Smallhost
begin

text \<open>
  The provisioning wizard (\<open>src/wizard\<close>): the plan and its validation (\<open>plan.go\<close>), the pre-flight checks
  and the provider-side execution (\<open>execute.go\<close>), the GitHub-side execution (\<open>github_execute.go\<close>) and the
  checks on the generated workflow (\<open>workflow_validate.go\<close>). The panel and GitHub are the interfaces
  \<open>HostingProvider\<close> and \<open>GitHubProvisioner\<close>, records of methods over the world; \<open>now\<close> reads the clock.
  What a panel has to promise for an undo to be complete is the predicate \<open>panel_laws\<close>.
\<close>

section \<open>Plans (types.go, plan.go)\<close>

record ProvisionPlan =
  ProfileAlias :: string
  PlanStack :: string
  PlanDomain :: string
  PlanNodeVersion :: string
  DBKind :: string
  DBName :: string

record DatabaseCredentials =
  Username :: string
  Password :: string

record ProvisionStatus =
  StatusStep :: string
  OK :: bool
  StatusErr :: "goerr option"

record ProvisionReport =
  RSubdomain :: ProvisionStatus
  RSSL :: ProvisionStatus
  RDatabase :: ProvisionStatus
  Credentials :: "DatabaseCredentials option"

definition StackStatic :: string where "StackStatic = ''static''"
definition StackViteReact :: string where "StackViteReact = ''vite-react''"
definition StackNodeExpress :: string where "StackNodeExpress = ''node-express''"

definition SupportedStacks :: "string list" where
  "SupportedStacks = [StackStatic, StackViteReact, StackNodeExpress]"

definition SupportedDBKinds :: "string list" where
  "SupportedDBKinds = [DatabaseMySQL, DatabasePostgres]"

definition defaultNodeVersionForStack :: "string gomap" where
  "defaultNodeVersionForStack = [(StackStatic, ''22''), (StackViteReact, ''22''), (StackNodeExpress, ''22'')]"

definition DefaultNodeVersion :: "string \<Rightarrow> string" where
  "DefaultNodeVersion stack = (case map_of defaultNodeVersionForStack stack of Some v \<Rightarrow> v | None \<Rightarrow> [])"

definition IsValidStack :: "string \<Rightarrow> bool" where
  "IsValidStack stack \<longleftrightarrow> list_ex (\<lambda>s. s = stack) SupportedStacks"

definition IsValidDBKind :: "string \<Rightarrow> bool" where
  "IsValidDBKind kind \<longleftrightarrow> list_ex (\<lambda>k. k = kind) SupportedDBKinds"

definition IsDBRequiredForStack :: "string \<Rightarrow> bool" where
  "IsDBRequiredForStack stack \<longleftrightarrow> stack = StackNodeExpress"

text \<open>Calling a validator of a complete set.\<close>

definition run_validator :: "(string \<Rightarrow> goerr option) option \<Rightarrow> string \<Rightarrow> goerr option" where
  "run_validator f s = (case f of None \<Rightarrow> None | Some g \<Rightarrow> g s)"

definition ValidatePlan :: "ProvisionPlan \<Rightarrow> PlanValidators \<Rightarrow> goerr option" where
  "ValidatePlan plan v =
     (if \<not> IsComplete v then Some [WizardE ErrInvalidPlan]
      else if ProfileAlias plan = [] then Some [WizardE ErrInvalidPlan]
      else if \<not> IsValidStack (PlanStack plan) then Some [WizardE ErrInvalidPlan]
      else case run_validator (ValidateDomain v) (PlanDomain plan) of
        Some err \<Rightarrow> Some (wrap (WizardE ErrInvalidPlan) err)
      | None \<Rightarrow>
      if PlanNodeVersion plan = [] then Some [WizardE ErrInvalidPlan]
      else case run_validator (ValidateNodeVersion v) (PlanNodeVersion plan) of
        Some err \<Rightarrow> Some (wrap (WizardE ErrInvalidPlan) err)
      | None \<Rightarrow>
      if DBKind plan = [] \<and> DBName plan = [] then None
      else if DBKind plan = [] \<or> DBName plan = [] then Some [WizardE ErrInvalidPlan]
      else if \<not> IsValidDBKind (DBKind plan) then Some [WizardE ErrInvalidPlan]
      else case run_validator (ValidateDBName v) (DBName plan) of
        Some err \<Rightarrow> Some (wrap (WizardE ErrInvalidPlan) err)
      | None \<Rightarrow> None)"

section \<open>Execution on the panel (execute.go)\<close>

text \<open>The error of \<open>Execute\<close>: a plain one, or \<open>ExecutionFailedError\<close> with the step that failed.\<close>

datatype exec_error = PlainError goerr | ExecutionFailed string goerr

fun Unwrap :: "exec_error \<Rightarrow> goerr" where
  "Unwrap (PlainError e) = e"
| "Unwrap (ExecutionFailed s e) = e"

definition Preflight ::
  "'w HostingProvider option \<Rightarrow> 'w \<Rightarrow> ProviderStatus option \<times> goerr option \<times> 'w" where
  "Preflight provider w =
     (case provider of
        None \<Rightarrow> (None, Some [WizardE ErrInvalidPlan], w)
      | Some p \<Rightarrow>
     (case CheckStatus p w of
        (status, Some err, w) \<Rightarrow> (status, Some err, w)
      | (None, None, w) \<Rightarrow> (None, Some [WizardE ErrPreflightNilStatus], w)
      | (Some st, None, w) \<Rightarrow>
          if \<not> SSHConnected st then (Some st, Some [WizardE ErrPreflightSSHDisconnected], w)
          else if \<not> CLIInstalled st then (Some st, Some [ProviderE ErrCLINotFound], w)
          else (Some st, None, w)))"

definition CheckSubdomainAvailable ::
  "'w HostingProvider option \<Rightarrow> string \<Rightarrow> 'w \<Rightarrow> goerr option \<times> 'w" where
  "CheckSubdomainAvailable provider domain w =
     (case provider of
        None \<Rightarrow> (Some [WizardE ErrInvalidPlan], w)
      | Some p \<Rightarrow>
          if domain = [] then (Some [WizardE ErrInvalidPlan], w)
          else (case ListSubdomains p w of
                  (Inl err, w) \<Rightarrow> (Some err, w)
                | (Inr subs, w) \<Rightarrow>
                    (if list_ex (\<lambda>sub. Domain sub = domain) subs
                     then Some [ProviderE ErrSubdomainExists] else None, w)))"

definition blank_status :: ProvisionStatus where
  "blank_status = \<lparr>StatusStep = [], OK = False, StatusErr = None\<rparr>"

definition blank_report :: ProvisionReport where
  "blank_report = \<lparr>RSubdomain = blank_status, RSSL = blank_status, RDatabase = blank_status,
     Credentials = None\<rparr>"

definition ok_status :: "string \<Rightarrow> ProvisionStatus" where
  "ok_status st = \<lparr>StatusStep = st, OK = True, StatusErr = None\<rparr>"

definition err_status :: "string \<Rightarrow> goerr \<Rightarrow> ProvisionStatus" where
  "err_status st e = \<lparr>StatusStep = st, OK = False, StatusErr = Some e\<rparr>"

definition subdomain_cleanup :: "ProvisionPlan \<Rightarrow> time_text \<Rightarrow> CleanupStep" where
  "subdomain_cleanup plan t = \<lparr>StepName = ''Remove subdomain '' @ PlanDomain plan, Kind = ResourceSubdomain,
     Params = [(''domain'', PlanDomain plan)], CreatedAt = t\<rparr>"

definition ssl_cleanup :: "ProvisionPlan \<Rightarrow> time_text \<Rightarrow> CleanupStep" where
  "ssl_cleanup plan t = \<lparr>StepName = ''Remove SSL '' @ PlanDomain plan, Kind = ResourceSSL,
     Params = [(''domain'', PlanDomain plan)], CreatedAt = t\<rparr>"

definition database_cleanup :: "ProvisionPlan \<Rightarrow> time_text \<Rightarrow> CleanupStep" where
  "database_cleanup plan t =
     \<lparr>StepName = ''Remove database '' @ DBName plan @ '' ('' @ DBKind plan @ '')'', Kind = ResourceDatabase,
      Params = [(''dbKind'', DBKind plan), (''dbName'', DBName plan)], CreatedAt = t\<rparr>"

type_synonym 'w exec_result = "(ProvisionReport option \<times> exec_error option) \<times> 'w Stack \<times> 'w env"

text \<open>The three blocks of \<open>Execute\<close>, in the order of the code; the last one runs only for a plan with a database.\<close>

definition execute_database ::
  "('w \<Rightarrow> time_text) \<Rightarrow> 'w HostingProvider \<Rightarrow> ProvisionPlan \<Rightarrow> ProvisionReport \<Rightarrow> 'w Stack \<Rightarrow> 'w env \<Rightarrow>
   'w exec_result" where
  "execute_database now_text p plan report s e =
     (if DBKind plan = [] \<or> DBName plan = [] then ((Some report, None), s, e)
      else
        (case CreateDatabase p (DBKind plan) (DBName plan) (snd e) of
           (Inl err, w) \<Rightarrow>
             let report = report\<lparr>RDatabase := err_status ''database'' err\<rparr> in
             ((Some report, Some (ExecutionFailed ''database'' err)), s, (fst e, w))
         | (Inr (user, password), w) \<Rightarrow>
             let report = report\<lparr>RDatabase := ok_status ''database'',
                   Credentials := Some \<lparr>Username = user, Password = password\<rparr>\<rparr> in
             (case Push (database_cleanup plan (now_text w)) s (fst e, w) of
                (Some err, s, e) \<Rightarrow> ((Some report, Some (ExecutionFailed ''database-cleanup'' err)), s, e)
              | (None, s, e) \<Rightarrow> ((Some report, None), s, e))))"

definition execute_ssl ::
  "('w \<Rightarrow> time_text) \<Rightarrow> 'w HostingProvider \<Rightarrow> ProvisionPlan \<Rightarrow> ProvisionReport \<Rightarrow> 'w Stack \<Rightarrow> 'w env \<Rightarrow>
   'w exec_result" where
  "execute_ssl now_text p plan report s e =
     (case SetupSSL p (PlanDomain plan) (snd e) of
        (Some err, w) \<Rightarrow>
          let report = report\<lparr>RSSL := err_status ''ssl'' err\<rparr> in
          ((Some report, Some (ExecutionFailed ''ssl'' err)), s, (fst e, w))
      | (None, w) \<Rightarrow>
          let report = report\<lparr>RSSL := ok_status ''ssl''\<rparr> in
          (case Push (ssl_cleanup plan (now_text w)) s (fst e, w) of
             (Some err, s, e) \<Rightarrow> ((Some report, Some (ExecutionFailed ''ssl-cleanup'' err)), s, e)
           | (None, s, e) \<Rightarrow> execute_database now_text p plan report s e))"

definition execute_subdomain ::
  "('w \<Rightarrow> time_text) \<Rightarrow> 'w HostingProvider \<Rightarrow> ProvisionPlan \<Rightarrow> 'w Stack \<Rightarrow> 'w env \<Rightarrow> 'w exec_result" where
  "execute_subdomain now_text p plan s e =
     (case CreateSubdomain p (PlanDomain plan) (PlanNodeVersion plan) (snd e) of
        (Some err, w) \<Rightarrow>
          let report = blank_report\<lparr>RSubdomain := err_status ''subdomain'' err\<rparr> in
          ((Some report, Some (ExecutionFailed ''subdomain'' err)), s, (fst e, w))
      | (None, w) \<Rightarrow>
          let report = blank_report\<lparr>RSubdomain := ok_status ''subdomain''\<rparr> in
          (case Push (subdomain_cleanup plan (now_text w)) s (fst e, w) of
             (Some err, s, e) \<Rightarrow> ((Some report, Some (ExecutionFailed ''subdomain-cleanup'' err)), s, e)
           | (None, s, e) \<Rightarrow> execute_ssl now_text p plan report s e))"

text \<open>The stack is a pointer; the caller's stack is the one the steps are pushed on.\<close>

definition some_stack :: "'r \<times> 'w Stack \<times> 'w env \<Rightarrow> 'r \<times> 'w Stack option \<times> 'w env" where
  "some_stack x = (case x of (r, s, e) \<Rightarrow> (r, Some s, e))"

definition Execute ::
  "('w \<Rightarrow> time_text) \<Rightarrow> PlanValidators gomap \<Rightarrow> 'w HostingProvider option \<Rightarrow> ProvisionPlan \<Rightarrow>
   'w Stack option \<Rightarrow> 'w env \<Rightarrow>
   (ProvisionReport option \<times> exec_error option) \<times> 'w Stack option \<times> 'w env" where
  "Execute now_text registry provider plan stack e =
     (case provider of
        None \<Rightarrow> ((None, Some (PlainError [WizardE ErrInvalidPlan])), stack, e)
      | Some p \<Rightarrow>
     (case stack of
        None \<Rightarrow> ((None, Some (PlainError [WizardE ErrInvalidPlan])), stack, e)
      | Some s \<Rightarrow>
     (case PlanValidatorsFor registry (Name p) of
        Inl err \<Rightarrow> ((None, Some (PlainError (wrap (WizardE ErrInvalidPlan) err))), stack, e)
      | Inr v \<Rightarrow>
     (case ValidatePlan plan v of
        Some err \<Rightarrow> ((None, Some (PlainError err)), stack, e)
      | None \<Rightarrow> some_stack (execute_subdomain now_text p plan s e)))))"

definition IsRecoverable :: "goerr option \<Rightarrow> bool" where
  "IsRecoverable err =
     (case err of
        None \<Rightarrow> False
      | Some e \<Rightarrow>
          errors_is e (ProviderE ErrSubdomainExists) \<or> errors_is e (ProviderE ErrDNSNotResolving)
          \<or> errors_is e (ProviderE ErrRateLimitLetsEncrypt) \<or> errors_is e (ProviderE ErrDBNameTaken)
          \<or> errors_is e (ProviderE ErrNodeVersionUnsupported))"

section \<open>The generated workflow (workflow_validate.go)\<close>

definition pinnedUsesPattern :: re where
  "pinnedUsesPattern =
     (let sp = Cls is_re_space in
      seqs [lit ''uses:'', Star sp, plus (Cls (\<lambda>c. c \<noteq> CHR ''@'' \<and> \<not> is_re_space c)), lit ''@'',
            times 40 (Cls (\<lambda>c. (CHR ''a'' \<le> c \<and> c \<le> CHR ''f'') \<or> is_digit c)),
            opt (seqs [plus sp, lit ''#'', Star sp, plus (Cls (\<lambda>c. c \<noteq> CHR 0x0A))]), EndText])"

definition ValidateWorkflowField :: "string \<Rightarrow> goerr option" where
  "ValidateWorkflowField value =
     (if contains value ''${{'' \<or> contains value ''}}'' then Some [WizardE ErrInvalidPlan]
      else if contains_any value [CHR 0x0D, CHR 0x0A, CHR 0x60] \<or> contains value ''$('' then Some [WizardE ErrInvalidPlan]
      else None)"

definition required_snippets :: "string list" where
  "required_snippets =
     [''name: webox deploy'', ''workflow_dispatch:'', ''rsync'', ''--delete'',
      ''--exclude='' @ [CHR 0x27] @ ''.env'' @ [CHR 0x27],
      ''--exclude='' @ [CHR 0x27] @ ''node_modules/'' @ [CHR 0x27], ''stat -c'']"

definition bad_uses_line :: "string \<Rightarrow> bool" where
  "bad_uses_line line \<longleftrightarrow>
     (let trimmed = trim_space line in
      (has_prefix trimmed ''uses:'' \<or> has_prefix trimmed ''- uses:'')
      \<and> \<not> match_string pinnedUsesPattern (trim_prefix trimmed ''- ''))"

definition ValidateWorkflowRendered :: "string \<Rightarrow> goerr option" where
  "ValidateWorkflowRendered rendered =
     (if trim_space rendered = [] then Some [WizardE ErrInvalidPlan]
      else if list_ex (\<lambda>needle. \<not> contains rendered needle) required_snippets then Some [WizardE ErrInvalidPlan]
      else if list_ex bad_uses_line (split_char CHR 0x0A rendered) then Some [WizardE ErrInvalidPlan]
      else None)"

section \<open>Execution on GitHub (github_execute.go, services/github/types.go)\<close>

record RepoRef =
  Owner :: string
  RName :: string

record Repository =
  RepoID :: int
  RepoOwner :: string
  RepoName :: string
  RepoHTMLURL :: string
  RepoSSHURL :: string

record DeployKey =
  KeyID :: int
  KeyTitle :: string
  KeyText :: string
  KeyURL :: string

record CommitFileRequest =
  CPath :: string
  CBranch :: string
  CMessage :: string
  CContent :: string

definition FullName :: "RepoRef \<Rightarrow> string" where
  "FullName r = (if Owner r = [] then RName r else Owner r @ ''/'' @ RName r)"

definition Ref :: "Repository \<Rightarrow> RepoRef" where
  "Ref r = \<lparr>Owner = RepoOwner r, RName = RepoName r\<rparr>"

record GitHubProvisionPlan =
  GOwner :: string
  GRepo :: string
  GBranch :: string
  GVisibility :: string
  DeployPublicKey :: string
  GSecrets :: "string gomap"
  WorkflowPath :: string
  WorkflowContent :: string

record 'd GitHubProvisionReport =
  GRepository :: "Repository option"
  GDeployKey :: "DeployKey option"
  GWorkflow :: "CommitFileRequest option"
  GDispatch :: "'d option"

record ('w, 'd) GitHubProvisioner =
  CreateRepo :: "string \<Rightarrow> string \<Rightarrow> string \<Rightarrow> bool \<Rightarrow> 'w \<Rightarrow> Repository res \<times> 'w"
  AddDeployKey :: "RepoRef \<Rightarrow> string \<Rightarrow> string \<Rightarrow> bool \<Rightarrow> 'w \<Rightarrow> DeployKey res \<times> 'w"
  SetActionsSecret :: "RepoRef \<Rightarrow> string \<Rightarrow> string \<Rightarrow> 'w \<Rightarrow> goerr option \<times> 'w"
  CommitWorkflowFile :: "RepoRef \<Rightarrow> CommitFileRequest \<Rightarrow> 'w \<Rightarrow> goerr option \<times> 'w"
  DispatchWorkflow :: "RepoRef \<Rightarrow> string \<Rightarrow> string \<Rightarrow> 'w \<Rightarrow> 'd res \<times> 'w"

definition validateGitHubProvisionPlan :: "GitHubProvisionPlan \<Rightarrow> goerr option" where
  "validateGitHubProvisionPlan plan =
     (let fs = [GOwner plan, GRepo plan, GBranch plan, DeployPublicKey plan, WorkflowPath plan] in
      if list_ex (\<lambda>v. v = [] \<or> ValidateWorkflowField v \<noteq> None) fs then Some [WizardE ErrInvalidPlan]
      else if WorkflowContent plan = [] then Some [WizardE ErrInvalidPlan]
      else if GSecrets plan = [] then Some [WizardE ErrInvalidPlan]
      else None)"

definition sortedSecretNames :: "string gomap \<Rightarrow> string list" where
  "sortedSecretNames secrets = sort (map fst secrets)"

definition repo_cleanup :: "RepoRef \<Rightarrow> time_text \<Rightarrow> CleanupStep" where
  "repo_cleanup ref t = \<lparr>StepName = ''Delete GitHub repo '' @ FullName ref, Kind = ResourceGitHubRepo,
     Params = [(''owner'', Owner ref), (''repo'', RName ref)], CreatedAt = t\<rparr>"

definition key_cleanup :: "RepoRef \<Rightarrow> DeployKey \<Rightarrow> time_text \<Rightarrow> CleanupStep" where
  "key_cleanup ref key t = \<lparr>StepName = ''Remove GitHub deploy key '' @ itoa (KeyID key),
     Kind = ResourceGitHubDeployKey,
     Params = [(''owner'', Owner ref), (''repo'', RName ref), (''keyID'', itoa (KeyID key))], CreatedAt = t\<rparr>"

definition secret_cleanup :: "RepoRef \<Rightarrow> string \<Rightarrow> time_text \<Rightarrow> CleanupStep" where
  "secret_cleanup ref name t = \<lparr>StepName = ''Remove GitHub Actions secret '' @ name,
     Kind = ResourceGitHubActionsSecret,
     Params = [(''owner'', Owner ref), (''repo'', RName ref), (''name'', name)], CreatedAt = t\<rparr>"

definition workflow_cleanup :: "RepoRef \<Rightarrow> GitHubProvisionPlan \<Rightarrow> time_text \<Rightarrow> CleanupStep" where
  "workflow_cleanup ref plan t = \<lparr>StepName = ''Remove GitHub workflow '' @ WorkflowPath plan,
     Kind = ResourceGitHubWorkflowFile,
     Params = [(''owner'', Owner ref), (''repo'', RName ref), (''path'', WorkflowPath plan),
               (''branch'', GBranch plan)], CreatedAt = t\<rparr>"

fun set_secrets ::
  "('w \<Rightarrow> time_text) \<Rightarrow> ('w, 'd) GitHubProvisioner \<Rightarrow> RepoRef \<Rightarrow> string gomap \<Rightarrow> string list \<Rightarrow> 'w Stack \<Rightarrow>
   'w env \<Rightarrow> goerr option \<times> 'w Stack \<times> 'w env" where
  "set_secrets now_text gh ref secrets [] s e = (None, s, e)"
| "set_secrets now_text gh ref secrets (name # names) s e =
     (case SetActionsSecret gh ref name (mget secrets name) (snd e) of
        (Some err, w) \<Rightarrow> (Some err, s, (fst e, w))
      | (None, w) \<Rightarrow>
     (case Push (secret_cleanup ref name (now_text w)) s (fst e, w) of
        (Some err, s, e) \<Rightarrow> (Some err, s, e)
      | (None, s, e) \<Rightarrow> set_secrets now_text gh ref secrets names s e))"

type_synonym ('w, 'd) gh_result =
  "('d GitHubProvisionReport option \<times> goerr option) \<times> 'w Stack \<times> 'w env"

definition github_workflow ::
  "('w \<Rightarrow> time_text) \<Rightarrow> ('w, 'd) GitHubProvisioner \<Rightarrow> GitHubProvisionPlan \<Rightarrow> RepoRef \<Rightarrow> 'd GitHubProvisionReport \<Rightarrow>
   'w Stack \<Rightarrow> 'w env \<Rightarrow> ('w, 'd) gh_result" where
  "github_workflow now_text gh plan ref report s e =
     (let commitReq = \<lparr>CPath = WorkflowPath plan, CBranch = GBranch plan,
            CMessage = ''Add Webox deploy workflow'', CContent = WorkflowContent plan\<rparr> in
      case CommitWorkflowFile gh ref commitReq (snd e) of
        (Some err, w) \<Rightarrow> ((Some report, Some err), s, (fst e, w))
      | (None, w) \<Rightarrow>
          let report = report\<lparr>GWorkflow := Some commitReq\<rparr> in
          (case Push (workflow_cleanup ref plan (now_text w)) s (fst e, w) of
             (Some err, s, e) \<Rightarrow> ((Some report, Some err), s, e)
           | (None, s, e) \<Rightarrow>
               (case DispatchWorkflow gh ref (WorkflowPath plan) (GBranch plan) (snd e) of
                  (Inl err, w) \<Rightarrow> ((Some report, Some err), s, (fst e, w))
                | (Inr d, w) \<Rightarrow> ((Some (report\<lparr>GDispatch := Some d\<rparr>), None), s, (fst e, w)))))"

definition github_key ::
  "('w \<Rightarrow> time_text) \<Rightarrow> ('w, 'd) GitHubProvisioner \<Rightarrow> GitHubProvisionPlan \<Rightarrow> RepoRef \<Rightarrow> 'd GitHubProvisionReport \<Rightarrow>
   'w Stack \<Rightarrow> 'w env \<Rightarrow> ('w, 'd) gh_result" where
  "github_key now_text gh plan ref report s e =
     (case AddDeployKey gh ref ''Webox deploy key'' (DeployPublicKey plan) False (snd e) of
        (Inl err, w) \<Rightarrow> ((Some report, Some err), s, (fst e, w))
      | (Inr key, w) \<Rightarrow>
          let report = report\<lparr>GDeployKey := Some key\<rparr> in
          (case Push (key_cleanup ref key (now_text w)) s (fst e, w) of
             (Some err, s, e) \<Rightarrow> ((Some report, Some err), s, e)
           | (None, s, e) \<Rightarrow>
               (case set_secrets now_text gh ref (GSecrets plan) (sortedSecretNames (GSecrets plan)) s e of
                  (Some err, s, e) \<Rightarrow> ((Some report, Some err), s, e)
                | (None, s, e) \<Rightarrow> github_workflow now_text gh plan ref report s e)))"

definition ExecuteGitHubProvision ::
  "('w \<Rightarrow> time_text) \<Rightarrow> ('w, 'd) GitHubProvisioner option \<Rightarrow> GitHubProvisionPlan \<Rightarrow> 'w Stack option \<Rightarrow>
   'w env \<Rightarrow> ('d GitHubProvisionReport option \<times> goerr option) \<times> 'w Stack option \<times> 'w env" where
  "ExecuteGitHubProvision now_text gho plan stack e =
     (case gho of
        None \<Rightarrow> ((None, Some [WizardE ErrInvalidPlan]), stack, e)
      | Some gh \<Rightarrow>
     (case stack of
        None \<Rightarrow> ((None, Some [WizardE ErrInvalidPlan]), stack, e)
      | Some s \<Rightarrow>
     (case validateGitHubProvisionPlan plan of
        Some err \<Rightarrow> ((None, Some err), stack, e)
      | None \<Rightarrow>
          let report = \<lparr>GRepository = None, GDeployKey = None, GWorkflow = None, GDispatch = None\<rparr> in
          (case CreateRepo gh (GOwner plan) (GRepo plan) (GVisibility plan) True (snd e) of
             (Inl err, w) \<Rightarrow> ((Some report, Some err), stack, (fst e, w))
           | (Inr repo, w) \<Rightarrow>
               let report = report\<lparr>GRepository := Some repo\<rparr>;
                   ref = Ref repo;
                   ref = (if Owner ref = [] then ref\<lparr>Owner := GOwner plan\<rparr> else ref);
                   ref = (if RName ref = [] then ref\<lparr>RName := GRepo plan\<rparr> else ref) in
               some_stack
                 (case Push (repo_cleanup ref (now_text w)) s (fst e, w) of
                    (Some err, s, e) \<Rightarrow> ((Some report, Some err), s, e)
                  | (None, s, e) \<Rightarrow> github_key now_text gh plan ref report s e)))))"

section \<open>What a plan may ask for\<close>

lemma smallhost_complete: "IsComplete smallhost_validators"
  by (simp add: IsComplete_def smallhost_validators_def Option.is_none_def)

lemma ValidatePlan_None:
  "ValidatePlan plan smallhost_validators = None \<longleftrightarrow>
     ProfileAlias plan \<noteq> [] \<and> PlanStack plan \<in> set SupportedStacks
     \<and> sh_ValidateDomain (PlanDomain plan) = None \<and> sh_ValidateNodeVersion (PlanNodeVersion plan) = None
     \<and> (DBKind plan = [] \<and> DBName plan = [] \<or>
        DBKind plan \<in> set SupportedDBKinds \<and> sh_ValidateDBName (DBName plan) = None)"
proof -
  have "sh_ValidateNodeVersion [] \<noteq> None" "sh_ValidateDBName [] \<noteq> None" "[] \<notin> set SupportedDBKinds"
    by (simp_all add: sh_ValidateNodeVersion_def sh_ValidateDBName_def SupportedDBKinds_def
        DatabaseMySQL_def DatabasePostgres_def)
  then show ?thesis
    using smallhost_complete
    by (auto simp: ValidatePlan_def run_validator_def IsValidStack_def IsValidDBKind_def
        smallhost_validators_def list_ex_iff split: option.splits)
qed

lemma ValidatePlan_err: "ValidatePlan plan v = Some e \<Longrightarrow> errors_is e (WizardE ErrInvalidPlan)"
  by (auto simp: ValidatePlan_def split: if_splits option.splits)

section \<open>Resources on the panel\<close>

datatype resource = Subdom string | Cert string | Database string string

text \<open>
  The contract of a panel: a successful call creates or removes exactly the resource it names, a failed
  call changes nothing.
\<close>

definition panel_laws :: "'w HostingProvider \<Rightarrow> ('w \<Rightarrow> resource set) \<Rightarrow> bool" where
  "panel_laws p res \<longleftrightarrow>
     (\<forall>d v w r w'. CreateSubdomain p d v w = (r, w') \<longrightarrow> res w' = (if r = None then insert (Subdom d) (res w) else res w))
     \<and> (\<forall>d w r w'. SetupSSL p d w = (r, w') \<longrightarrow> res w' = (if r = None then insert (Cert d) (res w) else res w))
     \<and> (\<forall>k n w r w'. CreateDatabase p k n w = (r, w') \<longrightarrow>
          res w' = (if isl r then res w else insert (Database k n) (res w)))
     \<and> (\<forall>d w r w'. RemoveSubdomain p d w = (r, w') \<longrightarrow> res w' = (if r = None then res w - {Subdom d} else res w))
     \<and> (\<forall>d w r w'. RemoveSSL p d w = (r, w') \<longrightarrow> res w' = (if r = None then res w - {Cert d} else res w))
     \<and> (\<forall>k n w r w'. RemoveDatabase p k n w = (r, w') \<longrightarrow>
          res w' = (if r = None then res w - {Database k n} else res w))"

lemma panel_lawsD:
  assumes "panel_laws p res"
  shows "CreateSubdomain p d v w = (r, w') \<Longrightarrow> res w' = (if r = None then insert (Subdom d) (res w) else res w)"
    and "SetupSSL p d w = (r, w') \<Longrightarrow> res w' = (if r = None then insert (Cert d) (res w) else res w)"
    and "CreateDatabase p k n w = (rd, w') \<Longrightarrow> res w' = (if isl rd then res w else insert (Database k n) (res w))"
    and "RemoveSubdomain p d w = (r, w') \<Longrightarrow> res w' = (if r = None then res w - {Subdom d} else res w)"
    and "RemoveSSL p d w = (r, w') \<Longrightarrow> res w' = (if r = None then res w - {Cert d} else res w)"
    and "RemoveDatabase p k n w = (r, w') \<Longrightarrow> res w' = (if r = None then res w - {Database k n} else res w)"
  using assms unfolding panel_laws_def by metis+

text \<open>The resource a cleanup step undoes.\<close>

definition resource_of :: "CleanupStep \<Rightarrow> resource" where
  "resource_of step =
     (let p = mget (Params step) in
      if Kind step = ResourceSubdomain then Subdom (p ''domain'')
      else if Kind step = ResourceSSL then Cert (p ''domain'')
      else Database (p ''dbKind'') (p ''dbName''))"

lemma resource_of_cleanups [simp]:
  "resource_of (subdomain_cleanup plan t) = Subdom (PlanDomain plan)"
  "resource_of (ssl_cleanup plan t) = Cert (PlanDomain plan)"
  "resource_of (database_cleanup plan t) = Database (DBKind plan) (DBName plan)"
  by (simp_all add: resource_of_def subdomain_cleanup_def ssl_cleanup_def database_cleanup_def kind_defs mget_def)

lemma kind_of_cleanups [simp]:
  "Kind (subdomain_cleanup plan t) = ResourceSubdomain" "Kind (ssl_cleanup plan t) = ResourceSSL"
  "Kind (database_cleanup plan t) = ResourceDatabase"
  by (simp_all add: subdomain_cleanup_def ssl_cleanup_def database_cleanup_def)

definition store_apart :: "('w \<Rightarrow> resource set) \<Rightarrow> 'w Stack \<Rightarrow> bool" where
  "store_apart res s \<longleftrightarrow> (case persist s of None \<Rightarrow> True | Some f \<Rightarrow> \<forall>xs e. res (snd (snd (f xs e))) = res (snd e))"

lemma Push_effect:
  assumes "Push x s e = (r, s', e')" "store_apart res s"
  shows "steps s' = (if r = None then steps s @ [x] else steps s)" "persist s' = persist s"
    "store_apart res s'" "res (snd e') = res (snd e)"
proof -
  obtain c e1 where c: "check_ctx e = (c, e1)" by (meson surj_pair)
  have s1: "snd e1 = snd e" using c by (auto simp: check_ctx_def)
  show "steps s' = (if r = None then steps s @ [x] else steps s)" "persist s' = persist s"
    using assms(1)
    by (auto simp: Push_def Let_def split: prod.splits option.splits dest!: sym [of "Some _" "validateStep x"])
  then show "store_apart res s'" using assms(2) by (simp add: store_apart_def)
  show "res (snd e') = res (snd e)"
  proof (cases "persist s")
    case None
    then show ?thesis using assms(1) c s1 by (auto simp: Push_def Let_def split: prod.splits option.splits)
  next
    case (Some f)
    obtain q e2 where 2: "f (steps s @ [x]) e1 = (q, e2)" by (meson surj_pair)
    have "res (snd (snd (f (steps s @ [x]) e1))) = res (snd e1)"
      using assms(2) Some by (simp add: store_apart_def del: split_paired_All)
    then have "res (snd e2) = res (snd e)" using 2 s1 by simp
    moreover have "snd e' = snd e \<or> e' = e2"
      using assms(1) c s1 Some 2
      by (cases c; cases "validateStep x"; cases q) (simp_all add: Push_def Let_def)
    ultimately show ?thesis by (elim disjE) simp_all
  qed
qed

text \<open>
  What an execution leaves behind: the new cleanup steps undo everything that was created, except for
  the last resource when its cleanup step could not be recorded, which the error then names.
\<close>

definition planned :: "ProvisionPlan \<Rightarrow> resource set" where
  "planned plan = {Subdom (PlanDomain plan), Cert (PlanDomain plan), Database (DBKind plan) (DBName plan)}"

definition tracked ::
  "ProvisionPlan \<Rightarrow> ('w \<Rightarrow> resource set) \<Rightarrow> 'w Stack \<Rightarrow> 'w env \<Rightarrow> exec_error option \<times> 'w Stack \<times> 'w env \<Rightarrow> bool" where
  "tracked plan res s e out \<longleftrightarrow>
     (case out of (err, s', e') \<Rightarrow>
        \<exists>new lost. steps s' = steps s @ new
          \<and> res (snd e') = res (snd e) \<union> resource_of ` set new \<union> set lost
          \<and> length lost \<le> 1
          \<and> (lost \<noteq> [] \<longrightarrow> (\<exists>st er. err = Some (ExecutionFailed st er) \<and> has_suffix st ''-cleanup''))
          \<and> (\<forall>x \<in> set new. Kind x \<in> {ResourceSubdomain, ResourceSSL, ResourceDatabase} \<and> resource_of x \<in> planned plan)
          \<and> persist s' = persist s)"

lemma tracked_stop: "res (snd e') = res (snd e) \<Longrightarrow> tracked plan res s e (err, s, e')"
  unfolding tracked_def prod.case by (rule exI [of _ "[]"], rule exI [of _ "[]"]) simp

lemma tracked_lost:
  "steps s' = steps s \<Longrightarrow> persist s' = persist s \<Longrightarrow> res (snd e') = insert r (res (snd e)) \<Longrightarrow>
   has_suffix st ''-cleanup'' \<Longrightarrow> tracked plan res s e (Some (ExecutionFailed st er), s', e')"
  unfolding tracked_def prod.case by (rule exI [of _ "[]"], rule exI [of _ "[r]"]) simp

text \<open>Prefixing a recorded creation to a tracked execution.\<close>

lemma tracked_Cons:
  assumes "tracked plan res s1 e1 (err, s', e')" "steps s1 = steps s @ [x]" "persist s1 = persist s"
    "res (snd e1) = insert (resource_of x) (res (snd e))"
    "Kind x \<in> {ResourceSubdomain, ResourceSSL, ResourceDatabase}" "resource_of x \<in> planned plan"
  shows "tracked plan res s e (err, s', e')"
proof -
  obtain new lost where n: "steps s' = steps s1 @ new"
      "res (snd e') = res (snd e1) \<union> resource_of ` set new \<union> set lost" "length lost \<le> 1"
      "lost \<noteq> [] \<longrightarrow> (\<exists>st er. err = Some (ExecutionFailed st er) \<and> has_suffix st ''-cleanup'')"
      "\<forall>x \<in> set new. Kind x \<in> {ResourceSubdomain, ResourceSSL, ResourceDatabase} \<and> resource_of x \<in> planned plan"
      "persist s' = persist s1"
    using assms(1) unfolding tracked_def by auto
  show ?thesis
    unfolding tracked_def prod.case
    by (rule exI [of _ "x # new"], rule exI [of _ lost]) (use n assms in auto)
qed

lemma execute_database_tracked:
  assumes "panel_laws p res" "store_apart res s" "execute_database nt p plan rep s e = ((rp, err), s', e')"
  shows "tracked plan res s e (err, s', e')"
proof (cases "DBKind plan = [] \<or> DBName plan = []")
  case True
  then show ?thesis using assms(3) by (auto simp: execute_database_def intro: tracked_stop)
next
  case False
  obtain rd w where c: "CreateDatabase p (DBKind plan) (DBName plan) (snd e) = (rd, w)" by (meson surj_pair)
  note rw = panel_lawsD(3) [OF assms(1) c]
  show ?thesis
  proof (cases rd)
    case (Inl er)
    then show ?thesis
      using assms(3) False c rw by (auto simp: execute_database_def Let_def intro: tracked_stop)
  next
    case (Inr up)
    obtain r s1 e1 where p: "Push (database_cleanup plan (nt w)) s (fst e, w) = (r, s1, e1)" by (metis surj_pair)
    note pe = Push_effect [OF p assms(2)]
    have out: "err = map_option (ExecutionFailed ''database-cleanup'') r" "s' = s1" "e' = e1"
      using assms(3) False c Inr p
      by (cases up; cases r; simp add: execute_database_def Let_def)+
    show ?thesis
    proof (cases r)
      case None
      then show ?thesis
        using out rw Inr pe tracked_stop [of res e1 e1 plan s1 err]
        by (intro tracked_Cons [of plan res s1 e1 err s' e' s "database_cleanup plan (nt w)"]) (auto simp: planned_def)
    next
      case (Some er)
      have "has_suffix ''database-cleanup'' ''-cleanup''" by (simp add: has_suffix_def)
      then show ?thesis
        using out rw Inr pe Some by (auto intro!: tracked_lost)
    qed
  qed
qed

lemma execute_ssl_tracked:
  assumes "panel_laws p res" "store_apart res s" "execute_ssl nt p plan rep s e = ((rp, err), s', e')"
  shows "tracked plan res s e (err, s', e')"
proof -
  obtain r w where c: "SetupSSL p (PlanDomain plan) (snd e) = (r, w)" by (meson surj_pair)
  note rw = panel_lawsD(2) [OF assms(1) c]
  show ?thesis
  proof (cases r)
    case (Some er)
    then show ?thesis using assms(3) c rw by (auto simp: execute_ssl_def Let_def intro: tracked_stop)
  next
    case None
    obtain q s1 e1 where p: "Push (ssl_cleanup plan (nt w)) s (fst e, w) = (q, s1, e1)" by (metis surj_pair)
    note pe = Push_effect [OF p assms(2)]
    show ?thesis
    proof (cases q)
      case (Some er)
      have "has_suffix ''ssl-cleanup'' ''-cleanup''" by (simp add: has_suffix_def)
      then show ?thesis
        using assms(3) c rw None p pe Some by (auto simp: execute_ssl_def Let_def intro!: tracked_lost)
    next
      case q: None
      then have "execute_database nt p plan (rep\<lparr>RSSL := ok_status ''ssl''\<rparr>) s1 e1 = ((rp, err), s', e')"
        using assms(3) c None p by (simp add: execute_ssl_def Let_def)
      from execute_database_tracked [OF assms(1) pe(3) this] show ?thesis
        using q None rw pe by (intro tracked_Cons [of plan res s1 e1 err s' e' s "ssl_cleanup plan (nt w)"]) (auto simp: planned_def)
    qed
  qed
qed

lemma execute_subdomain_tracked:
  assumes "panel_laws p res" "store_apart res s" "execute_subdomain nt p plan s e = ((rp, err), s', e')"
  shows "tracked plan res s e (err, s', e')"
proof -
  obtain r w where c: "CreateSubdomain p (PlanDomain plan) (PlanNodeVersion plan) (snd e) = (r, w)"
    by (meson surj_pair)
  note rw = panel_lawsD(1) [OF assms(1) c]
  show ?thesis
  proof (cases r)
    case (Some er)
    then show ?thesis using assms(3) c rw by (auto simp: execute_subdomain_def Let_def intro: tracked_stop)
  next
    case None
    obtain q s1 e1 where p: "Push (subdomain_cleanup plan (nt w)) s (fst e, w) = (q, s1, e1)" by (metis surj_pair)
    note pe = Push_effect [OF p assms(2)]
    show ?thesis
    proof (cases q)
      case (Some er)
      have "has_suffix ''subdomain-cleanup'' ''-cleanup''" by (simp add: has_suffix_def)
      then show ?thesis
        using assms(3) c rw None p pe Some by (auto simp: execute_subdomain_def Let_def intro!: tracked_lost)
    next
      case q: None
      then have "execute_ssl nt p plan (blank_report\<lparr>RSubdomain := ok_status ''subdomain''\<rparr>) s1 e1
          = ((rp, err), s', e')"
        using assms(3) c None p by (simp add: execute_subdomain_def Let_def)
      from execute_ssl_tracked [OF assms(1) pe(3) this] show ?thesis
        using q None rw pe by (intro tracked_Cons [of plan res s1 e1 err s' e' s "subdomain_cleanup plan (nt w)"]) (auto simp: planned_def)
    qed
  qed
qed

section \<open>Undoing\<close>

lemma runner_removes:
  assumes "panel_laws pr res" "Kind x \<in> {ResourceSubdomain, ResourceSSL, ResourceDatabase}"
    "MakeStepRunner (Some pr) x e = (None, e')"
  shows "res (snd e') = res (snd e) - {resource_of x}" "fst e' = fst e"
  using assms(2,3) panel_lawsD(4-6) [OF assms(1)]
  by (auto simp: MakeStepRunner_def MakeStepRunnerWithGitHub_def in_env_def resource_of_def Let_def kind_defs
      split: prod.splits)

lemma MakeStepRunner_keeps_ctx: "keeps_ctx (MakeStepRunner pr)"
  unfolding keeps_ctx_def MakeStepRunner_def MakeStepRunnerWithGitHub_def in_env_def Let_def
  by (auto split: option.split prod.split)

lemma Pop_apart:
  assumes "Pop s e = (x, s', e')" "store_apart res s"
  shows "res (snd e') = res (snd e)" "store_apart res s'"
proof -
  obtain y b err where x: "x = (y, b, err)" by (metis prod_cases3)
  have "persist s' = persist s" using Pop_persist assms(1) x by blast
  then show "store_apart res s'" using assms(2) by (simp add: store_apart_def)
  obtain c e1 where c: "check_ctx e = (c, e1)" by (meson surj_pair)
  have s1: "snd e1 = snd e" using c by (auto simp: check_ctx_def)
  show "res (snd e') = res (snd e)"
  proof (cases "persist s")
    case None
    then show ?thesis using assms(1) c s1 by (auto simp: Pop_def Let_def split: option.splits if_splits)
  next
    case (Some f)
    have f: "res (snd (snd (f (butlast (steps s)) e1))) = res (snd e1)"
      using assms(2) Some by (simp add: store_apart_def del: split_paired_All)
    obtain q e2 where 2: "f (butlast (steps s)) e1 = (q, e2)" by (meson surj_pair)
    show ?thesis using assms(1) c s1 Some f 2 by (cases c) (auto simp: Pop_def Let_def split: if_splits)
  qed
qed

lemma rollback_restores:
  "panel_laws pr res \<Longrightarrow> store_reliable s \<Longrightarrow> store_apart res s \<Longrightarrow> fst e = None \<Longrightarrow>
   \<forall>x \<in> set (steps s). Kind x \<in> {ResourceSubdomain, ResourceSSL, ResourceDatabase} \<Longrightarrow>
   rollback_loop (MakeStepRunner (Some pr)) s e results [] = ((rs, None), s', e') \<Longrightarrow>
   res (snd e') = res (snd e) - resource_of ` set (steps s)"
proof (induction "steps s" arbitrary: s e results rule: rev_induct)
  case Nil
  have c: "check_ctx e = (None, e)" using Nil.prems by (cases e) (simp add: check_ctx_def)
  obtain e1 where p: "Pop s e = ((zero_step, False, None), s, e1)"
    using Pop_reliable [OF Nil.prems(2,4)] Nil.hyps by auto
  have "e' = e1" using Nil.prems(6) c p by (simp add: rollback_loop.simps [of _ s e])
  then show ?case using Pop_apart(1) [OF p Nil.prems(3)] Nil.hyps by simp
next
  case (snoc x xs)
  let ?run = "MakeStepRunner (Some pr)"
  have c: "check_ctx e = (None, e)" using snoc.prems by (cases e) (simp add: check_ctx_def)
  have st: "steps s = xs @ [x]" using snoc.hyps by simp
  obtain e1 where p: "fst e1 = None" "Pop s e = ((x, True, None), s\<lparr>steps := xs\<rparr>, e1)"
    using Pop_reliable [OF snoc.prems(2,4)] st by auto
  note pa = Pop_apart [OF p(2) snoc.prems(3)]
  obtain q e2 where r: "?run x e1 = (q, e2)" by (meson surj_pair)
  have f2: "fst e2 = None" using MakeStepRunner_keeps_ctx [of "Some pr"] r p(1) by (metis keeps_ctx_def snd_conv)
  have rel: "store_reliable (s\<lparr>steps := xs\<rparr>)" using snoc.prems(2) by (simp add: store_reliable_def)
  have loop: "rollback_loop ?run (s\<lparr>steps := xs\<rparr>) e2 (results @ [\<lparr>Step = x, Err = q\<rparr>])
      (case q of None \<Rightarrow> [] | Some er \<Rightarrow> [er]) = ((rs, None), s', e')"
    using snoc.prems(6) c p r by (cases q) (simp_all add: rollback_loop.simps [of _ s e])
  have "q = None"
  proof (rule ccontr)
    assume "q \<noteq> None"
    then obtain er where "q = Some er" by auto
    then show False
      using loop rollback_loop_complete [OF rel f2 MakeStepRunner_keeps_ctx [of "Some pr"],
          of "results @ [\<lparr>Step = x, Err = q\<rparr>]" "[er]"]
      by (auto simp: errors_join_def)
  qed
  then have "res (snd e') = res (snd e2) - resource_of ` set xs"
    using loop snoc.prems(1,5) rel pa(2) f2 st
    by (intro snoc.hyps(1) [of "s\<lparr>steps := xs\<rparr>", simplified]) auto
  moreover have "res (snd e2) = res (snd e) - {resource_of x}"
    using runner_removes(1) [OF snoc.prems(1) _ r [unfolded \<open>q = None\<close>]] snoc.prems(5) st pa(1) by auto
  ultimately show ?case using st by auto
qed

section \<open>A panel in memory\<close>

text \<open>A panel whose state is the set of its resources; it satisfies the contract.\<close>

definition ideal_panel :: "resource set HostingProvider" where
  "ideal_panel =
     \<lparr>Name = ''smallhost'',
      CreateSubdomain = (\<lambda>d v w. if Subdom d \<in> w then (Some [ProviderE ErrSubdomainExists], w)
                                 else (None, insert (Subdom d) w)),
      SetupSSL = (\<lambda>d w. if Subdom d \<in> w then (None, insert (Cert d) w) else (Some [ProviderE ErrDNSNotResolving], w)),
      CreateDatabase = (\<lambda>k n w. if Database k n \<in> w then (Inl [ProviderE ErrDBNameTaken], w)
                                else (Inr (n, ''generated''), insert (Database k n) w)),
      RestartNodeApp = (\<lambda>d w. (None, w)),
      GetDeployPath = (\<lambda>d. d), GetLogPath = (\<lambda>d. d),
      TailLog = (\<lambda>d n w. (Inr [], w)),
      CheckStatus = (\<lambda>w. (Some \<lparr>SSHConnected = True, CLIInstalled = True, LatencyMS = 1\<rparr>, None, w)),
      ListSubdomains = (\<lambda>w. (Inr [], w)),
      RemoveSubdomain = (\<lambda>d w. (None, w - {Subdom d})),
      RemoveDatabase = (\<lambda>k n w. (None, w - {Database k n})),
      RemoveSSL = (\<lambda>d w. (None, w - {Cert d}))\<rparr>"

lemma ideal_panel_laws: "panel_laws ideal_panel (\<lambda>w. w)"
  by (auto simp: panel_laws_def ideal_panel_def split: if_splits)

definition example_plan :: ProvisionPlan where
  "example_plan = \<lparr>ProfileAlias = ''main'', PlanStack = ''static'', PlanDomain = ''a.pl'',
     PlanNodeVersion = ''22'', DBKind = [], DBName = []\<rparr>"

lemma example_plan_valid: "ValidatePlan example_plan smallhost_validators = None"
  unfolding ValidatePlan_None
  by (simp add: example_plan_def valid_a_pl ValidateNodeVersion_iff version_char_def is_digit_def less_eq_char_def
      SupportedStacks_def StackStatic_def)

definition example_registry :: "PlanValidators gomap" where
  "example_registry = [(''smallhost'', smallhost_validators)]"

lemma example_validators: "PlanValidatorsFor example_registry (Name ideal_panel) = Inr smallhost_validators"
proof -
  have "trim_space ''smallhost'' = ''smallhost''"
    by (rule trim_space_ascii) (auto simp: less_char_def)
  then show ?thesis by (simp add: PlanValidatorsFor_def ideal_panel_def example_registry_def)
qed

section \<open>Properties\<close>

text \<open>
  With the small.pl validators a plan is accepted exactly when it names a profile and a supported
  stack, its domain and node version pass the adapter's validators, and it asks for no database or for
  one of a supported kind with a valid name.
\<close>

theorem ValidatePlan_accepts:
  "ValidatePlan plan smallhost_validators = None \<longleftrightarrow>
     ProfileAlias plan \<noteq> [] \<and> PlanStack plan \<in> set SupportedStacks
     \<and> sh_ValidateDomain (PlanDomain plan) = None \<and> sh_ValidateNodeVersion (PlanNodeVersion plan) = None
     \<and> (DBKind plan = [] \<and> DBName plan = [] \<or>
        DBKind plan \<in> set SupportedDBKinds \<and> sh_ValidateDBName (DBName plan) = None)"
  by (rule ValidatePlan_None)


definition at_noon :: "'w \<Rightarrow> time_text" where "at_noon w = ''2026-01-02T12:00:00Z''"

lemma example_executes:
  "Execute at_noon example_registry (Some ideal_panel) example_plan (Some (NewStack None ''w'')) (None, {})
   = ((Some (blank_report\<lparr>RSubdomain := ok_status ''subdomain'', RSSL := ok_status ''ssl''\<rparr>), None),
      Some (NewStack None ''w''\<lparr>steps := [subdomain_cleanup example_plan ''2026-01-02T12:00:00Z'',
                                    ssl_cleanup example_plan ''2026-01-02T12:00:00Z'']\<rparr>),
      (None, {Cert ''a.pl'', Subdom ''a.pl''}))"
proof -
  have "validateStep (subdomain_cleanup example_plan t) = None" "validateStep (ssl_cleanup example_plan t) = None" for t
    by (simp_all add: validateStep_def subdomain_cleanup_def ssl_cleanup_def example_plan_def supported_kinds_def
        kind_defs not_secret_a_pl mget_def)
  moreover have "CreateSubdomain ideal_panel (PlanDomain example_plan) v {} = (None, {Subdom ''a.pl''})"
    "SetupSSL ideal_panel (PlanDomain example_plan) {Subdom ''a.pl''} = (None, {Cert ''a.pl'', Subdom ''a.pl''})"
    "DBKind example_plan = []" for v
    by (simp_all add: ideal_panel_def example_plan_def)
  ultimately show ?thesis
    by (simp add: Execute_def example_validators example_plan_valid execute_subdomain_def execute_ssl_def
        execute_database_def Push_def check_ctx_def NewStack_def some_stack_def at_noon_def Let_def)
qed




definition sk_plan :: ProvisionPlan where
  "sk_plan = example_plan\<lparr>PlanDomain := ''sk-1.pl''\<rparr>"

lemma sk_secret: "isSecretShaped ''sk-1.pl''"
  by code_simp

lemma sk_plan_valid: "ValidatePlan sk_plan smallhost_validators = None"
proof -
  have "sh_ValidateDomain ''sk-1.pl'' = None"
    by (simp add: ValidateDomain_iff valid_label_def lower_alnum_def is_digit_def less_eq_char_def)
  then show ?thesis
    using example_plan_valid unfolding ValidatePlan_None by (simp add: sk_plan_def)
qed


section \<open>The GitHub side\<close>

lemma Push_result:
  "Push x s e = (r, s', e') \<Longrightarrow> steps s' = (if r = None then steps s @ [x] else steps s)"
  by (auto simp: Push_def Let_def split: prod.splits option.splits dest!: sym [of "Some _" "validateStep x"])

text \<open>What a GitHub cleanup step is about: its kind and, for a secret, its name.\<close>

definition subject :: "CleanupStep \<Rightarrow> string \<times> string" where
  "subject step = (Kind step, mget (Params step) ''name'')"

definition github_order :: "GitHubProvisionPlan \<Rightarrow> (string \<times> string) list" where
  "github_order plan =
     [(ResourceGitHubRepo, []), (ResourceGitHubDeployKey, [])]
     @ map (\<lambda>n. (ResourceGitHubActionsSecret, n)) (sortedSecretNames (GSecrets plan))
     @ [(ResourceGitHubWorkflowFile, [])]"

lemma subject_cleanups [simp]:
  "subject (repo_cleanup ref t) = (ResourceGitHubRepo, [])"
  "subject (key_cleanup ref key t) = (ResourceGitHubDeployKey, [])"
  "subject (secret_cleanup ref n t) = (ResourceGitHubActionsSecret, n)"
  "subject (workflow_cleanup ref plan t) = (ResourceGitHubWorkflowFile, [])"
  by (simp_all add: subject_def repo_cleanup_def key_cleanup_def secret_cleanup_def workflow_cleanup_def mget_def)

text \<open>\<open>follows s s' order complete\<close>: what was pushed is an initial part of \<open>order\<close>, all of it if \<open>complete\<close>.\<close>

definition follows :: "'w Stack \<Rightarrow> 'w Stack \<Rightarrow> (string \<times> string) list \<Rightarrow> bool \<Rightarrow> bool" where
  "follows s s' order complete \<longleftrightarrow>
     (\<exists>new. steps s' = steps s @ new \<and> map subject new = take (length new) order
        \<and> length new \<le> length order \<and> (complete \<longrightarrow> length new = length order))"

lemma follows_none: "steps s' = steps s \<Longrightarrow> \<not> complete \<Longrightarrow> follows s s' order complete"
  by (simp add: follows_def)

lemma follows_cons:
  assumes "steps s1 = steps s @ [x]" "follows s1 s' order complete"
  shows "follows s s' (subject x # order) complete"
proof -
  obtain new where "steps s' = steps s1 @ new" "map subject new = take (length new) order"
      "length new \<le> length order" "complete \<longrightarrow> length new = length order"
    using assms(2) by (auto simp: follows_def)
  then show ?thesis unfolding follows_def using assms(1) by (intro exI [of _ "x # new"]) auto
qed

lemma follows_append:
  "follows s s' xs False \<Longrightarrow> follows s s' (xs @ ys) False"
  by (auto simp: follows_def)

lemma follows_trans:
  assumes "follows s s1 xs True" "follows s1 s' ys complete"
  shows "follows s s' (xs @ ys) complete"
proof -
  obtain new where a: "steps s1 = steps s @ new" "map subject new = xs" using assms(1) by (auto simp: follows_def)
  obtain more where b: "steps s' = steps s1 @ more" "map subject more = take (length more) ys"
      "length more \<le> length ys" "complete \<longrightarrow> length more = length ys"
    using assms(2) by (auto simp: follows_def)
  have "length new = length xs" using a(2) by auto
  then show ?thesis unfolding follows_def using a b by (intro exI [of _ "new @ more"]) auto
qed

lemma set_secrets_follows:
  "set_secrets nt gh ref m names s e = (r, s', e') \<Longrightarrow>
   follows s s' (map (\<lambda>n. (ResourceGitHubActionsSecret, n)) names) (r = None)"
proof (induction nt gh ref m names s e rule: set_secrets.induct)
  case (1 nt gh ref m s e)
  then show ?case by (auto simp: follows_def)
next
  case (2 nt gh ref m name names s e)
  obtain q w where c: "SetActionsSecret gh ref name (mget m name) (snd e) = (q, w)" by (meson surj_pair)
  show ?case
  proof (cases q)
    case (Some er)
    then show ?thesis using "2.prems" c by (auto intro: follows_none)
  next
    case None
    obtain k s1 e1 where p: "Push (secret_cleanup ref name (nt w)) s (fst e, w) = (k, s1, e1)" by (metis surj_pair)
    show ?thesis
    proof (cases k)
      case (Some er)
      then show ?thesis using "2.prems" c None p Push_result [OF p] by (auto intro: follows_none)
    next
      case k: None
      then have "set_secrets nt gh ref m names s1 e1 = (r, s', e')" using "2.prems" c None p by simp
      from "2.IH" [OF c [symmetric] None p [symmetric] k refl this] show ?thesis
        using follows_cons [of s1 s "secret_cleanup ref name (nt w)"] Push_result [OF p] k by simp
    qed
  qed
qed

lemma github_workflow_follows:
  assumes "github_workflow nt gh plan ref rep s e = ((rp, err), s', e')"
  shows "follows s s' [(ResourceGitHubWorkflowFile, [])] (err = None)"
proof -
  let ?req = "\<lparr>CPath = WorkflowPath plan, CBranch = GBranch plan,
            CMessage = ''Add Webox deploy workflow'', CContent = WorkflowContent plan\<rparr>"
  obtain q w where c: "CommitWorkflowFile gh ref ?req (snd e) = (q, w)" by (meson surj_pair)
  obtain k s1 e1 where p: "Push (workflow_cleanup ref plan (nt w)) s (fst e, w) = (k, s1, e1)" by (metis surj_pair)
  obtain d w2 where d: "DispatchWorkflow gh ref (WorkflowPath plan) (GBranch plan) (snd e1) = (d, w2)"
    by (meson surj_pair)
  have "follows s1 s1 [] True" by (simp add: follows_def)
  then have full: "k = None \<Longrightarrow> follows s s1 [(ResourceGitHubWorkflowFile, [])] b" for b
    using follows_cons [of s1 s "workflow_cleanup ref plan (nt w)" s1 "[]" b] Push_result [OF p]
    by (simp add: follows_def)
  show ?thesis
    using assms c p d full Push_result [OF p]
    by (cases q; cases k; cases d)
      (auto simp: github_workflow_def Let_def intro: follows_none)
qed

lemma github_key_follows:
  assumes "github_key nt gh plan ref rep s e = ((rp, err), s', e')"
  shows "follows s s' (tl (github_order plan)) (err = None)"
proof -
  obtain q w where c: "AddDeployKey gh ref ''Webox deploy key'' (DeployPublicKey plan) False (snd e) = (q, w)"
    by (meson surj_pair)
  show ?thesis
  proof (cases q)
    case (Inl er)
    then show ?thesis using assms c by (auto simp: github_key_def intro: follows_none)
  next
    case (Inr key)
    obtain k s1 e1 where p: "Push (key_cleanup ref key (nt w)) s (fst e, w) = (k, s1, e1)" by (metis surj_pair)
    obtain z s2 e2 where z: "set_secrets nt gh ref (GSecrets plan) (sortedSecretNames (GSecrets plan)) s1 e1 = (z, s2, e2)"
      by (metis surj_pair)
    note sec = set_secrets_follows [OF z]
    show ?thesis
    proof (cases k)
      case (Some er)
      then show ?thesis
        using assms c Inr p Push_result [OF p] by (auto simp: github_key_def Let_def intro: follows_none)
    next
      case k: None
      have ord: "tl (github_order plan) = subject (key_cleanup ref key (nt w)) #
          map (\<lambda>n. (ResourceGitHubActionsSecret, n)) (sortedSecretNames (GSecrets plan)) @ [(ResourceGitHubWorkflowFile, [])]"
        by (simp add: github_order_def)
      have "follows s1 s' (map (\<lambda>n. (ResourceGitHubActionsSecret, n)) (sortedSecretNames (GSecrets plan))
          @ [(ResourceGitHubWorkflowFile, [])]) (err = None)"
      proof (cases z)
        case (Some er)
        then have "s' = s2" "err \<noteq> None" using assms c Inr p k z by (auto simp: github_key_def Let_def)
        then show ?thesis using sec Some follows_append by fastforce
      next
        case None
        then have "github_workflow nt gh plan ref (rep\<lparr>GDeployKey := Some key\<rparr>) s2 e2 = ((rp, err), s', e')"
          using assms c Inr p k z by (simp add: github_key_def Let_def)
        from github_workflow_follows [OF this] show ?thesis using sec None by (auto intro: follows_trans)
      qed
      then show ?thesis
        unfolding ord using Push_result [OF p] k by (intro follows_cons [of s1]) auto
    qed
  qed
qed

text \<open>
  The GitHub provisioning records its undo in the order of creation: the cleanup steps it pushes are,
  one for one, the repository, the deploy key, the Actions secrets in sorted order and the workflow
  file, cut off where it stopped; when it reports no error the list is complete.
\<close>

theorem ExecuteGitHubProvision_records:
  assumes "ExecuteGitHubProvision nt (Some gh) plan (Some s) e = ((rep, err), Some s', e')"
  shows "\<exists>new. steps s' = steps s @ new \<and> map subject new = take (length new) (github_order plan)
     \<and> length new \<le> length (github_order plan) \<and> (err = None \<longrightarrow> length new = length (github_order plan))"
proof -
  have "follows s s' (github_order plan) (err = None)"
  proof (cases "validateGitHubProvisionPlan plan")
    case (Some er)
    then have "ExecuteGitHubProvision nt (Some gh) plan (Some s) e = ((None, Some er), Some s, e)"
      by (simp add: ExecuteGitHubProvision_def)
    then have "s' = s" "err \<noteq> None" using assms by auto
    then show ?thesis by (simp add: follows_none)
  next
    case None
    obtain q w where c: "CreateRepo gh (GOwner plan) (GRepo plan) (GVisibility plan) True (snd e) = (q, w)"
      by (meson surj_pair)
    show ?thesis
    proof (cases q)
      case (Inl er)
      then show ?thesis using assms c None by (auto simp: ExecuteGitHubProvision_def Let_def intro: follows_none)
    next
      case (Inr repo)
      define ref where "ref = (let ref = Ref repo;
          ref = (if Owner ref = [] then ref\<lparr>Owner := GOwner plan\<rparr> else ref)
        in if RName ref = [] then ref\<lparr>RName := GRepo plan\<rparr> else ref)"
      obtain k s1 e1 where p: "Push (repo_cleanup ref (nt w)) s (fst e, w) = (k, s1, e1)" by (metis surj_pair)
      let ?rep = "\<lparr>GRepository = None, GDeployKey = None, GWorkflow = None, GDispatch = None\<rparr>\<lparr>GRepository := Some repo\<rparr>"
      have body: "some_stack (case Push (repo_cleanup ref (nt w)) s (fst e, w) of
                    (Some err, s, e) \<Rightarrow> ((Some ?rep, Some err), s, e)
                  | (None, s, e) \<Rightarrow> github_key nt gh plan ref ?rep s e) = ((rep, err), Some s', e')"
        using assms None c Inr unfolding ExecuteGitHubProvision_def ref_def Let_def by simp
      show ?thesis
      proof (cases k)
        case (Some er)
        then show ?thesis using body p Push_result [OF p] by (auto simp: some_stack_def intro: follows_none)
      next
        case k: None
        then have "github_key nt gh plan ref ?rep s1 e1 = ((rep, err), s', e')"
          using body p by (auto simp: some_stack_def split: prod.splits)
        from github_key_follows [OF this] show ?thesis
          using follows_cons [of s1 s "repo_cleanup ref (nt w)"] Push_result [OF p] k
          by (simp add: github_order_def)
      qed
    qed
  qed
  then show ?thesis by (simp add: follows_def)
qed

definition ideal_github :: "(unit, unit) GitHubProvisioner" where
  "ideal_github =
     \<lparr>CreateRepo = (\<lambda>o' n v i w. (Inr \<lparr>RepoID = 1, RepoOwner = o', RepoName = n, RepoHTMLURL = [], RepoSSHURL = []\<rparr>, w)),
      AddDeployKey = (\<lambda>r t k ro w. (Inr \<lparr>KeyID = 42, KeyTitle = t, KeyText = k, KeyURL = []\<rparr>, w)),
      SetActionsSecret = (\<lambda>r n v w. (None, w)),
      CommitWorkflowFile = (\<lambda>r q w. (Some [Foreign 1], w)),
      DispatchWorkflow = (\<lambda>r p b w. (Inr (), w))\<rparr>"

definition example_gh_plan :: GitHubProvisionPlan where
  "example_gh_plan = \<lparr>GOwner = ''o'', GRepo = ''r'', GBranch = ''main'', GVisibility = ''private'',
     DeployPublicKey = ''key'', GSecrets = [(''HOST'', ''h'')], WorkflowPath = ''d.yml'', WorkflowContent = ''x''\<rparr>"

lemma not_secret_short: "\<not> isSecretShaped ''o''" "\<not> isSecretShaped ''r''" "\<not> isSecretShaped ''42''"
  "\<not> isSecretShaped ''HOST''"
  by (simp_all add: not_secret mark_def)

lemma itoa_42: "itoa 42 = ''42''"
  by code_simp

lemma parse_42: "parse_int64 ''42'' = Some 42"
  using parse_int64_itoa [of 42] by (simp add: itoa_42 in_int64_def)

lemma example_gh_steps:
  "validateStep (repo_cleanup \<lparr>Owner = ''o'', RName = ''r''\<rparr> t) = None"
  "validateStep (key_cleanup \<lparr>Owner = ''o'', RName = ''r''\<rparr> \<lparr>KeyID = 42, KeyTitle = tt, KeyText = kk, KeyURL = []\<rparr> t) = None"
  "validateStep (secret_cleanup \<lparr>Owner = ''o'', RName = ''r''\<rparr> ''HOST'' t) = None"
  by (simp_all add: validateStep_def repo_cleanup_def key_cleanup_def secret_cleanup_def supported_kinds_def
      kind_defs mget_def not_secret_short itoa_42 parse_42)

lemma example_gh_runs:
  "\<exists>rep s' e'. ExecuteGitHubProvision at_noon (Some ideal_github) example_gh_plan (Some (NewStack None ''w'')) (None, ())
     = ((rep, Some [Foreign 1]), Some s', e') \<and> length (steps s') = 3"
proof -
  have "validateGitHubProvisionPlan example_gh_plan = None"
    by (simp add: validateGitHubProvisionPlan_def example_gh_plan_def ValidateWorkflowField_def contains_any_def)
  then show ?thesis
    by (simp add: ExecuteGitHubProvision_def ideal_github_def example_gh_plan_def Ref_def some_stack_def Push_def
        check_ctx_def NewStack_def github_key_def sortedSecretNames_def github_workflow_def example_gh_steps Let_def)
qed

theorem ExecuteGitHubProvision_records_witness:
  "\<exists>rep s' e' new. ExecuteGitHubProvision at_noon (Some ideal_github) example_gh_plan (Some (NewStack None ''w'')) (None, ())
     = ((rep, Some [Foreign 1]), Some s', e') \<and> steps s' = new
     \<and> map subject new = [(''github_repo'', []), (''github_deploy_key'', []), (''github_actions_secret'', ''HOST'')]"
proof -
  obtain rep s' e' where r: "ExecuteGitHubProvision at_noon (Some ideal_github) example_gh_plan
      (Some (NewStack None ''w'')) (None, ()) = ((rep, Some [Foreign 1]), Some s', e')" "length (steps s') = 3"
    using example_gh_runs by blast
  obtain new where "steps s' = steps (NewStack None ''w'' :: unit Stack) @ new"
      "map subject new = take (length new) (github_order example_gh_plan)"
    using ExecuteGitHubProvision_records [OF r(1)] by blast
  with r(2) have "map subject new = [(''github_repo'', []), (''github_deploy_key'', []), (''github_actions_secret'', ''HOST'')]"
      "steps s' = new"
    by (simp_all add: NewStack_def github_order_def example_gh_plan_def sortedSecretNames_def kind_defs)
  with r(1) show ?thesis
    by (intro exI [of _ rep] exI [of _ s'] exI [of _ e'] exI [of _ new] conjI) assumption+
qed

section \<open>The workflow checks\<close>

definition floating_line :: string where
  "floating_line = ''uses: evil/x@main # uses: a@'' @ replicate 40 CHR ''0''"

lemma Match_seqs_EndText:
  "list_all2 (\<lambda>r w. plain r \<and> w \<in> lang r) rs ws \<Longrightarrow>
   Match (seqs (rs @ [EndText])) (p, concat ws, cs) (adv p (concat ws), [], cs)"
proof (induction rs ws arbitrary: p rule: list_all2_induct)
  case Nil
  then show ?case by (simp add: m_assert)
next
  case (Cons r rs w ws)
  have "seqs ((r # rs) @ [EndText]) = Seq r (seqs (rs @ [EndText]))" by (cases rs) simp_all
  moreover have "Match r (p, w @ concat ws, cs) (adv p w, concat ws, cs)"
    using Cons.hyps lang_Match_plain by blast
  moreover have "Match (seqs (rs @ [EndText])) (adv p w, concat ws, cs) (adv (adv p w) (concat ws), [], cs)"
    by (rule Cons.IH)
  ultimately show ?case by (auto intro: m_seq)
qed

text \<open>
  The pinning check can be passed by an unpinned action: \<open>pinnedUsesPattern\<close> is not anchored at the
  start of the line, so a line that uses \<open>evil/x@main\<close> and carries a pinned reference in its trailing
  comment is not reported.
\<close>

theorem pinning_check_bypassed:
  "has_prefix floating_line ''uses: evil/x@main'' \<and> \<not> bad_uses_line floating_line"
proof -
  let ?sp = "Cls is_re_space"
  let ?name = "plus (Cls (\<lambda>c. c \<noteq> CHR ''@'' \<and> \<not> is_re_space c))"
  let ?hex = "times 40 (Cls (\<lambda>c. (CHR ''a'' \<le> c \<and> c \<le> CHR ''f'') \<or> is_digit c))"
  let ?tail = "opt (seqs [plus ?sp, lit ''#'', Star ?sp, plus (Cls (\<lambda>c. c \<noteq> CHR 0x0A))])"
  let ?r = "seqs [lit ''uses:'', Star ?sp, ?name, lit ''@'', ?hex, ?tail, EndText]"
  let ?ws = "[''uses:'', '' '', ''a'', ''@'', replicate 40 CHR ''0'', []]"
  have name: "lang ?name = {w. w \<noteq> [] \<and> list_all (\<lambda>c. c \<noteq> CHR ''@'' \<and> \<not> is_re_space c) w}"
    by (auto simp: plus_def lang_Seq_Cls kleene_Cls neq_Nil_conv simp del: lang.simps(3))
  have "''a'' \<in> lang ?name" unfolding name by (simp add: is_re_space_def)
  moreover have "replicate 40 CHR ''0'' \<in> lang ?hex"
    unfolding lang_times_Cls by (simp add: is_digit_def list_all_iff del: replicate.simps)
  moreover have "'' '' \<in> lang (Star ?sp)" by (simp add: kleene_Cls is_re_space_def)
  ultimately have "list_all2 (\<lambda>r w. plain r \<and> w \<in> lang r) [lit ''uses:'', Star ?sp, ?name, lit ''@'', ?hex, ?tail] ?ws"
    by (simp add: plus_def del: lang.simps replicate.simps times.simps)
  from Match_seqs_EndText [OF this, of "adv None ''uses: evil/x@main # ''" "[]"]
  have "Match ?r (adv None ''uses: evil/x@main # '', ''uses: a@'' @ replicate 40 CHR ''0'', [])
      (adv (adv None ''uses: evil/x@main # '') (''uses: a@'' @ replicate 40 CHR ''0''), [], [])"
    by (simp del: replicate.simps)
  then have "match_string pinnedUsesPattern (''uses: evil/x@main # '' @ ''uses: a@'' @ replicate 40 CHR ''0'')"
    unfolding pinnedUsesPattern_def Let_def by (rule match_stringI)
  moreover have "trim_space floating_line = floating_line"
    by (rule trim_space_id) (simp add: floating_line_def space_seqs_def)
  moreover have "trim_prefix floating_line ''- '' = floating_line"
    by (simp add: trim_prefix_def floating_line_def)
  ultimately show ?thesis by (simp add: bad_uses_line_def floating_line_def)
qed

text \<open>
  A green pre-flight means a usable panel: \<open>Preflight\<close> reports no error exactly when the provider
  returned a status without error that says both that the connection is up and that the panel's
  command line is installed, and it hands that status on.
\<close>

theorem Preflight_ok_iff:
  "fst (snd (Preflight (Some p) w)) = None \<longleftrightarrow>
     (\<exists>st w'. CheckStatus p w = (Some st, None, w') \<and> SSHConnected st \<and> CLIInstalled st
        \<and> Preflight (Some p) w = (Some st, None, w'))"
proof -
  obtain so eo w' where c: "CheckStatus p w = (so, eo, w')" by (metis prod_cases3)
  show ?thesis using c by (cases so; cases eo) (auto simp: Preflight_def)
qed

end
