(* ===== verification/Shell.thy ===== *)
theory Shell
  imports Go_Strings
begin

text \<open>
  A reference reading of a command line by a POSIX shell, for the constructs that the remote commands of the
  program use: blanks separate words, single quotes protect everything, a backslash outside quotes protects
  one character. \<open>None\<close> stands for everything else that is special, for an open quote, and for a first word
  that the shell could take for an assignment. A command that reads as \<open>Some ws\<close> therefore runs \<open>hd ws\<close> with
  the arguments \<open>tl ws\<close> and nothing else.
\<close>

definition sh_special :: "char \<Rightarrow> bool" where
  "sh_special c \<longleftrightarrow> c \<in> set ''$&;|<>()*?[]#~%!{}'' \<or> c \<in> {dquote, CHR 0x60, CHR 0x0A}"

fun sh_read :: "bool \<Rightarrow> string option \<Rightarrow> string \<Rightarrow> string list option" where
  "sh_read False w [] = Some (case w of None \<Rightarrow> [] | Some x \<Rightarrow> [x])"
| "sh_read True w [] = None"
| "sh_read True w (c # s) =
    (if c = squote then sh_read False w s
     else sh_read True (Some (case w of None \<Rightarrow> [c] | Some x \<Rightarrow> x @ [c])) s)"
| "sh_read False w (c # s) =
    (if c = squote then sh_read True (Some (case w of None \<Rightarrow> [] | Some x \<Rightarrow> x)) s
     else if c = CHR '' '' \<or> c = CHR 0x09 then
       map_option (\<lambda>ws. (case w of None \<Rightarrow> ws | Some x \<Rightarrow> x # ws)) (sh_read False None s)
     else if c = backslash then
       (case s of
          [] \<Rightarrow> None
        | d # s' \<Rightarrow>
            if d = CHR 0x0A then None
            else sh_read False (Some (case w of None \<Rightarrow> [d] | Some x \<Rightarrow> x @ [d])) s')
     else if sh_special c then None
     else sh_read False (Some (case w of None \<Rightarrow> [c] | Some x \<Rightarrow> x @ [c])) s)"

definition sh_words :: "string \<Rightarrow> string list option" where
  "sh_words s =
     (case sh_read False None s of
        Some (w # ws) \<Rightarrow> if CHR ''='' \<in> set w then None else Some (w # ws)
      | r \<Rightarrow> r)"

lemma sh_read_quoted:
  "sh_read True (Some w) (replace_all p [squote] [squote, backslash, squote, squote] @ squote # rest)
    = sh_read False (Some (w @ p)) rest"
proof (induction p arbitrary: w)
  case (Cons c p)
  then show ?case by (cases "c = squote") (simp_all add: has_prefix_def squote_def backslash_def)
qed simp

text \<open>A character that is neither blank nor quote nor special is taken as it is.\<close>

definition sh_plain :: "char \<Rightarrow> bool" where
  "sh_plain c \<longleftrightarrow> \<not> sh_special c \<and> c \<notin> {squote, backslash, CHR '' '', CHR 0x09}"

lemma sh_read_plain:
  "list_all sh_plain p \<Longrightarrow>
   sh_read False (Some w) (p @ rest) = sh_read False (Some (w @ p)) rest"
  by (induction p arbitrary: w) (simp_all add: sh_plain_def)

lemma sh_read_word:
  "list_all sh_plain p \<Longrightarrow> p \<noteq> [] \<Longrightarrow> sh_read False None (p @ rest) = sh_read False (Some p) rest"
  using sh_read_plain [of "tl p" "[hd p]" rest] by (cases p) (simp_all add: sh_plain_def)

lemma sh_read_blank: "sh_read False (Some w) (CHR '' '' # s) = map_option ((#) w) (sh_read False None s)"
  by (simp add: squote_def)

text \<open>Words joined by single blanks read back as the same words.\<close>

lemma sh_read_join:
  assumes "list_all (\<lambda>(t, w). \<forall>rest. sh_read False None (t @ rest) = sh_read False (Some w) rest) tws"
  shows "sh_read False None (join '' '' (map fst tws)) = Some (map snd tws)"
  using assms
proof (induction tws)
  case (Cons tw tws)
  obtain t w where tw: "tw = (t, w)" by (cases tw)
  have t: "sh_read False None (t @ rest) = sh_read False (Some w) rest" for rest
    using Cons.prems tw by simp
  have IH: "sh_read False None (join '' '' (map fst tws)) = Some (map snd tws)"
    using Cons by simp
  show ?case
  proof (cases "tws = []")
    case True
    then show ?thesis using t [of "[]"] tw by simp
  next
    case False
    then have "join '' '' (map fst (tw # tws)) = t @ CHR '' '' # join '' '' (map fst tws)"
      using tw by (cases tws) auto
    then show ?thesis using IH t tw by (simp add: squote_def)
  qed
qed simp

end
