(* ===== verification/Uapi.thy ===== *)
theory Uapi
  imports World Shell Ssh_Types
begin

text \<open>
  The cPanel UAPI clients (\<open>src/providers/cpanel/uapi\<close>): the argument structs with their checks and the query
  parameters they become (\<open>mutating.go\<close>), the classification of panel errors, the SSH transport (\<open>ssh.go\<close>,
  \<open>mutating_ssh.go\<close>, \<open>sshpool.go\<close>), the HTTPS transport with its retries (\<open>transport.go\<close>, \<open>client.go\<close>,
  \<open>mutating_https.go\<close>), the list decoders (\<open>decoders.go\<close>) and the composites that fail over from one transport
  to the other (\<open>composite.go\<close>, \<open>mutating_composite.go\<close>).

  \<^item> The sixteen methods of the interface \<open>Mutator\<close> are the constructors of \<open>request\<close>; a mutator is a function
    from requests. A request changes the world \<open>'w\<close>, the panel and the network behind the client.
  \<^item> \<open>classifyMutationError\<close> reads the text of an error, so inside this package an error is a chain together
    with its text. The text is modelled where it is read, for \<open>ErrAPIResultFailure\<close>.
  \<^item> The HTTP client, the SSH runner and the parsing of a URL are parameters. Bytes become a JSON document by
    the parameter \<open>unmarshal\<close> (\<open>json.Unmarshal\<close>; the first value of a stream for \<open>json.Decoder\<close>); from the
    document on, decoding is modelled. A legacy map of rows is read in the order of the document.
\<close>

section \<open>Errors with their text (errors.go)\<close>

definition uerr :: "uapi_err \<Rightarrow> terr" where
  "uerr s = ([UapiE s], [])"

definition wrap_terr :: "uapi_err \<Rightarrow> terr \<Rightarrow> terr" where
  "wrap_terr s e = (wrap (UapiE s) (fst e), snd e)"

definition api_failure :: "string \<Rightarrow> terr" where
  "api_failure txt = ([UapiE ErrAPIResultFailure], ''uapi: API call returned non-success status: '' @ txt)"

section \<open>Arguments and their checks (mutating.go)\<close>

definition MutationsAllowed :: "string \<Rightarrow> bool" where
  "MutationsAllowed env \<longleftrightarrow> trim_space env = ''1''"

record CreateAddonDomainArgs =
  caNewDomain :: string
  caSubdomain :: string
  caDir :: string

record CreateSubdomainArgs =
  csDomain :: string
  csRootDomain :: string
  csDir :: string

record CreatePassengerAppArgs =
  cpName :: string
  cpPath :: string
  cpDomain :: string
  cpBaseURI :: string
  cpDeploymentMode :: string
  cpEnvvars :: "string gomap"

record EditPassengerAppArgs =
  epPath :: string
  epDomain :: string
  epBaseURI :: string
  epDeploymentMode :: string
  epEnvvars :: "string gomap"

record MysqlPrivilegesArgs =
  mpDatabase :: string
  mpUser :: string
  mpPrivileges :: "string list"

record InstallSSLArgs =
  isDomain :: string
  isCert :: string
  isKey :: string
  isCABundle :: string

definition mustNonEmpty :: "string \<Rightarrow> goerr option" where
  "mustNonEmpty v = (if trim_space v = [] then Some [UapiE ErrInvalidArgs] else None)"

text \<open>
  \<open>unicode.IsControl\<close>: the bytes below 0x20, DEL, and U+0080 to U+009F, whose encoding is 0xC2 and one byte.
\<close>

fun has_control :: "string \<Rightarrow> bool" where
  "has_control [] = False"
| "has_control (c # s) =
     (c < CHR 0x20 \<or> c = CHR 0x7F
      \<or> (c = CHR 0xC2 \<and> (case s of d # _ \<Rightarrow> CHR 0x80 \<le> d \<and> d \<le> CHR 0x9F | [] \<Rightarrow> False))
      \<or> has_control s)"

definition mustNotControl :: "string \<Rightarrow> goerr option" where
  "mustNotControl v = (if has_control v then Some [UapiE ErrInvalidArgs] else None)"

text \<open>A run of \<open>if err := ...; err != nil { return err }\<close>.\<close>

fun first_err :: "goerr option list \<Rightarrow> goerr option" where
  "first_err [] = None"
| "first_err (Some e # es) = Some e"
| "first_err (None # es) = first_err es"

definition check_envvars :: "string gomap \<Rightarrow> goerr option" where
  "check_envvars m = first_err (concat (map (\<lambda>(k, v). [mustNotControl v, mustNotControl k]) m))"

definition Validate_addon :: "CreateAddonDomainArgs \<Rightarrow> goerr option" where
  "Validate_addon a = first_err [mustNonEmpty (caNewDomain a), mustNonEmpty (caDir a),
     mustNotControl (caNewDomain a), mustNotControl (caSubdomain a), mustNotControl (caDir a)]"

definition Validate_subdomain :: "CreateSubdomainArgs \<Rightarrow> goerr option" where
  "Validate_subdomain a = first_err [mustNonEmpty (csDomain a), mustNonEmpty (csRootDomain a), mustNonEmpty (csDir a),
     mustNotControl (csDomain a), mustNotControl (csRootDomain a), mustNotControl (csDir a)]"

definition Validate_create_app :: "CreatePassengerAppArgs \<Rightarrow> goerr option" where
  "Validate_create_app a = first_err [mustNonEmpty (cpName a), mustNonEmpty (cpPath a), mustNonEmpty (cpDomain a),
     mustNotControl (cpName a), mustNotControl (cpPath a), mustNotControl (cpDomain a),
     mustNotControl (cpBaseURI a), mustNotControl (cpDeploymentMode a), check_envvars (cpEnvvars a)]"

definition Validate_edit_app :: "EditPassengerAppArgs \<Rightarrow> goerr option" where
  "Validate_edit_app a = first_err [mustNonEmpty (epPath a),
     mustNotControl (epPath a), mustNotControl (epDomain a),
     mustNotControl (epBaseURI a), mustNotControl (epDeploymentMode a), check_envvars (epEnvvars a)]"

definition Validate_privileges :: "MysqlPrivilegesArgs \<Rightarrow> goerr option" where
  "Validate_privileges a = first_err ([mustNonEmpty (mpDatabase a), mustNonEmpty (mpUser a),
     (if mpPrivileges a = [] then Some [UapiE ErrInvalidArgs] else None)]
     @ map mustNotControl (mpPrivileges a))"

definition Validate_install_ssl :: "InstallSSLArgs \<Rightarrow> goerr option" where
  "Validate_install_ssl a =
     first_err [mustNonEmpty (isDomain a), mustNonEmpty (isCert a), mustNonEmpty (isKey a)]"

section \<open>Requests (the interface Mutator)\<close>

datatype request =
    AddAddonDomain CreateAddonDomainArgs
  | AddSubdomain CreateSubdomainArgs
  | DeleteDomain string
  | DeleteSubdomain string
  | CreatePassengerApp CreatePassengerAppArgs
  | EditPassengerApp EditPassengerAppArgs
  | RestartPassengerApp string
  | DeletePassengerApp string
  | CreateMysqlDatabase string
  | DeleteMysqlDatabase string
  | CreateMysqlUser string string
  | DeleteMysqlUser string
  | SetMysqlPrivileges MysqlPrivilegesArgs
  | InstallSSL InstallSSLArgs
  | StartAutoSSL string
  | DeleteSSL string

type_synonym 'w Mutator = "request \<Rightarrow> 'w \<Rightarrow> goerr option \<times> 'w"

definition guardAndValidate :: "bool \<Rightarrow> goerr option \<Rightarrow> goerr option" where
  "guardAndValidate allowed v = (if \<not> allowed then Some [UapiE ErrMutationsDisabled] else v)"

definition guardAndValidateValue :: "bool \<Rightarrow> string \<Rightarrow> goerr option" where
  "guardAndValidateValue allowed v =
     (if \<not> allowed then Some [UapiE ErrMutationsDisabled]
      else case mustNonEmpty v of Some e \<Rightarrow> Some e | None \<Rightarrow> mustNotControl v)"

text \<open>The checks at the head of every method, the same in both transports.\<close>

fun entry_check :: "bool \<Rightarrow> request \<Rightarrow> goerr option" where
  "entry_check ok (AddAddonDomain a) = guardAndValidate ok (Validate_addon a)"
| "entry_check ok (AddSubdomain a) = guardAndValidate ok (Validate_subdomain a)"
| "entry_check ok (DeleteDomain d) = guardAndValidateValue ok d"
| "entry_check ok (DeleteSubdomain d) = guardAndValidateValue ok d"
| "entry_check ok (CreatePassengerApp a) = guardAndValidate ok (Validate_create_app a)"
| "entry_check ok (EditPassengerApp a) = guardAndValidate ok (Validate_edit_app a)"
| "entry_check ok (RestartPassengerApp p) = guardAndValidateValue ok p"
| "entry_check ok (DeletePassengerApp p) = guardAndValidateValue ok p"
| "entry_check ok (CreateMysqlDatabase n) = guardAndValidateValue ok n"
| "entry_check ok (DeleteMysqlDatabase n) = guardAndValidateValue ok n"
| "entry_check ok (CreateMysqlUser u p) =
     (case guardAndValidateValue ok u of Some e \<Rightarrow> Some e | None \<Rightarrow> mustNonEmpty p)"
| "entry_check ok (DeleteMysqlUser u) = guardAndValidateValue ok u"
| "entry_check ok (SetMysqlPrivileges a) = guardAndValidate ok (Validate_privileges a)"
| "entry_check ok (InstallSSL a) = guardAndValidate ok (Validate_install_ssl a)"
| "entry_check ok (StartAutoSSL d) = guardAndValidateValue ok d"
| "entry_check ok (DeleteSSL h) = guardAndValidateValue ok h"

definition argsForAddAddonDomain :: "CreateAddonDomainArgs \<Rightarrow> string gomap" where
  "argsForAddAddonDomain a =
     (let out = [(''newdomain'', caNewDomain a), (''dir'', caDir a)]
      in if caSubdomain a \<noteq> [] then mput ''subdomain'' (caSubdomain a) out else out)"

definition argsForAddSubdomain :: "CreateSubdomainArgs \<Rightarrow> string gomap" where
  "argsForAddSubdomain a = [(''domain'', csDomain a), (''rootdomain'', csRootDomain a), (''dir'', csDir a)]"

definition argsForDeleteDomain :: "string \<Rightarrow> string gomap" where
  "argsForDeleteDomain domain = [(''domain'', domain)]"

text \<open>\<open>if v != "" \<open>{\<close> out[k] = v \<open>}\<close>\<close> and the loop over the environment.\<close>

definition put_nonempty :: "string \<Rightarrow> string \<Rightarrow> string gomap \<Rightarrow> string gomap" where
  "put_nonempty k v out = (if v \<noteq> [] then mput k v out else out)"

definition put_envvars :: "string gomap \<Rightarrow> string gomap \<Rightarrow> string gomap" where
  "put_envvars env out = fold (\<lambda>(k, v). mput (''envvar.'' @ k) v) env out"

definition argsForCreatePassengerApp :: "CreatePassengerAppArgs \<Rightarrow> string gomap" where
  "argsForCreatePassengerApp a =
     put_envvars (cpEnvvars a)
       (put_nonempty ''deployment_mode'' (cpDeploymentMode a)
         (put_nonempty ''base_uri'' (cpBaseURI a)
           [(''name'', cpName a), (''path'', cpPath a), (''domain'', cpDomain a)]))"

definition argsForEditPassengerApp :: "EditPassengerAppArgs \<Rightarrow> string gomap" where
  "argsForEditPassengerApp a =
     put_envvars (epEnvvars a)
       (put_nonempty ''deployment_mode'' (epDeploymentMode a)
         (put_nonempty ''base_uri'' (epBaseURI a)
           (put_nonempty ''domain'' (epDomain a) [(''path'', epPath a)])))"

definition argsForCreateMysqlUser :: "string \<Rightarrow> string \<Rightarrow> string gomap" where
  "argsForCreateMysqlUser user password = [(''name'', user), (''password'', password)]"

definition argsForSetMysqlPrivileges :: "MysqlPrivilegesArgs \<Rightarrow> string gomap" where
  "argsForSetMysqlPrivileges a =
     [(''user'', mpUser a), (''database'', mpDatabase a), (''privileges'', join '','' (mpPrivileges a))]"

definition argsForInstallSSL :: "InstallSSLArgs \<Rightarrow> string gomap" where
  "argsForInstallSSL a =
     put_nonempty ''cabundle'' (isCABundle a)
       [(''domain'', isDomain a), (''cert'', isCert a), (''key'', isKey a)]"

text \<open>The module, the function and the parameters each method calls.\<close>

fun endpoint :: "request \<Rightarrow> string \<times> string \<times> string gomap" where
  "endpoint (AddAddonDomain a) = (''DomainInfo'', ''add_addon_domain'', argsForAddAddonDomain a)"
| "endpoint (AddSubdomain a) = (''SubDomain'', ''addsubdomain'', argsForAddSubdomain a)"
| "endpoint (DeleteDomain d) = (''DomainInfo'', ''del_domain'', argsForDeleteDomain d)"
| "endpoint (DeleteSubdomain d) = (''SubDomain'', ''delsubdomain'', [(''domain'', d)])"
| "endpoint (CreatePassengerApp a) = (''PassengerApps'', ''create_application'', argsForCreatePassengerApp a)"
| "endpoint (EditPassengerApp a) = (''PassengerApps'', ''edit_application'', argsForEditPassengerApp a)"
| "endpoint (RestartPassengerApp p) = (''PassengerApps'', ''restart_application'', [(''path'', p)])"
| "endpoint (DeletePassengerApp p) = (''PassengerApps'', ''delete_application'', [(''path'', p)])"
| "endpoint (CreateMysqlDatabase n) = (''Mysql'', ''create_database'', [(''name'', n)])"
| "endpoint (DeleteMysqlDatabase n) = (''Mysql'', ''delete_database'', [(''name'', n)])"
| "endpoint (CreateMysqlUser u p) = (''Mysql'', ''create_user'', argsForCreateMysqlUser u p)"
| "endpoint (DeleteMysqlUser u) = (''Mysql'', ''delete_user'', [(''name'', u)])"
| "endpoint (SetMysqlPrivileges a) = (''Mysql'', ''set_privileges_on_database'', argsForSetMysqlPrivileges a)"
| "endpoint (InstallSSL a) = (''SSL'', ''install_ssl'', argsForInstallSSL a)"
| "endpoint (StartAutoSSL d) = (''SSL'', ''start_autossl_check'', [(''domain'', d)])"
| "endpoint (DeleteSSL h) = (''SSL'', ''delete_ssl'', [(''host'', h)])"

definition exists_phrases :: "string list" where
  "exists_phrases = [''already exists'', ''already in use'', ''is in use'', ''duplicate'']"

definition absent_phrases :: "string list" where
  "absent_phrases = [''not exist'', ''no such'', ''not found'', ''does not exist'', ''no ssl certificate'',
     ''is not installed'']"

definition classifyMutationError :: "terr option \<Rightarrow> goerr option" where
  "classifyMutationError err =
     (case err of
        None \<Rightarrow> None
      | Some (e, txt) \<Rightarrow>
          if errors_is e (UapiE ErrResourceExists) \<or> errors_is e (UapiE ErrResourceNotFound) then Some e
          else if \<not> errors_is e (UapiE ErrAPIResultFailure) then Some e
          else
            let low = str_lower txt in
            if list_ex (contains low) exists_phrases then Some (wrap (UapiE ErrResourceExists) e)
            else if list_ex (contains low) absent_phrases then Some (wrap (UapiE ErrResourceNotFound) e)
            else Some e)"

definition sortedKeys :: "string gomap \<Rightarrow> string list" where
  "sortedKeys m = sort (map fst m)"

section \<open>Envelopes and answers (types.go, ssh.go, transport.go)\<close>

record envelope =
  evStatus :: int
  evErrors :: "string list"
  evWarnings :: "string list"
  evMessages :: "string list"
  evData :: "json option"
  evMetadata :: "json option"

text \<open>A raw member: \<open>None\<close> when it is absent, which leaves the raw message empty.\<close>

definition jraw :: "string \<Rightarrow> (string \<times> json) list \<Rightarrow> json option" where
  "jraw name kvs =
     (if list_ex (\<lambda>kv. to_lower (fst kv) = to_lower name) kvs then Some (jget name kvs) else None)"

definition json_envelope :: "json \<Rightarrow> envelope option" where
  "json_envelope j = Option.bind (jmembers j) (\<lambda>top.
     Option.bind (jmembers (jget ''result'' top)) (\<lambda>m.
     Option.bind (jint (jget ''status'' m)) (\<lambda>st.
     Option.bind (jlist jstring (jget ''errors'' m)) (\<lambda>er.
     Option.bind (jlist jstring (jget ''warnings'' m)) (\<lambda>wa.
     Option.bind (jlist jstring (jget ''messages'' m)) (\<lambda>me.
       Some \<lparr>evStatus = st, evErrors = er, evWarnings = wa, evMessages = me,
             evData = jraw ''data'' m, evMetadata = jraw ''metadata'' m\<rparr>))))))"

definition denied_phrases :: "string list" where
  "denied_phrases = [''disabled'', ''no access'', ''denied'']"

definition isModuleDenied :: "string list \<Rightarrow> bool" where
  "isModuleDenied errs = list_ex (\<lambda>e. list_ex (contains (str_lower e)) denied_phrases) errs"

definition looksLikeModuleDenied :: "string \<Rightarrow> bool" where
  "looksLikeModuleDenied b \<longleftrightarrow> b \<noteq> [] \<and> list_ex (contains (str_lower b)) denied_phrases"

definition uapi_truncate :: "string \<Rightarrow> string" where
  "uapi_truncate b = (if length b \<le> 240 then b else take 240 b @ ''...'')"

text \<open>
  The verb \<open>%q\<close>: control characters, the quote and the backslash are escaped, a byte that does not start a
  well-formed sequence is written in hexadecimal, other runes are printable and stay.
\<close>

definition hex_byte :: "char \<Rightarrow> string" where
  "hex_byte c = (let n = of_char c :: nat; d = ''0123456789abcdef''
                 in [backslash, CHR ''x'', d ! (n div 16), d ! (n mod 16)])"

definition quote_ascii :: "char \<Rightarrow> string" where
  "quote_ascii c =
     (if c = dquote \<or> c = backslash then [backslash, c]
      else if c = CHR 0x07 then [backslash, CHR ''a'']
      else if c = CHR 0x08 then [backslash, CHR ''b'']
      else if c = CHR 0x0C then [backslash, CHR ''f'']
      else if c = CHR 0x0A then [backslash, CHR ''n'']
      else if c = CHR 0x0D then [backslash, CHR ''r'']
      else if c = CHR 0x09 then [backslash, CHR ''t'']
      else if c = CHR 0x0B then [backslash, CHR ''v'']
      else if c < CHR 0x20 \<or> c = CHR 0x7F then hex_byte c
      else [c])"

function quote_body :: "string \<Rightarrow> string" where
  "quote_body [] = []"
| "quote_body (c # s) =
     (let n = utf8_len (c # s) in
      if n = 0 then hex_byte c @ quote_body s
      else if n = 1 then quote_ascii c @ quote_body s
      else take n (c # s) @ quote_body (drop n (c # s)))"
  by pat_completeness auto
termination
  by (relation "measure length") auto

definition go_quote :: "string \<Rightarrow> string" where
  "go_quote s = [dquote] @ quote_body s @ [dquote]"

text \<open>The envelope both transports end in: a status other than 1 is an error.\<close>

definition envelope_result :: "envelope option \<Rightarrow> terr + envelope" where
  "envelope_result e =
     (case e of
        None \<Rightarrow> Inl (wrap_terr ErrMalformedResponse ([Foreign 0], []))
      | Some env \<Rightarrow>
          if evStatus env \<noteq> 1 then
            (if isModuleDenied (evErrors env) then Inl (uerr ErrModuleFunctionDenied)
             else Inl (api_failure (''status='' @ itoa (evStatus env) @ '' errors=['' @ join '' '' (evErrors env) @ '']'')))
          else Inr env)"

section \<open>The SSH transport (ssh.go, mutating_ssh.go, sshpool.go)\<close>

type_synonym 'w SSHRunner = "string \<Rightarrow> 'w \<Rightarrow> (string \<times> string \<times> int \<times> terr option) \<times> 'w"

definition shellQuote :: "string \<Rightarrow> string" where
  "shellQuote s = [squote] @ replace_all s [squote] [squote, backslash, squote, squote] @ [squote]"

definition buildUAPICommand :: "string \<Rightarrow> string \<Rightarrow> string \<Rightarrow> string" where
  "buildUAPICommand user module function =
     ''uapi --user='' @ shellQuote user @ '' --output=jsonpretty '' @ shellQuote module @ '' '' @ shellQuote function"

definition buildUAPICommandWithArgs :: "string \<Rightarrow> string \<Rightarrow> string \<Rightarrow> string gomap \<Rightarrow> string" where
  "buildUAPICommandWithArgs user module function args =
     (let base = ''uapi --user='' @ shellQuote user @ '' --output=jsonpretty '' @ shellQuote module @ '' ''
                 @ shellQuote function
      in if args = [] then base
         else join '' '' (base # map (\<lambda>k. shellQuote k @ ''='' @ shellQuote (mget args k)) (sortedKeys args)))"

text \<open>What both SSH clients make of the output of the command.\<close>

definition ssh_answer :: "(string \<Rightarrow> json option) \<Rightarrow> string \<times> string \<times> int \<times> terr option \<Rightarrow> terr + envelope" where
  "ssh_answer unmarshal r =
     (case r of
        (stdout, stderr, code, Some e) \<Rightarrow> Inl (fst e, ''uapi: ssh run: '' @ snd e)
      | (stdout, stderr, code, None) \<Rightarrow>
          if code \<noteq> 0 then
            (if looksLikeModuleDenied stderr \<or> looksLikeModuleDenied stdout then Inl (uerr ErrModuleFunctionDenied)
             else Inl (api_failure (''exit='' @ itoa code @ '' stderr='' @ go_quote (uapi_truncate stderr))))
          else envelope_result (Option.bind (unmarshal stdout) json_envelope))"

definition sshfallback_call ::
  "(string \<Rightarrow> json option) \<Rightarrow> 'w SSHRunner \<Rightarrow> string \<Rightarrow> string \<Rightarrow> string \<Rightarrow> 'w \<Rightarrow> (terr + envelope) \<times> 'w" where
  "sshfallback_call unmarshal run user module function w =
     (case run (buildUAPICommand user module function) w of (r, w) \<Rightarrow> (ssh_answer unmarshal r, w))"

definition sshmutator_call ::
  "(string \<Rightarrow> json option) \<Rightarrow> 'w SSHRunner \<Rightarrow> string \<Rightarrow> string \<Rightarrow> string \<Rightarrow> string gomap \<Rightarrow> 'w \<Rightarrow> terr option \<times> 'w" where
  "sshmutator_call unmarshal run user module function args w =
     (case run (buildUAPICommandWithArgs user module function args) w of
        (r, w) \<Rightarrow> ((case ssh_answer unmarshal r of Inl e \<Rightarrow> Some e | Inr _ \<Rightarrow> None), w))"

text \<open>\<open>env\<close> reads the variable \<open>WEBOX_CPANEL_MUTATIONS\<close> at the entry of every method.\<close>

definition SSHMutator :: "('w \<Rightarrow> string) \<Rightarrow> (string \<Rightarrow> json option) \<Rightarrow> 'w SSHRunner \<Rightarrow> string \<Rightarrow> 'w Mutator" where
  "SSHMutator env unmarshal run user r w =
     (case entry_check (MutationsAllowed (env w)) r of
        Some e \<Rightarrow> (Some e, w)
      | None \<Rightarrow>
          (case endpoint r of
             (module, function, args) \<Rightarrow>
               (case sshmutator_call unmarshal run user module function args w of
                  (err, w) \<Rightarrow> (classifyMutationError err, w))))"

definition NewSSHMutator ::
  "('w \<Rightarrow> string) \<Rightarrow> (string \<Rightarrow> json option) \<Rightarrow> 'w SSHRunner option \<Rightarrow> string \<Rightarrow> 'w Mutator res" where
  "NewSSHMutator env unmarshal runner user =
     (if user = [] then Inl [UapiE ErrMissingCredentials]
      else case runner of
        None \<Rightarrow> Inl [UapiE ErrSSHRunnerRequired]
      | Some run \<Rightarrow> Inr (SSHMutator env unmarshal run user))"

text \<open>\<open>exec\<close> is \<open>ssh.Exec\<close> on the pool and the target; an exit status is not an error of the transport.\<close>

definition SSHPoolRunner :: "(string \<Rightarrow> 'w \<Rightarrow> (ExecResult \<times> goerr option) \<times> 'w) option \<Rightarrow> 'w SSHRunner" where
  "SSHPoolRunner pool command w =
     (case pool of
        None \<Rightarrow> (([], [], -1, Some (uerr ErrTransportUnavailable)), w)
      | Some exec \<Rightarrow>
          (case exec command w of
             ((r, None), w) \<Rightarrow> ((Stdout r, Stderr r, ExitCode r, None), w)
           | ((r, Some e), w) \<Rightarrow>
               if list_ex (\<lambda>s. case s of ExitErr _ \<Rightarrow> True | _ \<Rightarrow> False) e
               then ((Stdout r, Stderr r, ExitCode r, None), w)
               else ((Stdout r, Stderr r, ExitCode r, Some (wrap_terr ErrTransportUnavailable (e, []))), w)))"

section \<open>The HTTPS transport (transport.go, mutating_https.go)\<close>

definition maxRetries :: nat where "maxRetries = 3"
definition maxBodyBytes :: nat where "maxBodyBytes = 4194304"

record url =
  uScheme :: string
  uHost :: string
  uPath :: string
  uQuery :: "string list gomap"

record http_req =
  rqURL :: url
  rqHeader :: "string gomap"

datatype http_out = BuildErr goerr | DoErr goerr | ReadErr goerr | Response int string

text \<open>\<open>tSleep\<close> waits, or returns the error of the context that was done first.\<close>

record 'w transport =
  tDo :: "http_req \<Rightarrow> 'w \<Rightarrow> http_out \<times> 'w"
  tBase :: url
  tUser :: string
  tToken :: string
  tSleep :: "int \<Rightarrow> 'w \<Rightarrow> goerr option \<times> 'w"
  backoffFor :: "nat \<Rightarrow> int"

definition backoff :: "nat \<Rightarrow> int" where
  "backoff attempt = 500 * 2 ^ (attempt - 1) * 1000000"

definition newTransport ::
  "(string \<Rightarrow> url option) \<Rightarrow> (http_req \<Rightarrow> 'w \<Rightarrow> http_out \<times> 'w) \<Rightarrow> (int \<Rightarrow> 'w \<Rightarrow> goerr option \<times> 'w) \<Rightarrow>
   string \<Rightarrow> string \<Rightarrow> string \<Rightarrow> 'w transport res" where
  "newTransport parse_url client sleep rawURL user token =
     (if user = [] \<or> token = [] then Inl [UapiE ErrMissingCredentials]
      else case parse_url rawURL of
        None \<Rightarrow> Inl [UapiE ErrInvalidEndpoint]
      | Some u \<Rightarrow>
          if uScheme u \<noteq> ''https'' \<or> uHost u = [] then Inl [UapiE ErrInvalidEndpoint]
          else Inr \<lparr>tDo = client, tBase = u, tUser = user, tToken = token, tSleep = sleep, backoffFor = backoff\<rparr>)"

definition trim_right_slash :: "string \<Rightarrow> string" where
  "trim_right_slash s = rev (dropWhile (\<lambda>c. c = CHR ''/'') (rev s))"

definition callURL :: "'w transport \<Rightarrow> string \<Rightarrow> string \<Rightarrow> string gomap \<Rightarrow> url" where
  "callURL t module function args =
     (let u = (tBase t)\<lparr>uPath := trim_right_slash (uPath (tBase t)) @ ''/execute/'' @ module @ ''/'' @ function\<rparr>
      in if args = [] then u
         else u\<lparr>uQuery := fold (\<lambda>(k, v). mput k [v]) args (uQuery u)\<rparr>)"

definition sleepWithCtx :: "'w transport \<Rightarrow> int \<Rightarrow> 'w \<Rightarrow> terr option \<times> 'w" where
  "sleepWithCtx t d w =
     (if d \<le> 0 then (None, w)
      else case tSleep t d w of
        (Some e, w) \<Rightarrow> (Some (wrap_terr ErrTransportUnavailable (e, [])), w)
      | (None, w) \<Rightarrow> (None, w))"

definition http_request :: "string \<Rightarrow> 'w transport \<Rightarrow> url \<Rightarrow> http_req" where
  "http_request version t u =
     \<lparr>rqURL = u,
      rqHeader = [(''User-Agent'', ''webox/'' @ version @ '' +https://github.com/dilitS/webox''),
                  (''Authorization'', ''cpanel '' @ tUser t @ '':'' @ tToken t),
                  (''Accept'', ''application/json'')]\<rparr>"

definition singleCall ::
  "(string \<Rightarrow> json option) \<Rightarrow> string \<Rightarrow> 'w transport \<Rightarrow> url \<Rightarrow> 'w \<Rightarrow> (terr + envelope) \<times> 'w" where
  "singleCall decode version t u w =
     (case tDo t (http_request version t u) w of
        (BuildErr e, w) \<Rightarrow> (Inl (e, []), w)
      | (DoErr e, w) \<Rightarrow> (Inl (wrap_terr ErrTransportUnavailable (e, [])), w)
      | (ReadErr e, w) \<Rightarrow> (Inl (e, []), w)
      | (Response code body, w) \<Rightarrow>
          (if code = 401 \<or> code = 403 then (Inl (uerr ErrAuthenticationFailed), w)
           else if code = 429 then (Inl (uerr ErrRateLimited), w)
           else if code \<ge> 500 then (Inl (uerr ErrServerError), w)
           else if code \<noteq> 200 then (Inl (uerr ErrUnexpectedHTTPStatus), w)
           else (envelope_result (Option.bind (decode (take maxBodyBytes body)) json_envelope), w)))"

definition shouldRetry :: "goerr \<Rightarrow> bool" where
  "shouldRetry err =
     (if errors_is err (UapiE ErrRateLimited) \<or> errors_is err (UapiE ErrServerError) then True
      else if errors_is err (UapiE ErrAuthenticationFailed) \<or> errors_is err (UapiE ErrMalformedResponse)
        \<or> errors_is err (UapiE ErrModuleFunctionDenied) \<or> errors_is err (UapiE ErrAPIResultFailure) then False
      else True)"

text \<open>The retry loop; \<open>last\<close> is the error of the previous round.\<close>

function retry_loop ::
  "(string \<Rightarrow> json option) \<Rightarrow> string \<Rightarrow> 'w transport \<Rightarrow> url \<Rightarrow> nat \<Rightarrow> terr \<Rightarrow> 'w \<Rightarrow> (terr + envelope) \<times> 'w" where
  "retry_loop decode version t u attempt lastErr w =
     (if attempt > maxRetries then (Inl lastErr, w)
      else case (if attempt > 0 then sleepWithCtx t (backoffFor t attempt) w else (None, w)) of
        (Some e, w) \<Rightarrow> (Inl e, w)
      | (None, w) \<Rightarrow>
          (case singleCall decode version t u w of
             (Inr env, w) \<Rightarrow> (Inr env, w)
           | (Inl e, w) \<Rightarrow>
               if \<not> shouldRetry (fst e) then (Inl e, w)
               else retry_loop decode version t u (Suc attempt) e w))"
  by pat_completeness auto
termination
  by (relation "measure (\<lambda>(_, _, _, _, attempt, _, _). Suc maxRetries - attempt)") auto

declare retry_loop.simps [simp del]

definition callWithArgs ::
  "(string \<Rightarrow> json option) \<Rightarrow> string \<Rightarrow> 'w transport \<Rightarrow> string \<Rightarrow> string \<Rightarrow> string gomap \<Rightarrow> 'w \<Rightarrow> (terr + envelope) \<times> 'w" where
  "callWithArgs decode version t module function args w =
     retry_loop decode version t (callURL t module function args) 0 ([], []) w"

definition HTTPSMutator ::
  "('w \<Rightarrow> string) \<Rightarrow> (string \<Rightarrow> json option) \<Rightarrow> string \<Rightarrow> 'w transport \<Rightarrow> 'w Mutator" where
  "HTTPSMutator env decode version t r w =
     (case entry_check (MutationsAllowed (env w)) r of
        Some e \<Rightarrow> (Some e, w)
      | None \<Rightarrow>
          (case endpoint r of
             (module, function, args) \<Rightarrow>
               (case callWithArgs decode version t module function args w of
                  (Inl e, w) \<Rightarrow> (classifyMutationError (Some e), w)
                | (Inr _, w) \<Rightarrow> (classifyMutationError None, w))))"

section \<open>Reading lists (types.go, decoders.go)\<close>

record DomainInfoListResponse =
  diMainDomain :: string
  diSubDomains :: "string list"
  diAddonDomains :: "string list"
  diParkedDomains :: "string list"

record PassengerApp =
  paName :: string
  paPath :: string
  paDomain :: string
  paEnabled :: bool
  paStatus :: string
  paBaseURI :: string
  paEnvironmentX :: "string gomap"

record MysqlDatabase =
  mdName :: string
  mdDiskUsage :: int
  mdUserCount :: int

record SSLKey =
  skFriendlyName :: string
  skModulus :: string
  skModulusLength :: int
  skHostName :: string
  skNotAfter :: string

definition json_domains :: "json \<Rightarrow> DomainInfoListResponse option" where
  "json_domains j = Option.bind (jmembers j) (\<lambda>m.
     Option.bind (jstring (jget ''main_domain'' m)) (\<lambda>md.
     Option.bind (jlist jstring (jget ''sub_domains'' m)) (\<lambda>sd.
     Option.bind (jlist jstring (jget ''addon_domains'' m)) (\<lambda>ad.
     Option.bind (jlist jstring (jget ''parked_domains'' m)) (\<lambda>pd.
       Some \<lparr>diMainDomain = md, diSubDomains = sd, diAddonDomains = ad, diParkedDomains = pd\<rparr>)))))"

definition json_app :: "json \<Rightarrow> PassengerApp option" where
  "json_app j = Option.bind (jmembers j) (\<lambda>m.
     Option.bind (jstring (jget ''name'' m)) (\<lambda>n.
     Option.bind (jstring (jget ''path'' m)) (\<lambda>p.
     Option.bind (jstring (jget ''domain'' m)) (\<lambda>d.
     Option.bind (jbool (jget ''enabled'' m)) (\<lambda>e.
     Option.bind (jstring (jget ''status'' m)) (\<lambda>s.
     Option.bind (jstring (jget ''base_uri'' m)) (\<lambda>b.
     Option.bind (jstrmap (jget ''envvars'' m)) (\<lambda>ev.
       Some \<lparr>paName = n, paPath = p, paDomain = d, paEnabled = e, paStatus = s, paBaseURI = b,
             paEnvironmentX = ev\<rparr>))))))))"

definition json_database :: "json \<Rightarrow> MysqlDatabase option" where
  "json_database j = Option.bind (jmembers j) (\<lambda>m.
     Option.bind (jstring (jget ''name'' m)) (\<lambda>n.
     Option.bind (jint (jget ''disk_usage'' m)) (\<lambda>d.
     Option.bind (jint (jget ''user_count'' m)) (\<lambda>u.
       Some \<lparr>mdName = n, mdDiskUsage = d, mdUserCount = u\<rparr>))))"

definition json_key :: "json \<Rightarrow> SSLKey option" where
  "json_key j = Option.bind (jmembers j) (\<lambda>m.
     Option.bind (jstring (jget ''friendly_name'' m)) (\<lambda>f.
     Option.bind (jstring (jget ''modulus'' m)) (\<lambda>mo.
     Option.bind (jint (jget ''modulus_length'' m)) (\<lambda>l.
     Option.bind (jstring (jget ''host'' m)) (\<lambda>h.
     Option.bind (jstring (jget ''not_after'' m)) (\<lambda>n.
       Some \<lparr>skFriendlyName = f, skModulus = mo, skModulusLength = l, skHostName = h, skNotAfter = n\<rparr>))))))"

text \<open>A \<open>map[string]T\<close>: the rows under their exact keys.\<close>

fun jmap_rows :: "(json \<Rightarrow> 'a option) \<Rightarrow> json \<Rightarrow> (string \<times> 'a) list option" where
  "jmap_rows f (JObj kvs) = map_option (zip (map fst kvs)) (those (map (f \<circ> snd) kvs))"
| "jmap_rows f JNull = Some []"
| "jmap_rows f _ = None"

text \<open>\<open>json.Unmarshal\<close> of the member \<open>key\<close> of an object into rows, when there are any.\<close>

definition wrapped_rows :: "(json \<Rightarrow> 'a option) \<Rightarrow> string \<Rightarrow> json \<Rightarrow> 'a list" where
  "wrapped_rows f key raw =
     (case raw of
        JObj kvs \<Rightarrow>
          (case map_of kvs key of
             Some inner \<Rightarrow> (case jlist f inner of Some rows \<Rightarrow> rows | None \<Rightarrow> [])
           | None \<Rightarrow> [])
      | _ \<Rightarrow> [])"

definition decodeListResponse ::
  "(json \<Rightarrow> 'a option) \<Rightarrow> json option \<Rightarrow> string \<Rightarrow> (string \<Rightarrow> 'a \<Rightarrow> 'a) option \<Rightarrow> ('a \<Rightarrow> string) \<Rightarrow> goerr option \<Rightarrow>
   'a list res" where
  "decodeListResponse f raw wrapperKey nameFromKey sortKey notFound =
     (case raw of
        None \<Rightarrow> Inr []
      | Some JNull \<Rightarrow> Inr []
      | Some j \<Rightarrow>
          if wrapped_rows f wrapperKey j \<noteq> [] then Inr (sort_key sortKey (wrapped_rows f wrapperKey j))
          else
          (case jlist f j of
             Some (r # rows) \<Rightarrow> Inr (sort_key sortKey (r # rows))
           | _ \<Rightarrow>
               (case nameFromKey of
                  None \<Rightarrow> (case notFound of Some e \<Rightarrow> Inl e | None \<Rightarrow> Inr [])
                | Some name \<Rightarrow>
                    (case jmap_rows f j of
                       None \<Rightarrow> (case notFound of Some e \<Rightarrow> Inl e | None \<Rightarrow> Inl [Foreign 0])
                     | Some asMap \<Rightarrow> Inr (sort_key sortKey (map (\<lambda>(k, row). name k row) asMap))))))"

definition decodePassengerApps :: "json option \<Rightarrow> PassengerApp list res" where
  "decodePassengerApps raw =
     decodeListResponse json_app raw ''applications''
       (Some (\<lambda>name row. if paName row = [] then row\<lparr>paName := name\<rparr> else row)) paName None"

definition decodeMysqlDatabases :: "json option \<Rightarrow> MysqlDatabase list res" where
  "decodeMysqlDatabases raw =
     decodeListResponse json_database raw ''databases''
       (Some (\<lambda>name row. if mdName row = [] then row\<lparr>mdName := name\<rparr> else row)) mdName None"

definition decodeSSLKeys :: "json option \<Rightarrow> SSLKey list res" where
  "decodeSSLKeys raw =
     decodeListResponse json_key raw ''keys'' None skFriendlyName (Some [UapiE ErrUnknownSSLShape])"

section \<open>Readers (client.go, ssh.go, composite.go)\<close>

record 'w Reader =
  ListDomains :: "'w \<Rightarrow> DomainInfoListResponse res \<times> 'w"
  ListPassengerApps :: "'w \<Rightarrow> PassengerApp list res \<times> 'w"
  ListMysqlDatabases :: "'w \<Rightarrow> MysqlDatabase list res \<times> 'w"
  ListSSLKeys :: "'w \<Rightarrow> SSLKey list res \<times> 'w"
  Transport :: string

text \<open>The four methods have one shape: a call without arguments, then the decoder, whose error is wrapped.\<close>

definition read_list ::
  "('w \<Rightarrow> (terr + envelope) \<times> 'w) \<Rightarrow> (json option \<Rightarrow> 'a res) \<Rightarrow> 'w \<Rightarrow> 'a res \<times> 'w" where
  "read_list call decode w =
     (case call w of
        (Inl e, w) \<Rightarrow> (Inl (fst e), w)
      | (Inr env, w) \<Rightarrow>
          ((case decode (evData env) of Inl e \<Rightarrow> Inl (wrap (UapiE ErrMalformedResponse) e) | Inr x \<Rightarrow> Inr x), w))"

text \<open>\<open>json.Unmarshal\<close> of an empty raw message fails.\<close>

definition decode_domains :: "json option \<Rightarrow> DomainInfoListResponse res" where
  "decode_domains raw =
     (case Option.bind raw json_domains of None \<Rightarrow> Inl [Foreign 0] | Some r \<Rightarrow> Inr r)"

definition reader_of :: "(string \<Rightarrow> string \<Rightarrow> 'w \<Rightarrow> (terr + envelope) \<times> 'w) \<Rightarrow> string \<Rightarrow> 'w Reader" where
  "reader_of call label =
     \<lparr>ListDomains = read_list (call ''DomainInfo'' ''list_domains'') decode_domains,
      ListPassengerApps = read_list (call ''PassengerApps'' ''list_applications'') decodePassengerApps,
      ListMysqlDatabases = read_list (call ''Mysql'' ''list_databases'') decodeMysqlDatabases,
      ListSSLKeys = read_list (call ''SSL'' ''list_keys'') decodeSSLKeys,
      Transport = label\<rparr>"

definition Client :: "(string \<Rightarrow> json option) \<Rightarrow> string \<Rightarrow> 'w transport \<Rightarrow> 'w Reader" where
  "Client decode version t =
     reader_of (\<lambda>module function. callWithArgs decode version t module function []) ''HTTPS''"

definition SSHFallback :: "(string \<Rightarrow> json option) \<Rightarrow> 'w SSHRunner \<Rightarrow> string \<Rightarrow> 'w Reader" where
  "SSHFallback unmarshal run user = reader_of (sshfallback_call unmarshal run user) ''SSH''"

definition NewSSHFallback :: "(string \<Rightarrow> json option) \<Rightarrow> 'w SSHRunner option \<Rightarrow> string \<Rightarrow> 'w Reader res" where
  "NewSSHFallback unmarshal runner user =
     (if user = [] then Inl [UapiE ErrMissingCredentials]
      else case runner of
        None \<Rightarrow> Inl [UapiE ErrSSHRunnerRequired]
      | Some run \<Rightarrow> Inr (SSHFallback unmarshal run user))"

definition tryComposite ::
  "'r option \<Rightarrow> 'r option \<Rightarrow> ('r \<Rightarrow> 'w \<Rightarrow> 'a res \<times> 'w) \<Rightarrow> 'w \<Rightarrow> 'a res \<times> 'w" where
  "tryComposite primary secondary op w =
     (case primary of
        None \<Rightarrow> (case secondary of None \<Rightarrow> (Inl [UapiE ErrTransportUnavailable], w) | Some s \<Rightarrow> op s w)
      | Some p \<Rightarrow>
          (case op p w of
             (Inr x, w) \<Rightarrow> (Inr x, w)
           | (Inl e, w) \<Rightarrow>
               if \<not> errors_is e (UapiE ErrTransportUnavailable) then (Inl e, w)
               else (case secondary of None \<Rightarrow> (Inl e, w) | Some s \<Rightarrow> op s w)))"

definition Composite :: "'w Reader option \<Rightarrow> 'w Reader option \<Rightarrow> 'w Reader" where
  "Composite primary secondary =
     \<lparr>ListDomains = tryComposite primary secondary ListDomains,
      ListPassengerApps = tryComposite primary secondary ListPassengerApps,
      ListMysqlDatabases = tryComposite primary secondary ListMysqlDatabases,
      ListSSLKeys = tryComposite primary secondary ListSSLKeys,
      Transport =
        (case (primary, secondary) of
           (Some p, Some s) \<Rightarrow> Transport p @ ''+'' @ Transport s
         | (Some p, None) \<Rightarrow> Transport p
         | (None, Some s) \<Rightarrow> Transport s
         | (None, None) \<Rightarrow> ''?'')\<rparr>"

section \<open>Failing over a mutation (mutating_composite.go)\<close>

definition tryMutate ::
  "'w Mutator option \<Rightarrow> 'w Mutator option \<Rightarrow> ('w Mutator \<Rightarrow> 'w \<Rightarrow> goerr option \<times> 'w) \<Rightarrow> 'w \<Rightarrow> goerr option \<times> 'w" where
  "tryMutate primary secondary op w =
     (case primary of
        None \<Rightarrow> (case secondary of None \<Rightarrow> (Some [UapiE ErrTransportUnavailable], w) | Some s \<Rightarrow> op s w)
      | Some p \<Rightarrow>
          (case op p w of
             (None, w) \<Rightarrow> (None, w)
           | (Some e, w) \<Rightarrow>
               if \<not> errors_is e (UapiE ErrTransportUnavailable) then (Some e, w)
               else (case secondary of None \<Rightarrow> (Some e, w) | Some s \<Rightarrow> op s w)))"

definition CompositeMutator :: "'w Mutator option \<Rightarrow> 'w Mutator option \<Rightarrow> 'w Mutator" where
  "CompositeMutator primary secondary r = tryMutate primary secondary (\<lambda>m. m r)"

section \<open>Quoting\<close>

lemma join_Cons: "ys \<noteq> [] \<Longrightarrow> join sep (x # ys) = x @ sep @ join sep ys"
  by (cases ys) simp_all

lemma join_nested: "xs \<noteq> [] \<Longrightarrow> join sep (join sep xs # ys) = join sep (xs @ ys)"
proof (induction xs)
  case (Cons x xs)
  then show ?case by (cases "xs = []"; cases "ys = []") (simp_all add: join_Cons)
qed simp

text \<open>A token of a command that a shell reads as one word, whatever follows.\<close>

definition reads_as :: "string \<Rightarrow> string \<Rightarrow> bool" where
  "reads_as t w \<longleftrightarrow> (\<forall>rest. sh_read False None (t @ rest) = sh_read False (Some w) rest)"

lemma sh_read_shellQuote: "sh_read False (Some w) (shellQuote s @ rest) = sh_read False (Some (w @ s)) rest"
  using sh_read_quoted [of w s rest] by (simp add: shellQuote_def squote_def)

lemma reads_shellQuote: "reads_as (shellQuote s) s"
  using sh_read_quoted [of "[]" s] by (simp add: reads_as_def shellQuote_def squote_def)

lemma reads_plain: "list_all sh_plain p \<Longrightarrow> p \<noteq> [] \<Longrightarrow> reads_as p p"
  by (simp add: reads_as_def sh_read_word)

lemma reads_append_quote: "reads_as t w \<Longrightarrow> reads_as (t @ shellQuote s) (w @ s)"
  by (simp add: reads_as_def sh_read_shellQuote)

lemma reads_append_plain: "reads_as t w \<Longrightarrow> list_all sh_plain p \<Longrightarrow> reads_as (t @ p) (w @ p)"
  by (simp add: reads_as_def sh_read_plain)

lemma reads_join:
  "list_all (\<lambda>(t, w). reads_as t w) tws \<Longrightarrow> sh_read False None (join '' '' (map fst tws)) = Some (map snd tws)"
  by (rule sh_read_join) (simp add: reads_as_def)

lemmas plain_simps = sh_plain_def sh_special_def squote_def dquote_def backslash_def

lemma reads_pair: "reads_as (shellQuote k @ ''='' @ shellQuote v) (k @ ''='' @ v)"
  using reads_append_quote [OF reads_append_plain [OF reads_shellQuote, of "''=''" k], of v]
  by (simp add: plain_simps)

definition base_tokens :: "string \<Rightarrow> string \<Rightarrow> string \<Rightarrow> (string \<times> string) list" where
  "base_tokens user module function =
     [(''uapi'', ''uapi''), (''--user='' @ shellQuote user, ''--user='' @ user),
      (''--output=jsonpretty'', ''--output=jsonpretty''), (shellQuote module, module), (shellQuote function, function)]"

lemma base_tokens_read: "list_all (\<lambda>(t, w). reads_as t w) (base_tokens user module function)"
  using reads_append_quote [OF reads_plain [of "''--user=''"], of user]
  by (simp add: base_tokens_def reads_shellQuote reads_plain plain_simps)

definition arg_tokens :: "string gomap \<Rightarrow> (string \<times> string) list" where
  "arg_tokens args =
     map (\<lambda>k. (shellQuote k @ ''='' @ shellQuote (mget args k), k @ ''='' @ mget args k)) (sortedKeys args)"

lemma command_tokens:
  "buildUAPICommandWithArgs user module function args
    = join '' '' (map fst (base_tokens user module function @ arg_tokens args))"
proof -
  let ?base = "map fst (base_tokens user module function)"
  have base: "''uapi --user='' @ shellQuote user @ '' --output=jsonpretty '' @ shellQuote module @ '' ''
      @ shellQuote function = join '' '' ?base"
    by (simp add: base_tokens_def)
  show ?thesis
  proof (cases "args = []")
    case True
    then show ?thesis using base by (simp add: buildUAPICommandWithArgs_def arg_tokens_def sortedKeys_def)
  next
    case False
    have "buildUAPICommandWithArgs user module function args
        = join '' '' (join '' '' ?base # map fst (arg_tokens args))"
      unfolding buildUAPICommandWithArgs_def base using False by (simp add: arg_tokens_def comp_def)
    moreover have "?base \<noteq> []" by (simp add: base_tokens_def)
    ultimately show ?thesis by (simp add: join_nested)
  qed
qed

lemma command_read:
  "sh_words (buildUAPICommandWithArgs user module function args) =
     Some ([''uapi'', ''--user='' @ user, ''--output=jsonpretty'', module, function]
           @ map (\<lambda>k. k @ ''='' @ mget args k) (sortedKeys args))"
proof -
  have "list_all (\<lambda>(t, w). reads_as t w) (base_tokens user module function @ arg_tokens args)"
    using base_tokens_read [of user "module" "function"] reads_pair
    by (auto simp: arg_tokens_def list_all_iff)
  from reads_join [OF this] show ?thesis
    by (simp add: sh_words_def command_tokens base_tokens_def arg_tokens_def comp_def)
qed

section \<open>The guard and the retries\<close>

lemma entry_check_disabled: "entry_check False r = Some [UapiE ErrMutationsDisabled]"
  by (cases r) (simp_all add: guardAndValidate_def guardAndValidateValue_def)

text \<open>The contract of a gated mutator: without the opt-in it answers \<open>ErrMutationsDisabled\<close> and does nothing.\<close>

locale gated_mutator =
  fixes m :: "'w Mutator" and env :: "'w \<Rightarrow> string"
  assumes gate: "\<not> MutationsAllowed (env w) \<Longrightarrow> m r w = (Some [UapiE ErrMutationsDisabled], w)"
begin

lemma composite_gate:
  "\<not> MutationsAllowed (env w) \<Longrightarrow> CompositeMutator (Some m) s r w = (Some [UapiE ErrMutationsDisabled], w)"
  by (simp add: CompositeMutator_def tryMutate_def gate)

lemma alone_gate:
  "\<not> MutationsAllowed (env w) \<Longrightarrow> CompositeMutator None (Some m) r w = (Some [UapiE ErrMutationsDisabled], w)"
  by (simp add: CompositeMutator_def tryMutate_def gate)

end

interpretation https_gate: gated_mutator "HTTPSMutator env decode version t" env for env decode version t
  by unfold_locales (simp add: HTTPSMutator_def entry_check_disabled)

interpretation ssh_gate: gated_mutator "SSHMutator env unmarshal run user" env for env unmarshal run user
  by unfold_locales (simp add: SSHMutator_def entry_check_disabled)

interpretation composite_gate: gated_mutator "CompositeMutator (Some (HTTPSMutator env decode version t)) s" env
  for env decode version t s
  by unfold_locales (rule https_gate.composite_gate)

lemma first_err_None: "first_err es = None \<longleftrightarrow> list_all (\<lambda>e. e = None) es"
  by (induction es rule: first_err.induct) auto

lemma singleCall_world: "snd (singleCall decode version t u w) = snd (tDo t (http_request version t u) w)"
  by (auto simp: singleCall_def split: prod.splits http_out.splits)

text \<open>One round of the loop.\<close>

lemma retry_step:
  assumes "attempt \<le> maxRetries"
    and s: "(if attempt > 0 then sleepWithCtx t (backoffFor t attempt) w else (None, w)) = (s, w1)"
    and r: "singleCall decode version t u w1 = (r, w2)"
  shows "retry_loop decode version t u attempt lastErr w =
      (case s of Some e \<Rightarrow> (Inl e, w1) | None \<Rightarrow>
        (case r of Inr env \<Rightarrow> (Inr env, w2)
         | Inl e \<Rightarrow> if \<not> shouldRetry (fst e) then (Inl e, w2) else retry_loop decode version t u (Suc attempt) e w2))"
  using assms(1) by (subst retry_loop.simps) (simp add: s r split: option.splits sum.splits)

lemma retry_loop_sent:
  assumes "\<And>rq w. sent (snd (tDo t rq w)) = sent w @ [rq]"
    and "\<And>d w. sent (snd (tSleep t d w)) = sent w"
  shows "\<exists>n \<le> Suc maxRetries - attempt.
      sent (snd (retry_loop decode version t u attempt lastErr w)) = sent w @ replicate n (http_request version t u)"
proof (induction "Suc maxRetries - attempt" arbitrary: attempt lastErr w)
  case 0
  then show ?case by (subst retry_loop.simps) auto
next
  case (Suc k)
  have single: "sent (snd (singleCall decode version t u w)) = sent w @ [http_request version t u]" for w
    using assms(1) by (simp add: singleCall_world)
  have slept: "sent (snd (if attempt > 0 then sleepWithCtx t (backoffFor t attempt) w else (None, w))) = sent w"
    using assms(2) [of "backoffFor t attempt" w]
    by (auto simp: sleepWithCtx_def split: prod.splits option.splits)
  obtain s w1 where s: "(if attempt > 0 then sleepWithCtx t (backoffFor t attempt) w else (None, w)) = (s, w1)"
    by fastforce
  obtain r w2 where r: "singleCall decode version t u w1 = (r, w2)" by fastforce
  have w2: "sent w2 = sent w @ [http_request version t u]" using single [of w1] slept s r by simp
  have k: "k = Suc maxRetries - Suc attempt" and le: "attempt \<le> maxRetries"
    and one: "1 \<le> Suc maxRetries - attempt" using Suc(2) by simp_all
  note unfold = retry_step [OF le s r, of lastErr]
  show ?case
  proof (cases s)
    case (Some e)
    then show ?thesis using slept s unfold by (intro exI [of _ 0]) simp
  next
    case None
    show ?thesis
    proof (cases "\<exists>e. r = Inl e \<and> shouldRetry (fst e)")
      case True
      then obtain e where e: "r = Inl e" "shouldRetry (fst e)" by blast
      obtain n where "n \<le> Suc maxRetries - Suc attempt"
        "sent (snd (retry_loop decode version t u (Suc attempt) e w2)) = sent w2 @ replicate n (http_request version t u)"
        using Suc(1) [OF k] by blast
      then show ?thesis using unfold None e w2 one by (intro exI [of _ "Suc n"]) simp
    next
      case False
      then have "snd (retry_loop decode version t u attempt lastErr w) = w2"
        using unfold None by (auto split: sum.splits)
      then show ?thesis using w2 one by (intro exI [of _ 1]) simp
    qed
  qed
qed

lemma retry_loop_server_error:
  assumes "\<And>w. \<exists>code b. fst (tDo t (http_request version t u) w) = Response code b \<and> code \<ge> 500"
    and "\<And>d w. fst (tSleep t d w) = None"
    and "attempt \<le> maxRetries \<or> lastErr = uerr ErrServerError"
  shows "fst (retry_loop decode version t u attempt lastErr w) = Inl (uerr ErrServerError)"
  using assms(3)
proof (induction "Suc maxRetries - attempt" arbitrary: attempt lastErr w)
  case 0
  then show ?case by (subst retry_loop.simps) auto
next
  case (Suc k)
  have single: "fst (singleCall decode version t u w) = Inl (uerr ErrServerError)" for w
    using assms(1) [of w] by (auto simp: singleCall_def split: prod.splits http_out.splits)
  have slept: "fst (if attempt > 0 then sleepWithCtx t (backoffFor t attempt) w else (None, w)) = None"
    using assms(2) [of "backoffFor t attempt" w] by (auto simp: sleepWithCtx_def split: prod.splits option.splits)
  have k: "k = Suc maxRetries - Suc attempt" and le: "attempt \<le> maxRetries" using Suc(2) by simp_all
  obtain s w1 where s: "(if attempt > 0 then sleepWithCtx t (backoffFor t attempt) w else (None, w)) = (s, w1)"
    by fastforce
  obtain r w2 where r: "singleCall decode version t u w1 = (r, w2)" by fastforce
  have "s = None" "r = Inl (uerr ErrServerError)" using slept s single [of w1] r by simp_all
  then have "retry_loop decode version t u attempt lastErr w
      = retry_loop decode version t u (Suc attempt) (uerr ErrServerError) w2"
    using retry_step [OF le s r] by (simp add: uerr_def shouldRetry_def)
  then show ?case using Suc(1) [OF k] by simp
qed

section \<open>Lists in every shape\<close>

text \<open>A row as an object, with or without its name; what the decoder reads back.\<close>

definition app_members :: "PassengerApp \<Rightarrow> (string \<times> json) list" where
  "app_members a =
     [(''path'', JStr (paPath a)), (''domain'', JStr (paDomain a)), (''enabled'', JBool (paEnabled a)),
      (''status'', JStr (paStatus a)), (''base_uri'', JStr (paBaseURI a)),
      (''envvars'', JObj (map (\<lambda>(k, v). (k, JStr v)) (paEnvironmentX a)))]"

definition app_json :: "PassengerApp \<Rightarrow> json" where
  "app_json a = JObj ((''name'', JStr (paName a)) # app_members a)"

lemma json_app_members [simp]: "json_app (JObj (app_members a)) = Some (a\<lparr>paName := []\<rparr>)"
  by (simp add: json_app_def app_members_def jget_Cons to_lower_def lower_char_def jstrmap_encode
      del: jstrmap.simps)

lemma json_app_json [simp]: "json_app (app_json a) = Some a"
  by (simp add: json_app_def app_json_def app_members_def jget_Cons to_lower_def lower_char_def jstrmap_encode
      del: jstrmap.simps)

lemma those_map_Some: "those (map (\<lambda>x. Some (f x)) xs) = Some (map f xs)"
  by (induction xs) simp_all

lemma jlist_apps: "jlist json_app (JArr (map app_json apps)) = Some apps"
  by (induction apps) simp_all

lemma jmap_rows_apps:
  "jmap_rows json_app (JObj (map (\<lambda>a. (paName a, JObj (app_members a))) apps))
     = Some (map (\<lambda>a. (paName a, a\<lparr>paName := []\<rparr>)) apps)"
proof -
  have "those (map (\<lambda>a. Some (a\<lparr>paName := []\<rparr>)) apps) = Some (map (\<lambda>a. a\<lparr>paName := []\<rparr>) apps)"
    by (rule those_map_Some)
  moreover have "zip (map paName apps) (map (\<lambda>a. a\<lparr>paName := []\<rparr>) apps) = map (\<lambda>a. (paName a, a\<lparr>paName := []\<rparr>)) apps"
    by (simp add: zip_map_map zip_same_conv_map)
  ultimately show ?thesis by (simp add: comp_def)
qed

lemma wrapped_rows_legacy:
  "wrapped_rows json_app ''applications'' (JObj (map (\<lambda>a. (paName a, JObj (app_members a))) apps)) = []"
  by (auto simp: wrapped_rows_def split: option.splits dest!: map_of_SomeD)

section \<open>Properties\<close>

text \<open>
  No argument of a mutating call can leave its word: a shell reads the command that the SSH transport sends as
  \<open>uapi\<close>, the user, the output option, the module, the function, and one word \<open>key=value\<close> per parameter in the
  order of the keys, whatever characters user, keys and values have.
\<close>

theorem uapi_command_words:
  "sh_words (buildUAPICommandWithArgs user m f args) =
     Some ([''uapi'', ''--user='' @ user, ''--output=jsonpretty'', m, f]
           @ map (\<lambda>k. k @ ''='' @ mget args k) (sortedKeys args))"
  by (rule command_read)

text \<open>
  C27. The opt-in guard is closed by default: unless \<open>WEBOX_CPANEL_MUTATIONS\<close> is 1, every one of the sixteen methods
  returns \<open>ErrMutationsDisabled\<close> over HTTPS, over SSH and over the composite of both, and neither the network
  nor the panel is touched.
\<close>

theorem mutations_off:
  assumes "\<not> MutationsAllowed (env w)"
  shows "HTTPSMutator env decode version t r w = (Some [UapiE ErrMutationsDisabled], w)
    \<and> SSHMutator env unmarshal run user r w = (Some [UapiE ErrMutationsDisabled], w)
    \<and> CompositeMutator (Some (HTTPSMutator env decode version t)) (Some (SSHMutator env unmarshal run user)) r w
           = (Some [UapiE ErrMutationsDisabled], w)"
  by (intro conjI https_gate.gate ssh_gate.gate composite_gate.gate assms)

text \<open>
  The retry loop ends and is bounded: a call over HTTPS sends the same request between one and four times,
  whatever the server answers and whenever the context is cancelled.
\<close>

theorem https_attempts:
  assumes "\<And>rq w. sent (snd (tDo t rq w)) = sent w @ [rq]"
    and "\<And>d w. sent (snd (tSleep t d w)) = sent w"
  shows "\<exists>n. 1 \<le> n \<and> n \<le> 4 \<and>
      sent (snd (callWithArgs decode version t m f args w))
        = sent w @ replicate n (http_request version t (callURL t m f args))"
proof -
  let ?u = "callURL t m f args" and ?rq = "http_request version t (callURL t m f args)"
  obtain r w2 where r: "singleCall decode version t ?u w = (r, w2)" by fastforce
  have w2: "sent w2 = sent w @ [?rq]"
    using assms(1) [of ?rq w] singleCall_world [of decode version t ?u w] r by simp
  have "\<exists>n \<le> 3. sent (snd (retry_loop decode version t ?u 1 e w2)) = sent w2 @ replicate n ?rq" for e
    using retry_loop_sent [OF assms, of 1 decode version ?u e w2] by (simp add: maxRetries_def)
  then have "\<exists>n \<le> 3. sent (snd (retry_loop decode version t ?u 0 ([], []) w)) = sent w2 @ replicate n ?rq"
    using retry_step [of 0 t w None w decode version ?u r w2 "([], [])"] r
    by (cases r) (auto simp: maxRetries_def intro: exI [of _ 0])
  then obtain n where "n \<le> 3" "sent (snd (callWithArgs decode version t m f args w)) = sent w @ replicate (Suc n) ?rq"
    using w2 by (auto simp: callWithArgs_def)
  then show ?thesis by (intro exI [of _ "Suc n"]) simp
qed

text \<open>
  The three shapes in which cPanel versions list the Passenger applications decode to the same rows, sorted by name:
  the object with the member \<open>applications\<close>, the plain array, and the legacy map from names to rows.
\<close>

theorem shapes_agree:
  assumes "apps \<noteq> []" and "distinct (map paName apps)"
  shows "decodePassengerApps (Some (JObj [(''applications'', JArr (map app_json apps))])) = Inr (sort_key paName apps)
    \<and> decodePassengerApps (Some (JArr (map app_json apps))) = Inr (sort_key paName apps)
    \<and> decodePassengerApps (Some (JObj (map (\<lambda>a. (paName a, JObj (app_members a))) apps))) = Inr (sort_key paName apps)"
proof (intro conjI)
  show "decodePassengerApps (Some (JObj [(''applications'', JArr (map app_json apps))])) = Inr (sort_key paName apps)"
    using assms jlist_apps [of apps]
    by (simp add: decodePassengerApps_def decodeListResponse_def wrapped_rows_def del: jlist.simps)
  show "decodePassengerApps (Some (JArr (map app_json apps))) = Inr (sort_key paName apps)"
    using assms jlist_apps [of apps]
    by (cases apps) (simp_all add: decodePassengerApps_def decodeListResponse_def wrapped_rows_def del: jlist.simps)
  have "map (\<lambda>(k, row). if paName row = [] then row\<lparr>paName := k\<rparr> else row) (map (\<lambda>a. (paName a, a\<lparr>paName := []\<rparr>)) apps) = apps"
    by (rule map_idI [of apps, THEN trans [rotated]]) auto
  then show "decodePassengerApps (Some (JObj (map (\<lambda>a. (paName a, JObj (app_members a))) apps))) = Inr (sort_key paName apps)"
    by (simp only: decodePassengerApps_def decodeListResponse_def wrapped_rows_legacy jmap_rows_apps jlist.simps
        option.case json.case simp_thms if_False if_True)
qed

text \<open>
  An account without applications, databases or keys cannot be listed: the empty list, inside its wrapper or as a
  plain array, is not taken for an empty result; the decoders go on to the legacy map and fail.
\<close>

theorem empty_lists_rejected:
  "decodePassengerApps (Some (JObj [(''applications'', JArr [])])) = Inl [Foreign 0]
   \<and> decodePassengerApps (Some (JArr [])) = Inl [Foreign 0]
   \<and> decodeMysqlDatabases (Some (JObj [(''databases'', JArr [])])) = Inl [Foreign 0]
   \<and> decodeSSLKeys (Some (JObj [(''keys'', JArr [])])) = Inl [UapiE ErrUnknownSSLShape]
   \<and> decodeSSLKeys (Some (JArr [])) = Inl [UapiE ErrUnknownSSLShape]"
  by (simp add: decodePassengerApps_def decodeMysqlDatabases_def decodeSSLKeys_def decodeListResponse_def
      wrapped_rows_def json_app_def json_database_def)

text \<open>
  A panel that answers every request with a server error keeps its HTTPS transport: the composite returns
  \<open>ErrServerError\<close> after the retries and never asks the SSH transport, whatever that one would do.
\<close>

theorem server_errors_stay:
  assumes "\<And>rq w. \<exists>code b. fst (tDo t rq w) = Response code b \<and> code \<ge> 500"
    and "\<And>d w. fst (tSleep t d w) = None"
    and "entry_check (MutationsAllowed (env w)) r = None"
  shows "fst (CompositeMutator (Some (HTTPSMutator env decode version t)) ssh r w) = Some [UapiE ErrServerError]"
proof -
  obtain m f args where ep: "endpoint r = (m, f, args)" by (cases "endpoint r") auto
  have "fst (callWithArgs decode version t m f args w) = Inl (uerr ErrServerError)"
    unfolding callWithArgs_def by (rule retry_loop_server_error [OF assms(1,2)]) simp
  then have "fst (HTTPSMutator env decode version t r w) = Some [UapiE ErrServerError]"
    using assms(3) ep
    by (auto simp: HTTPSMutator_def classifyMutationError_def uerr_def split: prod.splits sum.splits)
  then show ?thesis by (auto simp: CompositeMutator_def tryMutate_def split: prod.splits)
qed

section \<open>Witnesses\<close>

text \<open>A server that answers every request with 503, over a world that lists the requests; a context that is never done.\<close>

definition broken_transport :: "http_req list transport" where
  "broken_transport = \<lparr>tDo = (\<lambda>rq l. (Response 503 [], l @ [rq])),
     tBase = \<lparr>uScheme = ''https'', uHost = ''h'', uPath = [], uQuery = []\<rparr>, tUser = ''acct'', tToken = ''t'',
     tSleep = (\<lambda>_ l. (None, l)), backoffFor = backoff\<rparr>"

theorem mutations_off_witness:
  "SSHMutator (\<lambda>_. ''0'') (\<lambda>_. None) (\<lambda>_ w. (([], [], 0, None), w)) ''acct'' (DeleteSSL ''h'') ()
     = (Some [UapiE ErrMutationsDisabled], ())"
proof -
  have "trim_space ''0'' = ''0''" by (rule trim_space_ascii) (auto simp: less_char_def)
  then have "\<not> MutationsAllowed ''0''" by (simp add: MutationsAllowed_def)
  then show ?thesis using mutations_off [of "\<lambda>_. ''0''" "()"] by simp
qed

theorem https_attempts_witness:
  "\<exists>n. 1 \<le> n \<and> n \<le> 4 \<and>
     snd (callWithArgs (\<lambda>_. None) ''1.0'' broken_transport ''SSL'' ''list_keys'' [] [])
       = replicate n (http_request ''1.0'' broken_transport (callURL broken_transport ''SSL'' ''list_keys'' []))"
  using https_attempts [of id broken_transport "\<lambda>_. None" "''1.0''" "''SSL''" "''list_keys''" "[]" "[]"]
  by (simp add: broken_transport_def)

theorem shapes_agree_witness:
  "decodePassengerApps (Some (JArr [app_json \<lparr>paName = ''a'', paPath = ''/p'', paDomain = ''d'', paEnabled = True,
     paStatus = [], paBaseURI = ''/'', paEnvironmentX = []\<rparr>]))
   = Inr [\<lparr>paName = ''a'', paPath = ''/p'', paDomain = ''d'', paEnabled = True,
     paStatus = [], paBaseURI = ''/'', paEnvironmentX = []\<rparr>]"
  using shapes_agree [of "[\<lparr>paName = ''a'', paPath = ''/p'', paDomain = ''d'', paEnabled = True,
     paStatus = [], paBaseURI = ''/'', paEnvironmentX = []\<rparr>]"] by simp

theorem server_errors_stay_witness:
  "fst (CompositeMutator (Some (HTTPSMutator (\<lambda>_. ''1'') (\<lambda>_. None) ''1.0'' broken_transport)) None (DeleteSSL ''h'') [])
     = Some [UapiE ErrServerError]"
proof -
  have "trim_space ''1'' = ''1''" "trim_space ''h'' = ''h''" by (rule trim_space_ascii; auto simp: less_char_def)+
  then have "entry_check (MutationsAllowed ''1'') (DeleteSSL ''h'') = None"
    by (simp add: MutationsAllowed_def guardAndValidateValue_def mustNonEmpty_def mustNotControl_def less_char_def)
  then show ?thesis
    using server_errors_stay [of broken_transport "\<lambda>_. ''1''" "[]" "DeleteSSL ''h''" "\<lambda>_. None" "''1.0''" None]
    by (simp add: broken_transport_def)
qed

end
