(* ===== verification/Base64.thy ===== *)
theory Base64
  imports Go_Strings
begin

text \<open>
  \<open>encoding/base64\<close>, standard alphabet with padding: the form in which \<open>encoding/json\<close> writes a \<open>[]byte\<close>.
  Decoding undoes encoding.
\<close>

definition b64_alphabet :: string where
  "b64_alphabet = ''ABCDEFGHIJKLMNOPQRSTUVWXYZabcdefghijklmnopqrstuvwxyz0123456789+/''"

definition b64_char :: "nat \<Rightarrow> char" where "b64_char n = b64_alphabet ! n"

fun index_of :: "char \<Rightarrow> string \<Rightarrow> nat option" where
  "index_of c [] = None"
| "index_of c (x # xs) = (if x = c then Some 0 else map_option Suc (index_of c xs))"

definition b64_val :: "char \<Rightarrow> nat option" where "b64_val c = index_of c b64_alphabet"

fun b64_encode :: "string \<Rightarrow> string" where
  "b64_encode [] = []"
| "b64_encode [a] =
     (let n = of_char a * 16 :: nat in [b64_char (n div 64), b64_char (n mod 64), CHR ''='', CHR ''=''])"
| "b64_encode [a, b] =
     (let n = (of_char a * 256 + of_char b) * 4 :: nat
      in [b64_char (n div 4096), b64_char (n div 64 mod 64), b64_char (n mod 64), CHR ''=''])"
| "b64_encode (a # b # c # cs) =
     (let n = of_char a * 65536 + of_char b * 256 + of_char c :: nat
      in b64_char (n div 262144) # b64_char (n div 4096 mod 64) # b64_char (n div 64 mod 64) # b64_char (n mod 64)
         # b64_encode cs)"

text \<open>Decoding the groups of four; the last one may be padded.\<close>

fun b64_decode :: "string \<Rightarrow> string option" where
  "b64_decode [] = Some []"
| "b64_decode (a # b # c # d # cs) =
     (case (b64_val a, b64_val b) of
        (Some w, Some x) \<Rightarrow>
          (case (b64_val c, b64_val d) of
             (Some y, Some z) \<Rightarrow>
               (let n = w * 262144 + x * 4096 + y * 64 + z in
                map_option (\<lambda>s. char_of (n div 65536) # char_of (n div 256 mod 256) # char_of (n mod 256) # s) (b64_decode cs))
           | (Some y, None) \<Rightarrow>
               if d = CHR ''='' \<and> cs = []
               then (let n = w * 4096 + x * 64 + y in Some [char_of (n div 4 div 256), char_of (n div 4 mod 256)]) else None
           | (None, _) \<Rightarrow>
               if c = CHR ''='' \<and> d = CHR ''='' \<and> cs = []
               then Some [char_of ((w * 64 + x) div 16)] else None)
      | _ \<Rightarrow> None)"
| "b64_decode _ = None"

lemma index_of_nth: "distinct xs \<Longrightarrow> i < length xs \<Longrightarrow> index_of (xs ! i) xs = Some i"
proof (induction xs arbitrary: i)
  case (Cons x xs)
  then show ?case by (cases i) auto
qed simp

lemma alphabet: "distinct b64_alphabet" "length b64_alphabet = 64" "index_of CHR ''='' b64_alphabet = None"
  by (simp_all add: b64_alphabet_def)

lemma b64_val_char [simp]: "n < 64 \<Longrightarrow> b64_val (b64_char n) = Some n"
  by (simp add: b64_val_def b64_char_def index_of_nth alphabet)

lemma b64_val_pad [simp]: "b64_val CHR ''='' = None"
  by (simp add: b64_val_def alphabet)

lemma split_digits:
  fixes n :: nat
  shows "n div 262144 * 262144 + n div 4096 mod 64 * 4096 + n div 64 mod 64 * 64 + n mod 64 = n"
    "n div 4096 * 4096 + n div 64 mod 64 * 64 + n mod 64 = n"
proof -
  have "n = n div 64 * 64 + n mod 64" "n div 64 = n div 4096 * 64 + n div 64 mod 64" "n div 4096 = n div 262144 * 64 + n div 4096 mod 64"
    using div_mult_mod_eq [of n 64] div_mult_mod_eq [of "n div 64" 64] div_mult_mod_eq [of "n div 4096" 64]
    by (simp_all add: div_mult2_eq [symmetric])
  then show "n div 262144 * 262144 + n div 4096 mod 64 * 4096 + n div 64 mod 64 * 64 + n mod 64 = n"
    "n div 4096 * 4096 + n div 64 mod 64 * 64 + n mod 64 = n" by linarith+
qed

lemma three_bytes:
  fixes x y z :: nat
  assumes "x < 256" "y < 256" "z < 256"
  shows "(x * 65536 + y * 256 + z) div 262144 < 64" "(x * 65536 + y * 256 + z) div 65536 = x"
    "(x * 65536 + y * 256 + z) div 256 = x * 256 + y" "(x * 65536 + y * 256 + z) mod 256 = z"
    "(x * 256 + y) * 4 div 4096 < 64"
proof -
  let ?n = "x * 65536 + y * 256 + z"
  have n: "?n = z + (x * 256 + y) * 256" by simp
  show d: "?n div 256 = x * 256 + y" using assms(3) unfolding n by simp
  show "?n mod 256 = z" using assms(3) unfolding n mod_mult_self1 by simp
  have "?n div 65536 = ?n div 256 div 256" by (simp add: div_mult2_eq [symmetric])
  then show "?n div 65536 = x" using assms(2) by (simp add: d)
  show "?n div 262144 < 64" "(x * 256 + y) * 4 div 4096 < 64"
    using assms by (auto intro!: less_mult_imp_div_less)
qed

lemma b64_roundtrip: "b64_decode (b64_encode s) = Some s"
proof (induction s rule: b64_encode.induct)
  case (2 a)
  have "of_char a * 16 div 64 * 64 + of_char a * 16 mod 64 = (of_char a * 16 :: nat)" by (rule div_mult_mod_eq)
  moreover have "(of_char a * 16 div 64 :: nat) < 64" using nat_of_char_less_256 [of a] by linarith
  ultimately show ?case by (simp add: Let_def)
next
  case (3 a b)
  define n :: nat where "n = (of_char a * 256 + of_char b) * 4"
  have enc: "b64_encode [a, b] = [b64_char (n div 4096), b64_char (n div 64 mod 64), b64_char (n mod 64), CHR ''='']"
    unfolding b64_encode.simps Let_def n_def ..
  have "n div 4096 < 64" unfolding n_def by (rule three_bytes(5) [of _ _ 0]) simp_all
  moreover have n4: "n div 4 = of_char b + of_char a * 256" unfolding n_def by simp
  have "n div 4 div 256 = of_char a" "n div 4 mod 256 = of_char b" unfolding n4 mod_mult_self1 by simp_all
  ultimately show ?case unfolding enc using split_digits(2) [of n] by (simp add: Let_def del: char_of_mod_256)
next
  case (4 a b c cs)
  define n :: nat where "n = of_char a * 65536 + of_char b * 256 + of_char c"
  have enc: "b64_encode (a # b # c # cs) = b64_char (n div 262144) # b64_char (n div 4096 mod 64)
      # b64_char (n div 64 mod 64) # b64_char (n mod 64) # b64_encode cs"
    unfolding b64_encode.simps Let_def n_def ..
  have "n div 262144 < 64" "n div 65536 = of_char a" "n div 256 = of_char a * 256 + of_char b" "n mod 256 = of_char c"
    unfolding n_def by (rule three_bytes; simp)+
  moreover have "(of_char b + of_char a * 256) mod 256 = (of_char b :: nat)" unfolding mod_mult_self1 by simp
  ultimately show ?case unfolding enc using 4 split_digits(1) [of n]
    by (simp add: Let_def add.commute del: char_of_mod_256)
qed simp

end
