(* ===== verification/Cpanel.thy ===== *)
theory Cpanel
  imports Wizard Uapi Base64
begin

text \<open>
  The cPanel adapter (\<open>src/providers/cpanel\<close>): validators (\<open>validators.go\<close>), the properties bag (\<open>config.go\<close>),
  templates, passwords and the error mapping (\<open>cpanel.go\<close>), every method of the interface (\<open>methods.go\<close>) and the
  data of the deploy workflow (\<open>workflow.go\<close>).

  The seams are a reader and a mutator of \<open>Uapi\<close> and an SSH runner; each may be missing. The clock, the wait after
  an AutoSSL check and the system's random bytes are read off the world. \<open>requests\<close> below replays a method against
  a scripted panel, so that a statement about all scripts is one about every pattern of panel errors.
\<close>

section \<open>Validators (validators.go)\<close>

definition cp_maxDomainLength :: nat where "cp_maxDomainLength = 253"

definition cp_label :: re where
  "cp_label = Seq (Cls lower_alnum)
     (opt (Seq (between 0 61 (Cls (\<lambda>c. lower_alnum c \<or> c = CHR ''-''))) (Cls lower_alnum)))"

definition cp_domainPattern :: re where
  "cp_domainPattern =
     whole (Seq (between 1 4 (Seq cp_label (Cls (\<lambda>c. c = CHR ''.''))))
                (between 2 24 (Cls (\<lambda>c. CHR ''a'' \<le> c \<and> c \<le> CHR ''z''))))"

definition cp_nodeVersionPattern :: re where
  "cp_nodeVersionPattern = whole (between 1 16 (Cls version_char))"

definition cp_dbNamePattern :: re where
  "cp_dbNamePattern = whole (between 1 32 (Cls (\<lambda>c. lower_alnum c \<or> c = CHR ''_'')))"

definition cp_ValidateDomain :: "string \<Rightarrow> goerr option" where
  "cp_ValidateDomain domain =
     (if domain = [] then Some [CpanelE ErrCpInvalidDomain]
      else if length domain > cp_maxDomainLength then Some [CpanelE ErrCpInvalidDomain]
      else if \<not> match_string cp_domainPattern domain then Some [CpanelE ErrCpInvalidDomain]
      else None)"

definition cp_ValidateNodeVersion :: "string \<Rightarrow> goerr option" where
  "cp_ValidateNodeVersion version =
     (if version = [] then Some [CpanelE ErrCpInvalidNodeVersion]
      else if \<not> match_string cp_nodeVersionPattern version then Some [CpanelE ErrCpInvalidNodeVersion]
      else None)"

definition cp_ValidateDBName :: "string \<Rightarrow> goerr option" where
  "cp_ValidateDBName name =
     (if name = [] then Some [CpanelE ErrCpInvalidDBName]
      else if \<not> match_string cp_dbNamePattern name then Some [CpanelE ErrCpInvalidDBName]
      else None)"

section \<open>Configuration (config.go)\<close>

definition cp_providerName :: string where "cp_providerName = ''cpanel''"

record cp_Properties =
  prRestartMethod :: string
  prNodeSelector :: string
  prSSLProvider :: string
  prDomainKind :: string
  prAppRootTemplate :: string
  prDeployPathTemplate :: string
  prLogPathTemplate :: string
  prAPIPort :: int
  prAutoSSLPollSeconds :: int

definition defaultProperties :: cp_Properties where
  "defaultProperties =
     \<lparr>prRestartMethod = ''passenger'', prNodeSelector = ''cloudlinux_selector'', prSSLProvider = ''autossl'',
      prDomainKind = ''addon'', prAppRootTemplate = ''/home/{user}/nodejs/{app_root}'',
      prDeployPathTemplate = ''/home/{user}/nodejs/{app_root}/public'',
      prLogPathTemplate = ''/home/{user}/nodejs/{app_root}/logs'', prAPIPort = 2083, prAutoSSLPollSeconds = 0\<rparr>"

text \<open>The three setters return the new value of the destination.\<close>

definition applyEnumProperty :: "string \<Rightarrow> string gomap \<Rightarrow> string \<Rightarrow> string list \<Rightarrow> string res" where
  "applyEnumProperty dst raw key allowed =
     (case map_of raw key of
        None \<Rightarrow> Inr dst
      | Some v \<Rightarrow> if v \<in> set allowed then Inr v else Inl [ProviderE ErrInvalidProviderConfig])"

definition applyTemplateProperty :: "string \<Rightarrow> string gomap \<Rightarrow> string \<Rightarrow> string" where
  "applyTemplateProperty dst raw key =
     (case map_of raw key of Some v \<Rightarrow> if trim_space v \<noteq> [] then v else dst | None \<Rightarrow> dst)"

definition applyIntProperty :: "int \<Rightarrow> string gomap \<Rightarrow> string \<Rightarrow> int \<Rightarrow> int \<Rightarrow> int res" where
  "applyIntProperty dst raw key lo hi =
     (case map_of raw key of
        None \<Rightarrow> Inr dst
      | Some v \<Rightarrow>
          (case parse_int64 v of
             None \<Rightarrow> Inl [ProviderE ErrInvalidProviderConfig]
           | Some n \<Rightarrow> if n < lo \<or> n > hi then Inl [ProviderE ErrInvalidProviderConfig] else Inr n))"

definition res_bind :: "'a res \<Rightarrow> ('a \<Rightarrow> 'b res) \<Rightarrow> 'b res" where
  "res_bind r f = (case r of Inl e \<Rightarrow> Inl e | Inr x \<Rightarrow> f x)"

definition cp_parseProperties :: "string gomap \<Rightarrow> cp_Properties res" where
  "cp_parseProperties raw =
     (let d = defaultProperties in
      res_bind (applyEnumProperty (prRestartMethod d) raw ''restart_method'' [''passenger'', ''app_manager'']) (\<lambda>rm.
      res_bind (applyEnumProperty (prNodeSelector d) raw ''node_selector''
                  [''cloudlinux_selector'', ''app_manager'', ''none'']) (\<lambda>ns.
      res_bind (applyEnumProperty (prSSLProvider d) raw ''ssl_provider'' [''autossl'', ''manual'']) (\<lambda>sp.
      res_bind (applyEnumProperty (prDomainKind d) raw ''domain_kind'' [''addon'', ''subdomain'']) (\<lambda>dk.
      let ar = applyTemplateProperty (prAppRootTemplate d) raw ''app_root_template'';
          dp = applyTemplateProperty (prDeployPathTemplate d) raw ''deploy_path_template'';
          lp = applyTemplateProperty (prLogPathTemplate d) raw ''log_path_template'' in
      res_bind (applyIntProperty (prAPIPort d) raw ''api_port'' 1 65535) (\<lambda>ap.
      res_bind (applyIntProperty (prAutoSSLPollSeconds d) raw ''autossl_poll_seconds'' 0 600) (\<lambda>ps.
        Inr \<lparr>prRestartMethod = rm, prNodeSelector = ns, prSSLProvider = sp, prDomainKind = dk,
             prAppRootTemplate = ar, prDeployPathTemplate = dp, prLogPathTemplate = lp, prAPIPort = ap,
             prAutoSSLPollSeconds = ps\<rparr>)))))))"

section \<open>The provider (cpanel.go)\<close>

text \<open>\<open>pvRandom\<close> is one \<open>rand.Read\<close> of 24 bytes; \<open>pvWait\<close> waits, or returns the error of a context done first.\<close>

record 'w cp_Provider =
  pvCfg :: ProviderConfig
  pvProps :: cp_Properties
  pvReader :: "'w Reader option"
  pvMutator :: "'w Mutator option"
  pvRunner :: "'w SSHRunner option"
  pvNow :: "'w \<Rightarrow> int"
  pvWait :: "int \<Rightarrow> 'w \<Rightarrow> goerr option \<times> 'w"
  pvRandom :: "'w \<Rightarrow> string res \<times> 'w"

definition cp_New ::
  "('w \<Rightarrow> int) \<Rightarrow> (int \<Rightarrow> 'w \<Rightarrow> goerr option \<times> 'w) \<Rightarrow> ('w \<Rightarrow> string res \<times> 'w) \<Rightarrow> ProviderConfig \<Rightarrow> 'w cp_Provider res" where
  "cp_New nowf wait random c =
     (if PType c \<noteq> cp_providerName then Inl [ProviderE ErrInvalidProviderConfig]
      else case cp_parseProperties (case Props c of None \<Rightarrow> [] | Some m \<Rightarrow> m) of
        Inl e \<Rightarrow> Inl e
      | Inr ps \<Rightarrow> Inr \<lparr>pvCfg = c, pvProps = ps, pvReader = None, pvMutator = None, pvRunner = None,
                       pvNow = nowf, pvWait = wait, pvRandom = random\<rparr>)"

definition resolveAppRoot :: "string \<Rightarrow> string" where
  "resolveAppRoot domain = replace_all domain ''.'' ''-''"

definition renderTemplate :: "'w cp_Provider \<Rightarrow> string \<Rightarrow> string \<Rightarrow> string" where
  "renderTemplate p tmpl appRoot =
     (let out = replace_all tmpl ''{user}'' (User (pvCfg p))
      in replace_all out ''{app_root}'' appRoot)"

definition splitDomain :: "string \<Rightarrow> string \<times> string" where
  "splitDomain domain =
     (let idx = length (takeWhile (\<lambda>c. c \<noteq> CHR ''.'') domain)
      in if CHR ''.'' \<notin> set domain \<or> idx = 0 \<or> idx \<ge> length domain - 1 then (domain, [])
         else (take idx domain, drop (Suc idx) domain))"

text \<open>\<open>base64.RawURLEncoding\<close>: the URL alphabet, no padding.\<close>

definition rawurl_encode :: "string \<Rightarrow> string" where
  "rawurl_encode s =
     map (\<lambda>c. if c = CHR ''+'' then CHR ''-'' else if c = CHR ''/'' then CHR ''_'' else c)
       (filter (\<lambda>c. c \<noteq> CHR ''='') (b64_encode s))"

definition generatePassword :: "'w cp_Provider \<Rightarrow> 'w \<Rightarrow> string res \<times> 'w" where
  "generatePassword p w =
     (case pvRandom p w of
        (Inl e, w) \<Rightarrow> (Inl e, w)
      | (Inr buf, w) \<Rightarrow> (Inr (rawurl_encode buf), w))"

definition errMissingSeam :: goerr where
  "errMissingSeam = [ProviderE ErrUnknownOutputFormat]"

definition mapResourceExists :: "goerr option \<Rightarrow> goerr \<Rightarrow> goerr option" where
  "mapResourceExists err exists =
     (case err of
        None \<Rightarrow> None
      | Some e \<Rightarrow> if errors_is e (UapiE ErrResourceExists) then Some exists else Some e)"

definition mapResourceNotFound :: "goerr option \<Rightarrow> goerr option" where
  "mapResourceNotFound err =
     (case err of
        None \<Rightarrow> None
      | Some e \<Rightarrow> if errors_is e (UapiE ErrResourceNotFound) then None else Some e)"

section \<open>Methods (methods.go)\<close>

definition addDomain :: "'w cp_Provider \<Rightarrow> 'w Mutator \<Rightarrow> string \<Rightarrow> string \<Rightarrow> 'w \<Rightarrow> goerr option \<times> 'w" where
  "addDomain p m domain docRoot w =
     (if prDomainKind (pvProps p) = ''subdomain'' then
        (case splitDomain domain of
           (label, root) \<Rightarrow>
             if root = [] then (Some [ProviderE ErrInvalidProviderConfig], w)
             else m (AddSubdomain \<lparr>csDomain = label, csRootDomain = root, csDir = docRoot\<rparr>) w)
      else m (AddAddonDomain \<lparr>caNewDomain = domain, caSubdomain = [], caDir = docRoot\<rparr>) w)"

definition cp_CreateSubdomain :: "'w cp_Provider \<Rightarrow> string \<Rightarrow> string \<Rightarrow> 'w \<Rightarrow> goerr option \<times> 'w" where
  "cp_CreateSubdomain p domain nodeVersion w =
     (case cp_ValidateDomain domain of
        Some err \<Rightarrow> (Some (wrap (ProviderE ErrInvalidProviderConfig) err), w)
      | None \<Rightarrow>
     (case cp_ValidateNodeVersion nodeVersion of
        Some err \<Rightarrow> (Some (wrap (ProviderE ErrInvalidProviderConfig) err), w)
      | None \<Rightarrow>
     (case pvMutator p of
        None \<Rightarrow> (Some errMissingSeam, w)
      | Some m \<Rightarrow>
          let appRoot = resolveAppRoot domain;
              appPath = renderTemplate p (prAppRootTemplate (pvProps p)) appRoot;
              docRoot = renderTemplate p (prDeployPathTemplate (pvProps p)) appRoot in
          (case addDomain p m domain docRoot w of
             (Some err, w) \<Rightarrow> (mapResourceExists (Some err) [ProviderE ErrSubdomainExists], w)
           | (None, w) \<Rightarrow>
               (case m (CreatePassengerApp \<lparr>cpName = appRoot, cpPath = appPath, cpDomain = domain, cpBaseURI = ''/'',
                          cpDeploymentMode = ''production'', cpEnvvars = [(''NODE_ENV'', ''production'')]\<rparr>) w of
                  (Some err, w) \<Rightarrow> (mapResourceExists (Some err) [ProviderE ErrSubdomainExists], w)
                | (None, w) \<Rightarrow> (None, w))))))"

definition cp_SetupSSL :: "'w cp_Provider \<Rightarrow> string \<Rightarrow> 'w \<Rightarrow> goerr option \<times> 'w" where
  "cp_SetupSSL p domain w =
     (case cp_ValidateDomain domain of
        Some err \<Rightarrow> (Some (wrap (ProviderE ErrInvalidProviderConfig) err), w)
      | None \<Rightarrow>
     (case pvMutator p of
        None \<Rightarrow> (Some errMissingSeam, w)
      | Some m \<Rightarrow>
          if prSSLProvider (pvProps p) = ''autossl'' then
            (case m (StartAutoSSL domain) w of
               (Some err, w) \<Rightarrow>
                 (if errors_is err (UapiE ErrModuleFunctionDenied) then (Some [ProviderE ErrDNSNotResolving], w)
                  else (Some err, w))
             | (None, w) \<Rightarrow>
                 if prAutoSSLPollSeconds (pvProps p) > 0
                 then pvWait p (prAutoSSLPollSeconds (pvProps p) * 1000000000) w
                 else (None, w))
          else (Some [ProviderE ErrInvalidProviderConfig], w)))"

definition cp_CreateDatabase ::
  "'w cp_Provider \<Rightarrow> string \<Rightarrow> string \<Rightarrow> 'w \<Rightarrow> (string \<times> string) res \<times> 'w" where
  "cp_CreateDatabase p dbType dbName w =
     (if dbType \<noteq> DatabaseMySQL then (Inl [ProviderE ErrInvalidProviderConfig], w)
      else case cp_ValidateDBName dbName of
        Some err \<Rightarrow> (Inl (wrap (ProviderE ErrInvalidProviderConfig) err), w)
      | None \<Rightarrow>
     (case pvMutator p of
        None \<Rightarrow> (Inl errMissingSeam, w)
      | Some m \<Rightarrow>
     (case generatePassword p w of
        (Inl err, w) \<Rightarrow> (Inl err, w)
      | (Inr password, w) \<Rightarrow>
     (case m (CreateMysqlDatabase dbName) w of
        (Some cErr, w) \<Rightarrow> (Inl (the (mapResourceExists (Some cErr) [ProviderE ErrDBNameTaken])), w)
      | (None, w) \<Rightarrow>
     (case m (CreateMysqlUser dbName password) w of
        (Some uErr, w) \<Rightarrow>
          (case m (DeleteMysqlDatabase dbName) w of
             (_, w) \<Rightarrow> (Inl (the (mapResourceExists (Some uErr) [ProviderE ErrDBNameTaken])), w))
      | (None, w) \<Rightarrow>
     (case m (SetMysqlPrivileges \<lparr>mpDatabase = dbName, mpUser = dbName, mpPrivileges = [''ALL PRIVILEGES'']\<rparr>) w of
        (Some pErr, w) \<Rightarrow>
          (case m (DeleteMysqlUser dbName) w of
             (_, w) \<Rightarrow> (case m (DeleteMysqlDatabase dbName) w of (_, w) \<Rightarrow> (Inl pErr, w)))
      | (None, w) \<Rightarrow> (Inr (dbName, password), w)))))))"

definition cp_RestartNodeApp :: "'w cp_Provider \<Rightarrow> string \<Rightarrow> 'w \<Rightarrow> goerr option \<times> 'w" where
  "cp_RestartNodeApp p domain w =
     (case cp_ValidateDomain domain of
        Some err \<Rightarrow> (Some (wrap (ProviderE ErrInvalidProviderConfig) err), w)
      | None \<Rightarrow>
     (case pvMutator p of
        None \<Rightarrow> (Some errMissingSeam, w)
      | Some m \<Rightarrow>
          (case m (RestartPassengerApp (renderTemplate p (prAppRootTemplate (pvProps p)) (resolveAppRoot domain))) w of
             (Some err, w) \<Rightarrow>
               (if errors_is err (UapiE ErrResourceNotFound) then (Some [ProviderE ErrAppNotFound], w) else (Some err, w))
           | (None, w) \<Rightarrow> (None, w))))"

definition cp_GetDeployPath :: "'w cp_Provider \<Rightarrow> string \<Rightarrow> string" where
  "cp_GetDeployPath p domain =
     (if cp_ValidateDomain domain \<noteq> None then []
      else renderTemplate p (prDeployPathTemplate (pvProps p)) (resolveAppRoot domain))"

definition cp_GetLogPath :: "'w cp_Provider \<Rightarrow> string \<Rightarrow> string" where
  "cp_GetLogPath p domain =
     (if cp_ValidateDomain domain \<noteq> None then []
      else renderTemplate p (prLogPathTemplate (pvProps p)) (resolveAppRoot domain))"

definition cp_clampTailLines :: "int \<Rightarrow> int" where
  "cp_clampTailLines n = (if n \<le> 0 then 200 else if n > 10000 then 10000 else n)"

definition combineTailOutput :: "string \<Rightarrow> string \<Rightarrow> string" where
  "combineTailOutput stdout stderr =
     (if stderr = [] then stdout else if stdout = [] then stderr else stdout @ [CHR 0x0A] @ stderr)"

definition cp_tail_command :: "string \<Rightarrow> int \<Rightarrow> string" where
  "cp_tail_command logDir lines =
     join '' '' [''tail'', ''-n'', itoa lines, ''--'', logDir @ ''/app.log'', logDir @ ''/error.log'']"

definition cp_TailLog :: "'w cp_Provider \<Rightarrow> string \<Rightarrow> int \<Rightarrow> 'w \<Rightarrow> string res \<times> 'w" where
  "cp_TailLog p domain lines w =
     (case cp_ValidateDomain domain of
        Some err \<Rightarrow> (Inl (wrap (ProviderE ErrInvalidProviderConfig) err), w)
      | None \<Rightarrow>
     (case pvRunner p of
        None \<Rightarrow> (Inl errMissingSeam, w)
      | Some run \<Rightarrow>
          let lines = cp_clampTailLines lines; logDir = cp_GetLogPath p domain in
          if logDir = [] then (Inl [ProviderE ErrInvalidProviderConfig], w)
          else
            (case run (cp_tail_command logDir lines) w of
               ((stdout, stderr, code, Some err), w) \<Rightarrow> (Inl (fst err), w)
             | ((stdout, stderr, code, None), w) \<Rightarrow>
                 (Inr (if code \<noteq> 0 then combineTailOutput stdout stderr else stdout), w))))"

definition cp_CheckStatus :: "'w cp_Provider \<Rightarrow> 'w \<Rightarrow> ProviderStatus option \<times> goerr option \<times> 'w" where
  "cp_CheckStatus p w =
     (case pvReader p of
        None \<Rightarrow> (None, Some errMissingSeam, w)
      | Some r \<Rightarrow>
          let start = pvNow p w in
          (case ListDomains r w of
             (res, w') \<Rightarrow>
               let latencyMS = go_div (pvNow p w' - start) 1000000 in
               (case res of
                  Inl err \<Rightarrow>
                    (Some \<lparr>SSHConnected = False, CLIInstalled = False, LatencyMS = latencyMS\<rparr>,
                     Some (if errors_is err (UapiE ErrAuthenticationFailed) then [ProviderE ErrCLINotFound] else err), w')
                | Inr _ \<Rightarrow> (Some \<lparr>SSHConnected = True, CLIInstalled = True, LatencyMS = latencyMS\<rparr>, None, w'))))"

definition cp_ListSubdomains :: "'w cp_Provider \<Rightarrow> 'w \<Rightarrow> Subdomain list res \<times> 'w" where
  "cp_ListSubdomains p w =
     (case pvReader p of
        None \<Rightarrow> (Inl errMissingSeam, w)
      | Some r \<Rightarrow>
          (case ListPassengerApps r w of
             (Inl err, w) \<Rightarrow> (Inl err, w)
           | (Inr apps, w) \<Rightarrow>
               (Inr (map (\<lambda>app. \<lparr>Domain = paDomain app, SType = ''nodejs'', NodeVersion = []\<rparr>) apps), w)))"

definition deleteDomain :: "'w cp_Provider \<Rightarrow> 'w Mutator \<Rightarrow> string \<Rightarrow> 'w \<Rightarrow> goerr option \<times> 'w" where
  "deleteDomain p m domain w =
     (if prDomainKind (pvProps p) = ''subdomain'' then m (DeleteSubdomain domain) w else m (DeleteDomain domain) w)"

definition cp_RemoveSubdomain :: "'w cp_Provider \<Rightarrow> string \<Rightarrow> 'w \<Rightarrow> goerr option \<times> 'w" where
  "cp_RemoveSubdomain p domain w =
     (case cp_ValidateDomain domain of
        Some err \<Rightarrow> (Some (wrap (ProviderE ErrInvalidProviderConfig) err), w)
      | None \<Rightarrow>
     (case pvMutator p of
        None \<Rightarrow> (Some errMissingSeam, w)
      | Some m \<Rightarrow>
          (case m (DeletePassengerApp (renderTemplate p (prAppRootTemplate (pvProps p)) (resolveAppRoot domain))) w of
             (err, w) \<Rightarrow>
               (case mapResourceNotFound err of
                  Some e \<Rightarrow> (Some e, w)
                | None \<Rightarrow>
                    (case deleteDomain p m domain w of (err, w) \<Rightarrow> (mapResourceNotFound err, w))))))"

definition cp_RemoveDatabase :: "'w cp_Provider \<Rightarrow> string \<Rightarrow> string \<Rightarrow> 'w \<Rightarrow> goerr option \<times> 'w" where
  "cp_RemoveDatabase p dbType dbName w =
     (if dbType \<noteq> DatabaseMySQL then (Some [ProviderE ErrInvalidProviderConfig], w)
      else case cp_ValidateDBName dbName of
        Some err \<Rightarrow> (Some (wrap (ProviderE ErrInvalidProviderConfig) err), w)
      | None \<Rightarrow>
     (case pvMutator p of
        None \<Rightarrow> (Some errMissingSeam, w)
      | Some m \<Rightarrow>
          (case m (DeleteMysqlUser dbName) w of
             (err, w) \<Rightarrow>
               (case mapResourceNotFound err of
                  Some e \<Rightarrow> (Some e, w)
                | None \<Rightarrow>
                    (case m (DeleteMysqlDatabase dbName) w of (err, w) \<Rightarrow> (mapResourceNotFound err, w))))))"

definition cp_RemoveSSL :: "'w cp_Provider \<Rightarrow> string \<Rightarrow> 'w \<Rightarrow> goerr option \<times> 'w" where
  "cp_RemoveSSL p domain w =
     (case cp_ValidateDomain domain of
        Some err \<Rightarrow> (Some (wrap (ProviderE ErrInvalidProviderConfig) err), w)
      | None \<Rightarrow>
     (case pvMutator p of
        None \<Rightarrow> (Some errMissingSeam, w)
      | Some m \<Rightarrow> (case m (DeleteSSL domain) w of (err, w) \<Rightarrow> (mapResourceNotFound err, w))))"

definition cpanel_provider :: "'w cp_Provider \<Rightarrow> 'w HostingProvider" where
  "cpanel_provider p =
     \<lparr>Name = cp_providerName,
      CreateSubdomain = cp_CreateSubdomain p,
      SetupSSL = cp_SetupSSL p,
      CreateDatabase = cp_CreateDatabase p,
      RestartNodeApp = cp_RestartNodeApp p,
      GetDeployPath = cp_GetDeployPath p,
      GetLogPath = cp_GetLogPath p,
      TailLog = cp_TailLog p,
      CheckStatus = cp_CheckStatus p,
      ListSubdomains = cp_ListSubdomains p,
      RemoveSubdomain = cp_RemoveSubdomain p,
      RemoveDatabase = cp_RemoveDatabase p,
      RemoveSSL = cp_RemoveSSL p\<rparr>"

definition cpanel_validators :: PlanValidators where
  "cpanel_validators =
     \<lparr>ValidateDomain = Some cp_ValidateDomain,
      ValidateNodeVersion = Some cp_ValidateNodeVersion,
      ValidateDBName = Some cp_ValidateDBName\<rparr>"

definition cpanel_init ::
  "('w \<Rightarrow> int) \<Rightarrow> (int \<Rightarrow> 'w \<Rightarrow> goerr option \<times> 'w) \<Rightarrow> ('w \<Rightarrow> string res \<times> 'w) \<Rightarrow>
   'w cp_Provider factory gomap \<times> PlanValidators gomap \<Rightarrow>
   ('w cp_Provider factory gomap \<times> PlanValidators gomap) res" where
  "cpanel_init nowf wait random regs =
     (case Register cp_providerName (Some (cp_New nowf wait random)) (fst regs) of
        (Some e, _) \<Rightarrow> Inl e
      | (None, r) \<Rightarrow>
          (case RegisterPlanValidators cp_providerName cpanel_validators (snd regs) of
             (Some e, _) \<Rightarrow> Inl e
           | (None, v) \<Rightarrow> Inr (r, v)))"

section \<open>The deploy workflow (workflow.go)\<close>

definition WorkflowRestartCommand :: "string \<Rightarrow> string" where
  "WorkflowRestartCommand appPath = ''touch '' @ replace_all (trim_space appPath) [squote] [] @ ''/tmp/restart.txt''"

definition WorkflowRsyncExcludes :: "string list" where
  "WorkflowRsyncExcludes = [''tmp/'', ''.env'', ''node_modules/'', ''public_html/'', ''.htaccess'', ''cgi-bin/'']"

text \<open>The loop over both lists: \<open>seen\<close> is the set of entries already there.\<close>

fun add_excludes :: "string list \<Rightarrow> string list \<Rightarrow> string list" where
  "add_excludes seen [] = []"
| "add_excludes seen (x # xs) =
     (let e = trim_space x in
      if e = [] \<or> e \<in> set seen then add_excludes seen xs else e # add_excludes (e # seen) xs)"

definition PrepareWorkflowData :: "'w cp_Provider \<Rightarrow> string \<Rightarrow> string list \<Rightarrow> (string \<times> string \<times> string list) res" where
  "PrepareWorkflowData p domain extraExcludes =
     (case cp_ValidateDomain domain of
        Some vErr \<Rightarrow> Inl (wrap (WizardE ErrInvalidPlan) vErr)
      | None \<Rightarrow>
          let deployPath = cp_GetDeployPath p domain in
          if deployPath = [] then Inl [WizardE ErrInvalidPlan]
          else Inr (deployPath,
                    WorkflowRestartCommand (renderTemplate p (prAppRootTemplate (pvProps p)) (resolveAppRoot domain)),
                    add_excludes [] (WorkflowRsyncExcludes @ extraExcludes)))"

section \<open>Valid domains\<close>

definition valid_tld :: "string \<Rightarrow> bool" where
  "valid_tld t \<longleftrightarrow> 2 \<le> length t \<and> length t \<le> 24 \<and> list_all (\<lambda>c. CHR ''a'' \<le> c \<and> c \<le> CHR ''z'') t"

definition dotted :: "string list \<Rightarrow> string \<Rightarrow> string" where
  "dotted labels tld = concat (map (\<lambda>l. l @ ''.'') labels) @ tld"

lemma lang_cp_label: "l \<in> lang cp_label \<longleftrightarrow> valid_label l"
  using domainLabelPattern_iff [of l] unfolding domainLabelPattern_def cp_label_def [symmetric]
  by (subst (asm) match_whole) (simp_all add: cp_label_def)

lemma subset_image_map: "set ws \<subseteq> f ` A \<longleftrightarrow> (\<exists>ls. ws = map f ls \<and> set ls \<subseteq> A)"
proof (induction ws)
  case (Cons w ws)
  show ?case
  proof
    assume "set (w # ws) \<subseteq> f ` A"
    then obtain l ls where "w = f l" "l \<in> A" "ws = map f ls" "set ls \<subseteq> A" using Cons by auto
    then show "\<exists>ls. w # ws = map f ls \<and> set ls \<subseteq> A" by (intro exI [of _ "l # ls"]) simp
  next
    assume "\<exists>ls. w # ws = map f ls \<and> set ls \<subseteq> A"
    then show "set (w # ws) \<subseteq> f ` A" by (metis image_mono set_map)
  qed
qed simp

lemma lang_cp_domain:
  "u \<in> lang (between 1 4 (Seq cp_label (Cls (\<lambda>c. c = CHR ''.'')))) \<longleftrightarrow>
     (\<exists>ls. u = concat (map (\<lambda>l. l @ ''.'') ls) \<and> 1 \<le> length ls \<and> length ls \<le> 4 \<and> list_all valid_label ls)"
    (is "_ \<longleftrightarrow> ?R")
proof -
  have dot: "lang (Seq cp_label (Cls (\<lambda>c. c = CHR ''.''))) = (\<lambda>l. l @ ''.'') ` {l. valid_label l}"
    unfolding lang_Seq_snoc using lang_cp_label by auto
  have "u \<in> lang (between 1 4 (Seq cp_label (Cls (\<lambda>c. c = CHR ''.'')))) \<longleftrightarrow>
      (\<exists>ws. u = concat ws \<and> 1 \<le> length ws \<and> length ws \<le> 4 \<and> set ws \<subseteq> (\<lambda>l. l @ ''.'') ` {l. valid_label l})"
    by (subst lang_between) (simp_all add: dot [symmetric] del: lang.simps)
  also have "\<dots> \<longleftrightarrow> ?R"
    unfolding subset_image_map
  proof
    assume ?R
    then obtain ls where "u = concat (map (\<lambda>l. l @ ''.'') ls)" "1 \<le> length ls" "length ls \<le> 4" "set ls \<subseteq> {l. valid_label l}"
      by (auto simp: list_all_iff)
    then show "\<exists>ws. u = concat ws \<and> 1 \<le> length ws \<and> length ws \<le> 4 \<and>
        (\<exists>ls. ws = map (\<lambda>l. l @ ''.'') ls \<and> set ls \<subseteq> {l. valid_label l})"
      by (intro exI [of _ "map (\<lambda>l. l @ ''.'') ls"]) auto
  qed (auto simp: list_all_iff subset_iff)
  finally show ?thesis .
qed

lemma valid_label_no_dot: "valid_label l \<Longrightarrow> CHR ''.'' \<notin> set l"
  by (auto simp: valid_label_def list_all_iff lower_alnum_def is_digit_def less_eq_char_def)

lemma valid_tld_no_dot: "valid_tld t \<Longrightarrow> CHR ''.'' \<notin> set t"
  by (auto simp: valid_tld_def list_all_iff less_eq_char_def)

lemma split_dotted:
  "list_all valid_label labels \<Longrightarrow> valid_tld tld \<Longrightarrow> split_char CHR ''.'' (dotted labels tld) = labels @ [tld]"
  by (induction labels)
    (simp_all add: dotted_def split_char_none valid_tld_no_dot split_char_sep valid_label_no_dot)

lemma dotted_join: "dotted labels tld = join ''.'' (labels @ [tld])"
  by (induction labels) (simp_all add: dotted_def join_Cons)

lemma cp_domain_iff:
  "match_string cp_domainPattern d \<longleftrightarrow>
     (\<exists>labels tld. d = dotted labels tld \<and> 1 \<le> length labels \<and> length labels \<le> 4
        \<and> list_all valid_label labels \<and> valid_tld tld)"
proof -
  let ?L = "between 1 4 (Seq cp_label (Cls (\<lambda>c. c = CHR ''.'')))"
    and ?T = "between 2 24 (Cls (\<lambda>c. CHR ''a'' \<le> c \<and> c \<le> CHR ''z''))"
  have "plain (Seq ?L ?T)" by (simp add: cp_label_def)
  then have "match_string cp_domainPattern d \<longleftrightarrow> (\<exists>u v. d = u @ v \<and> u \<in> lang ?L \<and> v \<in> lang ?T)"
    unfolding cp_domainPattern_def by (subst match_whole) (assumption, auto)
  also have "\<dots> \<longleftrightarrow> (\<exists>u v. d = u @ v \<and> (\<exists>ls. u = concat (map (\<lambda>l. l @ ''.'') ls) \<and> 1 \<le> length ls
      \<and> length ls \<le> 4 \<and> list_all valid_label ls) \<and> valid_tld v)"
    unfolding lang_cp_domain by (simp add: lang_between_Cls valid_tld_def)
  also have "\<dots> \<longleftrightarrow> (\<exists>labels tld. d = dotted labels tld \<and> 1 \<le> length labels \<and> length labels \<le> 4
      \<and> list_all valid_label labels \<and> valid_tld tld)"
    unfolding dotted_def by blast
  finally show ?thesis .
qed

lemma cp_ValidateDomain_iff:
  "cp_ValidateDomain d = None \<longleftrightarrow>
     length d \<le> 253 \<and>
     (let parts = split_char CHR ''.'' d in
      2 \<le> length parts \<and> length parts \<le> 5 \<and> list_all valid_label (butlast parts) \<and> valid_tld (last parts))"
proof -
  have "match_string cp_domainPattern d \<longleftrightarrow>
     (let parts = split_char CHR ''.'' d in
      2 \<le> length parts \<and> length parts \<le> 5 \<and> list_all valid_label (butlast parts) \<and> valid_tld (last parts))"
    (is "_ \<longleftrightarrow> ?R")
  proof
    assume "match_string cp_domainPattern d"
    then show ?R unfolding cp_domain_iff by (auto simp: split_dotted Let_def)
  next
    assume r: ?R
    let ?parts = "split_char CHR ''.'' d"
    have "d = dotted (butlast ?parts) (last ?parts)"
      unfolding dotted_join by (simp add: join_split_char)
    then show "match_string cp_domainPattern d"
      unfolding cp_domain_iff using r by (intro exI conjI) (auto simp: Let_def)
  qed
  moreover have "d = [] \<Longrightarrow> \<not> match_string cp_domainPattern d"
    by (auto simp: cp_domain_iff dotted_def valid_tld_def)
  ultimately show ?thesis by (auto simp: cp_ValidateDomain_def cp_maxDomainLength_def)
qed

lemma cp_valid_chars:
  assumes "cp_ValidateDomain d = None"
  shows "list_all (\<lambda>c. lower_alnum c \<or> c = CHR ''-'' \<or> c = CHR ''.'') d"
proof -
  let ?parts = "split_char CHR ''.'' d"
  have ok: "list_all (\<lambda>c. lower_alnum c \<or> c = CHR ''-'') q" if "q \<in> set ?parts" for q
  proof -
    have "?parts = butlast ?parts @ [last ?parts]" by simp
    then have "q \<in> set (butlast ?parts) \<or> q = last ?parts" using that by (metis Un_iff set_append set_ConsD empty_iff list.set(1))
    then show ?thesis
      using assms unfolding cp_ValidateDomain_iff Let_def
      by (auto simp: list_all_iff valid_label_def valid_tld_def lower_alnum_def)
  qed
  show ?thesis using set_split_char [of _ d "CHR ''.''"] ok by (fastforce simp: list_all_iff)
qed

section \<open>What a method asks the panel\<close>

text \<open>A mutator that keeps the requests it was given and the answers, around any other one.\<close>

type_synonym log = "(request \<times> goerr option) list"

definition traced :: "'w Mutator \<Rightarrow> ('w \<times> log) Mutator" where
  "traced m r wl = (case m r (fst wl) of (e, w) \<Rightarrow> (e, (w, snd wl @ [(r, e)])))"

definition compensated :: "log \<Rightarrow> bool" where
  "compensated l \<longleftrightarrow>
     (\<forall>n. (CreateMysqlDatabase n, None) \<in> set l \<longrightarrow> (\<exists>a. (DeleteMysqlDatabase n, a) \<in> set l)) \<and>
     (\<forall>u pw. (CreateMysqlUser u pw, None) \<in> set l \<longrightarrow> (\<exists>a. (DeleteMysqlUser u, a) \<in> set l))"

lemma mapResourceExists_Some: "mapResourceExists (Some e) x \<noteq> None"
  by (simp add: mapResourceExists_def)

definition db_requests :: "string \<Rightarrow> string \<Rightarrow> request list" where
  "db_requests n pw = [CreateMysqlDatabase n, CreateMysqlUser n pw,
     SetMysqlPrivileges \<lparr>mpDatabase = n, mpUser = n, mpPrivileges = [''ALL PRIVILEGES'']\<rparr>]"

lemma cp_CreateDatabase_trace:
  assumes "pvMutator p = Some (traced m)"
    and "\<And>w l. snd (snd (pvRandom p (w, l))) = l"
    and "cp_CreateDatabase p dbType n (w, []) = (res, (w', l))"
  shows "(\<exists>u pw. res = Inr (u, pw) \<and> u = n \<and> l = map (\<lambda>r. (r, None)) (db_requests n pw))
         \<or> (\<exists>e. res = Inl e \<and> compensated l)"
proof (cases "dbType = DatabaseMySQL \<and> cp_ValidateDBName n = None")
  case False
  then show ?thesis using assms(1,3) by (auto simp: cp_CreateDatabase_def compensated_def split: option.splits if_splits)
next
  case True
  obtain g w1 l1 where g: "pvRandom p (w, []) = (g, (w1, l1))" by (metis surj_pair)
  have l1: "l1 = []" using assms(2) [of w "[]"] g by simp
  show ?thesis
  proof (cases g)
    case (Inl e)
    then show ?thesis
      using assms(1,3) True g l1 by (auto simp: cp_CreateDatabase_def generatePassword_def compensated_def)
  next
    case (Inr buf)
    then show ?thesis
      using assms(1,3) True g l1
      by (auto simp: cp_CreateDatabase_def generatePassword_def compensated_def traced_def db_requests_def
          split: prod.splits option.splits)
  qed
qed

text \<open>The requests of \<open>cp_CreateSubdomain\<close> for an addon domain.\<close>

definition addon_request :: "'w cp_Provider \<Rightarrow> string \<Rightarrow> request" where
  "addon_request p d = AddAddonDomain \<lparr>caNewDomain = d, caSubdomain = [],
     caDir = renderTemplate p (prDeployPathTemplate (pvProps p)) (resolveAppRoot d)\<rparr>"

definition app_path :: "'w cp_Provider \<Rightarrow> string \<Rightarrow> string" where
  "app_path p d = renderTemplate p (prAppRootTemplate (pvProps p)) (resolveAppRoot d)"

definition app_request :: "'w cp_Provider \<Rightarrow> string \<Rightarrow> request" where
  "app_request p d = CreatePassengerApp \<lparr>cpName = resolveAppRoot d, cpPath = app_path p d, cpDomain = d, cpBaseURI = ''/'',
     cpDeploymentMode = ''production'', cpEnvvars = [(''NODE_ENV'', ''production'')]\<rparr>"

lemma ValidatePlan_domain:
  assumes "ValidatePlan plan cpanel_validators = None"
  shows "cp_ValidateDomain (PlanDomain plan) = None" "cp_ValidateNodeVersion (PlanNodeVersion plan) = None"
  using assms
  by (auto simp: ValidatePlan_def cpanel_validators_def run_validator_def split: if_splits option.splits)

lemma cp_CreateSubdomain_half:
  assumes "cp_ValidateDomain d = None" "cp_ValidateNodeVersion v = None"
    and "pvMutator p = Some m" "prDomainKind (pvProps p) \<noteq> ''subdomain''"
    and "m (addon_request p d) w = (None, w1)" "m (app_request p d) w1 = (Some e, w2)"
  shows "cp_CreateSubdomain p d v w = (mapResourceExists (Some e) [ProviderE ErrSubdomainExists], w2)"
  using assms
  by (simp add: cp_CreateSubdomain_def addDomain_def addon_request_def app_request_def app_path_def Let_def)

text \<open>The removals as a reference: the requests in order, up to the first answer that is neither ok nor not-found.\<close>

fun run_removals :: "'w Mutator \<Rightarrow> request list \<Rightarrow> 'w \<Rightarrow> goerr option \<times> 'w" where
  "run_removals m [] w = (None, w)"
| "run_removals m (r # rs) w =
     (case m r w of
        (err, w') \<Rightarrow> (case mapResourceNotFound err of Some e \<Rightarrow> (Some e, w') | None \<Rightarrow> run_removals m rs w'))"

definition domain_removal :: "'w cp_Provider \<Rightarrow> string \<Rightarrow> request" where
  "domain_removal p d = (if prDomainKind (pvProps p) = ''subdomain'' then DeleteSubdomain d else DeleteDomain d)"

lemma traced_eval: "m r w = (a, w1) \<Longrightarrow> traced m r (w, l) = (a, (w1, l @ [(r, a)]))"
  by (simp add: traced_def)

lemma run_removals_traced:
  "run_removals (traced m) rs (w, l) = (e, (w', l')) \<Longrightarrow>
   \<exists>new. l' = l @ new \<and> map fst new = take (length new) rs
     \<and> (e = None \<longleftrightarrow> length new = length rs \<and> list_all (\<lambda>x. mapResourceNotFound (snd x) = None) new)
     \<and> list_all (\<lambda>x. mapResourceNotFound (snd x) = None) (butlast new)"
proof (induction rs arbitrary: w l)
  case (Cons r rs)
  obtain a w1 where a: "m r w = (a, w1)" by fastforce
  show ?case
  proof (cases "mapResourceNotFound a")
    case None
    then have "run_removals (traced m) rs (w1, l @ [(r, a)]) = (e, (w', l'))"
      using Cons.prems by (simp add: traced_eval [where m = m, OF a])
    from Cons.IH [OF this] obtain new where "l' = (l @ [(r, a)]) @ new" "map fst new = take (length new) rs"
      "e = None \<longleftrightarrow> length new = length rs \<and> list_all (\<lambda>x. mapResourceNotFound (snd x) = None) new"
      "list_all (\<lambda>x. mapResourceNotFound (snd x) = None) (butlast new)" by blast
    then show ?thesis using None by (intro exI [of _ "(r, a) # new"]) auto
  next
    case (Some b)
    then show ?thesis using Cons.prems by (intro exI [of _ "[(r, a)]"]) (auto simp: traced_eval [where m = m, OF a])
  qed
qed simp

lemma removals:
  assumes "pvMutator p = Some m"
  shows "cp_ValidateDomain d = None \<Longrightarrow>
      cp_RemoveSubdomain p d w = run_removals m [DeletePassengerApp (app_path p d), domain_removal p d] w"
    and "cp_ValidateDBName n = None \<Longrightarrow>
      cp_RemoveDatabase p DatabaseMySQL n w = run_removals m [DeleteMysqlUser n, DeleteMysqlDatabase n] w"
    and "cp_ValidateDomain d = None \<Longrightarrow> cp_RemoveSSL p d w = run_removals m [DeleteSSL d] w"
  using assms
  by (simp_all add: cp_RemoveSubdomain_def cp_RemoveDatabase_def cp_RemoveSSL_def deleteDomain_def domain_removal_def
      app_path_def split: prod.splits option.splits)

section \<open>Paths and commands\<close>

lemma replace_all_skip:
  "hd old \<notin> set u \<Longrightarrow> old \<noteq> [] \<Longrightarrow> replace_all (u @ s) old new = u @ replace_all s old new"
  by (induction u) (auto simp: has_prefix_def neq_Nil_conv)

lemma render_default:
  assumes "CHR ''{'' \<notin> set (User (pvCfg p))"
  shows "renderTemplate p ''/home/{user}/nodejs/{app_root}'' r = ''/home/'' @ User (pvCfg p) @ ''/nodejs/'' @ r"
    and "renderTemplate p ''/home/{user}/nodejs/{app_root}/public'' r = ''/home/'' @ User (pvCfg p) @ ''/nodejs/'' @ r @ ''/public''"
    and "renderTemplate p ''/home/{user}/nodejs/{app_root}/logs'' r = ''/home/'' @ User (pvCfg p) @ ''/nodejs/'' @ r @ ''/logs''"
  using assms replace_all_skip [of "''{app_root}''" "User (pvCfg p)"]
  by (simp_all add: renderTemplate_def)

lemma resolveAppRoot_chars:
  assumes "cp_ValidateDomain d = None"
  shows "list_all (\<lambda>c. lower_alnum c \<or> c = CHR ''-'') (resolveAppRoot d)"
proof -
  have "CHR ''.'' \<notin> set (resolveAppRoot d)"
    unfolding resolveAppRoot_def by (rule replace_all_char_gone) simp
  moreover have "set (resolveAppRoot d) \<subseteq> set d \<union> {CHR ''-''}"
    unfolding resolveAppRoot_def using replace_all_subset [of d "''.''" "''-''"] by simp
  ultimately show ?thesis using cp_valid_chars [OF assms] by (auto simp: list_all_iff)
qed

lemma itoa_not_Nil: "itoa n \<noteq> []"
  by (simp add: itoa_def)

lemma itoa_plain: "list_all sh_plain (itoa n)"
proof -
  have "sh_plain c" if "is_digit c" for c
    using that by (auto simp: is_digit_def less_eq_char_def plain_simps)
  moreover have "sh_plain CHR ''-''" by (simp add: plain_simps)
  ultimately show ?thesis
    using nat_string_digits [of "nat n"] nat_string_digits [of "nat (- n)"] by (auto simp: itoa_def list_all_iff)
qed

text \<open>A panel behind the SSH transport on which the host has no certificate.\<close>

definition no_certificate :: "string \<Rightarrow> json" where
  "no_certificate host = JObj [(''result'', JObj [(''status'', JNum 0),
     (''errors'', JArr [JStr (''There is no SSL certificate installed for '' @ host)])])]"

definition bare_panel :: "string \<Rightarrow> 'w Mutator" where
  "bare_panel host = SSHMutator (\<lambda>_. ''1'') (\<lambda>_. Some (no_certificate host)) (\<lambda>_ w. (([], [], 0, None), w)) ''acct''"

lemma one_allowed: "MutationsAllowed ''1''"
proof -
  have "trim_space ''1'' = ''1''" by (rule trim_space_ascii) (auto simp: less_char_def)
  then show ?thesis by (simp add: MutationsAllowed_def)
qed

lemma classify_denied:
  "classifyMutationError (Some (uerr ErrModuleFunctionDenied)) = Some [UapiE ErrModuleFunctionDenied]"
  by (simp add: classifyMutationError_def uerr_def)

lemma itoa_0: "itoa 0 = ''0''"
  by code_simp

lemma bare_panel_DeleteSSL:
  assumes "trim_space host = host" "host \<noteq> []" "\<not> has_control host"
  shows "bare_panel host (DeleteSSL host) w =
    (let msg = ''There is no SSL certificate installed for '' @ host in
     if list_ex (contains (str_lower msg)) denied_phrases then (Some [UapiE ErrModuleFunctionDenied], w)
     else (classifyMutationError (Some (api_failure (''status=0 errors=['' @ msg @ '']''))), w))"
proof -
  have "entry_check True (DeleteSSL host) = None"
    using assms by (simp add: guardAndValidateValue_def mustNonEmpty_def mustNotControl_def)
  then show ?thesis
    by (simp add: bare_panel_def SSHMutator_def one_allowed sshmutator_call_def ssh_answer_def envelope_result_def
        json_envelope_def no_certificate_def jget_Cons to_lower_def lower_char_def isModuleDenied_def
        classify_denied itoa_0 Let_def in_int64_def)
qed

text \<open>
  A panel over HTTPS that creates the database and then answers the first request with 503: its databases and the
  number of requests it has seen.
\<close>

definition flaky_panel :: "http_req \<Rightarrow> string list \<times> nat \<Rightarrow> http_out \<times> string list \<times> nat" where
  "flaky_panel rq s =
     (case map_of (uQuery (rqURL rq)) ''name'' of
        Some [n] \<Rightarrow>
          if n \<in> set (fst s) then (Response 200 ''taken'', (fst s, Suc (snd s)))
          else (if snd s = 0 then Response 503 [] else Response 200 ''ok'', (n # fst s, Suc (snd s)))
      | _ \<Rightarrow> (Response 200 ''ok'', (fst s, Suc (snd s))))"

definition flaky_answer :: "string \<Rightarrow> json option" where
  "flaky_answer body =
     (if body = ''taken''
      then Some (JObj [(''result'', JObj [(''status'', JNum 0), (''errors'', JArr [JStr ''The database already exists.''])])])
      else if body = ''ok'' then Some (JObj [(''result'', JObj [(''status'', JNum 1)])])
      else None)"

definition flaky_transport :: "(string list \<times> nat) transport" where
  "flaky_transport = \<lparr>tDo = flaky_panel, tBase = \<lparr>uScheme = ''https'', uHost = ''h'', uPath = [], uQuery = []\<rparr>,
     tUser = ''acct'', tToken = ''t'', tSleep = (\<lambda>_ s. (None, s)), backoffFor = backoff\<rparr>"

definition flaky_mutator :: "(string list \<times> nat) Mutator" where
  "flaky_mutator = HTTPSMutator (\<lambda>_. ''1'') flaky_answer ''1.0'' flaky_transport"

lemma flaky_first: "singleCall flaky_answer ''1.0'' flaky_transport
    (callURL flaky_transport ''Mysql'' ''create_database'' [(''name'', ''shop'')]) ([], 0)
    = (Inl (uerr ErrServerError), ([''shop''], 1))"
  by (simp add: singleCall_def flaky_transport_def flaky_panel_def http_request_def callURL_def mput_def)

lemma flaky_second: "singleCall flaky_answer ''1.0'' flaky_transport
    (callURL flaky_transport ''Mysql'' ''create_database'' [(''name'', ''shop'')]) ([''shop''], 1)
    = (Inl (api_failure ''status=0 errors=[The database already exists.]''), ([''shop''], 2))"
  by (simp add: singleCall_def flaky_transport_def flaky_panel_def http_request_def callURL_def mput_def
      flaky_answer_def json_envelope_def jget_Cons to_lower_def lower_char_def envelope_result_def itoa_0 in_int64_def
      isModuleDenied_def denied_phrases_def str_lower_def has_prefix_def maxBodyBytes_def)

lemma flaky_create: "flaky_mutator (CreateMysqlDatabase ''shop'') ([], 0)
    = (Some [UapiE ErrResourceExists, UapiE ErrAPIResultFailure], ([''shop''], 2))"
proof -
  let ?u = "callURL flaky_transport ''Mysql'' ''create_database'' [(''name'', ''shop'')]"
    and ?taken = "api_failure ''status=0 errors=[The database already exists.]''"
  have trim: "trim_space ''shop'' = ''shop''" by (rule trim_space_ascii) (auto simp: less_char_def)
  have "sleepWithCtx flaky_transport (backoffFor flaky_transport 1) ([''shop''], 1) = (None, ([''shop''], 1))"
    by (simp add: sleepWithCtx_def flaky_transport_def)
  then have "retry_loop flaky_answer ''1.0'' flaky_transport ?u 1 (uerr ErrServerError) ([''shop''], 1)
      = (Inl ?taken, ([''shop''], 2))"
    by (subst retry_step [where s = None and ?w1.0 = "([''shop''], 1)", OF _ _ flaky_second])
      (simp_all add: maxRetries_def shouldRetry_def api_failure_def)
  then have "callWithArgs flaky_answer ''1.0'' flaky_transport ''Mysql'' ''create_database'' [(''name'', ''shop'')] ([], 0)
      = (Inl ?taken, ([''shop''], 2))"
    unfolding callWithArgs_def
    by (subst retry_step [where s = None and ?w1.0 = "([], 0)", OF _ _ flaky_first])
      (simp_all add: maxRetries_def shouldRetry_def uerr_def)
  moreover have "classifyMutationError (Some ?taken) = Some [UapiE ErrResourceExists, UapiE ErrAPIResultFailure]"
    by code_simp
  moreover have "entry_check True (CreateMysqlDatabase ''shop'') = None"
    by (simp add: guardAndValidateValue_def mustNonEmpty_def mustNotControl_def trim less_char_def)
  ultimately show ?thesis
    by (simp add: flaky_mutator_def HTTPSMutator_def one_allowed)
qed

section \<open>Properties\<close>

text \<open>
  The domains the adapter accepts, exactly: at most 253 bytes, split at the dots into one to four labels of the
  small.pl shape followed by a top-level domain of 2 to 24 lower-case letters.
\<close>

theorem cp_domain_exact:
  "cp_ValidateDomain d = None \<longleftrightarrow>
     length d \<le> 253 \<and>
     (let parts = split_char CHR ''.'' d in
      2 \<le> length parts \<and> length parts \<le> 5 \<and> list_all valid_label (butlast parts) \<and> valid_tld (last parts))"
  by (rule cp_ValidateDomain_iff)

text \<open>
  C20. \<open>CreateDatabase\<close> is all or nothing in what it asks: when it succeeds it has sent the three requests, all answered
  without error, and returns the name and the password it sent; when it fails, for every database and every user
  whose creation the panel confirmed it has also sent the deletion. This holds for every panel.
\<close>

theorem cp_database_compensated:
  assumes "\<And>w l. snd (snd (pvRandom p (w, l))) = l"
    and "cp_CreateDatabase (p\<lparr>pvMutator := Some (traced m)\<rparr>) dbType n (w, []) = (res, (w', l))"
  shows "case res of
           Inr (u, pw) \<Rightarrow> u = n \<and> l = map (\<lambda>r. (r, None)) (db_requests n pw)
         | Inl e \<Rightarrow> compensated l"
proof -
  have "pvMutator (p\<lparr>pvMutator := Some (traced m)\<rparr>) = Some (traced m)"
    and "\<And>w l. snd (snd (pvRandom (p\<lparr>pvMutator := Some (traced m)\<rparr>) (w, l))) = l"
    using assms(1) by simp_all
  from cp_CreateDatabase_trace [OF this assms(2)] show ?thesis by auto
qed

text \<open>
  Removing is ordered and idempotent: each of the three removals is the run of its requests in order (application
  before domain, user before database) that goes on over \<open>ErrResourceNotFound\<close> and stops at any other error.
  So on a panel that knows none of the resources it sends every request and reports success.
\<close>

theorem cp_removals_in_order:
  assumes "cp_ValidateDomain d = None" and "cp_ValidateDBName n = None" and "pvMutator p = Some m"
  shows "cp_RemoveSubdomain p d w = run_removals m [DeletePassengerApp (app_path p d), domain_removal p d] w
    \<and> cp_RemoveDatabase p DatabaseMySQL n w = run_removals m [DeleteMysqlUser n, DeleteMysqlDatabase n] w
    \<and> cp_RemoveSSL p d w = run_removals m [DeleteSSL d] w"
  using removals [OF assms(3)] assms(1,2) by blast

text \<open>
  The domain that stays behind: when the panel adds the addon domain and then refuses the Passenger application,
  \<open>Execute\<close> on the cPanel adapter reports the step as failed with the cleanup stack unchanged, and no removal was
  sent, so neither the adapter nor the wizard will remove the domain.
\<close>

theorem cp_domain_orphaned:
  assumes "map_of registry cp_providerName = Some cpanel_validators"
    and "ValidatePlan plan cpanel_validators = None"
    and "prDomainKind (pvProps p) = ''addon''"
    and "m (addon_request p (PlanDomain plan)) w = (None, w1)"
    and "m (app_request p (PlanDomain plan)) w1 = (Some e, w2)"
  shows "\<exists>rep er. Execute nt registry (Some (cpanel_provider (p\<lparr>pvMutator := Some (traced m)\<rparr>))) plan (Some s) (c, (w, l))
    = ((Some rep, Some (ExecutionFailed ''subdomain'' er)), Some s,
       (c, (w2, l @ [(addon_request p (PlanDomain plan), None), (app_request p (PlanDomain plan), Some e)])))"
proof -
  let ?p = "p\<lparr>pvMutator := Some (traced m)\<rparr>" and ?d = "PlanDomain plan"
  let ?l1 = "l @ [(addon_request p ?d, None)]"
  have req: "addon_request ?p ?d = addon_request p ?d" "app_request ?p ?d = app_request p ?d"
    by (simp_all add: addon_request_def app_request_def app_path_def renderTemplate_def)
  have "cp_CreateSubdomain ?p ?d (PlanNodeVersion plan) (w, l)
      = (mapResourceExists (Some e) [ProviderE ErrSubdomainExists], (w2, ?l1 @ [(app_request p ?d, Some e)]))"
    by (rule cp_CreateSubdomain_half [where ?w1.0 = "(w1, ?l1)" and m = "traced m"])
      (simp_all add: ValidatePlan_domain [OF assms(2)] assms(3) req traced_eval [where m = m, OF assms(4)]
        traced_eval [where m = m, OF assms(5)])
  moreover obtain er where "mapResourceExists (Some e) [ProviderE ErrSubdomainExists] = Some er"
    using mapResourceExists_Some by blast
  moreover have "trim_space ''cpanel'' = ''cpanel''"
    by (rule trim_space_ascii) (auto simp: less_char_def)
  then have "PlanValidatorsFor registry (Name (cpanel_provider ?p)) = Inr cpanel_validators"
    using assms(1) by (simp add: PlanValidatorsFor_def cpanel_provider_def cp_providerName_def)
  ultimately show ?thesis
    using assms(2)
    by (simp add: Execute_def execute_subdomain_def some_stack_def cpanel_provider_def Let_def)
qed

text \<open>
  With the default templates every path of an application lies under the account's \<open>nodejs\<close> directory, its last part
  made of lower-case letters, digits and dashes only; and a shell reads the log command as \<open>tail\<close> on the two files,
  as long as the account name has no character that is special to the shell.
\<close>

theorem cp_tail_words:
  assumes "cp_ValidateDomain d = None" and "pvProps p = defaultProperties"
    and "list_all sh_plain (User (pvCfg p))"
  shows "let dir = ''/home/'' @ User (pvCfg p) @ ''/nodejs/'' @ resolveAppRoot d @ ''/logs'' in
    cp_GetLogPath p d = dir
    \<and> list_all (\<lambda>c. lower_alnum c \<or> c = CHR ''-'') (resolveAppRoot d)
    \<and> sh_words (cp_tail_command (cp_GetLogPath p d) n)
        = Some [''tail'', ''-n'', itoa n, ''--'', dir @ ''/app.log'', dir @ ''/error.log'']"
proof -
  let ?dir = "''/home/'' @ User (pvCfg p) @ ''/nodejs/'' @ resolveAppRoot d @ ''/logs''"
  have "\<not> sh_plain CHR ''{''" by (simp add: plain_simps)
  then have "CHR ''{'' \<notin> set (User (pvCfg p))" using assms(3) by (auto simp: list_all_iff)
  then have path: "cp_GetLogPath p d = ?dir"
    using assms(1,2) render_default(3) by (simp add: cp_GetLogPath_def defaultProperties_def)
  note root = resolveAppRoot_chars [OF assms(1)]
  have "sh_plain c" if "lower_alnum c \<or> c = CHR ''-''" for c
    using that by (auto simp: lower_alnum_def is_digit_def less_eq_char_def plain_simps)
  then have "list_all sh_plain (resolveAppRoot d)" using root by (auto simp: list_all_iff)
  then have dir: "list_all sh_plain ?dir" using assms(3) by (simp add: plain_simps)
  have num: "list_all sh_plain (itoa n)" "itoa n \<noteq> []"
    by (rule itoa_plain, rule itoa_not_Nil)
  let ?ws = "[''tail'', ''-n'', itoa n, ''--'', ?dir @ ''/app.log'', ?dir @ ''/error.log'']"
  have "list_all (\<lambda>(t, w). reads_as t w) (map (\<lambda>w. (w, w)) ?ws)"
    using dir num by (simp add: reads_plain plain_simps)
  from reads_join [OF this] have "sh_read False None (cp_tail_command ?dir n) = Some ?ws"
    by (simp add: cp_tail_command_def)
  then have "sh_words (cp_tail_command ?dir n) = Some ?ws" by (simp add: sh_words_def)
  then show ?thesis unfolding Let_def path using root by blast
qed

text \<open>
  Two domains, one application: \<open>shop.example.com\<close> and \<open>shop-example.com\<close> are both valid and get the same application
  root, so removing the second first deletes the application of the first.
\<close>

theorem cp_app_root_collision:
  "cp_ValidateDomain ''shop.example.com'' = None \<and> cp_ValidateDomain ''shop-example.com'' = None
   \<and> (\<exists>a rest. snd (snd (cp_RemoveSubdomain (p\<lparr>pvMutator := Some (traced m)\<rparr>) ''shop-example.com'' (w, [])))
        = (DeletePassengerApp (app_path p ''shop.example.com''), a) # rest)"
proof -
  have valid: "cp_ValidateDomain ''shop.example.com'' = None" "cp_ValidateDomain ''shop-example.com'' = None"
    by (simp_all add: cp_ValidateDomain_iff valid_label_def valid_tld_def lower_alnum_def is_digit_def less_eq_char_def)
  let ?p = "p\<lparr>pvMutator := Some (traced m)\<rparr>"
  have same: "app_path ?p ''shop-example.com'' = app_path p ''shop.example.com''"
    by (simp add: app_path_def resolveAppRoot_def renderTemplate_def)
  obtain e w' l' where run: "run_removals (traced m)
      [DeletePassengerApp (app_path p ''shop.example.com''), domain_removal ?p ''shop-example.com''] (w, []) = (e, (w', l'))"
    by (metis surj_pair)
  then have "cp_RemoveSubdomain ?p ''shop-example.com'' (w, []) = (e, (w', l'))"
    using removals(1) [of ?p "traced m" "''shop-example.com''" "(w, [])"] valid(2) same by simp
  moreover obtain a w1 where "m (DeletePassengerApp (app_path p ''shop.example.com'')) w = (a, w1)" by fastforce
  then have "\<exists>rest. l' = (DeletePassengerApp (app_path p ''shop.example.com''), a) # rest"
    using run by (auto simp: traced_def split: option.splits prod.splits)
  ultimately show ?thesis using valid by auto
qed

text \<open>
  A removal that can never succeed: on a panel without a certificate for the host, \<open>RemoveSSL\<close> returns no error for
  \<open>shop.example.com\<close>, as the rollback needs it; for \<open>disabled.example.com\<close> the same answer, which quotes the host,
  is taken for a disabled module, and the removal fails every time.
\<close>

theorem cp_denied_by_name:
  "cp_RemoveSSL (p\<lparr>pvMutator := Some (bare_panel ''shop.example.com'')\<rparr>) ''shop.example.com'' w = (None, w)
   \<and> cp_RemoveSSL (p\<lparr>pvMutator := Some (bare_panel ''disabled.example.com'')\<rparr>) ''disabled.example.com'' w
       = (Some [UapiE ErrModuleFunctionDenied], w)"
proof -
  have valid: "cp_ValidateDomain ''shop.example.com'' = None" "cp_ValidateDomain ''disabled.example.com'' = None"
    by (simp_all add: cp_ValidateDomain_iff valid_label_def valid_tld_def lower_alnum_def is_digit_def less_eq_char_def)
  have trim: "trim_space ''shop.example.com'' = ''shop.example.com''"
      "trim_space ''disabled.example.com'' = ''disabled.example.com''"
    by (rule trim_space_ascii; auto simp: less_char_def)+
  have ctl: "\<not> has_control ''shop.example.com''" "\<not> has_control ''disabled.example.com''"
    by code_simp+
  have "\<not> list_ex (contains (str_lower ''There is no SSL certificate installed for shop.example.com'')) denied_phrases"
    "list_ex (contains (str_lower ''There is no SSL certificate installed for disabled.example.com'')) denied_phrases"
    by code_simp+
  moreover have "classifyMutationError (Some (api_failure ''status=0 errors=[There is no SSL certificate installed for shop.example.com]''))
      = Some [UapiE ErrResourceNotFound, UapiE ErrAPIResultFailure]"
    by code_simp
  ultimately show ?thesis
    using valid bare_panel_DeleteSSL [OF trim(1) _ ctl(1), of w] bare_panel_DeleteSSL [OF trim(2) _ ctl(2), of w]
    by (simp add: cp_RemoveSSL_def mapResourceNotFound_def errors_is_def)
qed

text \<open>
  A creation that is retried hides itself: when the panel creates the database but answers with a server error, the
  transport sends the request again, the panel answers that the database exists, and \<open>CreateDatabase\<close> reports the
  name as taken. The database it created stays, and nothing is sent to delete it.
\<close>

theorem cp_retried_create_taken:
  "cp_CreateDatabase \<lparr>pvCfg = c, pvProps = defaultProperties, pvReader = None, pvMutator = Some flaky_mutator,
     pvRunner = None, pvNow = (\<lambda>_. 0), pvWait = (\<lambda>_ s. (None, s)), pvRandom = (\<lambda>s. (Inr (replicate 24 CHR ''x''), s))\<rparr>
     DatabaseMySQL ''shop'' ([], 0)
   = (Inl [ProviderE ErrDBNameTaken], ([''shop''], 2))"
proof -
  have "cp_ValidateDBName ''shop'' = None"
    by (simp add: cp_ValidateDBName_def cp_dbNamePattern_def match_whole_between lower_alnum_def is_digit_def less_eq_char_def)
  then show ?thesis
    by (simp add: cp_CreateDatabase_def generatePassword_def flaky_create mapResourceExists_def errors_is_def)
qed

section \<open>Witnesses\<close>

definition example_config :: ProviderConfig where
  "example_config = \<lparr>Alias = ''a'', PType = ''cpanel'', Host = ''h'', Port = 22, User = ''acct'', Props = Some []\<rparr>"

text \<open>A panel that refuses the application and takes every other request; the random source does not touch it.\<close>

definition refusing_panel :: "unit Mutator" where
  "refusing_panel r w = (case r of CreatePassengerApp _ \<Rightarrow> (Some [UapiE ErrAPIResultFailure], w) | _ \<Rightarrow> (None, w))"

definition example_provider :: "'w Mutator option \<Rightarrow> 'w cp_Provider" where
  "example_provider m = \<lparr>pvCfg = example_config, pvProps = defaultProperties, pvReader = None, pvMutator = m,
     pvRunner = None, pvNow = (\<lambda>_. 0), pvWait = (\<lambda>_ s. (None, s)), pvRandom = (\<lambda>s. (Inr (replicate 24 CHR ''x''), s))\<rparr>"

definition example_plan :: ProvisionPlan where
  "example_plan = \<lparr>ProfileAlias = ''a'', PlanStack = ''static'', PlanDomain = ''shop.example.com'',
     PlanNodeVersion = ''22'', DBKind = [], DBName = []\<rparr>"

lemma example_domain: "cp_ValidateDomain ''shop.example.com'' = None"
  by (simp add: cp_ValidateDomain_iff valid_label_def valid_tld_def lower_alnum_def is_digit_def less_eq_char_def)

lemma example_db: "cp_ValidateDBName ''shop'' = None"
  by (simp add: cp_ValidateDBName_def cp_dbNamePattern_def match_whole_between lower_alnum_def is_digit_def less_eq_char_def)

lemma cp_example_plan_valid: "ValidatePlan example_plan cpanel_validators = None"
proof -
  have "cp_ValidateNodeVersion ''22'' = None"
    by (simp add: cp_ValidateNodeVersion_def cp_nodeVersionPattern_def match_whole_between version_char_def is_digit_def
        less_eq_char_def)
  then show ?thesis
    by (simp add: ValidatePlan_def example_plan_def cpanel_validators_def IsComplete_def IsValidStack_def
        SupportedStacks_def StackStatic_def run_validator_def example_domain)
qed

theorem cp_database_compensated_witness:
  "case fst (cp_CreateDatabase (example_provider (Some (traced refusing_panel))) DatabaseMySQL ''shop'' ((), [])) of
     Inr (u, pw) \<Rightarrow> u = ''shop'' \<and> snd (snd (cp_CreateDatabase (example_provider (Some (traced refusing_panel)))
        DatabaseMySQL ''shop'' ((), []))) = map (\<lambda>r. (r, None)) (db_requests ''shop'' pw)
   | Inl e \<Rightarrow> compensated (snd (snd (cp_CreateDatabase (example_provider (Some (traced refusing_panel)))
        DatabaseMySQL ''shop'' ((), []))))"
  using cp_database_compensated [of "example_provider None" refusing_panel DatabaseMySQL "''shop''" "()"]
  by (cases "cp_CreateDatabase (example_provider (Some (traced refusing_panel))) DatabaseMySQL ''shop'' ((), [])")
    (auto simp: example_provider_def split: sum.splits)

theorem cp_removals_in_order_witness:
  "cp_RemoveSSL (example_provider (Some refusing_panel)) ''shop.example.com'' ()
     = run_removals refusing_panel [DeleteSSL ''shop.example.com''] ()"
  using cp_removals_in_order [OF example_domain example_db, of "example_provider (Some refusing_panel)" refusing_panel "()"]
  by (simp add: example_provider_def)

theorem cp_domain_orphaned_witness:
  "\<exists>rep er. Execute (\<lambda>_. []) [(''cpanel'', cpanel_validators)]
      (Some (cpanel_provider (example_provider (Some (traced refusing_panel))))) example_plan
      (Some (NewStack None [])) (None, ((), []))
    = ((Some rep, Some (ExecutionFailed ''subdomain'' er)), Some (NewStack None []),
       (None, ((), [(addon_request (example_provider None :: (unit \<times> log) cp_Provider) ''shop.example.com'', None),
          (app_request (example_provider None :: (unit \<times> log) cp_Provider) ''shop.example.com'', Some [UapiE ErrAPIResultFailure])])))"
  using cp_domain_orphaned [of "[(''cpanel'', cpanel_validators)]" example_plan "example_provider None" refusing_panel "()" "()"
      "[UapiE ErrAPIResultFailure]" "()" "\<lambda>_. []" "NewStack None []" None "[]"] cp_example_plan_valid
  by (simp add: example_provider_def example_plan_def cp_providerName_def defaultProperties_def refusing_panel_def
      addon_request_def app_request_def)

theorem cp_tail_words_witness:
  "sh_words (cp_tail_command (cp_GetLogPath (example_provider None :: unit cp_Provider) ''shop.example.com'') 5)
    = Some [''tail'', ''-n'', ''5'', ''--'', ''/home/acct/nodejs/shop-example-com/logs/app.log'',
            ''/home/acct/nodejs/shop-example-com/logs/error.log'']"
proof -
  have "list_all sh_plain (User (pvCfg (example_provider None :: unit cp_Provider)))"
    by (simp add: example_provider_def example_config_def plain_simps)
  moreover have "itoa 5 = ''5''" by code_simp
  ultimately show ?thesis
    using cp_tail_words [OF example_domain, of "example_provider None :: unit cp_Provider" 5]
    by (auto simp: example_provider_def example_config_def resolveAppRoot_def Let_def)
qed

end
