(* ===== verification/Log_Redact.thy ===== *)
theory Log_Redact
  imports Regex
begin

text \<open>
  The redaction of log text (\<open>internal/log/redact.go\<close>): a list of patterns with replacement templates,
  applied one after the other. The main result is that no token of the four self-contained kinds (GitHub
  classic and fine-grained, AWS access key ids, \<open>sk-\<close> keys) is left in the output, whatever the input: each
  such rule removes its tokens, and no later rule can put one together again.
\<close>

section \<open>Model\<close>

definition replacement :: string where "replacement = ''[REDACTED]''"

definition red_space :: "char \<Rightarrow> bool" where
  "red_space c \<longleftrightarrow> c \<in> set [CHR 0x09, CHR 0x0A, CHR 0x0C, CHR 0x0D, CHR 0x20]"

definition red_digit :: "char \<Rightarrow> bool" where "red_digit c \<longleftrightarrow> CHR ''0'' \<le> c \<and> c \<le> CHR ''9''"
definition red_upper :: "char \<Rightarrow> bool" where "red_upper c \<longleftrightarrow> CHR ''A'' \<le> c \<and> c \<le> CHR ''Z''"
definition red_alnum :: "char \<Rightarrow> bool" where "red_alnum c \<longleftrightarrow> is_letter c \<or> red_digit c"
definition red_word :: "char \<Rightarrow> bool" where "red_word c \<longleftrightarrow> red_alnum c \<or> c = CHR ''_''"

definition sp :: re where "sp = Cls red_space"
definition nonsp :: re where "nonsp = Cls (\<lambda>c. \<not> red_space c)"

record redactionRule =
  pattern :: re
  template :: "part list"

definition rule :: "re \<Rightarrow> part list \<Rightarrow> redactionRule" where
  "rule p t = \<lparr>pattern = p, template = t\<rparr>"

text \<open>The alternatives \<open>\r?\n\<close> inside the GitHub tokens catch tokens wrapped over lines.\<close>

definition broken :: "(char \<Rightarrow> bool) \<Rightarrow> re" where
  "broken P = Alt (Cls P) (Seq (opt (Cls (\<lambda>c. c = CHR 0x0D))) (Cls (\<lambda>c. c = CHR 0x0A)))"

definition privateKeyRe :: re where
  "privateKeyRe = seqs [lit ''-----BEGIN '', Star (Cls (\<lambda>c. red_upper c \<or> c = CHR '' '')), lit ''PRIVATE KEY-----'',
     LStar (Cls (\<lambda>_. True)), lit ''-----END '', Star (Cls (\<lambda>c. red_upper c \<or> c = CHR '' '')), lit ''PRIVATE KEY-----'']"

definition bearerRe :: re where
  "bearerRe = Seq (Grp 1 (seqs [ci_lit ''Authorization:'', Star sp, ci_lit ''Bearer'', plus sp])) (plus nonsp)"

definition cpanelRe :: re where
  "cpanelRe = Seq (Grp 1 (seqs [ci_lit ''Authorization:'', Star sp, ci_lit ''cpanel'', plus sp,
     plus (Cls (\<lambda>c. c \<noteq> CHR '':'' \<and> \<not> red_space c)), lit '':''])) (plus nonsp)"

definition basicRe :: re where
  "basicRe = Seq (Grp 1 (seqs [ci_lit ''Authorization:'', Star sp, ci_lit ''Basic'', plus sp])) (plus nonsp)"

definition urlRe :: re where
  "urlRe = seqs [lit ''://'', Grp 1 (plus (Cls (\<lambda>c. c \<notin> set '':/@'' \<and> \<not> red_space c))), lit '':'',
     Grp 2 (plus (Cls (\<lambda>c. c \<notin> set ''@/'' \<and> \<not> red_space c))), lit ''@'']"

definition jsonRe :: re where
  "jsonRe = seqs [Grp 1 (seqs [lit [dquote],
       alts [ci_lit ''password'', ci_lit ''passwd'', ci_lit ''token'', ci_lit ''secret'', ci_lit ''api_key'', ci_lit ''key''],
       lit [dquote], Star sp, lit '':'', Star sp, lit [dquote]]),
     Star (Cls (\<lambda>c. c \<noteq> dquote)), Grp 2 (lit [dquote])]"

definition envRe :: re where
  "envRe = seqs [BeginLine, Grp 1 (seqs [Star (Cls red_word),
       alts [lit ''PASSWORD'', lit ''PASSWD'', lit ''SECRET'', lit ''TOKEN'', lit ''API_KEY'', lit ''PRIVATE_KEY'', lit ''KEY''],
       Star (Cls red_word), lit ''='']),
     plus (Cls (\<lambda>c. c \<noteq> CHR 0x0A)), EndLine]"

definition ghRe :: re where
  "ghRe = seqs [lit ''gh'', Cls (\<lambda>c. c \<in> set ''opusr''), lit ''_'', between 36 255 (broken red_alnum)]"

definition patRe :: re where
  "patRe = Seq (lit ''github_pat_'') (between 20 255 (broken red_word))"

definition akiaRe :: re where
  "akiaRe = Seq (lit ''AKIA'') (times 16 (Cls (\<lambda>c. red_digit c \<or> red_upper c)))"

definition skRe :: re where
  "skRe = Seq (lit ''sk-'') (at_least 16 (Cls (\<lambda>c. red_word c \<or> c = CHR ''-'')))"

definition rsaRe :: re where
  "rsaRe = seqs [lit ''ssh-rsa'', plus sp, at_least 40 (Cls (\<lambda>c. red_alnum c \<or> c \<in> set ''+/=''))]"

definition jwtRe :: re where
  "jwtRe = (let b = Cls (\<lambda>c. red_word c \<or> c = CHR ''-'')
     in seqs [WordB, lit ''eyJ'', at_least 10 b, lit ''.eyJ'', at_least 10 b, lit ''.'', at_least 20 b, WordB])"

definition dash_opt :: re where "dash_opt = opt (Cls (\<lambda>c. c = CHR ''_'' \<or> c = CHR ''-''))"

definition kvRe :: re where
  "kvRe = seqs [WordB,
     Grp 1 (alts [ci_lit ''password'', ci_lit ''passwd'', ci_lit ''token'', ci_lit ''secret'',
       seqs [ci_lit ''api'', dash_opt, ci_lit ''key''], seqs [ci_lit ''access'', dash_opt, ci_lit ''key''],
       seqs [ci_lit ''login'', dash_opt, ci_lit ''key'']]),
     Star sp, Cls (\<lambda>c. c = CHR '':'' \<or> c = CHR ''=''), Star sp,
     Grp 2 (at_least 4 (Cls (\<lambda>c. c \<notin> {CHR ''&'', dquote, CHR 0x27, CHR '',''} \<and> \<not> red_space c)))]"

definition mysqlRe :: re where
  "mysqlRe = seqs [WordB, Grp 1 (alts [ci_lit ''mysql'', ci_lit ''mysqldump'', ci_lit ''psql'']), WordB,
     Grp 2 (LStar (Cls (\<lambda>c. c \<noteq> CHR 0x0A))), sp, ci_lit ''-p'',
     Grp 3 (Seq (Cls (\<lambda>c. c \<noteq> CHR ''-'' \<and> \<not> red_space c)) (Star nonsp))]"

definition userRe :: re where
  "userRe = Seq (Grp 1 (seqs [ci_lit ''--user'', plus sp, opt (Cls (\<lambda>c. c = CHR 0x27)),
       plus (Cls (\<lambda>c. c \<noteq> CHR 0x27 \<and> c \<noteq> CHR '':'' \<and> \<not> red_space c)), lit '':'']))
     (plus (Cls (\<lambda>c. c \<noteq> CHR 0x27 \<and> \<not> red_space c)))"

definition redactionRules :: "redactionRule list" where
  "redactionRules =
    [rule privateKeyRe [Text replacement],
     rule bearerRe [Ref 1, Text replacement],
     rule cpanelRe [Ref 1, Text replacement],
     rule basicRe [Ref 1, Text replacement],
     rule urlRe [Text ''://'', Ref 1, Text '':'', Text replacement, Text ''@''],
     rule jsonRe [Ref 1, Text replacement, Ref 2],
     rule envRe [Ref 1, Text replacement],
     rule ghRe [Text replacement],
     rule patRe [Text replacement],
     rule akiaRe [Text replacement],
     rule skRe [Text replacement],
     rule rsaRe [Text replacement],
     rule jwtRe [Text replacement],
     rule kvRe [Ref 1, Text ''='', Text replacement],
     rule mysqlRe [Ref 1, Ref 2, Text '' -p'', Text replacement],
     rule userRe [Ref 1, Text replacement]]"

definition apply_rule :: "redactionRule \<Rightarrow> string \<Rightarrow> string" where
  "apply_rule ru s = replace_template (pattern ru) (template ru) None s"

definition Redact :: "string \<Rightarrow> string" where
  "Redact input = fold apply_rule redactionRules input"

section \<open>Words in a text\<close>

text \<open>\<open>has L s\<close>: some word of \<open>L\<close> occurs in \<open>s\<close>. Separators never occur in a token.\<close>

definition has :: "string set \<Rightarrow> string \<Rightarrow> bool" where
  "has L s \<longleftrightarrow> (\<exists>a w b. s = a @ w @ b \<and> w \<in> L)"

definition separators :: "char set" where "separators = set ''[]= ''"

definition filler :: "char set" where "filler = set ''[REDACTED]= -p''"

definition token_lang :: "string set \<Rightarrow> bool" where
  "token_lang L \<longleftrightarrow> (\<forall>w \<in> L. set w \<inter> separators = {} \<and> \<not> set w \<subseteq> filler)"

lemma hasI: "w \<in> L \<Longrightarrow> has L (a @ w @ b)"
  by (auto simp: has_def)

lemma has_append: "has L P \<Longrightarrow> has L (P @ Q)" "has L Q \<Longrightarrow> has L (P @ Q)"
  by (auto simp: has_def) (metis append.assoc)+

lemma has_sep:
  assumes "token_lang L" "c \<in> separators" "has L (A @ c # B)"
  shows "has L A \<or> has L B"
proof -
  obtain a w b where w: "A @ c # B = a @ w @ b" "w \<in> L" using assms(3) by (auto simp: has_def)
  then have c: "c \<notin> set w" "w \<noteq> []" using assms(1,2) by (auto simp: token_lang_def)
  from w(1) consider us where "a = A @ us" "us @ w @ b = c # B" | us where "A = a @ us" "us @ c # B = w @ b"
    by (auto simp: append_eq_append_conv2)
  then show ?thesis
  proof cases
    case 1
    then have "us \<noteq> []" using c by (auto simp: Cons_eq_append_conv append_eq_Cons_conv)
    then show ?thesis using 1 w(2) by (auto simp: append_eq_Cons_conv intro!: hasI)
  next
    case 2
    then show ?thesis using c w(2) hasI [of w L a] hasI [of w L a "[]"]
      by (auto simp: append_eq_append_conv2 append_eq_Cons_conv Cons_eq_append_conv)
  qed
qed

lemma has_filler: "token_lang L \<Longrightarrow> set X \<subseteq> filler \<Longrightarrow> \<not> has L X"
  by (fastforce simp: has_def token_lang_def)

definition bridge :: "string \<Rightarrow> bool" where
  "bridge X \<longleftrightarrow> X \<noteq> [] \<and> hd X \<in> separators \<and> last X \<in> separators \<and> set X \<subseteq> filler"

lemma has_bridge:
  assumes "token_lang L" "bridge X" "has L (P @ X @ Q)"
  shows "has L P \<or> has L Q"
proof -
  obtain c M where X: "X = c # M" and c: "c \<in> separators" using assms(2) by (cases X) (auto simp: bridge_def)
  show ?thesis
  proof (cases M rule: rev_cases)
    case Nil
    then show ?thesis using has_sep [OF assms(1) c, of P Q] assms(3) X by simp
  next
    case (snoc N d)
    then have d: "d \<in> separators" "\<not> has L N"
      using assms(2) X has_filler [OF assms(1), of N] by (auto simp: bridge_def)
    have "has L P \<or> has L (N @ d # Q)" using has_sep [OF assms(1) c, of P "N @ d # Q"] assms(3) X snoc by simp
    then show ?thesis using has_sep [OF assms(1) d(1), of N Q] d(2) by blast
  qed
qed

section \<open>What a rule does to the tokens\<close>

text \<open>
  A rule splices when its replacement is a prefix of the match, a bridge and a suffix of the match: then it
  cannot bring two parts of a token together.
\<close>

definition splices :: "re \<Rightarrow> part list \<Rightarrow> bool" where
  "splices r tmpl \<longleftrightarrow> (\<forall>p s t. Match r (p, s, []) t \<longrightarrow>
    (\<exists>A X B mid. expand tmpl (map_of (groups t)) = A @ X @ B \<and> s = A @ mid @ B @ ahead t \<and> bridge X))"

lemma replace_keeps:
  "splices r tmpl \<Longrightarrow> token_lang L \<Longrightarrow> has L (B @ replace_template r tmpl p s) \<Longrightarrow> has L (B @ s)"
proof (induction r tmpl p s arbitrary: B rule: replace_template.induct)
  case (1 r tmpl p s)
  show ?case
  proof (cases "find_from r p [] s")
    case None
    then show ?thesis using 1(4) by (simp add: replace_template.simps [of r tmpl p s])
  next
    case (Some a)
    then obtain pre m t where f: "find_from r p [] s = Some (pre, m, t)" by (cases a) auto
    obtain u where u: "pre = rev u" "s = u @ m @ ahead t" "Match r (adv p u, m @ ahead t, []) t"
      using find_from_Some [OF f] by (auto simp: matches_iff)
    show ?thesis
    proof (cases "length (ahead t) < length s")
      case False
      then show ?thesis using 1(4) f by (simp add: replace_template.simps [of r tmpl p s])
    next
      case True
      obtain A X B' mid where x: "expand tmpl (map_of (groups t)) = A @ X @ B'"
        "m @ ahead t = A @ mid @ B' @ ahead t" "bridge X"
        using 1(2) [unfolded splices_def, rule_format, OF u(3)] by (elim exE conjE) rule
      let ?o = "replace_template r tmpl (before t) (ahead t)"
      have "replace_template r tmpl p s = u @ (A @ X @ B') @ ?o"
        using f True u(1) x(1) by (subst replace_template.simps) simp
      then have "has L ((B @ u @ A) @ X @ (B' @ ?o))" using 1(4) by simp
      then consider "has L (B @ u @ A)" | "has L (B' @ ?o)" using has_bridge [OF 1(3) x(3)] by blast
      then show ?thesis
      proof cases
        case 1
        then show ?thesis using has_append(1) [of L "B @ u @ A" "mid @ B' @ ahead t"] u(2) x(2) by simp
      next
        case 2
        then have "has L (B' @ ahead t)" using "1.IH" [OF f refl refl True "1.prems"(1,2)] by blast
        then show ?thesis using has_append(2) [of L "B' @ ahead t" "B @ u @ A @ mid"] u(2) x(2) by simp
      qed
    qed
  qed
qed

lemma find_from_first:
  "find_from r p acc s = Some (pre, m, t) \<Longrightarrow> s = a @ c @ m @ ahead t \<Longrightarrow> pre = rev (a @ c) @ acc \<Longrightarrow> c \<noteq> [] \<Longrightarrow>
   matches r (adv p a, c @ m @ ahead t, []) = []"
proof (induction r p acc s arbitrary: a rule: find_from.induct)
  case (1 r p acc s)
  show ?case
  proof (cases "matches r (p, s, [])")
    case (Cons y ys)
    then have "pre = acc" using 1(2) by (auto simp: find_from.simps [of r p acc s])
    then show ?thesis using 1(4,5) by simp
  next
    case Nil
    show ?thesis
    proof (cases a)
      case Nil
      then show ?thesis using \<open>matches r (p, s, []) = []\<close> 1(3) by simp
    next
      case (Cons x a')
      then have s: "s = x # a' @ c @ m @ ahead t" using 1(3) by simp
      have "find_from r p acc s = find_from r (Some x) (x # acc) (a' @ c @ m @ ahead t)"
        using Nil s by (subst find_from.simps) simp
      then have "find_from r (Some x) (x # acc) (a' @ c @ m @ ahead t) = Some (pre, m, t)" using 1(2) by simp
      then have "matches r (adv (Some x) a', c @ m @ ahead t, []) = []"
        using 1(1) [OF Nil s, of a'] 1(4,5) Cons by simp
      moreover have "adv (Some x) a' = adv p a" using Cons by (simp add: adv_def)
      ultimately show ?thesis by simp
    qed
  qed
qed

lemma no_match_no_word:
  assumes "plain r" "w \<in> lang r"
  shows "matches r (p, w @ v, []) \<noteq> []"
  using lang_Match_plain [OF assms, of p v "[]"] by (auto simp: matches_iff [symmetric])

lemma bridge_replacement: "bridge replacement"
  by (auto simp: bridge_def replacement_def separators_def filler_def)

lemma replace_removes:
  "plain r \<Longrightarrow> token_lang (lang r) \<Longrightarrow> \<not> has (lang r) (replace_template r [Text replacement] p s)"
proof (induction r "[Text replacement]" p s rule: replace_template.induct)
  case (1 r p s)
  have ne: "w \<noteq> []" if "w \<in> lang r" for w using 1(3) that by (auto simp: token_lang_def)
  show ?case
  proof (cases "find_from r p [] s")
    case None
    then have "matches r (adv p a, v, []) = []" if "s = a @ v" for a v
      using that unfolding find_from_None adv_def by blast
    then have "\<not> has (lang r) s" using no_match_no_word [OF 1(2)] unfolding has_def by blast
    then show ?thesis using None by (subst replace_template.simps) simp
  next
    case (Some a)
    then obtain pre m t where f: "find_from r p [] s = Some (pre, m, t)" by (cases a) auto
    obtain u where u: "pre = rev u" "s = u @ m @ ahead t" "Match r (adv p u, m @ ahead t, []) t"
      using find_from_Some [OF f] by (auto simp: matches_iff)
    have "m \<in> lang r" using Match_plain_lang [OF u(3) 1(2)] by auto
    then have len: "length (ahead t) < length s" using ne u(2) by simp
    let ?o = "replace_template r [Text replacement] (before t) (ahead t)"
    have out: "replace_template r [Text replacement] p s = u @ replacement @ ?o"
      using f len u(1) by (subst replace_template.simps) simp
    have "\<not> has (lang r) u"
    proof
      assume "has (lang r) u"
      then obtain b w d where w: "u = b @ w @ d" "w \<in> lang r" by (auto simp: has_def)
      have "matches r (adv p b, (w @ d) @ m @ ahead t, []) = []"
        by (rule find_from_first [OF f]) (use w u ne in auto)
      then show False using no_match_no_word [OF 1(2) w(2)] by simp
    qed
    moreover have "\<not> has (lang r) ?o" using 1(1) [OF f refl refl len 1(2,3)] .
    ultimately show ?thesis unfolding out using has_bridge [OF 1(3) bridge_replacement] by blast
  qed
qed

section \<open>Groups\<close>

primrec grps :: "re \<Rightarrow> nat set" where
  "grps Eps = {}"
| "grps (Cls P) = {}"
| "grps (Seq a b) = grps a \<union> grps b"
| "grps (Alt a b) = grps a \<union> grps b"
| "grps (Star a) = grps a"
| "grps (LStar a) = grps a"
| "grps (Grp k a) = insert k (grps a)"
| "grps BeginText = {}"
| "grps EndText = {}"
| "grps BeginLine = {}"
| "grps EndLine = {}"
| "grps WordB = {}"

lemma Match_group: "Match r t u \<Longrightarrow> k \<notin> grps r \<Longrightarrow> map_of (groups u) k = map_of (groups t) k"
  by (induction rule: Match.induct) (auto simp: capture_def)

lemma Match_captures:
  "Match (Grp k a) t u \<Longrightarrow> \<exists>w. ahead t = w @ ahead u \<and> map_of (groups u) k = Some w"
  using Match_suffix by (fastforce simp: capture_def elim: Match_Grp)

lemma Match_Seq_iff: "Match (Seq a b) t u \<longleftrightarrow> (\<exists>v. Match a t v \<and> Match b v u)"
proof
  assume "Match (Seq a b) t u"
  then show "\<exists>v. Match a t v \<and> Match b v u" by (rule Match_Seq) (blast, simp)
qed (blast intro: m_seq)

lemma Match_WordB_iff: "Match WordB t u \<longleftrightarrow> u = t \<and> assertion WordB t"
  by (auto elim: Match.cases intro: m_assert)

lemma grps_lit [simp]: "grps (lit s) = {}" "grps (ci_lit s) = {}"
  by (induction s) (auto simp: lit_def ci_lit_def ci_char_def long_s_def kelvin_def Let_def)

lemma grps_opt [simp]: "grps (opt r) = grps r" "grps (plus r) = grps r"
  by (auto simp: opt_def plus_def)

lemma grps_times [simp]: "grps r = {} \<Longrightarrow> grps (times n r) = {}"
  by (induction n) auto

lemma grps_at_least [simp]: "grps r = {} \<Longrightarrow> grps (at_least n r) = {}"
  by (simp add: at_least_def)

lemma splices_text: "splices r [Text replacement]"
  unfolding splices_def
proof (intro allI impI)
  fix p s t assume "Match r (p, s, []) t"
  then obtain w where "s = w @ ahead t" using Match_suffix by fastforce
  then have "expand [Text replacement] (map_of (groups t)) = [] @ replacement @ []
      \<and> s = [] @ w @ [] @ ahead t \<and> bridge replacement"
    using bridge_replacement by simp
  then show "\<exists>A X B mid. expand [Text replacement] (map_of (groups t)) = A @ X @ B
      \<and> s = A @ mid @ B @ ahead t \<and> bridge X" by blast
qed

text \<open>A first group, possibly after a word boundary, that the template starts with.\<close>

lemma splices_first:
  assumes "1 \<notin> grps b" "bridge (X @ replacement)" "r = Seq (Grp 1 a) b \<or> r = Seq WordB (Seq (Grp 1 a) b)"
  shows "splices r [Ref 1, Text X, Text replacement]"
  unfolding splices_def
proof (intro allI impI)
  fix p s t assume "Match r (p, s, []) t"
  then have "Match (Seq (Grp 1 a) b) (p, s, []) t" using assms(3) by (auto simp: Match_Seq_iff Match_WordB_iff)
  then obtain u where u: "Match (Grp 1 a) (p, s, []) u" "Match b u t" by (auto elim: Match_Seq)
  obtain w where w: "s = w @ ahead u" "map_of (groups u) 1 = Some w" using Match_captures [OF u(1)] by auto
  obtain v where v: "ahead u = v @ ahead t" using Match_suffix [OF u(2)] by blast
  have "map_of (groups t) 1 = Some w" using Match_group [OF u(2) assms(1)] w(2) by simp
  then have "expand [Ref 1, Text X, Text replacement] (map_of (groups t)) = w @ (X @ replacement) @ []
      \<and> s = w @ v @ [] @ ahead t \<and> bridge (X @ replacement)"
    using w v assms(2) by simp
  then show "\<exists>A X' B mid. expand [Ref 1, Text X, Text replacement] (map_of (groups t)) = A @ X' @ B
      \<and> s = A @ mid @ B @ ahead t \<and> bridge X'" by blast
qed

lemma splices_user: "splices userRe [Ref 1, Text replacement]"
proof -
  have "splices userRe [Ref 1, Text [], Text replacement]"
    by (rule splices_first) (auto simp: userRe_def bridge_replacement)
  then show ?thesis by (simp add: splices_def)
qed

lemma splices_kv: "splices kvRe [Ref 1, Text ''='', Text replacement]"
proof (rule splices_first)
  show "bridge (''='' @ replacement)" by (auto simp: bridge_def replacement_def separators_def filler_def)
  show "kvRe = Seq (Grp 1 (alts [ci_lit ''password'', ci_lit ''passwd'', ci_lit ''token'', ci_lit ''secret'',
       seqs [ci_lit ''api'', dash_opt, ci_lit ''key''], seqs [ci_lit ''access'', dash_opt, ci_lit ''key''],
       seqs [ci_lit ''login'', dash_opt, ci_lit ''key'']])) b \<or>
     kvRe = Seq WordB (Seq (Grp 1 (alts [ci_lit ''password'', ci_lit ''passwd'', ci_lit ''token'', ci_lit ''secret'',
       seqs [ci_lit ''api'', dash_opt, ci_lit ''key''], seqs [ci_lit ''access'', dash_opt, ci_lit ''key''],
       seqs [ci_lit ''login'', dash_opt, ci_lit ''key'']]))
     (seqs [Star sp, Cls (\<lambda>c. c = CHR '':'' \<or> c = CHR ''=''), Star sp,
     Grp 2 (at_least 4 (Cls (\<lambda>c. c \<notin> {CHR ''&'', dquote, CHR 0x27, CHR '',''} \<and> \<not> red_space c)))]))" for b
    by (simp add: kvRe_def)
qed (simp add: sp_def)

lemma splices_two:
  assumes r: "r = Seq WordB (Seq (Grp 1 a) (Seq WordB (Seq (Grp 2 g) c)))"
    and no: "1 \<notin> grps g" "1 \<notin> grps c" "2 \<notin> grps c" and br: "bridge (X @ replacement)"
  shows "splices r [Ref 1, Ref 2, Text X, Text replacement]"
  unfolding splices_def
proof (intro allI impI)
  fix p s t assume "Match r (p, s, []) t"
  then obtain u v where m: "Match (Grp 1 a) (p, s, []) u" "Match (Grp 2 g) u v" "Match c v t"
    unfolding r by (auto simp: Match_Seq_iff Match_WordB_iff)
  obtain w1 where w1: "s = w1 @ ahead u" "map_of (groups u) 1 = Some w1" using Match_captures [OF m(1)] by auto
  obtain w2 where w2: "ahead u = w2 @ ahead v" "map_of (groups v) 2 = Some w2" using Match_captures [OF m(2)] by auto
  obtain w3 where w3: "ahead v = w3 @ ahead t" using Match_suffix [OF m(3)] by blast
  have "map_of (groups v) 1 = Some w1" using Match_group [OF m(2), of 1] no(1) w1(2) by simp
  then have "map_of (groups t) 1 = Some w1" "map_of (groups t) 2 = Some w2"
    using Match_group [OF m(3)] no w2(2) by simp_all
  then have "expand [Ref 1, Ref 2, Text X, Text replacement] (map_of (groups t)) = (w1 @ w2) @ (X @ replacement) @ []
      \<and> s = (w1 @ w2) @ w3 @ [] @ ahead t \<and> bridge (X @ replacement)"
    using w1 w2 w3 br by simp
  then show "\<exists>A X' B mid. expand [Ref 1, Ref 2, Text X, Text replacement] (map_of (groups t)) = A @ X' @ B
      \<and> s = A @ mid @ B @ ahead t \<and> bridge X'" by blast
qed

lemma splices_mysql: "splices mysqlRe [Ref 1, Ref 2, Text '' -p'', Text replacement]"
proof (rule splices_two)
  show "mysqlRe = Seq WordB (Seq (Grp 1 (alts [ci_lit ''mysql'', ci_lit ''mysqldump'', ci_lit ''psql'']))
    (Seq WordB (Seq (Grp 2 (LStar (Cls (\<lambda>c. c \<noteq> CHR 0x0A)))) (seqs [sp, ci_lit ''-p'',
     Grp 3 (Seq (Cls (\<lambda>c. c \<noteq> CHR ''-'' \<and> \<not> red_space c)) (Star nonsp))]))))"
    by (simp add: mysqlRe_def)
  show "bridge ('' -p'' @ replacement)" by (auto simp: bridge_def replacement_def separators_def filler_def)
qed (simp_all add: sp_def nonsp_def)

section \<open>The languages of the tokens\<close>

primrec over :: "(char \<Rightarrow> bool) \<Rightarrow> re \<Rightarrow> bool" where
  "over P Eps \<longleftrightarrow> True"
| "over P (Cls Q) \<longleftrightarrow> (\<forall>c. Q c \<longrightarrow> P c)"
| "over P (Seq a b) \<longleftrightarrow> over P a \<and> over P b"
| "over P (Alt a b) \<longleftrightarrow> over P a \<and> over P b"
| "over P (Star a) \<longleftrightarrow> over P a"
| "over P (LStar a) \<longleftrightarrow> over P a"
| "over P (Grp k a) \<longleftrightarrow> over P a"
| "over P BeginText \<longleftrightarrow> True"
| "over P EndText \<longleftrightarrow> True"
| "over P BeginLine \<longleftrightarrow> True"
| "over P EndLine \<longleftrightarrow> True"
| "over P WordB \<longleftrightarrow> True"

lemma kleene_all: "w \<in> kleene A \<Longrightarrow> (\<And>v. v \<in> A \<Longrightarrow> list_all P v) \<Longrightarrow> list_all P w"
  by (induction rule: kleene.induct) auto

lemma over_lang: "over P r \<Longrightarrow> w \<in> lang r \<Longrightarrow> list_all P w"
  by (induction r arbitrary: w) (auto intro: kleene_all)

lemma needs_lang: "needs P r \<Longrightarrow> w \<in> lang r \<Longrightarrow> \<exists>c \<in> set w. P c"
  by (induction r arbitrary: w) fastforce+

lemma over_lit [simp]: "over P (lit s) \<longleftrightarrow> list_all P s"
  by (induction s) (auto simp: lit_def)

lemma over_times [simp]: "over P r \<Longrightarrow> over P (times n r)" "over P r \<Longrightarrow> over P (upto_times n r)"
  by (induction n) (auto simp: opt_def)

lemma over_between [simp]: "over P r \<Longrightarrow> over P (between m n r)" "over P r \<Longrightarrow> over P (at_least m r)"
  by (simp_all add: between_def at_least_def)

lemma token_langI:
  assumes "over (\<lambda>c. c \<notin> separators) r" "needs (\<lambda>c. c \<notin> filler) r"
  shows "token_lang (lang r)"
  unfolding token_lang_def
proof (intro ballI conjI)
  fix w assume "w \<in> lang r"
  then show "set w \<inter> separators = {}" "\<not> set w \<subseteq> filler"
    using over_lang [OF assms(1)] needs_lang [OF assms(2)] by (fastforce simp: list_all_iff)+
qed

lemma sep_class [simp]:
  "red_alnum c \<Longrightarrow> c \<noteq> CHR ''['' \<and> c \<noteq> CHR '']'' \<and> c \<noteq> CHR ''='' \<and> c \<noteq> CHR '' ''"
  "red_word c \<Longrightarrow> c \<noteq> CHR ''['' \<and> c \<noteq> CHR '']'' \<and> c \<noteq> CHR ''='' \<and> c \<noteq> CHR '' ''"
  "red_digit c \<Longrightarrow> c \<noteq> CHR ''['' \<and> c \<noteq> CHR '']'' \<and> c \<noteq> CHR ''='' \<and> c \<noteq> CHR '' ''"
  "red_upper c \<Longrightarrow> c \<noteq> CHR ''['' \<and> c \<noteq> CHR '']'' \<and> c \<noteq> CHR ''='' \<and> c \<noteq> CHR '' ''"
  by (auto simp: red_word_def red_alnum_def red_digit_def red_upper_def is_letter_def less_eq_char_def)

lemma token_langs: "token_lang (lang ghRe)" "token_lang (lang patRe)" "token_lang (lang akiaRe)" "token_lang (lang skRe)"
proof -
  have s: "c \<in> separators \<longleftrightarrow> c \<in> set ''[]= ''" "c \<in> filler \<longleftrightarrow> c \<in> set ''[REDACTED]= -p''" for c
    by (simp_all add: separators_def filler_def)
  show "token_lang (lang ghRe)"
    by (rule token_langI) (auto simp: ghRe_def broken_def opt_def s lit_def)
  show "token_lang (lang patRe)"
    by (rule token_langI) (auto simp: patRe_def broken_def opt_def s lit_def)
  show "token_lang (lang akiaRe)"
    by (rule token_langI) (auto simp: akiaRe_def s lit_def)
  show "token_lang (lang skRe)"
    by (rule token_langI) (auto simp: skRe_def s lit_def)
qed

lemma token_plain: "plain ghRe" "plain patRe" "plain akiaRe" "plain skRe"
  by (simp_all add: ghRe_def patRe_def akiaRe_def skRe_def broken_def)

section \<open>Property\<close>

lemma has_match: "plain r \<Longrightarrow> match_string r s \<longleftrightarrow> has (lang r) s"
  by (simp add: match_plain has_def)

definition spliced_rule :: "redactionRule \<Rightarrow> bool" where
  "spliced_rule ru \<longleftrightarrow> splices (pattern ru) (template ru)"

lemma fold_keeps:
  "list_all spliced_rule rs \<Longrightarrow> token_lang L \<Longrightarrow> \<not> has L s \<Longrightarrow> \<not> has L (fold apply_rule rs s)"
proof (induction rs arbitrary: s)
  case (Cons ru rs)
  then have "\<not> has L (apply_rule ru s)"
    using replace_keeps [of "pattern ru" "template ru" L "[]" None s] by (auto simp: apply_rule_def spliced_rule_def)
  then show ?case using Cons by simp
qed simp

lemma token_rule_removes:
  assumes "plain r" "token_lang (lang r)" "list_all spliced_rule rs"
  shows "\<not> match_string r (fold apply_rule (rule r [Text replacement] # rs) s)"
  using fold_keeps [OF assms(3,2)] replace_removes [OF assms(1,2), of None s]
  by (simp add: has_match [OF assms(1)] apply_rule_def rule_def)

lemma later_rules: "list_all spliced_rule (drop 8 redactionRules)"
  by (simp add: redactionRules_def spliced_rule_def rule_def splices_text splices_kv splices_mysql splices_user
      del: One_nat_def)

lemma Redact_clean:
  assumes "plain r" "token_lang (lang r)" "redactionRules ! n = rule r [Text replacement]" "7 \<le> n" "n < 16"
  shows "\<not> match_string r (Redact s)"
proof -
  have len: "n < length redactionRules" using assms(5) by (simp add: redactionRules_def)
  have "set (drop (Suc n) redactionRules) \<subseteq> set (drop 8 redactionRules)"
    using assms(4) by (intro set_drop_subset_set_drop) simp
  then have later: "list_all spliced_rule (drop (Suc n) redactionRules)"
    using later_rules by (auto simp: list_all_iff)
  have "redactionRules = take n redactionRules @ rule r [Text replacement] # drop (Suc n) redactionRules"
    using id_take_nth_drop [OF len] assms(3) by simp
  then have "Redact s = fold apply_rule (rule r [Text replacement] # drop (Suc n) redactionRules)
      (fold apply_rule (take n redactionRules) s)"
    unfolding Redact_def by (metis fold_append comp_apply)
  then show ?thesis using token_rule_removes [OF assms(1,2) later] by metis
qed

lemma Redact_tokens:
  "\<not> match_string ghRe (Redact s)" "\<not> match_string patRe (Redact s)"
  "\<not> match_string akiaRe (Redact s)" "\<not> match_string skRe (Redact s)"
  using Redact_clean [OF token_plain(1) token_langs(1), of 7] Redact_clean [OF token_plain(2) token_langs(2), of 8]
    Redact_clean [OF token_plain(3) token_langs(3), of 9] Redact_clean [OF token_plain(4) token_langs(4), of 10]
  by (simp_all add: redactionRules_def)

text \<open>
  C17. Redacted text holds no token: for every input, the output of \<open>Redact\<close> contains no GitHub token of
  either kind (also when it is wrapped over lines), no AWS access key id and no \<open>sk-\<close> key.
\<close>

theorem Redact_no_tokens:
  "\<not> match_string ghRe (Redact s) \<and> \<not> match_string patRe (Redact s)
    \<and> \<not> match_string akiaRe (Redact s) \<and> \<not> match_string skRe (Redact s)"
  by (simp add: Redact_tokens)

end
