(* ===== verification/Status_Cache.thy ===== *)
theory Status_Cache
  imports Go_Strings
begin

text \<open>
  The status cache of the dashboard (\<open>status/cache.go\<close>, \<open>status/ttl.go\<close>): entries with an expiry, read
  with stale-while-revalidate semantics, refreshed through a \<open>singleflight\<close> group and dropped by prefix.

  \<^item> Times are nanoseconds; a clock reading is an argument of the operation that takes it. A nil cache is
    \<open>None\<close>.
  \<^item> A value of type \<open>any\<close> carries its dynamic type; \<open>cast\<close> is the type assertion. The callers' type
    parameters are concrete types.
  \<^item> \<open>singleflight.Group\<close> is code outside the repository: what \<open>Do\<close> did for a call is the argument
    \<open>flight\<close>, either that this call ran the function (with the result of \<open>fetch\<close> and the clock reading
    after it) or that it shared the result of the call in flight for the key.
  \<^item> \<open>cache_step\<close> interleaves fetches with invalidations and the passing of time; its fetches obey the
    documented rule of the group, one call in flight per key.
\<close>

section \<open>Model\<close>

datatype 'v any = Any string 'v

record 'v entry =
  eValue :: "'v any"
  expiresAt :: int
  fetchedAt :: int

record Metadata =
  IsStale :: bool
  Age :: int
  mFetchedAt :: "int option"
  mExpiresAt :: "int option"

record 'v Cache =
  entries :: "'v entry gomap"
  backgroundTimeout :: int

definition defaultBackgroundTimeout :: int where "defaultBackgroundTimeout = 30 * 1000000000"

definition NewCache :: "int \<Rightarrow> 'v Cache" where
  "NewCache timeout = \<lparr>entries = [],
    backgroundTimeout = (if timeout \<le> 0 then defaultBackgroundTimeout else timeout)\<rparr>"

definition lookup :: "string \<Rightarrow> 'v Cache \<Rightarrow> 'v entry option" where
  "lookup key c = map_of (entries c) key"

text \<open>\<open>None\<close> as the wanted type is \<open>any\<close>, which every value has.\<close>

fun cast :: "string option \<Rightarrow> 'v any \<Rightarrow> 'v res" where
  "cast T (Any t v) = (if T = None \<or> T = Some t then Inr v else Inl [MiscE ErrTypeMismatch])"

text \<open>\<open>time.Time.Sub\<close> saturates at the bounds of a 64-bit duration.\<close>

definition time_Sub :: "int \<Rightarrow> int \<Rightarrow> int" where
  "time_Sub a b = max (- (2 ^ 63)) (min (2 ^ 63 - 1) (a - b))"

definition metadataFor :: "'v entry \<Rightarrow> int \<Rightarrow> Metadata" where
  "metadataFor cached now =
    (let age = time_Sub now (fetchedAt cached)
     in \<lparr>IsStale = expiresAt cached < now, Age = (if age < 0 then 0 else age),
         mFetchedAt = Some (fetchedAt cached), mExpiresAt = Some (expiresAt cached)\<rparr>)"

definition zero_Metadata :: Metadata where
  "zero_Metadata = \<lparr>IsStale = False, Age = 0, mFetchedAt = None, mExpiresAt = None\<rparr>"

text \<open>The critical section of \<open>doFetch\<close>.\<close>

definition store :: "string \<Rightarrow> int \<Rightarrow> 'v any \<Rightarrow> int \<Rightarrow> 'v Cache \<Rightarrow> 'v Cache" where
  "store key ttl value now c =
    c\<lparr>entries := mput key \<lparr>eValue = value, expiresAt = now + ttl, fetchedAt = now\<rparr> (entries c)\<rparr>"

datatype 'v flight = Leader "'v any res" int | Follower "'v any res"

definition doFetch :: "string option \<Rightarrow> string \<Rightarrow> int \<Rightarrow> 'v flight \<Rightarrow> 'v Cache \<Rightarrow> 'v res \<times> 'v Cache" where
  "doFetch T key ttl fl c =
    (let (got, c') = (case fl of
         Leader (Inl e) now \<Rightarrow> (Inl e, c)
       | Leader (Inr value) now \<Rightarrow> (Inr value, store key ttl value now c)
       | Follower r \<Rightarrow> (r, c))
     in (case got of Inl e \<Rightarrow> (Inl e, c') | Inr value \<Rightarrow> (cast T value, c')))"

definition fetchBlocking ::
  "string \<Rightarrow> string \<Rightarrow> int \<Rightarrow> 'v flight \<Rightarrow> 'v Cache \<Rightarrow> ('v \<times> bool) res \<times> 'v Cache" where
  "fetchBlocking T key ttl fl c =
    (case doFetch (Some T) key ttl fl c of (Inl e, c') \<Rightarrow> (Inl e, c') | (Inr v, c') \<Rightarrow> (Inr (v, False), c'))"

text \<open>What a call did besides returning: whether it started the background refresh of its key.\<close>

record ('r, 'v) served =
  outcome_of :: "'r res"
  cache_after :: "'v Cache"
  refreshing :: bool

definition GetOrFetch ::
  "'v Cache option \<Rightarrow> string \<Rightarrow> string \<Rightarrow> int \<Rightarrow> int \<Rightarrow> 'v flight \<Rightarrow> ('v \<times> bool, 'v) served" where
  "GetOrFetch cache T key ttl now fl =
    (let c = (case cache of None \<Rightarrow> NewCache 0 | Some c \<Rightarrow> c)
     in case lookup key c of
       Some cached \<Rightarrow> (case cast (Some T) (eValue cached) of
           Inl e \<Rightarrow> \<lparr>outcome_of = Inl e, cache_after = c, refreshing = False\<rparr>
         | Inr value \<Rightarrow>
             if now < expiresAt cached \<or> now = expiresAt cached
             then \<lparr>outcome_of = Inr (value, False), cache_after = c, refreshing = False\<rparr>
             else \<lparr>outcome_of = Inr (value, True), cache_after = c, refreshing = True\<rparr>)
     | None \<Rightarrow> (case fetchBlocking T key ttl fl c of
           (r, c') \<Rightarrow> \<lparr>outcome_of = r, cache_after = c', refreshing = False\<rparr>))"

text \<open>\<open>between\<close> is what other goroutines did to the cache between the fetch and the second lookup, and
  \<open>now'\<close> the second clock reading.\<close>

definition GetOrFetchMeta ::
  "'v Cache option \<Rightarrow> string \<Rightarrow> string \<Rightarrow> int \<Rightarrow> int \<Rightarrow> 'v flight \<Rightarrow> ('v Cache \<Rightarrow> 'v Cache) \<Rightarrow> int
    \<Rightarrow> ('v \<times> Metadata, 'v) served" where
  "GetOrFetchMeta cache T key ttl now fl between now' =
    (let c = (case cache of None \<Rightarrow> NewCache 0 | Some c \<Rightarrow> c)
     in case lookup key c of
       Some cached \<Rightarrow> (case cast (Some T) (eValue cached) of
           Inl e \<Rightarrow> \<lparr>outcome_of = Inl e, cache_after = c, refreshing = False\<rparr>
         | Inr value \<Rightarrow>
             let meta = metadataFor cached now
             in \<lparr>outcome_of = Inr (value, meta), cache_after = c, refreshing = IsStale meta\<rparr>)
     | None \<Rightarrow> (case fetchBlocking T key ttl fl c of
           (Inl e, c1) \<Rightarrow> \<lparr>outcome_of = Inl e, cache_after = c1, refreshing = False\<rparr>
         | (Inr (value, st), c1) \<Rightarrow>
             let c' = between c1
             in case lookup key c' of
               None \<Rightarrow> \<lparr>outcome_of = Inr (value, zero_Metadata), cache_after = c', refreshing = False\<rparr>
             | Some cached \<Rightarrow>
                 \<lparr>outcome_of = Inr (value, metadataFor cached now'), cache_after = c', refreshing = False\<rparr>))"

text \<open>The body of the goroutine \<open>refreshBackground\<close> starts.\<close>

definition refreshBackground :: "string \<Rightarrow> int \<Rightarrow> 'v flight \<Rightarrow> 'v Cache \<Rightarrow> 'v Cache" where
  "refreshBackground key ttl fl c = snd (doFetch None key ttl fl c)"

definition Invalidate :: "string \<Rightarrow> 'v Cache \<Rightarrow> nat \<times> 'v Cache" where
  "Invalidate prefix c =
    (length (filter (\<lambda>e. has_prefix (fst e) prefix) (entries c)),
     c\<lparr>entries := filter (\<lambda>e. \<not> has_prefix (fst e) prefix) (entries c)\<rparr>)"

definition PrefixHTTP :: string where "PrefixHTTP = ''http:''"
definition PrefixSSHNode :: string where "PrefixSSHNode = ''ssh:node:''"
definition PrefixSSL :: string where "PrefixSSL = ''ssl:''"
definition PrefixGitHubLastDeploy :: string where "PrefixGitHubLastDeploy = ''gh:lastDeploy:''"
definition PrefixGitHubSteps :: string where "PrefixGitHubSteps = ''gh:steps:''"

definition PrefixesForEvent :: "string \<Rightarrow> string list" where
  "PrefixesForEvent event =
    (if event = ''Restart'' then [PrefixHTTP]
     else if event = ''Deploy'' then [PrefixHTTP, PrefixGitHubLastDeploy, PrefixGitHubSteps]
     else if event = ''RemoveSubdomain'' then [PrefixHTTP]
     else if event = ''ChangeNodeVersion'' then [PrefixSSHNode]
     else if event \<in> {''SetupSSL'', ''RenewSSL'', ''RemoveSSL''} then [PrefixSSL]
     else [])"

fun invalidate_all :: "string list \<Rightarrow> 'v Cache \<Rightarrow> nat \<times> 'v Cache" where
  "invalidate_all [] c = (0, c)"
| "invalidate_all (p # ps) c =
    (let (n, c1) = Invalidate p c; (m, c2) = invalidate_all ps c1 in (n + m, c2))"

definition InvalidateEvent :: "string \<Rightarrow> 'v Cache \<Rightarrow> nat \<times> 'v Cache" where
  "InvalidateEvent event c = invalidate_all (PrefixesForEvent event) c"

section \<open>Interleavings\<close>

text \<open>
  \<open>flights\<close> are the calls in flight: begun, or with the value read from the source and the time of the
  reading. \<open>readAt\<close> and \<open>droppedAt\<close> record when the value of an entry was read and when a key was last
  invalidated. \<open>ttl\<close> is the time to live the callers use for a key.
\<close>

record 'v cstate =
  cache :: "'v Cache"
  clock :: int
  flights :: "('v any \<times> int) option gomap"
  readAt :: "string \<Rightarrow> int"
  droppedAt :: "string \<Rightarrow> int option"

inductive cache_step :: "(string \<Rightarrow> int) \<Rightarrow> 'v cstate \<Rightarrow> 'v cstate \<Rightarrow> bool" for ttl where
  tick: "0 \<le> d \<Longrightarrow> cache_step ttl s (s\<lparr>clock := clock s + d\<rparr>)"
| begin_fetch: "map_of (flights s) k = None \<Longrightarrow> cache_step ttl s (s\<lparr>flights := mput k None (flights s)\<rparr>)"
| read_source: "map_of (flights s) k = Some None \<Longrightarrow>
    cache_step ttl s (s\<lparr>flights := mput k (Some (v, clock s)) (flights s)\<rparr>)"
| fetch_fails: "map_of (flights s) k = Some fl \<Longrightarrow> cache_step ttl s (s\<lparr>flights := mdel k (flights s)\<rparr>)"
| fetch_stores: "map_of (flights s) k = Some (Some (v, t)) \<Longrightarrow>
    doFetch None k (ttl k) (Leader (Inr v) (clock s)) (cache s) = (r, c) \<Longrightarrow>
    cache_step ttl s (s\<lparr>cache := c, flights := mdel k (flights s), readAt := (readAt s)(k := t)\<rparr>)"
| invalidate: "cache_step ttl s (s\<lparr>cache := snd (Invalidate p (cache s)),
    droppedAt := (\<lambda>k. if has_prefix k p then Some (clock s) else droppedAt s k)\<rparr>)"

definition cache_init :: "'v cstate \<Rightarrow> bool" where
  "cache_init s \<longleftrightarrow> entries (cache s) = [] \<and> flights s = []"

definition cache_inv :: "(string \<Rightarrow> int) \<Rightarrow> 'v cstate \<Rightarrow> bool" where
  "cache_inv ttl s \<longleftrightarrow>
    (\<forall>k e. lookup k (cache s) = Some e \<longrightarrow>
      readAt s k \<le> fetchedAt e \<and> fetchedAt e \<le> clock s \<and> expiresAt e = fetchedAt e + ttl k)
    \<and> (\<forall>k v t. map_of (flights s) k = Some (Some (v, t)) \<longrightarrow> t \<le> clock s)"

section \<open>Lemmas\<close>

lemma lookup_store [simp]:
  "lookup k (store key ttl v now c) =
    (if k = key then Some \<lparr>eValue = v, expiresAt = now + ttl, fetchedAt = now\<rparr> else lookup k c)"
  by (simp add: lookup_def store_def)

lemma map_of_filter_fst: "map_of (filter (\<lambda>e. P (fst e)) m) k = (if P k then map_of m k else None)"
  by (induction m) auto

lemma lookup_Invalidate [simp]:
  "lookup k (snd (Invalidate p c)) = (if has_prefix k p then None else lookup k c)"
  using map_of_filter_fst [of "\<lambda>k. \<not> has_prefix k p" "entries c" k] by (simp add: lookup_def Invalidate_def)

lemma fst_Invalidate: "fst (Invalidate p c) + length (entries (snd (Invalidate p c))) = length (entries c)"
  using sum_length_filter_compl [of "\<lambda>e. has_prefix (fst e) p" "entries c"] by (simp add: Invalidate_def)

lemma invalidate_all_spec:
  "lookup k (snd (invalidate_all ps c)) = (if \<exists>p \<in> set ps. has_prefix k p then None else lookup k c)
    \<and> fst (invalidate_all ps c) + length (entries (snd (invalidate_all ps c))) = length (entries c)"
proof (induction ps arbitrary: c)
  case (Cons p ps)
  show ?case using Cons [of "snd (Invalidate p c)"] fst_Invalidate [of p c]
    by (auto simp: case_prod_beta)
qed simp

lemma doFetch_Leader [simp]:
  "doFetch None k ttl (Leader (Inr v) now) c = (cast None v, store k ttl v now c)"
  by (simp add: doFetch_def)

inductive_cases cache_stepE: "cache_step ttl s t"

lemma cache_inv_step: "cache_step ttl s t \<Longrightarrow> cache_inv ttl s \<Longrightarrow> cache_inv ttl t"
proof (induction rule: cache_step.induct)
  case (fetch_stores s k v t r c)
  then show ?case by (auto simp: cache_inv_def split: if_splits)
qed (fastforce simp: cache_inv_def split: if_splits)+

lemma cache_inv_init: "cache_init s \<Longrightarrow> cache_inv ttl s"
  by (simp add: cache_init_def cache_inv_def lookup_def)

interpretation status_cache: transition_system cache_init "cache_step ttl" "cache_inv ttl"
  by unfold_locales (rule cache_inv_init cache_inv_step, assumption+)+

section \<open>Properties\<close>

text \<open>
  C33. Stale-while-revalidate: a key that is in the cache is answered from the cache, whatever the fetch
  would do, flagged stale exactly after its expiry, and a refresh is started exactly then; both variants
  agree. A key of another type is an error that changes nothing. A missing key is fetched: a failed fetch
  stores nothing, and a successful one is what every later call is served, fresh until \<open>ttl\<close> has passed
  since the fetch and stale afterwards.
\<close>

theorem stale_while_revalidate:
  "(\<forall>e v. lookup key c = Some e \<and> eValue e = Any T v \<longrightarrow>
      GetOrFetch (Some c) T key ttl now fl
        = \<lparr>outcome_of = Inr (v, expiresAt e < now), cache_after = c, refreshing = expiresAt e < now\<rparr>
      \<and> GetOrFetchMeta (Some c) T key ttl now fl f now'
        = \<lparr>outcome_of = Inr (v, metadataFor e now), cache_after = c, refreshing = expiresAt e < now\<rparr>)
    \<and> (\<forall>e t v. lookup key c = Some e \<and> eValue e = Any t v \<and> t \<noteq> T \<longrightarrow>
      GetOrFetch (Some c) T key ttl now fl
        = \<lparr>outcome_of = Inl [MiscE ErrTypeMismatch], cache_after = c, refreshing = False\<rparr>)
    \<and> (\<forall>e at. lookup key c = None \<longrightarrow>
      GetOrFetch (Some c) T key ttl now (Leader (Inl e) at)
        = \<lparr>outcome_of = Inl e, cache_after = c, refreshing = False\<rparr>)
    \<and> (\<forall>v at c'. lookup key c = None \<and> c' = store key ttl (Any T v) at c \<longrightarrow>
      GetOrFetch (Some c) T key ttl now (Leader (Inr (Any T v)) at)
        = \<lparr>outcome_of = Inr (v, False), cache_after = c', refreshing = False\<rparr>
      \<and> (\<forall>later fl'. GetOrFetch (Some c') T key ttl later fl'
          = \<lparr>outcome_of = Inr (v, at + ttl < later), cache_after = c', refreshing = at + ttl < later\<rparr>))"
  by (auto simp: GetOrFetch_def GetOrFetchMeta_def fetchBlocking_def doFetch_def metadataFor_def Let_def)

theorem stale_while_revalidate_witness:
  "GetOrFetch (Some (store ''http:a'' 30 (Any ''int'' (200 :: int)) 5 (NewCache 0))) ''int'' ''http:a'' 30 40
      (Leader (Inl [OSErr]) 40)
    = \<lparr>outcome_of = Inr (200, True), cache_after = store ''http:a'' 30 (Any ''int'' 200) 5 (NewCache 0),
       refreshing = True\<rparr>"
  using stale_while_revalidate [of "''http:a''" "NewCache 0 :: int Cache" "''int''" 30 40 undefined id 0]
  by (auto simp: NewCache_def lookup_def)

text \<open>
  A value shown as fresh is recent: in every interleaving of fetches, invalidations and time, an entry
  that is not reported stale was stored at most its time to live ago, and the age in its metadata is exactly
  the time since then.
\<close>

theorem fresh_is_recent:
  assumes "reached cache_init (cache_step ttl) s" "lookup k (cache s) = Some e"
    and "\<not> IsStale (metadataFor e (clock s))" "ttl k < 2 ^ 63"
  shows "Age (metadataFor e (clock s)) = clock s - fetchedAt e
    \<and> 0 \<le> Age (metadataFor e (clock s)) \<and> Age (metadataFor e (clock s)) \<le> ttl k"
proof -
  have "fetchedAt e \<le> clock s" "expiresAt e = fetchedAt e + ttl k"
    using status_cache.reached_inv [OF assms(1)] assms(2) by (auto simp: cache_inv_def)
  moreover have "clock s \<le> expiresAt e" using assms(3) by (simp add: metadataFor_def Let_def)
  ultimately show ?thesis using assms(4) by (auto simp: metadataFor_def time_Sub_def Let_def)
qed

text \<open>
  An event drops exactly the keys of its prefixes and reports how many entries went.
\<close>

theorem InvalidateEvent_exact:
  "lookup k (snd (InvalidateEvent ev c)) =
      (if \<exists>p \<in> set (PrefixesForEvent ev). has_prefix k p then None else lookup k c)
    \<and> fst (InvalidateEvent ev c) + length (entries (snd (InvalidateEvent ev c))) = length (entries c)"
  unfolding InvalidateEvent_def by (rule invalidate_all_spec)

text \<open>
  An invalidation does not stop a fetch in flight: a fetch that read its source before the invalidation
  stores that value after it, and the cache then serves the value as fresh although it was read before the
  key was invalidated.
\<close>

theorem invalidation_overtaken:
  fixes v :: 'v
  assumes "has_prefix k p" "0 < ttl k"
  shows "\<exists>(s :: 'v cstate) e d. reached cache_init (cache_step ttl) s \<and> lookup k (cache s) = Some e
    \<and> eValue e = Any T v \<and> \<not> IsStale (metadataFor e (clock s)) \<and> droppedAt s k = Some d \<and> readAt s k < d"
proof -
  define s0 :: "'v cstate" where "s0 = \<lparr>cache = NewCache 0, clock = 0, flights = [], readAt = (\<lambda>_. 0),
    droppedAt = (\<lambda>_. None)\<rparr>"
  define s1 where "s1 = s0\<lparr>flights := mput k None (flights s0)\<rparr>"
  define s2 where "s2 = s1\<lparr>flights := mput k (Some (Any T v, clock s1)) (flights s1)\<rparr>"
  define s3 where "s3 = s2\<lparr>clock := clock s2 + 1\<rparr>"
  define s4 where "s4 = s3\<lparr>cache := snd (Invalidate p (cache s3)),
    droppedAt := (\<lambda>k. if has_prefix k p then Some (clock s3) else droppedAt s3 k)\<rparr>"
  define s5 where "s5 = s4\<lparr>cache := store k (ttl k) (Any T v) (clock s4) (cache s4),
    flights := mdel k (flights s4), readAt := (readAt s4)(k := 0)\<rparr>"
  note ds = s0_def s1_def s2_def s3_def s4_def s5_def
  have r0: "reached cache_init (cache_step ttl) s0"
    by (rule reached_init) (simp add: cache_init_def ds NewCache_def)
  have r1: "reached cache_init (cache_step ttl) s1"
    unfolding s1_def by (rule reached_step [OF r0], rule begin_fetch) (simp add: ds)
  have r2: "reached cache_init (cache_step ttl) s2"
    unfolding s2_def by (rule reached_step [OF r1], rule read_source) (simp add: ds)
  have r3: "reached cache_init (cache_step ttl) s3"
    unfolding s3_def by (rule reached_step [OF r2], rule tick) simp
  have r4: "reached cache_init (cache_step ttl) s4"
    unfolding s4_def by (rule reached_step [OF r3], rule invalidate)
  have r5: "reached cache_init (cache_step ttl) s5"
    unfolding s5_def by (rule reached_step [OF r4], rule fetch_stores) (simp_all add: ds)
  have "lookup k (cache s5) = Some \<lparr>eValue = Any T v, expiresAt = 1 + ttl k, fetchedAt = 1\<rparr>"
    "clock s5 = 1" "readAt s5 k = 0" "droppedAt s5 k = Some 1" using assms(1) by (simp_all add: ds)
  then show ?thesis using r5 assms(2) by (fastforce simp: metadataFor_def Let_def)
qed

definition stored_state :: "int cstate" where
  "stored_state = \<lparr>cache = store ''http:a'' 30 (Any ''int'' 200) 0 (NewCache 0), clock = 0, flights = [],
    readAt = (\<lambda>_. 0)(''http:a'' := 0), droppedAt = (\<lambda>_. None)\<rparr>"

lemma stored_reached: "reached cache_init (cache_step (\<lambda>_. 30)) stored_state"
proof -
  define s0 :: "int cstate" where "s0 = \<lparr>cache = NewCache 0, clock = 0, flights = [], readAt = (\<lambda>_. 0),
    droppedAt = (\<lambda>_. None)\<rparr>"
  let ?k = "''http:a''" and ?v = "Any ''int'' (200 :: int)"
  let ?s1 = "s0\<lparr>flights := mput ?k None (flights s0)\<rparr>"
  let ?s2 = "?s1\<lparr>flights := mput ?k (Some (?v, clock ?s1)) (flights ?s1)\<rparr>"
  have r0: "reached cache_init (cache_step (\<lambda>_. 30)) s0"
    by (rule reached_init) (simp add: cache_init_def s0_def NewCache_def)
  have r1: "reached cache_init (cache_step (\<lambda>_. 30)) ?s1"
    by (rule reached_step [OF r0], rule begin_fetch) (simp add: s0_def)
  have r2: "reached cache_init (cache_step (\<lambda>_. 30)) ?s2"
    by (rule reached_step [OF r1], rule read_source) simp
  have "cache_step (\<lambda>_. 30) ?s2 (?s2\<lparr>cache := store ?k 30 ?v (clock ?s2) (cache ?s2),
      flights := mdel ?k (flights ?s2), readAt := (readAt ?s2)(?k := 0)\<rparr>)"
    by (rule fetch_stores [of _ _ ?v 0]) (simp_all add: s0_def)
  then show ?thesis using reached_step [OF r2] by (simp add: stored_state_def s0_def mput_def mdel_def)
qed

theorem fresh_is_recent_witness:
  "Age (metadataFor \<lparr>eValue = Any ''int'' (200 :: int), expiresAt = 30, fetchedAt = 0\<rparr> 0) \<le> 30"
  using fresh_is_recent [OF stored_reached, of "''http:a''" "\<lparr>eValue = Any ''int'' 200, expiresAt = 30, fetchedAt = 0\<rparr>"]
  by (simp add: stored_state_def metadataFor_def Let_def)

theorem InvalidateEvent_exact_witness:
  "lookup ''ssl:a'' (snd (InvalidateEvent ''RenewSSL'' (store ''ssl:a'' 300 (Any ''t'' (1 :: int)) 0 (NewCache 0)))) = None"
  using InvalidateEvent_exact [of "''ssl:a''" "''RenewSSL''" "store ''ssl:a'' 300 (Any ''t'' (1 :: int)) 0 (NewCache 0)"]
  by (simp add: PrefixesForEvent_def PrefixSSL_def)

theorem invalidation_overtaken_witness:
  "\<exists>(s :: int cstate) e d. reached cache_init (cache_step (\<lambda>_. 30)) s \<and> lookup ''http:a'' (cache s) = Some e
    \<and> eValue e = Any ''int'' 502 \<and> \<not> IsStale (metadataFor e (clock s)) \<and> droppedAt s ''http:a'' = Some d
    \<and> readAt s ''http:a'' < d"
  by (rule invalidation_overtaken [where p = PrefixHTTP]) (simp_all add: PrefixHTTP_def)

end
