(* ===== verification/Config_Store.thy ===== *)
theory Config_Store
  imports Cleanup_Stack
begin

text \<open>
  The configuration file (\<open>src/config\<close>): its types and their JSON form (\<open>types.go\<close>), validation
  (\<open>schema.go\<close>), the migration framework (\<open>migrate.go\<close>, \<open>migrate_v0_to_v1.go\<close>), the file lock
  (\<open>lock_unix.go\<close>), and loading and saving (\<open>load.go\<close>, \<open>save.go\<close>). The JSON Schema validator is a
  library: the argument \<open>schema\<close> says which documents it accepts for the embedded schema. Errors carry
  their sentinels only, so the order in which \<open>walkStrings\<close> visits the members of an object, which only
  picks the path in the message, is the order of the document.
\<close>

section \<open>Types and their documents (types.go)\<close>

definition Current :: int where "Current = 1"

record Profile =
  pfAlias :: string
  pfType :: string
  pfHost :: string
  pfPort :: int
  pfUser :: string
  pfProperties :: "string gomap"

record SecretMeta =
  smKey :: string
  smCreatedAt :: time_text
  smLastRotated :: "time_text option"
  smSource :: string
  smLastSyncedGitHub :: "time_text option"
  smLastSyncedServer :: "time_text option"
  smRotationReminderDays :: int

record Project =
  pjID :: string
  pjDomain :: string
  pjProfileAlias :: string
  pjRepo :: string
  pjLocalPath :: string
  pjStack :: string
  pjNodeVersion :: string
  pjImportedAt :: "time_text option"
  pjSecretsMeta :: "SecretMeta list"

record Settings =
  stExpertMode :: bool
  stRefreshIntervalS :: int

text \<open>A nil slice (\<open>None\<close>) is marshalled as null, an empty one as an empty array.\<close>

record Config =
  cfSchemaVersion :: int
  cfLanguage :: string
  cfProfiles :: "Profile list option"
  cfProjects :: "Project list option"
  cfSettings :: "Settings option"

definition opt_time :: "string \<Rightarrow> time_text option \<Rightarrow> (string \<times> json) list" where
  "opt_time name t = (case t of None \<Rightarrow> [] | Some x \<Rightarrow> [(name, JStr x)])"

definition profile_json :: "Profile \<Rightarrow> json" where
  "profile_json p = JObj ([(''alias'', jstr (pfAlias p)), (''type'', jstr (pfType p)), (''host'', jstr (pfHost p))]
     @ omit (pfPort p = 0) ''port'' (JNum (pfPort p)) @ [(''user'', jstr (pfUser p))]
     @ omit (pfProperties p = []) ''properties'' (jmap (pfProperties p)))"

definition secret_json :: "SecretMeta \<Rightarrow> json" where
  "secret_json s = JObj ([(''key'', jstr (smKey s)), (''created_at'', JStr (smCreatedAt s))]
     @ opt_time ''last_rotated'' (smLastRotated s) @ [(''source'', jstr (smSource s))]
     @ opt_time ''last_synced_github'' (smLastSyncedGitHub s) @ opt_time ''last_synced_server'' (smLastSyncedServer s)
     @ omit (smRotationReminderDays s = 0) ''rotation_reminder_days'' (JNum (smRotationReminderDays s)))"

definition project_json :: "Project \<Rightarrow> json" where
  "project_json p = JObj ([(''id'', jstr (pjID p)), (''domain'', jstr (pjDomain p)), (''profile_alias'', jstr (pjProfileAlias p))]
     @ omit (pjRepo p = []) ''repo'' (jstr (pjRepo p)) @ omit (pjLocalPath p = []) ''local_path'' (jstr (pjLocalPath p))
     @ omit (pjStack p = []) ''stack'' (jstr (pjStack p)) @ omit (pjNodeVersion p = []) ''node_version'' (jstr (pjNodeVersion p))
     @ opt_time ''imported_at'' (pjImportedAt p)
     @ omit (pjSecretsMeta p = []) ''secrets_meta'' (JArr (map secret_json (pjSecretsMeta p))))"

definition settings_json :: "Settings \<Rightarrow> json" where
  "settings_json s = JObj (omit (\<not> stExpertMode s) ''expert_mode'' (JBool (stExpertMode s))
     @ omit (stRefreshIntervalS s = 0) ''refresh_interval_s'' (JNum (stRefreshIntervalS s)))"

definition slice_json :: "('a \<Rightarrow> json) \<Rightarrow> 'a list option \<Rightarrow> json" where
  "slice_json f xs = (case xs of None \<Rightarrow> JNull | Some ys \<Rightarrow> JArr (map f ys))"

definition config_json :: "Config \<Rightarrow> json" where
  "config_json c = JObj ([(''schema_version'', JNum (cfSchemaVersion c))]
     @ omit (cfLanguage c = []) ''language'' (jstr (cfLanguage c))
     @ [(''profiles'', slice_json profile_json (cfProfiles c)), (''projects'', slice_json project_json (cfProjects c))]
     @ (case cfSettings c of None \<Rightarrow> [] | Some s \<Rightarrow> [(''settings'', settings_json s)]))"

definition json_profile :: "json \<Rightarrow> Profile option" where
  "json_profile j = Option.bind (jmembers j) (\<lambda>m.
     Option.bind (jstring (jget ''alias'' m)) (\<lambda>al. Option.bind (jstring (jget ''type'' m)) (\<lambda>ty.
     Option.bind (jstring (jget ''host'' m)) (\<lambda>ho. Option.bind (jint (jget ''port'' m)) (\<lambda>po.
     Option.bind (jstring (jget ''user'' m)) (\<lambda>us. Option.bind (jstrmap (jget ''properties'' m)) (\<lambda>pr.
     Some \<lparr>pfAlias = al, pfType = ty, pfHost = ho, pfPort = po, pfUser = us, pfProperties = pr\<rparr>)))))))"

definition json_secret :: "json \<Rightarrow> SecretMeta option" where
  "json_secret j = Option.bind (jmembers j) (\<lambda>m.
     Option.bind (jstring (jget ''key'' m)) (\<lambda>ke. Option.bind (jtime (jget ''created_at'' m)) (\<lambda>cr.
     Option.bind (jptr jtime (jget ''last_rotated'' m)) (\<lambda>la. Option.bind (jstring (jget ''source'' m)) (\<lambda>so.
     Option.bind (jptr jtime (jget ''last_synced_github'' m)) (\<lambda>gi.
     Option.bind (jptr jtime (jget ''last_synced_server'' m)) (\<lambda>se.
     Option.bind (jint (jget ''rotation_reminder_days'' m)) (\<lambda>da.
     Some \<lparr>smKey = ke, smCreatedAt = cr, smLastRotated = la, smSource = so, smLastSyncedGitHub = gi,
           smLastSyncedServer = se, smRotationReminderDays = da\<rparr>))))))))"

definition json_project :: "json \<Rightarrow> Project option" where
  "json_project j = Option.bind (jmembers j) (\<lambda>m.
     Option.bind (jstring (jget ''id'' m)) (\<lambda>i. Option.bind (jstring (jget ''domain'' m)) (\<lambda>dm.
     Option.bind (jstring (jget ''profile_alias'' m)) (\<lambda>al. Option.bind (jstring (jget ''repo'' m)) (\<lambda>re.
     Option.bind (jstring (jget ''local_path'' m)) (\<lambda>lp. Option.bind (jstring (jget ''stack'' m)) (\<lambda>st.
     Option.bind (jstring (jget ''node_version'' m)) (\<lambda>nv. Option.bind (jptr jtime (jget ''imported_at'' m)) (\<lambda>im.
     Option.bind (jlist json_secret (jget ''secrets_meta'' m)) (\<lambda>sm.
     Some \<lparr>pjID = i, pjDomain = dm, pjProfileAlias = al, pjRepo = re, pjLocalPath = lp, pjStack = st,
           pjNodeVersion = nv, pjImportedAt = im, pjSecretsMeta = sm\<rparr>))))))))))"

definition json_settings :: "json \<Rightarrow> Settings option" where
  "json_settings j = Option.bind (jmembers j) (\<lambda>m.
     Option.bind (jbool (jget ''expert_mode'' m)) (\<lambda>ex. Option.bind (jint (jget ''refresh_interval_s'' m)) (\<lambda>rf.
     Some \<lparr>stExpertMode = ex, stRefreshIntervalS = rf\<rparr>)))"

definition json_config :: "json \<Rightarrow> Config option" where
  "json_config j = Option.bind (jmembers j) (\<lambda>m.
     Option.bind (jint (jget ''schema_version'' m)) (\<lambda>v. Option.bind (jstring (jget ''language'' m)) (\<lambda>la.
     Option.bind (jptr (jlist json_profile) (jget ''profiles'' m)) (\<lambda>pf.
     Option.bind (jptr (jlist json_project) (jget ''projects'' m)) (\<lambda>pj.
     Option.bind (jptr json_settings (jget ''settings'' m)) (\<lambda>st.
     Some \<lparr>cfSchemaVersion = v, cfLanguage = la, cfProfiles = pf, cfProjects = pj, cfSettings = st\<rparr>))))))"

definition DefaultConfig :: Config where
  "DefaultConfig = \<lparr>cfSchemaVersion = Current, cfLanguage = ''en'', cfProfiles = Some [], cfProjects = Some [],
     cfSettings = None\<rparr>"

section \<open>Validation (schema.go)\<close>

definition alnum :: "char \<Rightarrow> bool" where "alnum c \<longleftrightarrow> is_letter c \<or> is_digit c"

definition is_upper :: "char \<Rightarrow> bool" where "is_upper c \<longleftrightarrow> CHR ''A'' \<le> c \<and> c \<le> CHR ''Z''"

definition secretPatterns :: "re list" where
  "secretPatterns =
     [seqs [WordB, lit ''gh'', Cls (\<lambda>c. c \<in> set ''ps''), lit ''_'', between 36 255 (Cls alnum), WordB],
      seqs [WordB, lit ''github_pat_'', at_least 20 (Cls (\<lambda>c. alnum c \<or> c = CHR ''_'')), WordB],
      seqs [WordB, lit ''sk-'', at_least 16 (Cls (\<lambda>c. alnum c \<or> c \<in> set ''_-'')), WordB],
      seqs [lit ''-----BEGIN '', plus (Cls (\<lambda>c. is_upper c \<or> c = CHR '' '')), lit ''PRIVATE KEY-----'']]"

definition secret_string :: "string \<Rightarrow> bool" where
  "secret_string s \<longleftrightarrow> list_ex (\<lambda>p. match_string p s) secretPatterns"

lemma first_error_cong [fundef_cong]:
  "xs = ys \<Longrightarrow> (\<And>x. x \<in> set ys \<Longrightarrow> f x = g x) \<Longrightarrow> first_error f xs = first_error g ys"
  by (induction xs arbitrary: ys) (auto split: option.splits)

fun walkStrings :: "json \<Rightarrow> goerr option" where
  "walkStrings (JObj kvs) = first_error (\<lambda>kv. walkStrings (snd kv)) kvs"
| "walkStrings (JArr xs) = first_error walkStrings xs"
| "walkStrings (JStr s) = (if secret_string s then Some [ConfigE ErrSecretInConfig] else None)"
| "walkStrings JNull = None"
| "walkStrings (JBool b) = None"
| "walkStrings (JNum n) = None"
| "walkStrings (JFrac s) = None"

definition validateNoSecrets :: "json \<Rightarrow> goerr option" where
  "validateNoSecrets doc = walkStrings doc"

text \<open>\<open>v[name].([]any)\<close> and \<open>v[name].(string)\<close> on a decoded object: exact names.\<close>

definition arr_member :: "string \<Rightarrow> (string \<times> json) list \<Rightarrow> json list option" where
  "arr_member name kvs = (case map_of kvs name of Some (JArr xs) \<Rightarrow> Some xs | _ \<Rightarrow> None)"

definition str_member :: "string \<Rightarrow> json \<Rightarrow> string option" where
  "str_member name j =
     (case j of JObj kvs \<Rightarrow> (case map_of kvs name of Some (JStr s) \<Rightarrow> Some s | _ \<Rightarrow> None) | _ \<Rightarrow> None)"

definition validateProfileAliasIntegrity :: "json \<Rightarrow> goerr option" where
  "validateProfileAliasIntegrity doc =
     (case doc of
        JObj root \<Rightarrow>
          let aliases = (case arr_member ''profiles'' root of
                           None \<Rightarrow> [] | Some ps \<Rightarrow> List.map_filter (str_member ''alias'') ps)
          in (case arr_member ''projects'' root of
                None \<Rightarrow> None
              | Some ps \<Rightarrow>
                  first_error (\<lambda>p. case str_member ''profile_alias'' p of
                                 None \<Rightarrow> None
                               | Some al \<Rightarrow> if al \<in> set aliases then None else Some [ConfigE ErrDanglingProfileAlias]) ps)
      | _ \<Rightarrow> None)"

definition Validate :: "(json \<Rightarrow> bool) \<Rightarrow> content \<Rightarrow> goerr option" where
  "Validate schema raw =
     (case raw of
        Blob _ \<Rightarrow> Some [ConfigE ErrInvalidJSON]
      | Doc doc \<Rightarrow>
          if \<not> schema doc then Some [ConfigE ErrSchemaViolation]
          else (case validateNoSecrets doc of
                  Some err \<Rightarrow> Some err
                | None \<Rightarrow> validateProfileAliasIntegrity doc))"

section \<open>Migration (migrate.go, migrate\_v0\_to\_v1.go)\<close>

definition schemaVersionOf :: "content \<Rightarrow> int res" where
  "schemaVersionOf raw =
     (case raw of
        Blob _ \<Rightarrow> Inl [ConfigE ErrInvalidJSON]
      | Doc doc \<Rightarrow>
          (case Option.bind (jmembers doc) (\<lambda>m. jptr jint (jget ''schema_version'' m)) of
             None \<Rightarrow> Inl [ConfigE ErrInvalidJSON]
           | Some None \<Rightarrow> Inr 0
           | Some (Some v) \<Rightarrow> Inr v))"

record v0Config =
  v0Language :: string
  v0Profile :: Profile
  v0Projects :: "Project list option"
  v0Settings :: "Settings option"

definition json_v0 :: "json \<Rightarrow> v0Config option" where
  "json_v0 j = Option.bind (jmembers j) (\<lambda>m.
     Option.bind (jstring (jget ''language'' m)) (\<lambda>la. Option.bind (json_profile (jget ''profile'' m)) (\<lambda>pf.
     Option.bind (jptr (jlist json_project) (jget ''projects'' m)) (\<lambda>pj.
     Option.bind (jptr json_settings (jget ''settings'' m)) (\<lambda>st.
     Some \<lparr>v0Language = la, v0Profile = pf, v0Projects = pj, v0Settings = st\<rparr>)))))"

type_synonym migration = "content \<Rightarrow> (content \<times> int) res"

definition migrateV0toV1 :: migration where
  "migrateV0toV1 raw =
     (case schemaVersionOf raw of
        Inl err \<Rightarrow> Inl err
      | Inr version \<Rightarrow>
          if version \<ge> Current then Inr (raw, version)
          else (case (case raw of Blob _ \<Rightarrow> None | Doc j \<Rightarrow> json_v0 j) of
             None \<Rightarrow> Inl [ConfigE ErrInvalidJSON]
           | Some legacy \<Rightarrow>
               let la = (if v0Language legacy = [] then ''en'' else v0Language legacy);
                   cfg = \<lparr>cfSchemaVersion = Current, cfLanguage = la, cfProfiles = Some [v0Profile legacy],
                          cfProjects = v0Projects legacy, cfSettings = v0Settings legacy\<rparr>;
                   cfg = (if cfProjects cfg = None then cfg\<lparr>cfProjects := Some []\<rparr> else cfg)
               in Inr (Doc (config_json cfg), Current)))"

definition migrations :: "int \<Rightarrow> migration option" where
  "migrations = [0 \<mapsto> migrateV0toV1]"

text \<open>The loop of \<open>Migrate\<close>; the check of forward progress is what makes it end.\<close>

function migrate_loop :: "(int \<Rightarrow> migration option) \<Rightarrow> content \<Rightarrow> int \<Rightarrow> content res" where
  "migrate_loop ms current version =
     (if version \<ge> Current then Inr current
      else (case ms version of
        None \<Rightarrow> Inl [ConfigE ErrMigrationFailed, ConfigE ErrNoMigrator]
      | Some migration \<Rightarrow>
          (case migration current of
             Inl err \<Rightarrow> Inl (wrap (ConfigE ErrMigrationFailed) err)
           | Inr (nxt, newVersion) \<Rightarrow>
               if newVersion \<le> version then Inl [ConfigE ErrMigrationFailed]
               else migrate_loop ms nxt newVersion)))"
  by pat_completeness auto
termination
  by (relation "measure (\<lambda>(ms, c, v). nat (Current - v))") auto

declare migrate_loop.simps [simp del]

definition Migrate :: "(json \<Rightarrow> bool) \<Rightarrow> content \<Rightarrow> content res" where
  "Migrate schema data =
     (case schemaVersionOf data of
        Inl err \<Rightarrow> Inl err
      | Inr version \<Rightarrow>
          if version > Current then Inl [ConfigE ErrSchemaMismatch]
          else if version = Current then
            (case Validate schema data of Some err \<Rightarrow> Inl err | None \<Rightarrow> Inr data)
          else (case migrate_loop migrations data version of
             Inl err \<Rightarrow> Inl err
           | Inr current \<Rightarrow>
               (case Validate schema current of
                  Some err \<Rightarrow> Inl (wrap (ConfigE ErrMigrationFailed) err)
                | None \<Rightarrow> Inr current)))"

definition wrapMigrationLoadError :: "goerr \<Rightarrow> goerr" where
  "wrapMigrationLoadError err =
     (if errors_is err (ConfigE ErrInvalidJSON) then wrap (ConfigE ErrCorruptedConfig) err
      else wrap (ConfigE ErrMigrationFailed) err)"

section \<open>The file lock (lock\_unix.go)\<close>

datatype flock = Locked | WouldBlock | FlockFail

text \<open>
  What each round of the loop meets: the context, the answer of \<open>flock\<close>, the nanoseconds between its two
  readings of the clock, whether the context ends during the wait, and by how much the timer is late.
\<close>

record lock_round =
  lrCtx :: "goerr option"
  lrFlock :: flock
  lrDrift :: nat
  lrCancel :: "goerr option"
  lrLate :: nat

function lock_loop :: "(nat \<Rightarrow> lock_round) \<Rightarrow> nat \<Rightarrow> int \<Rightarrow> int \<Rightarrow> int \<Rightarrow> goerr option" where
  "lock_loop rounds k now deadline backoff =
     (case lrCtx (rounds k) of
        Some err \<Rightarrow> Some err
      | None \<Rightarrow>
     (case lrFlock (rounds k) of
        Locked \<Rightarrow> None
      | FlockFail \<Rightarrow> Some [OSErr]
      | WouldBlock \<Rightarrow>
          if now > deadline then Some [ConfigE ErrConfigLocked]
          else
            let now' = now + int (lrDrift (rounds k));
                wait = min backoff (deadline - now')
            in (case lrCancel (rounds k) of
                  Some err \<Rightarrow> Some err
                | None \<Rightarrow>
                    lock_loop rounds (Suc k) (now' + max 0 wait + int (Suc (lrLate (rounds k)))) deadline
                      (if backoff < 250000000 then backoff * 2 else backoff))))"
  by pat_completeness auto
termination
  by (relation "measure (\<lambda>(r, k, now, deadline, b). nat (deadline + 1 - now))") auto

declare lock_loop.simps [simp del]

text \<open>\<open>lockExclusive\<close>: the lock file is opened first; the result is the error, if any.\<close>

definition lockExclusive ::
  "(nat \<Rightarrow> lock_round) \<Rightarrow> int \<Rightarrow> int \<Rightarrow> int \<Rightarrow> 'z World_scheme \<Rightarrow> goerr option \<times> 'z World_scheme" where
  "lockExclusive rounds start timeout initialBackoff w =
     (let timeout = (if timeout \<le> 0 then 5000000000 else timeout);
          initialBackoff = (if initialBackoff \<le> 0 then 10000000 else initialBackoff)
      in case sys w of
           (False, w) \<Rightarrow> (Some [OSErr], w)
         | (True, w) \<Rightarrow> (lock_loop rounds 0 start (start + timeout) initialBackoff, w))"

section \<open>Saving (save.go)\<close>

definition tempPath :: "string \<Rightarrow> 'z World_scheme \<Rightarrow> string res \<times> 'z World_scheme" where
  "tempPath path w =
     (case rand_hex w of
        (None, w) \<Rightarrow> (Inl [OSErr], w)
      | (Some suffix, w) \<Rightarrow> (Inr (path @ ''.tmp.'' @ itoa (pid w) @ ''.'' @ suffix), w))"

definition writeTempFile :: "string \<Rightarrow> content \<Rightarrow> 'z World_scheme \<Rightarrow> goerr option \<times> 'z World_scheme" where
  "writeTempFile path raw w =
     (case os_create_excl path w of
        (False, w) \<Rightarrow> (Some [OSErr], w)
      | (True, w) \<Rightarrow>
     (case os_write path raw w of
        (False, w) \<Rightarrow> (Some [OSErr], w)
      | (True, w) \<Rightarrow> (case sys w of (ok, w) \<Rightarrow> (if ok then None else Some [OSErr], w))))"

definition syncDirectory :: "'z World_scheme \<Rightarrow> goerr option \<times> 'z World_scheme" where
  "syncDirectory w =
     (case sys w of
        (False, w) \<Rightarrow> (Some [OSErr], w)
      | (True, w) \<Rightarrow> (case sys w of (ok, w) \<Rightarrow> (if ok then None else Some [OSErr], w)))"

definition marshalConfig :: "(json \<Rightarrow> bool) \<Rightarrow> Config \<Rightarrow> content res" where
  "marshalConfig schema cfg =
     (let raw = Doc (config_json cfg) in
      case Validate schema raw of
        Some err \<Rightarrow>
          if errors_is err (ConfigE ErrSchemaViolation) \<or> errors_is err (ConfigE ErrSecretInConfig)
             \<or> errors_is err (ConfigE ErrDanglingProfileAlias)
          then Inl (wrap (ConfigE ErrSchemaMismatch) err) else Inl err
      | None \<Rightarrow> Inr raw)"

text \<open>What \<open>Save\<close> does while it holds the lock; a failed rename runs the deferred removal.\<close>

definition save_locked :: "(json \<Rightarrow> bool) \<Rightarrow> string \<Rightarrow> Config \<Rightarrow> 'z World_scheme \<Rightarrow> goerr option \<times> 'z World_scheme" where
  "save_locked schema path cfg w =
     (case marshalConfig schema cfg of
        Inl err \<Rightarrow> (Some err, w)
      | Inr raw \<Rightarrow>
     (case tempPath path w of
        (Inl err, w) \<Rightarrow> (Some err, w)
      | (Inr tmpPath, w) \<Rightarrow>
     (case writeTempFile tmpPath raw w of
        (Some err, w) \<Rightarrow> (Some err, w)
      | (None, w) \<Rightarrow>
     (case os_rename tmpPath path w of
        (False, w) \<Rightarrow> (Some [OSErr], snd (os_remove tmpPath w))
      | (True, w) \<Rightarrow> syncDirectory w))))"

definition Save ::
  "(json \<Rightarrow> bool) \<Rightarrow> (nat \<Rightarrow> lock_round) \<Rightarrow> int \<Rightarrow> string \<Rightarrow> Config option \<Rightarrow> 'z World_scheme env \<Rightarrow> goerr option \<times> 'z World_scheme env" where
  "Save schema rounds start path cfg0 e =
     (case check_ctx e of
        (Some err, e) \<Rightarrow> (Some err, e)
      | (None, e) \<Rightarrow>
     (case cfg0 of
        None \<Rightarrow> (Some [ConfigE ErrSchemaMismatch], e)
      | Some cfg \<Rightarrow>
     (case sys (snd e) of
        (False, w) \<Rightarrow> (Some [OSErr], (fst e, w))
      | (True, w) \<Rightarrow>
     (case lockExclusive rounds start 0 0 w of
        (Some err, w) \<Rightarrow> (Some err, (fst e, w))
      | (None, w) \<Rightarrow> (case save_locked schema path cfg w of (r, w) \<Rightarrow> (r, (fst e, w)))))))"

section \<open>Loading (load.go)\<close>

text \<open>\<open>path/filepath\<close> on Unix: \<open>Clean\<close> over the components, \<open>Dir\<close>, \<open>Base\<close> and \<open>Join\<close> of two names.\<close>

fun clean_rev :: "bool \<Rightarrow> string list \<Rightarrow> string list \<Rightarrow> string list" where
  "clean_rev rooted acc [] = acc"
| "clean_rev rooted acc (p # ps) =
     (if p = [] \<or> p = ''.'' then clean_rev rooted acc ps
      else if p = ''..'' then
        (case acc of
           [] \<Rightarrow> clean_rev rooted (if rooted then [] else [''..'']) ps
         | a # as \<Rightarrow> clean_rev rooted (if a = ''..'' then ''..'' # acc else as) ps)
      else clean_rev rooted (p # acc) ps)"

definition fp_Clean :: "string \<Rightarrow> string" where
  "fp_Clean s =
     (if s = [] then ''.''
      else let rooted = (hd s = CHR ''/''); parts = rev (clean_rev rooted [] (split_char CHR ''/'' s))
           in if rooted then ''/'' @ join ''/'' parts else if parts = [] then ''.'' else join ''/'' parts)"

definition fp_Dir :: "string \<Rightarrow> string" where
  "fp_Dir s = fp_Clean (rev (dropWhile (\<lambda>c. c \<noteq> CHR ''/'') (rev s)))"

definition fp_Base :: "string \<Rightarrow> string" where
  "fp_Base s =
     (if s = [] then ''.''
      else let t = rev (dropWhile (\<lambda>c. c = CHR ''/'') (rev s))
           in if t = [] then ''/'' else rev (takeWhile (\<lambda>c. c \<noteq> CHR ''/'') (rev t)))"

definition fp_Join :: "string \<Rightarrow> string \<Rightarrow> string" where
  "fp_Join a b = (let parts = filter (\<lambda>x. x \<noteq> []) [a, b] in if parts = [] then [] else fp_Clean (join ''/'' parts))"

text \<open>\<open>stamp\<close> renders the time of the backup in the layout of its name.\<close>

definition backupOriginal ::
  "(time_text \<Rightarrow> string) \<Rightarrow> string \<Rightarrow> int \<Rightarrow> content \<Rightarrow> 'z World_scheme \<Rightarrow> goerr option \<times> 'z World_scheme" where
  "backupOriginal stamp path oldVersion raw w =
     (case utc_now w of (t, w) \<Rightarrow>
        let name = fp_Base path @ ''.bak.v'' @ itoa oldVersion @ ''.'' @ stamp t;
            backupPath = fp_Join (fp_Dir path) name
        in (case os_create_excl backupPath w of
              (False, w) \<Rightarrow> (Some [OSErr], w)
            | (True, w) \<Rightarrow>
           (case os_write backupPath raw w of
              (False, w) \<Rightarrow> (Some [OSErr], w)
            | (True, w) \<Rightarrow> (case sys w of (ok, w) \<Rightarrow> (if ok then None else Some [OSErr], w)))))"

definition Load ::
  "(json \<Rightarrow> bool) \<Rightarrow> (time_text \<Rightarrow> string) \<Rightarrow> (nat \<Rightarrow> lock_round) \<Rightarrow> int \<Rightarrow> string \<Rightarrow> 'z World_scheme env
     \<Rightarrow> Config res \<times> 'z World_scheme env" where
  "Load schema stamp rounds start path e =
     (case check_ctx e of
        (Some err, e) \<Rightarrow> (Inl err, e)
      | (None, e) \<Rightarrow>
     (case os_ReadFile path (snd e) of
        (NotExist, w) \<Rightarrow> (Inr DefaultConfig, (fst e, w))
      | (ReadFail, w) \<Rightarrow> (Inl [ConfigE ErrCorruptedConfig, OSErr], (fst e, w))
      | (Read raw, w) \<Rightarrow>
     (case schemaVersionOf raw of
        Inl err \<Rightarrow> (Inl (wrap (ConfigE ErrCorruptedConfig) err), (fst e, w))
      | Inr version \<Rightarrow>
          if version > Current then (Inl [ConfigE ErrSchemaMismatch], (fst e, w))
          else if version < Current then
            (case Migrate schema raw of
               Inl err \<Rightarrow> (Inl (wrapMigrationLoadError err), (fst e, w))
             | Inr migratedRaw \<Rightarrow>
            (case backupOriginal stamp path version raw w of
               (Some err, w) \<Rightarrow> (Inl (wrap (ConfigE ErrMigrationFailed) err), (fst e, w))
             | (None, w) \<Rightarrow>
            (case (case migratedRaw of Blob _ \<Rightarrow> None | Doc j \<Rightarrow> json_config j) of
               None \<Rightarrow> (Inl [ConfigE ErrMigrationFailed], (fst e, w))
             | Some migrated \<Rightarrow>
                 (case Save schema rounds start path (Some migrated) (fst e, w) of
                    (Some err, e) \<Rightarrow> (Inl (wrap (ConfigE ErrMigrationFailed) err), e)
                  | (None, e) \<Rightarrow> (Inr migrated, e)))))
          else
            (case Validate schema raw of
               Some vErr \<Rightarrow>
                 if errors_is vErr (ConfigE ErrSchemaViolation) \<or> errors_is vErr (ConfigE ErrSecretInConfig)
                    \<or> errors_is vErr (ConfigE ErrDanglingProfileAlias)
                 then (Inl (wrap (ConfigE ErrSchemaMismatch) vErr), (fst e, w))
                 else (Inl (wrap (ConfigE ErrCorruptedConfig) vErr), (fst e, w))
             | None \<Rightarrow>
                 (case (case raw of Blob _ \<Rightarrow> None | Doc j \<Rightarrow> json_config j) of
                    None \<Rightarrow> (Inl [ConfigE ErrCorruptedConfig], (fst e, w))
                  | Some cfg \<Rightarrow> (Inr cfg, (fst e, w)))))))"

section \<open>What validation accepts\<close>

text \<open>The strings of a document (its keys are not looked at).\<close>

fun json_strings :: "json \<Rightarrow> string set" where
  "json_strings (JStr s) = {s}"
| "json_strings (JArr xs) = (\<Union>x \<in> set xs. json_strings x)"
| "json_strings (JObj kvs) = (\<Union>kv \<in> set kvs. json_strings (snd kv))"
| "json_strings _ = {}"

lemma walkStrings_None: "walkStrings j = None \<longleftrightarrow> (\<forall>s \<in> json_strings j. \<not> secret_string s)"
  by (induction j) (auto simp: first_error_None list_all_iff)

lemma first_error_in: "first_error f xs = Some e \<Longrightarrow> \<exists>x \<in> set xs. f x = Some e"
  by (induction xs) (auto split: option.splits)

lemma walkStrings_error: "walkStrings j = Some e \<Longrightarrow> e = [ConfigE ErrSecretInConfig]"
  by (induction j) (auto dest!: first_error_in split: if_splits)

lemma alias_error: "validateProfileAliasIntegrity j = Some e \<Longrightarrow> e = [ConfigE ErrDanglingProfileAlias]"
  by (auto simp: validateProfileAliasIntegrity_def Let_def dest!: first_error_in split: json.splits option.splits if_splits)

text \<open>The aliases a document defines and those its projects refer to.\<close>

definition defined_aliases :: "json \<Rightarrow> string set" where
  "defined_aliases doc = {al. \<exists>root ps p. doc = JObj root \<and> arr_member ''profiles'' root = Some ps
     \<and> p \<in> set ps \<and> str_member ''alias'' p = Some al}"

definition used_aliases :: "json \<Rightarrow> string set" where
  "used_aliases doc = {al. \<exists>root ps p. doc = JObj root \<and> arr_member ''projects'' root = Some ps
     \<and> p \<in> set ps \<and> str_member ''profile_alias'' p = Some al}"

lemma set_map_filter: "set (List.map_filter f xs) = {y. \<exists>x \<in> set xs. f x = Some y}"
  by (induction xs) (auto split: option.splits)

lemma alias_None: "validateProfileAliasIntegrity j = None \<longleftrightarrow> used_aliases j \<subseteq> defined_aliases j"
proof (cases j)
  case (JObj root)
  define al where "al = (case arr_member ''profiles'' root of None \<Rightarrow> [] | Some ps \<Rightarrow> List.map_filter (str_member ''alias'') ps)"
  have d: "set al = defined_aliases j"
    by (cases "arr_member ''profiles'' root") (auto simp: al_def defined_aliases_def JObj set_map_filter)
  show ?thesis
  proof (cases "arr_member ''projects'' root")
    case None
    then show ?thesis by (simp add: JObj validateProfileAliasIntegrity_def used_aliases_def)
  next
    case (Some ps)
    have "used_aliases j = {a. \<exists>p \<in> set ps. str_member ''profile_alias'' p = Some a}"
      using Some by (auto simp: used_aliases_def JObj)
    moreover have "validateProfileAliasIntegrity j = None \<longleftrightarrow>
        (\<forall>p \<in> set ps. \<forall>a. str_member ''profile_alias'' p = Some a \<longrightarrow> a \<in> set al)"
      using Some by (auto simp: JObj validateProfileAliasIntegrity_def al_def [symmetric] Let_def
          first_error_None list_all_iff split: option.splits if_splits)
    ultimately show ?thesis using d by blast
  qed
qed (auto simp: validateProfileAliasIntegrity_def used_aliases_def)

lemma Validate_None:
  "Validate schema raw = None \<longleftrightarrow>
     (\<exists>doc. raw = Doc doc \<and> schema doc \<and> (\<forall>s \<in> json_strings doc. \<not> secret_string s)
        \<and> used_aliases doc \<subseteq> defined_aliases doc)"
  by (auto simp: Validate_def validateNoSecrets_def walkStrings_None [symmetric] alias_None split: content.splits option.splits)

text \<open>
  \<open>Validate\<close> accepts exactly the JSON documents that conform to the schema, hold no string shaped like a
  credential anywhere, and whose projects refer to aliases of existing profiles.
\<close>

theorem Validate_exact:
  "Validate schema raw = None \<longleftrightarrow>
     (\<exists>doc. raw = Doc doc \<and> schema doc \<and> {s \<in> json_strings doc. secret_string s} = {}
        \<and> used_aliases doc \<subseteq> defined_aliases doc)"
  unfolding Validate_None by blast

section \<open>Saving\<close>

lemma temp_copies: "tempPath = pendingTempPath" "writeTempFile = writePendingTemp" "syncDirectory = fsyncDir"
  by (simp_all add: fun_eq_iff tempPath_def pendingTempPath_def writeTempFile_def writePendingTemp_def
      syncDirectory_def fsyncDir_def)

lemma save_locked_replace:
  "save_locked schema path cfg w =
     (case marshalConfig schema cfg of Inl err \<Rightarrow> (Some err, w) | Inr raw \<Rightarrow> replace_file path raw w)"
  unfolding save_locked_def replace_file_def temp_copies ..

lemma marshalConfig_ok:
  "marshalConfig schema cfg = Inr raw \<longleftrightarrow> raw = Doc (config_json cfg) \<and> Validate schema raw = None"
  by (auto simp: marshalConfig_def Let_def split: option.splits if_splits)

lemma lockExclusive_world: "lockExclusive r s t b w = (x, w') \<Longrightarrow> w' = snd (sys w)"
  by (auto simp: lockExclusive_def Let_def split: prod.splits bool.splits)

text \<open>The three ways \<open>Save\<close> can go.\<close>

lemma Save_cases:
  assumes "Save schema rounds start path cfg0 e = (r, e')"
  obtains (untouched) err where "r = Some err" "files (snd e') = files (snd e)" "past (snd e') = past (snd e)"
  | (written) w cfg where "cfg0 = Some cfg" "Validate schema (Doc (config_json cfg)) = None"
      "files w = files (snd e)" "past w = past (snd e)" "clock w = clock (snd e)"
      "replace_file path (Doc (config_json cfg)) w = (r, snd e')"
proof -
  obtain c e1 where c: "check_ctx e = (c, e1)" by (meson surj_pair)
  then have s1: "snd e1 = snd e" by (auto simp: check_ctx_def)
  obtain b w1 where w1: "sys (snd e1) = (b, w1)" by (meson surj_pair)
  obtain l w2 where w2: "lockExclusive rounds start 0 0 w1 = (l, w2)" by (meson surj_pair)
  have f: "files w1 = files (snd e)" "past w1 = past (snd e)" "clock w1 = clock (snd e)"
    "files w2 = files (snd e)" "past w2 = past (snd e)" "clock w2 = clock (snd e)"
    using sysD [OF w1] s1 lockExclusive_world [OF w2] by simp_all
  show ?thesis
  proof (cases "c = None \<and> cfg0 \<noteq> None \<and> b \<and> l = None")
    case False
    then obtain err where "r = Some err" "files (snd e') = files (snd e)" "past (snd e') = past (snd e)"
      using assms c w1 w2 f s1 unfolding Save_def
      by (cases c; cases cfg0; cases b; cases l) auto
    then show ?thesis by (rule untouched)
  next
    case True
    then obtain cfg where cfg: "cfg0 = Some cfg" by blast
    have s: "save_locked schema path cfg w2 = (r, snd e')"
      using assms c w1 w2 True cfg by (auto simp: Save_def split: prod.splits)
    show ?thesis
    proof (cases "marshalConfig schema cfg")
      case (Inl err)
      then show ?thesis using s f by (intro untouched) (auto simp: save_locked_replace)
    next
      case (Inr raw)
      then have raw: "raw = Doc (config_json cfg)" "Validate schema raw = None" using marshalConfig_ok [of schema cfg raw] by blast+
      have "replace_file path raw w2 = (r, snd e')" using s Inr by (simp add: save_locked_replace)
      then show ?thesis using f cfg raw by (intro written [of cfg w2]) simp_all
    qed
  qed
qed

section \<open>The document of a configuration\<close>

definition time_ok :: "time_text option \<Rightarrow> bool" where
  "time_ok t \<longleftrightarrow> (case t of None \<Rightarrow> True | Some x \<Rightarrow> rfc3339 x)"

definition profile_ok :: "Profile \<Rightarrow> bool" where
  "profile_ok p \<longleftrightarrow> utf8_ok (pfAlias p) \<and> utf8_ok (pfType p) \<and> utf8_ok (pfHost p) \<and> in_int64 (pfPort p)
     \<and> utf8_ok (pfUser p) \<and> list_all (\<lambda>(k, v). utf8_ok k \<and> utf8_ok v) (pfProperties p)"

definition secret_ok :: "SecretMeta \<Rightarrow> bool" where
  "secret_ok s \<longleftrightarrow> utf8_ok (smKey s) \<and> rfc3339 (smCreatedAt s) \<and> time_ok (smLastRotated s) \<and> utf8_ok (smSource s)
     \<and> time_ok (smLastSyncedGitHub s) \<and> time_ok (smLastSyncedServer s) \<and> in_int64 (smRotationReminderDays s)"

definition project_ok :: "Project \<Rightarrow> bool" where
  "project_ok p \<longleftrightarrow> utf8_ok (pjID p) \<and> utf8_ok (pjDomain p) \<and> utf8_ok (pjProfileAlias p) \<and> utf8_ok (pjRepo p)
     \<and> utf8_ok (pjLocalPath p) \<and> utf8_ok (pjStack p) \<and> utf8_ok (pjNodeVersion p) \<and> time_ok (pjImportedAt p)
     \<and> list_all secret_ok (pjSecretsMeta p)"

definition config_ok :: "Config \<Rightarrow> bool" where
  "config_ok c \<longleftrightarrow> in_int64 (cfSchemaVersion c) \<and> utf8_ok (cfLanguage c)
     \<and> list_all profile_ok (case cfProfiles c of None \<Rightarrow> [] | Some ps \<Rightarrow> ps)
     \<and> list_all project_ok (case cfProjects c of None \<Rightarrow> [] | Some ps \<Rightarrow> ps)
     \<and> (case cfSettings c of None \<Rightarrow> True | Some s \<Rightarrow> in_int64 (stRefreshIntervalS s))"

lemma jget_opt_time:
  "jget n (opt_time k t) = (case t of None \<Rightarrow> JNull | Some x \<Rightarrow> if to_lower k = to_lower n then JStr x else JNull)"
  by (simp add: opt_time_def jget_Cons split: option.splits)

lemma opt_time_keys: "list_all P (opt_time k t) \<longleftrightarrow> (case t of None \<Rightarrow> True | Some x \<Rightarrow> P (k, JStr x))"
  by (simp add: opt_time_def split: option.splits)

lemma int64_0 [simp]: "in_int64 0" by (simp add: in_int64_def)

text \<open>The member names are their own lower case.\<close>

lemma names_lower:
  "to_lower ''alias'' = ''alias''" "to_lower ''type'' = ''type''" "to_lower ''host'' = ''host''"
  "to_lower ''port'' = ''port''" "to_lower ''user'' = ''user''" "to_lower ''properties'' = ''properties''"
  "to_lower ''key'' = ''key''" "to_lower ''created_at'' = ''created_at''" "to_lower ''last_rotated'' = ''last_rotated''"
  "to_lower ''source'' = ''source''" "to_lower ''last_synced_github'' = ''last_synced_github''" "to_lower ''last_synced_server'' = ''last_synced_server''"
  "to_lower ''rotation_reminder_days'' = ''rotation_reminder_days''" "to_lower ''id'' = ''id''" "to_lower ''domain'' = ''domain''"
  "to_lower ''profile_alias'' = ''profile_alias''" "to_lower ''repo'' = ''repo''" "to_lower ''local_path'' = ''local_path''"
  "to_lower ''stack'' = ''stack''" "to_lower ''node_version'' = ''node_version''" "to_lower ''imported_at'' = ''imported_at''"
  "to_lower ''secrets_meta'' = ''secrets_meta''" "to_lower ''expert_mode'' = ''expert_mode''" "to_lower ''refresh_interval_s'' = ''refresh_interval_s''"
  "to_lower ''schema_version'' = ''schema_version''" "to_lower ''language'' = ''language''" "to_lower ''profiles'' = ''profiles''"
  "to_lower ''projects'' = ''projects''" "to_lower ''settings'' = ''settings''"
  by (simp_all add: to_lower_def lower_char_def less_eq_char_def)

lemmas decode_simps = jget_simps jget_opt_time opt_time_keys names_lower

lemma profile_roundtrip: "profile_ok p \<Longrightarrow> json_profile (profile_json p) = Some p"
  by (simp add: profile_ok_def json_profile_def profile_json_def decode_simps jstrmap_jmap)

lemma opt_time_read: "time_ok t \<Longrightarrow> jptr jtime (case t of None \<Rightarrow> JNull | Some x \<Rightarrow> JStr x) = Some t"
  by (auto simp: time_ok_def split: option.splits)

lemma secret_roundtrip: "secret_ok s \<Longrightarrow> json_secret (secret_json s) = Some s"
  by (cases "smLastRotated s"; cases "smLastSyncedGitHub s"; cases "smLastSyncedServer s")
    (simp_all add: secret_ok_def json_secret_def secret_json_def decode_simps time_ok_def)

lemma jstring_omit: "utf8_ok x \<Longrightarrow> jstring (if x = [] then JNull else jstr x) = Some x"
  by simp

lemma project_members:
  assumes "project_json p = JObj m"
  shows "jget ''id'' m = jstr (pjID p)" "jget ''domain'' m = jstr (pjDomain p)"
    "jget ''profile_alias'' m = jstr (pjProfileAlias p)"
    "jget ''repo'' m = (if pjRepo p = [] then JNull else jstr (pjRepo p))"
    "jget ''local_path'' m = (if pjLocalPath p = [] then JNull else jstr (pjLocalPath p))"
    "jget ''stack'' m = (if pjStack p = [] then JNull else jstr (pjStack p))"
    "jget ''node_version'' m = (if pjNodeVersion p = [] then JNull else jstr (pjNodeVersion p))"
    "jget ''imported_at'' m = (case pjImportedAt p of None \<Rightarrow> JNull | Some x \<Rightarrow> JStr x)"
    "jget ''secrets_meta'' m =
       (if pjSecretsMeta p = [] then JNull else JArr (map secret_json (pjSecretsMeta p)))"
proof -
  note m = assms [unfolded project_json_def json.inject, symmetric]
  show "jget ''id'' m = jstr (pjID p)" by (cases "pjImportedAt p") (simp_all add: m decode_simps)
  show "jget ''domain'' m = jstr (pjDomain p)" by (cases "pjImportedAt p") (simp_all add: m decode_simps)
  show "jget ''profile_alias'' m = jstr (pjProfileAlias p)" by (cases "pjImportedAt p") (simp_all add: m decode_simps)
  show "jget ''repo'' m = (if pjRepo p = [] then JNull else jstr (pjRepo p))"
    by (cases "pjImportedAt p") (simp_all add: m decode_simps)
  show "jget ''local_path'' m = (if pjLocalPath p = [] then JNull else jstr (pjLocalPath p))"
    by (cases "pjImportedAt p") (simp_all add: m decode_simps)
  show "jget ''stack'' m = (if pjStack p = [] then JNull else jstr (pjStack p))"
    by (cases "pjImportedAt p") (simp_all add: m decode_simps)
  show "jget ''node_version'' m = (if pjNodeVersion p = [] then JNull else jstr (pjNodeVersion p))"
    by (cases "pjImportedAt p") (simp_all add: m decode_simps)
  show "jget ''imported_at'' m = (case pjImportedAt p of None \<Rightarrow> JNull | Some x \<Rightarrow> JStr x)"
    by (cases "pjImportedAt p") (simp_all add: m decode_simps)
  show "jget ''secrets_meta'' m =
       (if pjSecretsMeta p = [] then JNull else JArr (map secret_json (pjSecretsMeta p)))"
    by (cases "pjImportedAt p") (simp_all add: m decode_simps)
qed

lemma project_roundtrip: "project_ok p \<Longrightarrow> json_project (project_json p) = Some p"
proof -
  assume p: "project_ok p"
  obtain m where m: "project_json p = JObj m" by (simp add: project_json_def)
  have "jlist json_secret (JArr (map secret_json (pjSecretsMeta p))) = Some (pjSecretsMeta p)"
    using p by (intro jlist_map) (auto simp: project_ok_def list_all_iff secret_roundtrip)
  then have "jlist json_secret (if pjSecretsMeta p = [] then JNull else JArr (map secret_json (pjSecretsMeta p)))
      = Some (pjSecretsMeta p)" by simp
  then show ?thesis using p
    by (simp add: json_project_def m project_members [OF m] project_ok_def jstring_omit opt_time_read del: jstring.simps if_split)
qed

lemma settings_roundtrip: "in_int64 (stRefreshIntervalS s) \<Longrightarrow> json_settings (settings_json s) = Some s"
  by (simp add: json_settings_def settings_json_def decode_simps)

lemma slice_roundtrip:
  assumes "\<And>x. P x \<Longrightarrow> f (g x) = Some x" "list_all P (case xs of None \<Rightarrow> [] | Some ys \<Rightarrow> ys)"
  shows "jptr (jlist f) (slice_json g xs) = Some xs"
proof (cases xs)
  case (Some ys)
  have "jlist f (JArr (map g ys)) = Some ys"
    using assms Some by (intro jlist_map) (auto simp: list_all_iff)
  then show ?thesis using Some by (simp add: slice_json_def)
qed (simp add: slice_json_def)

lemma config_roundtrip:
  assumes "config_ok c"
  shows "json_config (config_json c) = Some c"
proof -
  have "jptr (jlist json_profile) (slice_json profile_json (cfProfiles c)) = Some (cfProfiles c)"
    "jptr (jlist json_project) (slice_json project_json (cfProjects c)) = Some (cfProjects c)"
    using assms
    by (auto intro: slice_roundtrip [OF profile_roundtrip] slice_roundtrip [OF project_roundtrip] simp: config_ok_def)
  moreover have "jptr json_settings (case cfSettings c of None \<Rightarrow> JNull | Some s \<Rightarrow> settings_json s) = Some (cfSettings c)"
    using assms settings_roundtrip
    by (auto simp: config_ok_def settings_json_def split: option.splits)
  ultimately show ?thesis using assms
    by (cases "cfSettings c") (simp_all add: config_ok_def json_config_def config_json_def decode_simps)
qed

lemma schemaVersionOf_config: "config_ok c \<Longrightarrow> schemaVersionOf (Doc (config_json c)) = Inr (cfSchemaVersion c)"
  by (cases "cfSettings c") (simp_all add: config_ok_def schemaVersionOf_def config_json_def decode_simps)

section \<open>Files next to the configuration\<close>

text \<open>Replacing a file leaves every other existing file as it is: the temporary name is created exclusively.\<close>

lemma create_keeps: "os_create_excl q w = (b, w') \<Longrightarrow> files w p \<noteq> None \<Longrightarrow> files w' p = files w p"
  by (auto simp: os_create_excl_def set_file_def Let_def split: prod.splits if_splits dest!: sysD)

lemma create_fresh: "os_create_excl q w = (True, w') \<Longrightarrow> files w q = None"
  by (auto simp: os_create_excl_def split: prod.splits if_splits dest!: sysD)

lemma write_keeps: "os_write q c w = (b, w') \<Longrightarrow> q \<noteq> p \<Longrightarrow> files w' p = files w p"
  by (auto simp: os_write_def set_file_def Let_def split: prod.splits if_splits dest!: sysD)

lemma rename_keeps: "os_rename q r w = (b, w') \<Longrightarrow> q \<noteq> p \<Longrightarrow> r \<noteq> p \<Longrightarrow> files w' p = files w p"
  by (auto simp: os_rename_def Let_def split: prod.splits if_splits dest!: sysD)

lemma remove_keeps: "os_remove q w = (b, w') \<Longrightarrow> q \<noteq> p \<Longrightarrow> files w' p = files w p"
  by (auto simp: os_remove_def set_file_def Let_def split: prod.splits if_splits dest!: sysD)

lemma writePendingTemp_keeps:
  assumes "writePendingTemp t c w = (r, w')" "files w p \<noteq> None"
  shows "files w' p = files w p" "r = None \<Longrightarrow> t \<noteq> p"
proof -
  obtain b w1 where 1: "os_create_excl t w = (b, w1)" by (meson surj_pair)
  obtain b2 w2 where 2: "os_write t c w1 = (b2, w2)" by (meson surj_pair)
  have f1: "files w1 p = files w p" using create_keeps [OF 1 assms(2)] .
  have ne: "b \<Longrightarrow> t \<noteq> p" using create_fresh 1 assms(2) by metis
  then have "b \<Longrightarrow> files w2 p = files w p" using write_keeps [OF 2] f1 by simp
  then show "files w' p = files w p" "r = None \<Longrightarrow> t \<noteq> p"
    using assms(1) 1 2 f1 ne by (auto simp: writePendingTemp_def split: prod.splits bool.splits dest!: sysD)
qed

lemma replace_file_keeps:
  assumes "replace_file path raw w = (r, w')" "files w q \<noteq> None" "q \<noteq> path"
  shows "files w' q = files w q"
proof -
  obtain t w1 where 1: "pendingTempPath path w = (t, w1)" by (meson surj_pair)
  have f1: "files w1 = files w" using pendingTempPath_files(1) [of path w] 1 by simp
  show ?thesis
  proof (cases t)
    case (Inr tmp)
    obtain x w2 where 2: "writePendingTemp tmp raw w1 = (x, w2)" by (meson surj_pair)
    have f2: "files w2 q = files w q" and ne: "x = None \<Longrightarrow> tmp \<noteq> q"
      using writePendingTemp_keeps [OF 2, of q] assms(2) f1 by simp_all
    show ?thesis
    proof (cases x)
      case None
      obtain b w3 where 3: "os_rename tmp path w2 = (b, w3)" by (meson surj_pair)
      obtain y w4 where 4: "os_remove tmp w3 = (y, w4)" by (meson surj_pair)
      have f3: "files w3 q = files w q" using rename_keeps [OF 3] ne None assms(3) f2 by simp
      then have "files w4 q = files w q" using remove_keeps [OF 4] ne None by simp
      then show ?thesis using assms(1) 1 2 3 4 Inr None f3 fsyncDir_files(1) [of w3]
        by (cases b) (auto simp: replace_file_def)
    qed (use assms(1) 1 2 Inr f2 in \<open>simp add: replace_file_def\<close>)
  qed (use assms(1) 1 f1 in \<open>simp add: replace_file_def\<close>)
qed

section \<open>Migrating\<close>

lemma schemaVersionOf_json: "in_int64 (cfSchemaVersion c) \<Longrightarrow> schemaVersionOf (Doc (config_json c)) = Inr (cfSchemaVersion c)"
  by (cases "cfSettings c") (simp_all add: schemaVersionOf_def config_json_def decode_simps)

lemma migrateV0_result:
  assumes "migrateV0toV1 raw = Inr (out, v)" "schemaVersionOf raw = Inr version" "version < Current"
  shows "v = Current \<and> (\<exists>c. out = Doc (config_json c) \<and> cfSchemaVersion c = Current)"
  using assms by (auto simp: migrateV0toV1_def Let_def split: option.splits)

lemma migrate_loop_current: "migrate_loop ms c Current = Inr c"
  by (simp add: migrate_loop.simps)

lemma migrate_loop_result:
  assumes "migrate_loop migrations raw version = Inr out" "schemaVersionOf raw = Inr version" "version < Current"
  shows "\<exists>c. out = Doc (config_json c) \<and> cfSchemaVersion c = Current"
proof -
  obtain nxt v where m: "migrateV0toV1 raw = Inr (nxt, v)" "version < v" "migrate_loop migrations nxt v = Inr out"
    using assms(1,3) by (subst (asm) migrate_loop.simps)
      (auto simp: migrations_def split: option.splits sum.splits if_splits)
  then have "v = Current \<and> (\<exists>c. nxt = Doc (config_json c) \<and> cfSchemaVersion c = Current)"
    using migrateV0_result assms(2,3) by blast
  then show ?thesis using m(3) by (auto simp: migrate_loop_current)
qed

text \<open>
  \<open>Migrate\<close> ends for every input, and what it returns is a valid document of the current version on which
  it is the identity: migrating twice is migrating once.
\<close>

theorem Migrate_idempotent:
  assumes "Migrate schema raw = Inr out"
  shows "schemaVersionOf out = Inr Current \<and> Validate schema out = None \<and> Migrate schema out = Inr out"
proof -
  obtain version where v: "schemaVersionOf raw = Inr version" "version \<le> Current"
    using assms by (auto simp: Migrate_def split: sum.splits if_splits)
  have "schemaVersionOf out = Inr Current \<and> Validate schema out = None"
  proof (cases "version = Current")
    case True
    then show ?thesis using assms v by (auto simp: Migrate_def split: option.splits)
  next
    case False
    then have "migrate_loop migrations raw version = Inr out" "Validate schema out = None"
      using assms v by (auto simp: Migrate_def split: sum.splits option.splits)
    moreover obtain c where "out = Doc (config_json c)" "cfSchemaVersion c = Current"
      using migrate_loop_result [OF calculation(1) v(1)] False v(2) by auto
    ultimately show ?thesis using schemaVersionOf_json [of c] by (simp add: Current_def in_int64_def)
  qed
  then show ?thesis by (auto simp: Migrate_def)
qed

section \<open>Properties of the store\<close>

lemma evolves_same: "files w = files v \<Longrightarrow> past w = past v \<Longrightarrow> evolves p A w u \<Longrightarrow> evolves p A v u"
  by (simp add: evolves_def)

text \<open>
  Saving is atomic and guarded: at every moment of \<open>Save\<close>, under every pattern of failing system calls, the
  path holds its previous content or the complete new document, and it changes only to a document that
  \<open>Validate\<close> accepts; a success means the new document is there.
\<close>

theorem Save_atomic:
  assumes "Save schema rounds start path (Some cfg) e = (r, e')"
  shows "evolves path ({files (snd e) path} \<union> {Some raw | raw. raw = Doc (config_json cfg) \<and> Validate schema raw = None})
      (snd e) (snd e')
    \<and> (r = None \<longrightarrow> files (snd e') path = Some (Doc (config_json cfg)))"
  using assms
proof (cases rule: Save_cases)
  case (untouched err)
  then show ?thesis by (simp add: evolves_def)
next
  case (written w c)
  let ?new = "Doc (config_json cfg)"
  have c: "c = cfg" using written(1) by simp
  have "evolves path {files w path, Some ?new} w (snd e')"
    using replace_file_evolves [of path w ?new] written(6) c by simp
  then have "evolves path ({files w path} \<union> {Some raw | raw. raw = ?new \<and> Validate schema raw = None}) w (snd e')"
    by (rule evolves_mono) (use written(2) c in auto)
  then have "evolves path ({files (snd e) path} \<union> {Some raw | raw. raw = ?new \<and> Validate schema raw = None}) (snd e) (snd e')"
    unfolding written(3) by (rule evolves_same [OF written(3,4)])
  moreover have "r = None \<Longrightarrow> files (snd e') path = Some ?new"
    using replace_file_ok [of path ?new w "snd e'"] written(6) c by simp
  ultimately show ?thesis by blast
qed


text \<open>The steps of a migrating \<open>Load\<close> that succeeds.\<close>

lemma Load_migrating:
  assumes "Load schema stamp rounds start path e = (Inr cfg, e')" "files (snd e) path = Some raw"
    "schemaVersionOf raw = Inr version" "version < Current"
  obtains w w' c out where "files w = files (snd e)" "Migrate schema raw = Inr out"
    "backupOriginal stamp path version raw w = (None, w')" "Save schema rounds start path (Some cfg) (c, w') = (None, e')"
proof -
  obtain x e1 where 1: "check_ctx e = (x, e1)" by (meson surj_pair)
  have s1: "snd e1 = snd e" using 1 by (auto simp: check_ctx_def)
  obtain ro w where 2: "os_ReadFile path (snd e1) = (ro, w)" by (meson surj_pair)
  have f: "files w = files (snd e)" using 2 s1 by (auto simp: os_ReadFile_def dest!: sysD split: prod.splits)
  have ro: "ro \<in> {ReadFail, Read raw}"
    using 2 s1 assms(2) by (auto simp: os_ReadFile_def dest!: sysD split: prod.splits if_splits)
  have x: "x = None" using assms(1) 1 by (auto simp: Load_def split: option.splits)
  have "ro = Read raw" using assms(1) 1 2 x ro by (auto simp: Load_def)
  then have body: "(case Migrate schema raw of
               Inl err \<Rightarrow> (Inl (wrapMigrationLoadError err), (fst e1, w))
             | Inr migratedRaw \<Rightarrow>
            (case backupOriginal stamp path version raw w of
               (Some err, w) \<Rightarrow> (Inl (wrap (ConfigE ErrMigrationFailed) err), (fst e1, w))
             | (None, w) \<Rightarrow>
            (case (case migratedRaw of Blob _ \<Rightarrow> None | Doc j \<Rightarrow> json_config j) of
               None \<Rightarrow> (Inl [ConfigE ErrMigrationFailed], (fst e1, w))
             | Some migrated \<Rightarrow>
                 (case Save schema rounds start path (Some migrated) (fst e1, w) of
                    (Some err, e) \<Rightarrow> (Inl (wrap (ConfigE ErrMigrationFailed) err), e)
                  | (None, e) \<Rightarrow> (Inr migrated, e))))) = (Inr cfg, e')"
    using assms 1 2 x by (simp add: Load_def)
  then obtain out where out: "Migrate schema raw = Inr out" by (cases "Migrate schema raw") auto
  obtain b w' where b: "backupOriginal stamp path version raw w = (b, w')" by (meson surj_pair)
  have "b = None" using body out b by (cases b) auto
  then have "Save schema rounds start path (Some cfg) (fst e1, w') = (None, e')"
    using body out b by (auto split: option.splits prod.splits)
  then show ?thesis using that f out b \<open>b = None\<close> by blast
qed

lemma writePendingTemp_fresh: "writePendingTemp t c w = (None, w') \<Longrightarrow> files w t = None"
  by (auto simp: writePendingTemp_def split: prod.splits bool.splits dest!: create_fresh)

lemma backup_write:
  "backupOriginal stamp path v raw w =
     (case utc_now w of (t, w) \<Rightarrow>
        writePendingTemp (fp_Join (fp_Dir path) (fp_Base path @ ''.bak.v'' @ itoa v @ ''.'' @ stamp t)) raw w)"
  unfolding backupOriginal_def writePendingTemp_def Let_def ..

lemma backupOriginal_ok:
  assumes "backupOriginal stamp path v raw w = (None, w')" "files w path \<noteq> None"
  shows "\<exists>q. q \<noteq> path \<and> files w q = None \<and> files w' q = Some raw"
proof -
  obtain t w0 where t: "utc_now w = (t, w0)" by (meson surj_pair)
  have f0: "files w0 = files w" using t by (auto simp: utc_now_def)
  obtain q where q: "writePendingTemp q raw w0 = (None, w')" using assms(1) by (auto simp: backup_write t)
  then show ?thesis
    using writePendingTemp_fresh [OF q] writePendingTemp_ok [OF q] f0 assms(2) by metis
qed

text \<open>
  An old file is never lost: when \<open>Load\<close> migrates a file it leaves a copy of the original content under a
  new name next to the migrated file, and what it returns is what the path then holds.
\<close>

theorem Load_keeps_original:
  assumes "Load schema stamp rounds start path e = (Inr cfg, e')" "files (snd e) path = Some raw"
    "schemaVersionOf raw = Inr version" "version < Current"
  shows "files (snd e') path = Some (Doc (config_json cfg))
    \<and> (\<exists>q. q \<noteq> path \<and> files (snd e) q = None \<and> files (snd e') q = Some raw)"
proof -
  obtain w w' c out where l: "files w = files (snd e)"
    "backupOriginal stamp path version raw w = (None, w')" "Save schema rounds start path (Some cfg) (c, w') = (None, e')"
    by (rule Load_migrating [OF assms]) blast
  obtain q where q: "q \<noteq> path" "files w q = None" "files w' q = Some raw"
    using backupOriginal_ok [OF l(2)] l(1) assms(2) by auto
  from l(3) show ?thesis
  proof (cases rule: Save_cases)
    case (written v cf)
    then have "files (snd e') q = Some raw" "files (snd e') path = Some (Doc (config_json cfg))"
      using replace_file_keeps [OF written(6), of q] replace_file_ok [of path _ v "snd e'"] q by auto
    then show ?thesis using q l(1) by auto
  qed simp
qed

lemma lock_loop_None:
  "lock_loop rounds k now deadline b = None \<Longrightarrow>
     \<exists>n \<ge> k. lrFlock (rounds n) = Locked \<and> (\<forall>j. k \<le> j \<and> j < n \<longrightarrow> lrFlock (rounds j) = WouldBlock)"
proof (induction rounds k now deadline b rule: lock_loop.induct)
  case (1 rounds k now deadline b)
  show ?case
  proof (cases "lrFlock (rounds k)")
    case Locked
    then show ?thesis by (intro exI [of _ k]) auto
  next
    case FlockFail
    then show ?thesis using "1.prems" by (subst (asm) lock_loop.simps) (auto split: option.splits)
  next
    case WouldBlock
    then obtain n where "n \<ge> Suc k" "lrFlock (rounds n) = Locked"
        "\<forall>j. Suc k \<le> j \<and> j < n \<longrightarrow> lrFlock (rounds j) = WouldBlock"
      using "1.prems" [unfolded lock_loop.simps [of rounds k now deadline b]] "1.IH"
      by (auto simp: Let_def split: option.splits if_splits)
    moreover have "lrFlock (rounds j) = WouldBlock" if "k \<le> j" "j < n" for j
      using that calculation WouldBlock by (cases "j = k") auto
    ultimately show ?thesis by (intro exI [of _ n]) auto
  qed
qed

lemma lock_loop_blocked:
  "(\<And>k. lrCtx (rounds k) = None \<and> lrFlock (rounds k) = WouldBlock \<and> lrCancel (rounds k) = None) \<Longrightarrow>
     lock_loop rounds k now deadline b = Some [ConfigE ErrConfigLocked]"
proof (induction rounds k now deadline b rule: lock_loop.induct)
  case (1 rounds k now deadline b)
  then show ?case by (subst lock_loop.simps) (auto simp: Let_def)
qed

text \<open>
  Waiting for the lock ends: whatever the clock and the scheduler do, \<open>lockExclusive\<close> returns; it returns
  without error only after \<open>flock\<close> granted the lock, and when another process keeps the lock and nothing is
  cancelled it returns \<open>ErrConfigLocked\<close>.
\<close>

theorem lock_terminates:
  "(fst (lockExclusive rounds start timeout backoff w) = None \<longrightarrow> (\<exists>n. lrFlock (rounds n) = Locked))
   \<and> ((\<forall>k. lrCtx (rounds k) = None \<and> lrFlock (rounds k) = WouldBlock \<and> lrCancel (rounds k) = None) \<longrightarrow>
        fst (lockExclusive rounds start timeout backoff w) \<in> {Some [OSErr], Some [ConfigE ErrConfigLocked]})"
proof -
  obtain b w' where s: "sys w = (b, w')" by (meson surj_pair)
  obtain d bo where l: "fst (lockExclusive rounds start timeout backoff w) = (if b then lock_loop rounds 0 start d bo else Some [OSErr])"
    by (cases b) (auto simp: lockExclusive_def Let_def s)
  show ?thesis unfolding l using lock_loop_None [of rounds 0 start d bo] lock_loop_blocked [of rounds 0 start d bo] by auto
qed

definition held_elsewhere :: lock_round where
  "held_elsewhere = \<lparr>lrCtx = None, lrFlock = WouldBlock, lrDrift = 3, lrCancel = None, lrLate = 50\<rparr>"

definition free_lock :: lock_round where "free_lock = held_elsewhere\<lparr>lrFlock := Locked\<rparr>"

theorem lock_terminates_witness:
  "fst (lockExclusive (\<lambda>_. held_elsewhere) 0 0 0 example_world) \<in> {Some [OSErr], Some [ConfigE ErrConfigLocked]}"
  using lock_terminates [of "\<lambda>_. held_elsewhere" 0 0 0 example_world] by (simp add: held_elsewhere_def)

definition any_schema :: "json \<Rightarrow> bool" where "any_schema j = (case j of JObj _ \<Rightarrow> True | _ \<Rightarrow> False)"

lemma needs_repeat: "needs P (times (Suc n) r) \<longleftrightarrow> needs P r"
  by (induction n) auto

lemma not_secret_string: "list_all (\<lambda>c. \<not> mark c) v \<Longrightarrow> \<not> secret_string v"
proof -
  have lits: "needs mark (lit ''_'')" "needs mark (lit ''github_pat_'')" "needs mark (lit ''sk-'')"
      "needs mark (lit ''-----BEGIN '')"
    by (auto simp: mark_def lit_def)
  then have "\<forall>p \<in> set secretPatterns. needs mark p" by (simp add: secretPatterns_def)
  then show "list_all (\<lambda>c. \<not> mark c) v \<Longrightarrow> \<not> secret_string v"
    using needs_match_string by (fastforce simp: secret_string_def list_ex_iff list_all_iff)
qed

lemma default_valid: "Validate any_schema (Doc (config_json DefaultConfig)) = None"
  unfolding Validate_None
proof (intro exI conjI)
  have "utf8_fix ''en'' = ''en''" using utf8_ascii [of "''en''"] by (simp add: utf8_ok_def byte_in_def)
  moreover have "\<not> secret_string ''en''" by (rule not_secret_string) (simp add: mark_def)
  ultimately show "\<forall>s\<in>json_strings (config_json DefaultConfig). \<not> secret_string s"
    by (simp add: config_json_def DefaultConfig_def slice_json_def omit_def jstr_def)
qed (auto simp: any_schema_def config_json_def DefaultConfig_def used_aliases_def arr_member_def slice_json_def omit_def)

lemma default_ok: "config_ok DefaultConfig"
  using utf8_ascii [of "''en''"]
  by (simp add: config_ok_def DefaultConfig_def Current_def in_int64_def byte_in_def)

lemma save_default:
  "\<exists>e'. Save any_schema (\<lambda>_. free_lock) 0 ''c.json'' (Some DefaultConfig) (None, example_world) = (None, e')"
  using default_valid
  by (simp add: Save_def check_ctx_def example_world_def lockExclusive_def lock_loop.simps free_lock_def held_elsewhere_def
      save_locked_def marshalConfig_def tempPath_def rand_hex_def writeTempFile_def os_create_excl_def os_write_def
      set_file_def os_rename_def syncDirectory_def Let_def)

theorem Save_atomic_witness:
  "\<exists>e'. Save any_schema (\<lambda>_. free_lock) 0 ''c.json'' (Some DefaultConfig) (None, example_world) = (None, e')
     \<and> files (snd e') ''c.json'' = Some (Doc (config_json DefaultConfig))"
  using save_default Save_atomic [of any_schema "\<lambda>_. free_lock" 0 "''c.json''" DefaultConfig "(None, example_world)" None]
  by blast


text \<open>A version 0 file: one profile and nothing else.\<close>

definition v0_file :: json where
  "v0_file = JObj [(''profile'', JObj [(''alias'', JStr ''main''), (''type'', JStr ''smallhost''), (''host'', JStr ''h''), (''user'', JStr ''u'')])]"

definition v1_config :: Config where
  "v1_config = \<lparr>cfSchemaVersion = Current, cfLanguage = ''en'',
     cfProfiles = Some [\<lparr>pfAlias = ''main'', pfType = ''smallhost'', pfHost = ''h'', pfPort = 0, pfUser = ''u'', pfProperties = []\<rparr>],
     cfProjects = Some [], cfSettings = None\<rparr>"

lemma v0_version: "schemaVersionOf (Doc v0_file) = Inr 0"
  by (simp add: schemaVersionOf_def v0_file_def jget_def to_lower_def lower_char_def less_eq_char_def)

lemma v0_decode: "json_v0 v0_file = Some \<lparr>v0Language = [], v0Profile =
    \<lparr>pfAlias = ''main'', pfType = ''smallhost'', pfHost = ''h'', pfPort = 0, pfUser = ''u'', pfProperties = []\<rparr>,
    v0Projects = None, v0Settings = None\<rparr>"
  by (simp add: json_v0_def json_profile_def v0_file_def jget_def to_lower_def lower_char_def less_eq_char_def)

lemma ascii_fix: "list_all (byte_in 0 0x7F) s \<Longrightarrow> utf8_fix s = s"
  using utf8_ascii by (simp add: utf8_ok_def)

lemma v1_valid: "Validate any_schema (Doc (config_json v1_config)) = None"
  unfolding Validate_None
proof (intro exI conjI)
  have "\<not> secret_string s" if "s \<in> {''en'', ''main'', ''smallhost'', ''h'', ''u''}" for s
    using that by (auto intro!: not_secret_string simp: mark_def)
  moreover have "json_strings (config_json v1_config) = {''en'', ''main'', ''smallhost'', ''h'', ''u''}"
    by (auto simp: config_json_def v1_config_def slice_json_def profile_json_def omit_def jstr_def ascii_fix byte_in_def)
  ultimately show "\<forall>s\<in>json_strings (config_json v1_config). \<not> secret_string s" by simp
qed (auto simp: any_schema_def config_json_def v1_config_def used_aliases_def arr_member_def slice_json_def omit_def)

lemma v1_migrated: "Migrate any_schema (Doc v0_file) = Inr (Doc (config_json v1_config))"
proof -
  have m: "migrateV0toV1 (Doc v0_file) = Inr (Doc (config_json v1_config), Current)"
    by (simp add: migrateV0toV1_def v0_version v0_decode Current_def v1_config_def Let_def)
  have "migrate_loop migrations (Doc v0_file) 0 = Inr (Doc (config_json v1_config))"
    using m by (subst migrate_loop.simps) (simp add: migrations_def Current_def migrate_loop_current [unfolded Current_def])
  then show ?thesis using v1_valid by (simp add: Migrate_def v0_version Current_def)
qed

theorem Migrate_idempotent_witness:
  "schemaVersionOf (Doc (config_json v1_config)) = Inr Current"
  using Migrate_idempotent [OF v1_migrated] by simp

definition v0_world :: World where
  "v0_world = example_world\<lparr>files := [''c.json'' \<mapsto> Doc v0_file]\<rparr>"

lemma v1_ok: "config_ok v1_config"
  by (simp add: config_ok_def v1_config_def Current_def in_int64_def profile_ok_def utf8_ok_def ascii_fix byte_in_def)

lemma v0_backup: "fp_Join (fp_Dir ''c.json'') (fp_Base ''c.json'' @ ''.bak.v'' @ itoa 0 @ ''.'' @ ''now'') = ''c.json.bak.v0.now''"
  by code_simp

lemma load_v0:
  "\<exists>e'. Load any_schema (\<lambda>_. ''now'') (\<lambda>_. free_lock) 0 ''c.json'' (None, v0_world) = (Inr v1_config, e')"
  using v1_valid config_roundtrip [OF v1_ok] v0_backup v1_migrated v0_version
  by (simp add: Load_def Save_def check_ctx_def v0_world_def example_world_def os_ReadFile_def lockExclusive_def lock_loop.simps
      free_lock_def held_elsewhere_def save_locked_def marshalConfig_def tempPath_def rand_hex_def writeTempFile_def
      os_create_excl_def os_write_def set_file_def os_rename_def syncDirectory_def backupOriginal_def utc_now_def Let_def Current_def)

theorem Load_keeps_original_witness:
  "\<exists>e'. Load any_schema (\<lambda>_. ''now'') (\<lambda>_. free_lock) 0 ''c.json'' (None, v0_world) = (Inr v1_config, e')
     \<and> (\<exists>q. q \<noteq> ''c.json'' \<and> files (snd e') q = Some (Doc v0_file))"
proof -
  obtain e' where e: "Load any_schema (\<lambda>_. ''now'') (\<lambda>_. free_lock) 0 ''c.json'' (None, v0_world) = (Inr v1_config, e')"
    using load_v0 by blast
  then show ?thesis using Load_keeps_original [OF e _ v0_version] by (auto simp: v0_world_def Current_def)
qed

end
