(* ===== verification/Secrets.thy ===== *)
theory Secrets
  imports Config_Store Base64
begin

text \<open>
  The secrets store (\<open>src/secrets\<close>): the encrypted fallback file (\<open>fallback.go\<close>, \<open>fallback_crypto.go\<close>,
  \<open>fallback_io.go\<close>, \<open>lock_unix.go\<close>), the OS keyring (\<open>keyring.go\<close>), the master password
  (\<open>password.go\<close>) and the GitHub token slots (\<open>github.go\<close>).

  Argon2id and AES-GCM are libraries: \<open>crypto\<close> names the functions the code calls, and \<open>crypto_ok\<close> what it
  relies on (a 32-byte key, opening undoes sealing, the tag adds 16 bytes, and JSON text can be read back).
  The same record holds the text form of a JSON document, since the vault encrypts text. A failing random
  source panics, which is the outcome \<open>Panic\<close>.
\<close>

section \<open>Primitives (fallback\_crypto.go)\<close>

datatype 'a outcome = Panic | Ret 'a

record crypto =
  IDKey :: "string \<Rightarrow> string \<Rightarrow> string"
  gcmSeal :: "string \<Rightarrow> string \<Rightarrow> string \<Rightarrow> string"
  gcmOpen :: "string \<Rightarrow> string \<Rightarrow> string \<Rightarrow> string option"
  jsonText :: "json \<Rightarrow> string"
  jsonParse :: "string \<Rightarrow> json option"

definition crypto_ok :: "crypto \<Rightarrow> bool" where
  "crypto_ok C \<longleftrightarrow> (\<forall>p s. length (IDKey C p s) = 32)
     \<and> (\<forall>k n p. gcmOpen C k n (gcmSeal C k n p) = Some p \<and> length (gcmSeal C k n p) = length p + 16)
     \<and> (\<forall>j. jsonParse C (jsonText C j) = Some j)"

definition versionV1 :: char where "versionV1 = CHR 0x01"
definition saltSize :: nat where "saltSize = 16"
definition nonceSize :: nat where "nonceSize = 12"
definition gcmTagSize :: nat where "gcmTagSize = 16"
definition MasterPasswordMinLen :: nat where "MasterPasswordMinLen = 12"

text \<open>\<open>readRandom\<close>: an entry of the random script, cut or filled up with zeros to the size of the buffer.\<close>

definition readRandom :: "nat \<Rightarrow> 'z World_scheme \<Rightarrow> string outcome \<times> 'z World_scheme" where
  "readRandom n w =
     (case rnds w of [] \<Rightarrow> (Panic, w) | r # rs \<Rightarrow> (Ret (take n (r @ replicate n CHR 0x00)), w\<lparr>rnds := rs\<rparr>))"

definition deriveKey :: "crypto \<Rightarrow> string \<Rightarrow> string \<Rightarrow> string" where
  "deriveKey C password salt = IDKey C password salt"

text \<open>\<open>aes.NewCipher\<close> takes keys of 16, 24 or 32 bytes.\<close>

definition aes_key :: "string \<Rightarrow> bool" where "aes_key key \<longleftrightarrow> length key \<in> set [16, 24, 32]"

definition seal :: "crypto \<Rightarrow> string \<Rightarrow> string \<Rightarrow> 'z World_scheme \<Rightarrow> (string \<times> string) res outcome \<times> 'z World_scheme" where
  "seal C key plaintext w =
     (if \<not> aes_key key then (Ret (Inl [Foreign 0]), w)
      else (case readRandom nonceSize w of
              (Panic, w) \<Rightarrow> (Panic, w)
            | (Ret nonce, w) \<Rightarrow> (Ret (Inr (nonce, gcmSeal C key nonce plaintext)), w)))"

definition open_vault :: "crypto \<Rightarrow> string \<Rightarrow> string \<Rightarrow> string \<Rightarrow> string res" where
  "open_vault C key nonce ciphertext =
     (if \<not> aes_key key then Inl [Foreign 0]
      else (case gcmOpen C key nonce ciphertext of
              None \<Rightarrow> Inl [SecretsE ErrAuthFailed]
            | Some plaintext \<Rightarrow> Inr plaintext))"

section \<open>The vault (fallback.go)\<close>

record FallbackBackend =
  fbPath :: string
  fbKey :: "string option"
  fbSalt :: string
  fbEntries :: "string gomap"

definition vaultSchema :: int where "vaultSchema = 1"

text \<open>\<open>vaultPayload\<close>: a \<open>[]byte\<close> is base64 text, the nil slice (which an empty value becomes) is null.\<close>

definition bytes_json :: "string \<Rightarrow> json" where
  "bytes_json v = (if v = [] then JNull else JStr (b64_encode v))"

fun json_bytes :: "json \<Rightarrow> string option" where
  "json_bytes (JStr s) = b64_decode s"
| "json_bytes JNull = Some []"
| "json_bytes _ = None"

definition payload_json :: "string gomap \<Rightarrow> json" where
  "payload_json m = JObj [(''schema'', JNum vaultSchema),
     (''entries'', JObj (map (\<lambda>(k, v). (utf8_fix k, bytes_json v)) m))]"

fun json_entries :: "json \<Rightarrow> string gomap option" where
  "json_entries (JObj kvs) = map_option (zip (map fst kvs)) (those (map (\<lambda>kv. json_bytes (snd kv)) kvs))"
| "json_entries JNull = Some []"
| "json_entries _ = None"

definition json_payload :: "json \<Rightarrow> (int \<times> string gomap) option" where
  "json_payload j = Option.bind (jmembers j) (\<lambda>m. Option.bind (jint (jget ''schema'' m)) (\<lambda>s.
     Option.bind (json_entries (jget ''entries'' m)) (\<lambda>es. Some (s, es))))"

definition initFallback :: "crypto \<Rightarrow> string \<Rightarrow> string \<Rightarrow> 'z World_scheme \<Rightarrow> FallbackBackend outcome \<times> 'z World_scheme" where
  "initFallback C path password w =
     (case readRandom saltSize w of
        (Panic, w) \<Rightarrow> (Panic, w)
      | (Ret salt, w) \<Rightarrow>
          (Ret \<lparr>fbPath = path, fbKey = Some (deriveKey C password salt), fbSalt = salt, fbEntries = []\<rparr>, w))"

definition loadFallback :: "crypto \<Rightarrow> string \<Rightarrow> string \<Rightarrow> string \<Rightarrow> FallbackBackend res" where
  "loadFallback C path password raw =
     (if length raw < 1 + saltSize + nonceSize + gcmTagSize then Inl [SecretsE ErrCorruptedSecrets]
      else if raw ! 0 \<noteq> versionV1 then Inl [SecretsE ErrCorruptedSecrets]
      else
        let salt = take saltSize (drop 1 raw);
            nonce = take nonceSize (drop (1 + saltSize) raw);
            ciphertext = drop (1 + saltSize + nonceSize) raw;
            key = deriveKey C password salt
        in (case open_vault C key nonce ciphertext of
              Inl err \<Rightarrow> Inl err
            | Inr plaintext \<Rightarrow>
           (case Option.bind (jsonParse C plaintext) json_payload of
              None \<Rightarrow> Inl [SecretsE ErrCorruptedSecrets]
            | Some (schema, entries) \<Rightarrow>
                if schema \<noteq> vaultSchema then Inl [SecretsE ErrCorruptedSecrets]
                else Inr \<lparr>fbPath = path, fbKey = Some key, fbSalt = salt, fbEntries = entries\<rparr>)))"

definition raw_bytes :: "crypto \<Rightarrow> content \<Rightarrow> string" where
  "raw_bytes C c = (case c of Blob s \<Rightarrow> s | Doc j \<Rightarrow> jsonText C j)"

definition NewFallback :: "crypto \<Rightarrow> string \<Rightarrow> string \<Rightarrow> 'z World_scheme \<Rightarrow> FallbackBackend res outcome \<times> 'z World_scheme" where
  "NewFallback C path password w =
     (if length password < MasterPasswordMinLen then (Ret (Inl [SecretsE ErrMasterPasswordTooShort]), w)
      else (case os_ReadFile path w of
        (Read c, w) \<Rightarrow> (Ret (loadFallback C path password (raw_bytes C c)), w)
      | (NotExist, w) \<Rightarrow>
          (case initFallback C path password w of (Panic, w) \<Rightarrow> (Panic, w) | (Ret b, w) \<Rightarrow> (Ret (Inr b), w))
      | (ReadFail, w) \<Rightarrow> (Ret (Inl [OSErr]), w)))"

definition vault_Close :: "FallbackBackend \<Rightarrow> FallbackBackend" where
  "vault_Close b = b\<lparr>fbKey := None, fbEntries := []\<rparr>"

definition vault_Get :: "string \<Rightarrow> FallbackBackend \<Rightarrow> string res" where
  "vault_Get key b =
     (if fbKey b = None then Inl [SecretsE ErrFallbackLocked]
      else (case map_of (fbEntries b) key of None \<Rightarrow> Inl [SecretsE ErrSecretNotFound] | Some v \<Rightarrow> Inr v))"

text \<open>The lock of the vault is the loop of the configuration's lock, under the background context.\<close>

definition vault_lock :: "(nat \<Rightarrow> lock_round) \<Rightarrow> int \<Rightarrow> 'z World_scheme \<Rightarrow> goerr option \<times> 'z World_scheme" where
  "vault_lock rounds start w =
     (case lockExclusive (\<lambda>k. (rounds k)\<lparr>lrCtx := None, lrCancel := None\<rparr>) start 0 0 w of
        (Some err, w) \<Rightarrow> (Some (if err = [ConfigE ErrConfigLocked] then [SecretsE ErrSecretsLocked] else err), w)
      | (None, w) \<Rightarrow> (None, w))"

definition tempVaultPath :: "string \<Rightarrow> 'z World_scheme \<Rightarrow> string outcome \<times> 'z World_scheme" where
  "tempVaultPath path w =
     (case rand_hex w of
        (None, w) \<Rightarrow> (Panic, w)
      | (Some suffix, w) \<Rightarrow> (Ret (path @ ''.tmp.'' @ itoa (pid w) @ ''.'' @ suffix), w))"

definition syncDir :: "'z World_scheme \<Rightarrow> goerr option \<times> 'z World_scheme" where
  "syncDir w =
     (case sys w of
        (False, w) \<Rightarrow> (Some [OSErr], w)
      | (True, w) \<Rightarrow> (case sys w of (ok, w) \<Rightarrow> (if ok then None else Some [OSErr], w)))"

text \<open>The part of \<open>writeVaultFile\<close> after the temporary file is open: every failure removes it.\<close>

definition publish :: "string \<Rightarrow> string \<Rightarrow> content \<Rightarrow> 'z World_scheme \<Rightarrow> goerr option \<times> 'z World_scheme" where
  "publish tmpPath path blob w =
     (case os_write tmpPath blob w of
        (False, w) \<Rightarrow> (Some [OSErr], snd (os_remove tmpPath w))
      | (True, w) \<Rightarrow>
     (case sys w of
        (False, w) \<Rightarrow> (Some [OSErr], snd (os_remove tmpPath w))
      | (True, w) \<Rightarrow>
     (case sys w of
        (False, w) \<Rightarrow> (Some [OSErr], snd (os_remove tmpPath w))
      | (True, w) \<Rightarrow>
     (case os_rename tmpPath path w of
        (False, w) \<Rightarrow> (Some [OSErr], snd (os_remove tmpPath w))
      | (True, w) \<Rightarrow> syncDir w))))"

definition writeVaultFile ::
  "(nat \<Rightarrow> lock_round) \<Rightarrow> int \<Rightarrow> string \<Rightarrow> content \<Rightarrow> 'z World_scheme \<Rightarrow> goerr option outcome \<times> 'z World_scheme" where
  "writeVaultFile rounds start path blob w =
     (case sys w of
        (False, w) \<Rightarrow> (Ret (Some [OSErr]), w)
      | (True, w) \<Rightarrow>
     (case vault_lock rounds start w of
        (Some err, w) \<Rightarrow> (Ret (Some err), w)
      | (None, w) \<Rightarrow>
     (case tempVaultPath path w of
        (Panic, w) \<Rightarrow> (Panic, w)
      | (Ret tmpPath, w) \<Rightarrow>
     (case os_create_excl tmpPath w of
        (False, w) \<Rightarrow> (Ret (Some [OSErr]), w)
      | (True, w) \<Rightarrow> (case publish tmpPath path blob w of (r, w) \<Rightarrow> (Ret r, w))))))"

definition persistLocked ::
  "crypto \<Rightarrow> (nat \<Rightarrow> lock_round) \<Rightarrow> int \<Rightarrow> FallbackBackend \<Rightarrow> 'z World_scheme \<Rightarrow> goerr option outcome \<times> 'z World_scheme" where
  "persistLocked C rounds start b w =
     (case fbKey b of
        None \<Rightarrow> (Panic, w)
      | Some key \<Rightarrow>
     (case seal C key (jsonText C (payload_json (fbEntries b))) w of
        (Panic, w) \<Rightarrow> (Panic, w)
      | (Ret (Inl err), w) \<Rightarrow> (Ret (Some err), w)
      | (Ret (Inr (nonce, ciphertext)), w) \<Rightarrow>
          writeVaultFile rounds start (fbPath b) (Blob ([versionV1] @ fbSalt b @ nonce @ ciphertext)) w))"

definition vault_Set ::
  "crypto \<Rightarrow> (nat \<Rightarrow> lock_round) \<Rightarrow> int \<Rightarrow> string \<Rightarrow> string \<Rightarrow> FallbackBackend \<Rightarrow> 'z World_scheme
     \<Rightarrow> goerr option outcome \<times> FallbackBackend \<times> 'z World_scheme" where
  "vault_Set C rounds start key value b w =
     (if fbKey b = None then (Ret (Some [SecretsE ErrFallbackLocked]), b, w)
      else
        let b = b\<lparr>fbEntries := mput key value (fbEntries b)\<rparr>
        in (case persistLocked C rounds start b w of (r, w) \<Rightarrow> (r, b, w)))"

definition vault_Delete ::
  "crypto \<Rightarrow> (nat \<Rightarrow> lock_round) \<Rightarrow> int \<Rightarrow> string \<Rightarrow> FallbackBackend \<Rightarrow> 'z World_scheme
     \<Rightarrow> goerr option outcome \<times> FallbackBackend \<times> 'z World_scheme" where
  "vault_Delete C rounds start key b w =
     (if fbKey b = None then (Ret (Some [SecretsE ErrFallbackLocked]), b, w)
      else if map_of (fbEntries b) key = None then (Ret None, b, w)
      else
        let b = b\<lparr>fbEntries := filter (\<lambda>kv. fst kv \<noteq> key) (fbEntries b)\<rparr>
        in (case persistLocked C rounds start b w of (r, w) \<Rightarrow> (r, b, w)))"

definition RotatePassword ::
  "crypto \<Rightarrow> (nat \<Rightarrow> lock_round) \<Rightarrow> int \<Rightarrow> string \<Rightarrow> FallbackBackend \<Rightarrow> 'z World_scheme
     \<Rightarrow> goerr option outcome \<times> FallbackBackend \<times> 'z World_scheme" where
  "RotatePassword C rounds start newPassword b w =
     (if length newPassword < MasterPasswordMinLen then (Ret (Some [SecretsE ErrMasterPasswordTooShort]), b, w)
      else if fbKey b = None then (Ret (Some [SecretsE ErrFallbackLocked]), b, w)
      else (case readRandom saltSize w of
        (Panic, w) \<Rightarrow> (Panic, b, w)
      | (Ret newSalt, w) \<Rightarrow>
          let b' = b\<lparr>fbKey := Some (deriveKey C newPassword newSalt), fbSalt := newSalt\<rparr>
          in (case persistLocked C rounds start b' w of
                (Panic, w) \<Rightarrow> (Panic, b', w)
              | (Ret (Some err), w) \<Rightarrow> (Ret (Some err), b, w)
              | (Ret None, w) \<Rightarrow> (Ret None, b', w))))"

section \<open>The OS keyring (keyring.go)\<close>

text \<open>\<open>go-keyring\<close> is a library over the state of the system's keyring.\<close>

datatype keyring_err = KNotFound | KUnsupported | KOther goerr

record 'k keyringClient =
  kcGet :: "string \<Rightarrow> string \<Rightarrow> 'k \<Rightarrow> (keyring_err + string) \<times> 'k"
  kcSet :: "string \<Rightarrow> string \<Rightarrow> string \<Rightarrow> 'k \<Rightarrow> keyring_err option \<times> 'k"
  kcDelete :: "string \<Rightarrow> string \<Rightarrow> 'k \<Rightarrow> keyring_err option \<times> 'k"

definition keyringService :: string where "keyringService = ''webox''"
definition probeKey :: string where "probeKey = ''__webox_probe__''"

fun kerr :: "keyring_err \<Rightarrow> goerr" where
  "kerr KNotFound = [Foreign 1]"
| "kerr KUnsupported = [Foreign 2]"
| "kerr (KOther e) = e"

text \<open>The probe; on success the backend is the client itself. \<open>token\<close> is what \<open>probeToken\<close> drew.\<close>

definition detectWithClient :: "'k keyringClient \<Rightarrow> string res \<Rightarrow> 'k \<Rightarrow> goerr option \<times> 'k" where
  "detectWithClient client token0 s =
     (case token0 of
        Inl err \<Rightarrow> (Some err, s)
      | Inr token \<Rightarrow>
     (case kcSet client keyringService probeKey token s of
        (Some e, s) \<Rightarrow>
          if e = KUnsupported then (Some [SecretsE ErrKeyringUnavailable], s)
          else (Some (wrap (SecretsE ErrKeyringUnavailable) (kerr e)), s)
      | (None, s) \<Rightarrow>
     (case kcGet client keyringService probeKey s of
        (Inl e, s) \<Rightarrow>
          let s = snd (kcDelete client keyringService probeKey s) in
          if e = KNotFound then (Some [SecretsE ErrBrokenKeyring], s)
          else (Some (wrap (SecretsE ErrKeyringUnavailable) (kerr e)), s)
      | (Inr got, s) \<Rightarrow>
          let s = snd (kcDelete client keyringService probeKey s) in
          if got \<noteq> token then (Some [SecretsE ErrBrokenKeyring], s) else (None, s))))"

definition keyring_Get :: "'k keyringClient \<Rightarrow> string \<Rightarrow> 'k \<Rightarrow> string res \<times> 'k" where
  "keyring_Get client logicalKey s =
     (case kcGet client keyringService logicalKey s of
        (Inl e, s) \<Rightarrow> (Inl (if e = KNotFound then [SecretsE ErrSecretNotFound] else kerr e), s)
      | (Inr v, s) \<Rightarrow> (Inr v, s))"

definition keyring_Set :: "'k keyringClient \<Rightarrow> string \<Rightarrow> string \<Rightarrow> 'k \<Rightarrow> goerr option \<times> 'k" where
  "keyring_Set client logicalKey value s =
     (case kcSet client keyringService logicalKey value s of (e, s) \<Rightarrow> (map_option kerr e, s))"

definition keyring_Delete :: "'k keyringClient \<Rightarrow> string \<Rightarrow> 'k \<Rightarrow> goerr option \<times> 'k" where
  "keyring_Delete client logicalKey s =
     (case kcDelete client keyringService logicalKey s of
        (Some e, s) \<Rightarrow> (if e = KNotFound then None else Some (kerr e), s)
      | (None, s) \<Rightarrow> (None, s))"

section \<open>The master password (password.go)\<close>

definition isWorkstationEnv :: "(string \<Rightarrow> string option) \<Rightarrow> bool" where
  "isWorkstationEnv lookupEnv =
     (if list_ex (\<lambda>k. case lookupEnv k of None \<Rightarrow> False | Some v \<Rightarrow> v \<noteq> [] \<and> v \<noteq> ''false'' \<and> v \<noteq> ''0'')
           [''CI'', ''GITHUB_ACTIONS'', ''GITLAB_CI''] then False
      else list_ex (\<lambda>k. case lookupEnv k of None \<Rightarrow> False | Some v \<Rightarrow> v \<noteq> [])
             [''SSH_CLIENT'', ''DISPLAY'', ''XDG_SESSION_TYPE''])"

definition trimTrailingNewline :: "string \<Rightarrow> string" where
  "trimTrailingNewline raw = rev (dropWhile (\<lambda>c. c = CHR 0x0A \<or> c = CHR 0x0D) (rev raw))"

definition MasterPasswordEnv :: string where "MasterPasswordEnv = ''WEBOX_MASTER_PASSWORD''"

datatype notice = WorkstationWarning | Prompt string | Newline

text \<open>With what it writes to stderr. \<open>terminal\<close> is the no-echo read if stdin is a terminal, \<open>stdin\<close> the plain read.\<close>

definition ReadMasterPassword ::
  "(string \<Rightarrow> string option) \<Rightarrow> string \<Rightarrow> string res option \<Rightarrow> string res \<Rightarrow> string res \<times> notice list" where
  "ReadMasterPassword lookupEnv prompt0 terminal stdin =
     (case lookupEnv MasterPasswordEnv of
        Some pwd \<Rightarrow> (Inr pwd, if isWorkstationEnv lookupEnv then [WorkstationWarning] else [])
      | None \<Rightarrow>
          let prompt = (if prompt0 = [] then ''Webox master password: '' else prompt0) in
          (case terminal of
             Some r \<Rightarrow> (r, [Prompt prompt, Newline])
           | None \<Rightarrow> (map_sum id trimTrailingNewline stdin, [Prompt prompt])))"

section \<open>GitHub tokens (github.go)\<close>

definition GitHubPATKey :: "string \<Rightarrow> string" where
  "GitHubPATKey account0 =
     (let account = trim_space account0; account = (if account = [] then ''default'' else account)
      in ''github:pat:'' @ account)"

definition GetGitHubPAT :: "(string \<Rightarrow> string res) option \<Rightarrow> string \<Rightarrow> string res" where
  "GetGitHubPAT backend_get account =
     (case backend_get of None \<Rightarrow> Inl [SecretsE ErrSecretNotFound] | Some get \<Rightarrow> get (GitHubPATKey account))"

definition SetGitHubPAT :: "(string \<Rightarrow> string \<Rightarrow> 'r) option \<Rightarrow> string \<Rightarrow> string \<Rightarrow> goerr + 'r" where
  "SetGitHubPAT backend_set account token =
     (case backend_set of None \<Rightarrow> Inl [SecretsE ErrSecretNotFound] | Some put \<Rightarrow> Inr (put (GitHubPATKey account) token))"

section \<open>The contract of a backend\<close>

text \<open>What the callers rely on, over the state after a call; \<open>usable\<close> says the backend is usable.\<close>

locale secret_backend =
  fixes get :: "string \<Rightarrow> 's \<Rightarrow> string res"
    and put :: "string \<Rightarrow> string \<Rightarrow> 's \<Rightarrow> 's"
    and del :: "string \<Rightarrow> 's \<Rightarrow> 's"
    and usable :: "'s \<Rightarrow> bool"
  assumes put_usable: "usable s \<Longrightarrow> usable (put k v s)"
    and del_usable: "usable s \<Longrightarrow> usable (del k s)"
    and get_put: "usable s \<Longrightarrow> get k (put k v s) = Inr v"
    and get_put_other: "usable s \<Longrightarrow> j \<noteq> k \<Longrightarrow> get j (put k v s) = get j s"
    and get_del: "usable s \<Longrightarrow> get k (del k s) = Inl [SecretsE ErrSecretNotFound]"
    and get_del_other: "usable s \<Longrightarrow> j \<noteq> k \<Longrightarrow> get j (del k s) = get j s"
begin

lemma pat_roundtrip:
  "usable s \<Longrightarrow> GetGitHubPAT (Some (\<lambda>k. get k (put (GitHubPATKey acc) token s))) acc = Inr token"
  by (simp add: GetGitHubPAT_def get_put)

lemma pat_separate:
  "usable s \<Longrightarrow> GitHubPATKey a \<noteq> GitHubPATKey b \<Longrightarrow>
     GetGitHubPAT (Some (\<lambda>k. get k (put (GitHubPATKey a) token s))) b = GetGitHubPAT (Some (\<lambda>k. get k s)) b"
  by (simp add: GetGitHubPAT_def get_put_other)

lemma put_twice: "usable s \<Longrightarrow> get j (put k v (put k u s)) = get j (put k v s)"
  by (cases "j = k") (simp_all add: get_put get_put_other put_usable)

lemma del_put: "usable s \<Longrightarrow> get j s = Inl [SecretsE ErrSecretNotFound] \<Longrightarrow>
    get j (del k (put k v s)) = get j s"
  by (cases "j = k") (simp_all add: get_del get_del_other get_put_other put_usable)

end

text \<open>The fallback backend keeps the contract in memory, whatever happens on disk.\<close>

abbreviation vault_put where
  "vault_put C r s w k v b \<equiv> fst (snd (vault_Set C r s k v b w))"

abbreviation vault_del where
  "vault_del C r s w k b \<equiv> fst (snd (vault_Delete C r s k b w))"

lemma vault_put_entries:
  "fbKey b \<noteq> None \<Longrightarrow> vault_put C r s w k v b = b\<lparr>fbEntries := mput k v (fbEntries b)\<rparr>"
  by (auto simp: vault_Set_def Let_def split: prod.splits)

lemma map_of_drop: "map_of (filter (\<lambda>kv. fst kv \<noteq> k) m) j = (if j = k then None else map_of m j)"
  by (induction m) auto

lemma filter_absent: "map_of m k = None \<Longrightarrow> filter (\<lambda>kv. fst kv \<noteq> k) m = m"
  by (induction m) (auto split: if_splits)

lemma vault_del_entries:
  "fbKey b \<noteq> None \<Longrightarrow> vault_del C r s w k b = b\<lparr>fbEntries := filter (\<lambda>kv. fst kv \<noteq> k) (fbEntries b)\<rparr>"
  by (auto simp: vault_Delete_def Let_def filter_absent split: prod.splits)

interpretation vault: secret_backend vault_Get "vault_put C rd st w" "vault_del C rd st w" "\<lambda>b. fbKey b \<noteq> None"
  by unfold_locales (simp_all add: vault_put_entries vault_del_entries vault_Get_def map_of_drop del: not_None_eq)

section \<open>The vault file\<close>

definition vault_blob :: "crypto \<Rightarrow> FallbackBackend \<Rightarrow> string \<Rightarrow> string \<Rightarrow> content" where
  "vault_blob C b key nonce = Blob ([versionV1] @ fbSalt b @ nonce @ gcmSeal C key nonce (jsonText C (payload_json (fbEntries b))))"

definition entries_ok :: "string gomap \<Rightarrow> bool" where
  "entries_ok m \<longleftrightarrow> list_all (\<lambda>(k, v). utf8_ok k) m"

lemma json_bytes_json [simp]: "json_bytes (bytes_json v) = Some v"
  by (simp add: bytes_json_def b64_roundtrip)

lemma payload_roundtrip: "entries_ok m \<Longrightarrow> json_payload (payload_json m) = Some (vaultSchema, m)"
proof -
  assume ok: "entries_ok m"
  let ?kvs = "map (\<lambda>(k, v). (utf8_fix k, bytes_json v)) m"
  have "those (map (\<lambda>kv. json_bytes (snd kv)) ?kvs) = Some (map snd m)" by (induction m) auto
  moreover have "map fst ?kvs = map fst m" using ok by (induction m) (auto simp: entries_ok_def utf8_ok_def)
  ultimately have "json_entries (JObj ?kvs) = Some m" by (simp only: json_entries.simps option.map zip_map_fst_snd)
  then show ?thesis
    by (simp add: json_payload_def payload_json_def jget_Cons vaultSchema_def in_int64_def to_lower_def lower_char_def
        less_eq_char_def del: json_entries.simps)
qed

text \<open>Reading a blob back with the password it was written under.\<close>

lemma load_blob:
  assumes "crypto_ok C" "fbKey b = Some (deriveKey C pw (fbSalt b))" "length (fbSalt b) = saltSize" "length nonce = nonceSize"
    "entries_ok (fbEntries b)"
  shows "loadFallback C (fbPath b) pw (raw_bytes C (vault_blob C b (deriveKey C pw (fbSalt b)) nonce)) = Inr b"
proof -
  let ?k = "deriveKey C pw (fbSalt b)" and ?p = "jsonText C (payload_json (fbEntries b))"
  let ?ct = "gcmSeal C ?k nonce ?p"
  have law: "gcmOpen C ?k nonce ?ct = Some ?p" "length ?ct = length ?p + 16" "aes_key ?k" "jsonParse C ?p = Some (payload_json (fbEntries b))"
    using assms(1) by (simp_all add: crypto_ok_def aes_key_def deriveKey_def)
  show ?thesis using assms law payload_roundtrip [OF assms(5)]
    by (simp add: loadFallback_def raw_bytes_def vault_blob_def open_vault_def saltSize_def nonceSize_def gcmTagSize_def Let_def)
qed

lemma syncDir_fsync: "syncDir = fsyncDir"
  by (simp add: fun_eq_iff syncDir_def fsyncDir_def)

lemma evolves_publish:
  assumes "tmp \<noteq> path" "files w path \<in> A" "Some blob \<in> A"
  shows "evolves path A w (snd (publish tmp path blob w))"
proof -
  obtain b1 w1 where 1: "os_write tmp blob w = (b1, w1)" by (meson surj_pair)
  have e1: "evolves path A w w1" using evolves_other(2) [OF assms(1,2)] 1 by (metis snd_conv)
  obtain b2 w2 where 2: "sys w1 = (b2, w2)" by (meson surj_pair)
  obtain b3 w3 where 3: "sys w2 = (b3, w3)" by (meson surj_pair)
  have e2: "evolves path A w w2" using evolves_trans [OF e1] evolves_sys 2 by (metis snd_conv)
  have e3: "evolves path A w w3" using evolves_trans [OF e2] evolves_sys 3 by (metis snd_conv)
  have rm: "evolves path A w (snd (os_remove tmp v))" if "evolves path A w v" for v
    using evolves_trans [OF that evolves_other(3)] assms(1) evolves_files [OF that assms(2)] by blast
  show ?thesis
  proof (cases "b1 \<and> b2 \<and> b3")
    case False
    then show ?thesis using 1 2 3 rm e1 e2 e3 by (cases b1; cases b2; cases b3) (simp_all add: publish_def)
  next
    case True
    obtain b4 w4 where 4: "os_rename tmp path w3 = (b4, w4)" by (meson surj_pair)
    have "files w3 tmp \<in> A" using os_write_files [of tmp blob w w1] 1 True sysD [OF 2] sysD [OF 3] assms(3) by simp
    then have "evolves path A w3 w4"
      using evolves_rename [of w3 tmp A path] assms(1) evolves_files [OF e3 assms(2)] 4 by simp
    then have e4: "evolves path A w w4" using evolves_trans [OF e3] by blast
    have "evolves path A w (snd (fsyncDir w4))" using evolves_trans [OF e4 evolves_fsyncDir] .
    then show ?thesis using 1 2 3 4 True rm [OF e4] by (cases b4) (simp_all add: publish_def syncDir_fsync)
  qed
qed

lemma publish_ok:
  assumes "publish tmp path blob w = (None, w')" "tmp \<noteq> path"
  shows "files w' path = Some blob"
proof -
  obtain w1 w2 w3 w4 where 1: "os_write tmp blob w = (True, w1)" "sys w1 = (True, w2)" "sys w2 = (True, w3)"
      "os_rename tmp path w3 = (True, w4)" "fsyncDir w4 = (None, w')"
    using assms(1) by (auto simp: publish_def syncDir_fsync split: prod.splits bool.splits)
  then show ?thesis
    using os_write_files [OF 1(1)] sysD [OF 1(2)] sysD [OF 1(3)] os_rename_files [OF 1(4) assms(2)] fsyncDir_files(1) [of w4]
    by simp
qed

text \<open>\<open>persistLocked\<close>: the file keeps its content or holds the sealed entries; success means the latter.\<close>

lemma tempVaultPath_ne: "tempVaultPath path w = (Ret t, w') \<Longrightarrow> t \<noteq> path \<and> files w' = files w \<and> past w' = past w"
  by (auto simp: tempVaultPath_def rand_hex_def split: option.splits prod.splits list.splits)

lemma tempVaultPath_world: "tempVaultPath path w = (r, w') \<Longrightarrow> files w' = files w \<and> past w' = past w"
  by (auto simp: tempVaultPath_def rand_hex_def split: option.splits prod.splits list.splits)

lemma vault_lock_world: "vault_lock r s w = (x, w') \<Longrightarrow> files w' = files w \<and> past w' = past w"
  by (auto simp: vault_lock_def dest!: lockExclusive_world split: prod.splits option.splits)

lemma writeVaultFile_effect:
  assumes "writeVaultFile rounds start path blob w = (r, w')"
  shows "evolves path {files w path, Some blob} w w' \<and> (r = Ret None \<longrightarrow> files w' path = Some blob)"
proof -
  let ?A = "{files w path, Some blob}"
  obtain b1 w1 where 1: "sys w = (b1, w1)" by (meson surj_pair)
  obtain l w2 where 2: "vault_lock rounds start w1 = (l, w2)" by (meson surj_pair)
  obtain t w3 where 3: "tempVaultPath path w2 = (t, w3)" by (meson surj_pair)
  have f: "files w1 = files w" "past w1 = past w" "files w2 = files w" "past w2 = past w" "files w3 = files w" "past w3 = past w"
    using sysD [OF 1] vault_lock_world [OF 2] tempVaultPath_world [OF 3] by simp_all
  then have same: "evolves path ?A w w1" "evolves path ?A w w2" "evolves path ?A w w3" by (simp_all add: evolves_def)
  show ?thesis
  proof (cases "b1 \<and> l = None \<and> (\<exists>p. t = Ret p)")
    case False
    then show ?thesis using assms 1 2 3 same by (cases b1; cases l; cases t) (auto simp: writeVaultFile_def)
  next
    case True
    then obtain tmp where t: "t = Ret tmp" by blast
    have ne: "tmp \<noteq> path" using tempVaultPath_ne 3 t by blast
    obtain b4 w4 where 4: "os_create_excl tmp w3 = (b4, w4)" by (meson surj_pair)
    have e4: "evolves path ?A w w4"
      using evolves_trans [OF same(3)] evolves_other(1) [OF ne, of w3 ?A] 4 f(5) by simp
    obtain x w5 where 5: "publish tmp path blob w4 = (x, w5)" by (meson surj_pair)
    have "files w4 path \<in> ?A" using evolves_files [OF e4] by simp
    then have "evolves path ?A w4 w5" using evolves_publish [OF ne, of w4 ?A blob] 5 by simp
    then have e5: "evolves path ?A w w5" using evolves_trans [OF e4] by blast
    show ?thesis using assms 1 2 3 4 5 True t e4 e5 publish_ok [of tmp path blob w4 w5] ne
      by (cases b4) (auto simp: writeVaultFile_def)
  qed
qed

lemma readRandom_effect: "readRandom n w = (r, w') \<Longrightarrow> files w' = files w \<and> past w' = past w \<and> (\<forall>x. r = Ret x \<longrightarrow> length x = n)"
  by (auto simp: readRandom_def split: list.splits)

lemma persist_effect:
  assumes "persistLocked C rounds start b w = (r, w')" "fbKey b = Some key"
  shows "\<exists>nonce. length nonce = nonceSize
    \<and> evolves (fbPath b) {files w (fbPath b), Some (vault_blob C b key nonce)} w w'
    \<and> (r = Ret None \<longrightarrow> files w' (fbPath b) = Some (vault_blob C b key nonce))"
proof -
  obtain n w1 where n: "readRandom nonceSize w = (n, w1)" by (meson surj_pair)
  note re = readRandom_effect [OF n]
  show ?thesis
  proof (cases "aes_key key \<and> (\<exists>x. n = Ret x)")
    case False
    then have "(w' = w \<or> w' = w1) \<and> r \<noteq> Ret None"
      using assms n by (cases n; cases "aes_key key"; auto simp: persistLocked_def seal_def)
    moreover from this have f: "files w' = files w" "past w' = past w" using re by metis+
    have "evolves p A w w'" for p A unfolding evolves_def f by simp
    ultimately show ?thesis by (intro exI [of _ "replicate nonceSize CHR 0x00"]) simp
  next
    case True
    then obtain x where x: "n = Ret x" "length x = nonceSize" using re by blast
    have "writeVaultFile rounds start (fbPath b) (vault_blob C b key x) w1 = (r, w')"
      using assms n True x by (simp add: persistLocked_def seal_def vault_blob_def)
    note e = writeVaultFile_effect [OF this]
    have "files w1 = files w" "past w1 = past w" using re by auto
    then show ?thesis using e x(2) evolves_same [of w1 w] by (intro exI [of _ x]) simp
  qed
qed

section \<open>Properties\<close>

text \<open>A backend that was opened with the password \<open>pw\<close>.\<close>

definition opened :: "crypto \<Rightarrow> string \<Rightarrow> FallbackBackend \<Rightarrow> bool" where
  "opened C pw b \<longleftrightarrow> MasterPasswordMinLen \<le> length pw \<and> fbKey b = Some (deriveKey C pw (fbSalt b))
     \<and> length (fbSalt b) = saltSize \<and> entries_ok (fbEntries b)"

lemma reopen_blob:
  assumes "crypto_ok C" "opened C pw b" "files w (fbPath b) = Some (vault_blob C b (deriveKey C pw (fbSalt b)) nonce)"
    "length nonce = nonceSize"
  shows "fst (NewFallback C (fbPath b) pw (w\<lparr>outcomes := []\<rparr>)) = Ret (Inr b)"
  using assms load_blob [of C b pw nonce] by (simp add: NewFallback_def opened_def os_ReadFile_def)

lemma entries_ok_mput: "entries_ok m \<Longrightarrow> utf8_ok k \<Longrightarrow> entries_ok (mput k v m)"
  by (auto simp: entries_ok_def mput_def list_all_iff)

lemma opened_put: "opened C pw b \<Longrightarrow> utf8_ok k \<Longrightarrow> opened C pw (b\<lparr>fbEntries := mput k v (fbEntries b)\<rparr>)"
  by (simp add: opened_def entries_ok_mput)

lemma Set_result:
  assumes "vault_Set C r s k v b w = (Ret None, b', w')" "opened C pw b"
  shows "b' = b\<lparr>fbEntries := mput k v (fbEntries b)\<rparr>"
    "\<exists>nonce. length nonce = nonceSize \<and> files w' (fbPath b) = Some (vault_blob C b' (deriveKey C pw (fbSalt b)) nonce)"
proof -
  show b': "b' = b\<lparr>fbEntries := mput k v (fbEntries b)\<rparr>"
    using assms by (auto simp: vault_Set_def opened_def Let_def split: prod.splits)
  have "persistLocked C r s b' w = (Ret None, w')"
    using assms b' by (auto simp: vault_Set_def opened_def Let_def split: prod.splits)
  from persist_effect [OF this, of "deriveKey C pw (fbSalt b)"]
  show "\<exists>nonce. length nonce = nonceSize \<and> files w' (fbPath b) = Some (vault_blob C b' (deriveKey C pw (fbSalt b)) nonce)"
    using assms(2) b' by (auto simp: opened_def)
qed

lemma Set_reopen:
  assumes "crypto_ok C" "opened C pw b" "utf8_ok k" "vault_Set C rd st k v b w = (Ret None, b', w')"
  shows "fst (NewFallback C (fbPath b) pw (w'\<lparr>outcomes := []\<rparr>)) = Ret (Inr b')"
    "vault_Get k b' = Inr v" "j \<noteq> k \<Longrightarrow> vault_Get j b' = vault_Get j b"
proof -
  note b' = Set_result [OF assms(4,2)]
  have "opened C pw b'" using opened_put [OF assms(2,3)] b'(1) by simp
  then show "fst (NewFallback C (fbPath b) pw (w'\<lparr>outcomes := []\<rparr>)) = Ret (Inr b')"
    using reopen_blob [OF assms(1), of pw b' w'] b' by auto
  have put: "b' = vault_put C rd st w k v b" "fbKey b \<noteq> None" using assms(2,4) by (simp_all add: opened_def)
  show "vault_Get k b' = Inr v" "j \<noteq> k \<Longrightarrow> vault_Get j b' = vault_Get j b"
    unfolding put(1) by (rule vault.get_put [OF put(2)], rule vault.get_put_other [OF put(2)])
qed

text \<open>
  C15. A stored secret survives: after a successful \<open>Set\<close>, opening the file again with the same master password
  gives a backend that returns the value, and every other entry as before.
\<close>

theorem vault_survives:
  assumes "crypto_ok C" "opened C pw b" "utf8_ok k" "vault_Set C rd st k v b w = (Ret None, b', w')"
  shows "\<exists>d. fst (NewFallback C (fbPath b) pw (w'\<lparr>outcomes := []\<rparr>)) = Ret (Inr d)
    \<and> vault_Get k d = Inr v \<and> (\<forall>j. j \<noteq> k \<longrightarrow> vault_Get j d = vault_Get j b)"
  using Set_reopen [OF assms] by blast

text \<open>
  The vault file is never torn: at every moment of persisting, under every pattern of failing system calls and
  of a failing random source, the path holds its previous bytes or a complete sealed vault.
\<close>

theorem vault_atomic:
  assumes "fbKey b = Some key"
  shows "\<exists>nonce. evolves (fbPath b) {files w (fbPath b), Some (vault_blob C b key nonce)} w (snd (persistLocked C r s b w))"
  using persist_effect [of C r s b w "fst (persistLocked C r s b w)" "snd (persistLocked C r s b w)" key] assms by auto

text \<open>
  Only an authenticated file is opened: \<open>loadFallback\<close> accepts bytes only if they have the whole header, the
  known version and a ciphertext that AES-GCM authenticates under the key derived from the password and the
  stored salt; a file too short or of another version is reported as corrupted, a failed authentication as such.
\<close>

theorem vault_authenticated:
  "(\<forall>b. loadFallback C path pw raw = Inr b \<longrightarrow>
      45 \<le> length raw \<and> raw ! 0 = versionV1 \<and> fbSalt b = take 16 (drop 1 raw)
      \<and> (\<exists>p. gcmOpen C (deriveKey C pw (fbSalt b)) (take 12 (drop 17 raw)) (drop 29 raw) = Some p))
   \<and> (length raw < 45 \<longrightarrow> loadFallback C path pw raw = Inl [SecretsE ErrCorruptedSecrets])
   \<and> (45 \<le> length raw \<and> raw ! 0 = versionV1 \<and> aes_key (deriveKey C pw (take 16 (drop 1 raw)))
      \<and> gcmOpen C (deriveKey C pw (take 16 (drop 1 raw))) (take 12 (drop 17 raw)) (drop 29 raw) = None \<longrightarrow>
        loadFallback C path pw raw = Inl [SecretsE ErrAuthFailed])"
  by (auto simp: loadFallback_def open_vault_def saltSize_def nonceSize_def gcmTagSize_def Let_def
      split: if_splits option.splits sum.splits)

text \<open>
  Two processes lose each other's secrets: the lock covers only the write, and a backend never reads the file
  again, so when two of them opened the same vault, a second \<open>Set\<close> that succeeds removes the first one's entry.
\<close>

theorem vault_lost_update:
  assumes "crypto_ok C" "opened C pw b" "utf8_ok k2" "k1 \<noteq> k2" "vault_Get k1 b = Inl [SecretsE ErrSecretNotFound]"
    "vault_Set C r s k1 v1 b w = (Ret None, b1, w1)" "vault_Set C r s k2 v2 b w1 = (Ret None, b2, w2)"
  shows "\<exists>d. fst (NewFallback C (fbPath b) pw (w2\<lparr>outcomes := []\<rparr>)) = Ret (Inr d)
    \<and> vault_Get k1 d = Inl [SecretsE ErrSecretNotFound]"
  using Set_reopen(1,3) [OF assms(1,2,3,7)] assms(4,5) by metis

section \<open>A concrete instance\<close>

text \<open>A text form that can be read back: strings and numbers in unary marks, arrays and objects bracketed.\<close>

definition txt_str :: "string \<Rightarrow> string" where "txt_str s = concat (map (\<lambda>c. [CHR ''+'', c]) s) @ ''.''"

fun json_text :: "json \<Rightarrow> string" where
  "json_text JNull = ''n''"
| "json_text (JBool b) = (if b then ''t'' else ''f'')"
| "json_text (JNum i) = (if i < 0 then ''m'' else ''p'') @ txt_str (replicate (nat \<bar>i\<bar>) CHR ''1'')"
| "json_text (JFrac s) = CHR ''q'' # txt_str s"
| "json_text (JStr s) = CHR ''s'' # txt_str s"
| "json_text (JArr xs) = CHR ''l'' # concat (map (\<lambda>x. CHR '','' # json_text x) xs) @ '';''"
| "json_text (JObj kvs) = CHR ''d'' # concat (map (\<lambda>kv. CHR '','' # txt_str (fst kv) @ json_text (snd kv)) kvs) @ '';''"

fun read_str :: "string \<Rightarrow> (string \<times> string) option" where
  "read_str (x # c # s) =
     (if x = CHR ''+'' then map_option (\<lambda>(t, r). (c # t, r)) (read_str s)
      else if x = CHR ''.'' then Some ([], c # s) else None)"
| "read_str [x] = (if x = CHR ''.'' then Some ([], []) else None)"
| "read_str [] = None"

fun read_items :: "(string \<Rightarrow> ('a \<times> string) option) \<Rightarrow> nat \<Rightarrow> string \<Rightarrow> ('a list \<times> string) option" where
  "read_items f (Suc n) (c # s) =
     (if c = CHR '';'' then Some ([], s)
      else if c = CHR '','' then
        Option.bind (f s) (\<lambda>(x, r). map_option (\<lambda>(xs, r). (x # xs, r)) (read_items f n r))
      else None)"
| "read_items f _ _ = None"

fun read_json :: "nat \<Rightarrow> string \<Rightarrow> (json \<times> string) option" where
  "read_json (Suc n) (c # s) =
     (if c = CHR ''n'' then Some (JNull, s)
      else if c = CHR ''t'' then Some (JBool True, s)
      else if c = CHR ''f'' then Some (JBool False, s)
      else if c = CHR ''p'' then map_option (\<lambda>(t, r). (JNum (int (length t)), r)) (read_str s)
      else if c = CHR ''m'' then map_option (\<lambda>(t, r). (JNum (- int (length t)), r)) (read_str s)
      else if c = CHR ''q'' then map_option (\<lambda>(t, r). (JFrac t, r)) (read_str s)
      else if c = CHR ''s'' then map_option (\<lambda>(t, r). (JStr t, r)) (read_str s)
      else if c = CHR ''l'' then map_option (\<lambda>(xs, r). (JArr xs, r)) (read_items (read_json n) (Suc n) s)
      else if c = CHR ''d'' then
        map_option (\<lambda>(xs, r). (JObj xs, r))
          (read_items (\<lambda>s. Option.bind (read_str s) (\<lambda>(k, r). map_option (\<lambda>(v, r). ((k, v), r)) (read_json n r))) (Suc n) s)
      else None)"
| "read_json _ _ = None"

lemma read_str_txt: "read_str (txt_str s @ r) = Some (s, r)"
  unfolding txt_str_def by (induction s) (cases r, auto)

lemma read_items_txt:
  assumes "\<And>x r. x \<in> set xs \<Longrightarrow> f (g x @ r) = Some (x, r)" "length xs < n"
  shows "read_items f n (concat (map (\<lambda>x. CHR '','' # g x) xs) @ CHR '';'' # r) = Some (xs, r)"
  using assms
proof (induction xs arbitrary: n)
  case Nil
  then show ?case by (cases n) auto
next
  case (Cons x xs)
  then obtain m where m: "n = Suc m" "length xs < m" by (cases n) auto
  have "read_items f m (concat (map (\<lambda>x. CHR '','' # g x) xs) @ CHR '';'' # r) = Some (xs, r)"
    using Cons m by simp
  moreover have "f (g x @ concat (map (\<lambda>x. CHR '','' # g x) xs) @ CHR '';'' # r)
      = Some (x, concat (map (\<lambda>x. CHR '','' # g x) xs) @ CHR '';'' # r)" using Cons.prems by simp
  ultimately show ?case using m by simp
qed

fun jsize :: "json \<Rightarrow> nat" where
  "jsize (JArr xs) = Suc (sum_list (map (\<lambda>x. Suc (jsize x)) xs))"
| "jsize (JObj kvs) = Suc (sum_list (map (\<lambda>kv. Suc (jsize (snd kv))) kvs))"
| "jsize _ = 1"

lemma sum_list_Suc: "x \<in> set xs \<Longrightarrow> f x < sum_list (map (\<lambda>x. Suc (f x)) xs)"
    "length xs \<le> sum_list (map (\<lambda>x. Suc (f x)) xs)"
  by (induction xs) auto

lemma length_concat_le: "(\<And>x. x \<in> set xs \<Longrightarrow> f x \<le> length (g x)) \<Longrightarrow> sum_list (map f xs) \<le> length (concat (map g xs))"
  by (induction xs) (auto intro: add_mono)

lemma jsize_text: "jsize j \<le> length (json_text j)"
proof (induction j)
  case (JArr xs)
  then have "sum_list (map (\<lambda>x. Suc (jsize x)) xs) \<le> length (concat (map (\<lambda>x. CHR '','' # json_text x) xs))"
    by (intro length_concat_le) simp
  then show ?case by simp
next
  case (JObj kvs)
  have "jsize (snd kv) \<le> length (json_text (snd kv))" if "kv \<in> set kvs" for kv
    using JObj [OF that] by (cases kv) simp
  then have "sum_list (map (\<lambda>kv. Suc (jsize (snd kv))) kvs)
      \<le> length (concat (map (\<lambda>kv. CHR '','' # txt_str (fst kv) @ json_text (snd kv)) kvs))"
    by (intro length_concat_le) (simp add: trans_le_add2)
  then show ?case by simp
qed (auto simp: txt_str_def)

lemma read_json_text: "jsize j \<le> n \<Longrightarrow> read_json n (json_text j @ r) = Some (j, r)"
proof (induction j arbitrary: n r)
  case (JArr xs)
  then obtain m where m: "n = Suc m" by (cases n) auto
  have "read_items (read_json m) n (concat (map (\<lambda>x. CHR '','' # json_text x) xs) @ CHR '';'' # r) = Some (xs, r)"
  proof (rule read_items_txt)
    fix x r assume "x \<in> set xs"
    then show "read_json m (json_text x @ r) = Some (x, r)"
      using JArr.IH [of x m r] JArr.prems m sum_list_Suc(1) [of x xs jsize] by simp
  qed (use JArr.prems m sum_list_Suc(2) [of xs jsize] in simp)
  then show ?case using m by simp
next
  case (JObj kvs)
  then obtain m where m: "n = Suc m" by (cases n) auto
  let ?f = "\<lambda>s. Option.bind (read_str s) (\<lambda>(k, r). map_option (\<lambda>(v, r). ((k, v), r)) (read_json m r))"
  have "read_items ?f n (concat (map (\<lambda>kv. CHR '','' # (txt_str (fst kv) @ json_text (snd kv))) kvs) @ CHR '';'' # r) = Some (kvs, r)"
  proof (rule read_items_txt)
    fix x r assume x: "x \<in> set kvs"
    have "jsize (snd x) \<le> m"
      using JObj.prems m sum_list_Suc(1) [OF x, of "\<lambda>kv. jsize (snd kv)"] by simp
    then have "read_json m (json_text (snd x) @ r) = Some (snd x, r)"
      using JObj.IH [OF x] by (cases x) simp
    then show "?f ((txt_str (fst x) @ json_text (snd x)) @ r) = Some (x, r)" by (simp add: read_str_txt)
  qed (use JObj.prems m sum_list_Suc(2) [of kvs "\<lambda>kv. jsize (snd kv)"] in simp)
  then show ?case using m by simp
next
  case JNull
  then show ?case by (cases n) simp_all
next
  case (JBool b)
  then show ?case by (cases n; cases b) simp_all
next
  case (JNum i)
  then show ?case by (cases n; cases "i < 0") (simp_all add: read_str_txt)
next
  case (JFrac s)
  then show ?case by (cases n) (simp_all add: read_str_txt)
next
  case (JStr s)
  then show ?case by (cases n) (simp_all add: read_str_txt)
qed

definition parse_text :: "string \<Rightarrow> json option" where
  "parse_text s = (case read_json (length s) s of Some (j, []) \<Rightarrow> Some j | _ \<Rightarrow> None)"

lemma parse_text_json: "parse_text (json_text j) = Some j"
  using read_json_text [of j "length (json_text j)" "[]"] jsize_text [of j] by (simp add: parse_text_def)

text \<open>A cipher that only tags: the key is the padded password, the tag the first 16 bytes of the key.\<close>

definition pad :: "nat \<Rightarrow> string \<Rightarrow> string" where "pad n s = take n (s @ replicate n CHR 0x00)"

lemma length_pad [simp]: "length (pad n s) = n" by (simp add: pad_def)

definition tag_crypto :: crypto where
  "tag_crypto = \<lparr>IDKey = (\<lambda>p s. pad 32 (p @ s)), gcmSeal = (\<lambda>k n p. pad 16 k @ p),
     gcmOpen = (\<lambda>k n c. if take 16 c = pad 16 k then Some (drop 16 c) else None),
     jsonText = json_text, jsonParse = parse_text\<rparr>"

lemma tag_ops:
  "gcmSeal tag_crypto k n p = pad 16 k @ p"
  "gcmOpen tag_crypto k n c = (if take 16 c = pad 16 k then Some (drop 16 c) else None)"
  by (simp_all add: tag_crypto_def)

lemma tag_crypto_ok: "crypto_ok tag_crypto"
  by (simp add: crypto_ok_def tag_crypto_def parse_text_json)

text \<open>A vault opened for the first time, and a world in which every call succeeds.\<close>

definition old_pw :: string where "old_pw = ''correct horse''"

definition new_pw :: string where "new_pw = ''battery staple''"

definition new_vault :: FallbackBackend where
  "new_vault = \<lparr>fbPath = ''v.enc'', fbKey = Some (deriveKey tag_crypto old_pw (replicate 16 CHR ''s'')),
     fbSalt = replicate 16 CHR ''s'', fbEntries = []\<rparr>"

definition vault_world :: World where
  "vault_world = example_world\<lparr>rnds := [''n1'', ''0a'', ''n2'', ''0b'', ''n3'', ''0c'']\<rparr>"

lemma new_vault_opened: "opened tag_crypto old_pw new_vault"
  by (simp add: opened_def new_vault_def old_pw_def MasterPasswordMinLen_def saltSize_def entries_ok_def)

lemma aes_tag [simp]: "aes_key (deriveKey tag_crypto p s)"
  by (simp add: aes_key_def deriveKey_def tag_crypto_def)

lemma two_sets:
  "\<exists>b1 w1 b2 w2. vault_Set tag_crypto (\<lambda>_. free_lock) 0 ''a'' ''1'' new_vault vault_world = (Ret None, b1, w1)
     \<and> vault_Set tag_crypto (\<lambda>_. free_lock) 0 ''b'' ''2'' new_vault w1 = (Ret None, b2, w2)"
  by (simp add: vault_Set_def new_vault_def persistLocked_def seal_def readRandom_def vault_world_def example_world_def
      writeVaultFile_def vault_lock_def lockExclusive_def lock_loop.simps free_lock_def held_elsewhere_def tempVaultPath_def
      rand_hex_def os_create_excl_def publish_def os_write_def set_file_def os_rename_def syncDir_def Let_def nonceSize_def)

lemma short_utf8: "utf8_ok ''a''" "utf8_ok ''b''"
  by (rule utf8_ascii, simp add: byte_in_def)+

theorem vault_survives_witness:
  "\<exists>b' w' d. vault_Set tag_crypto (\<lambda>_. free_lock) 0 ''a'' ''1'' new_vault vault_world = (Ret None, b', w')
     \<and> fst (NewFallback tag_crypto ''v.enc'' old_pw (w'\<lparr>outcomes := []\<rparr>)) = Ret (Inr d) \<and> vault_Get ''a'' d = Inr ''1''"
proof -
  obtain b1 w1 where s: "vault_Set tag_crypto (\<lambda>_. free_lock) 0 ''a'' ''1'' new_vault vault_world = (Ret None, b1, w1)"
    using two_sets by blast
  then show ?thesis
    using vault_survives [OF tag_crypto_ok new_vault_opened short_utf8(1) s] by (auto simp: new_vault_def)
qed

theorem vault_lost_update_witness:
  "\<exists>(w2 :: World) d. fst (NewFallback tag_crypto ''v.enc'' old_pw (w2\<lparr>outcomes := []\<rparr>)) = Ret (Inr d)
     \<and> vault_Get ''a'' d = Inl [SecretsE ErrSecretNotFound]"
proof -
  obtain b1 w1 b2 w2 where s: "vault_Set tag_crypto (\<lambda>_. free_lock) 0 ''a'' ''1'' new_vault vault_world = (Ret None, b1, w1)"
      "vault_Set tag_crypto (\<lambda>_. free_lock) 0 ''b'' ''2'' new_vault w1 = (Ret None, b2, w2)"
    using two_sets by blast
  have "vault_Get ''a'' new_vault = Inl [SecretsE ErrSecretNotFound]" by (simp add: vault_Get_def new_vault_def)
  then show ?thesis
    using vault_lost_update [OF tag_crypto_ok new_vault_opened short_utf8(2) _ _ s] by (auto simp: new_vault_def)
qed

theorem vault_atomic_witness:
  "\<exists>nonce. evolves ''v.enc'' {files vault_world ''v.enc'',
      Some (vault_blob tag_crypto new_vault (deriveKey tag_crypto old_pw (replicate 16 CHR ''s'')) nonce)}
      vault_world (snd (persistLocked tag_crypto (\<lambda>_. free_lock) 0 new_vault vault_world))"
  using vault_atomic [of new_vault "deriveKey tag_crypto old_pw (replicate 16 CHR ''s'')" vault_world tag_crypto "\<lambda>_. free_lock" 0]
  by (simp add: new_vault_def)

theorem vault_authenticated_witness:
  "loadFallback tag_crypto ''v.enc'' old_pw [] = Inl [SecretsE ErrCorruptedSecrets]"
  using vault_authenticated [of tag_crypto "''v.enc''" old_pw "[]"] by simp

text \<open>
  A rotation that reports failure may have happened: when only the final sync of the directory fails,
  \<open>RotatePassword\<close> returns an error and puts the old key back in memory, but the file is already sealed under the
  new password; the old password no longer opens it.
\<close>

theorem rotation_half_done:
  "\<exists>(w :: World) b' w'. RotatePassword tag_crypto (\<lambda>_. free_lock) 0 new_pw new_vault w = (Ret (Some [OSErr]), b', w')
     \<and> b' = new_vault
     \<and> fst (NewFallback tag_crypto ''v.enc'' old_pw (w'\<lparr>outcomes := []\<rparr>)) = Ret (Inl [SecretsE ErrAuthFailed])
     \<and> (\<exists>d. fst (NewFallback tag_crypto ''v.enc'' new_pw (w'\<lparr>outcomes := []\<rparr>)) = Ret (Inr d))"
proof -
  let ?w = "vault_world\<lparr>outcomes := [True, True, True, True, True, True, True, False]\<rparr>"
  let ?salt = "pad 16 ''n1''"
  let ?b = "new_vault\<lparr>fbKey := Some (deriveKey tag_crypto new_pw ?salt), fbSalt := ?salt\<rparr>"
  let ?blob = "vault_blob tag_crypto ?b (deriveKey tag_crypto new_pw ?salt) (pad 12 ''0a'')"
  have "\<exists>w'. RotatePassword tag_crypto (\<lambda>_. free_lock) 0 new_pw new_vault ?w = (Ret (Some [OSErr]), new_vault, w')
      \<and> files w' ''v.enc'' = Some ?blob"
    by (simp add: RotatePassword_def new_pw_def MasterPasswordMinLen_def new_vault_def readRandom_def vault_world_def
        example_world_def persistLocked_def seal_def writeVaultFile_def vault_lock_def lockExclusive_def lock_loop.simps
        free_lock_def held_elsewhere_def tempVaultPath_def rand_hex_def os_create_excl_def publish_def os_write_def
        set_file_def os_rename_def syncDir_def sys_def Let_def nonceSize_def saltSize_def vault_blob_def pad_def)
  then obtain w' where w': "RotatePassword tag_crypto (\<lambda>_. free_lock) 0 new_pw new_vault ?w = (Ret (Some [OSErr]), new_vault, w')"
      "files w' ''v.enc'' = Some ?blob" by blast
  have "opened tag_crypto new_pw ?b"
    by (simp add: opened_def new_vault_def new_pw_def MasterPasswordMinLen_def saltSize_def entries_ok_def)
  then have new: "fst (NewFallback tag_crypto ''v.enc'' new_pw (w'\<lparr>outcomes := []\<rparr>)) = Ret (Inr ?b)"
    using reopen_blob [OF tag_crypto_ok, of new_pw ?b w' "pad 12 ''0a''"] w'(2) by (simp add: new_vault_def nonceSize_def)
  have keys: "pad 16 (deriveKey tag_crypto old_pw ?salt) \<noteq> pad 16 (deriveKey tag_crypto new_pw ?salt)"
    by (simp add: deriveKey_def tag_crypto_def pad_def old_pw_def new_pw_def)
  have "loadFallback tag_crypto ''v.enc'' old_pw (raw_bytes tag_crypto ?blob) = Inl [SecretsE ErrAuthFailed]"
    using keys keys [symmetric] by (simp add: loadFallback_def raw_bytes_def vault_blob_def open_vault_def new_vault_def
        saltSize_def nonceSize_def gcmTagSize_def Let_def tag_ops)
  then have "fst (NewFallback tag_crypto ''v.enc'' old_pw (w'\<lparr>outcomes := []\<rparr>)) = Ret (Inl [SecretsE ErrAuthFailed])"
    using w'(2) by (simp add: NewFallback_def old_pw_def MasterPasswordMinLen_def os_ReadFile_def)
  then show ?thesis using w'(1) new by blast
qed

end
