(* ===== verification/Github.thy ===== *)
theory Github
  imports Uapi Wizard Log_Redact Status_Cache Secrets "HOL-Library.Multiset"
begin

text \<open>
  The GitHub service (\<open>src/services/github\<close>): the transport over the \<open>gh\<close> command (\<open>cli.go\<close>), the REST transport with
  its retries (\<open>rest.go\<close>), the client that falls back from one to the other (\<open>client.go\<close>), removal of what the wizard
  created (\<open>cleanup.go\<close>), commits (\<open>contents.go\<close>), secrets (\<open>secret.go\<close>), steps and logs of a run (\<open>steps.go\<close>,
  \<open>logs.go\<close>) and the polling loop (\<open>poll.go\<close>).

  \<^item> A request body is a JSON document; answers become documents by the parameter \<open>unmarshal\<close>.
  \<^item> The \<open>gh\<close> process, the HTTP client, the token source, the wait between attempts, its jitter and the NaCl box are
    parameters. Errors carry their text where the code reads it.
\<close>

section \<open>Sentinels with their text (errors.go)\<close>

fun github_text :: "github_err \<Rightarrow> string" where
  "github_text ErrGHUnavailable = ''github: gh cli unavailable''"
| "github_text ErrRepoExists = ''github: repository already exists''"
| "github_text ErrPATInvalid = ''github: pat invalid''"
| "github_text ErrPATScopeInsufficient = ''github: pat scope insufficient''"
| "github_text ErrGHRateLimited = ''github: rate limited''"
| "github_text ErrWorkflowDispatchFailed = ''github: workflow dispatch failed''"
| "github_text ErrInvalidRepoRef = ''github: invalid repository reference''"
| "github_text ErrWorkflowFileMissingSHA = ''github: workflow file sha missing''"
| "github_text ErrInvalidCommitFileRequest = ''github: invalid commit file request''"
| "github_text ErrRunGetterNil = ''github: run getter is nil''"
| "github_text ErrHTTPValidationFailed = ''github: validation failed''"
| "github_text ErrHTTPServerError = ''github: server error''"
| "github_text ErrHTTPUnexpectedStatus = ''github: unexpected http status''"
| "github_text ErrInvalidPublicKey = ''github: invalid actions public key''"
| "github_text ErrRunNotFound = ''github: workflow run not found''"
| "github_text ErrStepsParseError = ''github: workflow steps parse error''"

definition gerr :: "github_err \<Rightarrow> terr" where
  "gerr s = ([GithubE s], github_text s)"

text \<open>\<open>fmt.Errorf("%w: %s", s, txt)\<close>\<close>

definition gerr_msg :: "github_err \<Rightarrow> string \<Rightarrow> terr" where
  "gerr_msg s txt = ([GithubE s], github_text s @ '': '' @ txt)"

section \<open>Paths (types.go, rest.go)\<close>

definition unreserved :: "char \<Rightarrow> bool" where
  "unreserved c \<longleftrightarrow> (CHR ''a'' \<le> c \<and> c \<le> CHR ''z'') \<or> (CHR ''A'' \<le> c \<and> c \<le> CHR ''Z'') \<or> is_digit c
     \<or> c \<in> set ''-_.~''"

definition percent :: "char \<Rightarrow> string" where
  "percent c = (let n = of_char c :: nat; d = ''0123456789ABCDEF'' in [CHR ''%'', d ! (n div 16), d ! (n mod 16)])"

text \<open>\<open>url.PathEscape\<close> and \<open>url.QueryEscape\<close>.\<close>

definition path_escape :: "string \<Rightarrow> string" where
  "path_escape s = concat (map (\<lambda>c. if unreserved c \<or> c \<in> set ''$&+=:@'' then [c] else percent c) s)"

definition query_escape :: "string \<Rightarrow> string" where
  "query_escape s = concat (map (\<lambda>c. if unreserved c then [c] else if c = CHR '' '' then ''+'' else percent c) s)"

definition ref_validate :: "RepoRef \<Rightarrow> terr option" where
  "ref_validate r =
     (if trim_space (Owner r) = [] \<or> trim_space (RName r) = [] then Some (gerr ErrInvalidRepoRef) else None)"

definition repoPath :: "RepoRef \<Rightarrow> string" where
  "repoPath r = path_escape (Owner r) @ ''/'' @ path_escape (RName r)"

section \<open>Data (types.go, steps.go)\<close>

record WorkflowDispatch =
  wdRunID :: int
  wdRunURL :: string
  wdHTMLURL :: string

record WorkflowRun =
  wrID :: int
  wrRunNumber :: int
  wrName :: string
  wrStatus :: string
  wrConclusion :: string
  wrHTMLURL :: string
  wrCreatedAt :: time_text
  wrUpdatedAt :: time_text
  wrStartedAt :: "time_text option"

record Step =
  stJobID :: int
  stJobName :: string
  stNumber :: int
  stName :: string
  stStatus :: string
  stConclusion :: string
  stStartedAt :: time_text
  stCompletedAt :: time_text
  stDurationMs :: int

record WorkflowLogLine =
  llJobName :: string
  llStepName :: string
  llRaw :: string

record stepResponse =
  srName :: string
  srStatus :: string
  srConclusion :: string
  srNumber :: int
  srStartedAt :: time_text
  srCompletedAt :: time_text

record jobResponse =
  jrID :: int
  jrName :: string
  jrSteps :: "stepResponse list"

definition json_repository :: "json \<Rightarrow> Repository option" where
  "json_repository j = Option.bind (jmembers j) (\<lambda>m.
     Option.bind (jint (jget ''id'' m)) (\<lambda>i.
     Option.bind (jstring (jget ''name'' m)) (\<lambda>n.
     Option.bind (jstring (jget ''full_name'' m)) (\<lambda>_.
     Option.bind (jstring (jget ''html_url'' m)) (\<lambda>h.
     Option.bind (jstring (jget ''ssh_url'' m)) (\<lambda>s.
     Option.bind (jmembers (jget ''owner'' m)) (\<lambda>ow.
     Option.bind (jstring (jget ''login'' ow)) (\<lambda>l.
       Some \<lparr>RepoID = i, RepoOwner = l, RepoName = n, RepoHTMLURL = h, RepoSSHURL = s\<rparr>))))))))"

definition json_deploy_key :: "json \<Rightarrow> DeployKey option" where
  "json_deploy_key j = Option.bind (jmembers j) (\<lambda>m.
     Option.bind (jint (jget ''id'' m)) (\<lambda>i.
     Option.bind (jstring (jget ''title'' m)) (\<lambda>t.
     Option.bind (jstring (jget ''key'' m)) (\<lambda>k.
     Option.bind (jstring (jget ''url'' m)) (\<lambda>u.
       Some \<lparr>KeyID = i, KeyTitle = t, KeyText = k, KeyURL = u\<rparr>)))))"

definition json_dispatch :: "json \<Rightarrow> WorkflowDispatch option" where
  "json_dispatch j = Option.bind (jmembers j) (\<lambda>m.
     Option.bind (jint (jget ''workflow_run_id'' m)) (\<lambda>i.
     Option.bind (jstring (jget ''run_url'' m)) (\<lambda>r.
     Option.bind (jstring (jget ''html_url'' m)) (\<lambda>h.
       Some \<lparr>wdRunID = i, wdRunURL = r, wdHTMLURL = h\<rparr>))))"

definition json_run :: "json \<Rightarrow> WorkflowRun option" where
  "json_run j = Option.bind (jmembers j) (\<lambda>m.
     Option.bind (jint (jget ''id'' m)) (\<lambda>i.
     Option.bind (jint (jget ''run_number'' m)) (\<lambda>nr.
     Option.bind (jstring (jget ''name'' m)) (\<lambda>n.
     Option.bind (jstring (jget ''status'' m)) (\<lambda>s.
     Option.bind (jstring (jget ''conclusion'' m)) (\<lambda>c.
     Option.bind (jstring (jget ''html_url'' m)) (\<lambda>h.
     Option.bind (jtime (jget ''created_at'' m)) (\<lambda>ca.
     Option.bind (jtime (jget ''updated_at'' m)) (\<lambda>ua.
     Option.bind (jptr jtime (jget ''run_started_at'' m)) (\<lambda>sa.
       Some \<lparr>wrID = i, wrRunNumber = nr, wrName = n, wrStatus = s, wrConclusion = c, wrHTMLURL = h,
             wrCreatedAt = ca, wrUpdatedAt = ua, wrStartedAt = sa\<rparr>))))))))))"

definition json_runs :: "json \<Rightarrow> WorkflowRun list option" where
  "json_runs j = Option.bind (jmembers j) (\<lambda>m. jlist json_run (jget ''workflow_runs'' m))"

definition json_step_response :: "json \<Rightarrow> stepResponse option" where
  "json_step_response j = Option.bind (jmembers j) (\<lambda>m.
     Option.bind (jstring (jget ''name'' m)) (\<lambda>n.
     Option.bind (jstring (jget ''status'' m)) (\<lambda>s.
     Option.bind (jstring (jget ''conclusion'' m)) (\<lambda>c.
     Option.bind (jint (jget ''number'' m)) (\<lambda>nr.
     Option.bind (jtime (jget ''started_at'' m)) (\<lambda>sa.
     Option.bind (jtime (jget ''completed_at'' m)) (\<lambda>ca.
       Some \<lparr>srName = n, srStatus = s, srConclusion = c, srNumber = nr, srStartedAt = sa, srCompletedAt = ca\<rparr>)))))))"

definition json_job :: "json \<Rightarrow> jobResponse option" where
  "json_job j = Option.bind (jmembers j) (\<lambda>m.
     Option.bind (jint (jget ''id'' m)) (\<lambda>i.
     Option.bind (jstring (jget ''name'' m)) (\<lambda>n.
     Option.bind (jstring (jget ''status'' m)) (\<lambda>_.
     Option.bind (jstring (jget ''conclusion'' m)) (\<lambda>_.
     Option.bind (jtime (jget ''started_at'' m)) (\<lambda>_.
     Option.bind (jtime (jget ''completed_at'' m)) (\<lambda>_.
     Option.bind (jlist json_step_response (jget ''steps'' m)) (\<lambda>ss.
       Some \<lparr>jrID = i, jrName = n, jrSteps = ss\<rparr>))))))))"

definition json_jobs :: "json \<Rightarrow> jobResponse list option" where
  "json_jobs j = Option.bind (jmembers j) (\<lambda>m. jlist json_job (jget ''jobs'' m))"

text \<open>The instant of an RFC 3339 text, in nanoseconds since the first day of year 1.\<close>

definition days_before :: "nat \<Rightarrow> nat \<Rightarrow> nat \<Rightarrow> int" where
  "days_before y m d =
     365 * (int y - 1) + (int y - 1) div 4 - (int y - 1) div 100 + (int y - 1) div 400
     + int (sum_list (map (\<lambda>k. days_in k y) [1..<m])) + int d - 1"

definition zone_seconds :: "string \<Rightarrow> int" where
  "zone_seconds z =
     (if z = ''Z'' then 0
      else let s = int (digits_val (take 2 (drop 1 z))) * 3600 + int (digits_val (drop 4 z)) * 60
           in if hd z = CHR ''-'' then - s else s)"

definition fraction_ns :: "string \<Rightarrow> int" where
  "fraction_ns ds = int (digits_val (take 9 (ds @ replicate 9 CHR ''0'')))"

definition instant :: "time_text \<Rightarrow> int" where
  "instant s =
     (let d = days_before (digits_val (take 4 s)) (digits_val (take 2 (drop 5 s))) (digits_val (take 2 (drop 8 s)));
          hour = takeWhile is_digit (drop 11 s); r = dropWhile is_digit (drop 11 s);
          mins = digits_val (take 2 (drop 1 r)); secs = digits_val (take 2 (drop 4 r)); tl6 = drop 6 r;
          frac = (if tl6 \<noteq> [] \<and> hd tl6 \<in> set ''.,'' then takeWhile is_digit (tl tl6) else []);
          zone = (if frac \<noteq> [] then dropWhile is_digit (tl tl6) else tl6)
      in (d * 86400 + int (digits_val hour) * 3600 + int mins * 60 + int secs - zone_seconds zone) * 1000000000
         + fraction_ns frac)"

definition diffMillis :: "time_text \<Rightarrow> time_text \<Rightarrow> int" where
  "diffMillis start stop =
     (if instant start = 0 \<or> instant stop = 0 then 0
      else let d = time_Sub (instant stop) (instant start) in if d < 0 then 0 else go_div d 1000000)"

definition flatten :: "jobResponse list \<Rightarrow> Step list" where
  "flatten jobs = concat (map (\<lambda>job. map (\<lambda>st.
     \<lparr>stJobID = jrID job, stJobName = jrName job, stNumber = srNumber st, stName = srName st, stStatus = srStatus st,
      stConclusion = srConclusion st, stStartedAt = srStartedAt st, stCompletedAt = srCompletedAt st,
      stDurationMs = diffMillis (srStartedAt st) (srCompletedAt st)\<rparr>) (jrSteps job)) jobs)"

section \<open>Logs (logs.go)\<close>

text \<open>\<open>strings.SplitN(line, "\t", 3)\<close>, then the three cases.\<close>

definition splitGHLogLine :: "string \<Rightarrow> string \<times> string \<times> string" where
  "splitGHLogLine line =
     (let tab = (\<lambda>c. c = CHR 0x09); rest = (\<lambda>s. dropWhile (\<lambda>c. \<not> tab c) s) in
      case rest line of
        [] \<Rightarrow> ([], [], line)
      | _ # s \<Rightarrow>
          (case rest s of
             [] \<Rightarrow> (takeWhile (\<lambda>c. \<not> tab c) line, [], s)
           | _ # msg \<Rightarrow> (takeWhile (\<lambda>c. \<not> tab c) line, takeWhile (\<lambda>c. \<not> tab c) s, msg)))"

definition parseGHLogLines :: "string \<Rightarrow> int \<Rightarrow> WorkflowLogLine list" where
  "parseGHLogLines raw maxLines =
     (if raw = [] then []
      else
        let text = rev (dropWhile (\<lambda>c. c = CHR 0x0A) (rev raw));
            out = map (\<lambda>line. case splitGHLogLine (Redact line) of (j, s, m) \<Rightarrow> \<lparr>llJobName = j, llStepName = s, llRaw = m\<rparr>)
                    (filter (\<lambda>line. line \<noteq> []) (split_char CHR 0x0A text))
        in if maxLines > 0 \<and> int (length out) > maxLines then drop (length out - nat maxLines) out else out)"

section \<open>Requests both transports make\<close>

record CreateRepoRequest =
  crOwner :: string
  crName :: string
  crDescription :: string
  crVisibility :: string
  crAutoInit :: bool

definition create_repo_body :: "CreateRepoRequest \<Rightarrow> json" where
  "create_repo_body req =
     (let visibility = (if crVisibility req = [] then ''private'' else crVisibility req) in
      JObj [(''auto_init'', JBool (crAutoInit req)), (''description'', jstr (crDescription req)),
            (''name'', jstr (crName req)), (''private'', JBool (visibility \<noteq> ''public''))])"

definition deploy_key_body :: "string \<Rightarrow> string \<Rightarrow> bool \<Rightarrow> json" where
  "deploy_key_body title key readOnly =
     JObj [(''key'', jstr key), (''read_only'', JBool readOnly), (''title'', jstr title)]"

definition dispatch_body :: "string \<Rightarrow> string gomap \<Rightarrow> json" where
  "dispatch_body ref inputs =
     JObj ((if inputs \<noteq> [] then [(''inputs'', jmap inputs)] else []) @ [(''ref'', jstr ref)])"

definition commitFileBody :: "CommitFileRequest \<Rightarrow> json" where
  "commitFileBody req =
     JObj ((if CBranch req \<noteq> [] then [(''branch'', jstr (CBranch req))] else [])
           @ [(''content'', jstr (b64_encode (CContent req))),
              (''message'', jstr (if CMessage req = [] then ''Add Webox deploy workflow'' else CMessage req))])"

definition validateCommitFileRequest :: "CommitFileRequest \<Rightarrow> terr option" where
  "validateCommitFileRequest req =
     (if CPath req = [] \<or> CContent req = [] then Some (gerr ErrInvalidCommitFileRequest) else None)"

definition delete_body :: "string \<Rightarrow> string \<Rightarrow> json" where
  "delete_body sha branch =
     JObj [(''branch'', jstr branch), (''message'', jstr ''Remove Webox deploy workflow''), (''sha'', jstr sha)]"

definition json_sha :: "json \<Rightarrow> string option" where
  "json_sha j = Option.bind (jmembers j) (\<lambda>m. jstring (jget ''sha'' m))"

text \<open>What a transport offers; the two optional parts are the type assertions of the client.\<close>

record 'w Transport =
  tCreateRepo :: "CreateRepoRequest \<Rightarrow> 'w \<Rightarrow> Repository res \<times> 'w"
  tAddDeployKey :: "RepoRef \<Rightarrow> string \<Rightarrow> string \<Rightarrow> bool \<Rightarrow> 'w \<Rightarrow> DeployKey res \<times> 'w"
  tSetActionsSecret :: "RepoRef \<Rightarrow> string \<Rightarrow> string \<Rightarrow> 'w \<Rightarrow> unit res \<times> 'w"
  tDispatchWorkflow :: "RepoRef \<Rightarrow> string \<Rightarrow> string \<Rightarrow> string gomap \<Rightarrow> 'w \<Rightarrow> WorkflowDispatch res \<times> 'w"
  tGetLatestRun :: "RepoRef \<Rightarrow> string \<Rightarrow> string \<Rightarrow> 'w \<Rightarrow> WorkflowRun option res \<times> 'w"
  tGetWorkflowSteps :: "RepoRef \<Rightarrow> int \<Rightarrow> 'w \<Rightarrow> Step list res \<times> 'w"
  tGetWorkflowLogs :: "RepoRef \<Rightarrow> int \<Rightarrow> int \<Rightarrow> 'w \<Rightarrow> WorkflowLogLine list res \<times> 'w"
  tCommitWorkflowFile :: "(RepoRef \<Rightarrow> CommitFileRequest \<Rightarrow> 'w \<Rightarrow> unit res \<times> 'w) option"
  tRemoveRepo :: "(string \<Rightarrow> string \<Rightarrow> 'w \<Rightarrow> unit res \<times> 'w) option"
  tRemoveDeployKey :: "(string \<Rightarrow> string \<Rightarrow> int \<Rightarrow> 'w \<Rightarrow> unit res \<times> 'w) option"
  tRemoveActionsSecret :: "(string \<Rightarrow> string \<Rightarrow> string \<Rightarrow> 'w \<Rightarrow> unit res \<times> 'w) option"
  tRemoveWorkflowFile :: "(string \<Rightarrow> string \<Rightarrow> string \<Rightarrow> string \<Rightarrow> 'w \<Rightarrow> unit res \<times> 'w) option"

text \<open>One API call: method, path, body, decoder of the answer (\<open>None\<close> when it is not read) and its zero value.\<close>

type_synonym ('w, 'a) api = "string \<Rightarrow> string \<Rightarrow> json option \<Rightarrow> (json \<Rightarrow> 'a option) option \<Rightarrow> 'a \<Rightarrow> 'w \<Rightarrow> (terr + 'a) \<times> 'w"

definition drop_text :: "(terr + 'a) \<times> 'w \<Rightarrow> 'a res \<times> 'w" where
  "drop_text r = (case r of (Inl e, w) \<Rightarrow> (Inl (fst e), w) | (Inr x, w) \<Rightarrow> (Inr x, w))"

text \<open>\<open>if err := check; err != nil { return err }\<close> before the call.\<close>

definition checked :: "terr option \<Rightarrow> ('w \<Rightarrow> 'a res \<times> 'w) \<Rightarrow> 'w \<Rightarrow> 'a res \<times> 'w" where
  "checked c f w = (case c of Some e \<Rightarrow> (Inl (fst e), w) | None \<Rightarrow> f w)"

definition zero_repository :: Repository where
  "zero_repository = \<lparr>RepoID = 0, RepoOwner = [], RepoName = [], RepoHTMLURL = [], RepoSSHURL = []\<rparr>"

definition zero_deploy_key :: DeployKey where
  "zero_deploy_key = \<lparr>KeyID = 0, KeyTitle = [], KeyText = [], KeyURL = []\<rparr>"

definition zero_dispatch :: WorkflowDispatch where
  "zero_dispatch = \<lparr>wdRunID = 0, wdRunURL = [], wdHTMLURL = []\<rparr>"

definition steps_of :: "jobResponse list \<Rightarrow> Step list res" where
  "steps_of jobs =
     (if jobs = [] then Inl [GithubE ErrRunNotFound]
      else if flatten jobs = [] then Inl [GithubE ErrStepsParseError]
      else Inr (flatten jobs))"

definition first_run :: "WorkflowRun list \<Rightarrow> WorkflowRun option" where
  "first_run runs = (case runs of [] \<Rightarrow> None | r # _ \<Rightarrow> Some r)"

text \<open>The calls of the API that both transports make; they differ in how the paths are written.\<close>

datatype api_op =
    OpCreateRepo CreateRepoRequest
  | OpAddKey RepoRef string string bool
  | OpDispatch RepoRef string string "string gomap"
  | OpRuns RepoRef string string
  | OpJobs RepoRef int
  | OpCommit RepoRef CommitFileRequest
  | OpRemoveRepo string string
  | OpRemoveKey string string int
  | OpRemoveSecret string string string
  | OpFileSHA string string string string
  | OpRemoveFile string string string string string

definition repo_at :: "string \<Rightarrow> string \<Rightarrow> string" where
  "repo_at owner repo = ''/repos/'' @ repoPath \<lparr>Owner = owner, RName = repo\<rparr>"

text \<open>The part that is written alike in \<open>cleanup.go\<close> and \<open>contents.go\<close>.\<close>

fun shared_endpoint :: "api_op \<Rightarrow> string \<times> string \<times> json option" where
  "shared_endpoint (OpCommit r req) =
     (''PUT'', ''/repos/'' @ repoPath r @ ''/contents/'' @ path_escape (CPath req), Some (commitFileBody req))"
| "shared_endpoint (OpRemoveRepo owner repo) = (''DELETE'', repo_at owner repo, None)"
| "shared_endpoint (OpRemoveKey owner repo k) = (''DELETE'', repo_at owner repo @ ''/keys/'' @ itoa k, None)"
| "shared_endpoint (OpRemoveSecret owner repo name) =
     (''DELETE'', repo_at owner repo @ ''/actions/secrets/'' @ path_escape name, None)"
| "shared_endpoint (OpFileSHA owner repo path branch) =
     (''GET'', repo_at owner repo @ ''/contents/'' @ path_escape path @ ''?ref='' @ query_escape branch, None)"
| "shared_endpoint (OpRemoveFile owner repo path branch sha) =
     (''DELETE'', repo_at owner repo @ ''/contents/'' @ path_escape path, Some (delete_body sha branch))"
| "shared_endpoint _ = ([], [], None)"

fun cli_endpoint :: "api_op \<Rightarrow> string \<times> string \<times> json option" where
  "cli_endpoint (OpCreateRepo req) =
     (''POST'', (if crOwner req \<noteq> [] then ''/orgs/'' @ crOwner req @ ''/repos'' else ''/user/repos''), Some (create_repo_body req))"
| "cli_endpoint (OpAddKey r title key ro) = (''POST'', ''/repos/'' @ FullName r @ ''/keys'', Some (deploy_key_body title key ro))"
| "cli_endpoint (OpDispatch r wfid ref inputs) =
     (''POST'', ''/repos/'' @ FullName r @ ''/actions/workflows/'' @ wfid @ ''/dispatches'', Some (dispatch_body ref inputs))"
| "cli_endpoint (OpRuns r branch event) =
     (''GET'', ''/repos/'' @ FullName r @ ''/actions/runs?per_page=1''
        @ (if branch \<noteq> [] then ''&branch='' @ branch else []) @ (if event \<noteq> [] then ''&event='' @ event else []), None)"
| "cli_endpoint (OpJobs r run) = (''GET'', ''/repos/'' @ FullName r @ ''/actions/runs/'' @ itoa run @ ''/jobs'', None)"
| "cli_endpoint op = shared_endpoint op"

text \<open>\<open>url.Values.Encode\<close> writes the parameters sorted by key.\<close>

fun rest_endpoint :: "api_op \<Rightarrow> string \<times> string \<times> json option" where
  "rest_endpoint (OpCreateRepo req) =
     (''POST'', (if crOwner req \<noteq> [] then ''/orgs/'' @ path_escape (crOwner req) @ ''/repos'' else ''/user/repos''),
      Some (create_repo_body req))"
| "rest_endpoint (OpAddKey r title key ro) = (''POST'', ''/repos/'' @ repoPath r @ ''/keys'', Some (deploy_key_body title key ro))"
| "rest_endpoint (OpDispatch r wfid ref inputs) =
     (''POST'', ''/repos/'' @ repoPath r @ ''/actions/workflows/'' @ path_escape wfid @ ''/dispatches'', Some (dispatch_body ref inputs))"
| "rest_endpoint (OpRuns r branch event) =
     (''GET'', ''/repos/'' @ repoPath r @ ''/actions/runs?''
        @ (if branch \<noteq> [] then ''branch='' @ query_escape branch @ ''&'' else [])
        @ (if event \<noteq> [] then ''event='' @ query_escape event @ ''&'' else []) @ ''per_page=1'', None)"
| "rest_endpoint (OpJobs r run) = (''GET'', ''/repos/'' @ repoPath r @ ''/actions/runs/'' @ itoa run @ ''/jobs'', None)"
| "rest_endpoint op = shared_endpoint op"

text \<open>A call of an endpoint.\<close>

definition via :: "('w, 'a) api \<Rightarrow> string \<times> string \<times> json option \<Rightarrow> (json \<Rightarrow> 'a option) option \<Rightarrow> 'a \<Rightarrow> 'w \<Rightarrow> (terr + 'a) \<times> 'w" where
  "via call ep dec zero w = (case ep of (m, p, body) \<Rightarrow> call m p body dec zero w)"

definition remove_workflow ::
  "('w, string) api \<Rightarrow> ('w, unit) api \<Rightarrow> string \<Rightarrow> string \<Rightarrow> string \<Rightarrow> string \<Rightarrow> 'w \<Rightarrow> unit res \<times> 'w" where
  "remove_workflow get del owner repo path branch w =
     (case via get (shared_endpoint (OpFileSHA owner repo path branch)) (Some json_sha) [] w of
        (Inl e, w) \<Rightarrow> (Inl (fst e), w)
      | (Inr sha, w) \<Rightarrow>
          if sha = [] then (Inl [GithubE ErrWorkflowFileMissingSHA], w)
          else drop_text (via del (shared_endpoint (OpRemoveFile owner repo path branch sha)) None () w))"

section \<open>The transport over gh (cli.go)\<close>

text \<open>
  The runner gets the name of the program, its arguments and its standard input, and gives standard output, standard
  error and the error of the process with its text. \<open>jsonText\<close> and \<open>parseJSON\<close> are the JSON text codec, \<open>parseText\<close> the
  text of its complaint about an input.
\<close>

type_synonym 'w CommandRunner =
  "string \<Rightarrow> string list \<Rightarrow> string option \<Rightarrow> 'w \<Rightarrow> (string \<times> string \<times> terr option) \<times> 'w"

record codec =
  jsonText :: "json \<Rightarrow> string"
  parseJSON :: "string \<Rightarrow> json option"
  parseText :: "string \<Rightarrow> string"

definition wrapCLIError :: "string \<Rightarrow> string \<Rightarrow> terr \<Rightarrow> terr" where
  "wrapCLIError operation stderr err =
     (let redacted = trim_space (Redact stderr) in
      if errors_is (fst err) ExecNotFound \<or> contains redacted ''command not found'' then gerr_msg ErrGHUnavailable operation
      else if contains redacted ''HTTP 401'' \<or> contains redacted ''authentication required'' then gerr_msg ErrPATInvalid operation
      else if contains redacted ''HTTP 403'' then gerr_msg ErrPATScopeInsufficient (operation @ '': '' @ redacted)
      else if contains redacted ''HTTP 422'' \<and> contains (to_lower redacted) ''already''
           then gerr_msg ErrRepoExists (operation @ '': '' @ redacted)
      else (fst err, ''github: gh '' @ operation @ '': ''
              @ (if redacted = [] then Redact (snd err) else redacted) @ '': '' @ snd err))"

definition isNotFoundCLI :: "terr \<Rightarrow> bool" where
  "isNotFoundCLI err \<longleftrightarrow>
     errors_is (fst err) (GithubE ErrRunNotFound) \<or> contains (snd err) ''HTTP 404''
     \<or> contains (to_lower (snd err)) ''not found''"

definition ghAPI :: "codec \<Rightarrow> 'w CommandRunner \<Rightarrow> ('w, 'a) api" where
  "ghAPI cd run meth path body dec zero w =
     (case run ''gh'' ([''api'', ''--method'', meth, path] @ (if body \<noteq> None then [''--input'', ''-''] else []))
             (map_option (jsonText cd) body) w of
        ((stdout, stderr, Some err), w) \<Rightarrow> (Inl (wrapCLIError (meth @ '' '' @ path) stderr err), w)
      | ((stdout, stderr, None), w) \<Rightarrow>
          (case dec of
             None \<Rightarrow> (Inr zero, w)
           | Some d \<Rightarrow>
               if trim_space stdout = [] then (Inr zero, w)
               else case Option.bind (parseJSON cd stdout) d of
                 Some x \<Rightarrow> (Inr x, w)
               | None \<Rightarrow> (Inl ([Foreign 0], ''github: parse gh api response for '' @ meth @ '' '' @ path @ '': ''
                            @ parseText cd stdout), w)))"

definition cli_SetActionsSecret :: "'w CommandRunner \<Rightarrow> RepoRef \<Rightarrow> string \<Rightarrow> string \<Rightarrow> 'w \<Rightarrow> unit res \<times> 'w" where
  "cli_SetActionsSecret run repo name val =
     checked (ref_validate repo) (\<lambda>w.
       case run ''gh'' [''secret'', ''set'', name, ''--repo'', FullName repo, ''--body'', ''-''] (Some val) w of
         ((_, stderr, Some err), w) \<Rightarrow> (Inl (fst (wrapCLIError ''set actions secret'' stderr err)), w)
       | ((_, _, None), w) \<Rightarrow> (Inr (), w))"

definition cli_GetWorkflowSteps :: "codec \<Rightarrow> 'w CommandRunner \<Rightarrow> RepoRef \<Rightarrow> int \<Rightarrow> 'w \<Rightarrow> Step list res \<times> 'w" where
  "cli_GetWorkflowSteps cd run repo runID =
     checked (ref_validate repo) (\<lambda>w.
       if runID \<le> 0 then (Inl [GithubE ErrRunNotFound], w)
       else case via (ghAPI cd run) (cli_endpoint (OpJobs repo runID)) (Some json_jobs) [] w of
         (Inl e, w) \<Rightarrow> (Inl (if isNotFoundCLI e then [GithubE ErrRunNotFound] else fst e), w)
       | (Inr jobs, w) \<Rightarrow> (steps_of jobs, w))"

definition cli_GetWorkflowLogs :: "'w CommandRunner \<Rightarrow> RepoRef \<Rightarrow> int \<Rightarrow> int \<Rightarrow> 'w \<Rightarrow> WorkflowLogLine list res \<times> 'w" where
  "cli_GetWorkflowLogs run repo runID maxLines =
     checked (ref_validate repo) (\<lambda>w.
       if runID \<le> 0 then (Inl [GithubE ErrRunNotFound], w)
       else case run ''gh'' [''run'', ''view'', itoa runID, ''--repo'', FullName repo, ''--log''] None w of
         ((_, stderr, Some err), w) \<Rightarrow>
           (Inl (if isNotFoundCLI (wrapCLIError ''run view'' stderr err) then [GithubE ErrRunNotFound]
                 else fst (wrapCLIError ''run view --log'' stderr err)), w)
       | ((stdout, _, None), w) \<Rightarrow> (Inr (parseGHLogLines stdout maxLines), w))"

definition CLITransport :: "codec \<Rightarrow> 'w CommandRunner \<Rightarrow> 'w Transport" where
  "CLITransport cd run =
     \<lparr>tCreateRepo = (\<lambda>req w. drop_text (via (ghAPI cd run) (cli_endpoint (OpCreateRepo req)) (Some json_repository) zero_repository w)),
      tAddDeployKey = (\<lambda>repo title key ro. checked (ref_validate repo) (\<lambda>w.
        drop_text (via (ghAPI cd run) (cli_endpoint (OpAddKey repo title key ro)) (Some json_deploy_key) zero_deploy_key w))),
      tSetActionsSecret = cli_SetActionsSecret run,
      tDispatchWorkflow = (\<lambda>repo wfid ref inputs. checked (ref_validate repo) (\<lambda>w.
        case via (ghAPI cd run) (cli_endpoint (OpDispatch repo wfid ref inputs)) (Some json_dispatch) zero_dispatch w of
          (Inl e, w) \<Rightarrow> (Inl (wrap (GithubE ErrWorkflowDispatchFailed) (fst e)), w)
        | (Inr d, w) \<Rightarrow> (Inr d, w))),
      tGetLatestRun = (\<lambda>repo branch event. checked (ref_validate repo) (\<lambda>w.
        case via (ghAPI cd run) (cli_endpoint (OpRuns repo branch event)) (Some json_runs) [] w of
          (Inl e, w) \<Rightarrow> (Inl (fst e), w)
        | (Inr runs, w) \<Rightarrow> (Inr (first_run runs), w))),
      tGetWorkflowSteps = cli_GetWorkflowSteps cd run,
      tGetWorkflowLogs = cli_GetWorkflowLogs run,
      tCommitWorkflowFile = Some (\<lambda>repo req. checked (ref_validate repo) (checked (validateCommitFileRequest req) (\<lambda>w.
        drop_text (via (ghAPI cd run) (cli_endpoint (OpCommit repo req)) None () w)))),
      tRemoveRepo = Some (\<lambda>owner repo w. drop_text (via (ghAPI cd run) (cli_endpoint (OpRemoveRepo owner repo)) None () w)),
      tRemoveDeployKey = Some (\<lambda>owner repo k w.
        drop_text (via (ghAPI cd run) (cli_endpoint (OpRemoveKey owner repo k)) None () w)),
      tRemoveActionsSecret = Some (\<lambda>owner repo name w.
        drop_text (via (ghAPI cd run) (cli_endpoint (OpRemoveSecret owner repo name)) None () w)),
      tRemoveWorkflowFile = Some (remove_workflow (ghAPI cd run) (ghAPI cd run))\<rparr>"

section \<open>The REST transport (rest.go)\<close>

definition maxResponseBytes :: nat where "maxResponseBytes = 1048576"
definition serverErrorMin :: int where "serverErrorMin = 500"
definition baseRetryDelay :: int where "baseRetryDelay = 200000000"

record gh_request =
  ghMethod :: string
  ghURL :: string
  ghHeader :: "string gomap"
  ghBody :: string

text \<open>
  \<open>rtRand\<close> is \<open>rand.Int(rand.Reader, max)\<close>. The texts of errors that come from the HTTP library are left out: the only
  text that is read belongs to \<open>ErrHTTPUnexpectedStatus\<close>.
\<close>

record 'w RESTTransport =
  rtBaseURL :: string
  rtDo :: "gh_request \<Rightarrow> 'w \<Rightarrow> http_out \<times> 'w"
  rtToken :: "('w \<Rightarrow> string res \<times> 'w) option"
  rtSleep :: "int \<Rightarrow> 'w \<Rightarrow> goerr option \<times> 'w"
  rtRand :: "int \<Rightarrow> 'w \<Rightarrow> int option \<times> 'w"

definition defaultBaseURL :: string where "defaultBaseURL = ''https://api.github.com''"

definition NewRESTTransport ::
  "(gh_request \<Rightarrow> 'w \<Rightarrow> http_out \<times> 'w) \<Rightarrow> (int \<Rightarrow> 'w \<Rightarrow> goerr option \<times> 'w) \<Rightarrow> (int \<Rightarrow> 'w \<Rightarrow> int option \<times> 'w) \<Rightarrow> string \<Rightarrow>
   (gh_request \<Rightarrow> 'w \<Rightarrow> http_out \<times> 'w) option \<Rightarrow> ('w \<Rightarrow> string res \<times> 'w) option \<Rightarrow> (int \<Rightarrow> 'w \<Rightarrow> goerr option \<times> 'w) option \<Rightarrow>
   'w RESTTransport" where
  "NewRESTTransport defaultClient sleepCtx random baseURL client tokenSource sleep =
     \<lparr>rtBaseURL = rev (dropWhile (\<lambda>c. c = CHR ''/'') (rev (if baseURL = [] then defaultBaseURL else baseURL))),
      rtDo = (case client of None \<Rightarrow> defaultClient | Some c \<Rightarrow> c),
      rtToken = tokenSource,
      rtSleep = (case sleep of None \<Rightarrow> sleepCtx | Some s \<Rightarrow> s),
      rtRand = random\<rparr>"

definition cryptoJitter :: "'w RESTTransport \<Rightarrow> int \<Rightarrow> 'w \<Rightarrow> int \<times> 'w" where
  "cryptoJitter t maxDelay w =
     (if maxDelay \<le> 0 then (0, w)
      else case rtRand t maxDelay w of (None, w) \<Rightarrow> (0, w) | (Some n, w) \<Rightarrow> (n, w))"

definition retryDelay :: "'w RESTTransport \<Rightarrow> nat \<Rightarrow> 'w \<Rightarrow> int \<times> 'w" where
  "retryDelay t attempt w =
     (let base = 2 ^ attempt * baseRetryDelay in
      case cryptoJitter t (go_div base 2) w of (j, w) \<Rightarrow> (base + j, w))"

text \<open>A \<open>retriableError\<close> is marked by \<open>Retriable\<close> in front of the chain.\<close>

definition retriableError :: "terr \<Rightarrow> terr" where
  "retriableError e = (wrap Retriable (fst e), snd e)"

definition isRetriable :: "terr \<Rightarrow> bool" where
  "isRetriable e = errors_is (fst e) Retriable"

definition mapHTTPError :: "int \<Rightarrow> string \<Rightarrow> terr" where
  "mapHTTPError status raw =
     (let body = trim_space (Redact raw) in
      if status = 401 then gerr_msg ErrPATInvalid body
      else if status = 403 then
        (if contains (to_lower body) ''rate limit'' then retriableError (gerr_msg ErrGHRateLimited body)
         else gerr_msg ErrPATScopeInsufficient body)
      else if status = 429 then retriableError (gerr_msg ErrGHRateLimited body)
      else if status = 422 then
        (if contains (to_lower body) ''already'' then gerr_msg ErrRepoExists body
         else gerr_msg ErrHTTPValidationFailed body)
      else if status \<ge> serverErrorMin then retriableError (gerr_msg ErrHTTPServerError (itoa status @ '': '' @ body))
      else gerr_msg ErrHTTPUnexpectedStatus (itoa status @ '': '' @ body))"

text \<open>The request; \<open>payload\<close> is absent for a call without a body.\<close>

definition rest_request :: "'w RESTTransport \<Rightarrow> string \<Rightarrow> string \<Rightarrow> string option \<Rightarrow> string \<Rightarrow> gh_request" where
  "rest_request t meth path payload token =
     \<lparr>ghMethod = meth, ghURL = rtBaseURL t @ path,
      ghHeader = [(''Accept'', ''application/vnd.github+json''), (''Authorization'', ''Bearer '' @ token),
        (''X-GitHub-Api-Version'', ''2022-11-28'')]
        @ (if payload \<noteq> None then [(''Content-Type'', ''application/json'')] else []),
      ghBody = (case payload of None \<Rightarrow> [] | Some p \<Rightarrow> p)\<rparr>"

definition rest_answer :: "codec \<Rightarrow> (json \<Rightarrow> 'a option) option \<Rightarrow> 'a \<Rightarrow> http_out \<Rightarrow> terr + 'a" where
  "rest_answer cd dec zero out =
     (case out of
        BuildErr e \<Rightarrow> Inl (e, ''github: build request: '')
      | DoErr e \<Rightarrow> Inl (e, ''github: http request: '')
      | ReadErr e \<Rightarrow> Inl (e, ''github: read response: '')
      | Response status body \<Rightarrow>
          (let raw = take maxResponseBytes body in
           if status \<ge> 200 \<and> status \<le> 299 then
             (case dec of
                None \<Rightarrow> Inr zero
              | Some d \<Rightarrow>
                  if trim_space raw = [] then Inr zero
                  else case Option.bind (parseJSON cd raw) d of
                    Some x \<Rightarrow> Inr x
                  | None \<Rightarrow> Inl ([Foreign 0], ''github: parse response: '' @ parseText cd raw))
           else Inl (mapHTTPError status raw)))"

definition doOnce :: "codec \<Rightarrow> 'w RESTTransport \<Rightarrow> string \<Rightarrow> string \<Rightarrow> string option \<Rightarrow> string \<Rightarrow> (json \<Rightarrow> 'a option) option \<Rightarrow> 'a \<Rightarrow> 'w \<Rightarrow> (terr + 'a) \<times> 'w" where
  "doOnce cd t meth path payload token dec zero w =
     (case rtDo t (rest_request t meth path payload token) w of (out, w) \<Rightarrow> (rest_answer cd dec zero out, w))"

text \<open>The three rounds of \<open>doJSON\<close>; \<open>once\<close> is the request, \<open>prev\<close> the result of the previous round.\<close>

function attempts :: "'w RESTTransport \<Rightarrow> ('w \<Rightarrow> (terr + 'a) \<times> 'w) \<Rightarrow> nat \<Rightarrow> terr + 'a \<Rightarrow> 'w \<Rightarrow> (terr + 'a) \<times> 'w" where
  "attempts t once attempt prev w =
     (if attempt < 3 then
        case (if attempt > 0 then (case retryDelay t attempt w of (d, w) \<Rightarrow> rtSleep t d w) else (None, w)) of
          (Some e, w) \<Rightarrow> (Inl (e, []), w)
        | (None, w) \<Rightarrow>
            (case once w of
               (Inr x, w) \<Rightarrow> (Inr x, w)
             | (Inl e, w) \<Rightarrow> if \<not> isRetriable e then (Inl e, w) else attempts t once (Suc attempt) (Inl e) w)
      else (prev, w))"
  by pat_completeness auto
termination
  by (relation "measure (\<lambda>(_, _, attempt, _, _). 3 - attempt)") auto

declare attempts.simps [simp del]

definition doJSON :: "codec \<Rightarrow> 'w RESTTransport \<Rightarrow> ('w, 'a) api" where
  "doJSON cd t meth path body dec zero w =
     (case rtToken t of
        None \<Rightarrow> (Inl (gerr ErrPATInvalid), w)
      | Some source \<Rightarrow>
          (case source w of
             (Inl e, w) \<Rightarrow> (Inl (wrap (GithubE ErrPATInvalid) e, github_text ErrPATInvalid @ '': ''), w)
           | (Inr token, w) \<Rightarrow>
               if token = [] then (Inl (gerr ErrPATInvalid), w)
               else attempts t (doOnce cd t meth path (map_option (jsonText cd) body) token dec zero) 0 (Inr zero) w))"

section \<open>Sealed secrets (secret.go)\<close>

text \<open>The NaCl box and BLAKE2b are code outside the repository: key generation, sealing and the 24-byte hash.\<close>

record 'w box =
  bxGenerateKey :: "'w \<Rightarrow> (string \<times> string) res \<times> 'w"
  bxSeal :: "string \<Rightarrow> string \<Rightarrow> string \<Rightarrow> string \<Rightarrow> string"
  bxHash :: "string \<Rightarrow> string"

definition publicKeySize :: nat where "publicKeySize = 32"

definition sealedBoxNonce :: "'w box \<Rightarrow> string \<Rightarrow> string \<Rightarrow> string" where
  "sealedBoxNonce bx ephemeralPublic recipient = bxHash bx (ephemeralPublic @ recipient)"

text \<open>\<open>StdEncoding.DecodeString\<close> ignores line ends.\<close>

definition std_decode :: "string \<Rightarrow> string option" where
  "std_decode s = b64_decode (filter (\<lambda>c. c \<noteq> CHR 0x0A \<and> c \<noteq> CHR 0x0D) s)"

definition EncryptSecretForGitHub :: "'w box \<Rightarrow> string \<Rightarrow> string \<Rightarrow> 'w \<Rightarrow> string res \<times> 'w" where
  "EncryptSecretForGitHub bx publicKeyBase64 plaintext w =
     (case std_decode publicKeyBase64 of
        None \<Rightarrow> (Inl [Foreign 0], w)
      | Some recipient \<Rightarrow>
          if length recipient \<noteq> publicKeySize then (Inl [GithubE ErrInvalidPublicKey], w)
          else case bxGenerateKey bx w of
            (Inl e, w) \<Rightarrow> (Inl e, w)
          | (Inr (ephemeralPublic, ephemeralPrivate), w) \<Rightarrow>
              (Inr (b64_encode (ephemeralPublic
                      @ bxSeal bx plaintext (sealedBoxNonce bx ephemeralPublic recipient) recipient ephemeralPrivate)), w))"

definition json_public_key :: "json \<Rightarrow> (string \<times> string) option" where
  "json_public_key j = Option.bind (jmembers j) (\<lambda>m.
     Option.bind (jstring (jget ''key_id'' m)) (\<lambda>i.
     Option.bind (jstring (jget ''key'' m)) (\<lambda>k. Some (i, k))))"

definition rest_SetActionsSecret ::
  "codec \<Rightarrow> 'w box \<Rightarrow> 'w RESTTransport \<Rightarrow> RepoRef \<Rightarrow> string \<Rightarrow> string \<Rightarrow> 'w \<Rightarrow> unit res \<times> 'w" where
  "rest_SetActionsSecret cd bx t repo name val =
     checked (ref_validate repo) (\<lambda>w.
       case doJSON cd t ''GET'' (''/repos/'' @ repoPath repo @ ''/actions/secrets/public-key'') None
              (Some json_public_key) ([], []) w of
         (Inl e, w) \<Rightarrow> (Inl (fst e), w)
       | (Inr (keyID, key), w) \<Rightarrow>
           (case EncryptSecretForGitHub bx key val w of
              (Inl e, w) \<Rightarrow> (Inl e, w)
            | (Inr encrypted, w) \<Rightarrow>
                drop_text (doJSON cd t ''PUT'' (''/repos/'' @ repoPath repo @ ''/actions/secrets/'' @ path_escape name)
                  (Some (JObj [(''encrypted_value'', jstr encrypted), (''key_id'', jstr keyID)])) None () w)))"

definition rest_GetWorkflowSteps :: "codec \<Rightarrow> 'w RESTTransport \<Rightarrow> RepoRef \<Rightarrow> int \<Rightarrow> 'w \<Rightarrow> Step list res \<times> 'w" where
  "rest_GetWorkflowSteps cd t repo runID =
     checked (ref_validate repo) (\<lambda>w.
       if runID \<le> 0 then (Inl [GithubE ErrRunNotFound], w)
       else case via (doJSON cd t) (rest_endpoint (OpJobs repo runID)) (Some json_jobs) [] w of
         (Inl e, w) \<Rightarrow>
           (Inl (if errors_is (fst e) (GithubE ErrHTTPUnexpectedStatus) \<and> contains (snd e) ''404''
                 then [GithubE ErrRunNotFound] else fst e), w)
       | (Inr jobs, w) \<Rightarrow> (steps_of jobs, w))"

definition rest_transport :: "codec \<Rightarrow> 'w box \<Rightarrow> 'w RESTTransport \<Rightarrow> 'w Transport" where
  "rest_transport cd bx t =
     \<lparr>tCreateRepo = (\<lambda>req w. drop_text (via (doJSON cd t) (rest_endpoint (OpCreateRepo req)) (Some json_repository) zero_repository w)),
      tAddDeployKey = (\<lambda>repo title key ro. checked (ref_validate repo) (\<lambda>w.
        drop_text (via (doJSON cd t) (rest_endpoint (OpAddKey repo title key ro)) (Some json_deploy_key) zero_deploy_key w))),
      tSetActionsSecret = rest_SetActionsSecret cd bx t,
      tDispatchWorkflow = (\<lambda>repo wfid ref inputs. checked (ref_validate repo) (\<lambda>w.
        case via (doJSON cd t) (rest_endpoint (OpDispatch repo wfid ref inputs)) (Some json_dispatch) zero_dispatch w of
          (Inl e, w) \<Rightarrow> (Inl (wrap (GithubE ErrWorkflowDispatchFailed) (fst e)), w)
        | (Inr d, w) \<Rightarrow> (Inr d, w))),
      tGetLatestRun = (\<lambda>repo branch event. checked (ref_validate repo) (\<lambda>w.
        case via (doJSON cd t) (rest_endpoint (OpRuns repo branch event)) (Some json_runs) [] w of
          (Inl e, w) \<Rightarrow> (Inl (fst e), w)
        | (Inr runs, w) \<Rightarrow> (Inr (first_run runs), w))),
      tGetWorkflowSteps = rest_GetWorkflowSteps cd t,
      tGetWorkflowLogs = (\<lambda>_ _ _ w. (Inl [GithubE ErrPATScopeInsufficient], w)),
      tCommitWorkflowFile = Some (\<lambda>repo req. checked (ref_validate repo) (checked (validateCommitFileRequest req) (\<lambda>w.
        drop_text (via (doJSON cd t) (rest_endpoint (OpCommit repo req)) None () w)))),
      tRemoveRepo = Some (\<lambda>owner repo w. drop_text (via (doJSON cd t) (rest_endpoint (OpRemoveRepo owner repo)) None () w)),
      tRemoveDeployKey = Some (\<lambda>owner repo k w.
        drop_text (via (doJSON cd t) (rest_endpoint (OpRemoveKey owner repo k)) None () w)),
      tRemoveActionsSecret = Some (\<lambda>owner repo name w.
        drop_text (via (doJSON cd t) (rest_endpoint (OpRemoveSecret owner repo name)) None () w)),
      tRemoveWorkflowFile = Some (remove_workflow (doJSON cd t) (doJSON cd t))\<rparr>"

section \<open>The client (client.go)\<close>

record 'w GithubClient =
  ghPrimary :: "'w Transport"
  ghFallback :: "'w Transport option"

definition NewClient :: "'w Transport \<Rightarrow> 'w Transport option \<Rightarrow> 'w Transport option \<Rightarrow> 'w GithubClient" where
  "NewClient cli primary fallback =
     \<lparr>ghPrimary = (case primary of None \<Rightarrow> cli | Some t \<Rightarrow> t), ghFallback = fallback\<rparr>"

definition withFallback :: "'w Transport \<Rightarrow> 'w Transport option \<Rightarrow> ('w Transport \<Rightarrow> 'w \<Rightarrow> 'a res \<times> 'w) \<Rightarrow> 'w \<Rightarrow> 'a res \<times> 'w" where
  "withFallback primary fallback call w =
     (case call primary w of
        (Inr x, w) \<Rightarrow> (Inr x, w)
      | (Inl e, w) \<Rightarrow>
          (case fallback of
             None \<Rightarrow> (Inl e, w)
           | Some t \<Rightarrow> if \<not> errors_is e (GithubE ErrGHUnavailable) then (Inl e, w) else call t w))"

definition by_client :: "'w GithubClient \<Rightarrow> ('w Transport \<Rightarrow> 'w \<Rightarrow> 'a res \<times> 'w) \<Rightarrow> 'w \<Rightarrow> 'a res \<times> 'w" where
  "by_client c call = withFallback (ghPrimary c) (ghFallback c) call"

text \<open>The type assertion on an optional part of a transport.\<close>

definition transport_part :: "('m \<Rightarrow> 'w \<Rightarrow> 'a res \<times> 'w) \<Rightarrow> 'm option \<Rightarrow> 'w \<Rightarrow> 'a res \<times> 'w" where
  "transport_part f m w = (case m of None \<Rightarrow> (Inl [GithubE ErrGHUnavailable], w) | Some m \<Rightarrow> f m w)"

definition error_only :: "unit res \<times> 'w \<Rightarrow> goerr option \<times> 'w" where
  "error_only r = (case r of (Inl e, w) \<Rightarrow> (Some e, w) | (Inr _, w) \<Rightarrow> (None, w))"

definition GetLatestRun :: "'w GithubClient \<Rightarrow> RepoRef \<Rightarrow> string \<Rightarrow> string \<Rightarrow> 'w \<Rightarrow> WorkflowRun option res \<times> 'w" where
  "GetLatestRun c repo branch event = by_client c (\<lambda>t. tGetLatestRun t repo branch event)"

definition GetWorkflowSteps :: "'w GithubClient \<Rightarrow> RepoRef \<Rightarrow> int \<Rightarrow> 'w \<Rightarrow> Step list res \<times> 'w" where
  "GetWorkflowSteps c repo runID = by_client c (\<lambda>t. tGetWorkflowSteps t repo runID)"

definition GetWorkflowLogs :: "'w GithubClient \<Rightarrow> RepoRef \<Rightarrow> int \<Rightarrow> int \<Rightarrow> 'w \<Rightarrow> WorkflowLogLine list res \<times> 'w" where
  "GetWorkflowLogs c repo runID maxLines = by_client c (\<lambda>t. tGetWorkflowLogs t repo runID maxLines)"

text \<open>The client as the provisioner and the cleanup runner of the wizard.\<close>

definition client_provisioner :: "'w GithubClient \<Rightarrow> ('w, WorkflowDispatch) GitHubProvisioner" where
  "client_provisioner c =
     \<lparr>CreateRepo = (\<lambda>owner name vis auto. by_client c (\<lambda>t. tCreateRepo t
        \<lparr>crOwner = owner, crName = name, crDescription = [], crVisibility = vis, crAutoInit = auto\<rparr>)),
      AddDeployKey = (\<lambda>repo title key ro. by_client c (\<lambda>t. tAddDeployKey t repo title key ro)),
      SetActionsSecret = (\<lambda>repo name val w. error_only (by_client c (\<lambda>t. tSetActionsSecret t repo name val) w)),
      CommitWorkflowFile = (\<lambda>repo req w. error_only (by_client c (\<lambda>t. transport_part (\<lambda>m. m repo req) (tCommitWorkflowFile t)) w)),
      DispatchWorkflow = (\<lambda>repo wfid ref. by_client c (\<lambda>t. tDispatchWorkflow t repo wfid ref []))\<rparr>"

definition client_cleanup :: "'w GithubClient \<Rightarrow> 'w GitHubCleanupRunner" where
  "client_cleanup c =
     \<lparr>RemoveGitHubRepo = (\<lambda>owner repo w. error_only (by_client c (\<lambda>t. transport_part (\<lambda>m. m owner repo) (tRemoveRepo t)) w)),
      RemoveGitHubDeployKey = (\<lambda>owner repo k w. error_only (by_client c (\<lambda>t. transport_part (\<lambda>m. m owner repo k) (tRemoveDeployKey t)) w)),
      RemoveGitHubActionsSecret = (\<lambda>owner repo name w.
        error_only (by_client c (\<lambda>t. transport_part (\<lambda>m. m owner repo name) (tRemoveActionsSecret t)) w)),
      RemoveGitHubWorkflowFile = (\<lambda>owner repo path branch w.
        error_only (by_client c (\<lambda>t. transport_part (\<lambda>m. m owner repo path branch) (tRemoveWorkflowFile t)) w))\<rparr>"

section \<open>Waiting for a run (poll.go)\<close>

text \<open>
  A context is its deadline, if it has one. The clock is a parameter: \<open>ckNow\<close> reads it, \<open>ckWait t\<close> lets the time
  \<open>t\<close> arrive, \<open>ckDone\<close> is the choice of \<open>select\<close> when the timer and the deadline are due together.
\<close>

record 'w clk =
  ckNow :: "'w \<Rightarrow> int"
  ckWait :: "int \<Rightarrow> 'w \<Rightarrow> 'w"
  ckDone :: "'w \<Rightarrow> bool"

type_synonym deadline = "int option"

definition withTimeout :: "deadline \<Rightarrow> int \<Rightarrow> deadline" where
  "withTimeout ctx t = (case ctx of None \<Rightarrow> Some t | Some d \<Rightarrow> Some (min d t))"

definition sleepContext :: "'w clk \<Rightarrow> deadline \<Rightarrow> int \<Rightarrow> 'w \<Rightarrow> goerr option \<times> 'w" where
  "sleepContext ck ctx d w =
     (let t = ckNow ck w + d in
      case ctx of
        None \<Rightarrow> (None, ckWait ck t w)
      | Some dl \<Rightarrow>
          if dl < t then (Some [ContextErr], ckWait ck dl w)
          else let w = ckWait ck t w in
               if t < dl then (None, w) else (if ckDone ck w then Some [ContextErr] else None, w))"

definition defaultPollInterval :: int where "defaultPollInterval = 5000000000"

partial_function (option) poll_loop ::
  "(deadline \<Rightarrow> 'w \<Rightarrow> WorkflowRun option res \<times> 'w) \<Rightarrow> (deadline \<Rightarrow> int \<Rightarrow> 'w \<Rightarrow> goerr option \<times> 'w) \<Rightarrow> deadline \<Rightarrow> int \<Rightarrow> 'w \<Rightarrow>
   ((WorkflowRun option \<times> goerr option) \<times> 'w) option" where
  [code]: "poll_loop getter sleep ctx interval w =
     (case getter ctx w of
        (Inl e, w) \<Rightarrow> Some ((None, Some e), w)
      | (Inr r, w) \<Rightarrow>
          (case r of
             Some run \<Rightarrow>
               if wrStatus run = ''completed'' then
                 (if wrConclusion run = ''success'' then Some ((Some run, None), w)
                  else Some ((Some run, Some [GithubE ErrWorkflowDispatchFailed]), w))
               else (case sleep ctx interval w of
                       (Some e, w) \<Rightarrow> Some ((None, Some e), w)
                     | (None, w) \<Rightarrow> poll_loop getter sleep ctx interval w)
           | None \<Rightarrow>
               (case sleep ctx interval w of
                  (Some e, w) \<Rightarrow> Some ((None, Some e), w)
                | (None, w) \<Rightarrow> poll_loop getter sleep ctx interval w)))"

definition WaitForWorkflowCompletion ::
  "'w clk \<Rightarrow> deadline \<Rightarrow> (deadline \<Rightarrow> 'w \<Rightarrow> WorkflowRun option res \<times> 'w) option \<Rightarrow> int \<Rightarrow> int \<Rightarrow>
   (deadline \<Rightarrow> int \<Rightarrow> 'w \<Rightarrow> goerr option \<times> 'w) option \<Rightarrow> 'w \<Rightarrow> ((WorkflowRun option \<times> goerr option) \<times> 'w) option" where
  "WaitForWorkflowCompletion ck ctx getter interval timeout sleep w =
     (case getter of
        None \<Rightarrow> Some ((None, Some [GithubE ErrRunGetterNil]), w)
      | Some get \<Rightarrow>
          poll_loop get (case sleep of None \<Rightarrow> sleepContext ck | Some s \<Rightarrow> s)
            (if timeout > 0 then withTimeout ctx (ckNow ck w + timeout) else ctx)
            (if interval \<le> 0 then defaultPollInterval else interval) w)"

text \<open>The token from the secret store (token.go).\<close>

definition SecretsTokenSource :: "(string \<Rightarrow> string res) option \<Rightarrow> string \<Rightarrow> 'w \<Rightarrow> string res \<times> 'w" where
  "SecretsTokenSource backend_get account w = (GetGitHubPAT backend_get account, w)"

section \<open>Paths of the two transports\<close>

lemma path_escape_id [simp]: "list_all unreserved s \<Longrightarrow> path_escape s = s"
  by (induction s) (auto simp: path_escape_def)

lemma query_escape_id [simp]: "list_all unreserved s \<Longrightarrow> query_escape s = s"
  by (induction s) (auto simp: query_escape_def)

lemma hex_digit_plain: "k < 16 \<Longrightarrow> ''0123456789ABCDEF'' ! k \<noteq> CHR ''/''"
  by (auto simp: less_Suc_eq numeral_eq_Suc)

lemma path_escape_no_slash: "CHR ''/'' \<notin> set (path_escape s)"
proof -
  have "CHR ''/'' \<notin> set (percent c)" for c
    using hex_digit_plain [of "of_char c div 16"] hex_digit_plain [of "of_char c mod 16"] nat_of_char_less_256 [of c]
    by (auto simp: percent_def Let_def less_mult_imp_div_less)
  moreover have "\<not> unreserved CHR ''/''" by code_simp
  ultimately show ?thesis by (auto simp: path_escape_def)
qed

text \<open>A request path as the resource and the parameters of its query, in any order.\<close>

definition query_of :: "string \<Rightarrow> string \<times> string multiset" where
  "query_of p = (takeWhile (\<lambda>c. c \<noteq> CHR ''?'') p, mset (split_char CHR ''&'' (drop 1 (dropWhile (\<lambda>c. c \<noteq> CHR ''?'') p))))"

text \<open>Operations whose names need no escaping.\<close>

definition repo_plain :: "RepoRef \<Rightarrow> bool" where
  "repo_plain r \<longleftrightarrow> Owner r \<noteq> [] \<and> RName r \<noteq> [] \<and> list_all unreserved (Owner r) \<and> list_all unreserved (RName r)"

fun op_plain :: "api_op \<Rightarrow> bool" where
  "op_plain (OpCreateRepo req) = list_all unreserved (crOwner req)"
| "op_plain (OpAddKey r _ _ _) = repo_plain r"
| "op_plain (OpDispatch r wfid _ _) = (repo_plain r \<and> list_all unreserved wfid)"
| "op_plain (OpRuns r branch event) = (repo_plain r \<and> list_all unreserved branch \<and> list_all unreserved event)"
| "op_plain (OpJobs r _) = repo_plain r"
| "op_plain _ = True"

lemma repoPath_plain: "repo_plain r \<Longrightarrow> repoPath r = FullName r"
  by (simp add: repo_plain_def repoPath_def FullName_def)

lemma unreserved_not: "list_all unreserved s \<Longrightarrow> c \<in> set s \<Longrightarrow> c \<noteq> CHR ''?'' \<and> c \<noteq> CHR ''&'' \<and> c \<noteq> CHR ''/''"
  by (auto simp: list_all_iff unreserved_def is_digit_def less_eq_char_def)

lemma query_of_append:
  "CHR ''?'' \<notin> set a \<Longrightarrow> query_of (a @ CHR ''?'' # q) = (a, mset (split_char CHR ''&'' q))"
proof -
  assume a: "CHR ''?'' \<notin> set a"
  then have "takeWhile (\<lambda>c. c \<noteq> CHR ''?'') (a @ CHR ''?'' # q) = a"
    by (subst takeWhile_append2) auto
  moreover have "dropWhile (\<lambda>c. c \<noteq> CHR ''?'') (a @ CHR ''?'' # q) = CHR ''?'' # q"
    using a by (subst dropWhile_append2) auto
  ultimately show ?thesis by (simp add: query_of_def)
qed

lemma FullName_plain: "repo_plain r \<Longrightarrow> CHR ''?'' \<notin> set (FullName r)"
  using unreserved_not [of "Owner r" "CHR ''?''"] unreserved_not [of "RName r" "CHR ''?''"]
  by (auto simp: repo_plain_def FullName_def)

lemma endpoints_agree:
  assumes "op_plain op"
  shows "fst (cli_endpoint op) = fst (rest_endpoint op)
    \<and> query_of (fst (snd (cli_endpoint op))) = query_of (fst (snd (rest_endpoint op)))
    \<and> snd (snd (cli_endpoint op)) = snd (snd (rest_endpoint op))"
proof (cases op)
  case (OpRuns r b e)
  then have p: "repo_plain r" "list_all unreserved b" "list_all unreserved e"
    using assms by simp_all
  let ?res = "''/repos/'' @ FullName r @ ''/actions/runs''"
  have res: "CHR ''?'' \<notin> set ?res"
    using FullName_plain [OF p(1)] by simp
  have amp: "CHR ''&'' \<notin> set (''branch='' @ b)" "CHR ''&'' \<notin> set (''event='' @ e)" "CHR ''&'' \<notin> set ''per_page=1''"
    using unreserved_not [OF p(2), of "CHR ''&''"] unreserved_not [OF p(3), of "CHR ''&''"] by auto
  let ?b = "if b \<noteq> [] then [''branch='' @ b] else []" and ?e = "if e \<noteq> [] then [''event='' @ e] else []"
  have rest: "fst (snd (rest_endpoint op)) = ?res @ CHR ''?'' # join [CHR ''&''] (?b @ ?e @ [''per_page=1''])"
    using OpRuns p by (simp add: repoPath_plain)
  have cli: "fst (snd (cli_endpoint op)) = ?res @ CHR ''?'' # join [CHR ''&''] ([''per_page=1''] @ ?b @ ?e)"
    using OpRuns by simp
  have "split_char CHR ''&'' (join [CHR ''&''] (?b @ ?e @ [''per_page=1''])) = ?b @ ?e @ [''per_page=1'']"
    "split_char CHR ''&'' (join [CHR ''&''] ([''per_page=1''] @ ?b @ ?e)) = [''per_page=1''] @ ?b @ ?e"
    using amp by (intro split_char_join; auto)+
  then show ?thesis
    unfolding rest cli query_of_append [OF res] using OpRuns by (simp del: join.simps append.simps)
qed (use assms in \<open>auto simp: repoPath_plain\<close>)

section \<open>The three rounds of a REST call\<close>

definition retried :: "codec \<Rightarrow> (json \<Rightarrow> 'a option) option \<Rightarrow> 'a \<Rightarrow> http_out \<Rightarrow> bool" where
  "retried cd dec zero out \<longleftrightarrow> (\<exists>e. rest_answer cd dec zero out = Inl e \<and> isRetriable e)"

lemma attempts_step:
  assumes "attempt < 3"
    and "(if attempt > 0 then (case retryDelay t attempt w of (d, w) \<Rightarrow> rtSleep t d w) else (None, w)) = (s, w1)"
    and "once w1 = (r, w2)"
  shows "attempts t once attempt prev w =
      (case s of Some e \<Rightarrow> (Inl (e, []), w1)
       | None \<Rightarrow> (case r of Inr x \<Rightarrow> (Inr x, w2)
          | Inl e \<Rightarrow> if \<not> isRetriable e then (Inl e, w2) else attempts t once (Suc attempt) (Inl e) w2))"
  using assms by (subst attempts.simps) (simp split: option.splits sum.splits)

text \<open>What a run of the loop has sent and what it returns, from a round on.\<close>

definition rounds :: "codec \<Rightarrow> (json \<Rightarrow> 'a option) option \<Rightarrow> 'a \<Rightarrow> nat \<Rightarrow> http_out list \<Rightarrow> terr + 'a \<Rightarrow> bool" where
  "rounds cd dec zero left outs r \<longleftrightarrow>
     length outs \<le> left \<and> list_all (retried cd dec zero) (butlast outs) \<and>
     (outs \<noteq> [] \<and> r = rest_answer cd dec zero (last outs) \<and> (retried cd dec zero (last outs) \<longrightarrow> length outs = left)
      \<or> (\<exists>e. r = Inl (e, []) \<and> length outs < left \<and> list_all (retried cd dec zero) outs))"

lemma rounds_Cons:
  assumes "retried cd dec zero out"
    and "rounds cd dec zero left outs r"
  shows "rounds cd dec zero (Suc left) (out # outs) r"
proof (cases "outs = []")
  case True
  then show ?thesis using assms by (auto simp: rounds_def)
next
  case False
  then have "last (out # outs) = last outs" "butlast (out # outs) = out # butlast outs" by simp_all
  then show ?thesis using assms False by (simp add: rounds_def)
qed

lemma attempts_rounds:
  fixes sent :: "'w \<Rightarrow> (gh_request \<times> http_out) list"
  assumes do: "\<And>rq w. sent (snd (rtDo t rq w)) = sent w @ [(rq, fst (rtDo t rq w))]"
    and sl: "\<And>d w. sent (snd (rtSleep t d w)) = sent w"
    and rnd: "\<And>d w. sent (snd (rtRand t d w)) = sent w"
    and "attempt < 3"
    and rq_def: "rq = rest_request t meth path payload token"
    and once_def: "once = doOnce cd t meth path payload token dec zero"
  shows "\<exists>outs. sent (snd (attempts t once attempt prev w)) = sent w @ map (Pair rq) outs
      \<and> rounds cd dec zero (3 - attempt) outs (fst (attempts t once attempt prev w)) \<and> (attempt = 0 \<longrightarrow> outs \<noteq> [])"
  using \<open>attempt < 3\<close>
proof (induction "3 - attempt" arbitrary: attempt prev w)
  case (Suc k)
  obtain s w1 where s: "(if attempt > 0 then (case retryDelay t attempt w of (d, w) \<Rightarrow> rtSleep t d w) else (None, w)) = (s, w1)"
    by fastforce
  have jit: "sent (snd (cryptoJitter t m w)) = sent w" for m w
    using rnd [of m w] by (auto simp: cryptoJitter_def split: prod.splits option.splits)
  have delay: "sent (snd (retryDelay t attempt w)) = sent w"
    using jit [of "go_div (2 ^ attempt * baseRetryDelay) 2" w] by (auto simp: retryDelay_def Let_def split: prod.splits)
  have w1: "sent w1 = sent w"
  proof (cases "attempt > 0")
    case True
    then show ?thesis using s delay sl by (cases "retryDelay t attempt w") (metis (no_types, lifting) prod.case snd_conv)
  qed (use s in auto)
  obtain out w2 where out: "rtDo t rq w1 = (out, w2)" by fastforce
  have r: "once w1 = (rest_answer cd dec zero out, w2)"
    using out by (simp add: once_def doOnce_def rq_def)
  have w2: "sent w2 = sent w @ [(rq, out)]" using do [of rq w1] out w1 by simp
  note step = attempts_step [where once = once, OF Suc(3) s r, of prev]
  show ?case
  proof (cases s)
    case (Some e)
    moreover have "attempt \<noteq> 0" using s Some by (auto split: if_splits)
    ultimately show ?thesis using step w1 Suc(3) by (intro exI [of _ "[]"]) (auto simp: rounds_def)
  next
    case None
    show ?thesis
    proof (cases "retried cd dec zero out")
      case False
      then have "attempts t once attempt prev w = (rest_answer cd dec zero out, w2)"
        using step None by (auto simp: retried_def split: sum.splits)
      then show ?thesis using w2 False Suc(3) by (intro exI [of _ "[out]"]) (auto simp: rounds_def)
    next
      case True
      then obtain e where e: "rest_answer cd dec zero out = Inl e" "isRetriable e" by (auto simp: retried_def)
      then have rec: "attempts t once attempt prev w = attempts t once (Suc attempt) (Inl e) w2"
        using step None by simp
      show ?thesis
      proof (cases "Suc attempt < 3")
        case True
        then obtain outs where outs: "sent (snd (attempts t once (Suc attempt) (Inl e) w2)) = sent w2 @ map (Pair rq) outs"
          "rounds cd dec zero (3 - Suc attempt) outs (fst (attempts t once (Suc attempt) (Inl e) w2))"
          using Suc(1) [of "Suc attempt"] Suc(2) by fastforce
        have "3 - attempt = Suc (3 - Suc attempt)" using Suc(3) by simp
        then have "rounds cd dec zero (3 - attempt) (out # outs) (fst (attempts t once (Suc attempt) (Inl e) w2))"
          using rounds_Cons [OF \<open>retried cd dec zero out\<close> outs(2)] by simp
        then show ?thesis using outs(1) w2 rec by (intro exI [of _ "out # outs"]) simp
      next
        case False
        then have "attempts t once (Suc attempt) (Inl e) w2 = (Inl e, w2)" by (subst attempts.simps) simp
        then show ?thesis using rec w2 e False Suc(3) \<open>retried cd dec zero out\<close>
          by (intro exI [of _ "[out]"]) (auto simp: rounds_def)
      qed
    qed
  qed
qed simp


text \<open>Which answers are repeated.\<close>

lemma retried_status:
  "retried cd dec zero (Response status body) \<longleftrightarrow>
     status = 429 \<or> status \<ge> 500
     \<or> status = 403 \<and> contains (to_lower (trim_space (Redact (take maxResponseBytes body)))) ''rate limit''"
  by (auto simp: retried_def rest_answer_def mapHTTPError_def isRetriable_def retriableError_def gerr_msg_def
      errors_is_def wrap_def Let_def serverErrorMin_def split: option.splits)

section \<open>Logs\<close>

definition token_free :: "string \<Rightarrow> bool" where
  "token_free s \<longleftrightarrow> \<not> match_string ghRe s \<and> \<not> match_string patRe s \<and> \<not> match_string akiaRe s \<and> \<not> match_string skRe s"

lemma plain_part: "plain r \<Longrightarrow> \<not> match_string r (a @ s @ b) \<Longrightarrow> \<not> match_string r s"
  by (simp add: match_plain) (metis append.assoc)

lemma token_free_part: "token_free (a @ s @ b) \<Longrightarrow> token_free s"
  using plain_part [OF token_plain(1)] plain_part [OF token_plain(2)] plain_part [OF token_plain(3)] plain_part [OF token_plain(4)]
  by (auto simp: token_free_def)

lemma split_parts:
  assumes "splitGHLogLine s = (j, st, m)" and "token_free s"
  shows "token_free j \<and> token_free st \<and> token_free m"
proof -
  have e: "token_free []" using token_free_part [of s "[]" "[]"] assms(2) by simp
  let ?rest = "dropWhile (\<lambda>c. c \<noteq> CHR 0x09)" and ?field = "takeWhile (\<lambda>c. c \<noteq> CHR 0x09)"
  have f: "?field s @ ?rest s = s" "\<And>t. ?field t @ ?rest t = t" by simp_all
  show ?thesis
  proof (cases "?rest s")
    case Nil
    then have "splitGHLogLine s = ([], [], s)" unfolding splitGHLogLine_def Let_def by (simp only: list.case)
    then show ?thesis using assms e by simp
  next
    case (Cons c t)
    have s: "s = ?field s @ c # t" using f(1) Cons by metis
    have tf: "token_free (?field s)" "token_free t"
      using assms(2) token_free_part [of "[]" "?field s" "c # t"] token_free_part [of "?field s @ [c]" t "[]"] s by simp_all
    show ?thesis
    proof (cases "?rest t")
      case Nil
      then have "splitGHLogLine s = (?field s, [], t)"
        unfolding splitGHLogLine_def Let_def by (simp only: list.case \<open>?rest s = c # t\<close>)
      then show ?thesis using assms e tf by simp
    next
      case (Cons d u)
      have t: "t = ?field t @ d # u" using f(2) [of t] Cons by metis
      then have "token_free (?field t)" "token_free u"
        using tf(2) token_free_part [of "[]" "?field t" "d # u"] token_free_part [of "?field t @ [d]" u "[]"] by simp_all
      moreover have "splitGHLogLine s = (?field s, ?field t, u)"
        unfolding splitGHLogLine_def Let_def by (simp only: list.case \<open>?rest s = c # t\<close> Cons)
      ultimately show ?thesis using assms tf by simp
    qed
  qed
qed

lemma parse_lines_clean:
  assumes "l \<in> set (parseGHLogLines raw n)"
  shows "token_free (llJobName l) \<and> token_free (llStepName l) \<and> token_free (llRaw l)"
proof -
  obtain line where "l = (case splitGHLogLine (Redact line) of (j, s, m) \<Rightarrow> \<lparr>llJobName = j, llStepName = s, llRaw = m\<rparr>)"
    using assms by (auto simp: parseGHLogLines_def Let_def split: if_splits dest!: in_set_dropD)
  moreover have "token_free (Redact line)" by (simp add: token_free_def Redact_tokens)
  ultimately show ?thesis using split_parts [of "Redact line"] by (cases "splitGHLogLine (Redact line)") auto
qed

lemma parse_lines_tail: "0 < n \<Longrightarrow> parseGHLogLines raw n = drop (length (parseGHLogLines raw 0) - nat n) (parseGHLogLines raw 0)"
  by (auto simp: parseGHLogLines_def Let_def)

section \<open>Sealed secrets\<close>

lemma b64_char_line: "k < 64 \<Longrightarrow> b64_char k \<noteq> CHR 0x0A \<and> b64_char k \<noteq> CHR 0x0D"
proof -
  have "list_all (\<lambda>k. b64_char k \<noteq> CHR 0x0A \<and> b64_char k \<noteq> CHR 0x0D) [0..<64]" by code_simp
  then show "k < 64 \<Longrightarrow> ?thesis" by (simp add: list_all_iff)
qed


lemma b64_encode_line: "c \<in> set (b64_encode s) \<Longrightarrow> c \<noteq> CHR 0x0A \<and> c \<noteq> CHR 0x0D"
proof (induction s rule: b64_encode.induct)
  case (2 a)
  have "(of_char a * 16 div 64 :: nat) < 64" using nat_of_char_less_256 [of a] by linarith
  then show ?case using 2 by (auto simp: Let_def b64_char_line)
next
  case (3 a b)
  have "((of_char a * 256 + of_char b) * 4 div 4096 :: nat) < 64"
    by (rule three_bytes(5) [of _ _ 0]) (simp_all add: nat_of_char_less_256)
  then show ?case using 3 by (auto simp: Let_def b64_char_line)
next
  case (4 a b c cs)
  have "((of_char a * 65536 + of_char b * 256 + of_char c) div 262144 :: nat) < 64"
    by (rule three_bytes(1)) (simp_all add: nat_of_char_less_256)
  then show ?case using 4 by (auto simp: Let_def b64_char_line)
qed simp

lemma std_decode_encode [simp]: "std_decode (b64_encode s) = Some s"
proof -
  have "filter (\<lambda>c. c \<noteq> CHR 0x0A \<and> c \<noteq> CHR 0x0D) (b64_encode s) = b64_encode s"
    by (rule filter_True) (auto dest: b64_encode_line)
  then show ?thesis by (simp add: std_decode_def b64_roundtrip)
qed

text \<open>
  What the holder of the private key does with the sealed value: \<open>crypto_box_seal_open\<close>, with \<open>opn\<close> the opening of
  a NaCl box.
\<close>

definition seal_open :: "'w box \<Rightarrow> (string \<Rightarrow> string \<Rightarrow> string \<Rightarrow> string \<Rightarrow> string option) \<Rightarrow> string \<Rightarrow> string \<Rightarrow> string \<Rightarrow> string option" where
  "seal_open bx opn pk sk enc = Option.bind (std_decode enc) (\<lambda>c.
     opn (drop publicKeySize c) (bxHash bx (take publicKeySize c @ pk)) (take publicKeySize c) sk)"

lemma sealed_opens:
  assumes "length pk = publicKeySize" and "bxGenerateKey bx w = (Inr (epk, esk), w')" and "length epk = publicKeySize"
    and "\<And>m n. opn (bxSeal bx m n pk esk) n epk sk = Some m"
  shows "\<exists>enc. EncryptSecretForGitHub bx (b64_encode pk) m w = (Inr enc, w') \<and> seal_open bx opn pk sk enc = Some m"
  using assms by (simp add: EncryptSecretForGitHub_def seal_open_def sealedBoxNonce_def)

section \<open>Waiting\<close>

lemma sleep_progress:
  assumes "\<And>t w. t \<le> ckNow ck (ckWait ck t w)" and "0 < d"
    and "sleepContext ck (Some dl) d w = (None, w')"
  shows "ckNow ck w + d \<le> dl \<and> ckNow ck w + d \<le> ckNow ck w'"
  using assms by (auto simp: sleepContext_def Let_def split: if_splits)

lemma poll_loop_returns:
  assumes tick: "\<And>t w. t \<le> ckNow ck (ckWait ck t w)" and getter: "\<And>w. ckNow ck w \<le> ckNow ck (snd (get (Some dl) w))"
    and d: "0 < d"
  shows "\<exists>run err w'. poll_loop get (sleepContext ck) (Some dl) d w = Some ((run, err), w')
    \<and> (err = None \<longrightarrow> (\<exists>r. run = Some r \<and> wrStatus r = ''completed'' \<and> wrConclusion r = ''success''))"
proof (induction "nat (dl - ckNow ck w)" arbitrary: w rule: less_induct)
  case less
  obtain r w1 where g: "get (Some dl) w = (r, w1)" by fastforce
  obtain s w2 where s: "sleepContext ck (Some dl) d w1 = (s, w2)" by fastforce
  have again: "\<exists>run err w'. poll_loop get (sleepContext ck) (Some dl) d w2 = Some ((run, err), w')
    \<and> (err = None \<longrightarrow> (\<exists>r. run = Some r \<and> wrStatus r = ''completed'' \<and> wrConclusion r = ''success''))" if "s = None"
  proof (rule less)
    have "ckNow ck w1 + d \<le> dl \<and> ckNow ck w1 + d \<le> ckNow ck w2"
      using sleep_progress [OF tick d] s that by simp
    then show "nat (dl - ckNow ck w2) < nat (dl - ckNow ck w)" using getter [of w] g d by simp
  qed
  show ?case
    by (subst poll_loop.simps, cases r) (use again in \<open>auto simp: g s split: option.splits\<close>)
qed

section \<open>Recorded transports\<close>

text \<open>What the loop needs to be accounted for: a log that grows with every exchange and with nothing else.\<close>

locale recording =
  fixes t :: "'w RESTTransport"
    and sent :: "'w \<Rightarrow> (gh_request \<times> http_out) list"
  assumes sent_do: "sent (snd (rtDo t rq w)) = sent w @ [(rq, fst (rtDo t rq w))]"
    and sent_sleep: "sent (snd (rtSleep t d w)) = sent w"
    and sent_rand: "sent (snd (rtRand t d w)) = sent w"
begin

lemma loop_rounds:
  "\<exists>outs. sent (snd (attempts t (doOnce cd t meth path payload token dec zero) 0 prev w))
        = sent w @ map (Pair (rest_request t meth path payload token)) outs
      \<and> rounds cd dec zero 3 outs (fst (attempts t (doOnce cd t meth path payload token dec zero) 0 prev w)) \<and> outs \<noteq> []"
  using attempts_rounds [where t = t and sent = sent and attempt = 0, OF sent_do sent_sleep sent_rand _ refl refl] by fastforce

end

definition in_first :: "('w \<Rightarrow> 'a \<times> 'w) \<Rightarrow> 'w \<times> 'l \<Rightarrow> 'a \<times> 'w \<times> 'l" where
  "in_first f s = (case f (fst s) of (x, w) \<Rightarrow> (x, (w, snd s)))"

definition recorded :: "'w RESTTransport \<Rightarrow> ('w \<times> (gh_request \<times> http_out) list) RESTTransport" where
  "recorded t =
     \<lparr>rtBaseURL = rtBaseURL t,
      rtDo = (\<lambda>rq s. case rtDo t rq (fst s) of (out, w) \<Rightarrow> (out, (w, snd s @ [(rq, out)]))),
      rtToken = map_option in_first (rtToken t),
      rtSleep = (\<lambda>d. in_first (rtSleep t d)),
      rtRand = (\<lambda>d. in_first (rtRand t d))\<rparr>"

interpretation rec: recording "recorded t" snd for t
  by unfold_locales (auto simp: recorded_def in_first_def split: prod.splits)

section \<open>Properties\<close>


text \<open>
  The two transports make the same calls: for owners, repositories, workflow names, branches and events made of
  letters, digits and the marks that need no escaping, each operation has the same method, resource, query
  parameters and body over \<open>gh api\<close> and over REST.
\<close>

theorem transports_agree:
  assumes "op_plain op"
  shows "fst (cli_endpoint op) = fst (rest_endpoint op)
    \<and> query_of (fst (snd (cli_endpoint op))) = query_of (fst (snd (rest_endpoint op)))
    \<and> snd (snd (cli_endpoint op)) = snd (snd (rest_endpoint op))"
  by (rule endpoints_agree [OF assms])

theorem transports_agree_witness:
  "query_of (fst (snd (cli_endpoint (OpRuns \<lparr>Owner = ''acme'', RName = ''shop''\<rparr> ''main'' ''push''))))
    = query_of (fst (snd (rest_endpoint (OpRuns \<lparr>Owner = ''acme'', RName = ''shop''\<rparr> ''main'' ''push''))))"
proof -
  have "op_plain (OpRuns \<lparr>Owner = ''acme'', RName = ''shop''\<rparr> ''main'' ''push'')" by code_simp
  then show ?thesis using transports_agree by blast
qed


text \<open>
  C23. A sealed Actions secret opens to the secret: for every 32-byte public key in base64, the value sent to GitHub is
  one that \<open>crypto_box_seal_open\<close> with the private key turns back into the plaintext, given only that the NaCl box
  opens what it sealed.
\<close>

theorem secret_sealed:
  assumes "length pk = publicKeySize" and "bxGenerateKey bx w = (Inr (epk, esk), w')" and "length epk = publicKeySize"
    and "\<And>m n. opn (bxSeal bx m n pk esk) n epk sk = Some m"
  shows "\<exists>enc. EncryptSecretForGitHub bx (b64_encode pk) plaintext w = (Inr enc, w')
    \<and> seal_open bx opn pk sk enc = Some plaintext"
  by (rule sealed_opens [where opn = opn, OF assms])

text \<open>
  C25. Waiting for a run ends: with a timeout, whatever the getter answers, the loop returns, and it reports success only
  with a run that is completed and successful.
\<close>

theorem wait_returns:
  assumes "\<And>t w. t \<le> ckNow ck (ckWait ck t w)"
    and "\<And>dl w. ckNow ck w \<le> ckNow ck (snd (get dl w))"
    and "0 < timeout"
  shows "\<exists>run err w'. WaitForWorkflowCompletion ck ctx (Some get) interval timeout None w = Some ((run, err), w')
    \<and> (err = None \<longrightarrow> (\<exists>r. run = Some r \<and> wrStatus r = ''completed'' \<and> wrConclusion r = ''success''))"
proof -
  obtain dl where "withTimeout ctx (ckNow ck w + timeout) = Some dl" by (cases ctx) (auto simp: withTimeout_def)
  moreover have "0 < (if interval \<le> 0 then defaultPollInterval else interval)" by (simp add: defaultPollInterval_def)
  ultimately show ?thesis
    using poll_loop_returns [where ck = ck and get = get, OF assms(1,2), of _ dl w] assms(3) by (simp add: WaitForWorkflowCompletion_def)
qed

lemma query_escape_no_amp: "CHR ''&'' \<notin> set (query_escape s)"
proof -
  have hex: "k < 16 \<Longrightarrow> ''0123456789ABCDEF'' ! k \<noteq> CHR ''&''" for k
    by (auto simp: less_Suc_eq numeral_eq_Suc)
  have "CHR ''&'' \<notin> set (percent c)" for c
    using hex [of "of_char c div 16"] hex [of "of_char c mod 16"] nat_of_char_less_256 [of c]
    by (auto simp: percent_def Let_def less_mult_imp_div_less)
  moreover have "\<not> unreserved CHR ''&''" by code_simp
  ultimately show ?thesis by (auto simp: query_escape_def)
qed

lemma count_none: "c \<notin> set s \<Longrightarrow> count_list s c = 0"
  by (induction s) auto

text \<open>
  The command-line transport does not escape what it puts into paths. A branch whose name goes on with
  \<open>&event=\<close> is the same request as the shorter branch with that event, which the REST transport keeps apart; and
  a workflow given by its path, as the wizard gives it, is addressed at another resource than over REST.
\<close>

theorem cli_paths_unescaped:
  assumes "repo_plain r" and "b \<noteq> []" and "e \<noteq> []" and "CHR ''/'' \<in> set wfid"
  shows "cli_endpoint (OpRuns r (b @ ''&event='' @ e) []) = cli_endpoint (OpRuns r b e)
    \<and> rest_endpoint (OpRuns r (b @ ''&event='' @ e) []) \<noteq> rest_endpoint (OpRuns r b e)
    \<and> cli_endpoint (OpDispatch r wfid ref inputs) \<noteq> rest_endpoint (OpDispatch r wfid ref inputs)"
proof (intro conjI)
  show "cli_endpoint (OpRuns r (b @ ''&event='' @ e) []) = cli_endpoint (OpRuns r b e)"
    using assms by simp
  have q: "count_list (query_escape s) CHR ''&'' = 0" for s by (rule count_none [OF query_escape_no_amp])
  have "count_list (fst (snd (rest_endpoint (OpRuns r (b @ ''&event='' @ e) [])))) CHR ''&''
      \<noteq> count_list (fst (snd (rest_endpoint (OpRuns r b e)))) CHR ''&''"
    using assms by (simp add: q)
  then show "rest_endpoint (OpRuns r (b @ ''&event='' @ e) []) \<noteq> rest_endpoint (OpRuns r b e)" by metis
  have "wfid \<noteq> path_escape wfid" using assms(4) path_escape_no_slash by metis
  then show "cli_endpoint (OpDispatch r wfid ref inputs) \<noteq> rest_endpoint (OpDispatch r wfid ref inputs)"
    using assms(1) by (simp add: repoPath_plain)
qed

theorem cli_paths_unescaped_witness:
  "cli_endpoint (OpDispatch \<lparr>Owner = ''acme'', RName = ''shop''\<rparr> ''.github/workflows/deploy.yml'' ''main'' [])
     \<noteq> rest_endpoint (OpDispatch \<lparr>Owner = ''acme'', RName = ''shop''\<rparr> ''.github/workflows/deploy.yml'' ''main'' [])"
proof -
  have "repo_plain \<lparr>Owner = ''acme'', RName = ''shop''\<rparr>" by code_simp
  then show ?thesis
    using cli_paths_unescaped [of "\<lparr>Owner = ''acme'', RName = ''shop''\<rparr>" "''a''" "''push''" "''.github/workflows/deploy.yml''"]
    by simp
qed

lemma gh_not_found: "trim_space (Redact ''gh: Not Found (HTTP 404)'') = ''gh: Not Found (HTTP 404)''"
  by code_simp

lemma wrap_not_found: "wrapCLIError op ''gh: Not Found (HTTP 404)'' ([ExitErr 1], x)
    = ([ExitErr 1], ''github: gh '' @ op @ '': gh: Not Found (HTTP 404): '' @ x)"
proof -
  have "\<not> contains ''gh: Not Found (HTTP 404)'' ''command not found''" "\<not> contains ''gh: Not Found (HTTP 404)'' ''HTTP 401''"
    "\<not> contains ''gh: Not Found (HTTP 404)'' ''authentication required''" "\<not> contains ''gh: Not Found (HTTP 404)'' ''HTTP 403''"
    "\<not> contains ''gh: Not Found (HTTP 404)'' ''HTTP 422''"
    by code_simp+
  then show ?thesis unfolding wrapCLIError_def gh_not_found Let_def by (simp add: errors_is_def)
qed

lemma doJSON_not_found:
  assumes "rtToken t = Some source" and "source w = (Inr token, w1)" and "token \<noteq> []"
    and "rtDo t (rest_request t meth path (map_option (jsonText cd) body) token) w1 = (Response 404 b, w2)"
  shows "\<exists>msg. doJSON cd t meth path body dec zero w = (Inl ([GithubE ErrHTTPUnexpectedStatus], msg), w2)"
  using assms
  by (simp add: doJSON_def attempts.simps doOnce_def rest_answer_def mapHTTPError_def gerr_msg_def isRetriable_def
      serverErrorMin_def Let_def errors_is_def)

text \<open>
  A missing repository is an error of its removal: when GitHub answers that the repository of a cleanup step is
  not there, the step fails, over \<open>gh\<close> with the error of the process and, when \<open>gh\<close> is not installed, over REST with
  \<open>ErrHTTPUnexpectedStatus\<close>. A step that is run twice therefore fails the second time.
\<close>

theorem removed_twice_fails:
  assumes "Kind step = ResourceGitHubRepo"
    and "mget (Params step) ''owner'' = owner" and "mget (Params step) ''repo'' = repo"
    and "run ''gh'' [''api'', ''--method'', ''DELETE'', repo_at owner repo] None w = (([], stderr, Some perr), w1)"
    and "rtToken t = Some source" and "source w1 = (Inr token, w2)" and "token \<noteq> []"
    and "rtDo t (rest_request t ''DELETE'' (repo_at owner repo) None token) w2 = (Response 404 b, w3)"
  shows "(stderr = ''gh: Not Found (HTTP 404)'' \<and> fst perr = [ExitErr 1] \<longrightarrow>
      MakeStepRunnerWithGitHub pr (Some (client_cleanup (NewClient (CLITransport cd run) None (Some (rest_transport cd bx t))))) step (ctx, w)
        = (Some [ExitErr 1], (ctx, w1)))
    \<and> (fst perr = [ExecNotFound] \<longrightarrow>
      MakeStepRunnerWithGitHub pr (Some (client_cleanup (NewClient (CLITransport cd run) None (Some (rest_transport cd bx t))))) step (ctx, w)
        = (Some [GithubE ErrHTTPUnexpectedStatus], (ctx, w3)))"
proof -
  let ?c = "NewClient (CLITransport cd run) None (Some (rest_transport cd bx t))"
  have runs: "MakeStepRunnerWithGitHub pr (Some (client_cleanup ?c)) step (ctx, w)
      = in_env (RemoveGitHubRepo (client_cleanup ?c) owner repo) (ctx, w)"
    using assms(1-3) by (simp add: MakeStepRunnerWithGitHub_def ResourceGitHubRepo_def ResourceSubdomain_def ResourceSSL_def
        ResourceDatabase_def Let_def)
  obtain msg where rest: "doJSON cd t ''DELETE'' (repo_at owner repo) None None () w1 = (Inl ([GithubE ErrHTTPUnexpectedStatus], msg), w3)"
    using doJSON_not_found [OF assms(5-7), of "''DELETE''" "repo_at owner repo" cd None b w3 None "()"] assms(8) by auto
  show ?thesis
  proof (intro conjI impI)
    assume "stderr = ''gh: Not Found (HTTP 404)'' \<and> fst perr = [ExitErr 1]"
    then obtain x where "stderr = ''gh: Not Found (HTTP 404)''" "perr = ([ExitErr 1], x)" by (cases perr) auto
    then have "ghAPI cd run ''DELETE'' (repo_at owner repo) None None () w
        = (Inl ([ExitErr 1], ''github: gh DELETE '' @ repo_at owner repo @ '': gh: Not Found (HTTP 404): '' @ x), w1)"
      using assms(4) by (simp add: ghAPI_def wrap_not_found)
    then show "MakeStepRunnerWithGitHub pr (Some (client_cleanup ?c)) step (ctx, w) = (Some [ExitErr 1], (ctx, w1))"
      unfolding runs by (simp add: in_env_def client_cleanup_def NewClient_def by_client_def withFallback_def transport_part_def CLITransport_def
          via_def drop_text_def error_only_def errors_is_def)
  next
    assume "fst perr = [ExecNotFound]"
    then have "ghAPI cd run ''DELETE'' (repo_at owner repo) None None () w = (Inl (gerr_msg ErrGHUnavailable (''DELETE '' @ repo_at owner repo)), w1)"
      using assms(4) by (simp add: ghAPI_def wrapCLIError_def Let_def errors_is_def)
    then show "MakeStepRunnerWithGitHub pr (Some (client_cleanup ?c)) step (ctx, w) = (Some [GithubE ErrHTTPUnexpectedStatus], (ctx, w3))"
      unfolding runs by (simp add: in_env_def client_cleanup_def NewClient_def by_client_def withFallback_def transport_part_def CLITransport_def
          rest_transport_def rest via_def drop_text_def error_only_def errors_is_def gerr_msg_def)
  qed
qed

section \<open>Witnesses\<close>

definition sample_codec :: codec where
  "sample_codec = \<lparr>jsonText = (\<lambda>_. []), parseJSON = (\<lambda>_. None), parseText = (\<lambda>_. [])\<rparr>"

definition sample_box :: "'w box" where
  "sample_box = \<lparr>bxGenerateKey = (\<lambda>w. (Inr (replicate 32 CHR ''e'', ''k''), w)), bxSeal = (\<lambda>m _ _ _. m), bxHash = take 24\<rparr>"

text \<open>A GitHub on which nothing exists, over a world that counts the requests.\<close>

definition empty_github :: "nat RESTTransport" where
  "empty_github = \<lparr>rtBaseURL = defaultBaseURL, rtDo = (\<lambda>_ n. (Response 404 ''{}'', Suc n)), rtToken = Some (\<lambda>n. (Inr ''t'', n)),
     rtSleep = (\<lambda>_ n. (None, n)), rtRand = (\<lambda>_ n. (Some 0, n))\<rparr>"

definition no_gh :: "'w CommandRunner" where
  "no_gh _ _ _ w = (([], [], Some ([ExecNotFound], ''not found'')), w)"

definition echo_gh :: "'w CommandRunner" where
  "echo_gh _ _ _ w = ((''build'' @ [CHR 0x09] @ ''test'' @ [CHR 0x09] @ ''ok'', [], None), w)"



theorem secret_sealed_witness:
  "\<exists>enc. EncryptSecretForGitHub sample_box (b64_encode (replicate 32 CHR ''p'')) ''s3cret'' () = (Inr enc, ())
    \<and> seal_open (sample_box :: unit box) (\<lambda>c _ _ _. Some c) (replicate 32 CHR ''p'') ''q'' enc = Some ''s3cret''"
  by (rule secret_sealed [where opn = "\<lambda>c _ _ _. Some c" and epk = "replicate 32 CHR ''e''" and esk = "''k''"
        and bx = sample_box and pk = "replicate 32 CHR ''p''" and sk = "''q''" and plaintext = "''s3cret''" and w = "()" and w' = "()"])
    (simp_all add: publicKeySize_def sample_box_def)

theorem wait_returns_witness:
  "\<exists>run err w'. WaitForWorkflowCompletion \<lparr>ckNow = (\<lambda>w. w), ckWait = max, ckDone = (\<lambda>_. True)\<rparr> None
     (Some (\<lambda>_ w. (Inr None, w))) 1 10 None (0 :: int) = Some ((run, err), w')"
proof -
  let ?ck = "\<lparr>ckNow = (\<lambda>w. w), ckWait = max, ckDone = (\<lambda>_. True)\<rparr> :: int clk"
  have "\<exists>run err w'. WaitForWorkflowCompletion ?ck None (Some (\<lambda>_ w. (Inr None, w))) 1 10 None 0 = Some ((run, err), w')
    \<and> (err = None \<longrightarrow> (\<exists>r. run = Some r \<and> wrStatus r = ''completed'' \<and> wrConclusion r = ''success''))"
    by (rule wait_returns [where get = "\<lambda>_ w. (Inr None, w)"]) simp_all
  then show ?thesis by blast
qed

theorem removed_twice_fails_witness:
  "MakeStepRunnerWithGitHub None (Some (client_cleanup (NewClient (CLITransport sample_codec no_gh) None
       (Some (rest_transport sample_codec sample_box empty_github)))))
     (repo_cleanup \<lparr>Owner = ''acme'', RName = ''shop''\<rparr> ''2024-01-01T00:00:00Z'') (None, 0)
   = (Some [GithubE ErrHTTPUnexpectedStatus], (None, 1))"
proof -
  let ?step = "repo_cleanup \<lparr>Owner = ''acme'', RName = ''shop''\<rparr> ''2024-01-01T00:00:00Z''"
  have "Kind ?step = ResourceGitHubRepo" "mget (Params ?step) ''owner'' = ''acme''" "mget (Params ?step) ''repo'' = ''shop''"
    by (simp_all add: repo_cleanup_def mget_def)
  from removed_twice_fails [OF this, of no_gh 0 "[]" "([ExecNotFound], ''not found'')" 0 empty_github "\<lambda>n. (Inr ''t'', n)" "''t''" 0 "''{}''" 1]
  show ?thesis by (simp add: no_gh_def empty_github_def)
qed

end
