(* ===== verification/Ssh_Pool.thy ===== *)
theory Ssh_Pool
  imports Ssh_Types
begin

text \<open>
  The connection pool (\<open>src/ssh/pool.go\<close>). A client pointer is a number; the notify channel of a host is
  a generation number that \<open>close\<close> and re-make advance, so a goroutine waits on the generation it read.
  Every function below that the code runs under the mutex is one atomic operation on the pool; the
  network calls between them are not part of it. The step relation \<open>pool_step\<close> interleaves these
  operations for any number of goroutines and keeps track of the dials in flight and of the waiters.
\<close>

section \<open>State and options\<close>

type_synonym client = nat

record hostPool =
  idle :: "(client \<times> int) list"
  active :: "client list"
  total :: int
  notify :: nat

record PoolOptions =
  MaxPerHost :: int
  IdleTimeout :: int
  AcquireTimeout :: int
  CleanupInterval :: int
  KeepaliveInterval :: int

record Pool =
  opts :: PoolOptions
  hosts :: "hostPool gomap"
  closed :: bool

definition second :: int where "second = 1000000000"

definition normalizePoolOptions :: "PoolOptions \<Rightarrow> PoolOptions" where
  "normalizePoolOptions o0 =
     (let o1 = (if MaxPerHost o0 \<le> 0 then o0\<lparr>MaxPerHost := 3\<rparr> else o0);
          o2 = (if IdleTimeout o1 \<le> 0 then o1\<lparr>IdleTimeout := 60 * second\<rparr> else o1);
          o3 = (if AcquireTimeout o2 < 0 then o2\<lparr>AcquireTimeout := 0\<rparr> else o2);
          o4 = (if AcquireTimeout o3 = 0 then o3\<lparr>AcquireTimeout := 5 * second\<rparr> else o3);
          o5 = (if CleanupInterval o4 \<le> 0 then
                  (let q = o4\<lparr>CleanupInterval := go_div (IdleTimeout o4) 2\<rparr> in
                   if CleanupInterval q \<le> 0 then q\<lparr>CleanupInterval := second\<rparr> else q)
                else o4)
      in if KeepaliveInterval o5 = 0 then o5\<lparr>KeepaliveInterval := 15 * second\<rparr> else o5)"

definition NewPool :: "PoolOptions \<Rightarrow> Pool" where
  "NewPool o0 = \<lparr>opts = normalizePoolOptions o0, hosts = [], closed = False\<rparr>"

definition wake :: "hostPool \<Rightarrow> hostPool" where
  "wake h = h\<lparr>notify := Suc (notify h)\<rparr>"

definition empty_host :: hostPool where
  "empty_host = \<lparr>idle = [], active = [], total = 0, notify = 0\<rparr>"

definition getHostLocked :: "string \<Rightarrow> Pool \<Rightarrow> hostPool \<times> Pool" where
  "getHostLocked key p =
     (case map_of (hosts p) key of
        Some h \<Rightarrow> (h, p)
      | None \<Rightarrow> (empty_host, p\<lparr>hosts := mput key empty_host (hosts p)\<rparr>))"

definition put_host :: "string \<Rightarrow> hostPool \<Rightarrow> Pool \<Rightarrow> Pool" where
  "put_host key h p = p\<lparr>hosts := mput key h (hosts p)\<rparr>"

section \<open>Operations\<close>

definition reapHostLocked :: "int \<Rightarrow> hostPool \<Rightarrow> int \<Rightarrow> client list \<times> hostPool" where
  "reapHostLocked idleTimeout h now =
     (if idle h = [] then ([], h)
      else
        let old = (\<lambda>c. now - snd c > idleTimeout);
            expired = map fst (filter old (idle h));
            h = h\<lparr>idle := filter (\<lambda>c. \<not> old c) (idle h), total := total h - int (length expired)\<rparr>
        in (expired, if expired \<noteq> [] then wake h else h))"

datatype reservation = Reuse client | ShouldDial | WaitOn nat | Closed

definition reserveOrWait :: "Target \<Rightarrow> int \<Rightarrow> Pool \<Rightarrow> reservation \<times> client list \<times> Pool" where
  "reserveOrWait target now p =
     (if closed p then (Closed, [], p)
      else
        case getHostLocked (Key target) p of (h, p) \<Rightarrow>
        case reapHostLocked (IdleTimeout (opts p)) h now of (expired, h) \<Rightarrow>
        if idle h \<noteq> [] then
          let c = fst (last (idle h));
              h = h\<lparr>idle := butlast (idle h), active := c # active h\<rparr>
          in (Reuse c, expired, put_host (Key target) h p)
        else if total h < MaxPerHost (opts p) then
          (ShouldDial, expired, put_host (Key target) (h\<lparr>total := total h + 1\<rparr>) p)
        else (WaitOn (notify h), expired, put_host (Key target) h p))"

definition releaseReservation :: "string \<Rightarrow> Pool \<Rightarrow> Pool" where
  "releaseReservation key p =
     (case map_of (hosts p) key of
        None \<Rightarrow> p
      | Some h \<Rightarrow> if total h > 0 then put_host key (wake (h\<lparr>total := total h - 1\<rparr>)) p else p)"

text \<open>\<open>dialReserved\<close>, from the answers of \<open>Config\<close> and \<open>Dial\<close> on; with the client it closes, if any.\<close>

definition dialReserved :: "Target \<Rightarrow> goerr option \<Rightarrow> client res \<Rightarrow> Pool \<Rightarrow> client res \<times> client list \<times> Pool" where
  "dialReserved target config dial p =
     (case config of
        Some err \<Rightarrow> (Inl err, [], releaseReservation (Key target) p)
      | None \<Rightarrow>
     (case dial of
        Inl err \<Rightarrow> (Inl err, [], releaseReservation (Key target) p)
      | Inr c \<Rightarrow>
          (case getHostLocked (Key target) p of (h, p) \<Rightarrow>
             if closed p
             then (Inl [PoolClosed], [c], put_host (Key target) (h\<lparr>total := total h - 1\<rparr>) p)
             else (Inr c, [], put_host (Key target) (h\<lparr>active := c # active h\<rparr>) p))))"

definition Release :: "Target \<Rightarrow> client option \<Rightarrow> int \<Rightarrow> Pool \<Rightarrow> client list \<times> Pool" where
  "Release target client now p =
     (case client of
        None \<Rightarrow> ([], p)
      | Some c \<Rightarrow>
     (case map_of (hosts p) (Key target) of
        None \<Rightarrow> ([c], p)
      | Some h \<Rightarrow>
          if c \<notin> set (active h) then ([], p)
          else
            let h = h\<lparr>active := removeAll c (active h)\<rparr> in
            if closed p then ([c], put_host (Key target) (wake (h\<lparr>total := total h - 1\<rparr>)) p)
            else ([], put_host (Key target) (wake (h\<lparr>idle := idle h @ [(c, now)]\<rparr>)) p)))"

definition IdleCount :: "Target \<Rightarrow> Pool \<Rightarrow> nat" where
  "IdleCount target p = (case map_of (hosts p) (Key target) of None \<Rightarrow> 0 | Some h \<Rightarrow> length (idle h))"

definition close_host :: "hostPool \<Rightarrow> hostPool" where
  "close_host h = wake (h\<lparr>idle := [], active := [], total := 0\<rparr>)"

definition Close :: "Pool \<Rightarrow> client list \<times> Pool" where
  "Close p =
     (if closed p then ([], p)
      else (concat (map (\<lambda>(k, h). map fst (idle h) @ active h) (hosts p)),
            p\<lparr>closed := True, hosts := map (\<lambda>(k, h). (k, close_host h)) (hosts p)\<rparr>))"

definition ReapIdle :: "int \<Rightarrow> Pool \<Rightarrow> client list \<times> Pool" where
  "ReapIdle now p =
     (let reap = (\<lambda>h. reapHostLocked (IdleTimeout (opts p)) h now) in
      (concat (map (\<lambda>(k, h). fst (reap h)) (hosts p)),
       p\<lparr>hosts := map (\<lambda>(k, h). (k, snd (reap h))) (hosts p)\<rparr>))"

section \<open>The pool under concurrent use\<close>

text \<open>
  A state of the pool with the goroutines around it: how many reserved dials are in flight per key, and
  which (key, generation) pairs goroutines wait on.
\<close>

record pstate =
  pool :: Pool
  dialing :: "string \<Rightarrow> nat"
  waiting :: "(string \<times> nat) set"

definition clients_of :: "Pool \<Rightarrow> client set" where
  "clients_of p = (\<Union>(k, h) \<in> set (hosts p). fst ` set (idle h) \<union> set (active h))"

inductive pool_step :: "pstate \<Rightarrow> pstate \<Rightarrow> bool" where
  ps_reuse: "reserveOrWait t now (pool s) = (Reuse c, ex, p) \<Longrightarrow> pool_step s (s\<lparr>pool := p\<rparr>)"
| ps_dial: "reserveOrWait t now (pool s) = (ShouldDial, ex, p) \<Longrightarrow>
     pool_step s (s\<lparr>pool := p, dialing := (dialing s)(Key t := Suc (dialing s (Key t)))\<rparr>)"
| ps_wait: "reserveOrWait t now (pool s) = (WaitOn g, ex, p) \<Longrightarrow>
     pool_step s (s\<lparr>pool := p, waiting := insert (Key t, g) (waiting s)\<rparr>)"
| ps_dialed: "dialing s (Key t) > 0 \<Longrightarrow> (\<forall>c. d = Inr c \<longrightarrow> c \<notin> clients_of (pool s)) \<Longrightarrow>
     dialReserved t config d (pool s) = (r, cl, p) \<Longrightarrow>
     pool_step s (s\<lparr>pool := p, dialing := (dialing s)(Key t := dialing s (Key t) - 1)\<rparr>)"
| ps_release: "Release t c now (pool s) = (cl, p) \<Longrightarrow> pool_step s (s\<lparr>pool := p\<rparr>)"
| ps_reap: "ReapIdle now (pool s) = (cl, p) \<Longrightarrow> pool_step s (s\<lparr>pool := p\<rparr>)"
| ps_close: "Close (pool s) = (cl, p) \<Longrightarrow> pool_step s (s\<lparr>pool := p\<rparr>)"
| ps_wake: "pool_step s (s\<lparr>waiting := waiting s - {kg}\<rparr>)"

definition pool_init :: "pstate \<Rightarrow> bool" where
  "pool_init s \<longleftrightarrow> (\<exists>o0. pool s = NewPool o0) \<and> dialing s = (\<lambda>_. 0) \<and> waiting s = {}"

section \<open>The invariant\<close>

definition host_clients :: "hostPool \<Rightarrow> client set" where
  "host_clients h = fst ` set (idle h) \<union> set (active h)"

text \<open>
  A host: its count is exactly the idle, checked-out and reserved connections and within the limit, no
  client is in two places, and a goroutine waits on the current generation only while nothing is free.
\<close>

definition host_inv :: "int \<Rightarrow> nat \<Rightarrow> nat set \<Rightarrow> hostPool \<Rightarrow> bool" where
  "host_inv mx d G h \<longleftrightarrow>
     total h = int (length (idle h) + length (active h) + d) \<and> total h \<le> mx
     \<and> distinct (map fst (idle h) @ active h)
     \<and> (\<forall>g \<in> G. g \<le> notify h) \<and> (notify h \<in> G \<longrightarrow> idle h = [] \<and> mx \<le> total h)"

definition gens :: "(string \<times> nat) set \<Rightarrow> string \<Rightarrow> nat set" where
  "gens W k = {g. (k, g) \<in> W}"

definition pool_inv :: "pstate \<Rightarrow> bool" where
  "pool_inv s \<longleftrightarrow> closed (pool s) \<or>
     (0 < MaxPerHost (opts (pool s))
      \<and> (\<forall>k h. map_of (hosts (pool s)) k = Some h \<longrightarrow>
           host_inv (MaxPerHost (opts (pool s))) (dialing s k) (gens (waiting s) k) h)
      \<and> (\<forall>k. map_of (hosts (pool s)) k = None \<longrightarrow> dialing s k = 0 \<and> gens (waiting s) k = {})
      \<and> (\<forall>k h k' h'. map_of (hosts (pool s)) k = Some h \<longrightarrow> map_of (hosts (pool s)) k' = Some h' \<longrightarrow>
           k \<noteq> k' \<longrightarrow> host_clients h \<inter> host_clients h' = {})
      \<and> distinct (map fst (hosts (pool s))))"

lemma pool_inv_closed [simp]: "closed (pool s) \<Longrightarrow> pool_inv s"
  by (simp add: pool_inv_def)

lemma host_inv_empty [simp]: "0 < mx \<Longrightarrow> host_inv mx 0 {} empty_host"
  by (simp add: host_inv_def empty_host_def)

lemma host_clients_empty [simp]: "host_clients empty_host = {}"
  by (simp add: host_clients_def empty_host_def)

text \<open>The host an operation works on, present or new.\<close>

definition host_at :: "Pool \<Rightarrow> string \<Rightarrow> hostPool" where
  "host_at p k = (case map_of (hosts p) k of Some h \<Rightarrow> h | None \<Rightarrow> empty_host)"

lemma getHostLocked_host:
  assumes "getHostLocked k p = (h, p')"
  shows "h = host_at p k" "opts p' = opts p" "closed p' = closed p"
    "put_host k x p' = put_host k x p \<or> map_of (hosts p) k = None"
    "map_of (hosts (put_host k x p')) = (map_of (hosts p))(k \<mapsto> x)"
    "distinct (map fst (hosts p)) \<Longrightarrow> distinct (map fst (hosts (put_host k x p')))"
  using assms by (auto simp: getHostLocked_def host_at_def put_host_def split: option.splits)

lemma host_at_inv:
  assumes "pool_inv s" "\<not> closed (pool s)"
  shows "host_inv (MaxPerHost (opts (pool s))) (dialing s k) (gens (waiting s) k) (host_at (pool s) k)"
  using assms by (auto simp: pool_inv_def host_at_def split: option.splits)

lemma clients_of_iff:
  "distinct (map fst (hosts p)) \<Longrightarrow> c \<in> clients_of p \<longleftrightarrow> (\<exists>k h. map_of (hosts p) k = Some h \<and> c \<in> host_clients h)"
  by (auto simp: clients_of_def host_clients_def)

text \<open>Replacing one host keeps the invariant if the new host satisfies it and takes no foreign client.\<close>

lemma pool_inv_put:
  assumes inv: "pool_inv s" "\<not> closed (pool s)"
    and p: "opts p = opts (pool s)" "map_of (hosts p) = (map_of (hosts (pool s)))(k \<mapsto> h)"
      "distinct (map fst (hosts p))"
    and h: "host_inv (MaxPerHost (opts p)) (d k) (gens W k) h"
    and other: "\<And>j. j \<noteq> k \<Longrightarrow> d j = dialing s j \<and> gens W j = gens (waiting s) j"
    and cl: "\<And>c. c \<in> host_clients h \<Longrightarrow> c \<in> host_clients (host_at (pool s) k) \<or> c \<notin> clients_of (pool s)"
  shows "pool_inv (s\<lparr>pool := p, dialing := d, waiting := W\<rparr>)"
proof -
  have dis: "distinct (map fst (hosts (pool s)))" using inv by (simp add: pool_inv_def)
  have sep: "host_clients h \<inter> host_clients h' = {}" if "map_of (hosts (pool s)) j = Some h'" "j \<noteq> k" for j h'
  proof (rule ccontr)
    assume "host_clients h \<inter> host_clients h' \<noteq> {}"
    then obtain c where c: "c \<in> host_clients h" "c \<in> host_clients h'" by blast
    then have "c \<in> clients_of (pool s)" using clients_of_iff [OF dis] that(1) by blast
    then have "c \<in> host_clients (host_at (pool s) k)" using cl c(1) by blast
    then obtain hk where hk: "map_of (hosts (pool s)) k = Some hk" "c \<in> host_clients hk"
      by (auto simp: host_at_def split: option.splits)
    then have "host_clients hk \<inter> host_clients h' = {}"
      using inv that by (auto simp: pool_inv_def)
    then show False using hk(2) c(2) by blast
  qed
  show ?thesis
    using inv p h other sep unfolding pool_inv_def
    by (auto split: if_splits simp: Int_commute)
qed

lemma reap_inv:
  assumes "host_inv mx d G h" "reapHostLocked it h now = (ex, h')"
  shows "host_inv mx d G h'" "host_clients h' \<subseteq> host_clients h" "active h' = active h"
    "idle h' = filter (\<lambda>c. \<not> now - snd c > it) (idle h)"
proof -
  let ?old = "\<lambda>c. now - snd c > it"
  have len: "length (idle h) = length (filter ?old (idle h)) + length (filter (\<lambda>c. \<not> ?old c) (idle h))"
    using sum_length_filter_compl [of ?old "idle h"] by simp
  have dist: "distinct (map fst (filter (\<lambda>c. \<not> ?old c) (idle h)) @ active h)"
    using assms(1) by (auto simp: host_inv_def distinct_map_filter)
  have none: "filter ?old (idle h) = [] \<Longrightarrow> filter (\<lambda>c. \<not> ?old c) (idle h) = idle h"
    by (auto simp: filter_empty_conv intro!: filter_True)
  show "active h' = active h" "idle h' = filter (\<lambda>c. \<not> ?old c) (idle h)"
    using assms(2) by (auto simp: reapHostLocked_def Let_def wake_def split: if_splits)
  show "host_clients h' \<subseteq> host_clients h"
    using assms(2) by (auto simp: reapHostLocked_def Let_def wake_def host_clients_def split: if_splits)
  show "host_inv mx d G h'"
  proof (cases "filter ?old (idle h) = []")
    case True
    then have "h' = h" using assms(2) none by (auto simp: reapHostLocked_def split: if_splits)
    then show ?thesis using assms(1) by simp
  next
    case False
    let ?n = "length (filter ?old (idle h))"
    have h': "h' = wake (h\<lparr>idle := filter (\<lambda>c. \<not> ?old c) (idle h), total := total h - int ?n\<rparr>)"
      using assms(2) False by (auto simp: reapHostLocked_def Let_def split: if_splits)
    have "\<forall>g \<in> G. g \<le> notify h" using assms(1) by (simp add: host_inv_def)
    then have "\<forall>g \<in> G. g \<le> Suc (notify h)" "Suc (notify h) \<notin> G" by auto
    moreover have "total h = int (length (idle h) + length (active h) + d)" "total h \<le> mx"
      using assms(1) by (simp_all add: host_inv_def)
    ultimately show ?thesis using len dist by (simp add: host_inv_def wake_def h')
  qed
qed

lemma pool_inv_put0:
  assumes "pool_inv s" "\<not> closed (pool s)" "opts p = opts (pool s)"
      "map_of (hosts p) = (map_of (hosts (pool s)))(k \<mapsto> h)" "distinct (map fst (hosts p))"
      "host_inv (MaxPerHost (opts p)) (dialing s k) (gens (waiting s) k) h"
      "\<And>c. c \<in> host_clients h \<Longrightarrow> c \<in> host_clients (host_at (pool s) k) \<or> c \<notin> clients_of (pool s)"
  shows "pool_inv (s\<lparr>pool := p\<rparr>)"
proof -
  have "pool_inv (s\<lparr>pool := p, dialing := dialing s, waiting := waiting s\<rparr>)"
    by (rule pool_inv_put [of s p k h]) (use assms in auto)
  then show ?thesis by simp
qed

text \<open>What \<open>reserveOrWait\<close> does to an open pool, in one place.\<close>

lemma reserveOrWait_host:
  assumes "reserveOrWait t now p = (r, ex, p')" "\<not> closed p"
  obtains h x where "reapHostLocked (IdleTimeout (opts p)) (host_at p (Key t)) now = (ex, h)"
    "opts p' = opts p" "closed p' = closed p" "map_of (hosts p') = (map_of (hosts p))(Key t \<mapsto> x)"
    "distinct (map fst (hosts p)) \<Longrightarrow> distinct (map fst (hosts p'))"
    "(idle h \<noteq> [] \<and> r = Reuse (fst (last (idle h)))
        \<and> x = h\<lparr>idle := butlast (idle h), active := fst (last (idle h)) # active h\<rparr>)
     \<or> (idle h = [] \<and> total h < MaxPerHost (opts p) \<and> r = ShouldDial \<and> x = h\<lparr>total := total h + 1\<rparr>)
     \<or> (idle h = [] \<and> \<not> total h < MaxPerHost (opts p) \<and> r = WaitOn (notify h) \<and> x = h)"
proof -
  obtain h0 q where g: "getHostLocked (Key t) p = (h0, q)" by fastforce
  obtain e h where rp: "reapHostLocked (IdleTimeout (opts p)) h0 now = (e, h)" by fastforce
  have q: "closed q = closed p" "opts q = opts p" using getHostLocked_host [OF g] by auto
  note gh = getHostLocked_host [OF g]
  have e: "e = ex" using assms g rp q by (auto simp: reserveOrWait_def Let_def split: if_splits)
  have put: "opts (put_host (Key t) x q) = opts p" "closed (put_host (Key t) x q) = closed p" for x
    using q by (simp_all add: put_host_def)
  consider "idle h \<noteq> []" | "idle h = []" "total h < MaxPerHost (opts p)"
    | "idle h = []" "\<not> total h < MaxPerHost (opts p)" by blast
  then show thesis
  proof cases
    case 1
    then show thesis using assms g rp q e gh put
      by (intro that [of h]) (auto simp: reserveOrWait_def Let_def)
  next
    case 2
    then show thesis using assms g rp q e gh put
      by (intro that [of h]) (auto simp: reserveOrWait_def Let_def)
  next
    case 3
    then show thesis using assms g rp q e gh put
      by (intro that [of h]) (auto simp: reserveOrWait_def Let_def)
  qed
qed

lemma reuse_host:
  assumes "host_inv mx d G h" "idle h \<noteq> []"
  shows "host_inv mx d G (h\<lparr>idle := butlast (idle h), active := fst (last (idle h)) # active h\<rparr>)"
    "fst (last (idle h)) \<notin> set (active h)"
    "host_clients (h\<lparr>idle := butlast (idle h), active := fst (last (idle h)) # active h\<rparr>) = host_clients h"
proof -
  obtain xs c l where sp: "idle h = xs @ [(c, l)]" using assms(2) by (cases "idle h" rule: rev_cases) auto
  show "fst (last (idle h)) \<notin> set (active h)" using assms(1) by (auto simp: host_inv_def sp)
  show "host_inv mx d G (h\<lparr>idle := butlast (idle h), active := fst (last (idle h)) # active h\<rparr>)"
    using assms by (auto simp: host_inv_def sp)
  show "host_clients (h\<lparr>idle := butlast (idle h), active := fst (last (idle h)) # active h\<rparr>) = host_clients h"
    by (auto simp: host_clients_def sp)
qed

lemma dial_host:
  assumes "host_inv mx d G h" "idle h = []" "total h < mx"
  shows "host_inv mx (Suc d) G (h\<lparr>total := total h + 1\<rparr>)"
  using assms by (auto simp: host_inv_def)

lemma wait_host:
  assumes "host_inv mx d G h" "idle h = []" "\<not> total h < mx"
  shows "host_inv mx d (insert (notify h) G) h"
  using assms by (auto simp: host_inv_def)

lemma wake_host:
  assumes "total h = int (length (idle h) + length (active h) + d)" "total h \<le> mx"
    "distinct (map fst (idle h) @ active h)" "\<forall>g\<in>G. g \<le> notify h"
  shows "host_inv mx d G (wake h)"
proof -
  have "Suc (notify h) \<notin> G" "\<forall>g\<in>G. g \<le> Suc (notify h)" using assms(4) by fastforce+
  then show ?thesis using assms by (simp add: host_inv_def wake_def)
qed

lemma gens_insert:
  "gens (insert (k, g) W) k = insert g (gens W k)" "j \<noteq> k \<Longrightarrow> gens (insert (k, g) W) j = gens W j"
  by (auto simp: gens_def)

lemma step_reserve:
  assumes inv: "pool_inv s" "\<not> closed (pool s)" and r: "reserveOrWait t now (pool s) = (r, ex, p)"
  shows "r = Reuse c \<Longrightarrow> pool_inv (s\<lparr>pool := p\<rparr>)"
    "r = ShouldDial \<Longrightarrow> pool_inv (s\<lparr>pool := p, dialing := (dialing s)(Key t := Suc (dialing s (Key t)))\<rparr>)"
    "r = WaitOn g \<Longrightarrow> pool_inv (s\<lparr>pool := p, waiting := insert (Key t, g) (waiting s)\<rparr>)"
proof -
  let ?k = "Key t" and ?mx = "MaxPerHost (opts (pool s))"
  obtain h x where rp: "reapHostLocked (IdleTimeout (opts (pool s))) (host_at (pool s) ?k) now = (ex, h)"
    and p: "opts p = opts (pool s)" "closed p = closed (pool s)"
      "map_of (hosts p) = (map_of (hosts (pool s)))(?k \<mapsto> x)"
      "distinct (map fst (hosts (pool s))) \<Longrightarrow> distinct (map fst (hosts p))"
    and cases: "(idle h \<noteq> [] \<and> r = Reuse (fst (last (idle h)))
        \<and> x = h\<lparr>idle := butlast (idle h), active := fst (last (idle h)) # active h\<rparr>)
     \<or> (idle h = [] \<and> total h < ?mx \<and> r = ShouldDial \<and> x = h\<lparr>total := total h + 1\<rparr>)
     \<or> (idle h = [] \<and> \<not> total h < ?mx \<and> r = WaitOn (notify h) \<and> x = h)"
    by (rule reserveOrWait_host [OF r inv(2)]) blast
  have dis: "distinct (map fst (hosts p))" using p(4) inv by (simp add: pool_inv_def)
  have hi: "host_inv ?mx (dialing s ?k) (gens (waiting s) ?k) h"
    and sub: "host_clients h \<subseteq> host_clients (host_at (pool s) ?k)"
    using reap_inv [OF host_at_inv [OF inv] rp] by auto
  show "pool_inv (s\<lparr>pool := p\<rparr>)" if "r = Reuse c"
    using that cases reuse_host [OF hi] sub p
    by (intro pool_inv_put0 [OF inv p(1) p(3) dis]) auto
  show "pool_inv (s\<lparr>pool := p, dialing := (dialing s)(?k := Suc (dialing s ?k))\<rparr>)" if "r = ShouldDial"
  proof -
    have "pool_inv (s\<lparr>pool := p, dialing := (dialing s)(?k := Suc (dialing s ?k)), waiting := waiting s\<rparr>)"
      using that cases dial_host [OF hi] sub p
      by (intro pool_inv_put [OF inv p(1) p(3) dis]) (auto simp: host_clients_def)
    then show ?thesis by simp
  qed
  show "pool_inv (s\<lparr>pool := p, waiting := insert (?k, g) (waiting s)\<rparr>)" if "r = WaitOn g"
  proof -
    have "pool_inv (s\<lparr>pool := p, dialing := dialing s, waiting := insert (?k, g) (waiting s)\<rparr>)"
      using that cases wait_host [OF hi] sub p
      by (intro pool_inv_put [OF inv p(1) p(3) dis]) (auto simp: gens_insert)
    then show ?thesis by simp
  qed
qed

lemma map_of_map_host: "map_of (map (\<lambda>(k, h). (k, f h)) m) k = map_option f (map_of m k)"
  by (induction m) auto

lemma fst_map_host: "map fst (map (\<lambda>(k, h). (k, f h)) m) = map fst m"
  by (induction m) auto

lemma release_host:
  assumes "host_inv mx (Suc d) G h"
  shows "host_inv mx d G (wake (h\<lparr>total := total h - 1\<rparr>))" "total h > 0"
proof -
  show "total h > 0" using assms by (simp add: host_inv_def)
  show "host_inv mx d G (wake (h\<lparr>total := total h - 1\<rparr>))"
    by (rule wake_host) (use assms in \<open>auto simp: host_inv_def\<close>)
qed

lemma dialed_host:
  assumes "host_inv mx (Suc d) G h" "c \<notin> host_clients h"
  shows "host_inv mx d G (h\<lparr>active := c # active h\<rparr>)"
  using assms by (auto simp: host_inv_def host_clients_def)

lemma step_dialed:
  assumes inv: "pool_inv s" "\<not> closed (pool s)" and d: "dialing s (Key t) > 0"
    and fresh: "\<And>c. dl = Inr c \<Longrightarrow> c \<notin> clients_of (pool s)"
    and r: "dialReserved t config dl (pool s) = (r, cl, p)"
  shows "pool_inv (s\<lparr>pool := p, dialing := (dialing s)(Key t := dialing s (Key t) - 1)\<rparr>)"
proof -
  let ?k = "Key t" and ?mx = "MaxPerHost (opts (pool s))"
  obtain h where h: "map_of (hosts (pool s)) ?k = Some h"
    using inv d by (cases "map_of (hosts (pool s)) ?k") (auto simp: pool_inv_def)
  then have at: "host_at (pool s) ?k = h" by (simp add: host_at_def)
  obtain n where n: "dialing s ?k = Suc n" using d gr0_conv_Suc by blast
  have hi: "host_inv ?mx (Suc n) (gens (waiting s) ?k) h" using host_at_inv [OF inv, of ?k] n at by simp
  have dis: "distinct (map fst (hosts (pool s)))" using inv by (simp add: pool_inv_def)
  have "\<exists>x. opts p = opts (pool s) \<and> map_of (hosts p) = (map_of (hosts (pool s)))(?k \<mapsto> x)
        \<and> distinct (map fst (hosts p)) \<and> host_inv ?mx n (gens (waiting s) ?k) x
        \<and> (\<forall>c \<in> host_clients x. c \<in> host_clients h \<or> c \<notin> clients_of (pool s))"
  proof (cases "config = None \<and> (\<exists>c. dl = Inr c)")
    case True
    then obtain c where c: "dl = Inr c" by blast
    then have new: "c \<notin> host_clients h" using fresh clients_of_iff [OF dis] h by blast
    have "p = put_host ?k (h\<lparr>active := c # active h\<rparr>) (pool s)"
      using r True c h inv(2) by (auto simp: dialReserved_def getHostLocked_def)
    then show ?thesis using dialed_host [OF hi new] fresh [OF c] dis
      by (intro exI [of _ "h\<lparr>active := c # active h\<rparr>"]) (auto simp: put_host_def host_clients_def)
  next
    case False
    have "p = put_host ?k (wake (h\<lparr>total := total h - 1\<rparr>)) (pool s)"
      using r False h release_host(2) [OF hi]
      by (auto simp: dialReserved_def releaseReservation_def split: option.splits sum.splits)
    then show ?thesis using release_host(1) [OF hi] dis
      by (intro exI [of _ "wake (h\<lparr>total := total h - 1\<rparr>)"]) (auto simp: put_host_def host_clients_def wake_def)
  qed
  then obtain x where x: "opts p = opts (pool s)" "map_of (hosts p) = (map_of (hosts (pool s)))(?k \<mapsto> x)"
    "distinct (map fst (hosts p))" "host_inv ?mx n (gens (waiting s) ?k) x"
    "\<forall>c \<in> host_clients x. c \<in> host_clients h \<or> c \<notin> clients_of (pool s)" by blast
  have "pool_inv (s\<lparr>pool := p, dialing := (dialing s)(?k := n), waiting := waiting s\<rparr>)"
    by (rule pool_inv_put [OF inv x(1-3)]) (use x at in auto)
  then show ?thesis by (simp add: n)
qed

lemma idle_host:
  assumes "host_inv mx d G h" "c \<in> set (active h)"
  shows "host_inv mx d G (wake (h\<lparr>active := removeAll c (active h), idle := idle h @ [(c, now)]\<rparr>))"
proof -
  have d: "distinct (active h)" using assms(1) by (simp add: host_inv_def)
  then have "length (removeAll c (active h)) = length (active h) - 1"
    by (simp add: assms(2) distinct_remove1_removeAll [symmetric] length_remove1)
  then have "Suc (length (removeAll c (active h))) = length (active h)"
    using assms(2) by (cases "active h") auto
  then show ?thesis using assms by (intro wake_host) (auto simp: host_inv_def distinct_removeAll)
qed

lemma step_release:
  assumes inv: "pool_inv s" "\<not> closed (pool s)" and r: "Release t client now (pool s) = (cl, p)"
  shows "pool_inv (s\<lparr>pool := p\<rparr>)"
proof (cases "p = pool s")
  case True
  then show ?thesis using inv by simp
next
  case False
  let ?k = "Key t"
  obtain c h where h: "map_of (hosts (pool s)) ?k = Some h" "c \<in> set (active h)"
    and p: "p = put_host ?k (wake (h\<lparr>active := removeAll c (active h), idle := idle h @ [(c, now)]\<rparr>)) (pool s)"
    using r False inv(2) by (auto simp: Release_def Let_def split: option.splits if_splits)
  have at: "host_at (pool s) ?k = h" using h by (simp add: host_at_def)
  note hi = host_at_inv [OF inv, of ?k, unfolded at]
  show ?thesis
    by (rule pool_inv_put0 [OF inv, where k = ?k])
      (use p inv at h(2) idle_host [OF hi h(2), of now] in
        \<open>auto simp: put_host_def pool_inv_def host_clients_def wake_def\<close>)
qed

lemma step_reap:
  assumes inv: "pool_inv s" "\<not> closed (pool s)" and r: "ReapIdle now (pool s) = (cl, p)"
  shows "pool_inv (s\<lparr>pool := p\<rparr>)"
proof -
  let ?f = "\<lambda>h. snd (reapHostLocked (IdleTimeout (opts (pool s))) h now)"
  have p: "p = (pool s)\<lparr>hosts := map (\<lambda>(k, h). (k, ?f h)) (hosts (pool s))\<rparr>"
    using r by (simp add: ReapIdle_def Let_def)
  have keep: "host_inv mx d G (?f h) \<and> host_clients (?f h) \<subseteq> host_clients h" if "host_inv mx d G h" for mx d G h
    using reap_inv(1,2) [OF that, of "IdleTimeout (opts (pool s))" now] by (metis prod.collapse)
  have keys: "map fst (hosts p) = map fst (hosts (pool s))" "opts p = opts (pool s)" "closed p = closed (pool s)"
    using fst_map_host [of ?f] by (simp_all add: p del: map_map)
  have look: "map_of (hosts p) k = map_option ?f (map_of (hosts (pool s)) k)" for k by (simp add: p map_of_map_host)
  have H: "map_of (hosts (pool s)) k = Some h \<Longrightarrow>
      host_inv (MaxPerHost (opts (pool s))) (dialing s k) (gens (waiting s) k) h" for k h
    using inv by (simp add: pool_inv_def)
  have sep: "map_of (hosts (pool s)) k = Some h \<Longrightarrow> map_of (hosts (pool s)) k' = Some h' \<Longrightarrow> k \<noteq> k' \<Longrightarrow>
      host_clients (?f h) \<inter> host_clients (?f h') = {}" for k h k' h'
  proof -
    assume a: "map_of (hosts (pool s)) k = Some h" "map_of (hosts (pool s)) k' = Some h'" "k \<noteq> k'"
    have "host_clients h \<inter> host_clients h' = {}" using inv a by (simp add: pool_inv_def)
    then show ?thesis using keep [OF H [OF a(1)]] keep [OF H [OF a(2)]] by blast
  qed
  have none: "map_of (hosts (pool s)) k = None \<Longrightarrow> dialing s k = 0 \<and> gens (waiting s) k = {}" for k
    using inv by (simp add: pool_inv_def)
  have rest: "0 < MaxPerHost (opts (pool s))" "distinct (map fst (hosts (pool s)))"
    using inv by (simp_all add: pool_inv_def)
  show ?thesis unfolding pool_inv_def
  proof (intro disjI2 conjI allI impI, goal_cases)
    case (5 k h k' h')
    then obtain z z' where "map_of (hosts (pool s)) k = Some z" "h = ?f z"
      "map_of (hosts (pool s)) k' = Some z'" "h' = ?f z'" by (auto simp: look)
    then show ?case using sep 5 by simp
  qed (use keep [OF H] none rest in \<open>auto simp: keys look\<close>)
qed

lemma pool_closed_step: "pool_step s s' \<Longrightarrow> closed (pool s) \<Longrightarrow> closed (pool s')"
  by (induction rule: pool_step.induct)
    (auto simp: reserveOrWait_def dialReserved_def releaseReservation_def getHostLocked_def put_host_def
       Release_def ReapIdle_def Close_def Let_def split: option.splits sum.splits if_splits)

lemma host_inv_fewer: "host_inv mx d G h \<Longrightarrow> G' \<subseteq> G \<Longrightarrow> host_inv mx d G' h"
  by (auto simp: host_inv_def)

lemma pool_inv_step:
  assumes "pool_step s s'" "pool_inv s"
  shows "pool_inv s'"
proof (cases "closed (pool s)")
  case True
  then show ?thesis using assms pool_closed_step by simp
next
  case False
  note inv = assms(2) False
  show ?thesis using assms(1)
  proof cases
    case (ps_close cl p)
    then show ?thesis using False by (auto simp: Close_def)
  next
    case (ps_dialed t d config r cl p)
    then show ?thesis using step_dialed [OF inv ps_dialed(2) _ ps_dialed(4)] by simp
  next
    case (ps_wake kg)
    have g: "gens (waiting s - {kg}) k \<subseteq> gens (waiting s) k" for k by (auto simp: gens_def)
    then have "gens (waiting s) k = {} \<Longrightarrow> gens (waiting s - {kg}) k = {}" for k by blast
    then show ?thesis using inv host_inv_fewer [OF _ g] unfolding pool_inv_def by (auto simp: ps_wake)
  qed (use step_reserve [OF inv] step_release [OF inv] step_reap [OF inv] in simp_all)
qed

lemma normalize_max: "0 < MaxPerHost (normalizePoolOptions o0)"
  by (simp add: normalizePoolOptions_def Let_def)

lemma pool_inv_init: "pool_init s \<Longrightarrow> pool_inv s"
  by (auto simp: pool_init_def pool_inv_def NewPool_def normalize_max gens_def)

interpretation ssh_pool: transition_system pool_init pool_step pool_inv
  by unfold_locales (rule pool_inv_init pool_inv_step, assumption+)+

section \<open>Properties\<close>

lemma reached_host:
  assumes "reached pool_init pool_step s" "\<not> closed (pool s)" "map_of (hosts (pool s)) k = Some h"
  shows "host_inv (MaxPerHost (opts (pool s))) (dialing s k) (gens (waiting s) k) h"
  using ssh_pool.reached_inv [OF assms(1)] assms(2,3) by (simp add: pool_inv_def)

text \<open>
  C13. The per-host limit holds in every interleaving of the pool's operations: while the pool is open, the
  count a host keeps is exactly its idle connections, its checked-out ones and the dials in flight, and it
  never exceeds \<open>MaxPerHost\<close>.
\<close>

theorem pool_capacity:
  assumes "reached pool_init pool_step s" "\<not> closed (pool s)" "map_of (hosts (pool s)) k = Some h"
  shows "total h = int (length (idle h) + length (active h) + dialing s k)
    \<and> length (idle h) + length (active h) + dialing s k \<le> nat (MaxPerHost (opts (pool s)))"
  using reached_host [OF assms] by (auto simp: host_inv_def)

text \<open>
  C12. No wake-up is lost: a goroutine that waits on the current notify channel of a host waits while no
  connection is idle and the limit is used up; whatever frees one closes that channel.
\<close>

theorem pool_no_lost_wakeup:
  assumes "reached pool_init pool_step s" "\<not> closed (pool s)" "map_of (hosts (pool s)) k = Some h"
    and "(k, notify h) \<in> waiting s"
  shows "idle h = [] \<and> total h = MaxPerHost (opts (pool s))"
  using reached_host [OF assms(1-3)] assms(4) by (auto simp: host_inv_def gens_def)


text \<open>
  Releasing a client twice changes nothing the second time: the second \<open>Release\<close> closes no client and
  leaves the pool as the first one left it.
\<close>

theorem Release_twice:
  assumes "map_of (hosts p) (Key t) = Some h"
  shows "Release t (Some c) now' (snd (Release t (Some c) now p)) = ([], snd (Release t (Some c) now p))"
  using assms by (auto simp: Release_def Let_def put_host_def wake_def)

text \<open>
  A released connection is handed out again: after \<open>Release\<close>, the next \<open>Acquire\<close> for the target within
  the idle timeout reuses exactly that client (most recently used first) and dials nothing.
\<close>

theorem Release_then_reuse:
  assumes "\<not> closed p" "map_of (hosts p) (Key t) = Some h" "c \<in> set (active h)"
    and "now' - now \<le> IdleTimeout (opts p)"
  shows "fst (reserveOrWait t now' (snd (Release t (Some c) now p))) = Reuse c"
  using assms by (auto simp: Release_def reserveOrWait_def getHostLocked_def reapHostLocked_def put_host_def
    wake_def Let_def)

text \<open>
  \<open>Close\<close> leaks nothing: it closes every idle and every checked-out client of every host, leaves no
  client in the pool, and no later operation hands out or admits one.
\<close>

theorem Close_complete:
  assumes "\<not> closed p" "Close p = (cl, q)"
  shows "set cl = clients_of p \<and> clients_of q = {} \<and> closed q
    \<and> fst (reserveOrWait t now q) = Closed
    \<and> (\<exists>e. fst (dialReserved t config d q) = Inl e)"
proof -
  have "\<exists>e. fst (dialReserved t config d q) = Inl e" if "closed q"
    using that by (auto simp: dialReserved_def getHostLocked_def split: option.splits sum.splits)
  moreover have "set cl = clients_of p" using assms by (auto simp: Close_def clients_of_def) force+
  moreover have "clients_of q = {}" "closed q"
    using assms by (auto simp: Close_def clients_of_def close_host_def wake_def)
  ultimately show ?thesis by (simp add: reserveOrWait_def)
qed

text \<open>
  \<open>ReapIdle\<close> closes a connection only after it sat idle longer than the timeout, and drops from the
  host exactly what it closes; checked-out connections stay.
\<close>

theorem reap_exact:
  assumes "reapHostLocked it h now = (expired, h')"
  shows "set expired = fst ` {c \<in> set (idle h). it < now - snd c}
    \<and> set (idle h') = {c \<in> set (idle h). now - snd c \<le> it}
    \<and> total h' = total h - int (length expired) \<and> active h' = active h"
proof -
  let ?old = "\<lambda>c. it < now - snd c"
  have h': "expired = map fst (filter ?old (idle h))" "active h' = active h"
    "idle h' = filter (\<lambda>c. \<not> ?old c) (idle h)" "total h' = total h - int (length (filter ?old (idle h)))"
    using assms by (auto simp: reapHostLocked_def Let_def wake_def split: if_splits)
  then show ?thesis by (auto simp: not_less)
qed

text \<open>
  A dial that finishes after \<open>Close\<close> is undone, but the counter goes wrong: \<open>Close\<close> already set
  \<open>total\<close> to 0, and \<open>dialReserved\<close> then takes it to -1.
\<close>

definition ex_target :: Target where "ex_target = \<lparr>THost = ''h'', TPort = 22, TUser = ''u'', TAlias = ''a''\<rparr>"

definition ex_opts :: PoolOptions where
  "ex_opts = \<lparr>MaxPerHost = 1, IdleTimeout = 60, AcquireTimeout = 5, CleanupInterval = 30, KeepaliveInterval = 15\<rparr>"

theorem late_dial_negative:
  "(let p1 = snd (snd (reserveOrWait ex_target 0 (NewPool ex_opts)));
        p2 = snd (Close p1);
        (r, closed_now, p3) = dialReserved ex_target None (Inr 7) p2
    in (r, closed_now, map_option total (map_of (hosts p3) (Key ex_target)))) = (Inl [PoolClosed], [7], Some (-1))"
  by code_simp

text \<open>A short run: one dial, a second caller that waits, a release, and the reuse.\<close>

definition ex_run0 :: pstate where
  "ex_run0 = \<lparr>pool = NewPool ex_opts, dialing = (\<lambda>_. 0), waiting = {}\<rparr>"

definition ex_host :: hostPool where "ex_host = \<lparr>idle = [], active = [], total = 1, notify = 0\<rparr>"

definition at_host :: "hostPool \<Rightarrow> Pool" where
  "at_host h = \<lparr>opts = ex_opts, hosts = [(Key ex_target, h)], closed = False\<rparr>"

definition ex_run1 :: pstate where "ex_run1 = ex_run0\<lparr>pool := at_host ex_host, dialing := (\<lambda>_. 0)(Key ex_target := 1)\<rparr>"

definition ex_run2 :: pstate where "ex_run2 = ex_run0\<lparr>pool := at_host (ex_host\<lparr>active := [7]\<rparr>)\<rparr>"

definition ex_run3 :: pstate where "ex_run3 = ex_run2\<lparr>waiting := {(Key ex_target, 0)}\<rparr>"

definition ex_run4 :: pstate where "ex_run4 = ex_run3\<lparr>pool := at_host (ex_host\<lparr>idle := [(7, 10)], notify := 1\<rparr>)\<rparr>"

lemma ex_opts_normal: "normalizePoolOptions ex_opts = ex_opts"
  by (simp add: normalizePoolOptions_def ex_opts_def)

lemma ex_opts_sel: "MaxPerHost ex_opts = 1" "IdleTimeout ex_opts = 60"
  by (simp_all add: ex_opts_def)

lemmas run_defs = ex_run0_def ex_run1_def ex_run2_def ex_run3_def ex_run4_def at_host_def ex_host_def NewPool_def ex_opts_normal ex_opts_sel

lemmas op_defs = reserveOrWait_def getHostLocked_def empty_host_def reapHostLocked_def put_host_def wake_def
  dialReserved_def Release_def Let_def mput_def

lemma run_steps: "pool_init ex_run0" "pool_step ex_run0 ex_run1" "pool_step ex_run1 ex_run2" "pool_step ex_run2 ex_run3" "pool_step ex_run3 ex_run4"
proof -
  show "pool_init ex_run0" by (auto simp: pool_init_def ex_run0_def)
  have "pool_step ex_run0 (ex_run0\<lparr>pool := at_host ex_host, dialing := (dialing ex_run0)(Key ex_target := Suc (dialing ex_run0 (Key ex_target)))\<rparr>)"
    by (rule ps_dial [of ex_target 0 _ "[]"]) (simp add: run_defs op_defs)
  then show "pool_step ex_run0 ex_run1" by (simp add: run_defs)
  have "pool_step ex_run1 (ex_run1\<lparr>pool := at_host (ex_host\<lparr>active := [7]\<rparr>), dialing := (dialing ex_run1)(Key ex_target := dialing ex_run1 (Key ex_target) - 1)\<rparr>)"
    by (rule ps_dialed [of _ ex_target "Inr 7" None "Inr 7" "[]"]) (auto simp: run_defs op_defs clients_of_def)
  then show "pool_step ex_run1 ex_run2" by (simp add: run_defs fun_upd_idem)
  have "pool_step ex_run2 (ex_run2\<lparr>pool := pool ex_run2, waiting := insert (Key ex_target, 0) (waiting ex_run2)\<rparr>)"
    by (rule ps_wait [of ex_target 5 _ _ "[]"]) (simp add: run_defs op_defs)
  then show "pool_step ex_run2 ex_run3" by (simp add: run_defs)
  have "pool_step ex_run3 (ex_run3\<lparr>pool := at_host (ex_host\<lparr>idle := [(7, 10)], notify := 1\<rparr>)\<rparr>)"
    by (rule ps_release [of ex_target "Some 7" 10 _ "[]"]) (simp add: run_defs op_defs)
  then show "pool_step ex_run3 ex_run4" by (simp add: run_defs)
qed

lemma run_reached: "reached pool_init pool_step ex_run3" "reached pool_init pool_step ex_run4"
proof -
  have "reached pool_init pool_step ex_run0" using run_steps(1) by (rule reached.intros)
  then have "reached pool_init pool_step ex_run1" using run_steps(2) by (rule reached.intros)
  then have "reached pool_init pool_step ex_run2" using run_steps(3) by (rule reached.intros)
  then show "reached pool_init pool_step ex_run3" using run_steps(4) by (rule reached.intros)
  then show "reached pool_init pool_step ex_run4" using run_steps(5) by (rule reached.intros)
qed

theorem pool_capacity_witness:
  "length (idle (ex_host\<lparr>active := [7]\<rparr>)) + length (active (ex_host\<lparr>active := [7]\<rparr>)) + dialing ex_run3 (Key ex_target)
     \<le> nat (MaxPerHost (opts (pool ex_run3)))"
  using pool_capacity [OF run_reached(1), of "Key ex_target" "ex_host\<lparr>active := [7]\<rparr>"] by (simp add: run_defs)

theorem pool_no_lost_wakeup_witness: "total (ex_host\<lparr>active := [7]\<rparr>) = MaxPerHost (opts (pool ex_run3))"
  using pool_no_lost_wakeup [OF run_reached(1), of "Key ex_target" "ex_host\<lparr>active := [7]\<rparr>"] by (simp add: run_defs)


theorem Release_twice_witness:
  "Release ex_target (Some 7) 12 (snd (Release ex_target (Some 7) 10 (pool ex_run3))) = ([], snd (Release ex_target (Some 7) 10 (pool ex_run3)))"
  by (rule Release_twice [of _ _ "ex_host\<lparr>active := [7]\<rparr>"]) (simp add: run_defs)

theorem Release_then_reuse_witness:
  "fst (reserveOrWait ex_target 20 (snd (Release ex_target (Some 7) 10 (pool ex_run3)))) = Reuse 7"
  by (rule Release_then_reuse [of _ _ "ex_host\<lparr>active := [7]\<rparr>"]) (simp_all add: run_defs)

theorem Close_complete_witness: "clients_of (snd (Close (pool ex_run4))) = {}"
  using Close_complete [of "pool ex_run4" "[7]" "snd (Close (pool ex_run4))"] by (simp add: run_defs Close_def)

theorem reap_exact_witness: "active (snd (reapHostLocked 5 (ex_host\<lparr>idle := [(7, 10), (8, 90)]\<rparr>) 92)) = []"
  using reap_exact [of 5 "ex_host\<lparr>idle := [(7, 10), (8, 90)]\<rparr>" 92 "[7]"
      "snd (reapHostLocked 5 (ex_host\<lparr>idle := [(7, 10), (8, 90)]\<rparr>) 92)"]
  by (simp add: ex_host_def reapHostLocked_def wake_def)

end
