(* ===== verification/Ssh_Exec.thy ===== *)
theory Ssh_Exec
  imports Complex_Main Ssh_Types "HOL-Library.Word"
begin

text \<open>
  Running a command over SSH (\<open>src/ssh/exec.go\<close>, \<open>src/ssh/retry.go\<close>, \<open>src/ssh/inflight.go\<close>). What the
  network, the scheduler and the semaphore answer is an argument: the outcome of the n-th attempt, of the
  n-th sleep, of the n-th look at the context and the n-th random number. Durations are nanoseconds; the
  shift of the backoff is the wrapping one of \<open>int64\<close> and the jitter is computed in IEEE-754 doubles,
  rationals rounded to 53 significant bits after every operation.
\<close>

section \<open>Exec and Reconnect (exec.go)\<close>

definition zero_result :: "int \<Rightarrow> ExecResult" where
  "zero_result d = \<lparr>Stdout = '''', Stderr = '''', ExitCode = 0, Duration = d\<rparr>"

text \<open>What \<open>session.Run\<close> yields: the two buffers and the error, or the context ends first.\<close>

datatype run_outcome = RunDone string string "goerr option" | CtxDone string string goerr

record 'c exec_out =
  eres :: ExecResult
  eerr :: "goerr option"
  ereleased :: "'c list"

definition Exec :: "'c res \<Rightarrow> ('c \<Rightarrow> goerr option) \<Rightarrow> ('c \<Rightarrow> string \<Rightarrow> run_outcome) \<Rightarrow> int \<Rightarrow> string \<Rightarrow> 'c exec_out" where
  "Exec acquired newSession run elapsed command =
     (case acquired of
        Inl err \<Rightarrow> \<lparr>eres = zero_result elapsed, eerr = Some err, ereleased = []\<rparr>
      | Inr client \<Rightarrow>
     (case newSession client of
        Some err \<Rightarrow> \<lparr>eres = zero_result elapsed, eerr = Some err, ereleased = [client]\<rparr>
      | None \<Rightarrow>
     (case run client command of
        RunDone so se err \<Rightarrow>
          \<lparr>eres = \<lparr>Stdout = so, Stderr = se, ExitCode = exitCode err, Duration = elapsed\<rparr>, eerr = err,
           ereleased = [client]\<rparr>
      | CtxDone so se cerr \<Rightarrow>
          \<lparr>eres = \<lparr>Stdout = so, Stderr = se, ExitCode = -1, Duration = elapsed\<rparr>, eerr = Some cerr,
           ereleased = [client]\<rparr>)))"

definition sec :: int where "sec = 1000000000"
definition msec :: int where "msec = 1000000"

definition normalizeRetryPolicy :: "int list \<Rightarrow> int list" where
  "normalizeRetryPolicy backoff = (if backoff = [] then [3 * sec, 6 * sec, 12 * sec] else backoff)"

text \<open>The loop of \<open>Reconnect\<close>: its result, how often it acquired and the sleeps it asked for.\<close>

fun reconnect_loop ::
  "(nat \<Rightarrow> 'c res) \<Rightarrow> (nat \<Rightarrow> int \<Rightarrow> goerr option) \<Rightarrow> nat \<Rightarrow> int list \<Rightarrow> goerr \<Rightarrow> 'c res \<times> nat \<times> int list" where
  "reconnect_loop acquire sleep i [] lastErr = (Inl (wrap (SshE ErrReconnectExhausted) lastErr), i, [])"
| "reconnect_loop acquire sleep i (backoff # rest) lastErr =
     (case acquire i of
        Inr client \<Rightarrow> (Inr client, Suc i, [])
      | Inl err \<Rightarrow>
          if rest = [] then (Inl (wrap (SshE ErrReconnectExhausted) err), Suc i, [])
          else (case sleep i backoff of
                  Some sleepErr \<Rightarrow> (Inl sleepErr, Suc i, [backoff])
                | None \<Rightarrow> (case reconnect_loop acquire sleep (Suc i) rest err of
                             (r, n, slept) \<Rightarrow> (r, n, backoff # slept))))"

definition Reconnect ::
  "(nat \<Rightarrow> 'c res) \<Rightarrow> (nat \<Rightarrow> int \<Rightarrow> goerr option) \<Rightarrow> int list \<Rightarrow> 'c res \<times> nat \<times> int list" where
  "Reconnect acquire sleep backoff = reconnect_loop acquire sleep 0 (normalizeRetryPolicy backoff) []"

section \<open>Backoff with jitter (retry.go)\<close>

text \<open>Rounding to a double: nearest, ties to even, 53 significant bits, subnormals below \<open>2 ^ -1022\<close>.\<close>

definition round_even :: "rat \<Rightarrow> int" where
  "round_even x = (let f = \<lfloor>x\<rfloor>; r = x - of_int f in
     if r < 1 / 2 then f else if r > 1 / 2 then f + 1 else if even f then f else f + 1)"

text \<open>Scales a positive rational into \<open>[2^52, 2^53)\<close> by doubling or halving; \<open>n\<close> bounds the steps.\<close>

fun scale_up :: "nat \<Rightarrow> rat \<Rightarrow> int \<Rightarrow> rat \<times> int" where
  "scale_up 0 x e = (x, e)"
| "scale_up (Suc n) x e = (if x < 2 ^ 52 then scale_up n (x * 2) (e - 1) else (x, e))"

fun scale_down :: "nat \<Rightarrow> rat \<Rightarrow> int \<Rightarrow> rat \<times> int" where
  "scale_down 0 x e = (x, e)"
| "scale_down (Suc n) x e = (if x \<ge> 2 ^ 53 then scale_down n (x / 2) (e + 1) else (x, e))"

definition pow2 :: "int \<Rightarrow> rat" where
  "pow2 e = (if 0 \<le> e then 2 ^ nat e else 1 / 2 ^ nat (- e))"

definition float64 :: "rat \<Rightarrow> rat" where
  "float64 x =
     (if x = 0 then 0
      else case scale_up 1074 \<bar>x\<bar> 0 of (y, e) \<Rightarrow>
           case scale_down 1000 y e of (z, e') \<Rightarrow> sgn x * of_int (round_even z) * pow2 e')"

record RetryableExecPolicy =
  Attempts :: int
  BaseBackoff :: int
  MaxBackoff :: int

definition DefaultRetryableExecPolicy :: RetryableExecPolicy where
  "DefaultRetryableExecPolicy = \<lparr>Attempts = 3, BaseBackoff = 200 * msec, MaxBackoff = 1200 * msec\<rparr>"

definition normalizeRetryableExecPolicy :: "RetryableExecPolicy \<Rightarrow> RetryableExecPolicy" where
  "normalizeRetryableExecPolicy p =
     \<lparr>Attempts = (if Attempts p \<le> 0 then Attempts DefaultRetryableExecPolicy else Attempts p),
      BaseBackoff = (if BaseBackoff p \<le> 0 then BaseBackoff DefaultRetryableExecPolicy else BaseBackoff p),
      MaxBackoff = (if MaxBackoff p \<le> 0 then MaxBackoff DefaultRetryableExecPolicy else MaxBackoff p)\<rparr>"

text \<open>\<open>BaseBackoff << attempt\<close>, in 64 bits, clamped; \<open>rnd\<close> is \<open>None\<close> when the policy has no \<open>Rand\<close>.\<close>

definition clampedBackoff :: "RetryableExecPolicy \<Rightarrow> nat \<Rightarrow> int" where
  "clampedBackoff policy attempt =
     (let exp = sint (push_bit attempt (word_of_int (BaseBackoff policy) :: 64 word)) in
      if exp \<le> 0 \<or> exp > MaxBackoff policy then MaxBackoff policy else exp)"

definition jitteredBackoff :: "RetryableExecPolicy \<Rightarrow> nat \<Rightarrow> rat option \<Rightarrow> int" where
  "jitteredBackoff policy attempt rnd =
     (let exp = clampedBackoff policy attempt in
      case rnd of
        None \<Rightarrow> exp
      | Some u \<Rightarrow>
          let jitter = float64 (float64 (u * float64 (2 / 5)) - float64 (1 / 5));
              scaled = float64 (float64 (of_int exp) * float64 (1 + jitter));
              scaled = (if scaled < 0 then 0 else scaled)
          in \<lfloor>scaled\<rfloor>)"

section \<open>ExecWithRetry (retry.go, inflight.go)\<close>

record ExecMetrics =
  Acquires :: "64 word"
  PoolBusyHits :: "64 word"
  Retries :: "64 word"
  TerminalErrors :: "64 word"

definition Snapshot :: "ExecMetrics option \<Rightarrow> ExecMetrics" where
  "Snapshot m = (case m of None \<Rightarrow> \<lparr>Acquires = 0, PoolBusyHits = 0, Retries = 0, TerminalErrors = 0\<rparr> | Some x \<Rightarrow> x)"

text \<open>The outside world of one call, and what the call did to it.\<close>

record retry_env =
  ctxAt :: "nat \<Rightarrow> goerr option"
  execAt :: "nat \<Rightarrow> ExecResult \<times> goerr option"
  sleepAt :: "nat \<Rightarrow> int \<Rightarrow> goerr option"
  randAt :: "nat \<Rightarrow> rat"

record retry_out =
  rres :: ExecResult
  rerr :: "goerr option"
  rmetrics :: "ExecMetrics option"
  rcalls :: nat
  rslept :: "int list"

definition bump :: "(ExecMetrics \<Rightarrow> ExecMetrics) \<Rightarrow> ExecMetrics option \<Rightarrow> ExecMetrics option" where
  "bump f m = map_option f m"

text \<open>The attempts from \<open>attempt\<close> on; \<open>n\<close> of them are left.\<close>

fun retry_loop ::
  "RetryableExecPolicy \<Rightarrow> retry_env \<Rightarrow> nat \<Rightarrow> nat \<Rightarrow> ExecResult \<Rightarrow> goerr option \<Rightarrow> ExecMetrics option \<Rightarrow> retry_out" where
  "retry_loop policy env attempt 0 lastResult lastErr m =
     \<lparr>rres = lastResult, rerr = lastErr, rmetrics = m, rcalls = 0, rslept = []\<rparr>"
| "retry_loop policy env attempt (Suc n) lastResult lastErr m =
     (case ctxAt env attempt of
        Some err \<Rightarrow> \<lparr>rres = lastResult, rerr = Some err, rmetrics = m, rcalls = 0, rslept = []\<rparr>
      | None \<Rightarrow>
     (case execAt env attempt of (result, err) \<Rightarrow>
     (case err of
        None \<Rightarrow> \<lparr>rres = result, rerr = None, rmetrics = bump (Acquires_update (\<lambda>x. x + 1)) m, rcalls = 1, rslept = []\<rparr>
      | Some e \<Rightarrow>
          if errors_is e (SshE ErrPoolBusy) then
            let m = bump (PoolBusyHits_update (\<lambda>x. x + 1)) m in
            if int attempt = Attempts policy - 1
            then \<lparr>rres = result, rerr = Some e, rmetrics = m, rcalls = 1, rslept = []\<rparr>
            else
              let backoff = jitteredBackoff policy attempt (Some (randAt env attempt));
                  m = bump (Retries_update (\<lambda>x. x + 1)) m
              in (case sleepAt env attempt backoff of
                    Some sleepErr \<Rightarrow> \<lparr>rres = result, rerr = Some sleepErr, rmetrics = m, rcalls = 1, rslept = [backoff]\<rparr>
                  | None \<Rightarrow>
                      let out = retry_loop policy env (Suc attempt) n result err m
                      in out\<lparr>rcalls := Suc (rcalls out), rslept := backoff # rslept out\<rparr>)
          else \<lparr>rres = result, rerr = err, rmetrics = bump (TerminalErrors_update (\<lambda>x. x + 1)) m, rcalls = 1, rslept = []\<rparr>)))"

definition limiter_budget :: "int \<Rightarrow> int" where
  "limiter_budget profiles =
     (let p = (if profiles < 0 then 0 else profiles); budget = go_div p 2
      in if budget < 8 then 8 else budget)"

text \<open>
  \<open>InflightLimiter.Acquire\<close>: a nil limiter grants; otherwise the context is looked at first, then the
  semaphore is asked, which is a library. The result says whether a slot is held.
\<close>

definition limiter_Acquire :: "(goerr option) option \<Rightarrow> goerr option \<Rightarrow> bool \<times> goerr option" where
  "limiter_Acquire sem cerr =
     (case sem of
        None \<Rightarrow> (False, None)
      | Some answer \<Rightarrow> (case cerr of Some e \<Rightarrow> (False, Some e)
                        | None \<Rightarrow> (case answer of Some e \<Rightarrow> (False, Some e) | None \<Rightarrow> (True, None))))"

text \<open>With whether a limiter slot was held, and so given back on return.\<close>

definition ExecWithRetryLimited ::
  "(goerr option) option \<Rightarrow> goerr option \<Rightarrow> RetryableExecPolicy \<Rightarrow> retry_env \<Rightarrow> ExecMetrics option \<Rightarrow> retry_out \<times> bool" where
  "ExecWithRetryLimited sem cerr policy env m =
     (case limiter_Acquire sem cerr of
        (held, Some err) \<Rightarrow>
          (\<lparr>rres = zero_result 0, rerr = Some err, rmetrics = m, rcalls = 0, rslept = []\<rparr>, held)
      | (held, None) \<Rightarrow>
          let p = normalizeRetryableExecPolicy policy
          in (retry_loop p env 0 (nat (Attempts p)) (zero_result 0) None m, held))"

definition ExecWithRetry :: "RetryableExecPolicy \<Rightarrow> retry_env \<Rightarrow> ExecMetrics option \<Rightarrow> retry_out" where
  "ExecWithRetry policy env m = fst (ExecWithRetryLimited None None policy env m)"

section \<open>Rounding to doubles\<close>

lemma pow2_pos [simp]: "0 < pow2 e"
  by (simp add: pow2_def)

lemma pow2_step: "2 * pow2 (e - 1) = pow2 e"
proof (cases "e \<ge> 1")
  case True
  then have "nat e = Suc (nat (e - 1))" by simp
  then show ?thesis using True by (simp add: pow2_def)
next
  case False
  then have "nat (- (e - 1)) = Suc (nat (- e))" by simp
  then show ?thesis using False by (auto simp: pow2_def)
qed

lemma pow2_0 [simp]: "pow2 0 = 1"
  by (simp add: pow2_def)

lemma scale_up_val: "scale_up n x e = (y, e') \<Longrightarrow> y * pow2 e' = x * pow2 e"
proof (induction n x e rule: scale_up.induct)
  case (2 n x e)
  then show ?case using pow2_step [of e] by (auto split: if_splits)
qed simp

lemma scale_down_val: "scale_down n x e = (y, e') \<Longrightarrow> y * pow2 e' = x * pow2 e"
proof (induction n x e rule: scale_down.induct)
  case (2 n x e)
  have "pow2 (e + 1) = 2 * pow2 e" using pow2_step [of "e + 1"] by simp
  then show ?case using 2 by (auto split: if_splits)
qed simp

lemma scale_up_ge: "scale_up n x e = (y, e') \<Longrightarrow> 2 ^ 52 \<le> y \<or> (y < 2 ^ 52 \<and> e' = e - int n)"
  by (induction n x e rule: scale_up.induct) (auto split: if_splits)

lemma scale_down_ge: "scale_down n x e = (y, e') \<Longrightarrow> 2 ^ 52 \<le> x \<Longrightarrow> 2 ^ 52 \<le> y"
  by (induction n x e rule: scale_down.induct) (auto split: if_splits)

lemma scale_down_small: "x < 2 ^ 52 \<Longrightarrow> scale_down n x e = (x, e)"
  by (cases n) auto

lemma round_even_error: "\<bar>of_int (round_even x) - x\<bar> \<le> 1 / 2"
proof -
  define f where "f = rat_of_int \<lfloor>x\<rfloor>"
  have "f \<le> x" "x < f + 1" unfolding f_def by linarith+
  then show ?thesis by (auto simp: round_even_def Let_def abs_if f_def [symmetric])
qed

text \<open>The error of a double: half a unit in the last place, or half the smallest subnormal.\<close>

lemma float64_error: "\<bar>float64 x - x\<bar> \<le> \<bar>x\<bar> / 2 ^ 53 + 1 / 2 ^ 1075"
proof (cases "x = 0")
  case False
  obtain y e where u: "scale_up 1074 \<bar>x\<bar> 0 = (y, e)" by fastforce
  obtain z e' where d: "scale_down 1000 y e = (z, e')" by fastforce
  have val: "z * pow2 e' = \<bar>x\<bar>" using scale_up_val [OF u] scale_down_val [OF d] by simp
  have f: "float64 x = sgn x * of_int (round_even z) * pow2 e'" using False u d by (simp add: float64_def)
  have x: "x = sgn x * z * pow2 e'" using val by (simp add: mult.assoc mult_sgn_abs)
  have "\<bar>float64 x - x\<bar> = \<bar>sgn x * ((of_int (round_even z) - z) * pow2 e')\<bar>"
    by (subst x) (simp add: f algebra_simps)
  also have "\<dots> = \<bar>of_int (round_even z) - z\<bar> * pow2 e'"
    using False by (simp add: abs_mult abs_of_pos [OF pow2_pos])
  also have "\<dots> \<le> 1 / 2 * pow2 e'"
    by (rule mult_right_mono [OF round_even_error]) (simp add: less_imp_le)
  finally have err: "\<bar>float64 x - x\<bar> \<le> 1 / 2 * pow2 e'" .
  consider "2 ^ 52 \<le> y" | "y < 2 ^ 52" "e = - 1074" using scale_up_ge [OF u] by auto
  then show ?thesis
  proof cases
    case 1
    then have "2 ^ 52 \<le> z" using scale_down_ge [OF d] by blast
    then have "1 / 2 * pow2 e' \<le> (z / 2 ^ 53) * pow2 e'"
      by (intro mult_right_mono) (simp_all add: less_imp_le)
    then have "1 / 2 * pow2 e' \<le> \<bar>x\<bar> / 2 ^ 53" using val by simp
    moreover have "(0 :: rat) \<le> 1 / 2 ^ 1075" by simp
    ultimately show ?thesis using err by linarith
  next
    case 2
    then have "e' = - 1074" using scale_down_small [OF 2(1)] d by simp
    moreover have "pow2 (- 1074) = 1 / 2 ^ 1074" unfolding pow2_def by simp
    moreover have "(2 :: rat) ^ 1075 = 2 * 2 ^ 1074" by simp
    ultimately have "1 / 2 * pow2 e' = 1 / 2 ^ 1075" by simp
    moreover have "0 \<le> \<bar>x\<bar> / 2 ^ 53" by simp
    ultimately show ?thesis using err by linarith
  qed
qed (simp add: float64_def)

text \<open>A coarser form for the few operations of the jitter.\<close>

definition half_ulp :: rat where "half_ulp = 1 / 2 ^ 53"

lemma half_ulp_small: "0 < half_ulp" "1000000 * half_ulp < 1"
  by (simp_all add: half_ulp_def)

lemma float64_near: "\<bar>x\<bar> \<le> b \<Longrightarrow> \<bar>float64 x - x\<bar> \<le> b * half_ulp + half_ulp / 100"
proof -
  assume "\<bar>x\<bar> \<le> b"
  then have "\<bar>x\<bar> / 2 ^ 53 \<le> b * half_ulp" by (simp add: half_ulp_def)
  moreover have "(1 :: rat) / 2 ^ 1075 \<le> 1 / 2 ^ 60"
    by (intro divide_left_mono power_increasing) simp_all
  moreover have "1 / 2 ^ 60 \<le> half_ulp / 100" by (simp add: half_ulp_def)
  ultimately show ?thesis using float64_error [of x] by linarith
qed

lemma jitter_bounds:
  fixes u :: rat
  assumes "0 \<le> u" "u \<le> 1"
  defines "j \<equiv> float64 (float64 (u * float64 (2 / 5)) - float64 (1 / 5))"
  shows "\<bar>j - (2 / 5 * u - 1 / 5)\<bar> \<le> 4 * half_ulp" 
proof -
  let ?a = "float64 (2 / 5)" and ?b = "float64 (1 / 5)"
  let ?c = "float64 (u * ?a)"
  have a: "\<bar>?a - 2 / 5\<bar> \<le> (2/5) * half_ulp + half_ulp / 100" by (rule float64_near) simp
  have b: "\<bar>?b - 1 / 5\<bar> \<le> (1/5) * half_ulp + half_ulp / 100" by (rule float64_near) simp
  have a1: "0 \<le> ?a" "?a \<le> 1 / 2" using a half_ulp_small by linarith+
  have ua: "0 \<le> u * ?a" "u * ?a \<le> ?a" using assms(1,2) a1 by (simp_all add: mult_left_le_one_le)
  have "\<bar>u * (?a - 2 / 5)\<bar> \<le> 1 * \<bar>?a - 2 / 5\<bar>"
    unfolding abs_mult using assms(1,2) by (intro mult_right_mono) auto
  then have ua2: "\<bar>u * ?a - 2 / 5 * u\<bar> \<le> (2/5) * half_ulp + half_ulp / 100"
    using a by (simp add: right_diff_distrib mult.commute)
  have "\<bar>u * ?a\<bar> \<le> 1/2" using ua a1 by linarith
  then have c: "\<bar>?c - u * ?a\<bar> \<le> (1/2) * half_ulp + half_ulp / 100" by (rule float64_near)
  have d: "\<bar>?c - ?b - (2 / 5 * u - 1 / 5)\<bar> \<le> 2 * half_ulp"
    using ua2 b c half_ulp_small by linarith
  then have "\<bar>?c - ?b\<bar> \<le> 1 / 4" using half_ulp_small assms(1,2) by linarith
  then have "\<bar>j - (?c - ?b)\<bar> \<le> (1/4) * half_ulp + half_ulp / 100" unfolding j_def by (rule float64_near)
  then show ?thesis using d half_ulp_small by linarith
qed

text \<open>The delay is the clamped value times \<open>0.8 + 0.4 u\<close>, up to the rounding of the doubles.\<close>

lemma jittered_near:
  assumes "0 \<le> u" "u \<le> 1" "0 < clampedBackoff p n"
  shows "rat_of_int (jitteredBackoff p n (Some u)) \<le> of_int (clampedBackoff p n) * (4 / 5 + 2 / 5 * u + 1 / 2 ^ 49)
    \<and> of_int (clampedBackoff p n) * (4 / 5 + 2 / 5 * u - 1 / 2 ^ 49) - 1 < rat_of_int (jitteredBackoff p n (Some u))"
proof -
  define x where "x = rat_of_int (clampedBackoff p n)"
  define j where "j = float64 (float64 (u * float64 (2 / 5)) - float64 (1 / 5))"
  define k where "k = float64 (1 + j)"
  define y where "y = float64 x"
  define s where "s = float64 (y * k)"
  define c where "c = 4 / 5 + 2 / 5 * u"
  have x1: "1 \<le> x" using assms(3) unfolding x_def by simp
  have c: "4 / 5 \<le> c" "c \<le> 6 / 5" using assms(1,2) by (auto simp: c_def)
  have j: "\<bar>j - (2 / 5 * u - 1 / 5)\<bar> \<le> 4 * half_ulp" unfolding j_def by (rule jitter_bounds) (use assms in auto)
  have "\<bar>1 + j\<bar> \<le> 5 / 4" using j half_ulp_small assms(1,2) by linarith
  then have "\<bar>k - (1 + j)\<bar> \<le> (5/4) * half_ulp + half_ulp / 100" unfolding k_def by (rule float64_near)
  then have k: "k \<le> c + 6 * half_ulp \<and> c - 6 * half_ulp \<le> k" using j half_ulp_small unfolding c_def by linarith
  have "\<bar>y - x\<bar> \<le> x * half_ulp + half_ulp / 100" unfolding y_def by (rule float64_near) (use x1 in simp)
  then have y: "y \<le> x * (1 + 2 * half_ulp)" "x * (1 - 2 * half_ulp) \<le> y" using x1 by (simp_all add: half_ulp_def algebra_simps)
  have y0: "0 \<le> y" using y(2) x1 by (simp add: half_ulp_def)
  have up: "y * k \<le> x * (1 + 2 * half_ulp) * (c + 6 * half_ulp)"
    using y y0 k x1 c half_ulp_small by (intro mult_mono) auto
  have lo: "x * (1 - 2 * half_ulp) * (c - 6 * half_ulp) \<le> y * k"
    using y y0 k x1 c half_ulp_small by (intro mult_mono) auto
  have pos: "0 \<le> y * k" using y0 k c half_ulp_small by simp
  have "\<bar>s - y * k\<bar> \<le> \<bar>y * k\<bar> * half_ulp + half_ulp / 100" unfolding s_def by (rule float64_near) simp
  then have near: "s \<le> y * k * (1 + half_ulp) + half_ulp / 100" "y * k * (1 - half_ulp) - half_ulp / 100 \<le> s"
    using pos by (simp_all add: algebra_simps)
  define q where "q = x * c"
  have q: "q \<le> x * (6 / 5)" "0 \<le> q" unfolding q_def using x1 c by (auto intro: mult_left_mono)
  have up1: "x * (1 + 2 * half_ulp) * (c + 6 * half_ulp) * (1 + half_ulp)
      = q * ((1 + 2 * half_ulp) * (1 + half_ulp)) + x * (6 * half_ulp * (1 + 2 * half_ulp) * (1 + half_ulp))"
    and lo1: "x * (1 - 2 * half_ulp) * (c - 6 * half_ulp) * (1 - half_ulp)
      = q * ((1 - 2 * half_ulp) * (1 - half_ulp)) - x * (6 * half_ulp * (1 - 2 * half_ulp) * (1 - half_ulp))"
    unfolding q_def by (simp_all add: algebra_simps)
  have "y * k * (1 + half_ulp) \<le> x * (1 + 2 * half_ulp) * (c + 6 * half_ulp) * (1 + half_ulp)"
    using up half_ulp_small by (intro mult_right_mono) auto
  also have "\<dots> \<le> q + x * (10 * half_ulp)" unfolding up1 using x1 q by (simp add: half_ulp_def)
  also have "\<dots> = x * (c + 10 * half_ulp)" by (simp add: q_def algebra_simps)
  finally have up2: "s \<le> x * (c + 10 * half_ulp) + half_ulp / 100" using near(1) by linarith
  have "x * (c - 10 * half_ulp) = q - x * (10 * half_ulp)" by (simp add: q_def algebra_simps)
  also have "\<dots> \<le> x * (1 - 2 * half_ulp) * (c - 6 * half_ulp) * (1 - half_ulp)"
    unfolding lo1 using x1 q by (simp add: half_ulp_def)
  also have "\<dots> \<le> y * k * (1 - half_ulp)" using lo half_ulp_small by (intro mult_right_mono) auto
  finally have lo2: "x * (c - 10 * half_ulp) - half_ulp / 100 \<le> s" using near(2) by linarith
  have s: "s \<le> x * (c + 1 / 2 ^ 49)" "x * (c - 1 / 2 ^ 49) \<le> s"
    using up2 lo2 x1 by (simp_all add: half_ulp_def algebra_simps)
  have "0 \<le> x * (c - 1 / 2 ^ 49)" using x1 c by simp
  then have "jitteredBackoff p n (Some u) = \<lfloor>s\<rfloor>"
    using s(2) unfolding jitteredBackoff_def Let_def s_def k_def y_def j_def x_def by simp
  then show ?thesis using s unfolding x_def c_def by linarith
qed

text \<open>Hence within a fifth either way.\<close>

lemma jittered_bounds:
  assumes "0 \<le> u" "u \<le> 1" "0 < clampedBackoff p n"
  shows "rat_of_int (jitteredBackoff p n (Some u)) \<le> of_int (clampedBackoff p n) * (6 / 5 + 1 / 2 ^ 49)"
    and "of_int (clampedBackoff p n) * (4 / 5 - 1 / 2 ^ 49) - 1 < rat_of_int (jitteredBackoff p n (Some u))"
proof -
  let ?x = "rat_of_int (clampedBackoff p n)"
  have "?x * (4 / 5 + 2 / 5 * u + 1 / 2 ^ 49) \<le> ?x * (6 / 5 + 1 / 2 ^ 49)"
    "?x * (4 / 5 - 1 / 2 ^ 49) \<le> ?x * (4 / 5 + 2 / 5 * u - 1 / 2 ^ 49)"
    using assms by (auto intro!: mult_left_mono)
  then show "rat_of_int (jitteredBackoff p n (Some u)) \<le> ?x * (6 / 5 + 1 / 2 ^ 49)"
    "?x * (4 / 5 - 1 / 2 ^ 49) - 1 < rat_of_int (jitteredBackoff p n (Some u))"
    using jittered_near [OF assms] by linarith+
qed

section \<open>The schedule\<close>

lemma clampedBackoff_bounds: "0 < MaxBackoff p \<Longrightarrow> 0 < clampedBackoff p n \<and> clampedBackoff p n \<le> MaxBackoff p"
  by (auto simp: clampedBackoff_def Let_def)

lemma shift_exact:
  assumes "0 \<le> b" "b * 2 ^ n < 2 ^ 63"
  shows "sint (push_bit n (word_of_int b :: 64 word)) = b * 2 ^ n"
proof -
  have w: "push_bit n (word_of_int b :: 64 word) = word_of_int (b * 2 ^ n)"
    by (simp add: push_bit_eq_mult)
  have "0 \<le> b * 2 ^ n" using assms(1) by simp
  then have "signed_take_bit 63 (b * 2 ^ n) = b * 2 ^ n"
    using assms(2) by (intro signed_take_bit_int_eq_self) auto
  then show ?thesis unfolding w by (simp add: sint_sbintrunc' del: of_int_mult of_int_power)
qed

text \<open>Within the width of a duration the clamped delay is the doubling schedule capped at \<open>MaxBackoff\<close>.\<close>

lemma clampedBackoff_exact:
  assumes "0 < BaseBackoff p" "BaseBackoff p * 2 ^ n < 2 ^ 63"
  shows "clampedBackoff p n = min (BaseBackoff p * 2 ^ n) (MaxBackoff p)"
proof -
  define x where "x = BaseBackoff p * 2 ^ n"
  have "0 < x" using assms(1) by (simp add: x_def)
  then show ?thesis using shift_exact [of "BaseBackoff p" n] assms
    by (auto simp: clampedBackoff_def Let_def x_def [symmetric])
qed

lemma normalize_positive:
  "0 < Attempts (normalizeRetryableExecPolicy p)" "0 < BaseBackoff (normalizeRetryableExecPolicy p)"
  "0 < MaxBackoff (normalizeRetryableExecPolicy p)"
  by (auto simp: normalizeRetryableExecPolicy_def DefaultRetryableExecPolicy_def msec_def)

section \<open>Properties\<close>

text \<open>
  C31. What an attempt waits: the doubling schedule \<open>BaseBackoff * 2^attempt\<close> capped at \<open>MaxBackoff\<close>, moved
  by at most a fifth either way (up to rounding), as long as the shift stays within 63 bits.
\<close>

theorem backoff_schedule:
  assumes "0 < BaseBackoff p" "0 < MaxBackoff p" "BaseBackoff p * 2 ^ n < 2 ^ 63" "0 \<le> u" "u \<le> 1"
  shows "rat_of_int (jitteredBackoff p n (Some u)) \<le> of_int (min (BaseBackoff p * 2 ^ n) (MaxBackoff p)) * (6 / 5 + 1 / 2 ^ 49)
    \<and> of_int (min (BaseBackoff p * 2 ^ n) (MaxBackoff p)) * (4 / 5 - 1 / 2 ^ 49) - 1 < rat_of_int (jitteredBackoff p n (Some u))"
  using jittered_bounds [OF assms(4,5), of p n] clampedBackoff_bounds [OF assms(2), of n]
  unfolding clampedBackoff_exact [OF assms(1,3)] by blast

theorem backoff_schedule_witness:
  "rat_of_int (jitteredBackoff DefaultRetryableExecPolicy 1 (Some (1 / 4))) \<le> 400000000 * (6 / 5 + 1 / 2 ^ 49)"
  using backoff_schedule [of DefaultRetryableExecPolicy 1 "1 / 4"]
  by (simp add: DefaultRetryableExecPolicy_def msec_def)

text \<open>
  What a call of the loop did, by induction on the attempts left: the calls before the last one all failed
  with \<open>ErrPoolBusy\<close> and a live context, and the counters account for every call.
\<close>

definition busy_at :: "retry_env \<Rightarrow> nat \<Rightarrow> bool" where
  "busy_at env i \<longleftrightarrow> (\<exists>e. snd (execAt env i) = Some e \<and> errors_is e (SshE ErrPoolBusy))"

lemma retry_no_call: "rcalls (retry_loop p env a n lr le m) = 0 \<Longrightarrow> rres (retry_loop p env a n lr le m) = lr"
  by (cases n) (auto simp: Let_def split: option.splits prod.splits if_splits)

lemma retry_cases:
  obtains (stop) err where "retry_loop p env a (Suc n) lr le m =
      \<lparr>rres = lr, rerr = Some err, rmetrics = m, rcalls = 0, rslept = []\<rparr>"
  | (once) e f sl where "retry_loop p env a (Suc n) lr le m =
      \<lparr>rres = fst (execAt env a), rerr = e, rmetrics = bump f m, rcalls = 1, rslept = sl\<rparr>"
      "(sl = [] \<and> f \<in> {Acquires_update (\<lambda>x. x + 1), PoolBusyHits_update (\<lambda>x. x + 1), TerminalErrors_update (\<lambda>x. x + 1)})
       \<or> length sl = 1 \<and> f = Retries_update (\<lambda>x. x + 1) \<circ> PoolBusyHits_update (\<lambda>x. x + 1)"
  | (again) d e out where "busy_at env a" "snd (execAt env a) = Some e"
      "out = retry_loop p env (Suc a) n (fst (execAt env a)) (Some e)
               (bump (Retries_update (\<lambda>x. x + 1) \<circ> PoolBusyHits_update (\<lambda>x. x + 1)) m)"
      "retry_loop p env a (Suc n) lr le m = out\<lparr>rcalls := Suc (rcalls out), rslept := d # rslept out\<rparr>"
proof (cases "ctxAt env a")
  case (Some e)
  then show ?thesis by (intro stop) simp
next
  case ctx: None
  obtain r err where x: "execAt env a = (r, err)" by fastforce
  let ?d = "jitteredBackoff p a (Some (randAt env a))"
  have b: "bump f (bump g y) = bump (f \<circ> g) y" for f g y by (cases y) (auto simp: bump_def)
  consider "err = None" | e where "err = Some e" "\<not> errors_is e (SshE ErrPoolBusy)"
    | e where "err = Some e" "errors_is e (SshE ErrPoolBusy)" "int a = Attempts p - 1"
    | e se where "err = Some e" "errors_is e (SshE ErrPoolBusy)" "int a \<noteq> Attempts p - 1" "sleepAt env a ?d = Some se"
    | e where "err = Some e" "errors_is e (SshE ErrPoolBusy)" "int a \<noteq> Attempts p - 1" "sleepAt env a ?d = None"
    by (cases err; cases "sleepAt env a ?d") auto
  then show ?thesis
  proof cases
    case 5
    then show ?thesis by (intro again [OF _ _ refl]) (use ctx x b in \<open>auto simp: busy_at_def Let_def\<close>)
  next
    case 1
    show ?thesis by (rule once [of None "Acquires_update (\<lambda>x. x + 1)" "[]"]) (use 1 ctx x in auto)
  next
    case (2 e)
    show ?thesis by (rule once [of "Some e" "TerminalErrors_update (\<lambda>x. x + 1)" "[]"]) (use 2 ctx x in auto)
  next
    case (3 e)
    show ?thesis by (rule once [of "Some e" "PoolBusyHits_update (\<lambda>x. x + 1)" "[]"]) (use 3 ctx x in \<open>auto simp: Let_def\<close>)
  next
    case (4 e se)
    show ?thesis by (rule once [of "Some se" "Retries_update (\<lambda>x. x + 1) \<circ> PoolBusyHits_update (\<lambda>x. x + 1)" "[?d]"])
      (use 4 ctx x b in \<open>auto simp: Let_def\<close>)
  qed
qed

lemma retry_calls:
  "rcalls (retry_loop p env a n lr le m) \<le> n
   \<and> (\<forall>i. Suc i < rcalls (retry_loop p env a n lr le m) \<longrightarrow> busy_at env (a + i))
   \<and> (0 < rcalls (retry_loop p env a n lr le m) \<longrightarrow>
        rres (retry_loop p env a n lr le m) = fst (execAt env (a + rcalls (retry_loop p env a n lr le m) - 1)))"
proof (induction n arbitrary: a lr le m)
  case (Suc n)
  show ?case
  proof (cases rule: retry_cases [of p env a n lr le m])
    case (again d e out)
    note IH = Suc [of "Suc a" "fst (execAt env a)" "Some e"
        "bump (Retries_update (\<lambda>x. x + 1) \<circ> PoolBusyHits_update (\<lambda>x. x + 1)) m", folded again(3)]
    have "busy_at env (a + i)" if "Suc i < Suc (rcalls out)" for i
      using IH again(1) that by (cases i) auto
    moreover have "rres out = fst (execAt env (a + rcalls out))"
      using IH retry_no_call again(3) by (cases "rcalls out = 0") auto
    ultimately show ?thesis using IH by (simp add: again(4) del: retry_loop.simps)
  qed (simp_all del: retry_loop.simps)
qed simp

definition calls_counted :: "ExecMetrics \<Rightarrow> 64 word" where
  "calls_counted m = Acquires m + PoolBusyHits m + TerminalErrors m"

lemma retry_metrics:
  "\<exists>m'. rmetrics (retry_loop p env a n lr le (Some m)) = Some m'
   \<and> calls_counted m' = calls_counted m + of_nat (rcalls (retry_loop p env a n lr le (Some m)))
   \<and> Retries m' = Retries m + of_nat (length (rslept (retry_loop p env a n lr le (Some m))))"
proof (induction n arbitrary: a lr le m)
  case (Suc n)
  show ?case
  proof (cases rule: retry_cases [of p env a n lr le "Some m"])
    case (once e f sl)
    then show ?thesis
      by (auto simp: calls_counted_def bump_def algebra_simps simp del: retry_loop.simps)
  next
    case (again d e out)
    then show ?thesis using Suc [of "Suc a" "fst (execAt env a)" "Some e"
        "(Retries_update (\<lambda>x. x + 1) \<circ> PoolBusyHits_update (\<lambda>x. x + 1)) m"]
      by (auto simp: calls_counted_def bump_def algebra_simps simp del: retry_loop.simps)
  qed (simp del: retry_loop.simps)
qed simp

lemma retry_exhausted:
  assumes "int a + int n = Attempts p" "0 < n"
    and "\<And>i. ctxAt env i = None" "\<And>i. i < Attempts p \<Longrightarrow> busy_at env (nat i)" "\<And>i d. sleepAt env i d = None"
  shows "rcalls (retry_loop p env a n lr le m) = n \<and> length (rslept (retry_loop p env a n lr le m)) = n - 1
    \<and> rerr (retry_loop p env a n lr le m) = snd (execAt env (a + n - 1))"
  using assms(1,2)
proof (induction n arbitrary: a lr le m)
  case (Suc n)
  have "busy_at env a" using assms(4) [of "int a"] Suc.prems by simp
  then obtain r e where e: "execAt env a = (r, Some e)" "errors_is e (SshE ErrPoolBusy)"
    by (cases "execAt env a") (auto simp: busy_at_def)
  show ?case
  proof (cases "n = 0")
    case True
    then show ?thesis using e Suc.prems assms(3) by (simp add: Let_def)
  next
    case False
    then show ?thesis using e Suc.prems assms(3,5) Suc.IH [of "Suc a"] by (simp add: Let_def)
  qed
qed simp


definition busy_env :: retry_env where
  "busy_env = \<lparr>ctxAt = (\<lambda>_. None),
     execAt = (\<lambda>i. if i < 2 then (zero_result 0, Some [SshE ErrPoolBusy]) else (zero_result 7, None)),
     sleepAt = (\<lambda>_ _. None), randAt = (\<lambda>_. 1 / 2)\<rparr>"


text \<open>
  A saturated pool is reported, not awaited for ever: when every attempt is refused with
  \<open>ErrPoolBusy\<close> and nothing is cancelled, the call makes exactly \<open>Attempts\<close> runs with a sleep between any
  two, and returns the refusal of the last one.
\<close>

theorem retry_gives_up:
  assumes "\<And>i. ctxAt env i = None" "\<And>i. busy_at env i" "\<And>i d. sleepAt env i d = None"
  shows "(let out = ExecWithRetry policy env m; n = nat (Attempts (normalizeRetryableExecPolicy policy)) in
     rcalls out = n \<and> length (rslept out) = n - 1 \<and> rerr out = snd (execAt env (n - 1)))"
proof -
  let ?p = "normalizeRetryableExecPolicy policy"
  have "ExecWithRetry policy env m = retry_loop ?p env 0 (nat (Attempts ?p)) (zero_result 0) None m"
    by (simp add: ExecWithRetry_def ExecWithRetryLimited_def limiter_Acquire_def Let_def)
  then show ?thesis
    using retry_exhausted [of 0 "nat (Attempts ?p)" ?p env "zero_result 0" None m] assms normalize_positive(1) [of policy]
    by (simp add: Let_def)
qed

theorem retry_gives_up_witness:
  "(let out = ExecWithRetry DefaultRetryableExecPolicy (busy_env\<lparr>execAt := (\<lambda>_. (zero_result 0, Some [SshE ErrPoolBusy]))\<rparr>) None
    in rcalls out = 3 \<and> length (rslept out) = 2 \<and> rerr out = Some [SshE ErrPoolBusy])"
  using retry_gives_up [of "busy_env\<lparr>execAt := (\<lambda>_. (zero_result 0, Some [SshE ErrPoolBusy]))\<rparr>" DefaultRetryableExecPolicy None]
  by (simp add: busy_env_def busy_at_def normalizeRetryableExecPolicy_def DefaultRetryableExecPolicy_def msec_def)

lemma reconnect_all_fail:
  assumes "\<And>i. \<exists>e. acquire i = Inl e" "\<And>i d. sleep i d = None" "bs \<noteq> []"
  shows "\<exists>e. acquire (i + length bs - 1) = Inl e
    \<and> reconnect_loop acquire sleep i bs le = (Inl (wrap (SshE ErrReconnectExhausted) e), i + length bs, butlast bs)"
  using assms(3)
proof (induction bs arbitrary: i le)
  case (Cons b bs)
  obtain e where e: "acquire i = Inl e" using assms(1) by blast
  show ?case
  proof (cases "bs = []")
    case False
    then show ?thesis using e assms(2) Cons.IH [of "Suc i" e] by auto
  qed (use e in simp)
qed simp

lemma reconnect_first_success:
  assumes "acquire (i + k) = Inr c" "\<And>j. j < k \<Longrightarrow> \<exists>e. acquire (i + j) = Inl e" "\<And>i d. sleep i d = None" "k < length bs"
  shows "reconnect_loop acquire sleep i bs le = (Inr c, Suc (i + k), take k bs)"
  using assms(1,2,4)
proof (induction bs arbitrary: i k le)
  case (Cons b bs)
  show ?case
  proof (cases k)
    case 0
    then show ?thesis using Cons.prems by simp
  next
    case (Suc j)
    obtain e where e: "acquire i = Inl e" using Cons.prems(2) [of 0] Suc by auto
    have "reconnect_loop acquire sleep (Suc i) bs e = (Inr c, Suc (Suc i + j), take j bs)"
      using Cons.prems Suc by (intro Cons.IH) force+
    moreover have "sleep i b = None" by (rule assms(3))
    ultimately show ?thesis using e Cons.prems(3) Suc by auto
  qed
qed simp

text \<open>
  \<open>Reconnect\<close> tries once per entry of the schedule: it stops at the first connection it gets, having slept
  the entries before it; when every try fails it reports \<open>ErrReconnectExhausted\<close> around the last failure,
  having slept between the tries and not after the last.
\<close>

theorem Reconnect_schedule:
  assumes "\<And>i d. sleep i d = None" and "bs = normalizeRetryPolicy backoff"
  shows "(\<forall>k c. k < length bs \<and> acquire k = Inr c \<and> (\<forall>j<k. \<exists>e. acquire j = Inl e) \<longrightarrow>
            Reconnect acquire sleep backoff = (Inr c, Suc k, take k bs))
    \<and> ((\<forall>i. \<exists>e. acquire i = Inl e) \<longrightarrow>
         (\<exists>e. acquire (length bs - 1) = Inl e \<and>
            Reconnect acquire sleep backoff = (Inl (wrap (SshE ErrReconnectExhausted) e), length bs, butlast bs)))"
proof -
  have "bs \<noteq> []" by (simp add: assms(2) normalizeRetryPolicy_def)
  then show ?thesis
    using reconnect_first_success [of acquire 0 _ _ sleep bs "[]"] reconnect_all_fail [of acquire sleep bs 0 "[]"] assms
    by (auto simp: Reconnect_def)
qed

theorem Reconnect_schedule_witness:
  "Reconnect (\<lambda>i. if i < 2 then Inl [OSErr] else Inr (5::nat)) (\<lambda>_ _. None) []
     = (Inr (5::nat), 3, [3 * sec, 6 * sec])"
proof -
  have "Reconnect (\<lambda>i. if i < 2 then Inl [OSErr] else Inr (5::nat)) (\<lambda>_ _. None) []
     = (Inr (5::nat), Suc 2, take 2 (normalizeRetryPolicy []))"
    using Reconnect_schedule [OF _ refl, of "\<lambda>_ _. None" "[]" "\<lambda>i. if i < 2 then Inl [OSErr] else Inr (5::nat)",
        THEN conjunct1, rule_format, of 2 5]
    by (simp add: normalizeRetryPolicy_def)
  then show ?thesis by (simp add: normalizeRetryPolicy_def)
qed

text \<open>
  \<open>Exec\<close> gives back every connection it took, exactly once, on every path; and whoever gets no error from
  it gets exit status 0: a command that fails is an error, never a result with a non-zero status.
\<close>

theorem Exec_releases:
  "ereleased (Exec acquired newSession run elapsed cmd) = (case acquired of Inl _ \<Rightarrow> [] | Inr c \<Rightarrow> [c])
   \<and> (eerr (Exec acquired newSession run elapsed cmd) = None \<longrightarrow>
        ExitCode (eres (Exec acquired newSession run elapsed cmd)) = 0)"
  by (auto simp: Exec_def exitCode_def split: sum.splits option.splits run_outcome.splits)

theorem Exec_releases_witness:
  "ExitCode (eres (Exec (Inr (3::nat)) (\<lambda>_. None) (\<lambda>_ _. RunDone ''ok'' '''' None) 9 ''true'')) = 0"
  using Exec_releases [of "Inr (3::nat)" "\<lambda>_. None" "\<lambda>_ _. RunDone ''ok'' '''' None" 9 "''true''"]
  by (simp add: Exec_def)

text \<open>The budget of the limiter: half the profiles, at least eight.\<close>

lemma limiter_budget_rule: "limiter_budget n = max 8 (n div 2)"
  by (auto simp: limiter_budget_def Let_def)

text \<open>
  The cap is applied before the jitter: with the default policy and a random draw of 15/16 the fourth
  attempt waits longer than \<open>MaxBackoff\<close>.
\<close>

theorem backoff_exceeds_cap:
  "jitteredBackoff DefaultRetryableExecPolicy 3 (Some (15 / 16)) > MaxBackoff DefaultRetryableExecPolicy"
proof -
  have "clampedBackoff DefaultRetryableExecPolicy 3 = 1200000000"
    using clampedBackoff_exact [of DefaultRetryableExecPolicy 3]
    by (simp add: DefaultRetryableExecPolicy_def msec_def)
  then have "1200000000 < rat_of_int (jitteredBackoff DefaultRetryableExecPolicy 3 (Some (15 / 16)))"
    using jittered_near [of "15 / 16" DefaultRetryableExecPolicy 3] by simp
  then show ?thesis by (simp add: DefaultRetryableExecPolicy_def msec_def)
qed

end
