(* ===== verification/Bento.thy ===== *)
theory Bento
  imports Go_Strings
begin

text \<open>
  The responsive grid of the cockpit (\<open>tui/bento\<close>): the choice of the layout tier, the division of the
  rows, the rectangles that mouse clicks are resolved against, and the clipping of a rendered tile to its
  rows. Terminal coordinates are far below the bounds of an \<open>int\<close>, so they are unbounded integers here.

  Rendering itself is done by \<open>lipgloss\<close>, code outside the repository: the line that announces hidden
  rows is the parameter \<open>framed\<close> of the clipping functions (\<open>framedIndicatorLine\<close> with the theme and the
  width of the border applied). Go iterates over a map in an unspecified order, so \<open>SlotAt\<close> takes the slots
  as a list and the properties hold for every order.
\<close>

section \<open>Modes (mode.go, override.go)\<close>

datatype Mode = ModeTiny | ModeStandard | ModeUltra | ModeUltraPlus

text \<open>The constants of a Go enumeration are ordered as they are declared.\<close>

primrec mode_rank :: "Mode \<Rightarrow> nat" where
  "mode_rank ModeTiny = 0"
| "mode_rank ModeStandard = 1"
| "mode_rank ModeUltra = 2"
| "mode_rank ModeUltraPlus = 3"

instantiation Mode :: linorder
begin

definition less_eq_Mode :: "Mode \<Rightarrow> Mode \<Rightarrow> bool" where
  "less_eq_Mode a b \<longleftrightarrow> mode_rank a \<le> mode_rank b"

definition less_Mode :: "Mode \<Rightarrow> Mode \<Rightarrow> bool" where
  "less_Mode a b \<longleftrightarrow> mode_rank a < mode_rank b"

instance
proof
  fix x y :: Mode
  show "x \<le> y \<Longrightarrow> y \<le> x \<Longrightarrow> x = y" by (cases x; cases y) (simp_all add: less_eq_Mode_def)
qed (auto simp: less_eq_Mode_def less_Mode_def)

end

definition standardMinWidth :: int where "standardMinWidth = 70"
definition standardMinHeight :: int where "standardMinHeight = 22"
definition ultraMinWidth :: int where "ultraMinWidth = 120"
definition ultraMinHeight :: int where "ultraMinHeight = 35"
definition ultraPlusMinWidth :: int where "ultraPlusMinWidth = 160"
definition ultraPlusMinHeight :: int where "ultraPlusMinHeight = 45"

lemmas mode_bounds = standardMinWidth_def standardMinHeight_def ultraMinWidth_def ultraMinHeight_def
  ultraPlusMinWidth_def ultraPlusMinHeight_def

definition DetectMode :: "int \<Rightarrow> int \<Rightarrow> Mode" where
  "DetectMode width height =
    (if width \<le> 0 \<or> height \<le> 0 then ModeStandard
     else if width < standardMinWidth \<or> height < standardMinHeight then ModeTiny
     else if ultraPlusMinWidth \<le> width \<and> ultraPlusMinHeight \<le> height then ModeUltraPlus
     else if ultraMinWidth \<le> width \<and> ultraMinHeight \<le> height then ModeUltra
     else ModeStandard)"

definition ParseLayoutOverride :: "string \<Rightarrow> Mode \<times> bool" where
  "ParseLayoutOverride raw =
    (let s = str_lower (trim_space raw)
     in if s = '''' \<or> s = ''auto'' then (ModeStandard, False)
        else if s = ''tiny'' then (ModeTiny, True)
        else if s = ''standard'' then (ModeStandard, True)
        else if s = ''ultra'' then (ModeUltra, True)
        else if s = ''ultraplus'' \<or> s = ''ultra+'' \<or> s = ''plus'' then (ModeUltraPlus, True)
        else (ModeStandard, False))"

definition Resolve :: "int \<Rightarrow> int \<Rightarrow> string \<Rightarrow> Mode" where
  "Resolve width height overrideRaw =
    (let (mode, ok) = ParseLayoutOverride overrideRaw in if ok then mode else DetectMode width height)"

section \<open>Rows and columns (engine.go, layout.go)\<close>

datatype Slot = SlotProjects | SlotOverview | SlotMetrics | SlotCICD | SlotLogs | SlotTopology

record Rect =
  X :: int
  Y :: int
  Width :: int
  Height :: int

definition rect :: "int \<Rightarrow> int \<Rightarrow> int \<Rightarrow> int \<Rightarrow> Rect" where
  "rect x y w h = \<lparr>X = x, Y = y, Width = w, Height = h\<rparr>"

definition Empty :: "Rect \<Rightarrow> bool" where
  "Empty r \<longleftrightarrow> Width r \<le> 0 \<or> Height r \<le> 0"

definition Contains :: "Rect \<Rightarrow> int \<Rightarrow> int \<Rightarrow> bool" where
  "Contains r x y \<longleftrightarrow>
    (if Empty r then False else X r \<le> x \<and> x < X r + Width r \<and> Y r \<le> y \<and> y < Y r + Height r)"

record LayoutMap =
  StatusBar :: Rect
  Slots :: "(Slot \<times> Rect) list"

fun SlotAt :: "(Slot \<times> Rect) list \<Rightarrow> int \<Rightarrow> int \<Rightarrow> Slot option" where
  "SlotAt [] x y = None"
| "SlotAt ((slot, r) # rest) x y = (if Contains r x y then Some slot else SlotAt rest x y)"

definition bentoStatusBarLines :: int where "bentoStatusBarLines = 1"
definition bentoLogsTargetUltra :: int where "bentoLogsTargetUltra = 10"
definition bentoLogsTargetUltraPlus :: int where "bentoLogsTargetUltraPlus = 14"
definition bentoLogsMinLines :: int where "bentoLogsMinLines = 7"
definition bentoMinRowLines :: int where "bentoMinRowLines = 6"
definition bentoGridRows :: int where "bentoGridRows = 2"

record rowBudget =
  TopRow :: int
  SecondRow :: int
  Logs :: int

definition planRowBudgets :: "int \<Rightarrow> Mode \<Rightarrow> rowBudget" where
  "planRowBudgets height mode =
    (if height \<le> 0 then \<lparr>TopRow = 0, SecondRow = 0, Logs = 0\<rparr>
     else
       let logs = (if mode = ModeUltraPlus then bentoLogsTargetUltraPlus else bentoLogsTargetUltra);
         available = height - bentoStatusBarLines - logs;
         (logs, available) =
           (if available < bentoGridRows * bentoMinRowLines
            then (let l = height - bentoStatusBarLines - bentoGridRows * bentoMinRowLines
                  in if l < bentoLogsMinLines then bentoLogsMinLines else l,
                  bentoGridRows * bentoMinRowLines)
            else (logs, available));
         perRow = go_div available bentoGridRows;
         perRow = (if perRow < bentoMinRowLines then bentoMinRowLines else perRow)
       in \<lparr>TopRow = perRow, SecondRow = perRow, Logs = logs\<rparr>)"

definition ultraLeftMinWidth :: int where "ultraLeftMinWidth = 40"
definition ultraRightMinWidth :: int where "ultraRightMinWidth = 46"
definition defaultStandardWidth :: int where "defaultStandardWidth = 100"
definition defaultStandardHeight :: int where "defaultStandardHeight = 30"

lemmas grid_consts = bentoStatusBarLines_def bentoLogsTargetUltra_def bentoLogsTargetUltraPlus_def
  bentoLogsMinLines_def bentoMinRowLines_def bentoGridRows_def ultraLeftMinWidth_def ultraRightMinWidth_def
  defaultStandardWidth_def defaultStandardHeight_def

text \<open>The column arithmetic that \<open>computeUltraLayout\<close> and \<open>renderUltraGrid\<close> both contain.\<close>

definition left_column :: "int \<Rightarrow> int" where
  "left_column width =
    (let leftRatio = (if 160 \<le> width then 38 else if 136 \<le> width then 42 else 46);
       leftCol = go_div (width * leftRatio) 100;
       leftCol = (if leftCol < ultraLeftMinWidth then ultraLeftMinWidth else leftCol);
       maxLeft = width - ultraRightMinWidth
     in if maxLeft < leftCol then maxLeft else leftCol)"

definition computeUltraLayout :: "int \<Rightarrow> int \<Rightarrow> Mode \<Rightarrow> LayoutMap" where
  "computeUltraLayout width height mode =
    (let width = (if width \<le> 0 then ultraMinWidth else width);
       leftCol = left_column width;
       rightCol = width - leftCol;
       budget = planRowBudgets height mode;
       budget = (if TopRow budget = 0 \<or> SecondRow budget = 0 \<or> Logs budget = 0
         then \<lparr>TopRow = bentoMinRowLines, SecondRow = bentoMinRowLines, Logs = bentoLogsMinLines\<rparr>
         else budget);
       topY = 0 + 1;
       secondY = topY + TopRow budget;
       logsY = secondY + SecondRow budget
     in \<lparr>StatusBar = rect 0 0 width 1,
         Slots = [(SlotProjects, rect 0 topY leftCol (TopRow budget)),
           (SlotOverview, rect leftCol topY rightCol (TopRow budget)),
           (SlotTopology, rect 0 secondY leftCol (SecondRow budget)),
           (SlotCICD, rect leftCol secondY rightCol (SecondRow budget)),
           (SlotLogs, rect 0 logsY width (Logs budget))]\<rparr>)"

definition computeStandardLayout :: "int \<Rightarrow> int \<Rightarrow> LayoutMap" where
  "computeStandardLayout width height =
    (let width = (if width \<le> 0 then defaultStandardWidth else width);
       height = (if height \<le> 0 then defaultStandardHeight else height);
       available = (if height - 1 < 2 then 2 else height - 1);
       projectsHeight = go_div available 2;
       projectsHeight = (if projectsHeight < 1 then 1 else projectsHeight);
       overviewHeight = available - projectsHeight
     in \<lparr>StatusBar = rect 0 0 width 1,
         Slots = [(SlotProjects, rect 0 1 width projectsHeight),
           (SlotOverview, rect 0 (1 + projectsHeight) width overviewHeight)]\<rparr>)"

definition ComputeLayout :: "int \<Rightarrow> int \<Rightarrow> Mode \<Rightarrow> LayoutMap" where
  "ComputeLayout width height mode =
    (case mode of
       ModeTiny \<Rightarrow> \<lparr>StatusBar = rect 0 0 0 0, Slots = []\<rparr>
     | ModeStandard \<Rightarrow> computeStandardLayout width height
     | _ \<Rightarrow> computeUltraLayout width height mode)"

section \<open>Clipping a tile (tileblock.go, engine.go)\<close>

record TileBlock =
  TopBorder :: string
  Header :: "string list"
  Body :: "string list"
  BottomBorder :: string
  AccentRGB :: string

definition Lines :: "TileBlock \<Rightarrow> string list" where
  "Lines b = (if TopBorder b \<noteq> '''' then [TopBorder b] else []) @ Header b @ Body b
    @ (if BottomBorder b \<noteq> '''' then [BottomBorder b] else [])"

definition block_Render :: "TileBlock \<Rightarrow> string" where
  "block_Render b = join [CHR 0x0A] (Lines b)"

definition LineCount :: "TileBlock \<Rightarrow> nat" where
  "LineCount b = length (Header b) + length (Body b) + (if TopBorder b \<noteq> '''' then 1 else 0)
    + (if BottomBorder b \<noteq> '''' then 1 else 0)"

definition parseTileBlock :: "string \<Rightarrow> TileBlock" where
  "parseTileBlock rendered =
    (let ls = split_char (CHR 0x0A) rendered
     in if length ls < 3 then \<lparr>TopBorder = '''', Header = [], Body = ls, BottomBorder = '''', AccentRGB = ''''\<rparr>
        else \<lparr>TopBorder = ls ! 0, Header = [ls ! 1], Body = take (length ls - 1 - 2) (drop 2 ls),
              BottomBorder = ls ! (length ls - 1), AccentRGB = ''''\<rparr>)"

text \<open>\<open>intString\<close> of tiles.go: decimal digits filled in from the right.\<close>

function digit_loop :: "nat \<Rightarrow> string \<Rightarrow> string" where
  "digit_loop n buf = (if n = 0 then buf else digit_loop (n div 10) (digit_char (n mod 10) # buf))"
  by pat_completeness auto
termination by (relation "measure fst") auto

declare digit_loop.simps [simp del]

text \<open>Negating the least 64-bit integer leaves it as it is, and the loop then does not run.\<close>

definition intString :: "int \<Rightarrow> string" where
  "intString n =
    (if n = 0 then ''0''
     else if n = - (2 ^ 63) then ''-''
     else if n < 0 then CHR ''-'' # digit_loop (nat (- n)) ''''
     else digit_loop (nat n) '''')"

definition ellipsis :: string where "ellipsis = [CHR 0xE2, CHR 0x80, CHR 0xA6]"
definition middle_dot :: string where "middle_dot = [CHR 0xC2, CHR 0xB7]"

definition flat_block :: "TileBlock \<Rightarrow> int \<Rightarrow> TileBlock" where
  "flat_block block maxLines =
    (let flat = Lines block
     in \<lparr>TopBorder = '''', Header = [],
         Body = (if maxLines < int (length flat) then take (nat maxLines) flat else flat), BottomBorder = '''',
         AccentRGB = ''''\<rparr>)"

definition clipBlock :: "(string \<Rightarrow> string \<Rightarrow> string) \<Rightarrow> TileBlock \<Rightarrow> int \<Rightarrow> TileBlock" where
  "clipBlock framed block maxLines =
    (if maxLines \<le> 0 then block
     else if int (LineCount block) \<le> maxLines then block
     else if TopBorder block = '''' \<or> BottomBorder block = '''' then flat_block block maxLines
     else
       let reserved = 2 + int (length (Header block)) + 1
       in if maxLines \<le> reserved then flat_block block maxLines
          else
            let visibleBody = (if maxLines - reserved < 0 then 0 else maxLines - reserved);
              hidden = int (length (Body block)) - visibleBody;
              hidden = (if hidden < 1 then 1 else hidden);
              indicator = framed (TopBorder block)
                (ellipsis @ '' +'' @ intString hidden @ '' more lines '' @ middle_dot @ '' scroll inside tab/modal'')
            in block\<lparr>Body := (if 0 < visibleBody then take (nat visibleBody) (Body block) else []) @ [indicator]\<rparr>)"

definition clipTileBlock :: "(string \<Rightarrow> string \<Rightarrow> string) \<Rightarrow> string \<Rightarrow> int \<Rightarrow> string" where
  "clipTileBlock framed rendered maxLines =
    (if maxLines \<le> 0 then rendered
     else if int (count_list rendered (CHR 0x0A)) < maxLines then rendered
     else block_Render (clipBlock framed (parseTileBlock rendered) maxLines))"

section \<open>Lemmas\<close>

lemma SlotAt_Some: "SlotAt ls x y = Some s \<Longrightarrow> \<exists>r. (s, r) \<in> set ls \<and> Contains r x y"
  by (induction ls x y rule: SlotAt.induct) (auto split: if_splits)

lemma SlotAt_None: "SlotAt ls x y = None \<longleftrightarrow> (\<forall>s r. (s, r) \<in> set ls \<longrightarrow> \<not> Contains r x y)"
  by (induction ls x y rule: SlotAt.induct) auto

lemma SlotAt_unique:
  assumes "\<And>s r s' r'. (s, r) \<in> set ls \<Longrightarrow> (s', r') \<in> set ls \<Longrightarrow> Contains r x y \<Longrightarrow> Contains r' x y \<Longrightarrow> s = s'"
  shows "SlotAt ls x y = Some s \<longleftrightarrow> (\<exists>r. (s, r) \<in> set ls \<and> Contains r x y)"
proof
  assume "\<exists>r. (s, r) \<in> set ls \<and> Contains r x y"
  then obtain r where r: "(s, r) \<in> set ls" "Contains r x y" by blast
  then obtain s' where s': "SlotAt ls x y = Some s'" using SlotAt_None [of ls x y] by fastforce
  then show "SlotAt ls x y = Some s" using SlotAt_Some [OF s'] r assms by blast
qed (rule SlotAt_Some)

lemma Contains_rect [simp]:
  "Contains (rect a b w h) x y \<longleftrightarrow> a \<le> x \<and> x < a + w \<and> b \<le> y \<and> y < b + h"
  by (auto simp: Contains_def Empty_def rect_def)

definition ultra_budget :: "int \<Rightarrow> Mode \<Rightarrow> rowBudget" where
  "ultra_budget height mode =
    (let budget = planRowBudgets height mode
     in if TopRow budget = 0 \<or> SecondRow budget = 0 \<or> Logs budget = 0
        then \<lparr>TopRow = bentoMinRowLines, SecondRow = bentoMinRowLines, Logs = bentoLogsMinLines\<rparr> else budget)"

lemma ultra_budget_bounds:
  "6 \<le> TopRow (ultra_budget height mode)" "SecondRow (ultra_budget height mode) = TopRow (ultra_budget height mode)"
  "7 \<le> Logs (ultra_budget height mode)"
  by (auto simp: ultra_budget_def planRowBudgets_def grid_consts Let_def)

lemma ultra_budget_fits:
  "20 \<le> height \<Longrightarrow> 1 + 2 * TopRow (ultra_budget height mode) + Logs (ultra_budget height mode) \<in> {height - 1, height}"
  by (auto simp: ultra_budget_def planRowBudgets_def grid_consts Let_def)

lemma planRowBudgets_second: "SecondRow (planRowBudgets h m) = TopRow (planRowBudgets h m)"
  by (simp add: planRowBudgets_def Let_def case_prod_beta)

lemma computeUltraLayout_slots:
  fixes w h :: int
  defines "w' \<equiv> if w \<le> 0 then ultraMinWidth else w"
  shows "Slots (computeUltraLayout w h m) =
    (let l = left_column w'; t = TopRow (ultra_budget h m); g = Logs (ultra_budget h m)
     in [(SlotProjects, rect 0 1 l t), (SlotOverview, rect l 1 (w' - l) t),
         (SlotTopology, rect 0 (1 + t) l t), (SlotCICD, rect l (1 + t) (w' - l) t),
         (SlotLogs, rect 0 (1 + t + t) w' g)])"
  unfolding w'_def by (simp add: computeUltraLayout_def ultra_budget_def planRowBudgets_second Let_def)

lemma left_column_bounds: "left_column w \<le> w - 46" "120 \<le> w \<Longrightarrow> 40 \<le> left_column w"
  by (auto simp: left_column_def grid_consts Let_def)

definition body_width :: "int \<Rightarrow> Mode \<Rightarrow> int" where
  "body_width w m = (if 0 < w then w else if m = ModeStandard then defaultStandardWidth else ultraMinWidth)"

definition body_rows :: "int \<Rightarrow> Mode \<Rightarrow> int" where
  "body_rows h m = (if m = ModeStandard then max 2 ((if h \<le> 0 then defaultStandardHeight else h) - 1)
    else 2 * TopRow (ultra_budget h m) + Logs (ultra_budget h m))"

lemma ComputeLayout_cases:
  assumes "m \<noteq> ModeTiny"
  shows "(m = ModeStandard \<and> ComputeLayout w h m = computeStandardLayout w h)
    \<or> (m \<in> {ModeUltra, ModeUltraPlus} \<and> ComputeLayout w h m = computeUltraLayout w h m)"
  using assms by (cases m) (simp_all add: ComputeLayout_def)

lemma layout_disjoint:
  assumes "(s, r) \<in> set (Slots (ComputeLayout w h m))" "(s', r') \<in> set (Slots (ComputeLayout w h m))"
    and "Contains r x y" "Contains r' x y"
  shows "s = s'"
proof (cases "m = ModeTiny")
  case True
  then show ?thesis using assms by (simp add: ComputeLayout_def)
next
  case False
  then consider "ComputeLayout w h m = computeStandardLayout w h" | "ComputeLayout w h m = computeUltraLayout w h m"
    using ComputeLayout_cases by blast
  then show ?thesis
  proof cases
    case 1
    then show ?thesis using assms by (auto simp: computeStandardLayout_def Let_def)
  next
    case 2
    then show ?thesis using assms ultra_budget_bounds [of h m]
      by (auto simp: computeUltraLayout_slots Let_def)
  qed
qed

lemma layout_covers:
  assumes "m \<noteq> ModeTiny" "0 \<le> x" "x < body_width w m" "1 \<le> y" "y < 1 + body_rows h m"
  shows "\<exists>p \<in> set (Slots (ComputeLayout w h m)). Contains (snd p) x y"
  using ComputeLayout_cases [OF assms(1), of w h]
proof (elim disjE conjE)
  assume m: "m = ModeStandard" "ComputeLayout w h m = computeStandardLayout w h"
  define p where "p = go_div (max 2 ((if h \<le> 0 then defaultStandardHeight else h) - 1)) 2"
  have "y < 1 + p \<or> 1 + p \<le> y" by linarith
  then show ?thesis using assms m
    by (auto simp: computeStandardLayout_def body_width_def body_rows_def p_def Let_def grid_consts split: if_splits)
next
  assume m: "m \<in> {ModeUltra, ModeUltraPlus}" "ComputeLayout w h m = computeUltraLayout w h m"
  show ?thesis using assms m ultra_budget_bounds(2) [of h m]
    by (auto simp: computeUltraLayout_slots body_width_def body_rows_def Let_def split: if_splits)
qed

lemma layout_rows:
  assumes "(s, r) \<in> set (Slots (ComputeLayout w h m))" "Contains r x y"
  shows "m \<noteq> ModeTiny \<and> 1 \<le> y \<and> y < 1 + body_rows h m"
proof (cases "m = ModeTiny")
  case True
  then show ?thesis using assms by (simp add: ComputeLayout_def)
next
  case False
  then show ?thesis using ComputeLayout_cases [OF False, of w h]
  proof (elim disjE conjE)
    assume "m = ModeStandard" "ComputeLayout w h m = computeStandardLayout w h"
    then show ?thesis using assms False
      by (auto simp: computeStandardLayout_def body_rows_def grid_consts Let_def split: if_splits)
  next
    assume "m \<in> {ModeUltra, ModeUltraPlus}" "ComputeLayout w h m = computeUltraLayout w h m"
    then show ?thesis using assms False ultra_budget_bounds [of h m]
      by (auto simp: computeUltraLayout_slots body_rows_def Let_def)
  qed
qed

section \<open>Properties of the grid\<close>

text \<open>
  C34. A click means one slot: in every tier, whatever order the map of slots is walked in, each cell of the
  body below the status bar resolves to exactly one slot, the one whose rectangle contains it, and no slot
  claims a cell of the status bar. In the Tiny tier no cell belongs to a slot.
\<close>

theorem SlotAt_unambiguous:
  assumes "set ls = set (Slots (ComputeLayout w h m))"
  shows "(SlotAt ls x y = Some s \<longleftrightarrow> (\<exists>r. (s, r) \<in> set ls \<and> Contains r x y))
    \<and> (m \<noteq> ModeTiny \<longrightarrow> 0 \<le> x \<and> x < body_width w m \<and> 1 \<le> y \<and> y < 1 + body_rows h m \<longrightarrow>
        (\<exists>s. SlotAt ls x y = Some s))
    \<and> (m = ModeTiny \<or> y < 1 \<or> 1 + body_rows h m \<le> y \<longrightarrow> SlotAt ls x y = None)"
proof (intro conjI impI)
  show "SlotAt ls x y = Some s \<longleftrightarrow> (\<exists>r. (s, r) \<in> set ls \<and> Contains r x y)"
    by (rule SlotAt_unique) (use assms layout_disjoint in blast)
  show "\<exists>s. SlotAt ls x y = Some s"
    if "m \<noteq> ModeTiny" "0 \<le> x \<and> x < body_width w m \<and> 1 \<le> y \<and> y < 1 + body_rows h m"
    using layout_covers [of m x w y h] that assms SlotAt_None [of ls x y] by fastforce
  assume out: "m = ModeTiny \<or> y < 1 \<or> 1 + body_rows h m \<le> y"
  have "\<not> Contains r x y" if "(s, r) \<in> set ls" for s r
    using layout_rows [of s r w h m x y] that out assms by fastforce
  then show "SlotAt ls x y = None" by (simp add: SlotAt_None)
qed

text \<open>
  The detected tier fits the terminal: every slot of the layout for the tier that \<open>DetectMode\<close> chose has
  at least one cell and lies inside the terminal, below the status bar.
\<close>

theorem detected_layout_fits:
  assumes "0 < w" "0 < h" "(s, r) \<in> set (Slots (ComputeLayout w h (DetectMode w h)))"
  shows "\<not> Empty r \<and> 0 \<le> X r \<and> X r + Width r \<le> w \<and> 1 \<le> Y r \<and> Y r + Height r \<le> h"
proof (cases "DetectMode w h")
  case ModeTiny
  then show ?thesis using assms(3) by (simp add: ComputeLayout_def)
next
  case ModeStandard
  then have "22 \<le> h" using assms by (auto simp: DetectMode_def mode_bounds split: if_splits)
  then show ?thesis using assms ModeStandard
    by (auto simp: ComputeLayout_def computeStandardLayout_def rect_def Empty_def Let_def split: if_splits)
next
  case ModeUltra
  then have wh: "120 \<le> w" "35 \<le> h" using assms by (auto simp: DetectMode_def mode_bounds split: if_splits)
  then show ?thesis using assms(3) ModeUltra left_column_bounds [of w] ultra_budget_bounds [of h ModeUltra]
      ultra_budget_fits [of h ModeUltra]
    by (auto simp: ComputeLayout_def computeUltraLayout_slots rect_def Empty_def Let_def)
next
  case ModeUltraPlus
  then have wh: "120 \<le> w" "35 \<le> h" using assms by (auto simp: DetectMode_def mode_bounds split: if_splits)
  then show ?thesis using assms(3) ModeUltraPlus left_column_bounds [of w] ultra_budget_bounds [of h ModeUltraPlus]
      ultra_budget_fits [of h ModeUltraPlus]
    by (auto simp: ComputeLayout_def computeUltraLayout_slots rect_def Empty_def Let_def)
qed

text \<open>A larger terminal never gets a smaller tier.\<close>

theorem DetectMode_mono:
  "0 < w \<Longrightarrow> w \<le> w' \<Longrightarrow> 0 < h \<Longrightarrow> h \<le> h' \<Longrightarrow> DetectMode w h \<le> DetectMode w' h'"
  by (auto simp: DetectMode_def mode_bounds less_eq_Mode_def)

theorem SlotAt_unambiguous_witness:
  "SlotAt (rev (Slots (ComputeLayout 120 35 ModeUltra))) 119 34 = Some SlotLogs"
proof -
  let ?ls = "rev (Slots (ComputeLayout 120 35 ModeUltra))"
  have "\<exists>r. (SlotLogs, r) \<in> set ?ls \<and> Contains r 119 34"
    by (auto simp: ComputeLayout_def computeUltraLayout_def planRowBudgets_def grid_consts Let_def)
  then show ?thesis
    using SlotAt_unambiguous [of ?ls 120 35 ModeUltra 119 34 SlotLogs] by simp
qed

theorem detected_layout_fits_witness: "Y (rect 0 25 120 10) + Height (rect 0 25 120 10) \<le> 35"
proof -
  have "(SlotLogs, rect 0 25 120 10) \<in> set (Slots (ComputeLayout 120 35 (DetectMode 120 35)))"
    by (simp add: DetectMode_def mode_bounds ComputeLayout_def computeUltraLayout_def planRowBudgets_def
        grid_consts Let_def)
  then show ?thesis using detected_layout_fits [of 120 35 SlotLogs "rect 0 25 120 10"] by simp
qed

section \<open>Clipping\<close>

lemma count_lines: "length (split_char c s) = count_list s c + 1"
  by (induction s) (auto split: list.splits)

lemma LineCount_Lines: "LineCount b = length (Lines b)"
  by (simp add: LineCount_def Lines_def)

definition one_line :: "string \<Rightarrow> bool" where
  "one_line s \<longleftrightarrow> CHR 0x0A \<notin> set s"

lemma render_lines:
  assumes "\<forall>l \<in> set (Lines b). one_line l"
  shows "split_char (CHR 0x0A) (block_Render b) = (if Lines b = [] then [''''] else Lines b)"
  using assms split_char_join [of "Lines b" "CHR 0x0A"] by (auto simp: block_Render_def one_line_def)

lemma parse_lines: "l \<in> set (Lines (parseTileBlock s)) \<Longrightarrow> one_line l"
proof -
  let ?ls = "split_char (CHR 0x0A) s"
  assume "l \<in> set (Lines (parseTileBlock s))"
  then have "l \<in> set ?ls"
    by (auto simp: Lines_def parseTileBlock_def Let_def split: if_splits dest: in_set_takeD in_set_dropD
        intro!: nth_mem)
  then show "one_line l" using split_char_parts by (auto simp: one_line_def)
qed

lemma flat_block_lines: "0 < n \<Longrightarrow> Lines (flat_block b n) = take (nat n) (Lines b)"
  by (auto simp: flat_block_def Lines_def Let_def)

lemma clipBlock_lines:
  assumes "0 < n"
  shows "length (Lines (clipBlock framed b n)) \<le> nat n
    \<and> set (Lines (clipBlock framed b n)) \<subseteq> set (Lines b) \<union> range (framed (TopBorder b))"
proof (cases "int (LineCount b) \<le> n \<or> TopBorder b = '''' \<or> BottomBorder b = '''' \<or> n \<le> 3 + int (length (Header b))")
  case True
  then have "clipBlock framed b n = b \<and> int (length (Lines b)) \<le> n \<or> clipBlock framed b n = flat_block b n"
    using assms by (auto simp: clipBlock_def LineCount_Lines Let_def)
  then show ?thesis using assms by (auto simp: flat_block_lines dest: in_set_takeD)
next
  case False
  have "\<exists>x. clipBlock framed b n
      = b\<lparr>Body := take (nat (n - (3 + int (length (Header b))))) (Body b) @ [framed (TopBorder b) x]\<rparr>"
    unfolding clipBlock_def Let_def using assms False by (simp del: append_Cons) blast
  then show ?thesis using False by (auto simp: Lines_def dest: in_set_takeD)
qed

lemma digit_loop_string: "0 < n \<Longrightarrow> digit_loop n buf = nat_string n @ buf"
proof (induction n buf rule: digit_loop.induct)
  case (1 n buf)
  then show ?case
    by (cases "n < 10") (simp_all add: digit_loop.simps [of n] digit_loop.simps [of 0] nat_string.simps [of n])
qed

text \<open>The hand-written formatter agrees with \<open>strconv.Itoa\<close>, the least integer apart.\<close>

theorem intString_itoa: "- (2 ^ 63) < n \<Longrightarrow> intString n = itoa n"
proof (cases "n = 0")
  case True
  have "digit_char 0 = CHR ''0''" by code_simp
  then show ?thesis using True by (simp add: intString_def itoa_def nat_string.simps [of 0])
qed (auto simp: intString_def itoa_def digit_loop_string)

text \<open>
  A clipped tile fits its row and keeps its frame: provided the indicator is one line, the result has at
  most \<open>maxLines\<close> lines; a tile that fits is unchanged; and a framed tile that does not fit a row of more than
  four lines keeps its borders, its header and its first body lines, followed by one line that states exactly
  how many body lines are hidden.
\<close>

theorem clipTileBlock_frame:
  assumes "\<And>b p. one_line (framed b p)" "0 < n" and ls_def: "ls = split_char (CHR 0x0A) s"
  shows "int (length (split_char (CHR 0x0A) (clipTileBlock framed s n))) \<le> n
    \<and> (int (length ls) \<le> n \<longrightarrow> clipTileBlock framed s n = s)
    \<and> (n < int (length ls) \<and> 4 < n \<and> hd ls \<noteq> '''' \<and> last ls \<noteq> '''' \<longrightarrow>
        split_char (CHR 0x0A) (clipTileBlock framed s n)
          = [ls ! 0, ls ! 1] @ take (nat n - 4) (drop 2 ls)
            @ [framed (ls ! 0) (ellipsis @ '' +'' @ itoa (int (length ls) - n + 1)
                @ '' more lines '' @ middle_dot @ '' scroll inside tab/modal''), last ls])"
proof (cases "int (length ls) \<le> n")
  case True
  then have "clipTileBlock framed s n = s"
    using assms(2) unfolding ls_def count_lines by (simp add: clipTileBlock_def)
  then show ?thesis using True by (simp add: ls_def)
next
  case False
  let ?b = "parseTileBlock s"
  let ?c = "clipBlock framed ?b n"
  have clip: "clipTileBlock framed s n = block_Render ?c"
    using False assms(2) unfolding ls_def count_lines by (simp add: clipTileBlock_def)
  have "\<forall>l \<in> set (Lines ?c). one_line l"
    using clipBlock_lines [OF assms(2), of framed ?b] parse_lines [of _ s] assms(1) by blast
  note lines = render_lines [OF this]
  have "length (Lines ?c) \<le> nat n" using clipBlock_lines [OF assms(2)] by blast
  then have bound: "int (length (split_char (CHR 0x0A) (clipTileBlock framed s n))) \<le> n"
    using assms(2) unfolding clip lines by auto
  have frame: "Lines ?c = [ls ! 0, ls ! 1] @ take (nat n - 4) (drop 2 ls)
      @ [framed (ls ! 0) (ellipsis @ '' +'' @ itoa (int (length ls) - n + 1)
          @ '' more lines '' @ middle_dot @ '' scroll inside tab/modal''), last ls]"
    if "4 < n" "hd ls \<noteq> ''''" "last ls \<noteq> ''''"
  proof -
    have ls: "n < int (length ls)" "ls \<noteq> []" "last ls = ls ! (length ls - 1)" "hd ls = ls ! 0"
      using False by (auto simp: ls_def last_conv_nth hd_conv_nth)
    have b: "?b = \<lparr>TopBorder = ls ! 0, Header = [ls ! 1], Body = take (length ls - 3) (drop 2 ls),
        BottomBorder = last ls, AccentRGB = ''''\<rparr>"
      using that ls by (simp add: parseTileBlock_def ls_def [symmetric] Let_def numeral_3_eq_3)
    have cnt: "\<not> int (LineCount ?b) \<le> n" using b that ls by (simp add: LineCount_def)
    have "nat (n - 4) = nat n - 4" "min (nat n - 4) (length ls - 3) = nat n - 4" using that ls by auto
    moreover have "intString (int (length ls) - n + 1) = itoa (int (length ls) - n + 1)"
      using ls by (intro intString_itoa) simp
    ultimately show ?thesis using that ls cnt
      by (simp add: clipBlock_def b Lines_def Let_def algebra_simps)
  qed
  show ?thesis using False bound frame unfolding clip lines by auto
qed

theorem clipTileBlock_frame_witness:
  "split_char (CHR 0x0A) (clipTileBlock (\<lambda>b p. ''~'') (join [CHR 0x0A] [''+'', ''h'', ''1'', ''2'', ''3'', ''-'']) 5)
    = [''+'', ''h'', ''1'', ''~'', ''-'']"
proof -
  let ?ls = "[''+'', ''h'', ''1'', ''2'', ''3'', ''-'']"
  have "split_char (CHR 0x0A) (join [CHR 0x0A] ?ls) = ?ls" by (rule split_char_join) auto
  then show ?thesis
    using clipTileBlock_frame [of "\<lambda>b p. ''~''" 5 ?ls "join [CHR 0x0A] ?ls"]
    by (simp add: one_line_def numeral_eq_Suc)
qed

end
