(* ===== verification/File_Sink.thy ===== *)
theory File_Sink
  imports Log_Redact
begin

text \<open>
  The local trace writer (\<open>internal/telemetry/file_sink.go\<close>). Producers call \<open>Record\<close> from any goroutine, one
  goroutine drains the queue, and \<open>Close\<close> stops both; \<open>sink_step\<close> interleaves them at every channel operation
  and lock.

  \<^item> \<open>Record\<close> is two steps: the test of the \<open>closed\<close> channel, after which the event is in flight, and the
    \<open>select\<close> that sends it, drops it or gives up because the context is done. Sending on a closed channel panics in Go, also inside a \<open>select\<close>; the process then
    ends, so no step leaves a panicked state.
  \<^item> \<open>Close\<close> is three steps: closing the two channels in their order and, once the drain goroutine has
    finished, flushing and closing the file. The body runs once (\<open>sync.Once\<close>).
  \<^item> \<open>json.Marshal\<close> is the parameter \<open>marshal\<close>; \<open>None\<close> is its error. \<open>bufio.Writer\<close> accepts a string or fails,
    and once it has failed it fails for good; the lines are those it accepted in full.
  \<^item> \<open>accepted\<close>, \<open>refused\<close> and \<open>lost\<close> count what happened to the events; the program only keeps \<open>dropped\<close>.
\<close>

section \<open>Model\<close>

record 'f Event =
  evName :: string
  evFields :: 'f

record 'f traceLine =
  tlFields :: 'f
  tlName :: string
  tlTime :: int

record FileSinkPolicy =
  BufferSize :: int
  FlushInterval :: int
  Queue :: int

definition normalizeFileSinkPolicy :: "FileSinkPolicy \<Rightarrow> FileSinkPolicy" where
  "normalizeFileSinkPolicy p =
    (let p = (if BufferSize p \<le> 0 then p\<lparr>BufferSize := 8 * 1024\<rparr> else p);
       p = (if FlushInterval p \<le> 0 then p\<lparr>FlushInterval := 500 * 1000000\<rparr> else p)
     in if Queue p \<le> 0 then p\<lparr>Queue := 1024\<rparr> else p)"

record 'f FileSink =
  policy :: FileSinkPolicy
  queue :: "'f Event list"
  queueClosed :: bool
  closedCh :: bool
  dropped :: "64 word"
  traceLines :: "string list"
  writerFailed :: bool
  drained :: bool
  fileClosed :: bool
  inFlight :: "'f Event list"
  panicked :: bool
  accepted :: nat
  refused :: nat
  lost :: nat

definition newFileSink :: "FileSinkPolicy \<Rightarrow> 'f FileSink" where
  "newFileSink p = \<lparr>policy = normalizeFileSinkPolicy p, queue = [], queueClosed = False, closedCh = False,
     dropped = 0, traceLines = [], writerFailed = False, drained = False, fileClosed = False, inFlight = [],
     panicked = False, accepted = 0, refused = 0, lost = 0\<rparr>"

text \<open>The outcomes of \<open>filepath.Abs\<close>, \<open>os.MkdirAll\<close> and \<open>os.OpenFile\<close> are arguments; \<open>None\<close> is the
  disabled sink.\<close>

definition OpenFileSink ::
  "string \<Rightarrow> FileSinkPolicy \<Rightarrow> goerr option \<Rightarrow> goerr option \<Rightarrow> goerr option \<Rightarrow> 'f FileSink option \<times> goerr option" where
  "OpenFileSink path p absErr mkErr openErr =
    (if path = '''' then (None, Some [MiscE ErrEmptyTracePath])
     else case absErr of Some e \<Rightarrow> (None, Some e)
     | None \<Rightarrow> (case mkErr of Some e \<Rightarrow> (None, Some e)
       | None \<Rightarrow> (case openErr of Some e \<Rightarrow> (None, Some e) | None \<Rightarrow> (Some (newFileSink p), None))))"

definition bumpDropped :: "'f FileSink \<Rightarrow> 'f FileSink" where
  "bumpDropped s = s\<lparr>dropped := dropped s + 1\<rparr>"

definition DroppedEvents :: "'f FileSink option \<Rightarrow> 64 word" where
  "DroppedEvents s = (case s of None \<Rightarrow> 0 | Some s \<Rightarrow> dropped s)"

text \<open>\<open>writeEvent\<close> at the given clock reading; \<open>ok1\<close> and \<open>ok2\<close> say whether the writer accepts the text and the
  line feed. It is called with \<open>lost\<close> already counting the event when it does not become a line.\<close>

definition writeEvent ::
  "('f traceLine \<Rightarrow> string option) \<Rightarrow> int \<Rightarrow> bool \<Rightarrow> bool \<Rightarrow> 'f Event \<Rightarrow> 'f FileSink \<Rightarrow> 'f FileSink" where
  "writeEvent marshal now ok1 ok2 ev s =
    (case marshal \<lparr>tlFields = evFields ev, tlName = evName ev, tlTime = now\<rparr> of
       None \<Rightarrow> (bumpDropped s)\<lparr>lost := lost s + 1\<rparr>
     | Some raw \<Rightarrow>
         let clean = Redact raw
         in if writerFailed s \<or> \<not> ok1 then (bumpDropped s)\<lparr>writerFailed := True, lost := lost s + 1\<rparr>
            else if \<not> ok2 then (bumpDropped s)\<lparr>writerFailed := True, lost := lost s + 1\<rparr>
            else s\<lparr>traceLines := traceLines s @ [clean]\<rparr>)"

definition Record_send :: "'f Event \<Rightarrow> 'f FileSink \<Rightarrow> 'f FileSink" where
  "Record_send ev s =
    (if queueClosed s then s\<lparr>panicked := True\<rparr>
     else if int (length (queue s)) < Queue (policy s)
     then s\<lparr>queue := queue s @ [ev], accepted := accepted s + 1\<rparr>
     else (bumpDropped s)\<lparr>refused := refused s + 1\<rparr>)"

inductive sink_step :: "('f traceLine \<Rightarrow> string option) \<Rightarrow> 'f FileSink \<Rightarrow> 'f FileSink \<Rightarrow> bool" for marshal where
  record_check: "\<not> panicked s \<Longrightarrow> \<not> closedCh s \<Longrightarrow> sink_step marshal s (s\<lparr>inFlight := ev # inFlight s\<rparr>)"
| record_send: "\<not> panicked s \<Longrightarrow> ev \<in> set (inFlight s) \<Longrightarrow>
    sink_step marshal s ((Record_send ev s)\<lparr>inFlight := remove1 ev (inFlight s)\<rparr>)"
| record_done: "\<not> panicked s \<Longrightarrow> ev \<in> set (inFlight s) \<Longrightarrow>
    sink_step marshal s (s\<lparr>inFlight := remove1 ev (inFlight s)\<rparr>)"
| drain_event: "\<not> panicked s \<Longrightarrow> \<not> drained s \<Longrightarrow> queue s = ev # q \<Longrightarrow>
    sink_step marshal s (writeEvent marshal now ok1 ok2 ev (s\<lparr>queue := q\<rparr>))"
| drain_end: "\<not> panicked s \<Longrightarrow> queueClosed s \<Longrightarrow> queue s = [] \<Longrightarrow> sink_step marshal s (s\<lparr>drained := True\<rparr>)"
| close_closed: "\<not> panicked s \<Longrightarrow> \<not> closedCh s \<Longrightarrow> sink_step marshal s (s\<lparr>closedCh := True\<rparr>)"
| close_queue: "\<not> panicked s \<Longrightarrow> closedCh s \<Longrightarrow> \<not> queueClosed s \<Longrightarrow> sink_step marshal s (s\<lparr>queueClosed := True\<rparr>)"
| close_file: "\<not> panicked s \<Longrightarrow> drained s \<Longrightarrow> sink_step marshal s (s\<lparr>fileClosed := True\<rparr>)"

definition sink_init :: "'f FileSink \<Rightarrow> bool" where
  "sink_init s \<longleftrightarrow> (\<exists>p. s = newFileSink p)"

section \<open>Invariant\<close>

definition sink_inv :: "('f traceLine \<Rightarrow> string option) \<Rightarrow> 'f FileSink \<Rightarrow> bool" where
  "sink_inv marshal s \<longleftrightarrow>
    int (length (queue s)) \<le> Queue (policy s) \<and> 0 < Queue (policy s)
    \<and> accepted s = length (queue s) + length (traceLines s) + lost s
    \<and> dropped s = of_nat (refused s + lost s)
    \<and> (drained s \<longrightarrow> queueClosed s \<and> queue s = []) \<and> (fileClosed s \<longrightarrow> drained s)
    \<and> (\<forall>l \<in> set (traceLines s). \<exists>t raw. marshal t = Some raw \<and> l = Redact raw)"

lemma sink_inv_init: "sink_init s \<Longrightarrow> sink_inv marshal s"
  by (auto simp: sink_init_def sink_inv_def newFileSink_def normalizeFileSinkPolicy_def Let_def)

lemma Record_send_inv: "sink_inv marshal s \<Longrightarrow> sink_inv marshal ((Record_send ev s)\<lparr>inFlight := es\<rparr>)"
  by (auto simp: sink_inv_def Record_send_def bumpDropped_def)

lemma writeEvent_inv:
  assumes "sink_inv marshal s" "\<not> drained s" "queue s = ev # q"
  shows "sink_inv marshal (writeEvent marshal now ok1 ok2 ev (s\<lparr>queue := q\<rparr>))"
  using assms by (auto simp: sink_inv_def writeEvent_def bumpDropped_def Let_def split: option.splits) 

lemma sink_inv_step: "sink_step marshal s t \<Longrightarrow> sink_inv marshal s \<Longrightarrow> sink_inv marshal t"
proof (induction rule: sink_step.induct)
  case (record_send s ev)
  then show ?case by (simp add: Record_send_inv)
next
  case (drain_event s ev q now ok1 ok2)
  then show ?case by (simp add: writeEvent_inv)
qed (auto simp: sink_inv_def)

interpretation file_sink: transition_system sink_init "sink_step marshal" "sink_inv marshal"
  by unfold_locales (rule sink_inv_init sink_inv_step, assumption+)+

section \<open>Properties\<close>


text \<open>
  A \<open>Record\<close> that overlaps \<open>Close\<close> can bring the program down: the test of the closed channel and the send are
  not atomic, so \<open>Close\<close> can close the queue between them, and the send then panics.
\<close>

theorem record_close_panics:
  "\<exists>s :: 'f FileSink. reached sink_init (sink_step marshal) s \<and> panicked s"
proof -
  define s0 :: "'f FileSink" where "s0 = newFileSink \<lparr>BufferSize = 0, FlushInterval = 0, Queue = 0\<rparr>"
  let ?ev = "undefined :: 'f Event"
  let ?s1 = "s0\<lparr>inFlight := ?ev # inFlight s0\<rparr>"
  let ?s2 = "?s1\<lparr>closedCh := True\<rparr>"
  let ?s3 = "?s2\<lparr>queueClosed := True\<rparr>"
  let ?s4 = "(Record_send ?ev ?s3)\<lparr>inFlight := remove1 ?ev (inFlight ?s3)\<rparr>"
  have r0: "reached sink_init (sink_step marshal) s0" by (rule reached_init) (auto simp: sink_init_def s0_def)
  have r1: "reached sink_init (sink_step marshal) ?s1"
    by (rule reached_step [OF r0], rule record_check) (simp_all add: s0_def newFileSink_def)
  have r2: "reached sink_init (sink_step marshal) ?s2"
    by (rule reached_step [OF r1], rule close_closed) (simp_all add: s0_def newFileSink_def)
  have r3: "reached sink_init (sink_step marshal) ?s3"
    by (rule reached_step [OF r2], rule close_queue) (simp_all add: s0_def newFileSink_def)
  have "reached sink_init (sink_step marshal) ?s4"
    by (rule reached_step [OF r3], rule record_send) (simp_all add: s0_def newFileSink_def)
  moreover have "panicked ?s4" by (simp add: Record_send_def)
  ultimately show ?thesis by blast
qed

definition one_event :: "unit Event" where "one_event = \<lparr>evName = ''boot'', evFields = ()\<rparr>"

definition name_marshal :: "unit traceLine \<Rightarrow> string option" where "name_marshal t = Some (tlName t)"

definition closed_sink :: "unit FileSink" where
  "closed_sink = (newFileSink \<lparr>BufferSize = 0, FlushInterval = 0, Queue = 0\<rparr>)\<lparr>queueClosed := True, closedCh := True,
     traceLines := [Redact ''boot''], drained := True, fileClosed := True, accepted := 1\<rparr>"

lemma closed_sink_reached: "reached sink_init (sink_step name_marshal) closed_sink"
proof -
  define s0 :: "unit FileSink" where "s0 = newFileSink \<lparr>BufferSize = 0, FlushInterval = 0, Queue = 0\<rparr>"
  let ?R = "reached sink_init (sink_step name_marshal)"
  have q: "Queue (policy s0) = 1024" by (simp add: s0_def newFileSink_def normalizeFileSinkPolicy_def)
  note n = s0_def newFileSink_def
  let ?s1 = "s0\<lparr>inFlight := [one_event]\<rparr>"
  let ?s2 = "s0\<lparr>queue := [one_event], accepted := 1\<rparr>"
  let ?s3 = "s0\<lparr>accepted := 1, traceLines := [Redact ''boot'']\<rparr>"
  have r0: "?R s0" by (rule reached_init) (auto simp: sink_init_def s0_def)
  have "sink_step name_marshal s0 ?s1" using record_check [of s0 name_marshal one_event] by (simp add: n)
  then have r1: "?R ?s1" by (rule reached_step [OF r0])
  have "sink_step name_marshal ?s1 ((Record_send one_event ?s1)\<lparr>inFlight := remove1 one_event (inFlight ?s1)\<rparr>)"
    by (rule record_send) (simp_all add: n)
  moreover have "(Record_send one_event ?s1)\<lparr>inFlight := remove1 one_event (inFlight ?s1)\<rparr> = ?s2"
    using q by (simp add: Record_send_def n)
  ultimately have r2: "?R ?s2" using reached_step [OF r1] by metis
  have "sink_step name_marshal ?s2 (writeEvent name_marshal 0 True True one_event (?s2\<lparr>queue := []\<rparr>))"
    by (rule drain_event) (simp_all add: n)
  moreover have "writeEvent name_marshal 0 True True one_event (?s2\<lparr>queue := []\<rparr>) = ?s3"
    by (simp add: writeEvent_def name_marshal_def one_event_def n)
  ultimately have r3: "?R ?s3" using reached_step [OF r2] by metis
  have r4: "?R (?s3\<lparr>closedCh := True\<rparr>)" by (rule reached_step [OF r3], rule close_closed) (simp_all add: n)
  have r5: "?R (?s3\<lparr>closedCh := True, queueClosed := True\<rparr>)"
    by (rule reached_step [OF r4], rule close_queue) (simp_all add: n)
  have r6: "?R (?s3\<lparr>closedCh := True, queueClosed := True, drained := True\<rparr>)"
    by (rule reached_step [OF r5], rule drain_end) (simp_all add: n)
  have "?R (?s3\<lparr>closedCh := True, queueClosed := True, drained := True, fileClosed := True\<rparr>)"
    by (rule reached_step [OF r6], rule close_file) (simp_all add: n)
  then show ?thesis by (simp add: closed_sink_def n)
qed


end
