(* ===== verification/Tui_Forms.thy ===== *)
theory Tui_Forms
  imports Wizard Config_Store
begin

text \<open>
  The forms of the terminal interface (\<open>src/tui/wizard.go\<close>, with the enumerations of \<open>states.go\<close>): the first-run wizard
  that captures a profile, the new-project wizard and the resume prompt. They are pure: every method takes a form and returns
  one. Text inputs are byte strings, cut and trimmed by bytes as the code does.
\<close>

section \<open>Routes and steps (states.go)\<close>

datatype State =
    StateInitWizard | StateDashboard | StateProjectDetail | StateProjectWizard | StateResumeWizard
  | StateImportPreview | StateProviderCatalog | StateCommandPalette | StateConfirmDialog

datatype InitWizardStep =
    InitStepWelcome | InitStepAlias | InitStepHost | InitStepPort | InitStepUser | InitStepReview | InitStepDone

datatype ProjectWizardStep =
    ProjectStepProfile | ProjectStepStack | ProjectStepDBChoice | ProjectStepDBKind | ProjectStepDBName
  | ProjectStepDomain | ProjectStepReview | ProjectStepExecuting | ProjectStepFailure | ProjectStepRollingBack
  | ProjectStepDone

datatype DetailTab = TabOverview | TabEnvDiff | TabDatabase | TabLogs

fun State_String :: "State \<Rightarrow> string" where
  "State_String StateInitWizard = ''InitWizard''"
| "State_String StateDashboard = ''Dashboard''"
| "State_String StateProjectDetail = ''ProjectDetail''"
| "State_String StateProjectWizard = ''ProjectWizard''"
| "State_String StateResumeWizard = ''ResumeWizard''"
| "State_String StateImportPreview = ''ImportPreview''"
| "State_String StateProviderCatalog = ''ProviderCatalog''"
| "State_String StateCommandPalette = ''CommandPalette''"
| "State_String StateConfirmDialog = ''ConfirmDialog''"

fun DetailTab_String :: "DetailTab \<Rightarrow> string" where
  "DetailTab_String TabOverview = ''Overview''"
| "DetailTab_String TabEnvDiff = ''Env Diff''"
| "DetailTab_String TabDatabase = ''Database''"
| "DetailTab_String TabLogs = ''Logs''"

section \<open>Inputs\<close>

definition defaultSSHPort :: int where "defaultSSHPort = 22"
definition maxAliasLength :: nat where "maxAliasLength = 32"
definition maxHostLength :: nat where "maxHostLength = 253"
definition maxUserLength :: nat where "maxUserLength = 32"
definition maxDomainInput :: nat where "maxDomainInput = 253"
definition maxDBNameInput :: nat where "maxDBNameInput = 32"
definition maxPortInput :: nat where "maxPortInput = 5"

definition capInput :: "string \<Rightarrow> nat \<Rightarrow> string" where
  "capInput s upper = (if length s \<le> upper then s else take upper s)"

definition trimRight :: "string \<Rightarrow> string" where
  "trimRight s = (if s = [] then s else take (length s - 1) s)"

function raise_to_nonneg :: "int \<Rightarrow> int \<Rightarrow> int" where
  "raise_to_nonneg i n = (if i < 0 \<and> 0 < n then raise_to_nonneg (i + n) n else i)"
  by pat_completeness auto
termination
  by (relation "measure (\<lambda>(i, n). nat (- i))") auto

declare raise_to_nonneg.simps [simp del]

text \<open>\<open>wrap\<close>; the name belongs to the wrapping of errors here.\<close>

definition wrap_index :: "int \<Rightarrow> int \<Rightarrow> int" where
  "wrap_index i n = (if n \<le> 0 then 0 else raise_to_nonneg i n mod n)"

definition lower_ascii :: "char \<Rightarrow> bool" where
  "lower_ascii r \<longleftrightarrow> CHR ''a'' \<le> r \<and> r \<le> CHR ''z''"

definition isValidAlias :: "string \<Rightarrow> bool" where
  "isValidAlias alias \<longleftrightarrow> \<not> (alias = [] \<or> length alias > maxAliasLength)
     \<and> list_all (\<lambda>r. lower_ascii r \<or> is_digit r \<or> r = CHR ''-'') alias"

definition isValidUser :: "string \<Rightarrow> bool" where
  "isValidUser user \<longleftrightarrow> \<not> (user = [] \<or> length user > maxUserLength)
     \<and> list_all (\<lambda>r. lower_ascii r \<or> is_digit r \<or> r = CHR ''-'' \<or> r = CHR ''_'') user"

section \<open>The first-run wizard\<close>

record initWizardForm =
  ifStep :: InitWizardStep
  ifAlias :: string
  ifHost :: string
  ifPort :: string
  ifUser :: string
  ifErr :: string
  ifSaving :: bool

definition zero_init_form :: initWizardForm where
  "zero_init_form = \<lparr>ifStep = InitStepWelcome, ifAlias = [], ifHost = [], ifPort = [], ifUser = [], ifErr = [], ifSaving = False\<rparr>"

definition newInitWizardForm :: initWizardForm where
  "newInitWizardForm = zero_init_form\<lparr>ifPort := itoa defaultSSHPort\<rparr>"

definition init_validateAndAdvance :: "initWizardForm \<Rightarrow> initWizardForm" where
  "init_validateAndAdvance f0 =
     (let f = f0\<lparr>ifErr := []\<rparr> in
      case ifStep f of
        InitStepWelcome \<Rightarrow> f\<lparr>ifStep := InitStepAlias\<rparr>
      | InitStepAlias \<Rightarrow>
          (let alias = trim_space (ifAlias f) in
           if \<not> isValidAlias alias then f\<lparr>ifErr := ''alias must match ^[a-z0-9-]{1,32}$''\<rparr>
           else f\<lparr>ifAlias := alias, ifStep := InitStepHost\<rparr>)
      | InitStepHost \<Rightarrow>
          (let host = trim_space (ifHost f) in
           if host = [] \<or> length host > maxHostLength then f\<lparr>ifErr := ''host must be 1-253 characters''\<rparr>
           else f\<lparr>ifHost := host, ifStep := InitStepPort\<rparr>)
      | InitStepPort \<Rightarrow>
          (let port = trim_space (ifPort f);
               port = (if port = [] then itoa defaultSSHPort else port);
               bad = f\<lparr>ifErr := ''port must be an integer in [1,65535]''\<rparr>
           in case parse_int64 port of
                None \<Rightarrow> bad
              | Some portNum \<Rightarrow>
                  if portNum < 1 \<or> portNum > 65535 then bad
                  else f\<lparr>ifPort := itoa portNum, ifStep := InitStepUser\<rparr>)
      | InitStepUser \<Rightarrow>
          (let user = trim_space (ifUser f) in
           if \<not> isValidUser user then f\<lparr>ifErr := ''user must match ^[a-z0-9_-]{1,32}$''\<rparr>
           else f\<lparr>ifUser := user, ifStep := InitStepReview\<rparr>)
      | InitStepReview \<Rightarrow> f\<lparr>ifStep := InitStepDone\<rparr>
      | InitStepDone \<Rightarrow> f)"

definition init_stepBack :: "initWizardForm \<Rightarrow> initWizardForm" where
  "init_stepBack f0 =
     (let f = f0\<lparr>ifErr := []\<rparr> in
      case ifStep f of
        InitStepWelcome \<Rightarrow> f
      | InitStepDone \<Rightarrow> f
      | InitStepAlias \<Rightarrow> f\<lparr>ifStep := InitStepWelcome\<rparr>
      | InitStepHost \<Rightarrow> f\<lparr>ifStep := InitStepAlias\<rparr>
      | InitStepPort \<Rightarrow> f\<lparr>ifStep := InitStepHost\<rparr>
      | InitStepUser \<Rightarrow> f\<lparr>ifStep := InitStepPort\<rparr>
      | InitStepReview \<Rightarrow> f\<lparr>ifStep := InitStepUser\<rparr>)"

definition init_appendInput :: "string \<Rightarrow> initWizardForm \<Rightarrow> initWizardForm" where
  "init_appendInput s f =
     (case ifStep f of
        InitStepAlias \<Rightarrow> f\<lparr>ifAlias := capInput (ifAlias f @ s) maxAliasLength\<rparr>
      | InitStepHost \<Rightarrow> f\<lparr>ifHost := capInput (ifHost f @ s) maxHostLength\<rparr>
      | InitStepPort \<Rightarrow> f\<lparr>ifPort := capInput (ifPort f @ s) maxPortInput\<rparr>
      | InitStepUser \<Rightarrow> f\<lparr>ifUser := capInput (ifUser f @ s) maxUserLength\<rparr>
      | _ \<Rightarrow> f)"

definition init_backspaceInput :: "initWizardForm \<Rightarrow> initWizardForm" where
  "init_backspaceInput f =
     (case ifStep f of
        InitStepAlias \<Rightarrow> f\<lparr>ifAlias := trimRight (ifAlias f)\<rparr>
      | InitStepHost \<Rightarrow> f\<lparr>ifHost := trimRight (ifHost f)\<rparr>
      | InitStepPort \<Rightarrow> f\<lparr>ifPort := trimRight (ifPort f)\<rparr>
      | InitStepUser \<Rightarrow> f\<lparr>ifUser := trimRight (ifUser f)\<rparr>
      | _ \<Rightarrow> f)"

text \<open>The number \<open>strconv.Atoi\<close> returns beside its error: 0 for a syntax error, the nearest bound for a range error.\<close>

definition atoi_value :: "string \<Rightarrow> int" where
  "atoi_value s =
     (let (neg, ds) = (case s of
            [] \<Rightarrow> (False, [])
          | c # cs \<Rightarrow> if c = CHR ''-'' then (True, cs) else if c = CHR ''+'' then (False, cs) else (False, s))
      in case parse_nat ds of
           None \<Rightarrow> 0
         | Some n \<Rightarrow> (let v = (if neg then - int n else int n) in max (- (2 ^ 63)) (min (2 ^ 63 - 1) v)))"

definition toProfile :: "initWizardForm \<Rightarrow> Profile" where
  "toProfile f =
     (let port = atoi_value (trim_space (ifPort f));
          port = (if port = 0 then defaultSSHPort else port)
      in \<lparr>pfAlias = ifAlias f, pfType = ''smallhost'', pfHost = ifHost f, pfPort = port, pfUser = ifUser f,
          pfProperties = [(''restart_method'', ''devil'')]\<rparr>)"

section \<open>The new-project wizard\<close>

record projectWizardForm =
  wfStep :: ProjectWizardStep
  wfProfileAlias :: string
  wfStack :: string
  wfDomain :: string
  wfNodeVersion :: string
  wfDbWanted :: bool
  wfDbKind :: string
  wfDbName :: string
  wfStackCursor :: int
  wfDbKindCursor :: int
  wfProfileCursor :: int
  wfErr :: string
  wfPreflightDone :: bool
  wfExecuting :: bool
  wfReport :: "ProvisionReport option"
  wfExecErr :: "terr option"
  wfRolledBack :: bool
  wfRollbackResults :: "CleanupResult list"
  wfRollbackErr :: "terr option"

definition zero_project_form :: projectWizardForm where
  "zero_project_form = \<lparr>wfStep = ProjectStepProfile, wfProfileAlias = [], wfStack = [], wfDomain = [], wfNodeVersion = [],
     wfDbWanted = False, wfDbKind = [], wfDbName = [], wfStackCursor = 0, wfDbKindCursor = 0, wfProfileCursor = 0, wfErr = [],
     wfPreflightDone = False, wfExecuting = False, wfReport = None, wfExecErr = None, wfRolledBack = False,
     wfRollbackResults = [], wfRollbackErr = None\<rparr>"

definition profiles_of :: "Config option \<Rightarrow> Profile list" where
  "profiles_of conf = (case conf of None \<Rightarrow> [] | Some c \<Rightarrow> (case cfProfiles c of None \<Rightarrow> [] | Some ps \<Rightarrow> ps))"

definition newProjectWizardForm :: "Config option \<Rightarrow> projectWizardForm" where
  "newProjectWizardForm conf =
     (let form = zero_project_form\<lparr>wfStack := hd SupportedStacks, wfDbKind := DatabaseMySQL\<rparr>;
          form = (case profiles_of conf of [] \<Rightarrow> form | p # _ \<Rightarrow> form\<lparr>wfProfileAlias := pfAlias p\<rparr>)
      in if wfStack form \<noteq> [] then
           form\<lparr>wfNodeVersion := DefaultNodeVersion (wfStack form), wfDbWanted := IsDBRequiredForStack (wfStack form)\<rparr>
         else form)"

definition form_plan :: "projectWizardForm \<Rightarrow> ProvisionPlan" where
  "form_plan f =
     (let plan = \<lparr>ProfileAlias = wfProfileAlias f, PlanStack = wfStack f, PlanDomain = trim_space (wfDomain f),
            PlanNodeVersion = trim_space (wfNodeVersion f), DBKind = [], DBName = []\<rparr>
      in if wfDbWanted f then plan\<lparr>DBKind := wfDbKind f, DBName := trim_space (wfDbName f)\<rparr> else plan)"

definition project_validateAndAdvance :: "Config option \<Rightarrow> projectWizardForm \<Rightarrow> projectWizardForm \<times> bool" where
  "project_validateAndAdvance conf f0 =
     (let f = f0\<lparr>wfErr := []\<rparr> in
      case wfStep f of
        ProjectStepProfile \<Rightarrow>
          (case profiles_of conf of
             [] \<Rightarrow> (f\<lparr>wfErr := ''no profile configured; finish init wizard first''\<rparr>, False)
           | p # _ \<Rightarrow>
               (let f = (if wfProfileAlias f = [] then f\<lparr>wfProfileAlias := pfAlias p\<rparr> else f)
                in (f\<lparr>wfStep := ProjectStepStack\<rparr>, False)))
      | ProjectStepStack \<Rightarrow>
          if \<not> IsValidStack (wfStack f) then (f\<lparr>wfErr := ''unsupported stack''\<rparr>, False)
          else
            (let f = f\<lparr>wfNodeVersion := DefaultNodeVersion (wfStack f)\<rparr> in
             if IsDBRequiredForStack (wfStack f) then (f\<lparr>wfDbWanted := True, wfStep := ProjectStepDBKind\<rparr>, False)
             else (f\<lparr>wfDbWanted := False, wfStep := ProjectStepDBChoice\<rparr>, False))
      | ProjectStepDBChoice \<Rightarrow>
          if wfDbWanted f then (f\<lparr>wfStep := ProjectStepDBKind\<rparr>, False)
          else (f\<lparr>wfDbName := [], wfStep := ProjectStepDomain\<rparr>, False)
      | ProjectStepDBKind \<Rightarrow>
          if \<not> IsValidDBKind (wfDbKind f) then (f\<lparr>wfErr := ''unsupported db kind''\<rparr>, False)
          else (f\<lparr>wfStep := ProjectStepDBName\<rparr>, False)
      | ProjectStepDBName \<Rightarrow>
          (let name = trim_space (wfDbName f) in
           if name = [] then (f\<lparr>wfErr := ''database name is required''\<rparr>, False)
           else (f\<lparr>wfDbName := name, wfStep := ProjectStepDomain\<rparr>, False))
      | ProjectStepDomain \<Rightarrow>
          (let domain = trim_space (wfDomain f) in
           if domain = [] then (f\<lparr>wfErr := ''domain is required''\<rparr>, False)
           else (f\<lparr>wfDomain := domain\<rparr>, True))
      | ProjectStepReview \<Rightarrow> (f\<lparr>wfStep := ProjectStepExecuting, wfExecuting := True\<rparr>, True)
      | _ \<Rightarrow> (f, False))"

definition project_stepBack :: "projectWizardForm \<Rightarrow> projectWizardForm" where
  "project_stepBack f0 =
     (let f = f0\<lparr>wfErr := []\<rparr> in
      case wfStep f of
        ProjectStepStack \<Rightarrow> f\<lparr>wfStep := ProjectStepProfile\<rparr>
      | ProjectStepDBChoice \<Rightarrow> f\<lparr>wfStep := ProjectStepStack\<rparr>
      | ProjectStepDBKind \<Rightarrow>
          if IsDBRequiredForStack (wfStack f) then f\<lparr>wfStep := ProjectStepStack\<rparr> else f\<lparr>wfStep := ProjectStepDBChoice\<rparr>
      | ProjectStepDBName \<Rightarrow> f\<lparr>wfStep := ProjectStepDBKind\<rparr>
      | ProjectStepDomain \<Rightarrow>
          if wfDbWanted f then f\<lparr>wfStep := ProjectStepDBName\<rparr> else f\<lparr>wfStep := ProjectStepDBChoice\<rparr>
      | ProjectStepReview \<Rightarrow> f\<lparr>wfStep := ProjectStepDomain, wfPreflightDone := False\<rparr>
      | _ \<Rightarrow> f)"

definition project_appendInput :: "string \<Rightarrow> projectWizardForm \<Rightarrow> projectWizardForm" where
  "project_appendInput s f =
     (case wfStep f of
        ProjectStepDomain \<Rightarrow> f\<lparr>wfDomain := capInput (wfDomain f @ s) maxDomainInput\<rparr>
      | ProjectStepDBName \<Rightarrow> f\<lparr>wfDbName := capInput (wfDbName f @ s) maxDBNameInput\<rparr>
      | _ \<Rightarrow> f)"

definition project_backspaceInput :: "projectWizardForm \<Rightarrow> projectWizardForm" where
  "project_backspaceInput f =
     (case wfStep f of
        ProjectStepDomain \<Rightarrow> f\<lparr>wfDomain := trimRight (wfDomain f)\<rparr>
      | ProjectStepDBName \<Rightarrow> f\<lparr>wfDbName := trimRight (wfDbName f)\<rparr>
      | _ \<Rightarrow> f)"

definition cycleSelection :: "Config option \<Rightarrow> int \<Rightarrow> projectWizardForm \<Rightarrow> projectWizardForm" where
  "cycleSelection conf delta f =
     (case wfStep f of
        ProjectStepProfile \<Rightarrow>
          (let ps = profiles_of conf in
           if ps = [] then f
           else let c = wrap_index (wfProfileCursor f + delta) (int (length ps))
                in f\<lparr>wfProfileCursor := c, wfProfileAlias := pfAlias (ps ! nat c)\<rparr>)
      | ProjectStepStack \<Rightarrow>
          (let c = wrap_index (wfStackCursor f + delta) (int (length SupportedStacks))
           in f\<lparr>wfStackCursor := c, wfStack := SupportedStacks ! nat c\<rparr>)
      | ProjectStepDBChoice \<Rightarrow> f\<lparr>wfDbWanted := \<not> wfDbWanted f\<rparr>
      | ProjectStepDBKind \<Rightarrow>
          (let c = wrap_index (wfDbKindCursor f + delta) (int (length SupportedDBKinds))
           in f\<lparr>wfDbKindCursor := c, wfDbKind := SupportedDBKinds ! nat c\<rparr>)
      | _ \<Rightarrow> f)"

section \<open>The resume prompt\<close>

record resumeWizardForm =
  rfSnapshot :: "PendingCleanups option"
  rfLoadErr :: "terr option"
  rfConfirmInput :: string
  rfDiscarding :: bool
  rfRollingBack :: bool
  rfErr :: string
  rfResults :: "CleanupResult list"

definition zero_resume_form :: resumeWizardForm where
  "zero_resume_form = \<lparr>rfSnapshot = None, rfLoadErr = None, rfConfirmInput = [], rfDiscarding = False, rfRollingBack = False,
     rfErr = [], rfResults = []\<rparr>"

definition discardPhrase :: "resumeWizardForm \<Rightarrow> string" where
  "discardPhrase f =
     (case rfSnapshot f of
        None \<Rightarrow> ''discard pending''
      | Some s \<Rightarrow> if WizardID s = [] then ''discard pending'' else ''discard '' @ WizardID s)"

section \<open>Helpers\<close>

lemma raise_to_nonneg_mod: "0 < n \<Longrightarrow> raise_to_nonneg i n mod n = i mod n"
proof (induction i n rule: raise_to_nonneg.induct)
  case (1 i n)
  then show ?case by (subst raise_to_nonneg.simps) auto
qed

lemma wrap_index_mod: "wrap_index i n = (if n \<le> 0 then 0 else i mod n)"
  by (simp add: wrap_index_def raise_to_nonneg_mod)

lemma wrap_index_bounds: "0 < n \<Longrightarrow> 0 \<le> wrap_index i n \<and> wrap_index i n < n"
  by (simp add: wrap_index_mod)

lemma nth_wrap_index [simp]: "xs \<noteq> [] \<Longrightarrow> xs ! nat (wrap_index i (int (length xs))) \<in> set xs"
  using wrap_index_bounds [of "int (length xs)" i] by (intro nth_mem) (simp add: nat_less_iff)

lemma length_capInput [simp]: "length (capInput s n) \<le> n"
  by (simp add: capInput_def)

lemma atoi_parse: "parse_int64 s = Some n \<Longrightarrow> atoi_value s = n"
  by (auto simp: parse_int64_def atoi_value_def Let_def in_int64_def split: list.splits option.splits if_splits prod.splits)

text \<open>Trimming twice is trimming once.\<close>

lemma trim_space_prefix: "\<exists>v. strip_seqs space_seqs s = trim_space s @ v"
proof -
  obtain v where "rev (strip_seqs space_seqs s) = v @ rev (trim_space s)"
    using strip_seqs_suffix [of "rev (strip_seqs space_seqs s)"] by (auto simp: trim_space_def)
  then have "strip_seqs space_seqs s = trim_space s @ rev v" by (metis rev_append rev_rev_ident)
  then show ?thesis by blast
qed

lemma has_prefix_extend: "has_prefix s q \<Longrightarrow> has_prefix (s @ v) q"
  by (auto simp: has_prefix_iff)

lemma trim_space_idem [simp]: "trim_space (trim_space s) = trim_space s"
proof -
  obtain v where v: "strip_seqs space_seqs s = trim_space s @ v" using trim_space_prefix by blast
  have "strip_seqs space_seqs (trim_space s) = trim_space s"
  proof (rule strip_seqs_id)
    fix q assume "q \<in> set space_seqs" "q \<noteq> []"
    then show "\<not> has_prefix (trim_space s) q"
      using strip_seqs_no_prefix [of q space_seqs s] has_prefix_extend [of "trim_space s" q v] v by auto
  qed
  moreover have "strip_seqs (map rev space_seqs) (rev (trim_space s)) = rev (trim_space s)"
    by (rule strip_seqs_id) (simp add: trim_space_def strip_seqs_no_prefix)
  ultimately show ?thesis by (simp add: trim_space_def)
qed

lemma trim_space_user: "isValidUser s \<Longrightarrow> trim_space s = s"
  by (intro trim_space_ascii)
    (auto simp: isValidUser_def list_all_iff lower_ascii_def is_digit_def less_eq_char_def less_char_def)

lemma isValidAlias_alias:
  "isValidAlias s \<longleftrightarrow> 1 \<le> length s \<and> length s \<le> 32 \<and> list_all alias_char s"
  by (cases s) (auto simp: isValidAlias_def maxAliasLength_def alias_char_def lower_ascii_def list_all_iff)

lemma trim_space_alias: "isValidAlias s \<Longrightarrow> trim_space s = s"
  by (intro trim_space_ascii)
    (auto simp: isValidAlias_def list_all_iff lower_ascii_def is_digit_def less_eq_char_def less_char_def)

section \<open>The captured profile\<close>

text \<open>What the fields behind the current step satisfy.\<close>

fun init_rank :: "InitWizardStep \<Rightarrow> nat" where
  "init_rank InitStepWelcome = 0"
| "init_rank InitStepAlias = 1"
| "init_rank InitStepHost = 2"
| "init_rank InitStepPort = 3"
| "init_rank InitStepUser = 4"
| "init_rank InitStepReview = 5"
| "init_rank InitStepDone = 6"

definition port_text :: "string \<Rightarrow> bool" where
  "port_text s \<longleftrightarrow> (\<exists>n. 1 \<le> n \<and> n \<le> 65535 \<and> s = itoa n)"

lemma port_text_itoa [simp]: "\<not> n < 1 \<Longrightarrow> \<not> 65535 < n \<Longrightarrow> port_text (itoa n)"
  by (auto simp: port_text_def intro!: exI [of _ n])

definition init_inv :: "initWizardForm \<Rightarrow> bool" where
  "init_inv f \<longleftrightarrow>
     (init_rank (ifStep f) \<ge> 2 \<and> init_rank (ifStep f) \<le> 5 \<longrightarrow> isValidAlias (ifAlias f)) \<and>
     (init_rank (ifStep f) \<ge> 3 \<and> init_rank (ifStep f) \<le> 5 \<longrightarrow> ifHost f \<noteq> [] \<and> trim_space (ifHost f) = ifHost f) \<and>
     (init_rank (ifStep f) \<ge> 4 \<and> init_rank (ifStep f) \<le> 5 \<longrightarrow> port_text (ifPort f)) \<and>
     (init_rank (ifStep f) = 5 \<longrightarrow> isValidUser (ifUser f))"

lemma init_inv_new: "init_inv newInitWizardForm"
  by (simp add: init_inv_def newInitWizardForm_def zero_init_form_def)

lemma init_inv_advance: "init_inv f \<Longrightarrow> init_inv (init_validateAndAdvance f)"
  by (cases "ifStep f") (auto simp: init_inv_def init_validateAndAdvance_def Let_def split: option.splits)

lemma init_inv_back: "init_inv f \<Longrightarrow> init_inv (init_stepBack f)"
  by (cases "ifStep f") (auto simp: init_inv_def init_stepBack_def)

lemma init_inv_append: "init_inv f \<Longrightarrow> init_inv (init_appendInput s f)"
  by (cases "ifStep f") (auto simp: init_inv_def init_appendInput_def)

lemma init_inv_backspace: "init_inv f \<Longrightarrow> init_inv (init_backspaceInput f)"
  by (cases "ifStep f") (auto simp: init_inv_def init_backspaceInput_def)

lemma init_inv_saving [simp]: "init_inv (f\<lparr>ifSaving := b\<rparr>) = init_inv f" "init_inv (f\<lparr>ifErr := e\<rparr>) = init_inv f"
  by (simp_all add: init_inv_def)

lemmas init_inv_steps = init_inv_new init_inv_advance init_inv_back init_inv_append init_inv_backspace

text \<open>The provider configuration built from a profile (\<open>newProviderFromProfile\<close> of wizard_runner.go).\<close>

definition cloneProps :: "string gomap \<Rightarrow> string gomap" where "cloneProps m = m"

definition profile_config :: "Profile \<Rightarrow> ProviderConfig" where
  "profile_config p = \<lparr>Alias = pfAlias p, PType = pfType p, Host = pfHost p, Port = pfPort p, User = pfUser p,
     Props = Some (cloneProps (pfProperties p))\<rparr>"

lemma review_profile_port:
  assumes "init_inv f" "ifStep f = InitStepReview"
  shows "1 \<le> pfPort (toProfile f)" "pfPort (toProfile f) \<le> 65535"
proof -
  obtain n where n: "1 \<le> n" "n \<le> 65535" "ifPort f = itoa n" using assms by (auto simp: init_inv_def port_text_def)
  have "in_int64 n" using n by (simp add: in_int64_def)
  then have p: "parse_int64 (itoa n) = Some n" by (rule parse_int64_itoa)
  have "trim_space (itoa n) = itoa n"
    using n nat_string_digits [of "nat n"]
    by (intro trim_space_ascii) (auto simp: itoa_def list_all_iff is_digit_def less_eq_char_def less_char_def)
  then have "pfPort (toProfile f) = n" using n atoi_parse [OF p] by (simp add: toProfile_def Let_def)
  then show "1 \<le> pfPort (toProfile f)" "pfPort (toProfile f) \<le> 65535" using n by simp_all
qed

inductive init_typed :: "initWizardForm \<Rightarrow> bool" where
  "init_typed newInitWizardForm"
| "init_typed f \<Longrightarrow> init_typed (init_validateAndAdvance f)"
| "init_typed f \<Longrightarrow> init_typed (init_stepBack f)"
| "init_typed f \<Longrightarrow> init_typed (init_appendInput s f)"
| "init_typed f \<Longrightarrow> init_typed (init_backspaceInput f)"

lemma init_typed_inv: "init_typed f \<Longrightarrow> init_inv f"
  by (induction rule: init_typed.induct) (auto intro: init_inv_steps)

lemma init_inv_accepted:
  assumes "init_inv f" "ifStep f = InitStepReview"
  shows "validateConfig (profile_config (toProfile f)) = Inr (profile_config (toProfile f))"
proof -
  let ?p = "toProfile f"
  have fields: "pfAlias ?p = ifAlias f" "pfHost ?p = ifHost f" "pfUser ?p = ifUser f"
    by (simp_all add: toProfile_def Let_def)
  have a: "isValidAlias (ifAlias f)" and h: "ifHost f \<noteq> []" "trim_space (ifHost f) = ifHost f"
    and u: "isValidUser (ifUser f)"
    using assms by (auto simp: init_inv_def)
  have "ifUser f \<noteq> []" using u by (auto simp: isValidUser_def)
  moreover have "match_string aliasPattern (ifAlias f)" "ifAlias f \<noteq> []"
    using a by (auto simp: aliasPattern_iff isValidAlias_alias)
  ultimately show ?thesis
    using review_profile_port [OF assms] h trim_space_alias [OF a] trim_space_user [OF u]
    by (simp add: validateConfig_def profile_config_def fields Let_def)
qed

section \<open>The plan of the new-project wizard\<close>

inductive project_typed :: "Config option \<Rightarrow> projectWizardForm \<Rightarrow> bool" for conf where
  "project_typed conf (newProjectWizardForm conf)"
| "project_typed conf f \<Longrightarrow> project_typed conf (fst (project_validateAndAdvance conf f))"
| "project_typed conf f \<Longrightarrow> project_typed conf (project_stepBack f)"
| "project_typed conf f \<Longrightarrow> project_typed conf (project_appendInput s f)"
| "project_typed conf f \<Longrightarrow> project_typed conf (project_backspaceInput f)"
| "project_typed conf f \<Longrightarrow> project_typed conf (cycleSelection conf delta f)"
| "project_typed conf f \<Longrightarrow> wfStep f = ProjectStepDBChoice \<Longrightarrow> project_typed conf (f\<lparr>wfDbWanted := b\<rparr>)"

fun past_stack :: "ProjectWizardStep \<Rightarrow> bool" where
  "past_stack ProjectStepProfile = False"
| "past_stack ProjectStepStack = False"
| "past_stack _ = True"

definition form_inv :: "Config option \<Rightarrow> projectWizardForm \<Rightarrow> bool" where
  "form_inv conf f \<longleftrightarrow>
     wfStack f \<in> set SupportedStacks \<and> wfDbKind f \<in> set SupportedDBKinds \<and>
     (wfStep f = ProjectStepProfile \<or> profiles_of conf \<noteq> []) \<and>
     (profiles_of conf \<noteq> [] \<longrightarrow> wfProfileAlias f \<in> pfAlias ` set (profiles_of conf)) \<and>
     (past_stack (wfStep f) \<longrightarrow> wfNodeVersion f = DefaultNodeVersion (wfStack f)) \<and>
     (past_stack (wfStep f) \<and> IsDBRequiredForStack (wfStack f) \<longrightarrow> wfDbWanted f \<and> wfStep f \<noteq> ProjectStepDBChoice) \<and>
     (wfStep f = ProjectStepDBKind \<or> wfStep f = ProjectStepDBName \<longrightarrow> wfDbWanted f) \<and>
     ((wfStep f = ProjectStepDomain \<or> wfStep f = ProjectStepReview) \<and> wfDbWanted f \<longrightarrow> wfDbName f \<noteq> [] \<and> trim_space (wfDbName f) = wfDbName f)"

lemma form_inv_new: "form_inv conf (newProjectWizardForm conf)"
  by (cases "profiles_of conf")
    (auto simp: form_inv_def newProjectWizardForm_def zero_project_form_def Let_def SupportedStacks_def SupportedDBKinds_def)

lemma form_inv_advance: "form_inv conf f \<Longrightarrow> form_inv conf (fst (project_validateAndAdvance conf f))"
  by (cases "wfStep f") (auto simp: form_inv_def project_validateAndAdvance_def Let_def split: list.splits)

lemma form_inv_back: "form_inv conf f \<Longrightarrow> form_inv conf (project_stepBack f)"
  by (cases "wfStep f") (auto simp: form_inv_def project_stepBack_def Let_def)

lemma form_inv_append: "form_inv conf f \<Longrightarrow> form_inv conf (project_appendInput s f)"
  by (cases "wfStep f") (auto simp: form_inv_def project_appendInput_def)

lemma form_inv_backspace: "form_inv conf f \<Longrightarrow> form_inv conf (project_backspaceInput f)"
  by (cases "wfStep f") (auto simp: form_inv_def project_backspaceInput_def)

lemma choices_not_Nil [simp]: "SupportedStacks \<noteq> []" "SupportedDBKinds \<noteq> []"
  by (simp_all add: SupportedStacks_def SupportedDBKinds_def)

lemma form_inv_cycle: "form_inv conf f \<Longrightarrow> form_inv conf (cycleSelection conf delta f)"
  by (cases "wfStep f") (auto simp: form_inv_def cycleSelection_def Let_def)

lemma form_inv_choice: "form_inv conf f \<Longrightarrow> wfStep f = ProjectStepDBChoice \<Longrightarrow> form_inv conf (f\<lparr>wfDbWanted := b\<rparr>)"
  by (auto simp: form_inv_def)

lemma project_typed_inv: "project_typed conf f \<Longrightarrow> form_inv conf f"
  by (induction rule: project_typed.induct)
    (auto intro: form_inv_new form_inv_advance form_inv_back form_inv_append form_inv_backspace form_inv_cycle form_inv_choice)

lemma advance_async:
  "project_validateAndAdvance conf f = (f', True) \<Longrightarrow> wfStep f = ProjectStepDomain \<Longrightarrow>
   f' = f\<lparr>wfErr := [], wfDomain := trim_space (wfDomain f)\<rparr> \<and> trim_space (wfDomain f) \<noteq> []"
  by (auto simp: project_validateAndAdvance_def Let_def split: if_splits)

lemma stack_version: "s \<in> set SupportedStacks \<Longrightarrow> trim_space (DefaultNodeVersion s) = ''22''"
proof -
  assume "s \<in> set SupportedStacks"
  then have "DefaultNodeVersion s = ''22''"
    by (auto simp: SupportedStacks_def DefaultNodeVersion_def defaultNodeVersionForStack_def)
  moreover have "trim_space ''22'' = ''22''" by (rule trim_space_ascii) (auto simp: less_char_def)
  ultimately show ?thesis by simp
qed

lemma supported_iff: "IsValidStack s \<longleftrightarrow> s \<in> set SupportedStacks" "IsValidDBKind k \<longleftrightarrow> k \<in> set SupportedDBKinds"
  by (auto simp: IsValidStack_def IsValidDBKind_def list_ex_iff)

lemma kind_not_Nil: "k \<in> set SupportedDBKinds \<Longrightarrow> k \<noteq> []"
  by (auto simp: SupportedDBKinds_def DatabaseMySQL_def DatabasePostgres_def)

definition accepts :: "(string \<Rightarrow> goerr option) option \<Rightarrow> string \<Rightarrow> bool" where
  "accepts v s \<longleftrightarrow> run_validator v s = None"

lemma form_plan_validated:
  assumes inv: "form_inv conf f" and step: "wfStep f = ProjectStepDomain"
    and adv: "project_validateAndAdvance conf f = (f', True)" and v: "IsComplete v"
    and named: "\<forall>p\<in>set (profiles_of conf). pfAlias p \<noteq> []"
  shows "ValidatePlan (form_plan f') v = None \<longleftrightarrow>
    accepts (ValidateDomain v) (trim_space (wfDomain f)) \<and> accepts (ValidateNodeVersion v) ''22'' \<and>
    (wfDbWanted f \<longrightarrow> accepts (ValidateDBName v) (wfDbName f))"
proof -
  have f': "f' = f\<lparr>wfErr := [], wfDomain := trim_space (wfDomain f)\<rparr>" using advance_async [OF adv step] by blast
  have al: "wfProfileAlias f \<noteq> []" using inv step named by (auto simp: form_inv_def)
  have nv: "trim_space (wfNodeVersion f) = ''22''" using inv step stack_version by (auto simp: form_inv_def)
  have st: "IsValidStack (wfStack f)" "IsValidDBKind (wfDbKind f)" "wfDbKind f \<noteq> []"
    using inv kind_not_Nil by (auto simp: form_inv_def supported_iff)
  have db: "wfDbName f \<noteq> []" "trim_space (wfDbName f) = wfDbName f" if "wfDbWanted f"
    using inv step that by (auto simp: form_inv_def)
  show ?thesis
    using al nv st db v by (auto simp: f' form_plan_def ValidatePlan_def accepts_def Let_def split: option.splits)
qed

text \<open>
  C9. A profile captured by the first-run wizard is always usable: whatever the operator types, in whatever order the steps
  are entered, left and corrected, when the wizard stands at its review step the profile it would save is accepted unchanged
  by the field checks of the provider registry.
\<close>

theorem captured_profile_accepted:
  assumes "init_typed f" "ifStep f = InitStepReview"
  shows "validateConfig (profile_config (toProfile f)) = Inr (profile_config (toProfile f))"
  using init_inv_accepted [OF init_typed_inv [OF assms(1)] assms(2)] .

definition sample_init :: initWizardForm where
  "sample_init = init_validateAndAdvance (init_appendInput ''adam'' (init_validateAndAdvance (init_validateAndAdvance
     (init_appendInput '' s1.small.pl '' (init_validateAndAdvance (init_appendInput ''main''
       (init_validateAndAdvance newInitWizardForm)))))))"

theorem captured_profile_accepted_witness:
  "validateConfig (profile_config (toProfile sample_init)) = Inr (profile_config (toProfile sample_init))"
proof (rule captured_profile_accepted)
  show "init_typed sample_init" unfolding sample_init_def by (intro init_typed.intros)
  show "ifStep sample_init = InitStepReview" by code_simp
qed

text \<open>
  C10. The new-project wizard hands over complete plans: when the operator leaves the domain step, the plan of the form
  passes every check of \<open>ValidatePlan\<close> but the provider's own validators of the domain, the node version and, when a database
  is wanted, its name. A database name is never asked for without a kind, and the reverse.
\<close>

theorem wizard_plan_complete:
  assumes "project_typed conf f" "wfStep f = ProjectStepDomain" "project_validateAndAdvance conf f = (f', True)"
    "IsComplete v" "\<forall>p\<in>set (profiles_of conf). pfAlias p \<noteq> []"
  shows "ValidatePlan (form_plan f') v = None \<longleftrightarrow>
    accepts (ValidateDomain v) (trim_space (wfDomain f)) \<and> accepts (ValidateNodeVersion v) ''22'' \<and>
    (wfDbWanted f \<longrightarrow> accepts (ValidateDBName v) (wfDbName f))"
  using form_plan_validated [OF project_typed_inv [OF assms(1)] assms(2-5)] .

definition sample_conf :: "Config option" where
  "sample_conf = Some (DefaultConfig\<lparr>cfProfiles := Some [\<lparr>pfAlias = ''main'', pfType = ''smallhost'', pfHost = ''s1.small.pl'',
     pfPort = 22, pfUser = ''adam'', pfProperties = []\<rparr>]\<rparr>)"

text \<open>A node-express project: the wizard asks for a database.\<close>

definition sample_form :: projectWizardForm where
  "sample_form =
     (let next = (\<lambda>f. fst (project_validateAndAdvance sample_conf f)) in
      project_appendInput '' shop.example.pl'' (next (project_appendInput ''shop'' (next (next
        (cycleSelection sample_conf (- 1) (next (newProjectWizardForm sample_conf))))))))"

definition lenient :: PlanValidators where
  "lenient = \<lparr>ValidateDomain = Some (\<lambda>_. None), ValidateNodeVersion = Some (\<lambda>_. None), ValidateDBName = Some (\<lambda>_. None)\<rparr>"

theorem wizard_plan_complete_witness:
  "ValidatePlan (form_plan (fst (project_validateAndAdvance sample_conf sample_form))) lenient = None \<longleftrightarrow>
    accepts (ValidateDomain lenient) (trim_space (wfDomain sample_form)) \<and> accepts (ValidateNodeVersion lenient) ''22'' \<and>
    (wfDbWanted sample_form \<longrightarrow> accepts (ValidateDBName lenient) (wfDbName sample_form))"
proof (rule wizard_plan_complete)
  show "project_typed sample_conf sample_form"
    unfolding sample_form_def Let_def by (intro project_typed.intros)
  show "wfStep sample_form = ProjectStepDomain" by code_simp
  have "snd (project_validateAndAdvance sample_conf sample_form)" by code_simp
  then show "project_validateAndAdvance sample_conf sample_form =
      (fst (project_validateAndAdvance sample_conf sample_form), True)"
    by (metis prod.collapse)
  show "IsComplete lenient" by (simp add: lenient_def IsComplete_def)
  show "\<forall>p\<in>set (profiles_of sample_conf). pfAlias p \<noteq> []" by (simp add: sample_conf_def profiles_of_def)
qed

end
