(* ===== verification/Ring_Buffer.thy ===== *)
theory Ring_Buffer
  imports Prelude
begin

text \<open>
  The circular buffer of live log lines (\<open>tui/components/ringbuffer.go\<close>). The buffer is a record with
  the fields of the struct; an index or slice expression out of range, and \<open>% 0\<close>, panic in Go, so the
  operations that index return \<open>None\<close> there. Go's \<open>copy\<close> overwrites a prefix of its destination.

  The specification is a bounded queue: the locale \<open>bounded_queue\<close> says what one push does to the
  contents and proves what any number of pushes do; it is interpreted on the buffer.
\<close>

section \<open>Model\<close>

record 'a RingBuffer =
  rbBuf :: "'a list"
  rbCap :: nat
  rbHead :: nat
  rbFull :: bool
  rbLength :: nat

definition DefaultRingCapacity :: int where "DefaultRingCapacity = 1000"

text \<open>\<open>zero\<close> is the zero value of the element type, which \<open>make\<close> fills the slots with.\<close>

definition NewRingBuffer :: "'a \<Rightarrow> int \<Rightarrow> 'a RingBuffer" where
  "NewRingBuffer zero capacity =
    (let c = (if capacity \<le> 0 then DefaultRingCapacity else capacity)
     in \<lparr>rbBuf = replicate (nat c) zero, rbCap = nat c, rbHead = 0, rbFull = False, rbLength = 0\<rparr>)"

definition Cap :: "'a RingBuffer \<Rightarrow> nat" where "Cap r = rbCap r"

definition ring_Len :: "'a RingBuffer \<Rightarrow> nat" where "ring_Len r = rbLength r"

definition ring_Push :: "'a \<Rightarrow> 'a RingBuffer \<Rightarrow> 'a RingBuffer option" where
  "ring_Push value r =
    (if length (rbBuf r) \<le> rbHead r \<or> rbCap r = 0 then None
     else let r1 = r\<lparr>rbBuf := (rbBuf r)[rbHead r := value], rbHead := (rbHead r + 1) mod rbCap r\<rparr>
       in if rbFull r then Some r1
          else let r2 = r1\<lparr>rbLength := rbLength r + 1\<rparr>
            in Some (if rbLength r2 = rbCap r2 then r2\<lparr>rbFull := True\<rparr> else r2))"

definition go_copy :: "'a list \<Rightarrow> 'a list \<Rightarrow> 'a list" where
  "go_copy dst src = take (length dst) src @ drop (length src) dst"

definition ring_Snapshot :: "'a \<Rightarrow> 'a RingBuffer \<Rightarrow> 'a list option" where
  "ring_Snapshot zero r =
    (let out = replicate (rbLength r) zero in
     if \<not> rbFull r then
       if length (rbBuf r) < rbLength r then None else Some (go_copy out (take (rbLength r) (rbBuf r)))
     else if length (rbBuf r) < rbHead r \<or> rbCap r < rbHead r \<or> length out < rbCap r - rbHead r then None
     else let out1 = go_copy out (drop (rbHead r) (rbBuf r)); k = rbCap r - rbHead r
       in Some (take k out1 @ go_copy (drop k out1) (take (rbHead r) (rbBuf r))))"

definition Tail :: "'a \<Rightarrow> int \<Rightarrow> 'a RingBuffer \<Rightarrow> 'a list option" where
  "Tail zero n r =
    (if n \<le> 0 then Some []
     else case ring_Snapshot zero r of
       None \<Rightarrow> None
     | Some snap \<Rightarrow>
         if int (length snap) \<le> n then Some snap
         else Some (go_copy (replicate (nat n) zero) (drop (length snap - nat n) snap)))"

section \<open>Bounded queues\<close>

definition last_n :: "nat \<Rightarrow> 'a list \<Rightarrow> 'a list" where
  "last_n n xs = drop (length xs - n) xs"

lemma last_n_simps [simp]: "last_n n [] = []" "length xs \<le> n \<Longrightarrow> last_n n xs = xs"
  "length (last_n n xs) = min n (length xs)"
  by (auto simp: last_n_def)

lemma last_n_append: "last_n n (last_n n zs @ xs) = last_n n (zs @ xs)"
  by (cases "length zs \<le> n") (auto simp: last_n_def add.commute)

fun push_all :: "('a \<Rightarrow> 's \<Rightarrow> 's option) \<Rightarrow> 'a list \<Rightarrow> 's \<Rightarrow> 's option" where
  "push_all p [] s = Some s"
| "push_all p (x # xs) s = (case p x s of None \<Rightarrow> None | Some s' \<Rightarrow> push_all p xs s')"

locale bounded_queue =
  fixes inv :: "'s \<Rightarrow> bool"
    and size_of :: "'s \<Rightarrow> nat"
    and push :: "'a \<Rightarrow> 's \<Rightarrow> 's option"
    and contents :: "'s \<Rightarrow> 'a list option"
  assumes positive: "inv s \<Longrightarrow> 0 < size_of s"
    and readable: "inv s \<Longrightarrow> \<exists>xs. contents s = Some xs \<and> length xs \<le> size_of s"
    and push_law: "inv s \<Longrightarrow> contents s = Some xs \<Longrightarrow>
      \<exists>s'. push x s = Some s' \<and> inv s' \<and> size_of s' = size_of s
        \<and> contents s' = Some (last_n (size_of s) (xs @ [x]))"
begin

lemma push_all_law:
  "inv s \<Longrightarrow> contents s = Some ys \<Longrightarrow>
    \<exists>s'. push_all push xs s = Some s' \<and> inv s' \<and> size_of s' = size_of s
      \<and> contents s' = Some (last_n (size_of s) (ys @ xs))"
proof (induction xs arbitrary: s ys)
  case Nil
  then show ?case using readable by fastforce
next
  case (Cons x xs)
  obtain s' where s': "push x s = Some s'" "inv s'" "size_of s' = size_of s"
    "contents s' = Some (last_n (size_of s) (ys @ [x]))" using push_law [OF Cons.prems] by blast
  obtain s'' where s'': "push_all push xs s' = Some s''" "inv s''" "size_of s'' = size_of s"
    "contents s'' = Some (last_n (size_of s) (last_n (size_of s) (ys @ [x]) @ xs))"
    using Cons.IH [OF s'(2,4)] s'(3) by auto
  then show ?case using s' by (simp add: last_n_append)
qed

end

section \<open>The ring buffer is a bounded queue\<close>

definition ring_inv :: "'a RingBuffer \<Rightarrow> bool" where
  "ring_inv r \<longleftrightarrow> 0 < rbCap r \<and> length (rbBuf r) = rbCap r \<and> rbHead r < rbCap r
    \<and> (if rbFull r then rbLength r = rbCap r else rbLength r < rbCap r \<and> rbHead r = rbLength r)"

definition ring_items :: "'a RingBuffer \<Rightarrow> 'a list" where
  "ring_items r = (if rbFull r then drop (rbHead r) (rbBuf r) @ take (rbHead r) (rbBuf r)
    else take (rbLength r) (rbBuf r))"

lemma go_copy_same [simp]: "length xs = length dst \<Longrightarrow> go_copy dst xs = xs"
  by (simp add: go_copy_def)

lemma ring_Snapshot_items: "ring_inv r \<Longrightarrow> ring_Snapshot zero r = Some (ring_items r)"
  by (auto simp: ring_inv_def ring_Snapshot_def ring_items_def Let_def go_copy_def split: if_splits)

lemma ring_items_length: "ring_inv r \<Longrightarrow> length (ring_items r) = rbLength r \<and> rbLength r \<le> rbCap r"
  by (auto simp: ring_inv_def ring_items_def split: if_splits)

lemma ring_rotate:
  assumes "h < length xs"
  shows "drop (Suc h mod length xs) (xs[h := x]) @ take (Suc h mod length xs) (xs[h := x])
    = tl (drop h xs @ take h xs) @ [x]"
proof (cases "Suc h = length xs")
  case True
  moreover have "drop h xs = [xs ! h]" using True assms Cons_nth_drop_Suc [OF assms] by simp
  ultimately show ?thesis using assms by (simp add: upd_conv_take_nth_drop)
next
  case False
  then have "Suc h < length xs" using assms by simp
  moreover have "drop h xs = xs ! h # drop (Suc h) xs" using Cons_nth_drop_Suc [OF assms] by simp
  ultimately show ?thesis using assms by (simp add: take_Suc_conv_app_nth)
qed

lemma ring_Push_spec:
  assumes "ring_inv r"
  shows "\<exists>r'. ring_Push x r = Some r' \<and> ring_inv r' \<and> rbCap r' = rbCap r
    \<and> ring_items r' = last_n (rbCap r) (ring_items r @ [x])"
proof (cases "rbFull r")
  case True
  let ?h = "rbHead r" and ?b = "rbBuf r"
  have len: "length ?b = rbCap r" "?h < length ?b" using assms by (auto simp: ring_inv_def)
  have "ring_items (r\<lparr>rbBuf := ?b[?h := x], rbHead := Suc ?h mod rbCap r\<rparr>) = tl (ring_items r) @ [x]"
    using ring_rotate [OF len(2), of x] len True by (simp add: ring_items_def)
  moreover have "last_n (rbCap r) (ring_items r @ [x]) = tl (ring_items r) @ [x]"
    using ring_items_length [OF assms] True assms by (auto simp: last_n_def ring_inv_def drop_Suc)
  ultimately show ?thesis using True assms by (auto simp: ring_Push_def ring_inv_def Let_def)
next
  case False
  then have l: "rbHead r = rbLength r" "rbLength r < rbCap r" "length (rbBuf r) = rbCap r"
    using assms by (auto simp: ring_inv_def)
  have "take (Suc (rbLength r)) ((rbBuf r)[rbLength r := x]) = take (rbLength r) (rbBuf r) @ [x]"
    using l by (simp add: take_Suc_conv_app_nth)
  then show ?thesis using False l assms
    by (auto simp: ring_Push_def ring_inv_def ring_items_def Let_def)
qed

interpretation ring: bounded_queue ring_inv rbCap ring_Push "ring_Snapshot zero"
proof unfold_locales
  show "0 < rbCap s" if "ring_inv s" for s :: "'a RingBuffer" using that by (simp add: ring_inv_def)
  show "\<exists>xs. ring_Snapshot zero s = Some xs \<and> length xs \<le> rbCap s" if "ring_inv s" for s
    using ring_Snapshot_items [OF that] ring_items_length [OF that] by simp
  show "\<exists>s'. ring_Push x s = Some s' \<and> ring_inv s' \<and> rbCap s' = rbCap s
      \<and> ring_Snapshot zero s' = Some (last_n (rbCap s) (xs @ [x]))"
    if "ring_inv s" "ring_Snapshot zero s = Some xs" for s xs x
    using ring_Push_spec [OF that(1), of x] that(2) ring_Snapshot_items [OF that(1), of zero]
    by (auto simp: ring_Snapshot_items)
qed

lemma ring_inv_New: "ring_inv (NewRingBuffer zero c)"
  by (simp add: NewRingBuffer_def ring_inv_def DefaultRingCapacity_def Let_def)

lemma ring_New_empty: "ring_Snapshot z (NewRingBuffer zero c) = Some []"
  by (simp add: NewRingBuffer_def ring_Snapshot_def go_copy_def Let_def)

lemma Tail_last_n: "ring_inv r \<Longrightarrow> Tail zero n r = Some (last_n (nat n) (ring_items r))"
  by (auto simp: Tail_def ring_Snapshot_items last_n_def go_copy_def Let_def not_le)

section \<open>Properties\<close>

text \<open>
  C32. The buffer keeps the newest lines in order: whatever capacity it was created with and whatever is
  pushed, no operation panics, the snapshot is the last \<open>Cap\<close> values pushed, oldest first, \<open>Len\<close> is their
  number, and \<open>Tail\<close> is the last \<open>n\<close> of them.
\<close>

theorem ring_keeps_newest:
  "\<exists>r. push_all ring_Push xs (NewRingBuffer zero capacity) = Some r
    \<and> Cap r = nat (if capacity \<le> 0 then DefaultRingCapacity else capacity)
    \<and> ring_Snapshot zero r = Some (last_n (Cap r) xs)
    \<and> ring_Len r = min (Cap r) (length xs)
    \<and> Tail zero n r = Some (last_n (nat n) (last_n (Cap r) xs))"
proof -
  let ?r0 = "NewRingBuffer zero capacity"
  obtain r where r: "push_all ring_Push xs ?r0 = Some r" "ring_inv r" "rbCap r = rbCap ?r0"
    "ring_Snapshot zero r = Some (last_n (rbCap ?r0) ([] @ xs))"
    using ring.push_all_law [OF ring_inv_New ring_New_empty, of xs zero capacity zero] by blast
  then have items: "ring_items r = last_n (rbCap r) xs" by (simp add: ring_Snapshot_items)
  then have "rbLength r = min (rbCap r) (length xs)" using ring_items_length [OF r(2)] by simp
  then show ?thesis using r items Tail_last_n [OF r(2), of zero n]
    by (auto simp: Cap_def ring_Len_def NewRingBuffer_def Let_def)
qed

end
