(* ===== verification/Presets.thy ===== *)
theory Presets
  imports Config_Store "HOL-Library.Product_Lexorder" "HOL-Library.Multiset"
begin

text \<open>
  The catalogue of provider presets (\<open>presets/\<close>): the preset data, its validation and decoding, the loader that
  reads a directory of preset files and the read-only registry behind the provider catalogue.

  The JSON-schema validator is code outside the repository and the parameter \<open>schema\<close>; the file system is the
  listing of the directory and the parameter \<open>read\<close>. \<open>sort.Slice\<close> may order equal elements in any way; the keys
  it sorts by here are distinct in every loaded catalogue, so its result is determined.
\<close>

section \<open>Presets (preset.go)\<close>

definition AllStatuses :: "string list" where
  "AllStatuses = [''research'', ''candidate'', ''verified'', ''deprecated'', ''community'']"

definition status_Valid :: "string \<Rightarrow> bool" where
  "status_Valid s \<longleftrightarrow> list_ex (\<lambda>k. s = k) AllStatuses"

record Panel =
  paName :: string
  paAPI :: string
  paAPIPort :: int
  paSSHRequired :: bool

record Capabilities =
  caNodeRuntime :: string
  caRestartMethod :: string
  caSSLProvider :: string
  caDatabaseEngines :: "string list"
  caGitAvailable :: bool
  caSFTPAvailable :: bool
  caLogsPathKnown :: bool
  caSafeRestart :: bool

record Paths =
  ptDeployPathTemplate :: string
  ptLogPathTemplate :: string
  ptEnvPathTemplate :: string
  ptNodeVersionsPath :: string

record Verified =
  veFixtureDir :: string
  veLastVerifiedAt :: string
  veVerifiedBy :: string

record Preset =
  prSchemaVersion :: int
  prID :: string
  prDisplayName :: string
  prProviderType :: string
  prStatus :: string
  prMarkets :: "string list"
  prPanel :: Panel
  prCapabilities :: Capabilities
  prPaths :: Paths
  prProbes :: "string list"
  prKnownRisks :: "string list"
  prSources :: "string list"
  prVerified :: Verified

definition RegionPoland :: string where "RegionPoland = ''Poland''"
definition RegionEurope :: string where "RegionEurope = ''Europe''"
definition RegionGlobal :: string where "RegionGlobal = ''Global''"
definition RegionAdvanced :: string where "RegionAdvanced = ''Advanced''"

lemmas region_defs = RegionPoland_def RegionEurope_def RegionGlobal_def RegionAdvanced_def

definition europeanMarkets :: "string list" where
  "europeanMarkets = [''AT'', ''BE'', ''BG'', ''CH'', ''CY'', ''CZ'', ''DE'', ''DK'', ''EE'', ''ES'', ''FI'', ''FR'', ''GR'',
     ''HR'', ''HU'', ''IE'', ''IT'', ''LT'', ''LU'', ''LV'', ''MT'', ''NL'', ''NO'', ''PT'', ''RO'', ''SE'', ''SI'', ''SK'', ''UA'',
     ''UK'', ''GB'']"

definition isEuropeanMarket :: "string \<Rightarrow> bool" where
  "isEuropeanMarket code \<longleftrightarrow> code \<in> set europeanMarkets"

definition Region :: "Preset \<Rightarrow> string" where
  "Region p =
    (case prMarkets p of
       [] \<Rightarrow> RegionAdvanced
     | first # _ \<Rightarrow>
         if first = ''PL'' then RegionPoland
         else if first = ''global'' then RegionGlobal
         else if isEuropeanMarket first then RegionEurope
         else RegionGlobal)"

definition hasDatabase :: "string list \<Rightarrow> bool" where
  "hasDatabase engines \<longleftrightarrow> list_ex (\<lambda>e. e \<noteq> '''' \<and> e \<noteq> ''none'') engines"

definition badge :: "bool \<Rightarrow> string \<Rightarrow> string list" where
  "badge b s = (if b then [s] else [])"

definition CapabilityBadges :: "Preset \<Rightarrow> string list" where
  "CapabilityBadges p =
    (let ca = prCapabilities p; pa = prPanel p
     in badge (paSSHRequired pa) ''SSH''
      @ badge (paAPI pa \<noteq> ''none'' \<and> paAPI pa \<noteq> ''ssh_only'') ''API''
      @ badge (caNodeRuntime ca \<noteq> '''' \<and> caNodeRuntime ca \<noteq> ''static_only'' \<and> caNodeRuntime ca \<noteq> ''unknown'') ''Node''
      @ badge (caSSLProvider ca \<noteq> '''' \<and> caSSLProvider ca \<noteq> ''none'') ''SSL''
      @ badge (hasDatabase (caDatabaseEngines ca)) ''DB''
      @ badge (caLogsPathKnown ca) ''Logs''
      @ badge (caSafeRestart ca) ''Safe Restart''
      @ badge (veFixtureDir (prVerified p) \<noteq> '''') ''Fixtures'')"

section \<open>Validation (validator.go)\<close>

definition pr_secretPatterns :: "re list" where
  "pr_secretPatterns =
     [seqs [WordB, lit ''gh'', Cls (\<lambda>c. c \<in> set ''ps''), lit ''_'', between 36 255 (Cls alnum), WordB],
      seqs [WordB, lit ''github_pat_'', at_least 20 (Cls (\<lambda>c. alnum c \<or> c = CHR ''_'')), WordB],
      seqs [WordB, lit ''sk-'', at_least 16 (Cls (\<lambda>c. alnum c \<or> c \<in> set ''_-'')), WordB],
      seqs [lit ''-----BEGIN '', plus (Cls (\<lambda>c. is_upper c \<or> c = CHR '' '')), lit ''PRIVATE KEY-----''],
      seqs [WordB, lit ''AKIA'', times 16 (Cls (\<lambda>c. is_digit c \<or> is_upper c)), WordB],
      seqs [WordB, lit ''ssh-'', alts [lit ''rsa'', lit ''ed25519'', lit ''dss'', lit ''ecdsa''], plus re_space,
        at_least 40 (Cls (\<lambda>c. alnum c \<or> c \<in> set ''+/=''))]]"

definition pr_secret_string :: "string \<Rightarrow> bool" where
  "pr_secret_string s \<longleftrightarrow> list_ex (\<lambda>p. match_string p s) pr_secretPatterns"

fun pr_walkStrings :: "json \<Rightarrow> goerr option" where
  "pr_walkStrings (JObj kvs) = first_error (\<lambda>kv. pr_walkStrings (snd kv)) kvs"
| "pr_walkStrings (JArr xs) = first_error pr_walkStrings xs"
| "pr_walkStrings (JStr s) = (if pr_secret_string s then Some [PresetE ErrSecretInPreset] else None)"
| "pr_walkStrings JNull = None"
| "pr_walkStrings (JBool b) = None"
| "pr_walkStrings (JNum n) = None"
| "pr_walkStrings (JFrac s) = None"

definition ValidateRaw :: "(json \<Rightarrow> bool) \<Rightarrow> content \<Rightarrow> goerr option" where
  "ValidateRaw schema raw =
    (case raw of
       Blob _ \<Rightarrow> Some [PresetE ErrPresetJSON]
     | Doc doc \<Rightarrow> if \<not> schema doc then Some [PresetE ErrPresetSchema] else pr_walkStrings doc)"

definition json_panel :: "json \<Rightarrow> Panel option" where
  "json_panel j = Option.bind (jmembers j) (\<lambda>m.
     Option.bind (jstring (jget ''name'' m)) (\<lambda>n. Option.bind (jstring (jget ''api'' m)) (\<lambda>a.
     Option.bind (jint (jget ''api_port'' m)) (\<lambda>p. Option.bind (jbool (jget ''ssh_required'' m)) (\<lambda>s.
     Some \<lparr>paName = n, paAPI = a, paAPIPort = p, paSSHRequired = s\<rparr>)))))"

definition json_capabilities :: "json \<Rightarrow> Capabilities option" where
  "json_capabilities j = Option.bind (jmembers j) (\<lambda>m.
     Option.bind (jstring (jget ''node_runtime'' m)) (\<lambda>nr. Option.bind (jstring (jget ''restart_method'' m)) (\<lambda>rm.
     Option.bind (jstring (jget ''ssl_provider'' m)) (\<lambda>sp. Option.bind (jlist jstring (jget ''database_engines'' m)) (\<lambda>de.
     Option.bind (jbool (jget ''git_available'' m)) (\<lambda>ga. Option.bind (jbool (jget ''sftp_available'' m)) (\<lambda>sa.
     Option.bind (jbool (jget ''logs_path_known'' m)) (\<lambda>lk. Option.bind (jbool (jget ''safe_restart'' m)) (\<lambda>sr.
     Some \<lparr>caNodeRuntime = nr, caRestartMethod = rm, caSSLProvider = sp, caDatabaseEngines = de, caGitAvailable = ga,
           caSFTPAvailable = sa, caLogsPathKnown = lk, caSafeRestart = sr\<rparr>)))))))))"

definition json_paths :: "json \<Rightarrow> Paths option" where
  "json_paths j = Option.bind (jmembers j) (\<lambda>m.
     Option.bind (jstring (jget ''deploy_path_template'' m)) (\<lambda>d. Option.bind (jstring (jget ''log_path_template'' m)) (\<lambda>l.
     Option.bind (jstring (jget ''env_path_template'' m)) (\<lambda>e. Option.bind (jstring (jget ''node_versions_path'' m)) (\<lambda>n.
     Some \<lparr>ptDeployPathTemplate = d, ptLogPathTemplate = l, ptEnvPathTemplate = e, ptNodeVersionsPath = n\<rparr>)))))"

definition json_verified :: "json \<Rightarrow> Verified option" where
  "json_verified j = Option.bind (jmembers j) (\<lambda>m.
     Option.bind (jstring (jget ''fixture_dir'' m)) (\<lambda>f. Option.bind (jstring (jget ''last_verified_at'' m)) (\<lambda>l.
     Option.bind (jstring (jget ''verified_by'' m)) (\<lambda>v.
     Some \<lparr>veFixtureDir = f, veLastVerifiedAt = l, veVerifiedBy = v\<rparr>))))"

definition json_preset :: "json \<Rightarrow> Preset option" where
  "json_preset j = Option.bind (jmembers j) (\<lambda>m.
     Option.bind (jint (jget ''schema_version'' m)) (\<lambda>sv. Option.bind (jstring (jget ''id'' m)) (\<lambda>i.
     Option.bind (jstring (jget ''display_name'' m)) (\<lambda>dn. Option.bind (jstring (jget ''provider_type'' m)) (\<lambda>pt.
     Option.bind (jstring (jget ''status'' m)) (\<lambda>st. Option.bind (jlist jstring (jget ''markets'' m)) (\<lambda>mk.
     Option.bind (json_panel (jget ''panel'' m)) (\<lambda>pa. Option.bind (json_capabilities (jget ''capabilities'' m)) (\<lambda>ca.
     Option.bind (json_paths (jget ''paths'' m)) (\<lambda>ph. Option.bind (jlist jstring (jget ''probes'' m)) (\<lambda>pb.
     Option.bind (jlist jstring (jget ''known_risks'' m)) (\<lambda>kr. Option.bind (jlist jstring (jget ''sources'' m)) (\<lambda>so.
     Option.bind (json_verified (jget ''verified'' m)) (\<lambda>ve.
     Some \<lparr>prSchemaVersion = sv, prID = i, prDisplayName = dn, prProviderType = pt, prStatus = st, prMarkets = mk,
           prPanel = pa, prCapabilities = ca, prPaths = ph, prProbes = pb, prKnownRisks = kr, prSources = so,
           prVerified = ve\<rparr>))))))))))))))"

definition Parse :: "(json \<Rightarrow> bool) \<Rightarrow> content \<Rightarrow> Preset res" where
  "Parse schema raw =
    (case ValidateRaw schema raw of
       Some e \<Rightarrow> Inl e
     | None \<Rightarrow> (case raw of
           Blob _ \<Rightarrow> Inl [PresetE ErrInvalidPreset]
         | Doc doc \<Rightarrow> (case json_preset doc of
               None \<Rightarrow> Inl [PresetE ErrInvalidPreset]
             | Some p \<Rightarrow> if \<not> status_Valid (prStatus p) then Inl [PresetE ErrPresetSchema] else Inr p)))"

section \<open>Loading (loader.go)\<close>

record DirEntry =
  deName :: string
  deIsDir :: bool

record LoadResult =
  lrPresets :: "Preset list"
  lrErrors :: "goerr gomap"

definition shouldLoadEntry :: "DirEntry \<Rightarrow> bool" where
  "shouldLoadEntry e \<longleftrightarrow>
    (if deIsDir e then False
     else if deName e = ''schema.json'' then False
     else if has_prefix (deName e) ''_'' then False
     else has_suffix (deName e) ''.json'')"

text \<open>The loop of \<open>loadDir\<close>; \<open>byID\<close> maps a preset id to the file that declared it.\<close>

fun load_entries :: "(json \<Rightarrow> bool) \<Rightarrow> (string \<Rightarrow> content res) \<Rightarrow> string \<Rightarrow> DirEntry list \<Rightarrow> string gomap \<Rightarrow> LoadResult \<Rightarrow> LoadResult"
where
  "load_entries schema read dir [] byID res = res"
| "load_entries schema read dir (entry # rest) byID res =
    (let name = deName entry;
       failed = (\<lambda>e. res\<lparr>lrErrors := mput name e (lrErrors res)\<rparr>)
     in if \<not> shouldLoadEntry entry then load_entries schema read dir rest byID res
        else case read (fp_Join dir name) of
          Inl e \<Rightarrow> load_entries schema read dir rest byID (failed e)
        | Inr raw \<Rightarrow> (case Parse schema raw of
            Inl e \<Rightarrow> load_entries schema read dir rest byID (failed e)
          | Inr preset \<Rightarrow>
              if name \<noteq> prID preset @ ''.json''
              then load_entries schema read dir rest byID (failed [PresetE ErrInvalidPreset])
              else if map_of byID (prID preset) \<noteq> None
              then load_entries schema read dir rest byID (failed [PresetE ErrDuplicateID])
              else load_entries schema read dir rest (mput (prID preset) name byID)
                (res\<lparr>lrPresets := lrPresets res @ [preset]\<rparr>)))"

definition loadDir :: "(json \<Rightarrow> bool) \<Rightarrow> (string \<Rightarrow> content res) \<Rightarrow> string \<Rightarrow> DirEntry list res \<Rightarrow> LoadResult res" where
  "loadDir schema read dir listing =
    (case listing of
       Inl e \<Rightarrow> Inl e
     | Inr entries \<Rightarrow>
         let res = load_entries schema read dir entries [] \<lparr>lrPresets = [], lrErrors = []\<rparr>
         in Inr (res\<lparr>lrPresets := sort_key prID (lrPresets res)\<rparr>))"

section \<open>Registry (registry.go)\<close>

record Registry =
  rgPresets :: "Preset list"
  rgByID :: "Preset gomap"
  rgLoadErrs :: "goerr gomap"

definition NewRegistryFromResult :: "LoadResult \<Rightarrow> Registry" where
  "NewRegistryFromResult res = \<lparr>rgPresets = sort_key prID (lrPresets res),
     rgByID = fold (\<lambda>p. mput (prID p) p) (lrPresets res) [], rgLoadErrs = lrErrors res\<rparr>"

definition reg_List :: "Registry \<Rightarrow> Preset list" where "reg_List r = rgPresets r"

definition Get :: "string \<Rightarrow> Registry \<Rightarrow> Preset res" where
  "Get i r = (case map_of (rgByID r) i of None \<Rightarrow> Inl [PresetE ErrPresetNotFound] | Some p \<Rightarrow> Inr p)"

definition statusRank :: "string \<Rightarrow> nat" where
  "statusRank s =
    (if s = ''verified'' then 0 else if s = ''candidate'' then 1 else if s = ''research'' then 2
     else if s = ''community'' then 3 else if s = ''deprecated'' then 4 else 5)"

definition sortByStatusThenID :: "Preset list \<Rightarrow> Preset list" where
  "sortByStatusThenID ps = sort_key (\<lambda>p. (statusRank (prStatus p), prID p)) ps"

definition ByProviderType :: "string \<Rightarrow> Registry \<Rightarrow> Preset list" where
  "ByProviderType ty r = sortByStatusThenID (filter (\<lambda>p. prProviderType p = ty) (rgPresets r))"

definition ByRegion :: "string \<Rightarrow> Registry \<Rightarrow> Preset list" where
  "ByRegion region r = sortByStatusThenID (filter (\<lambda>p. Region p = region) (rgPresets r))"

definition Regions :: "Registry \<Rightarrow> string list" where
  "Regions r = filter (\<lambda>region. region \<in> Region ` set (rgPresets r))
    [RegionPoland, RegionEurope, RegionGlobal, RegionAdvanced]"

definition LoadErrors :: "Registry \<Rightarrow> goerr gomap" where "LoadErrors r = rgLoadErrs r"

definition Count :: "Registry \<Rightarrow> nat" where "Count r = length (rgPresets r)"

section \<open>The loaded catalogue\<close>

definition load_ok ::
  "(json \<Rightarrow> bool) \<Rightarrow> (string \<Rightarrow> content res) \<Rightarrow> string \<Rightarrow> string set \<Rightarrow> string gomap \<Rightarrow> LoadResult \<Rightarrow> bool" where
  "load_ok schema read dir seen byID res \<longleftrightarrow>
    (\<forall>i. map_of byID i \<noteq> None \<longleftrightarrow> i \<in> prID ` set (lrPresets res))
    \<and> distinct (map prID (lrPresets res))
    \<and> (\<lambda>p. prID p @ ''.json'') ` set (lrPresets res) \<union> dom (map_of (lrErrors res)) = seen
    \<and> (\<lambda>p. prID p @ ''.json'') ` set (lrPresets res) \<inter> dom (map_of (lrErrors res)) = {}
    \<and> (\<forall>p \<in> set (lrPresets res). \<exists>raw. read (fp_Join dir (prID p @ ''.json'')) = Inr raw \<and> Parse schema raw = Inr p)
    \<and> (\<forall>n e. map_of (lrErrors res) n = Some e \<and> PresetE ErrDuplicateID \<in> set e \<longrightarrow> read (fp_Join dir n) = Inl e)"

lemma load_ok_error:
  assumes "load_ok schema read dir seen byID res" "n \<notin> seen"
    and "PresetE ErrDuplicateID \<in> set e \<longrightarrow> read (fp_Join dir n) = Inl e"
  shows "load_ok schema read dir (insert n seen) byID (res\<lparr>lrErrors := mput n e (lrErrors res)\<rparr>)"
  using assms by (auto simp: load_ok_def)

lemma load_ok_preset:
  assumes "load_ok schema read dir seen byID res" "prID p @ ''.json'' \<notin> seen"
    and "read (fp_Join dir (prID p @ ''.json'')) = Inr raw" "Parse schema raw = Inr p"
  shows "load_ok schema read dir (insert (prID p @ ''.json'') seen) (mput (prID p) n byID)
    (res\<lparr>lrPresets := lrPresets res @ [p]\<rparr>)"
proof -
  have "prID p \<notin> prID ` set (lrPresets res)" using assms(1,2) by (auto simp: load_ok_def)
  then show ?thesis using assms by (auto simp: load_ok_def)
qed

lemma Parse_no_dup: "Parse schema raw = Inl e \<Longrightarrow> PresetE ErrDuplicateID \<notin> set e"
proof -
  have walk: "pr_walkStrings j = Some e \<Longrightarrow> e = [PresetE ErrSecretInPreset]" for j e
    by (induction j arbitrary: e rule: pr_walkStrings.induct) (auto split: if_splits dest!: first_error_in)
  assume "Parse schema raw = Inl e"
  then show ?thesis
    by (auto simp: Parse_def ValidateRaw_def split: option.splits content.splits if_splits dest!: walk)
qed

lemma load_entries_ok:
  "load_ok schema read dir seen byID res \<Longrightarrow> distinct (map deName es) \<Longrightarrow> seen \<inter> deName ` set es = {} \<Longrightarrow>
    \<exists>byID'. load_ok schema read dir (seen \<union> deName ` {e \<in> set es. shouldLoadEntry e}) byID'
      (load_entries schema read dir es byID res)"
proof (induction es arbitrary: seen byID res)
  case Nil
  then show ?case by auto
next
  case (Cons e es)
  let ?n = "deName e"
  let ?goal = "\<lambda>b r. \<exists>byID'. load_ok schema read dir (insert ?n seen \<union> deName ` {e \<in> set es. shouldLoadEntry e}) byID'
      (load_entries schema read dir es b r)"
  have n: "?n \<notin> seen" "?n \<notin> deName ` set es" using Cons.prems by auto
  have go: "?goal b r" if "load_ok schema read dir (insert ?n seen) b r" for b r
    using Cons.IH [OF that] Cons.prems n by auto
  have err: "?goal byID (res\<lparr>lrErrors := mput ?n x (lrErrors res)\<rparr>)"
    if "PresetE ErrDuplicateID \<in> set x \<longrightarrow> read (fp_Join dir ?n) = Inl x" for x
    using go load_ok_error [OF Cons.prems(1) n(1) that] by blast
  show ?case
  proof (cases "shouldLoadEntry e")
    case False
    then have "{x \<in> set (e # es). shouldLoadEntry x} = {x \<in> set es. shouldLoadEntry x}" by auto
    then show ?thesis using Cons.IH [OF Cons.prems(1)] Cons.prems False by (simp add: Let_def)
  next
    case True
    then have names: "seen \<union> deName ` {x \<in> set (e # es). shouldLoadEntry x}
        = insert ?n seen \<union> deName ` {x \<in> set es. shouldLoadEntry x}" by auto
    consider x where "read (fp_Join dir ?n) = Inl x"
      | raw x where "read (fp_Join dir ?n) = Inr raw" "Parse schema raw = Inl x"
      | raw p where "read (fp_Join dir ?n) = Inr raw" "Parse schema raw = Inr p"
      by (meson sum.exhaust)
    then have "\<exists>byID'. load_ok schema read dir (insert ?n seen \<union> deName ` {e \<in> set es. shouldLoadEntry e}) byID'
        (load_entries schema read dir (e # es) byID res)"
    proof cases
      case 1
      then show ?thesis using err [of x] True by (simp add: Let_def)
    next
      case 2
      then show ?thesis using err [of x] Parse_no_dup [OF 2(2)] True by (simp add: Let_def)
    next
      case 3
      show ?thesis
      proof (cases "?n = prID p @ ''.json''")
        case False
        then show ?thesis using err [of "[PresetE ErrInvalidPreset]"] 3 True by (simp add: Let_def)
      next
        case named: True
        then have "map_of byID (prID p) = None" using Cons.prems(1) n(1) by (auto simp: load_ok_def)
        moreover have "?goal (mput (prID p) ?n byID) (res\<lparr>lrPresets := lrPresets res @ [p]\<rparr>)"
          using go load_ok_preset [OF Cons.prems(1), of p raw ?n] n(1) named 3 by simp
        ultimately show ?thesis using named 3 True by (simp add: Let_def)
      qed
    qed
    then show ?thesis unfolding names .
  qed
qed

lemma loadDir_ok:
  assumes "loadDir schema read dir (Inr es) = Inr res" "distinct (map deName es)"
  obtains byID r where "load_ok schema read dir (deName ` {e \<in> set es. shouldLoadEntry e}) byID r"
    "res = r\<lparr>lrPresets := sort_key prID (lrPresets r)\<rparr>"
proof -
  have "load_ok schema read dir {} [] \<lparr>lrPresets = [], lrErrors = []\<rparr>" by (simp add: load_ok_def)
  from load_entries_ok [OF this assms(2)] show ?thesis
    using that assms(1) by (auto simp: loadDir_def Let_def)
qed

section \<open>Properties\<close>

text \<open>
  One bad preset never hides another: loading a directory sorts its preset files into presets and errors, each
  file into exactly one of them; every preset is what its file parses to, is stored under the name of its id, and
  ids are distinct and in order. The error for a duplicate id never arises from the loader itself.
\<close>

theorem loadDir_partitions:
  assumes "loadDir schema read dir (Inr es) = Inr res" "distinct (map deName es)"
  shows "(\<lambda>p. prID p @ ''.json'') ` set (lrPresets res) \<union> dom (map_of (lrErrors res)) = deName ` {e \<in> set es. shouldLoadEntry e}
    \<and> (\<lambda>p. prID p @ ''.json'') ` set (lrPresets res) \<inter> dom (map_of (lrErrors res)) = {}
    \<and> (\<forall>p \<in> set (lrPresets res). \<exists>raw. read (fp_Join dir (prID p @ ''.json'')) = Inr raw \<and> Parse schema raw = Inr p)
    \<and> sorted (map prID (lrPresets res)) \<and> distinct (map prID (lrPresets res))
    \<and> (\<forall>n e. map_of (lrErrors res) n = Some e \<and> PresetE ErrDuplicateID \<in> set e \<longrightarrow> read (fp_Join dir n) = Inl e)"
proof -
  obtain byID r where r: "load_ok schema read dir (deName ` {e \<in> set es. shouldLoadEntry e}) byID r"
    "res = r\<lparr>lrPresets := sort_key prID (lrPresets r)\<rparr>" by (rule loadDir_ok [OF assms])
  have "mset (map prID (sort_key prID (lrPresets r))) = mset (map prID (lrPresets r))" by simp
  then have "distinct (map prID (sort_key prID (lrPresets r))) = distinct (map prID (lrPresets r))"
    by (metis mset_eq_imp_distinct_iff)
  then show ?thesis using r by (auto simp: load_ok_def)
qed

lemma fold_mput:
  "distinct (map prID ps) \<Longrightarrow> map_of (fold (\<lambda>p. mput (prID p) p) ps m) i = Some p \<longleftrightarrow>
    (p \<in> set ps \<and> prID p = i) \<or> (i \<notin> prID ` set ps \<and> map_of m i = Some p)"
  by (induction ps arbitrary: m) auto

lemma Region_cases: "Region p \<in> {RegionPoland, RegionEurope, RegionGlobal, RegionAdvanced}"
  by (auto simp: Region_def split: list.splits)

lemma set_Regions: "set (Regions r) = Region ` set (rgPresets r)"
proof -
  have "Region ` set (rgPresets r) \<subseteq> set [RegionPoland, RegionEurope, RegionGlobal, RegionAdvanced]"
    using Region_cases by fastforce
  then show ?thesis unfolding Regions_def set_filter by blast
qed

lemma mset_groups:
  "distinct gs \<Longrightarrow> mset (concat (map (\<lambda>g. ByRegion g r) gs)) = mset (filter (\<lambda>p. Region p \<in> set gs) (rgPresets r))"
proof (induction gs)
  case (Cons g gs)
  have "mset (filter (\<lambda>p. Region p = g) ps) + mset (filter (\<lambda>p. Region p \<in> set gs) ps)
      = mset (filter (\<lambda>p. Region p = g \<or> Region p \<in> set gs) ps)" for ps
    using Cons.prems by (induction ps) auto
  then show ?case using Cons by (simp add: ByRegion_def sortByStatusThenID_def)
qed simp

text \<open>
  The catalogue shows every preset once: walking the regions of a registry and the presets of each region visits
  exactly the presets of the registry, no group is empty, and each group is ordered by status and then id. A lookup
  by id finds exactly the presets of the registry, provided ids are distinct.
\<close>

theorem registry_catalogue:
  assumes "r = NewRegistryFromResult res" "distinct (map prID (lrPresets res))"
  shows "mset (concat (map (\<lambda>g. ByRegion g r) (Regions r))) = mset (lrPresets res)
    \<and> (\<forall>g \<in> set (Regions r). ByRegion g r \<noteq> []
        \<and> sorted (map (\<lambda>p. (statusRank (prStatus p), prID p)) (ByRegion g r)))
    \<and> (Get i r = Inr p \<longleftrightarrow> p \<in> set (lrPresets res) \<and> prID p = i)"
proof (intro conjI ballI)
  have ps: "mset (rgPresets r) = mset (lrPresets res)" by (simp add: assms(1) NewRegistryFromResult_def)
  have "distinct (Regions r)" by (simp add: Regions_def region_defs)
  moreover have "filter (\<lambda>p. Region p \<in> set (Regions r)) (rgPresets r) = rgPresets r"
    unfolding set_Regions by (simp add: filter_id_conv)
  ultimately show "mset (concat (map (\<lambda>g. ByRegion g r) (Regions r))) = mset (lrPresets res)"
    using mset_groups [of "Regions r" r] ps by simp
  show "Get i r = Inr p \<longleftrightarrow> p \<in> set (lrPresets res) \<and> prID p = i"
    using fold_mput [OF assms(2), of "[]" i p] by (auto simp: Get_def assms(1) NewRegistryFromResult_def split: option.splits)
  fix g assume "g \<in> set (Regions r)"
  then obtain q where "q \<in> set (rgPresets r)" "Region q = g" by (auto simp: set_Regions)
  then have "q \<in> set (ByRegion g r)" by (simp add: ByRegion_def sortByStatusThenID_def)
  then show "ByRegion g r \<noteq> []" by auto
  show "sorted (map (\<lambda>p. (statusRank (prStatus p), prID p)) (ByRegion g r))"
    by (simp add: ByRegion_def sortByStatusThenID_def)
qed

definition example_preset :: json where
  "example_preset = JObj [(''id'', JStr ''mydevil''), (''status'', JStr ''verified'')]"

definition example_loaded :: Preset where
  "example_loaded = the (json_preset example_preset)"

lemma example_preset_safe: "pr_walkStrings example_preset = None"
proof -
  have "\<not> pr_secret_string s" if "list_all (\<lambda>c. c \<notin> set ''_-AK'') s" for s
  proof -
    have "needs (\<lambda>c. c \<in> set ''_-AK'') p" if "p \<in> set pr_secretPatterns" for p
      using that by (auto simp: pr_secretPatterns_def lit_def)
    then show ?thesis using that needs_match_string [of _ s "\<lambda>c. c \<in> set ''_-AK''"]
      by (fastforce simp: pr_secret_string_def list_ex_iff list_all_iff)
  qed
  then show ?thesis by (simp add: example_preset_def)
qed

lemma example_decodes: "json_preset example_preset = Some example_loaded" "prID example_loaded = ''mydevil''"
    "prStatus example_loaded = ''verified''"
  by (simp_all add: example_loaded_def example_preset_def json_preset_def json_panel_def json_capabilities_def
      json_paths_def json_verified_def jget_def to_lower_def lower_char_def less_eq_char_def)

lemma example_parses: "Parse (\<lambda>_. True) (Doc example_preset) = Inr example_loaded"
  by (simp add: Parse_def ValidateRaw_def example_preset_safe example_decodes status_Valid_def AllStatuses_def)

definition example_dir :: "DirEntry list" where
  "example_dir = [\<lparr>deName = ''mydevil.json'', deIsDir = False\<rparr>, \<lparr>deName = ''schema.json'', deIsDir = False\<rparr>]"

lemma example_loads:
  "loadDir (\<lambda>_. True) (\<lambda>_. Inr (Doc example_preset)) ''presets'' (Inr example_dir)
    = Inr \<lparr>lrPresets = [example_loaded], lrErrors = []\<rparr>"
  by (simp add: loadDir_def example_dir_def shouldLoadEntry_def has_prefix_def has_suffix_def example_parses
      example_decodes Let_def)

theorem loadDir_partitions_witness:
  "deName ` {e \<in> set example_dir. shouldLoadEntry e} = {''mydevil.json''}"
  using loadDir_partitions [OF example_loads] by (simp add: example_decodes example_dir_def)

theorem registry_catalogue_witness:
  "Get ''mydevil'' (NewRegistryFromResult \<lparr>lrPresets = [example_loaded], lrErrors = []\<rparr>) = Inr example_loaded"
  using registry_catalogue [of _ "\<lparr>lrPresets = [example_loaded], lrErrors = []\<rparr>" "''mydevil''" example_loaded]
  by (simp add: example_decodes)

end
