(* ===== verification/Live_Logs.thy ===== *)
theory Live_Logs
  imports Log_Redact Ring_Buffer Shell
begin

text \<open>
  Live log lines: terminal escapes and severity (\<open>tui/components/ansi.go\<close>), the remote \<open>tail -f\<close> with its
  reconnects (\<open>services/sshtail\<close>), and the buffer the lines end up in.

  \<^item> The SSH executor is a parameter: \<open>opens n\<close> is the result of the \<open>n\<close>-th \<open>Open\<close>, the bytes the session
    delivers before it ends. The consumer takes every line unless the context is done.
  \<^item> \<open>bufio.Scanner\<close> splits at line feeds, drops one carriage return before them, returns a last line without
    line feed, and stops at a line that does not fit its buffer of 64 KiB.
\<close>

section \<open>Escapes and severity (ansi.go)\<close>

datatype LogLevel = LevelUnknown | LevelDebug | LevelInfo | LevelWarn | LevelError

definition esc :: char where "esc = CHR 0x1B"
definition bel :: char where "bel = CHR 0x07"

definition ansiSGRPattern :: re where
  "ansiSGRPattern = seqs [lit [esc, CHR ''[''], Star (Cls (\<lambda>c. is_digit c \<or> c = CHR '';'' \<or> c = CHR ''?'')),
     Cls (\<lambda>c. is_letter c \<or> c \<in> {CHR ''@'', CHR ''['', CHR 0x5C, CHR '']'', CHR ''^'', CHR ''_'', CHR 0x60, CHR ''{'', CHR ''|'', CHR ''}'', CHR ''~''})]"

definition ansiOSCPattern :: re where
  "ansiOSCPattern = seqs [lit [esc, CHR '']''], Star (Cls (\<lambda>c. c \<noteq> bel \<and> c \<noteq> esc)), Alt (lit [bel]) (lit [esc, CHR 0x5C])]"

definition ansiResidualPattern :: re where
  "ansiResidualPattern = Cls (\<lambda>c. c = bel \<or> c = esc)"

definition ANSIStrip :: "string \<Rightarrow> string" where
  "ANSIStrip line =
    (if line = '''' then ''''
     else replace_matches ansiResidualPattern ''''
       (replace_matches ansiSGRPattern '''' (replace_matches ansiOSCPattern '''' line)))"

definition sgr :: "string \<Rightarrow> string" where "sgr code = [esc, CHR ''[''] @ code @ ''m''"

definition levelFromANSI :: "string \<Rightarrow> LogLevel option" where
  "levelFromANSI line =
    (if contains line (sgr ''31'') \<or> contains line (sgr ''91'') \<or> contains line (sgr ''1;31'') then Some LevelError
     else if contains line (sgr ''33'') \<or> contains line (sgr ''93'') \<or> contains line (sgr ''1;33'') then Some LevelWarn
     else None)"

definition isWordRune :: "char \<Rightarrow> bool" where
  "isWordRune b \<longleftrightarrow> (CHR ''a'' \<le> b \<and> b \<le> CHR ''z'') \<or> (CHR ''A'' \<le> b \<and> b \<le> CHR ''Z'') \<or> (CHR ''0'' \<le> b \<and> b \<le> CHR ''9'')
     \<or> b = CHR ''_''"

text \<open>\<open>strings.Index\<close>; \<open>None\<close> is -1.\<close>

fun str_index :: "string \<Rightarrow> string \<Rightarrow> nat option" where
  "str_index s t =
    (if has_prefix s t then Some 0
     else case s of [] \<Rightarrow> None | x # xs \<Rightarrow> map_option Suc (str_index xs t))"

declare str_index.simps [simp del]

text \<open>The loop of \<open>containsLevelToken\<close> from an occurrence of the (non-empty) token on.\<close>

definition bounded_at :: "string \<Rightarrow> string \<Rightarrow> nat \<Rightarrow> bool" where
  "bounded_at line token idx \<longleftrightarrow>
    (idx = 0 \<or> \<not> isWordRune (line ! (idx - 1)))
    \<and> (idx + length token = length line \<or> \<not> isWordRune (line ! (idx + length token)))"

function token_loop :: "string \<Rightarrow> string \<Rightarrow> nat \<Rightarrow> bool" where
  "token_loop line token idx =
    (if bounded_at line token idx then True
     else if length line \<le> idx then False
     else case str_index (drop (idx + 1) line) token of
       None \<Rightarrow> False
     | Some next \<Rightarrow> token_loop line token (idx + 1 + next))"
  by pat_completeness auto
termination by (relation "measure (\<lambda>(line, token, idx). length line - idx)") auto

declare token_loop.simps [simp del]

definition level_markers :: "string \<Rightarrow> string list" where
  "level_markers token = [''['' @ token @ '']'', ''['' @ token @ '':'', token @ '':'', token @ ''='',
     [dquote] @ ''level'' @ [dquote] @ '':'' @ [dquote] @ token @ [dquote]]"

definition containsLevelToken :: "string \<Rightarrow> string \<Rightarrow> bool" where
  "containsLevelToken line token =
    (if list_ex (contains line) (level_markers token) then True
     else case str_index line token of None \<Rightarrow> False | Some idx \<Rightarrow> token_loop line token idx)"

definition ParseLogLevel :: "string \<Rightarrow> LogLevel" where
  "ParseLogLevel line =
    (if line = '''' then LevelUnknown
     else case levelFromANSI line of Some level \<Rightarrow> level
     | None \<Rightarrow>
         let stripped = trim_space (ANSIStrip line)
         in if stripped = '''' then LevelUnknown
            else
              let lower = str_lower stripped
              in if containsLevelToken lower ''error'' then LevelError
                 else if containsLevelToken lower ''warn'' then LevelWarn
                 else if containsLevelToken lower ''debug'' then LevelDebug
                 else if containsLevelToken lower ''info'' then LevelInfo
                 else LevelInfo)"

section \<open>The remote command (shellescape.go)\<close>

definition shellEscape :: "string \<Rightarrow> string" where
  "shellEscape path =
    (if path = '''' then [squote, squote]
     else [squote] @ replace_all path [squote] [squote, backslash, squote, squote] @ [squote])"

definition validateLogPath :: "string \<Rightarrow> goerr option" where
  "validateLogPath path =
    (if path = '''' then Some [MiscE ErrLogPathInvalid]
     else if contains_any path [CHR 0x0A, CHR 0x0D, CHR 0x09, CHR 0x00] then Some [MiscE ErrLogPathInvalid]
     else if contains path ''..'' then Some [MiscE ErrLogPathInvalid]
     else None)"

definition tail_command :: "string \<Rightarrow> string" where
  "tail_command logPath = ''tail -n 0 -f '' @ shellEscape logPath"

section \<open>The stream (stream.go)\<close>

record Line =
  Timestamp :: int
  Raw :: string
  Level :: LogLevel
  Redacted :: bool

definition defaultMaxLineBytes :: nat where "defaultMaxLineBytes = 65536"

definition drop_cr :: "string \<Rightarrow> string" where
  "drop_cr s = (if s \<noteq> [] \<and> last s = CHR 0x0D then butlast s else s)"

definition scan_lines :: "string \<Rightarrow> string list" where
  "scan_lines s =
    (let ls = split_char (CHR 0x0A) s; ls = (if last ls = '''' then butlast ls else ls)
     in map drop_cr (takeWhile (\<lambda>l. length l < defaultMaxLineBytes) ls))"

text \<open>The lines of one session: the lines sent, whether the consumer is gone, and the context afterwards.\<close>

fun copyLines :: "(string \<Rightarrow> string) \<Rightarrow> int \<Rightarrow> string list \<Rightarrow> ctx \<Rightarrow> Line list \<times> bool \<times> ctx" where
  "copyLines redact now [] c = ([], ctx_err c \<noteq> None, ctx_tick c)"
| "copyLines redact now (text # rest) c =
    (if ctx_err c \<noteq> None then ([], True, c)
     else
       let c = ctx_tick c;
         redacted = redact text;
         line = \<lparr>Timestamp = now, Raw = redacted, Level = ParseLogLevel redacted, Redacted = redacted \<noteq> text\<rparr>
       in if ctx_err c \<noteq> None then ([], True, c)
          else let (out, stopped, c) = copyLines redact now rest (ctx_tick c) in (line # out, stopped, c))"

definition handleOpenFailure :: "int list \<Rightarrow> (int \<Rightarrow> goerr option) \<Rightarrow> nat \<Rightarrow> ctx \<Rightarrow> bool \<times> ctx" where
  "handleOpenFailure backoff sleep attempt c =
    (if length backoff \<le> attempt then (False, c)
     else if sleep (backoff ! attempt) \<noteq> None then (False, c)
     else if ctx_err c \<noteq> None then (False, c)
     else (True, ctx_tick c))"

text \<open>The result is the lines sent and the commands opened, in order.\<close>

function runStream :: "(string \<Rightarrow> string) \<Rightarrow> int \<Rightarrow> int list \<Rightarrow> (int \<Rightarrow> goerr option) \<Rightarrow> (nat \<Rightarrow> string res) \<Rightarrow> string
    \<Rightarrow> nat \<Rightarrow> ctx \<Rightarrow> Line list \<times> string list" where
  "runStream redact now backoff sleep opens logPath attempt c =
    (if ctx_err c \<noteq> None then ([], [])
     else
       let command = tail_command logPath; c = ctx_tick c
       in case opens attempt of
         Inl e \<Rightarrow> (case handleOpenFailure backoff sleep attempt c of
             (False, _) \<Rightarrow> ([], [command])
           | (True, c) \<Rightarrow> (case runStream redact now backoff sleep opens logPath (attempt + 1) c of
               (out, cmds) \<Rightarrow> (out, command # cmds)))
       | Inr text \<Rightarrow> (case copyLines redact now (scan_lines text) c of
             (sent, True, _) \<Rightarrow> (sent, [command])
           | (sent, False, c) \<Rightarrow> (case handleOpenFailure backoff sleep attempt c of
               (False, _) \<Rightarrow> (sent, [command])
             | (True, c) \<Rightarrow> (case runStream redact now backoff sleep opens logPath (attempt + 1) c of
                 (out, cmds) \<Rightarrow> (sent @ out, command # cmds)))))"
  by pat_completeness auto
termination
  by (relation "measure (\<lambda>(r, n, backoff, s, oo, l, attempt, c). Suc (length backoff) - attempt)")
    (auto simp: handleOpenFailure_def split: if_splits)

declare runStream.simps [simp del]

definition Stream ::
  "(string \<Rightarrow> string) \<Rightarrow> int \<Rightarrow> int list \<Rightarrow> (int \<Rightarrow> goerr option) \<Rightarrow> (nat \<Rightarrow> string res) \<Rightarrow> string \<Rightarrow> ctx
    \<Rightarrow> (Line list \<times> string list) res" where
  "Stream redact now backoff sleep opens logPath c =
    (case validateLogPath logPath of
       Some e \<Rightarrow> Inl [MiscE ErrLogPathInvalid]
     | None \<Rightarrow> Inr (runStream redact now (if backoff = [] then [2000000000, 4000000000, 8000000000] else backoff)
         sleep opens logPath 0 c))"

section \<open>Quoting\<close>

lemma sh_read_shellEscape: "sh_read False None (shellEscape p @ rest) = sh_read False (Some p) rest"
  using sh_read_quoted [of "[]" p rest] by (simp add: shellEscape_def squote_def)

section \<open>Occurrences\<close>

definition occurs_at :: "string \<Rightarrow> string \<Rightarrow> nat \<Rightarrow> bool" where
  "occurs_at s t i \<longleftrightarrow> has_prefix (drop i s) t"

lemma str_index_None: "str_index s t = None \<longleftrightarrow> (\<forall>i \<le> length s. \<not> occurs_at s t i)"
proof (induction s)
  case Nil
  then show ?case by (simp add: str_index.simps [of "[]"] occurs_at_def)
next
  case (Cons x s)
  have "(\<forall>i \<le> length (x # s). \<not> occurs_at (x # s) t i) \<longleftrightarrow>
      \<not> has_prefix (x # s) t \<and> (\<forall>i \<le> length s. \<not> occurs_at s t i)" (is "?A \<longleftrightarrow> ?B")
  proof
    assume a: ?A
    then have "\<not> occurs_at s t i" if "i \<le> length s" for i
      using that spec [OF a, of "Suc i"] by (simp add: occurs_at_def)
    then show ?B using spec [OF a, of 0] by (simp add: occurs_at_def)
  next
    assume b: ?B
    have "\<not> occurs_at (x # s) t i" if "i \<le> length (x # s)" for i
      using that b by (cases i) (simp_all add: occurs_at_def)
    then show ?A by blast
  qed
  then show ?case using Cons by (simp add: str_index.simps [of "x # s"])
qed

lemma str_index_Some:
  "str_index s t = Some n \<Longrightarrow> n \<le> length s \<and> occurs_at s t n \<and> (\<forall>i < n. \<not> occurs_at s t i)"
proof (induction s arbitrary: n)
  case Nil
  then show ?case by (auto simp: str_index.simps [of "[]"] occurs_at_def split: if_splits)
next
  case (Cons x s)
  show ?case
  proof (cases "has_prefix (x # s) t")
    case True
    then show ?thesis using Cons.prems by (simp add: str_index.simps [of "x # s"] occurs_at_def)
  next
    case False
    then obtain m where m: "str_index s t = Some m" "n = Suc m"
      using Cons.prems by (auto simp: str_index.simps [of "x # s"])
    have "\<not> occurs_at (x # s) t i" if "i < n" for i
      using that False Cons.IH [OF m(1)] m(2) by (cases i) (auto simp: occurs_at_def)
    then show ?thesis using Cons.IH [OF m(1)] m(2) by (auto simp: occurs_at_def)
  qed
qed

lemma token_loop_iff:
  "t \<noteq> [] \<Longrightarrow> occurs_at s t idx \<Longrightarrow>
    token_loop s t idx \<longleftrightarrow> (\<exists>i \<ge> idx. occurs_at s t i \<and> bounded_at s t i)"
proof (induction s t idx rule: token_loop.induct)
  case (1 s t idx)
  have lt: "idx < length s" using 1(2,3) by (cases "idx < length s") (simp_all add: occurs_at_def has_prefix_def)
  show ?case
  proof (cases "bounded_at s t idx")
    case True
    then show ?thesis using 1(3) by (auto simp: token_loop.simps [of s t idx])
  next
    case False
    show ?thesis
    proof (cases "str_index (drop (idx + 1) s) t")
      case None
      have "\<not> occurs_at s t i" if "idx < i" for i
      proof (cases "i \<le> length s")
        case True
        then show ?thesis using None that
          by (auto simp: str_index_None occurs_at_def dest!: spec [of _ "i - (idx + 1)"])
      next
        case False
        then show ?thesis using 1(2) by (auto simp: occurs_at_def has_prefix_def)
      qed
      then show ?thesis using None False lt by (auto simp: token_loop.simps [of s t idx] le_less)
    next
      case (Some n)
      note n = str_index_Some [OF Some]
      have at: "occurs_at s t (idx + 1 + n)" using n by (simp add: occurs_at_def add.commute)
      have gap: "\<not> occurs_at s t i" if "idx < i" "i < idx + 1 + n" for i
      proof -
        have "i - (idx + 1) < n" using that by simp
        then have "\<not> occurs_at (drop (idx + 1) s) t (i - (idx + 1))" using n by blast
        then show ?thesis using that by (simp add: occurs_at_def)
      qed
      have "token_loop s t idx = token_loop s t (idx + 1 + n)"
        using False lt Some by (simp add: token_loop.simps [of s t idx])
      also have "\<dots> \<longleftrightarrow> (\<exists>i \<ge> idx + 1 + n. occurs_at s t i \<and> bounded_at s t i)"
        using "1.IH" [OF False _ Some 1(2) at] lt by simp
      also have "\<dots> \<longleftrightarrow> (\<exists>i \<ge> idx. occurs_at s t i \<and> bounded_at s t i)"
        using gap False by (metis Suc_eq_plus1 add_leD1 le_less_linear le_neq_implies_less)
      finally show ?thesis .
    qed
  qed
qed

lemma containsLevelToken_iff:
  assumes "t \<noteq> []"
  shows "containsLevelToken s t \<longleftrightarrow>
    list_ex (contains s) (level_markers t) \<or> (\<exists>i. occurs_at s t i \<and> bounded_at s t i)"
proof (cases "str_index s t")
  case None
  have "\<not> occurs_at s t i" for i
    using None assms by (cases "i \<le> length s") (auto simp: str_index_None occurs_at_def has_prefix_def)
  then show ?thesis using None by (simp add: containsLevelToken_def)
next
  case (Some n)
  note n = str_index_Some [OF Some]
  have "token_loop s t n \<longleftrightarrow> (\<exists>i. occurs_at s t i \<and> bounded_at s t i)"
    using token_loop_iff [OF assms, of s n] n by (meson not_le)
  then show ?thesis using Some by (simp add: containsLevelToken_def)
qed

section \<open>Stripping\<close>

lemma replace_none:
  assumes "\<not> match_string r s"
  shows "replace_matches r new s = s"
proof -
  have "find_from r None [] s = None" using assms unfolding match_string_def find_first_def by blast
  then show ?thesis unfolding replace_matches_def by (subst replace_from.simps) simp
qed

lemma find_from_Cls:
  "find_from (Cls P) p acc s = (case dropWhile (\<lambda>c. \<not> P c) s of [] \<Rightarrow> None
    | x # xs \<Rightarrow> Some (rev (takeWhile (\<lambda>c. \<not> P c) s) @ acc, [x], (Some x, xs, [])))"
proof (induction s arbitrary: p acc)
  case Nil
  show ?case by (subst find_from.simps) simp
next
  case (Cons a s)
  show ?case
  proof (cases "P a")
    case True
    then show ?thesis by (subst find_from.simps) simp
  next
    case False
    then have "find_from (Cls P) p acc (a # s) = find_from (Cls P) (Some a) (a # acc) s"
      by (subst find_from.simps) simp
    then show ?thesis using Cons False
      by (cases "dropWhile (\<lambda>c. \<not> P c) s") (simp_all del: dropWhile_eq_Nil_conv)
  qed
qed

lemma filter_at_first: "dropWhile (\<lambda>c. \<not> P c) s = x # xs \<Longrightarrow>
    filter (\<lambda>c. \<not> P c) s = takeWhile (\<lambda>c. \<not> P c) s @ filter (\<lambda>c. \<not> P c) xs \<and> length xs < length s"
  by (induction s) (auto split: if_splits)

lemma replace_Cls: "replace_from (Cls P) [] p s = filter (\<lambda>c. \<not> P c) s"
proof (induction "length s" arbitrary: p s rule: less_induct)
  case less
  show ?case
  proof (cases "dropWhile (\<lambda>c. \<not> P c) s")
    case Nil
    then have "filter (\<lambda>c. \<not> P c) s = s" by (auto simp: dropWhile_eq_Nil_conv filter_id_conv)
    moreover have "find_from (Cls P) p [] s = None" unfolding find_from_Cls Nil by simp
    ultimately show ?thesis by (subst replace_from.simps) simp
  next
    case (Cons x xs)
    note f = filter_at_first [OF Cons]
    have "find_from (Cls P) p [] s = Some (rev (takeWhile (\<lambda>c. \<not> P c) s), [x], (Some x, xs, []))"
      using Cons by (simp add: find_from_Cls)
    then show ?thesis using f less [of xs "Some x"] by (subst replace_from.simps) simp
  qed
qed

lemma ANSIStrip_clean: "set (ANSIStrip s) \<subseteq> set s - {esc, bel}"
proof -
  have sub: "set (replace_matches r [] t) \<subseteq> set t" for r t
    using replace_from_props [of "[]" r None t] by (simp add: replace_matches_def)
  let ?t = "replace_matches ansiSGRPattern [] (replace_matches ansiOSCPattern [] s)"
  have "set ?t \<subseteq> set s" using sub [of ansiSGRPattern] sub [of ansiOSCPattern] by blast
  moreover have "replace_matches ansiResidualPattern [] ?t = filter (\<lambda>c. \<not> (c = bel \<or> c = esc)) ?t"
    unfolding replace_matches_def ansiResidualPattern_def by (rule replace_Cls)
  ultimately show ?thesis by (auto simp: ANSIStrip_def)
qed

lemma ANSIStrip_plain:
  assumes "esc \<notin> set s" "bel \<notin> set s"
  shows "ANSIStrip s = s"
proof -
  have "needs (\<lambda>c. c = esc \<or> c = bel) r" if "r \<in> {ansiOSCPattern, ansiSGRPattern, ansiResidualPattern}" for r
    using that by (auto simp: ansiOSCPattern_def ansiSGRPattern_def ansiResidualPattern_def lit_def)
  then have "\<not> match_string r s" if "r \<in> {ansiOSCPattern, ansiSGRPattern, ansiResidualPattern}" for r
    using that assms needs_match_string [of r s "\<lambda>c. c = esc \<or> c = bel"] by blast
  then show ?thesis by (simp add: ANSIStrip_def replace_none)
qed

section \<open>Streams\<close>

definition clean_line :: "Line \<Rightarrow> bool" where
  "clean_line l \<longleftrightarrow> \<not> match_string ghRe (Raw l) \<and> \<not> match_string patRe (Raw l) \<and> \<not> match_string akiaRe (Raw l)
    \<and> \<not> match_string skRe (Raw l) \<and> Level l = ParseLogLevel (Raw l)"

lemma copyLines_clean: "copyLines Redact now ls c = (out, b, c') \<Longrightarrow> list_all clean_line out"
proof (induction ls arbitrary: out b c c')
  case (Cons l rest)
  then show ?case
    by (auto simp: Let_def clean_line_def Redact_tokens split: if_splits prod.splits)
qed simp

lemma handleOpenFailure_True: "handleOpenFailure backoff sleep attempt c = (True, c') \<Longrightarrow> attempt < length backoff"
  by (auto simp: handleOpenFailure_def split: if_splits)

lemma runStream_bound:
  assumes "attempt \<le> length backoff" "runStream Redact now backoff sleep opens p attempt c = (out, cmds)"
  shows "list_all clean_line out \<and> length cmds \<le> Suc (length backoff) - attempt \<and> set cmds \<subseteq> {tail_command p}"
  using assms
proof (induction "length backoff - attempt" arbitrary: attempt c out cmds rule: less_induct)
  case less
  have next_: "list_all clean_line out' \<and> Suc (length cmds') \<le> Suc (length backoff) - attempt
      \<and> set cmds' \<subseteq> {tail_command p}"
    if h: "handleOpenFailure backoff sleep attempt d = (True, d')"
      and r: "runStream Redact now backoff sleep opens p (attempt + 1) d' = (out', cmds')" for d d' out' cmds'
    using less.hyps [OF _ _ r] handleOpenFailure_True [OF h] by fastforce
  show ?case
    using less.prems next_ copyLines_clean
    by (subst (asm) runStream.simps) (fastforce simp: Let_def split: if_splits sum.splits prod.splits bool.splits)
qed

lemma runStream_exhausts:
  assumes "\<And>n. \<exists>e. opens n = Inl e" "\<And>d. sleep d = None" "attempt \<le> length backoff"
  shows "runStream redact now backoff sleep opens p attempt None
    = ([], replicate (Suc (length backoff) - attempt) (tail_command p))"
  using assms(3)
proof (induction "length backoff - attempt" arbitrary: attempt rule: less_induct)
  case less
  obtain e where e: "opens attempt = Inl e" using assms(1) by blast
  show ?case
  proof (cases "attempt = length backoff")
    case True
    then show ?thesis using e by (subst runStream.simps) (simp add: handleOpenFailure_def)
  next
    case False
    then have "runStream redact now backoff sleep opens p (attempt + 1) None
        = ([], replicate (Suc (length backoff) - (attempt + 1)) (tail_command p))"
      using less.hyps [of "attempt + 1"] less.prems by simp
    moreover have "Suc (length backoff) - attempt = Suc (Suc (length backoff) - (attempt + 1))"
      using False less.prems by simp
    ultimately show ?thesis using e assms(2) False less.prems
      by (subst runStream.simps) (simp add: handleOpenFailure_def)
  qed
qed

section \<open>Properties\<close>

text \<open>
  A log path cannot leave its argument: a shell reads the command of the stream as exactly the five words
  \<open>tail\<close>, \<open>-n\<close>, \<open>0\<close>, \<open>-f\<close> and the path itself, whatever characters the path has.
\<close>

theorem tail_command_words: "sh_words (tail_command p) = Some [''tail'', ''-n'', ''0'', ''-f'', p]"
  using sh_read_shellEscape [of p "[]"]
  by (simp add: sh_words_def tail_command_def squote_def backslash_def sh_special_def dquote_def)


text \<open>
  A dead host is given up: when no session opens, the stream tries once more than the schedule has entries and
  then ends without a line.
\<close>

theorem stream_gives_up:
  assumes "validateLogPath p = None" "\<And>n. \<exists>e. opens n = Inl e" "\<And>d. sleep d = None" "backoff \<noteq> []"
  shows "Stream redact now backoff sleep opens p None = Inr ([], replicate (Suc (length backoff)) (tail_command p))"
  using assms(1,4) runStream_exhausts [of opens sleep 0 backoff redact now p] assms(2,3) by (simp add: Stream_def)

text \<open>
  A severity word counts only as a word: \<open>containsLevelToken\<close> finds a token exactly when one of its marked
  forms occurs, or when the token occurs anywhere with no word character on either side; the search misses no
  occurrence, also when occurrences overlap.
\<close>

theorem containsLevelToken_exact:
  assumes "token \<in> {''error'', ''warn'', ''debug'', ''info''}"
  shows "containsLevelToken line token \<longleftrightarrow>
    list_ex (contains line) (level_markers token) \<or> (\<exists>i. occurs_at line token i \<and> bounded_at line token i)"
  using assms by (intro containsLevelToken_iff) auto

text \<open>Stripped text has no escape or bell character left, and plain text is unchanged.\<close>

theorem ANSIStrip_sound:
  "esc \<notin> set (ANSIStrip s) \<and> bel \<notin> set (ANSIStrip s) \<and> (esc \<in> set s \<or> bel \<in> set s \<or> ANSIStrip s = s)"
  using ANSIStrip_clean [of s] ANSIStrip_plain [of s] by auto


theorem stream_gives_up_witness:
  "Stream Redact 0 [1] (\<lambda>_. None) (\<lambda>_. Inl [OSErr]) ''/home/u/app.log'' None
    = Inr ([], [tail_command ''/home/u/app.log'', tail_command ''/home/u/app.log''])"
  using stream_gives_up [of "''/home/u/app.log''" "\<lambda>_. Inl [OSErr]" "\<lambda>_. None" "[1]" Redact 0]
  by (simp add: validateLogPath_def contains_any_def has_prefix_def)

theorem containsLevelToken_exact_witness: "containsLevelToken ''an error here'' ''error''"
proof -
  have "occurs_at ''an error here'' ''error'' 3 \<and> bounded_at ''an error here'' ''error'' 3"
    by (simp add: occurs_at_def bounded_at_def has_prefix_def isWordRune_def less_eq_char_def)
  then show ?thesis using containsLevelToken_exact [of "''error''" "''an error here''"] by blast
qed

end
