(* ===== verification/Tui_Model.thy ===== *)
theory Tui_Model
  imports Tui_Forms Github Bento Ring_Buffer Presets Live_Logs
begin

text \<open>
  The state of the terminal interface (\<open>src/tui/model.go\<close>, the messages of \<open>messages.go\<close>) and the pure functions its update
  loop and its view share: the CI/CD tile (\<open>cicd.go\<close>), the host-key modal (\<open>host_key_modal.go\<close>), the provider catalogue
  (\<open>provider_catalog.go\<close>) and the dashboard's tiles (\<open>view.go\<close>, the scrolling part of \<open>bento/tiles.go\<close>).

  \<^item> The model is a value that \<open>Update\<close> maps to the next one; the maps it shares with its predecessor are never read through
    the predecessor again, so they are association lists. A nil map that the code writes without a guard is \<open>None\<close>.
  \<^item> The stack slot the wizard commands share is a pointer: here a number, and \<open>mNextSlot\<close> is the allocator.
  \<^item> What the third-party renderer makes of a model is only used as a number of lines: \<open>enBodyLines\<close> of the environment.
\<close>

section \<open>Messages' data (messages.go)\<close>

record ProjectStatus =
  psProjectID :: string
  psHTTPHealth :: string
  psSSLDaysLeft :: int
  psNodeVersion :: string
  psLastDeploy :: string
  psState :: string
  psStale :: bool
  psFetchedAt :: "int option"

definition ProjectUnknown :: string where "ProjectUnknown = ''UNKNOWN''"
definition ProjectOnline :: string where "ProjectOnline = ''ONLINE''"
definition ProjectOffline :: string where "ProjectOffline = ''OFFLINE''"
definition ProjectStale :: string where "ProjectStale = ''STALE''"

definition ProjectActionRestart :: string where "ProjectActionRestart = ''restart''"
definition ProjectActionSSLRenew :: string where "ProjectActionSSLRenew = ''ssl_renew''"
definition ProjectActionLogs :: string where "ProjectActionLogs = ''logs''"

record ImportRow =
  irProfileAlias :: string
  irDomain :: string
  irType :: string
  irNodeVersion :: string
  irManaged :: bool

record CICDLogLineSnapshot =
  csJobName :: string
  csStepName :: string
  csText :: string

record ImportSnapshot =
  isLoading :: bool
  isTotal :: nat
  isManaged :: nat
  isUnmanaged :: nat
  isRows :: "ImportRow list"
  isErr :: string

text \<open>\<open>PipelineFetchResult\<close> of commands.go.\<close>

record PipelineFetchResult =
  pfrRun :: "WorkflowRun option"
  pfrSteps :: "Step list"
  pfrRateLimitHint :: string

section \<open>Forms of the model (model.go, cicd.go, host_key_modal.go)\<close>

record projectActionForm =
  afKind :: string
  afProjectID :: string
  afRunning :: bool
  afOutput :: string
  afErr :: "terr option"

record importPreviewForm =
  ipLoading :: bool
  ipRows :: "ImportRow list"
  ipErr :: string
  ipSaving :: bool

record LiveLogLine =
  lvLevel :: string
  lvText :: string
  lvRedacted :: bool

record liveLogsForm =
  lfProjectID :: string
  lfDomain :: string
  lfLogPath :: string
  lfAutoScroll :: bool
  lfBuffer :: "LiveLogLine RingBuffer option"
  lfScrollOffset :: int
  lfStreamErr :: string
  lfConnected :: bool

record providerCatalogState =
  pcSelectedID :: string
  pcShowDetail :: bool
  pcCopyHint :: string

record HeaderMetricsSnapshot =
  hmProfileAlias :: string
  hmUptimeLabel :: string
  hmLoadLabel :: string
  hmRAMLabel :: string
  hmRTTLabel :: string
  hmUpdatedAt :: "int option"
  hmStale :: bool

datatype CICDStatus =
    CICDStatusUnknown | CICDStatusQueued | CICDStatusInProgress | CICDStatusSuccess | CICDStatusFailure
  | CICDStatusCancelled | CICDStatusSkipped

record cicdRunSummary =
  rsRunID :: int
  rsRunNumber :: int
  rsName :: string
  rsStatus :: string
  rsConclusion :: string
  rsHeaderTime :: time_text
  rsDuration :: string

record cicdSnapshotEntry =
  ceRun :: "cicdRunSummary option"
  ceSteps :: "Step list"
  ceStale :: bool
  ceRateLimited :: bool
  ceRateLimitHint :: string
  ceErr :: string
  ceFetchedAt :: "int option"

record cicdLogsModalForm =
  cmOpen :: bool
  cmProjectID :: string
  cmProjectAlias :: string
  cmRunID :: int
  cmRunNumber :: int
  cmRunStatus :: CICDStatus
  cmLoading :: bool
  cmLines :: "CICDLogLineSnapshot list"
  cmErr :: string
  cmScrollOffset :: int

record hostKeyModalForm =
  hkOpen :: bool
  hkHost :: string
  hkPort :: int
  hkUsername :: string
  hkKind :: string

definition zero_action_form :: projectActionForm where
  "zero_action_form = \<lparr>afKind = [], afProjectID = [], afRunning = False, afOutput = [], afErr = None\<rparr>"

definition zero_import_form :: importPreviewForm where
  "zero_import_form = \<lparr>ipLoading = False, ipRows = [], ipErr = [], ipSaving = False\<rparr>"

definition zero_live_form :: liveLogsForm where
  "zero_live_form = \<lparr>lfProjectID = [], lfDomain = [], lfLogPath = [], lfAutoScroll = False, lfBuffer = None,
     lfScrollOffset = 0, lfStreamErr = [], lfConnected = False\<rparr>"

definition zero_log_line :: LiveLogLine where
  "zero_log_line = \<lparr>lvLevel = [], lvText = [], lvRedacted = False\<rparr>"

definition zero_entry :: cicdSnapshotEntry where
  "zero_entry = \<lparr>ceRun = None, ceSteps = [], ceStale = False, ceRateLimited = False, ceRateLimitHint = [], ceErr = [],
     ceFetchedAt = None\<rparr>"

definition zero_cicd_modal :: cicdLogsModalForm where
  "zero_cicd_modal = \<lparr>cmOpen = False, cmProjectID = [], cmProjectAlias = [], cmRunID = 0, cmRunNumber = 0,
     cmRunStatus = CICDStatusUnknown, cmLoading = False, cmLines = [], cmErr = [], cmScrollOffset = 0\<rparr>"

definition zero_host_key :: hostKeyModalForm where
  "zero_host_key = \<lparr>hkOpen = False, hkHost = [], hkPort = 0, hkUsername = [], hkKind = []\<rparr>"

definition zero_metrics :: HeaderMetricsSnapshot where
  "zero_metrics = \<lparr>hmProfileAlias = [], hmUptimeLabel = [], hmLoadLabel = [], hmRAMLabel = [], hmRTTLabel = [],
     hmUpdatedAt = None, hmStale = False\<rparr>"

section \<open>The model (model.go)\<close>

record Model =
  mState :: State
  mTab :: DetailTab
  mWidth :: int
  mHeight :: int
  mSelected :: int
  mViewport :: int
  mHelp :: bool
  mAlert :: string
  mFocused :: "Slot option"
  mOffsets :: "(Slot \<times> int) list option"
  mCfg :: "Config option"
  mStatuses :: "ProjectStatus gomap"
  mInit :: initWizardForm
  mProject :: projectWizardForm
  mResume :: resumeWizardForm
  mAction :: projectActionForm
  mImport :: importPreviewForm
  mLive :: liveLogsForm
  mMetrics :: HeaderMetricsSnapshot
  mCicd :: "cicdSnapshotEntry gomap"
  mCicdModal :: cicdLogsModalForm
  mHostKey :: hostKeyModalForm
  mHasPipeline :: bool
  mHasLogs :: bool
  mSlot :: "nat option"
  mNextSlot :: nat
  mOverride :: string
  mSpinner :: Mode
  mRefresh :: int
  mCatalog :: providerCatalogState

definition defaultRefreshInterval :: int where "defaultRefreshInterval = 30 * 1000000000"
definition defaultTerminalWidth :: int where "defaultTerminalWidth = 100"
definition defaultTerminalHeight :: int where "defaultTerminalHeight = 30"
definition liveLogsCapacity :: int where "liveLogsCapacity = 1024"
definition GitHubStepsTTL :: int where "GitHubStepsTTL = 10 * 1000000000"

definition fallbackInt :: "int \<Rightarrow> int \<Rightarrow> int" where
  "fallbackInt value def = (if value = 0 then def else value)"

definition cfgProjects :: "Config option \<Rightarrow> Project list" where
  "cfgProjects conf = (case conf of None \<Rightarrow> [] | Some c \<Rightarrow> (case cfProjects c of None \<Rightarrow> [] | Some ps \<Rightarrow> ps))"

definition clampIndex :: "int \<Rightarrow> int \<Rightarrow> int" where
  "clampIndex idx n = (if n \<le> 0 then 0 else if idx < 0 then 0 else if n \<le> idx then n - 1 else idx)"

definition project_count :: "Model \<Rightarrow> int" where
  "project_count m = int (length (cfgProjects (mCfg m)))"

definition BentoMode :: "Model \<Rightarrow> Mode" where
  "BentoMode m = Resolve (mWidth m) (mHeight m) (mOverride m)"

text \<open>\<open>selectedProject\<close> of cicd.go.\<close>

definition selectedProject :: "Model \<Rightarrow> Project option" where
  "selectedProject m =
     (let ps = cfgProjects (mCfg m) in
      if ps = [] \<or> mSelected m < 0 \<or> int (length ps) \<le> mSelected m then None else Some (ps ! nat (mSelected m)))"

definition activeProfileAlias :: "Model \<Rightarrow> string" where
  "activeProfileAlias m =
     (if hmProfileAlias (mMetrics m) \<noteq> [] then hmProfileAlias (mMetrics m)
      else case selectedProject m of None \<Rightarrow> [] | Some p \<Rightarrow> pjProfileAlias p)"

definition metricsAreStale :: "int \<Rightarrow> Model \<Rightarrow> bool" where
  "metricsAreStale tnow m =
     (if hmStale (mMetrics m) then True
      else case hmUpdatedAt (mMetrics m) of None \<Rightarrow> False | Some t \<Rightarrow> time_Sub tnow t > defaultRefreshInterval)"

definition metricsHaveAnyData :: "Model \<Rightarrow> bool" where
  "metricsHaveAnyData m \<longleftrightarrow> hmUptimeLabel (mMetrics m) \<noteq> [] \<or> hmLoadLabel (mMetrics m) \<noteq> [] \<or> hmRAMLabel (mMetrics m) \<noteq> []
     \<or> hmRTTLabel (mMetrics m) \<noteq> [] \<or> hmProfileAlias (mMetrics m) \<noteq> []"

definition get_ImportSnapshot :: "Model \<Rightarrow> ImportSnapshot option" where
  "get_ImportSnapshot m =
     (let f = mImport m in
      if \<not> ipLoading f \<and> ipRows f = [] \<and> ipErr f = [] then None
      else Some \<lparr>isLoading = ipLoading f, isTotal = length (ipRows f), isManaged = length (filter irManaged (ipRows f)),
                 isUnmanaged = length (filter (\<lambda>r. \<not> irManaged r) (ipRows f)), isRows = ipRows f, isErr = ipErr f\<rparr>)"

text \<open>\<open>ProfileByAlias\<close> of wizard_runner.go.\<close>

definition ProfileByAlias :: "Config option \<Rightarrow> string \<Rightarrow> Profile option" where
  "ProfileByAlias conf name = find (\<lambda>p. pfAlias p = name) (profiles_of conf)"

definition zero_profile :: Profile where
  "zero_profile = \<lparr>pfAlias = [], pfType = [], pfHost = [], pfPort = 0, pfUser = [], pfProperties = []\<rparr>"

section \<open>Construction\<close>

record Options =
  opRefreshInterval :: int
  opInitialWidth :: int
  opInitialHeight :: int
  opLayoutOverride :: string
  opHasPipeline :: bool
  opHasLogs :: bool
  opMockHeaderMetrics :: HeaderMetricsSnapshot
  opMockLiveLogLines :: "LiveLogLine list"
  opMockCICDSnapshots :: "cicdSnapshotEntry gomap"
  opPreloadedConfig :: "Config option"

text \<open>
  \<open>fetched\<close> is what the status fetcher returns for the projects of a preloaded configuration, \<open>layout_env\<close> the value of
  \<open>WEBOX_LAYOUT\<close>.
\<close>

definition applyMockStatuses :: "ProjectStatus list \<Rightarrow> Model \<Rightarrow> Model" where
  "applyMockStatuses ss m = m\<lparr>mStatuses := fold (\<lambda>s. mput (psProjectID s) s) ss (mStatuses m)\<rparr>"

definition seeded_logs :: "LiveLogLine list \<Rightarrow> liveLogsForm" where
  "seeded_logs ls = zero_live_form\<lparr>lfAutoScroll := True,
     lfBuffer := push_all ring_Push ls (NewRingBuffer zero_log_line liveLogsCapacity), lfConnected := True\<rparr>"

definition tui_New :: "string \<Rightarrow> (Project list \<Rightarrow> ProjectStatus list option) \<Rightarrow> Options \<Rightarrow> Model" where
  "tui_New layout_env fetched opts =
     (let override = (if opLayoutOverride opts = [] then layout_env else opLayoutOverride opts);
          width = fallbackInt (opInitialWidth opts) defaultTerminalWidth;
          height = fallbackInt (opInitialHeight opts) defaultTerminalHeight;
          m = \<lparr>mState = StateDashboard, mTab = TabOverview, mWidth = width, mHeight = height, mSelected = 0, mViewport = 0,
               mHelp = False, mAlert = [], mFocused = None, mOffsets = None, mCfg = opPreloadedConfig opts, mStatuses = [],
               mInit = newInitWizardForm, mProject = zero_project_form, mResume = zero_resume_form,
               mAction = zero_action_form, mImport = zero_import_form, mLive = zero_live_form,
               mMetrics = opMockHeaderMetrics opts, mCicd = opMockCICDSnapshots opts, mCicdModal = zero_cicd_modal,
               mHostKey = zero_host_key, mHasPipeline = opHasPipeline opts, mHasLogs = opHasLogs opts, mSlot = None,
               mNextSlot = 0, mOverride = override, mSpinner = Resolve width height override,
               mRefresh = (if opRefreshInterval opts \<le> 0 then defaultRefreshInterval else opRefreshInterval opts),
               mCatalog = \<lparr>pcSelectedID = [], pcShowDetail = False, pcCopyHint = []\<rparr>\<rparr>;
          m = (if opPreloadedConfig opts = None then m
               else let m = m\<lparr>mSelected := clampIndex 0 (project_count m)\<rparr>
                    in case fetched (cfgProjects (mCfg m)) of None \<Rightarrow> m | Some ss \<Rightarrow> applyMockStatuses ss m)
      in if opMockLiveLogLines opts = [] then m else m\<lparr>mLive := seeded_logs (opMockLiveLogLines opts)\<rparr>)"

section \<open>The CI/CD tile (cicd.go)\<close>

definition DefaultWorkflowFile :: string where "DefaultWorkflowFile = ''deploy.yml''"

text \<open>\<open>parseRepoRef\<close> of commands.go: \<open>strings.SplitN\<close> at the first slash.\<close>

definition parseRepoRef :: "string \<Rightarrow> RepoRef option" where
  "parseRepoRef raw =
     (let t = trim_space raw; slash = (\<lambda>c. c \<noteq> CHR ''/'') in
      case dropWhile slash t of
        [] \<Rightarrow> None
      | _ # name \<Rightarrow> if takeWhile slash t = [] \<or> name = [] then None else Some \<lparr>Owner = takeWhile slash t, RName = name\<rparr>)"

definition cicdPipelineCacheKey :: "RepoRef \<Rightarrow> string \<Rightarrow> string" where
  "cicdPipelineCacheKey ref workflow =
     (let workflow = (if workflow = [] then DefaultWorkflowFile else workflow)
      in PrefixGitHubSteps @ FullName ref @ '':'' @ workflow)"

definition cicdStatusFromGitHub :: "string \<Rightarrow> string \<Rightarrow> CICDStatus" where
  "cicdStatusFromGitHub runStatus conclusion =
     (let c = str_lower conclusion; s = str_lower runStatus in
      if c = ''success'' then CICDStatusSuccess
      else if c = ''failure'' \<or> c = ''timed_out'' \<or> c = ''startup_failure'' then CICDStatusFailure
      else if c = ''cancelled'' then CICDStatusCancelled
      else if c = ''skipped'' then CICDStatusSkipped
      else if s = ''in_progress'' then CICDStatusInProgress
      else if s = ''queued'' \<or> s = ''waiting'' \<or> s = ''requested'' \<or> s = ''pending'' then CICDStatusQueued
      else if s = ''completed'' then CICDStatusQueued
      else CICDStatusUnknown)"

text \<open>\<open>d.Round(unit)\<close> of a positive duration, and the text of a whole number of seconds.\<close>

definition round_pos :: "int \<Rightarrow> int \<Rightarrow> int" where
  "round_pos d unit = (d + unit div 2) div unit * unit"

definition seconds_text :: "int \<Rightarrow> string" where
  "seconds_text n =
     (let h = n div 3600; mi = n div 60 mod 60; s = n mod 60 in
      if h > 0 then itoa h @ ''h'' @ itoa mi @ ''m'' @ itoa s @ ''s''
      else if mi > 0 then itoa mi @ ''m'' @ itoa s @ ''s''
      else itoa s @ ''s'')"

definition formatStepDuration :: "int \<Rightarrow> string \<Rightarrow> string" where
  "formatStepDuration ms runStatus =
     (if runStatus = ''in_progress'' then ''running''
      else if ms \<le> 0 then []
      else let d = ms * 1000000 in
        if d < 1000000000 then ''<1s'' else seconds_text (round_pos d 1000000000 div 1000000000))"

definition non_zero_start :: "WorkflowRun \<Rightarrow> time_text option" where
  "non_zero_start run = (case wrStartedAt run of None \<Rightarrow> None | Some t \<Rightarrow> if instant t = 0 then None else Some t)"

definition summarizeRun :: "WorkflowRun option \<Rightarrow> cicdRunSummary option" where
  "summarizeRun r =
     (case r of None \<Rightarrow> None
      | Some run \<Rightarrow>
          (let header = (case non_zero_start run of None \<Rightarrow> wrUpdatedAt run | Some t \<Rightarrow> t);
               dur = (case non_zero_start run of
                  None \<Rightarrow> []
                | Some t \<Rightarrow> (let d = time_Sub (instant (wrUpdatedAt run)) (instant t) in
                     if d > 0 then seconds_text (round_pos d 1000000000 div 1000000000) else []))
           in Some \<lparr>rsRunID = wrID run, rsRunNumber = wrRunNumber run, rsName = wrName run, rsStatus = wrStatus run,
                rsConclusion = wrConclusion run, rsHeaderTime = header, rsDuration = dur\<rparr>))"

definition two_digit_text :: "int \<Rightarrow> string" where
  "two_digit_text n = (if n < 10 then ''0'' @ itoa n else itoa n)"

definition formatResetDelta :: "int \<Rightarrow> string" where
  "formatResetDelta d =
     (if d \<le> 0 then ''<1min''
      else if d < 60 * 1000000000 then ''<1min''
      else let mins = round_pos d (60 * 1000000000) div (60 * 1000000000) in
        if mins \<ge> 60 then
          (if mins mod 60 = 0 then itoa (mins div 60) @ ''h''
           else itoa (mins div 60) @ ''h'' @ two_digit_text (mins mod 60) @ ''m'')
        else itoa mins @ ''min'')"

definition extractRateLimitInfo :: "int \<Rightarrow> terr option \<Rightarrow> bool \<times> string" where
  "extractRateLimitInfo tnow err =
     (case err of
        None \<Rightarrow> (False, [])
      | Some e \<Rightarrow>
          if \<not> errors_is (fst e) (GithubE ErrGHRateLimited) then (False, [])
          else
            (case str_index (snd e) ''reset='' of
               None \<Rightarrow> (True, ''Retry after backoff'')
             | Some idx \<Rightarrow>
                 (let stamp = trim_space (drop (idx + length ''reset='') (snd e)) in
                  if rfc3339 stamp then (True, ''Reset in '' @ formatResetDelta (time_Sub (instant stamp) tnow))
                  else (True, ''Retry after backoff''))))"

record CICDStepSnapshot =
  cpNumber :: int
  cpName :: string
  cpStatus :: CICDStatus
  cpDuration :: string

record CICDPipelineSnapshot =
  cpsProjectAlias :: string
  cpsWorkflowName :: string
  cpsRunNumber :: int
  cpsRunStatus :: CICDStatus
  cpsRunSummary :: string
  cpsHeaderTime :: string
  cpsDuration :: string
  cpsSteps :: "CICDStepSnapshot list"
  cpsStale :: bool
  cpsRateLimited :: bool
  cpsRateLimitHint :: string
  cpsErrorMessage :: string

text \<open>\<open>fmt_time\<close> is \<open>Format\<close> with the layout of the tile's header, which depends on the local time zone.\<close>

definition step_snapshot :: "Step \<Rightarrow> CICDStepSnapshot" where
  "step_snapshot st = \<lparr>cpNumber = stNumber st, cpName = stName st, cpStatus = cicdStatusFromGitHub (stStatus st) (stConclusion st),
     cpDuration = formatStepDuration (stDurationMs st) (stStatus st)\<rparr>"

definition buildCICDPipelineSnapshot :: "(time_text \<Rightarrow> string) \<Rightarrow> Model \<Rightarrow> CICDPipelineSnapshot option" where
  "buildCICDPipelineSnapshot fmt_time m =
     (case selectedProject m of None \<Rightarrow> None
      | Some project \<Rightarrow>
     (case parseRepoRef (pjRepo project) of None \<Rightarrow> None
      | Some _ \<Rightarrow>
          (let snap = \<lparr>cpsProjectAlias = pjDomain project, cpsWorkflowName = DefaultWorkflowFile, cpsRunNumber = 0,
                 cpsRunStatus = CICDStatusUnknown, cpsRunSummary = [], cpsHeaderTime = [], cpsDuration = [], cpsSteps = [],
                 cpsStale = False, cpsRateLimited = False, cpsRateLimitHint = [], cpsErrorMessage = []\<rparr>
           in case map_of (mCicd m) (pjID project) of
                None \<Rightarrow> Some snap
              | Some cached \<Rightarrow>
                  (let snap = (if ceRateLimited cached
                         then snap\<lparr>cpsRateLimited := True, cpsRateLimitHint := ceRateLimitHint cached\<rparr>
                         else if ceErr cached \<noteq> [] then snap\<lparr>cpsErrorMessage := ceErr cached\<rparr> else snap);
                       snap = (case ceRun cached of None \<Rightarrow> snap
                         | Some run \<Rightarrow> snap\<lparr>cpsRunNumber := rsRunNumber run,
                             cpsRunStatus := cicdStatusFromGitHub (rsStatus run) (rsConclusion run),
                             cpsRunSummary := rsStatus run,
                             cpsHeaderTime := (if instant (rsHeaderTime run) = 0 then [] else fmt_time (rsHeaderTime run)),
                             cpsDuration := rsDuration run\<rparr>);
                       snap = snap\<lparr>cpsSteps := map step_snapshot (ceSteps cached)\<rparr>
                   in Some (if ceStale cached then snap\<lparr>cpsStale := True\<rparr> else snap)))))"

section \<open>Host keys (host_key_modal.go)\<close>

definition classifyHostKeyErr :: "goerr \<Rightarrow> string" where
  "classifyHostKeyErr e =
     (if errors_is e (SshE ErrHostKeyMismatch) then ''mismatch''
      else if errors_is e (SshE ErrHostKeyUnknown) then ''unknown'' else [])"

definition classifyErrForTrace :: "terr option \<Rightarrow> string" where
  "classifyErrForTrace err =
     (case err of
        None \<Rightarrow> ''none''
      | Some e \<Rightarrow>
          if errors_is (fst e) (SshE ErrHostKeyMismatch) then ''host_key_mismatch''
          else if errors_is (fst e) (SshE ErrHostKeyUnknown) then ''host_key_unknown''
          else if errors_is (fst e) (SshE ErrPoolBusy) then ''pool_busy''
          else if errors_is (fst e) (SshE ErrReconnectExhausted) then ''reconnect_exhausted''
          else ''other'')"

definition activeSSHTarget :: "Model \<Rightarrow> string \<times> int \<times> string" where
  "activeSSHTarget m =
     (let ps = profiles_of (mCfg m); of_profile = (\<lambda>p. (pfHost p, pfPort p, pfUser p));
          first = (case ps of [] \<Rightarrow> ([], 0, []) | p # _ \<Rightarrow> of_profile p)
      in if activeProfileAlias m \<noteq> []
         then (case find (\<lambda>p. pfAlias p = activeProfileAlias m) ps of Some p \<Rightarrow> of_profile p | None \<Rightarrow> first)
         else first)"

definition tryRaiseHostKeyModal :: "terr option \<Rightarrow> Model \<Rightarrow> bool \<times> Model" where
  "tryRaiseHostKeyModal err m =
     (case err of
        None \<Rightarrow> (False, m)
      | Some e \<Rightarrow>
          (let kind = classifyHostKeyErr (fst e) in
           if kind = [] then (False, m)
           else case activeSSHTarget m of (host, port, user) \<Rightarrow>
             (True, m\<lparr>mHostKey := \<lparr>hkOpen = True, hkHost = host, hkPort = port, hkUsername = user, hkKind = kind\<rparr>\<rparr>)))"

section \<open>Tiles and scrolling (view.go, bento/tiles.go)\<close>

definition liveLogsTailCap :: "Mode \<Rightarrow> int" where
  "liveLogsTailCap mode = (case mode of ModeUltraPlus \<Rightarrow> 24 | ModeUltra \<Rightarrow> 18 | _ \<Rightarrow> 12)"

definition clampNonNegative :: "int \<Rightarrow> int \<Rightarrow> int" where
  "clampNonNegative v hi = (if v < 0 then 0 else if hi < v then hi else v)"

definition cicd_maxScrollOffset :: "nat \<Rightarrow> int" where
  "cicd_maxScrollOffset n = (if int n - 1 < 0 then 0 else int n - 1)"

definition logs_maxScrollOffset :: "nat \<Rightarrow> int" where
  "logs_maxScrollOffset n = (if int n - 1 < 0 then 0 else int n - 1)"

text \<open>
  A tile of a frame: its slot and, when it implements \<open>ScrollableTile\<close>, its largest offset. A tile is built afresh, at
  offset 0. The lines of the live-log tile are the tail of the ring, whose \<open>Tail\<close> fails on no buffer that was built by
  \<open>NewRingBuffer\<close> and \<open>Push\<close>.
\<close>

type_synonym tile = "Slot \<times> int option"

definition ring_tail :: "int \<Rightarrow> LiveLogLine RingBuffer \<Rightarrow> LiveLogLine list" where
  "ring_tail n b = (case Tail zero_log_line n b of None \<Rightarrow> [] | Some ls \<Rightarrow> ls)"

definition dashboardLiveLogsTile :: "Model \<Rightarrow> tile" where
  "dashboardLiveLogsTile m =
     (case lfBuffer (mLive m) of
        None \<Rightarrow> (SlotLogs, None)
      | Some b \<Rightarrow> if ring_Len b = 0 then (SlotLogs, None)
          else (SlotLogs, Some (logs_maxScrollOffset (length (ring_tail (liveLogsTailCap (BentoMode m)) b)))))"

definition dashboardBentoTiles :: "Model \<Rightarrow> tile list" where
  "dashboardBentoTiles m =
     [(SlotProjects, None), (SlotOverview, None),
      (case buildCICDPipelineSnapshot (\<lambda>_. []) m of
         Some snap \<Rightarrow> (SlotCICD, Some (cicd_maxScrollOffset (length (cpsSteps snap))))
       | None \<Rightarrow> (SlotCICD, None)),
      dashboardLiveLogsTile m, (SlotTopology, None)]"

text \<open>\<open>Scroll(delta)\<close> of either scrollable tile, from offset \<open>offset\<close>.\<close>

definition tile_Scroll :: "int \<Rightarrow> int \<Rightarrow> int \<Rightarrow> int" where
  "tile_Scroll hi offset delta = clampNonNegative (offset + delta) hi"

definition clampViewportOffset :: "int \<Rightarrow> int \<Rightarrow> int \<Rightarrow> int" where
  "clampViewportOffset offset height n =
     (let maxOffset = (if n - height < 0 then 0 else n - height)
      in if offset < 0 then 0 else if maxOffset < offset then maxOffset else offset)"

definition viewportLines :: "string \<Rightarrow> string list" where
  "viewportLines rendered =
     (let trimmed = rev (dropWhile (\<lambda>c. c = CHR 0x0A) (rev rendered))
      in if trimmed = [] then [] else split_char CHR 0x0A trimmed)"

definition renderViewport :: "string \<Rightarrow> int \<Rightarrow> int \<Rightarrow> string" where
  "renderViewport rendered height offset =
     (if height \<le> 0 then rendered
      else let lines = viewportLines rendered in
        if int (length lines) \<le> height then join [CHR 0x0A] lines
        else let start = clampViewportOffset offset height (int (length lines))
             in join [CHR 0x0A] (take (nat height) (drop (nat start) lines)))"

section \<open>The provider catalogue (provider_catalog.go)\<close>

record ProviderCatalogRow =
  rowID :: string
  rowDisplayName :: string
  rowProviderType :: string
  rowStatus :: string
  rowMarkets :: "string list"
  rowBadges :: "string list"

record ProviderCatalogSnapshot =
  snGroups :: "(string \<times> ProviderCatalogRow list) list"
  snSelectedID :: string
  snLoadErrors :: "string list"
  snCopyHint :: string
  snBriefing :: string

definition em_dash :: string where "em_dash = [CHR 0xE2, CHR 0x80, CHR 0x94]"
definition nl :: string where "nl = [CHR 0x0A]"

definition composeProviderBriefing :: "Preset \<Rightarrow> string" where
  "composeProviderBriefing p =
     (let pa = prPanel p; ca = prCapabilities p; pt = prPaths p;
          bullets = (\<lambda>title xs. if xs = [] then [] else nl @ title @ nl @ concat (map (\<lambda>x. ''  - '' @ x @ nl) xs))
      in ''Webox Provider Briefing '' @ em_dash @ '' '' @ prDisplayName p @ nl
         @ ''  id            '' @ prID p @ nl
         @ ''  provider_type '' @ prProviderType p @ nl
         @ ''  status        '' @ prStatus p @ nl
         @ ''  region        '' @ Region p @ nl
         @ (if prMarkets p \<noteq> [] then ''  markets       '' @ join '', '' (prMarkets p) @ nl else [])
         @ nl @ ''Panel'' @ nl
         @ ''  '' @ paName pa @ '' ('' @ paAPI pa
         @ (if paAPIPort pa \<noteq> 0 then '':'' @ itoa (paAPIPort pa) else [])
         @ '')'' @ nl
         @ (if paSSHRequired pa then ''  ssh required  yes'' @ nl else [])
         @ nl @ ''Capabilities'' @ nl
         @ ''  node runtime    '' @ caNodeRuntime ca @ nl
         @ ''  restart method  '' @ caRestartMethod ca @ nl
         @ ''  ssl provider    '' @ caSSLProvider ca @ nl
         @ (if caDatabaseEngines ca \<noteq> [] then ''  databases       '' @ join '', '' (caDatabaseEngines ca) @ nl else [])
         @ ''  badges          '' @ join ('' '' @ middle_dot @ '' '') (CapabilityBadges p) @ nl
         @ nl @ ''Paths'' @ nl
         @ ''  deploy '' @ ptDeployPathTemplate pt @ nl
         @ ''  log    '' @ ptLogPathTemplate pt @ nl
         @ (if ptEnvPathTemplate pt \<noteq> [] then ''  env    '' @ ptEnvPathTemplate pt @ nl else [])
         @ bullets ''Known risks'' (prKnownRisks p)
         @ bullets ''Sources'' (prSources p)
         @ nl @ ''Generated by Webox Provider Catalog (read-only).'' @ nl)"

text \<open>\<open>etext\<close> is the text of an error of the registry.\<close>

definition catalogLoadErrors :: "(goerr \<Rightarrow> string) \<Rightarrow> goerr gomap \<Rightarrow> string list" where
  "catalogLoadErrors etext errs =
     map (\<lambda>k. k @ '': '' @ (case map_of errs k of None \<Rightarrow> [] | Some e \<Rightarrow> etext e)) (sort (map fst errs))"

definition catalog_row :: "Preset \<Rightarrow> ProviderCatalogRow" where
  "catalog_row p = \<lparr>rowID = prID p, rowDisplayName = prDisplayName p, rowProviderType = prProviderType p, rowStatus = prStatus p,
     rowMarkets = prMarkets p, rowBadges = CapabilityBadges p\<rparr>"

text \<open>\<open>loaded\<close> is what \<open>presets.Default\<close> returns: an error's text, or the registry (nil: \<open>None\<close>).\<close>

definition catalogSnapshot :: "(goerr \<Rightarrow> string) \<Rightarrow> string + Registry option \<Rightarrow> providerCatalogState \<Rightarrow> ProviderCatalogSnapshot" where
  "catalogSnapshot etext loaded c =
     (case loaded of
        Inl err \<Rightarrow> \<lparr>snGroups = [], snSelectedID = [], snLoadErrors = [err], snCopyHint = pcCopyHint c, snBriefing = []\<rparr>
      | Inr None \<Rightarrow> \<lparr>snGroups = [], snSelectedID = [], snLoadErrors = [], snCopyHint = pcCopyHint c, snBriefing = []\<rparr>
      | Inr (Some reg) \<Rightarrow>
          (let groups = map (\<lambda>region. (region, map catalog_row (ByRegion region reg))) (Regions reg);
               selected = (if pcSelectedID c = [] then
                   (case groups of (_, r # _) # _ \<Rightarrow> rowID r | _ \<Rightarrow> []) else pcSelectedID c);
               snap = \<lparr>snGroups = groups, snSelectedID = selected, snLoadErrors = catalogLoadErrors etext (LoadErrors reg),
                  snCopyHint = pcCopyHint c, snBriefing = []\<rparr>
           in if pcShowDetail c \<and> selected \<noteq> []
              then (case Get selected reg of Inl _ \<Rightarrow> snap | Inr p \<Rightarrow> snap\<lparr>snBriefing := composeProviderBriefing p\<rparr>)
              else snap))"

definition catalogRows :: "ProviderCatalogSnapshot \<Rightarrow> ProviderCatalogRow list" where
  "catalogRows snap = concat (map snd (snGroups snap))"

fun catalogRowIndex :: "ProviderCatalogRow list \<Rightarrow> string \<Rightarrow> int" where
  "catalogRowIndex [] i = -1"
| "catalogRowIndex (r # rs) i =
     (if rowID r = i then 0 else let k = catalogRowIndex rs i in if k < 0 then -1 else k + 1)"

end
