(* ===== verification/Tui.thy ===== *)
theory Tui
  imports Tui_Model
begin

text \<open>
  The update loop of the terminal interface (\<open>src/tui/update.go\<close>, \<open>live_logs.go\<close>, the start-up command of \<open>commands.go\<close>).
  \<open>Update\<close> maps a message and a model to the next model, the commands it starts and the effects it has on the spot (the
  cancelled context, cache invalidations, trace events, the clipboard); \<open>None\<close> is a panic. A batch is the list of its
  commands, a nil command the empty list. What the commands do is in \<open>Tui_Commands\<close>.
\<close>

section \<open>Messages, commands and effects\<close>

record executed =
  exPlan :: ProvisionPlan
  exReport :: "ProvisionReport option"
  exErr :: "(exec_error \<times> string) option"
  exProjectID :: string
  exProjectCfg :: "Config option"
  exSaveErr :: "terr option"
  exCredentials :: "DatabaseCredentials option"

datatype mouse_button = MouseButtonWheelUp | MouseButtonWheelDown | MouseButtonLeft | OtherButton

text \<open>
  A key carries its \<open>String()\<close> and, when its type is \<open>KeyRunes\<close>, the runes; a mouse event whether it is a press. \<open>OtherMsg\<close> is
  any message the loop has no case for.
\<close>

datatype msg =
    WindowSizeMsg int int
  | ConfigLoadedMsg "Config option" bool
  | ConfigLoadFailedMsg terr
  | ProfileSavedMsg "Config option"
  | ProfileSaveFailedMsg terr
  | ProjectWizardPreflightMsg string "terr option"
  | ProjectWizardDomainCheckedMsg string bool "terr option"
  | ProjectWizardExecutedMsg executed
  | ProjectWizardRolledBackMsg "CleanupResult list" "terr option"
  | PendingLoadedMsg "PendingCleanups option" "terr option"
  | PendingDiscardedMsg "terr option"
  | ProjectActionCompletedMsg string string string "terr option"
  | ImportScanCompletedMsg "ImportRow list" nat "terr option"
  | ImportPersistedMsg "Config option" nat "terr option"
  | StatusRefreshedMsg "ProjectStatus list"
  | StatusRefreshFailedMsg "terr option"
  | RefreshTickMsg
  | CICDTickMsg
  | CICDFetchedMsg string PipelineFetchResult "terr option" int
  | CICDLogsFetchedMsg string int "CICDLogLineSnapshot list" "terr option"
  | MouseMsg bool mouse_button int int
  | KeyMsg string "string option"
  | OtherMsg

datatype cmd =
    Quit
  | SpinnerTick
  | LoadConfig
  | LoadPendingFile
  | RefreshVisibleProjects "Project list"
  | ScheduleRefresh int
  | ScheduleCICDTick int
  | PollCICDPipeline RepoRef string
  | LoadCICDLogs RepoRef string int
  | SaveProfile Profile "Config option"
  | WizardPreflight Profile string
  | WizardDomainCheck Profile string
  | WizardExecute Profile ProvisionPlan "nat option" "Config option"
  | WizardRollback Profile "nat option"
  | ResumeRollback "Config option" "PendingCleanups option"
  | PendingDiscard
  | RunProjectAction string Profile Project
  | ImportScan "Config option"
  | ImportPersist "Config option" "ImportRow list"

datatype effect = Cancelled | Invalidated string | Emitted string string | Copied string

record ui_env =
  enBodyLines :: "Model \<Rightarrow> nat"
  enPresets :: "string + Registry option"
  enErrText :: "goerr \<Rightarrow> string"
  enClipboard :: "string \<Rightarrow> string option"
  enNow :: int

type_synonym step = "Model \<times> cmd list \<times> effect list"

definition stay :: "Model \<Rightarrow> step" where "stay m = (m, [], [])"
definition quit_now :: "Model \<Rightarrow> step" where "quit_now m = (m, [Quit], [Cancelled])"

section \<open>Commands that depend on the model (commands.go, cicd.go)\<close>

definition scheduleRefresh :: "int \<Rightarrow> cmd" where
  "scheduleRefresh interval = ScheduleRefresh (if interval \<le> 0 then defaultRefreshInterval else interval)"

definition scheduleCICDTick :: "int \<Rightarrow> cmd" where
  "scheduleCICDTick interval = ScheduleCICDTick (if interval \<le> 0 then GitHubStepsTTL else interval)"

definition visibleProjects :: "Model \<Rightarrow> Project list" where
  "visibleProjects m = cfgProjects (mCfg m)"

definition refreshVisibleProjectsCmd :: "Model \<Rightarrow> cmd" where
  "refreshVisibleProjectsCmd m = RefreshVisibleProjects (visibleProjects m)"

definition pollCICDPipelineCmd :: "Model \<Rightarrow> cmd list" where
  "pollCICDPipelineCmd m =
     (if \<not> mHasPipeline m then []
      else case selectedProject m of None \<Rightarrow> []
      | Some p \<Rightarrow> (case parseRepoRef (pjRepo p) of None \<Rightarrow> [] | Some ref \<Rightarrow> [PollCICDPipeline ref (pjID p)]))"

definition invalidateCICDCacheForProject :: "Project \<Rightarrow> effect list" where
  "invalidateCICDCacheForProject p =
     (case parseRepoRef (pjRepo p) of None \<Rightarrow> []
      | Some ref \<Rightarrow> [Invalidated (cicdPipelineCacheKey ref DefaultWorkflowFile)])"

definition loadCICDLogsCmd :: "Model \<Rightarrow> int \<Rightarrow> cmd list" where
  "loadCICDLogsCmd m runID =
     (if \<not> mHasLogs m then []
      else case selectedProject m of None \<Rightarrow> []
      | Some p \<Rightarrow> (case parseRepoRef (pjRepo p) of None \<Rightarrow> [] | Some ref \<Rightarrow> [LoadCICDLogs ref (pjID p) runID]))"

definition tui_Init :: "Model \<Rightarrow> cmd list" where
  "tui_Init m =
     (if mCfg m \<noteq> None then
        [SpinnerTick, scheduleRefresh (mRefresh m)] @ (if mHasPipeline m then [scheduleCICDTick GitHubStepsTTL] else [])
      else [LoadConfig, LoadPendingFile])"

section \<open>Scrolling\<close>

definition available_lines :: "Model \<Rightarrow> int" where
  "available_lines m = (if mHeight m - 2 < 1 then 1 else mHeight m - 2)"

definition clamp_viewport :: "ui_env \<Rightarrow> Model \<Rightarrow> Model" where
  "clamp_viewport E m = m\<lparr>mViewport := clampViewportOffset (mViewport m) (available_lines m) (int (enBodyLines E m))\<rparr>"

definition scrollViewportBy :: "ui_env \<Rightarrow> int \<Rightarrow> Model \<Rightarrow> Model" where
  "scrollViewportBy E delta m = clamp_viewport E (m\<lparr>mViewport := mViewport m + delta\<rparr>)"

definition maxViewportOffset :: "ui_env \<Rightarrow> Model \<Rightarrow> int" where
  "maxViewportOffset E m =
     (if int (enBodyLines E m) \<le> available_lines m then 0 else int (enBodyLines E m) - available_lines m)"

definition viewportPageStep :: "Model \<Rightarrow> int" where
  "viewportPageStep m = (if mHeight m - 4 < 1 then 1 else mHeight m - 4)"

definition mouseWheelStep :: int where "mouseWheelStep = 3"
definition tileScrollStep :: int where "tileScrollStep = 5"
definition maxTileScrollOffset :: int where "maxTileScrollOffset = 65536"

definition slot_put :: "Slot \<Rightarrow> int \<Rightarrow> (Slot \<times> int) list \<Rightarrow> (Slot \<times> int) list" where
  "slot_put k v xs = (k, v) # filter (\<lambda>p. fst p \<noteq> k) xs"

definition slot_get :: "Slot \<Rightarrow> (Slot \<times> int) list \<Rightarrow> int" where
  "slot_get k xs = (case map_of xs k of None \<Rightarrow> 0 | Some v \<Rightarrow> v)"

definition scrollFocusedTileBy :: "int \<Rightarrow> Model \<Rightarrow> Model" where
  "scrollFocusedTileBy delta m =
     (case mFocused m of
        None \<Rightarrow> m
      | Some target \<Rightarrow>
          (let offsets = (case mOffsets m of None \<Rightarrow> [] | Some xs \<Rightarrow> xs);
               m = m\<lparr>mOffsets := Some offsets\<rparr>;
               candidate = slot_get target offsets + delta;
               candidate = (if candidate < 0 then 0 else candidate)
           in case find (\<lambda>t. fst t = target) (dashboardBentoTiles m) of
                None \<Rightarrow> m\<lparr>mOffsets := Some (slot_put target candidate offsets)\<rparr>
              | Some (_, None) \<Rightarrow> m
              | Some (_, Some hi) \<Rightarrow> m\<lparr>mOffsets := Some (slot_put target (tile_Scroll hi 0 (candidate - 0)) offsets)\<rparr>))"

definition scrollableSlotCycle :: "Model \<Rightarrow> Slot list" where
  "scrollableSlotCycle m =
     (let cycle = SlotProjects # map fst (filter (\<lambda>t. snd t \<noteq> None) (dashboardBentoTiles m))
      in if length cycle = 1 then [] else cycle)"

text \<open>The index of the first occurrence after the sentinel at position 0; 0 when there is none.\<close>

definition cycle_index :: "Slot list \<Rightarrow> Slot option \<Rightarrow> nat" where
  "cycle_index cycle focused =
     (case focused of
        None \<Rightarrow> 0
      | Some s \<Rightarrow> (case find (\<lambda>i. cycle ! i = s) [1..<length cycle] of None \<Rightarrow> 0 | Some i \<Rightarrow> i))"

definition cycleFocusedTile :: "int \<Rightarrow> Model \<Rightarrow> Model" where
  "cycleFocusedTile direction m =
     (let cycle = scrollableSlotCycle m in
      if cycle = [] then m
      else let n = int (length cycle);
               tgt = (int (cycle_index cycle (mFocused m)) + direction + n) mod n
           in if tgt = 0 then m\<lparr>mFocused := None\<rparr> else m\<lparr>mFocused := Some (cycle ! nat tgt)\<rparr>)"

text \<open>
  \<open>handleViewportKey\<close>: whether the key was consumed, and the model; \<open>None\<close> is the write to the nil map of offsets.
\<close>

definition handleViewportKey :: "ui_env \<Rightarrow> string \<Rightarrow> Model \<Rightarrow> (bool \<times> Model) option" where
  "handleViewportKey E key m =
     (case mFocused m of
        Some slot \<Rightarrow>
          if key = ''pgup'' then Some (True, scrollFocusedTileBy (- tileScrollStep) m)
          else if key = ''pgdown'' then Some (True, scrollFocusedTileBy tileScrollStep m)
          else if key = ''home'' then
            (case mOffsets m of None \<Rightarrow> None | Some xs \<Rightarrow> Some (True, m\<lparr>mOffsets := Some (slot_put slot 0 xs)\<rparr>))
          else if key = ''end'' then Some (True, scrollFocusedTileBy maxTileScrollOffset m)
          else Some (False, m)
      | None \<Rightarrow>
          if key = ''pgup'' then Some (True, scrollViewportBy E (- viewportPageStep m) m)
          else if key = ''pgdown'' then Some (True, scrollViewportBy E (viewportPageStep m) m)
          else if key = ''home'' then Some (True, m\<lparr>mViewport := 0\<rparr>)
          else if key = ''end'' then Some (True, m\<lparr>mViewport := maxViewportOffset E m\<rparr>)
          else Some (False, m))"

section \<open>Mouse\<close>

definition drillIntoSelectedProject :: "Model \<Rightarrow> Model" where
  "drillIntoSelectedProject m =
     (if cfgProjects (mCfg m) = [] then m else m\<lparr>mState := StateProjectDetail, mTab := TabOverview\<rparr>)"

definition slotIsScrollableInDashboard :: "Slot \<Rightarrow> Model \<Rightarrow> bool" where
  "slotIsScrollableInDashboard slot m =
     (case find (\<lambda>t. fst t = slot) (dashboardBentoTiles m) of None \<Rightarrow> False | Some t \<Rightarrow> snd t \<noteq> None)"

definition dashboardLayout :: "Model \<Rightarrow> LayoutMap" where
  "dashboardLayout m = ComputeLayout (mWidth m) (mHeight m) (BentoMode m)"

text \<open>\<open>layout.Slots[slot].Y\<close>, 0 for a slot that is not in the layout.\<close>

definition slot_Y :: "LayoutMap \<Rightarrow> Slot \<Rightarrow> int" where
  "slot_Y layout slot = (case map_of (Slots layout) slot of None \<Rightarrow> 0 | Some r \<Rightarrow> Y r)"

definition routeDashboardClick :: "Slot \<Rightarrow> int \<Rightarrow> LayoutMap \<Rightarrow> Model \<Rightarrow> Model" where
  "routeDashboardClick slot y layout m =
     (case slot of
        SlotProjects \<Rightarrow>
          (let n = project_count m in
           if n = 0 then m
           else let row = y - slot_Y layout slot - 2;
                    row = (if row < 0 then 0 else row);
                    row = (if n \<le> row then n - 1 else row)
                in m\<lparr>mSelected := row, mState := StateProjectDetail, mTab := TabOverview\<rparr>)
      | SlotLogs \<Rightarrow> if \<not> slotIsScrollableInDashboard slot m then drillIntoSelectedProject m else m\<lparr>mFocused := Some slot\<rparr>
      | SlotCICD \<Rightarrow> if \<not> slotIsScrollableInDashboard slot m then drillIntoSelectedProject m else m\<lparr>mFocused := Some slot\<rparr>
      | _ \<Rightarrow> drillIntoSelectedProject m)"

definition handleLeftClick :: "int \<Rightarrow> int \<Rightarrow> Model \<Rightarrow> Model" where
  "handleLeftClick x y m =
     (case mState m of
        StateDashboard \<Rightarrow>
          if cmOpen (mCicdModal m) \<or> hkOpen (mHostKey m) then m
          else (case SlotAt (Slots (dashboardLayout m)) x y of
                  None \<Rightarrow> m
                | Some slot \<Rightarrow> routeDashboardClick slot y (dashboardLayout m) m)
      | StateProjectDetail \<Rightarrow> if mTab m = TabLogs then m else m\<lparr>mState := StateDashboard\<rparr>
      | _ \<Rightarrow> m)"

definition updateMouse :: "ui_env \<Rightarrow> bool \<Rightarrow> mouse_button \<Rightarrow> int \<Rightarrow> int \<Rightarrow> Model \<Rightarrow> Model" where
  "updateMouse E press button x y m =
     (if \<not> press then m
      else if mFocused m \<noteq> None then
        (case button of
           MouseButtonWheelUp \<Rightarrow> scrollFocusedTileBy (- mouseWheelStep) m
         | MouseButtonWheelDown \<Rightarrow> scrollFocusedTileBy mouseWheelStep m
         | _ \<Rightarrow> m)
      else
        (case button of
           MouseButtonWheelUp \<Rightarrow> scrollViewportBy E (- mouseWheelStep) m
         | MouseButtonWheelDown \<Rightarrow> scrollViewportBy E mouseWheelStep m
         | MouseButtonLeft \<Rightarrow> handleLeftClick x y m
         | OtherButton \<Rightarrow> m))"

section \<open>Catalogue and import\<close>

definition set_hint :: "string \<Rightarrow> Model \<Rightarrow> Model" where
  "set_hint h m = m\<lparr>mCatalog := (mCatalog m)\<lparr>pcCopyHint := h\<rparr>\<rparr>"

definition select_row :: "string \<Rightarrow> Model \<Rightarrow> Model" where
  "select_row i m = m\<lparr>mCatalog := (mCatalog m)\<lparr>pcSelectedID := i\<rparr>\<rparr>"

definition updateProviderCatalogKey :: "ui_env \<Rightarrow> string \<Rightarrow> Model \<Rightarrow> step" where
  "updateProviderCatalogKey E key m =
     (let snapshot = (\<lambda>m. catalogSnapshot (enErrText E) (enPresets E) (mCatalog m));
          snap = snapshot m; rows = catalogRows snap; n = int (length rows) in
      if key = ''esc'' \<or> key = ''left'' then stay (set_hint [] (m\<lparr>mState := StateDashboard\<rparr>))
      else if key = ''up'' \<or> key = ''k'' then
        (let m = set_hint [] m in
         if rows = [] then stay m
         else let idx = catalogRowIndex rows (snSelectedID snap);
                  idx = (if idx \<le> 0 then n else idx)
              in stay (select_row (rowID (rows ! nat (idx - 1))) m))
      else if key = ''down'' \<or> key = ''j'' then
        (let m = set_hint [] m in
         if rows = [] then stay m
         else let idx = catalogRowIndex rows (snSelectedID snap);
                  nxt = (if idx < 0 then 0 else (idx + 1) mod n)
              in stay (select_row (rowID (rows ! nat nxt)) m))
      else if key = ''enter'' \<or> key = ''right'' then
        (let m = set_hint [] m;
             m = m\<lparr>mCatalog := (mCatalog m)\<lparr>pcShowDetail := \<not> pcShowDetail (mCatalog m)\<rparr>\<rparr>
         in stay (if pcSelectedID (mCatalog m) = [] \<and> rows \<noteq> [] then select_row (rowID (hd rows)) m else m))
      else if key = ''c'' \<or> key = ''C'' then
        (let m = m\<lparr>mCatalog := (mCatalog m)\<lparr>pcShowDetail := True\<rparr>\<rparr>;
             briefing = snBriefing (snapshot m) in
         if briefing = [] then stay (set_hint ''select a preset first'' m)
         else (case enClipboard E briefing of
                 Some err \<Rightarrow> (set_hint (''clipboard unavailable: '' @ err) m, [], [Copied briefing])
               | None \<Rightarrow> (set_hint ''briefing copied to clipboard'' m, [], [Copied briefing])))
      else stay m)"

definition unmanagedRows :: "ImportRow list \<Rightarrow> ImportRow list" where
  "unmanagedRows rows = filter (\<lambda>r. \<not> irManaged r) rows"

definition updateImportPreviewKey :: "string \<Rightarrow> Model \<Rightarrow> step" where
  "updateImportPreviewKey key m =
     (if ipLoading (mImport m) \<or> ipSaving (mImport m) then stay m
      else if key = ''esc'' \<or> key = ''left'' \<or> key = ''q'' then
        stay (m\<lparr>mImport := zero_import_form, mState := StateDashboard\<rparr>)
      else if key = ''a'' \<or> key = ''A'' then
        (let unmanaged = unmanagedRows (ipRows (mImport m)) in
         if unmanaged = [] then stay (m\<lparr>mAlert := ''no unmanaged subdomains to import''\<rparr>)
         else (m\<lparr>mImport := (mImport m)\<lparr>ipSaving := True\<rparr>\<rparr>, [ImportPersist (mCfg m) unmanaged], []))
      else stay m)"

definition applyImportScan :: "ImportRow list \<Rightarrow> terr option \<Rightarrow> Model \<Rightarrow> Model" where
  "applyImportScan rows err m =
     (case err of
        Some e \<Rightarrow> m\<lparr>mAlert := ''import scan failed: '' @ snd e, mImport := zero_import_form, mState := StateDashboard\<rparr>
      | None \<Rightarrow> m\<lparr>mImport := zero_import_form\<lparr>ipRows := rows\<rparr>, mState := StateImportPreview\<rparr>)"

definition applyImportPersisted :: "Config option \<Rightarrow> nat \<Rightarrow> terr option \<Rightarrow> Model \<Rightarrow> step" where
  "applyImportPersisted conf imported err m =
     (let m = m\<lparr>mImport := (mImport m)\<lparr>ipSaving := False\<rparr>\<rparr> in
      case err of
        Some e \<Rightarrow>
          (let t = ''import save failed: '' @ snd e
           in stay (m\<lparr>mImport := (mImport m)\<lparr>ipErr := t\<rparr>, mAlert := t\<rparr>))
      | None \<Rightarrow>
          (let m = (if conf = None then m else m\<lparr>mCfg := conf\<rparr>);
               m = m\<lparr>mImport := zero_import_form, mState := StateDashboard,
                 mAlert := (if imported = 1 then ''imported 1 subdomain'' else ''imported '' @ itoa (int imported) @ '' subdomains'')\<rparr>
           in (m, [refreshVisibleProjectsCmd m, scheduleRefresh (mRefresh m)], [])))"

definition beginImportScan :: "Model \<Rightarrow> step" where
  "beginImportScan m =
     (if profiles_of (mCfg m) = [] then stay (m\<lparr>mAlert := ''create a profile first (init wizard)''\<rparr>)
      else let m = m\<lparr>mImport := zero_import_form\<lparr>ipLoading := True\<rparr>, mState := StateImportPreview\<rparr>
           in (m, [ImportScan (mCfg m)], []))"

section \<open>Pending clean-ups\<close>

definition applyPendingLoaded :: "PendingCleanups option \<Rightarrow> terr option \<Rightarrow> Model \<Rightarrow> Model" where
  "applyPendingLoaded snap err m =
     (if err = None \<and> snap = None then m
      else m\<lparr>mState := StateResumeWizard,
             mResume := zero_resume_form\<lparr>rfSnapshot := snap, rfLoadErr := err,
               rfErr := (case err of None \<Rightarrow> [] | Some e \<Rightarrow> ''pending cleanup cannot be loaded: '' @ snd e)\<rparr>\<rparr>)"

definition applyPendingDiscarded :: "terr option \<Rightarrow> Model \<Rightarrow> Model" where
  "applyPendingDiscarded err m =
     (case err of
        Some e \<Rightarrow> m\<lparr>mResume := (mResume m)\<lparr>rfErr := ''discard failed: '' @ snd e\<rparr>\<rparr>
      | None \<Rightarrow> m\<lparr>mResume := zero_resume_form, mState := StateDashboard, mAlert := ''pending cleanup snapshot discarded''\<rparr>)"

definition updateResumeWizardKey :: "string \<Rightarrow> string option \<Rightarrow> Model \<Rightarrow> step" where
  "updateResumeWizardKey key runes m =
     (let form = mResume m; set = (\<lambda>f. m\<lparr>mResume := f\<rparr>) in
      if rfDiscarding form then
        (if key = ''backspace'' \<or> key = ''ctrl+h'' then stay (set (form\<lparr>rfConfirmInput := trimRight (rfConfirmInput form)\<rparr>))
         else if key = ''enter'' then
           (if rfConfirmInput form \<noteq> discardPhrase form then stay (set (form\<lparr>rfErr := ''confirmation phrase does not match''\<rparr>))
            else (m, [PendingDiscard], []))
         else case runes of
                Some r \<Rightarrow> stay (set (form\<lparr>rfConfirmInput := rfConfirmInput form @ r\<rparr>))
              | None \<Rightarrow> stay m)
      else if key = ''r'' \<or> key = ''R'' then
        (if rfSnapshot form = None \<or> rfLoadErr form \<noteq> None then
           stay (set (form\<lparr>rfErr := ''cannot roll back until the snapshot loads cleanly''\<rparr>))
         else (set (form\<lparr>rfRollingBack := True, rfErr := []\<rparr>), [ResumeRollback (mCfg m) (rfSnapshot form)], []))
      else if key = ''k'' \<or> key = ''K'' then quit_now m
      else if key = ''d'' \<or> key = ''D'' then
        stay (set (form\<lparr>rfDiscarding := True, rfConfirmInput := [], rfErr := ''type confirmation phrase to discard''\<rparr>))
      else stay m)"

section \<open>First-run wizard keys\<close>

definition updateInitWizardKey :: "string \<Rightarrow> string option \<Rightarrow> Model \<Rightarrow> step" where
  "updateInitWizardKey key runes m =
     (let form = mInit m; set = (\<lambda>f. m\<lparr>mInit := f\<rparr>) in
      if ifSaving form then stay m
      else if key = ''esc'' then
        (if ifStep form = InitStepWelcome then quit_now m else stay (set (init_stepBack form)))
      else if key = ''shift+tab'' then stay (set (init_stepBack form))
      else if key = ''tab'' \<or> key = ''enter'' then
        (if ifStep form = InitStepReview
         then (set (form\<lparr>ifSaving := True\<rparr>), [SaveProfile (toProfile (form\<lparr>ifSaving := True\<rparr>)) (mCfg m)], [])
         else stay (set (init_validateAndAdvance form)))
      else if key = ''backspace'' \<or> key = ''ctrl+h'' then stay (set (init_backspaceInput form))
      else case runes of Some r \<Rightarrow> stay (set (init_appendInput r form)) | None \<Rightarrow> stay m)"

section \<open>CI/CD messages and the log modal\<close>

definition applyCICDTick :: "Model \<Rightarrow> step" where
  "applyCICDTick m =
     (if \<not> mHasPipeline m then (m, [scheduleCICDTick GitHubStepsTTL], [])
      else (m, scheduleCICDTick GitHubStepsTTL # pollCICDPipelineCmd m, []))"

definition cicd_failed :: "int \<Rightarrow> int \<Rightarrow> terr \<Rightarrow> cicdSnapshotEntry \<Rightarrow> cicdSnapshotEntry" where
  "cicd_failed tnow at e previous =
     (let entry = previous\<lparr>ceStale := True, ceFetchedAt := Some at\<rparr> in
      if errors_is (fst e) (GithubE ErrGHRateLimited)
      then entry\<lparr>ceRateLimited := True, ceRateLimitHint := snd (extractRateLimitInfo tnow (Some e))\<rparr>
      else if errors_is (fst e) (GithubE ErrRunNotFound)
      then entry\<lparr>ceRun := None, ceSteps := [], ceRateLimited := False, ceErr := []\<rparr>
      else entry\<lparr>ceErr := snd e\<rparr>)"

definition cicd_fresh :: "int \<Rightarrow> PipelineFetchResult \<Rightarrow> cicdSnapshotEntry" where
  "cicd_fresh at r =
     (let entry = zero_entry\<lparr>ceRun := summarizeRun (pfrRun r), ceSteps := pfrSteps r, ceFetchedAt := Some at\<rparr>
      in if pfrRateLimitHint r \<noteq> [] then entry\<lparr>ceRateLimitHint := pfrRateLimitHint r\<rparr> else entry)"

definition applyCICDFetched :: "ui_env \<Rightarrow> string \<Rightarrow> PipelineFetchResult \<Rightarrow> terr option \<Rightarrow> int \<Rightarrow> Model \<Rightarrow> Model" where
  "applyCICDFetched E prj result err at m =
     (let previous = (case map_of (mCicd m) prj of None \<Rightarrow> zero_entry | Some x \<Rightarrow> x);
          entry = (case err of Some e \<Rightarrow> cicd_failed (enNow E) at e previous | None \<Rightarrow> cicd_fresh at result)
      in m\<lparr>mCicd := mput prj entry (mCicd m)\<rparr>)"

definition applyCICDLogsFetched :: "string \<Rightarrow> CICDLogLineSnapshot list \<Rightarrow> terr option \<Rightarrow> Model \<Rightarrow> Model" where
  "applyCICDLogsFetched prj lines err m =
     (let modal = mCicdModal m in
      if \<not> cmOpen modal \<or> cmProjectID modal \<noteq> prj then m
      else case err of
        Some e \<Rightarrow> m\<lparr>mCicdModal := modal\<lparr>cmLoading := False, cmErr := snd e\<rparr>\<rparr>
      | None \<Rightarrow> m\<lparr>mCicdModal := modal\<lparr>cmLoading := False, cmLines := lines, cmErr := []\<rparr>\<rparr>)"

definition openCICDLogsModal :: "Model \<Rightarrow> step" where
  "openCICDLogsModal m =
     (case selectedProject m of
        None \<Rightarrow> stay (m\<lparr>mAlert := ''no project selected''\<rparr>)
      | Some project \<Rightarrow>
          (case Option.bind (map_of (mCicd m) (pjID project)) ceRun of
             None \<Rightarrow> stay (m\<lparr>mAlert := ''no workflow run available yet''\<rparr>)
           | Some run \<Rightarrow>
               if rsRunID run \<le> 0 then stay (m\<lparr>mAlert := ''no workflow run available yet''\<rparr>)
               else if \<not> mHasLogs m then stay (m\<lparr>mAlert := ''logs fetcher unavailable (install gh CLI)''\<rparr>)
               else let m = m\<lparr>mCicdModal := zero_cicd_modal\<lparr>cmOpen := True, cmProjectID := pjID project,
                          cmProjectAlias := pjDomain project, cmRunID := rsRunID run, cmRunNumber := rsRunNumber run,
                          cmRunStatus := cicdStatusFromGitHub (rsStatus run) (rsConclusion run), cmLoading := True\<rparr>\<rparr>
                    in (m, loadCICDLogsCmd m (rsRunID run), [])))"

definition updateCICDModalKey :: "string \<Rightarrow> Model \<Rightarrow> step" where
  "updateCICDModalKey key m =
     (let modal = mCicdModal m in
      if key = ''esc'' \<or> key = ''f8'' then stay (m\<lparr>mCicdModal := zero_cicd_modal\<rparr>)
      else if key = ''up'' \<or> key = ''k'' then
        stay (if cmScrollOffset modal > 0 then m\<lparr>mCicdModal := modal\<lparr>cmScrollOffset := cmScrollOffset modal - 1\<rparr>\<rparr> else m)
      else if key = ''down'' \<or> key = ''j'' then
        stay (if cmScrollOffset modal < int (length (cmLines modal)) - 1
              then m\<lparr>mCicdModal := modal\<lparr>cmScrollOffset := cmScrollOffset modal + 1\<rparr>\<rparr> else m)
      else stay m)"

section \<open>Dashboard and project detail keys\<close>

definition onDashboardSelectionChanged :: "Model \<Rightarrow> step" where
  "onDashboardSelectionChanged m =
     (case selectedProject m of
        None \<Rightarrow> stay m
      | Some project \<Rightarrow> (m, pollCICDPipelineCmd m, invalidateCICDCacheForProject project))"

definition move_selection :: "int \<Rightarrow> Model \<Rightarrow> step" where
  "move_selection delta m =
     (let m' = m\<lparr>mSelected := clampIndex (mSelected m + delta) (project_count m)\<rparr>
      in if mSelected m' \<noteq> mSelected m then onDashboardSelectionChanged m' else stay m')"

definition newStackSlot :: "Model \<Rightarrow> Model" where
  "newStackSlot m = m\<lparr>mSlot := Some (mNextSlot m), mNextSlot := Suc (mNextSlot m)\<rparr>"

definition updateDashboardKey :: "string \<Rightarrow> Model \<Rightarrow> step" where
  "updateDashboardKey key m =
     (if cmOpen (mCicdModal m) then updateCICDModalKey key m
      else if key = ''up'' \<or> key = ''k'' then move_selection (- 1) m
      else if key = ''down'' \<or> key = ''j'' then move_selection 1 m
      else if key = ''right'' \<or> key = ''enter'' then
        stay (if project_count m > 0 then m\<lparr>mState := StateProjectDetail, mTab := TabOverview\<rparr> else m)
      else if key = ''n'' then
        (if profiles_of (mCfg m) = [] then stay (m\<lparr>mAlert := ''create a profile first (init wizard)''\<rparr>)
         else stay (newStackSlot (m\<lparr>mProject := newProjectWizardForm (mCfg m), mState := StateProjectWizard\<rparr>)))
      else if key = ''i'' then beginImportScan m
      else if key = ''p'' then stay (set_hint [] (m\<lparr>mState := StateProviderCatalog\<rparr>))
      else if key = ''f8'' then openCICDLogsModal m
      else stay m)"

definition dispatchProjectAction :: "string \<Rightarrow> Model \<Rightarrow> step" where
  "dispatchProjectAction kind m =
     (if afRunning (mAction m) then stay (m\<lparr>mAlert := ''another action is in flight''\<rparr>)
      else case selectedProject m of
        None \<Rightarrow> stay (m\<lparr>mAlert := ''no project selected''\<rparr>)
      | Some project \<Rightarrow>
          (case ProfileByAlias (mCfg m) (pjProfileAlias project) of
             None \<Rightarrow> stay (m\<lparr>mAlert := ''profile for project not found''\<rparr>)
           | Some profile \<Rightarrow>
               (m\<lparr>mAction := zero_action_form\<lparr>afKind := kind, afProjectID := pjID project, afRunning := True\<rparr>\<rparr>,
                [RunProjectAction kind profile project], [])))"

definition applyProjectAction :: "string \<Rightarrow> string \<Rightarrow> string \<Rightarrow> terr option \<Rightarrow> Model \<Rightarrow> step" where
  "applyProjectAction kind prj output err m =
     (let m = m\<lparr>mAction := \<lparr>afKind = kind, afProjectID = prj, afRunning = False, afOutput = output, afErr = err\<rparr>,
            mAlert := (case err of
               Some e \<Rightarrow> kind @ '' failed: '' @ snd e
             | None \<Rightarrow> if kind = ProjectActionLogs then ''log tail captured'' else kind @ '' succeeded'')\<rparr>
      in if err = None \<and> (kind = ProjectActionRestart \<or> kind = ProjectActionSSLRenew)
         then (m, [refreshVisibleProjectsCmd m], []) else stay m)"

text \<open>\<open>live_logs.go\<close>\<close>

definition enterLiveLogsTab :: "Model \<Rightarrow> step" where
  "enterLiveLogsTab m =
     (case selectedProject m of
        None \<Rightarrow> stay (m\<lparr>mAlert := ''no project selected''\<rparr>)
      | Some project \<Rightarrow>
          (let m = (if lfBuffer (mLive m) = None \<or> lfProjectID (mLive m) \<noteq> pjID project
                 then m\<lparr>mLive := zero_live_form\<lparr>lfProjectID := pjID project, lfDomain := pjDomain project, lfAutoScroll := True,
                         lfBuffer := Some (NewRingBuffer zero_log_line liveLogsCapacity)\<rparr>\<rparr>
                 else m)
           in stay (m\<lparr>mTab := TabLogs\<rparr>)))"

definition updateLiveLogsKey :: "string \<Rightarrow> Model \<Rightarrow> step" where
  "updateLiveLogsKey key m =
     (let live = mLive m in
      if key = ''esc'' \<or> key = ''left'' \<or> key = ''1'' then stay (m\<lparr>mTab := TabOverview\<rparr>)
      else if key = ''4'' then stay m
      else if key = ''f'' then
        stay (m\<lparr>mLive := live\<lparr>lfAutoScroll := \<not> lfAutoScroll live\<rparr>,
                mAlert := (if \<not> lfAutoScroll live then ''auto-scroll on'' else ''auto-scroll paused'')\<rparr>)
      else if key = ''c'' then
        stay (m\<lparr>mLive := (if lfBuffer live = None then live
                         else live\<lparr>lfBuffer := Some (NewRingBuffer zero_log_line liveLogsCapacity)\<rparr>),
                mAlert := ''log buffer cleared''\<rparr>)
      else if key = ''up'' \<or> key = ''k'' then
        (let m = (if lfAutoScroll live then m\<lparr>mLive := live\<lparr>lfAutoScroll := False\<rparr>, mAlert := ''auto-scroll paused''\<rparr> else m)
         in stay (m\<lparr>mLive := (mLive m)\<lparr>lfScrollOffset := lfScrollOffset (mLive m) + 1\<rparr>\<rparr>))
      else if key = ''down'' \<or> key = ''j'' then
        stay (if lfScrollOffset live > 0 then m\<lparr>mLive := live\<lparr>lfScrollOffset := lfScrollOffset live - 1\<rparr>\<rparr> else m)
      else stay m)"

definition updateProjectDetailKey :: "string \<Rightarrow> Model \<Rightarrow> step" where
  "updateProjectDetailKey key m =
     (if mTab m = TabLogs then updateLiveLogsKey key m
      else if key = ''left'' \<or> key = ''esc'' \<or> key = ''tab'' then stay (m\<lparr>mState := StateDashboard\<rparr>)
      else if key = ''1'' then stay (m\<lparr>mTab := TabOverview\<rparr>)
      else if key = ''2'' then stay (m\<lparr>mTab := TabEnvDiff\<rparr>)
      else if key = ''3'' then stay (m\<lparr>mTab := TabDatabase\<rparr>)
      else if key = ''4'' then enterLiveLogsTab m
      else if key = ''r'' then dispatchProjectAction ProjectActionRestart m
      else if key = ''s'' then dispatchProjectAction ProjectActionSSLRenew m
      else if key = ''v'' then dispatchProjectAction ProjectActionLogs m
      else stay m)"

section \<open>The new-project wizard\<close>

definition isPickerStep :: "ProjectWizardStep \<Rightarrow> bool" where
  "isPickerStep s \<longleftrightarrow> s = ProjectStepProfile \<or> s = ProjectStepStack \<or> s = ProjectStepDBChoice \<or> s = ProjectStepDBKind"

definition isInputStep :: "ProjectWizardStep \<Rightarrow> bool" where
  "isInputStep s \<longleftrightarrow> s = ProjectStepDomain \<or> s = ProjectStepDBName"

definition dispatchProjectWizardAsync :: "Model \<Rightarrow> step" where
  "dispatchProjectWizardAsync m =
     (let form = mProject m in
      case ProfileByAlias (mCfg m) (wfProfileAlias form) of
        None \<Rightarrow> stay (m\<lparr>mProject := form\<lparr>wfErr := ''profile not found''\<rparr>\<rparr>)
      | Some profile \<Rightarrow>
          if wfStep form = ProjectStepDomain then
            (if \<not> wfPreflightDone form then (m, [WizardPreflight profile (wfProfileAlias form)], [])
             else (m, [WizardDomainCheck profile (wfDomain form)], []))
          else if wfStep form = ProjectStepExecuting then
            (m, [WizardExecute profile (form_plan form) (mSlot m) (mCfg m)], [])
          else stay m)"

text \<open>The remediation menu: keep the resources.\<close>

definition keep_and_exit :: "Model \<Rightarrow> step" where
  "keep_and_exit m = stay (m\<lparr>mProject := (mProject m)\<lparr>wfStep := ProjectStepDone\<rparr>, mState := StateDashboard,
     mAlert := ''wizard exited; resources kept on panel''\<rparr>)"

definition profile_or_zero :: "Config option \<Rightarrow> string \<Rightarrow> Profile" where
  "profile_or_zero conf name = (case ProfileByAlias conf name of None \<Rightarrow> zero_profile | Some p \<Rightarrow> p)"

text \<open>The rest of \<open>updateProjectWizardKey\<close>, after the keys that every step treats alike.\<close>

definition wizard_step_key :: "string \<Rightarrow> string option \<Rightarrow> Model \<Rightarrow> step" where
  "wizard_step_key key runes m =
     (let form = mProject m; set = (\<lambda>f. m\<lparr>mProject := f\<rparr>);
          typed = (case runes of
             Some r \<Rightarrow> if isInputStep (wfStep form) then stay (set (project_appendInput r form)) else stay m
           | None \<Rightarrow> stay m)
      in if isPickerStep (wfStep form) \<and> (key = ''up'' \<or> key = ''k'' \<or> key = ''left'') then
           stay (set (cycleSelection (mCfg m) (- 1) form))
         else if isPickerStep (wfStep form) \<and> (key = ''down'' \<or> key = ''j'' \<or> key = ''right'') then
           stay (set (cycleSelection (mCfg m) 1 form))
         else if wfStep form = ProjectStepDBChoice \<and> (key = ''y'' \<or> key = ''Y'') then
           stay (set (form\<lparr>wfDbWanted := True\<rparr>))
         else if wfStep form = ProjectStepDBChoice \<and> (key = ''n'' \<or> key = ''N'') then
           stay (set (form\<lparr>wfDbWanted := False\<rparr>))
         else if wfStep form = ProjectStepFailure \<and> (key = ''y'' \<or> key = ''Y'') then
           (set (form\<lparr>wfStep := ProjectStepRollingBack\<rparr>),
            [WizardRollback (profile_or_zero (mCfg m) (wfProfileAlias form)) (mSlot m)], [])
         else if wfStep form = ProjectStepFailure \<and> (key = ''n'' \<or> key = ''N'') then keep_and_exit m
         else typed)"

definition updateProjectWizardKey :: "string \<Rightarrow> string option \<Rightarrow> Model \<Rightarrow> step" where
  "updateProjectWizardKey key runes m =
     (let form = mProject m; set = (\<lambda>f. m\<lparr>mProject := f\<rparr>) in
      if key = ''esc'' then
        (if wfStep form = ProjectStepExecuting \<or> wfStep form = ProjectStepRollingBack then stay m
         else if wfStep form = ProjectStepFailure then keep_and_exit m
         else stay (m\<lparr>mState := StateDashboard, mAlert := ''wizard cancelled''\<rparr>))
      else if key = ''shift+tab'' then stay (set (project_stepBack form))
      else if key = ''backspace'' \<or> key = ''ctrl+h'' then stay (set (project_backspaceInput form))
      else if key = ''tab'' \<or> key = ''enter'' then
        (case project_validateAndAdvance (mCfg m) form of (updated, needsAsync) \<Rightarrow>
           if \<not> needsAsync then stay (set updated) else dispatchProjectWizardAsync (set updated))
      else wizard_step_key key runes m)"

definition applyPreflight :: "string \<Rightarrow> terr option \<Rightarrow> Model \<Rightarrow> step" where
  "applyPreflight name err m =
     (case err of
        Some e \<Rightarrow> stay (m\<lparr>mProject := (mProject m)\<lparr>wfErr := ''preflight failed: '' @ snd e\<rparr>\<rparr>)
      | None \<Rightarrow>
          (let m = m\<lparr>mProject := (mProject m)\<lparr>wfPreflightDone := True\<rparr>\<rparr>
           in (m, [WizardDomainCheck (profile_or_zero (mCfg m) name) (wfDomain (mProject m))], [])))"

definition applyDomainCheck :: "bool \<Rightarrow> terr option \<Rightarrow> Model \<Rightarrow> Model" where
  "applyDomainCheck available err m =
     (let form = mProject m; failed = (\<lambda>t. m\<lparr>mProject := form\<lparr>wfErr := t\<rparr>\<rparr>) in
      case err of
        Some e \<Rightarrow>
          if errors_is (fst e) (ProviderE ErrSubdomainExists)
          then failed ''domain is already provisioned on the panel; pick another''
          else failed (''domain check failed: '' @ snd e)
      | None \<Rightarrow>
          if \<not> available then failed ''domain is not available''
          else m\<lparr>mProject := form\<lparr>wfStep := ProjectStepReview, wfErr := []\<rparr>\<rparr>)"

fun index_of_project :: "string \<Rightarrow> Project list \<Rightarrow> int option" where
  "index_of_project i [] = None"
| "index_of_project i (p # ps) = (if pjID p = i then Some 0 else map_option (\<lambda>k. k + 1) (index_of_project i ps))"

definition executed_effects :: "ProvisionPlan \<Rightarrow> effect list" where
  "executed_effects plan =
     (if PlanDomain plan = [] then []
      else [Invalidated (''http:'' @ PlanDomain plan), Invalidated (''ssl:'' @ PlanDomain plan),
            Invalidated (''ssh:node:'' @ PlanDomain plan)])"

definition applyExecution :: "executed \<Rightarrow> Model \<Rightarrow> step" where
  "applyExecution ex m =
     (let form = (mProject m)\<lparr>wfReport := exReport ex, wfExecErr := map_option (\<lambda>(e, t). (Unwrap e, t)) (exErr ex)\<rparr> in
      case exErr ex of
        Some (e, t) \<Rightarrow>
          stay (m\<lparr>mProject := form\<lparr>wfExecuting := False, wfStep := ProjectStepFailure, wfErr := t\<rparr>\<rparr>)
      | None \<Rightarrow>
     (case exSaveErr ex of
        Some e \<Rightarrow>
          stay (m\<lparr>mProject := form\<lparr>wfErr := ''project saved partially: '' @ snd e, wfStep := ProjectStepFailure\<rparr>\<rparr>)
      | None \<Rightarrow>
          (let m = m\<lparr>mProject := form\<rparr>;
               m = (if exProjectCfg ex = None then m else m\<lparr>mCfg := exProjectCfg ex\<rparr>);
               m = (if exProjectID ex = [] then m
                    else case index_of_project (exProjectID ex) (cfgProjects (mCfg m)) of
                      None \<Rightarrow> m | Some i \<Rightarrow> m\<lparr>mSelected := i\<rparr>);
               m = m\<lparr>mProject := (mProject m)\<lparr>wfExecuting := False, wfStep := ProjectStepDone\<rparr>,
                     mState := StateDashboard, mAlert := ''project created''\<rparr>
           in (m, [refreshVisibleProjectsCmd m, scheduleRefresh (mRefresh m)], executed_effects (exPlan ex)))))"

definition applyRollback :: "CleanupResult list \<Rightarrow> terr option \<Rightarrow> Model \<Rightarrow> Model" where
  "applyRollback results err m =
     (if mState m = StateResumeWizard then
        (let form = (mResume m)\<lparr>rfRollingBack := False, rfResults := results\<rparr> in
         case err of
           Some e \<Rightarrow> m\<lparr>mResume := form\<lparr>rfErr := ''rollback finished with errors: '' @ snd e\<rparr>\<rparr>
         | None \<Rightarrow> m\<lparr>mResume := zero_resume_form, mState := StateDashboard, mAlert := ''resume rollback complete''\<rparr>)
      else
        m\<lparr>mProject := (mProject m)\<lparr>wfRolledBack := True, wfRollbackResults := results, wfRollbackErr := err,
             wfStep := ProjectStepDone\<rparr>,
          mState := StateDashboard,
          mAlert := (case err of Some e \<Rightarrow> ''rollback finished with errors: '' @ snd e | None \<Rightarrow> ''rollback complete'')\<rparr>)"

section \<open>Keys\<close>

definition handleOverlayKey :: "string \<Rightarrow> Model \<Rightarrow> step option" where
  "handleOverlayKey key m =
     (if hkOpen (mHostKey m) then
        (if key = ''q'' \<or> key = ''ctrl+c'' then Some (quit_now m)
         else if key = ''esc'' \<or> key = ''enter'' then Some (stay (m\<lparr>mHostKey := zero_host_key\<rparr>))
         else Some (stay m))
      else if mHelp m then
        (if key = ''q'' \<or> key = ''ctrl+c'' then Some (quit_now m)
         else if key = ''?'' \<or> key = ''esc'' \<or> key = ''enter'' then Some (stay (m\<lparr>mHelp := False\<rparr>))
         else Some (stay m))
      else None)"

definition route_key :: "ui_env \<Rightarrow> string \<Rightarrow> string option \<Rightarrow> Model \<Rightarrow> step" where
  "route_key E key runes m =
     (case mState m of
        StateInitWizard \<Rightarrow> updateInitWizardKey key runes m
      | StateDashboard \<Rightarrow> updateDashboardKey key m
      | StateProjectDetail \<Rightarrow> updateProjectDetailKey key m
      | StateProjectWizard \<Rightarrow> updateProjectWizardKey key runes m
      | StateResumeWizard \<Rightarrow> updateResumeWizardKey key runes m
      | StateImportPreview \<Rightarrow> updateImportPreviewKey key m
      | StateProviderCatalog \<Rightarrow> updateProviderCatalogKey E key m
      | StateCommandPalette \<Rightarrow> stay m
      | StateConfirmDialog \<Rightarrow> stay m)"

definition updateKey :: "ui_env \<Rightarrow> string \<Rightarrow> string option \<Rightarrow> Model \<Rightarrow> step option" where
  "updateKey E key runes m =
     (case handleOverlayKey key m of
        Some r \<Rightarrow> Some r
      | None \<Rightarrow>
          if key = ''q'' \<or> key = ''ctrl+c'' then Some (quit_now m)
          else if key = ''?'' then Some (stay (m\<lparr>mHelp := True, mViewport := 0\<rparr>))
          else if mState m = StateDashboard \<and> key = ''tab'' then Some (stay (cycleFocusedTile 1 m))
          else if mState m = StateDashboard \<and> key = ''shift+tab'' then Some (stay (cycleFocusedTile (- 1) m))
          else if mState m = StateDashboard \<and> key = ''esc'' \<and> mFocused m \<noteq> None then Some (stay (m\<lparr>mFocused := None\<rparr>))
          else
            (case handleViewportKey E key m of
               None \<Rightarrow> None
             | Some (True, m) \<Rightarrow> Some (stay m)
             | Some (False, m) \<Rightarrow> Some (route_key E key runes (m\<lparr>mViewport := 0\<rparr>))))"

section \<open>Update\<close>

definition on_resize :: "ui_env \<Rightarrow> int \<Rightarrow> int \<Rightarrow> Model \<Rightarrow> Model" where
  "on_resize E w h m =
     (let previous = BentoMode m;
          m = clamp_viewport E (m\<lparr>mWidth := w, mHeight := h\<rparr>)
      in if BentoMode m \<noteq> previous then m\<lparr>mSpinner := BentoMode m\<rparr> else m)"

definition on_config :: "Config option \<Rightarrow> bool \<Rightarrow> Model \<Rightarrow> step" where
  "on_config conf missing m =
     (if rfSnapshot (mResume m) \<noteq> None \<or> rfLoadErr (mResume m) \<noteq> None then
        stay (m\<lparr>mCfg := conf, mState := StateResumeWizard\<rparr>)
      else if missing then stay (m\<lparr>mCfg := conf, mState := StateInitWizard, mInit := newInitWizardForm\<rparr>)
      else
        (let m = m\<lparr>mCfg := conf, mState := StateDashboard\<rparr>;
             m = m\<lparr>mSelected := clampIndex (mSelected m) (project_count m)\<rparr>
         in (m, [refreshVisibleProjectsCmd m, scheduleRefresh (mRefresh m)]
               @ (if mHasPipeline m then scheduleCICDTick GitHubStepsTTL # pollCICDPipelineCmd m else []), [])))"

definition on_profile_saved :: "Config option \<Rightarrow> Model \<Rightarrow> step" where
  "on_profile_saved conf m =
     (let m = m\<lparr>mCfg := conf, mState := StateDashboard, mInit := zero_init_form\<lparr>ifStep := InitStepDone\<rparr>\<rparr>;
          m = m\<lparr>mSelected := clampIndex (mSelected m) (project_count m), mAlert := ''profile saved''\<rparr>
      in (m, [refreshVisibleProjectsCmd m, scheduleRefresh (mRefresh m)], []))"

definition on_refresh_failed :: "terr option \<Rightarrow> Model \<Rightarrow> step" where
  "on_refresh_failed err m =
     (let label = Emitted ''status.refresh_failed'' (classifyErrForTrace err) in
      case tryRaiseHostKeyModal err m of
        (True, m) \<Rightarrow> (m, [scheduleRefresh (mRefresh m)], [label, Emitted ''modal.hostkey_open'' (hkKind (mHostKey m))])
      | (False, m) \<Rightarrow>
          (m\<lparr>mAlert := ''status refresh failed; showing cached data''\<rparr>, [scheduleRefresh (mRefresh m)], [label]))"

definition on_tick :: "Model \<Rightarrow> step" where
  "on_tick m =
     (if mState m = StateDashboard \<or> mState m = StateProjectDetail
      then (m, [refreshVisibleProjectsCmd m, scheduleRefresh (mRefresh m)], [])
      else (m, [scheduleRefresh (mRefresh m)], []))"

fun Update :: "ui_env \<Rightarrow> msg \<Rightarrow> Model \<Rightarrow> step option" where
  "Update E (WindowSizeMsg w h) m = Some (stay (on_resize E w h m))"
| "Update E (ConfigLoadedMsg conf missing) m = Some (on_config conf missing m)"
| "Update E (ConfigLoadFailedMsg err) m =
     Some (stay (m\<lparr>mState := StateInitWizard, mInit := newInitWizardForm, mAlert := ''config load failed: '' @ snd err\<rparr>))"
| "Update E (ProfileSavedMsg conf) m = Some (on_profile_saved conf m)"
| "Update E (ProfileSaveFailedMsg err) m =
     Some (stay (m\<lparr>mInit := (mInit m)\<lparr>ifSaving := False, ifErr := ''save failed: '' @ snd err, ifStep := InitStepReview\<rparr>\<rparr>))"
| "Update E (ProjectWizardPreflightMsg name err) m = Some (applyPreflight name err m)"
| "Update E (ProjectWizardDomainCheckedMsg domain available err) m = Some (stay (applyDomainCheck available err m))"
| "Update E (ProjectWizardExecutedMsg ex) m = Some (applyExecution ex m)"
| "Update E (ProjectWizardRolledBackMsg results err) m = Some (stay (applyRollback results err m))"
| "Update E (PendingLoadedMsg snap err) m = Some (stay (applyPendingLoaded snap err m))"
| "Update E (PendingDiscardedMsg err) m = Some (stay (applyPendingDiscarded err m))"
| "Update E (ProjectActionCompletedMsg kind prj output err) m = Some (applyProjectAction kind prj output err m)"
| "Update E (ImportScanCompletedMsg rows n err) m = Some (stay (applyImportScan rows err m))"
| "Update E (ImportPersistedMsg conf n err) m = Some (applyImportPersisted conf n err m)"
| "Update E (StatusRefreshedMsg ss) m = Some (stay (m\<lparr>mStatuses := fold (\<lambda>s. mput (psProjectID s) s) ss (mStatuses m)\<rparr>))"
| "Update E (StatusRefreshFailedMsg err) m = Some (on_refresh_failed err m)"
| "Update E RefreshTickMsg m = Some (on_tick m)"
| "Update E CICDTickMsg m = Some (applyCICDTick m)"
| "Update E (CICDFetchedMsg prj result err at) m = Some (stay (applyCICDFetched E prj result err at m))"
| "Update E (CICDLogsFetchedMsg prj runID lines err) m = Some (stay (applyCICDLogsFetched prj lines err m))"
| "Update E (MouseMsg press button x y) m = Some (stay (updateMouse E press button x y m))"
| "Update E (KeyMsg key runes) m = updateKey E key runes (m\<lparr>mAlert := []\<rparr>)"
| "Update E OtherMsg m = Some (stay m)"

end
