(* ===== verification/Project_Status.thy ===== *)
theory Project_Status
  imports Tui_Model
begin

text \<open>
  The status of the projects on the dashboard: the HTTP and TLS probes (\<open>src/services/httpcheck\<close>) and the part of
  \<open>src/tui/commands.go\<close> that runs them through the status cache and asks GitHub for the last deployment.

  \<^item> The network is a parameter: the status code of a GET, the expiry dates of the certificates a TLS peer presents.
  \<^item> Times are instants in nanoseconds. \<open>Hours\<close> and \<open>Minutes\<close> are taken as exact quotients; the code's floating-point numbers
    round them, which shows only within a microsecond of a boundary.
  \<^item> When the cache serves a stale value it refreshes the entry in the background; here that refresh runs right after the
    answer, which is one of its possible moments (\<open>Status_Cache\<close> has all of them).
\<close>

section \<open>Probes (http.go, tls.go)\<close>

record HTTPResult =
  hrURL :: string
  hrStatusCode :: int
  hrClass :: string
  hrLatency :: int

record TLSResult =
  trAddress :: string
  trNotAfter :: int
  trDaysLeft :: int

record 'w net =
  ntNow :: "'w \<Rightarrow> int \<times> 'w"
  ntGet :: "string \<Rightarrow> int \<Rightarrow> 'w \<Rightarrow> int res \<times> 'w"
  ntDial :: "string \<Rightarrow> int \<Rightarrow> 'w \<Rightarrow> int list res \<times> 'w"
  ntCtxErr :: "'w \<Rightarrow> goerr option"

definition defaultProbeTimeout :: int where "defaultProbeTimeout = 1000000000"

definition statusClass :: "int \<Rightarrow> string" where
  "statusClass code =
     (if 200 \<le> code \<and> code \<le> 299 then ''2xx''
      else if 300 \<le> code \<and> code \<le> 399 then ''3xx''
      else if 400 \<le> code \<and> code \<le> 499 then ''4xx''
      else if 500 \<le> code \<and> code \<le> 599 then ''5xx''
      else ''unknown'')"

text \<open>
  \<open>timeout\<close> is the option the caller sets, 0 for the default; the client does not follow redirects. Creating the request fails
  only for a URL that does not parse, which is an error of the GET here.
\<close>

definition ProbeHTTP :: "'w net \<Rightarrow> string \<Rightarrow> int \<Rightarrow> 'w \<Rightarrow> HTTPResult res \<times> 'w" where
  "ProbeHTTP N url timeout w =
     (let timeout = (if timeout \<le> 0 then defaultProbeTimeout else timeout) in
      case ntNow N w of (start, w) \<Rightarrow>
     (case ntGet N url timeout w of
        (Inl e, w) \<Rightarrow> (Inl e, w)
      | (Inr code, w) \<Rightarrow>
          (case ntNow N w of (t, w) \<Rightarrow>
             (Inr \<lparr>hrURL = url, hrStatusCode = code, hrClass = statusClass code, hrLatency = time_Sub t start\<rparr>, w))))"

text \<open>\<open>net.JoinHostPort\<close> with a text port, and whether \<open>net.SplitHostPort\<close> accepts an address.\<close>

definition join_host_port :: "string \<Rightarrow> string \<Rightarrow> string" where
  "join_host_port host port = (if CHR '':'' \<in> set host then ''['' @ host @ '']:'' @ port else host @ '':'' @ port)"

definition host_port_ok :: "string \<Rightarrow> bool" where
  "host_port_ok a =
     (let host = rev (tl (dropWhile (\<lambda>c. c \<noteq> CHR '':'') (rev a))); bracket = (\<lambda>c. c \<noteq> CHR '']'') in
      CHR '':'' \<in> set a \<and>
      (if hd a = CHR ''['' then
         CHR '']'' \<in> set a \<and> length (takeWhile bracket a) + 1 = length host
         \<and> CHR ''['' \<notin> set (tl a) \<and> CHR '']'' \<notin> set (tl (dropWhile bracket a))
       else CHR '':'' \<notin> set host \<and> CHR ''['' \<notin> set a \<and> CHR '']'' \<notin> set a))"

definition ProbeTLS :: "'w net \<Rightarrow> string \<Rightarrow> int \<Rightarrow> 'w \<Rightarrow> TLSResult res \<times> 'w" where
  "ProbeTLS N address timeout w =
     (if \<not> host_port_ok address then (Inl [Foreign 20], w)
      else
        (let timeout = (if timeout \<le> 0 then defaultProbeTimeout else timeout) in
         case ntDial N address timeout w of
           (Inl e, w) \<Rightarrow> (Inl (case ntCtxErr N w of Some c \<Rightarrow> c | None \<Rightarrow> e), w)
         | (Inr [], w) \<Rightarrow> (Inl [Foreign 21], w)
         | (Inr (notAfter # _), w) \<Rightarrow>
             (case ntNow N w of (t, w) \<Rightarrow>
                (Inr \<lparr>trAddress = address, trNotAfter = notAfter,
                      trDaysLeft = go_div (time_Sub notAfter t) (24 * 3600 * 1000000000)\<rparr>, w))))"

section \<open>Through the cache (commands.go)\<close>

datatype probe_value = HTTPProbe HTTPResult | TLSProbe TLSResult | RunProbe "WorkflowRun option" | PipelineProbe PipelineFetchResult

definition HTTPStatusTTL :: int where "HTTPStatusTTL = 30 * 1000000000"
definition SSLCertTTL :: int where "SSLCertTTL = 300 * 1000000000"
definition GitHubLastDeployTTL :: int where "GitHubLastDeployTTL = 60 * 1000000000"

type_synonym 'w fetch = "'w \<Rightarrow> probe_value res \<times> 'w"

definition as_probe :: "('a \<Rightarrow> probe_value) \<Rightarrow> 'a res \<times> 'w \<Rightarrow> probe_value res \<times> 'w" where
  "as_probe f x = (case x of (Inl e, w) \<Rightarrow> (Inl e, w) | (Inr a, w) \<Rightarrow> (Inr (f a), w))"

definition flight_of :: "string \<Rightarrow> probe_value res \<Rightarrow> int \<Rightarrow> probe_value flight" where
  "flight_of T r t = Leader (case r of Inl e \<Rightarrow> Inl e | Inr v \<Rightarrow> Inr (Any T v)) t"

definition cached ::
  "'w net \<Rightarrow> string \<Rightarrow> string \<Rightarrow> int \<Rightarrow> 'w fetch \<Rightarrow> probe_value Cache \<Rightarrow> 'w
     \<Rightarrow> (probe_value \<times> Metadata) res \<times> probe_value Cache \<times> 'w" where
  "cached N T key ttl fetch c w =
     (case ntNow N w of (t, w) \<Rightarrow>
        if lookup key c = None then
          (case fetch w of (r, w) \<Rightarrow>
          (case ntNow N w of (t1, w) \<Rightarrow>
          (case ntNow N w of (t2, w) \<Rightarrow>
             (let s = GetOrFetchMeta (Some c) T key ttl t (flight_of T r t1) (\<lambda>x. x) t2
              in (outcome_of s, cache_after s, w)))))
        else
          (let s = GetOrFetchMeta (Some c) T key ttl t (Follower (Inl [])) (\<lambda>x. x) t in
           if refreshing s then
             (case fetch w of (r, w) \<Rightarrow>
             (case ntNow N w of (t1, w) \<Rightarrow>
                (outcome_of s, refreshBackground key ttl (flight_of T r t1) (cache_after s), w)))
           else (outcome_of s, cache_after s, w)))"

section \<open>The last deployment\<close>

definition lastDeployPlaceholder :: string where "lastDeployPlaceholder = em_dash"
definition lastDeployNoRun :: string where "lastDeployNoRun = ''no run yet''"
definition lastDeployUnavailable :: string where "lastDeployUnavailable = ''unavailable''"

definition ns_minute :: int where "ns_minute = 60 * 1000000000"
definition ns_hour :: int where "ns_hour = 60 * ns_minute"

definition humanizeAge :: "int \<Rightarrow> string" where
  "humanizeAge d0 =
     (let d = (if d0 < 0 then 0 else d0) in
      if d < ns_minute then ''just now''
      else if d < ns_hour then itoa (d div ns_minute) @ ''m ago''
      else if d < 24 * ns_hour then itoa (d div ns_hour) @ ''h ago''
      else if d < 30 * 24 * ns_hour then itoa (d div ns_hour div 24) @ ''d ago''
      else itoa (d div ns_hour div (24 * 30)) @ ''mo ago'')"

definition formatLastDeploy :: "int \<Rightarrow> WorkflowRun option \<Rightarrow> string" where
  "formatLastDeploy t r =
     (case r of
        None \<Rightarrow> lastDeployNoRun
      | Some run \<Rightarrow>
          (let stamp = (case non_zero_start run of None \<Rightarrow> wrUpdatedAt run | Some s \<Rightarrow> s);
               rel = humanizeAge (time_Sub t (instant stamp)); dot = '' '' @ middle_dot @ '' '' in
           if wrConclusion run = ''success'' then rel @ dot @ ''success''
           else if wrConclusion run \<noteq> [] then rel @ dot @ wrConclusion run
           else if wrStatus run \<noteq> [] then rel @ dot @ wrStatus run
           else rel))"

type_synonym 'w last_deploy = "RepoRef \<Rightarrow> string \<Rightarrow> 'w \<Rightarrow> WorkflowRun option res \<times> 'w"

definition resolveLastDeploy ::
  "'w net \<Rightarrow> 'w last_deploy option \<Rightarrow> Project \<Rightarrow> probe_value Cache \<Rightarrow> 'w \<Rightarrow> string \<times> probe_value Cache \<times> 'w" where
  "resolveLastDeploy N fetcher project c w =
     (case fetcher of
        None \<Rightarrow> (lastDeployPlaceholder, c, w)
      | Some f \<Rightarrow>
     (case parseRepoRef (pjRepo project) of
        None \<Rightarrow> (lastDeployPlaceholder, c, w)
      | Some ref \<Rightarrow>
          (let key = PrefixGitHubLastDeploy @ FullName ref @ '':'' @ DefaultWorkflowFile in
           case cached N ''*github.WorkflowRun'' key GitHubLastDeployTTL (\<lambda>w. as_probe RunProbe (f ref DefaultWorkflowFile w)) c w of
             (Inr (RunProbe run, _), c, w) \<Rightarrow> (case ntNow N w of (t, w) \<Rightarrow> (formatLastDeploy t run, c, w))
           | (_, c, w) \<Rightarrow> (lastDeployUnavailable, c, w))))"

section \<open>FetchProjectStatusesWithGitHub\<close>

definition blank_project_status :: "Project \<Rightarrow> ProjectStatus" where
  "blank_project_status p = \<lparr>psProjectID = pjID p, psHTTPHealth = ''pending'', psSSLDaysLeft = -1, psNodeVersion = pjNodeVersion p,
     psLastDeploy = lastDeployPlaceholder, psState = ProjectUnknown, psStale = False, psFetchedAt = None\<rparr>"

definition with_http :: "(probe_value \<times> Metadata) res \<Rightarrow> ProjectStatus \<Rightarrow> ProjectStatus" where
  "with_http r s =
     (case r of
        Inr (HTTPProbe h, meta) \<Rightarrow>
          s\<lparr>psHTTPHealth := itoa (hrStatusCode h) @ '' '' @ hrClass h,
            psState := (if 200 \<le> hrStatusCode h \<and> hrStatusCode h \<le> 399 then ProjectOnline else ProjectOffline),
            psStale := IsStale meta, psFetchedAt := mFetchedAt meta\<rparr>
      | _ \<Rightarrow> s\<lparr>psHTTPHealth := ''offline'', psState := ProjectOffline\<rparr>)"

definition with_tls :: "(probe_value \<times> Metadata) res \<Rightarrow> ProjectStatus \<Rightarrow> ProjectStatus" where
  "with_tls r s = (case r of Inr (TLSProbe t, _) \<Rightarrow> s\<lparr>psSSLDaysLeft := trDaysLeft t\<rparr> | _ \<Rightarrow> s)"

definition with_import :: "Project \<Rightarrow> ProjectStatus \<Rightarrow> ProjectStatus" where
  "with_import p s = (if pjImportedAt p \<noteq> None then s\<lparr>psState := ProjectStale, psStale := True\<rparr> else s)"

definition fetch_one ::
  "'w net \<Rightarrow> 'w last_deploy option \<Rightarrow> Project \<Rightarrow> probe_value Cache \<Rightarrow> 'w \<Rightarrow> ProjectStatus \<times> probe_value Cache \<times> 'w" where
  "fetch_one N fetcher p c w =
     (case cached N ''httpcheck.HTTPResult'' (PrefixHTTP @ pjDomain p) HTTPStatusTTL
             (\<lambda>w. as_probe HTTPProbe (ProbeHTTP N (''https://'' @ pjDomain p) 0 w)) c w of (http, c, w) \<Rightarrow>
     (case cached N ''httpcheck.TLSResult'' (PrefixSSL @ pjDomain p) SSLCertTTL
             (\<lambda>w. as_probe TLSProbe (ProbeTLS N (join_host_port (pjDomain p) ''443'') 0 w)) c w of (tls, c, w) \<Rightarrow>
     (case resolveLastDeploy N fetcher p c w of (deploy, c, w) \<Rightarrow>
        ((with_import p (with_tls tls (with_http http (blank_project_status p))))\<lparr>psLastDeploy := deploy\<rparr>, c, w))))"

text \<open>The loop; the error it returns is always nil.\<close>

fun FetchProjectStatusesWithGitHub ::
  "'w net \<Rightarrow> 'w last_deploy option \<Rightarrow> Project list \<Rightarrow> probe_value Cache \<Rightarrow> 'w \<Rightarrow> ProjectStatus list \<times> probe_value Cache \<times> 'w" where
  "FetchProjectStatusesWithGitHub N fetcher [] c w = ([], c, w)"
| "FetchProjectStatusesWithGitHub N fetcher (p # ps) c w =
     (case fetch_one N fetcher p c w of (s, c, w) \<Rightarrow>
     (case FetchProjectStatusesWithGitHub N fetcher ps c w of (ss, c, w) \<Rightarrow> (s # ss, c, w)))"

definition FetchProjectStatuses ::
  "'w net \<Rightarrow> Project list \<Rightarrow> probe_value Cache \<Rightarrow> 'w \<Rightarrow> ProjectStatus list \<times> probe_value Cache \<times> 'w" where
  "FetchProjectStatuses N = FetchProjectStatusesWithGitHub N None"

end
