(* ===== verification/Tui_Commands.thy ===== *)
theory Tui_Commands
  imports Tui Project_Status
begin

text \<open>
  The commands of the terminal interface: the runner behind them (\<open>src/tui/wizard_runner.go\<close>), their bodies
  (\<open>src/tui/commands.go\<close>, \<open>cicd.go\<close>), the fetchers that \<open>src/cmd/webox/run.go\<close> hands to the program, and the loop that feeds
  their answers and the operator's input to \<open>Update\<close>.

  A command runs on the shared state: the stack slots of the wizards, the status cache, the context and the world (files and
  whatever lies behind the panel and GitHub). Each command runs to its end at once; commands interleave with each other and
  with the input in any order. \<open>None\<close> is a panic.
\<close>

section \<open>The runner (wizard_runner.go)\<close>

record 'w WizardRunner =
  rnPreflight :: "Profile \<Rightarrow> 'w \<Rightarrow> (ProviderStatus option \<times> goerr option) \<times> 'w"
  rnCheckDomainAvailable :: "Profile \<Rightarrow> string \<Rightarrow> 'w \<Rightarrow> goerr option \<times> 'w"
  rnExecute :: "Profile \<Rightarrow> ProvisionPlan \<Rightarrow> 'w Stack \<Rightarrow> 'w env \<Rightarrow> (ProvisionReport option \<times> exec_error option) \<times> 'w Stack \<times> 'w env"
  rnRollback :: "Profile \<Rightarrow> 'w Stack \<Rightarrow> 'w env \<Rightarrow> (CleanupResult list \<times> goerr option) \<times> 'w Stack \<times> 'w env"
  rnRestartApp :: "Profile \<Rightarrow> string \<Rightarrow> 'w \<Rightarrow> goerr option \<times> 'w"
  rnRenewSSL :: "Profile \<Rightarrow> string \<Rightarrow> 'w \<Rightarrow> goerr option \<times> 'w"
  rnTailLog :: "Profile \<Rightarrow> string \<Rightarrow> int \<Rightarrow> 'w \<Rightarrow> string res \<times> 'w"
  rnListProviderSubdomains :: "Profile \<Rightarrow> 'w \<Rightarrow> Subdomain list res \<times> 'w"

type_synonym 'w provider_of = "Profile \<Rightarrow> 'w HostingProvider res"

definition newProviderFromProfile :: "'p factory gomap \<Rightarrow> Profile \<Rightarrow> 'p res" where
  "newProviderFromProfile factories profile = New factories (profile_config profile)"

definition run_Preflight :: "'w provider_of \<Rightarrow> Profile \<Rightarrow> 'w \<Rightarrow> (ProviderStatus option \<times> goerr option) \<times> 'w" where
  "run_Preflight prov profile w =
     (case prov profile of
        Inl err \<Rightarrow> ((None, Some err), w)
      | Inr p \<Rightarrow> (case Preflight (Some p) w of (st, err, w) \<Rightarrow> ((st, err), w)))"

definition run_CheckDomainAvailable :: "'w provider_of \<Rightarrow> Profile \<Rightarrow> string \<Rightarrow> 'w \<Rightarrow> goerr option \<times> 'w" where
  "run_CheckDomainAvailable prov profile domain w =
     (case prov profile of Inl err \<Rightarrow> (Some err, w) | Inr p \<Rightarrow> CheckSubdomainAvailable (Some p) domain w)"

definition run_Execute ::
  "('w \<Rightarrow> time_text) \<Rightarrow> PlanValidators gomap \<Rightarrow> 'w provider_of \<Rightarrow> Profile \<Rightarrow> ProvisionPlan \<Rightarrow> 'w Stack \<Rightarrow> 'w env
     \<Rightarrow> (ProvisionReport option \<times> exec_error option) \<times> 'w Stack \<times> 'w env" where
  "run_Execute now_text validators prov profile plan st e =
     (case prov profile of
        Inl err \<Rightarrow> ((None, Some (PlainError err)), st, e)
      | Inr p \<Rightarrow> (case Execute now_text validators (Some p) plan (Some st) e of
          (r, st', e') \<Rightarrow> (r, (case st' of None \<Rightarrow> st | Some s \<Rightarrow> s), e')))"

definition run_Rollback ::
  "'w provider_of \<Rightarrow> Profile \<Rightarrow> 'w Stack \<Rightarrow> 'w env \<Rightarrow> (CleanupResult list \<times> goerr option) \<times> 'w Stack \<times> 'w env" where
  "run_Rollback prov profile st e =
     (case prov profile of
        Inl err \<Rightarrow> (([], Some err), st, e)
      | Inr p \<Rightarrow> Rollback (Some (MakeStepRunner (Some p))) st e)"

definition run_RestartApp :: "'w provider_of \<Rightarrow> Profile \<Rightarrow> string \<Rightarrow> 'w \<Rightarrow> goerr option \<times> 'w" where
  "run_RestartApp prov profile domain w =
     (case prov profile of Inl err \<Rightarrow> (Some err, w) | Inr p \<Rightarrow> RestartNodeApp p domain w)"

definition run_RenewSSL :: "'w provider_of \<Rightarrow> Profile \<Rightarrow> string \<Rightarrow> 'w \<Rightarrow> goerr option \<times> 'w" where
  "run_RenewSSL prov profile domain w =
     (case prov profile of Inl err \<Rightarrow> (Some err, w) | Inr p \<Rightarrow> SetupSSL p domain w)"

definition run_TailLog :: "'w provider_of \<Rightarrow> Profile \<Rightarrow> string \<Rightarrow> int \<Rightarrow> 'w \<Rightarrow> string res \<times> 'w" where
  "run_TailLog prov profile domain lines w =
     (case prov profile of Inl err \<Rightarrow> (Inl err, w) | Inr p \<Rightarrow> TailLog p domain lines w)"

definition run_ListProviderSubdomains :: "'w provider_of \<Rightarrow> Profile \<Rightarrow> 'w \<Rightarrow> Subdomain list res \<times> 'w" where
  "run_ListProviderSubdomains prov profile w =
     (case prov profile of Inl err \<Rightarrow> (Inl err, w) | Inr p \<Rightarrow> ListSubdomains p w)"

definition defaultRunner :: "('w \<Rightarrow> time_text) \<Rightarrow> PlanValidators gomap \<Rightarrow> 'w provider_of \<Rightarrow> 'w WizardRunner" where
  "defaultRunner now_text validators prov =
     \<lparr>rnPreflight = run_Preflight prov, rnCheckDomainAvailable = run_CheckDomainAvailable prov,
      rnExecute = run_Execute now_text validators prov, rnRollback = run_Rollback prov,
      rnRestartApp = run_RestartApp prov, rnRenewSSL = run_RenewSSL prov, rnTailLog = run_TailLog prov,
      rnListProviderSubdomains = run_ListProviderSubdomains prov\<rparr>"

section \<open>Fetchers of the program (cmd/webox/run.go)\<close>

definition lastDeployFetcherFor :: "'w GithubClient \<Rightarrow> 'w last_deploy" where
  "lastDeployFetcherFor client ref workflow w = GetLatestRun client ref [] ''workflow_dispatch'' w"

definition pipelineFetcherFor :: "'w GithubClient \<Rightarrow> RepoRef \<Rightarrow> string \<Rightarrow> 'w \<Rightarrow> PipelineFetchResult res \<times> 'w" where
  "pipelineFetcherFor client ref workflow w =
     (case GetLatestRun client ref [] [] w of
        (Inl e, w) \<Rightarrow> (Inl e, w)
      | (Inr None, w) \<Rightarrow> (Inl [GithubE ErrRunNotFound], w)
      | (Inr (Some run), w) \<Rightarrow>
          (case GetWorkflowSteps client ref (wrID run) w of
             (Inl e, w) \<Rightarrow> (Inl e, w)
           | (Inr sts, w) \<Rightarrow> (Inr \<lparr>pfrRun = Some run, pfrSteps = sts, pfrRateLimitHint = []\<rparr>, w)))"

definition logsFetcherFor :: "'w GithubClient \<Rightarrow> RepoRef \<Rightarrow> int \<Rightarrow> int \<Rightarrow> 'w \<Rightarrow> WorkflowLogLine list res \<times> 'w" where
  "logsFetcherFor client ref runID maxLines w = GetWorkflowLogs client ref runID maxLines w"

section \<open>Shared state and dependencies\<close>

type_synonym 'w shared = "(nat \<Rightarrow> 'w Stack option) \<times> probe_value Cache \<times> 'w env"

record 'w deps =
  dpRunner :: "'w WizardRunner"
  dpNet :: "'w net"
  dpFetch :: "Project list \<Rightarrow> probe_value Cache \<Rightarrow> 'w \<Rightarrow> ProjectStatus list res \<times> probe_value Cache \<times> 'w"
  dpPipeline :: "RepoRef \<Rightarrow> string \<Rightarrow> 'w \<Rightarrow> PipelineFetchResult res \<times> 'w"
  dpLogs :: "RepoRef \<Rightarrow> int \<Rightarrow> int \<Rightarrow> 'w \<Rightarrow> WorkflowLogLine list res \<times> 'w"
  dpConfigPath :: string
  dpPendingPath :: string
  dpDefaultConfigPath :: "string res"
  dpDefaultPendingPath :: "string res"
  dpNewID :: "'w \<Rightarrow> string \<times> 'w"
  dpLower :: "string \<Rightarrow> string"
  dpSchema :: "json \<Rightarrow> bool"
  dpStamp :: "time_text \<Rightarrow> string"
  dpRounds :: "nat \<Rightarrow> lock_round"
  dpStart :: int
  dpText :: "goerr \<Rightarrow> string"
  dpExecText :: "exec_error \<Rightarrow> string"

text \<open>The default status fetcher of \<open>New\<close>.\<close>

definition default_fetch ::
  "'w net \<Rightarrow> 'w last_deploy option \<Rightarrow> Project list \<Rightarrow> probe_value Cache \<Rightarrow> 'w \<Rightarrow> ProjectStatus list res \<times> probe_value Cache \<times> 'w" where
  "default_fetch N fetcher projects c w =
     (case FetchProjectStatusesWithGitHub N fetcher projects c w of (ss, c, w) \<Rightarrow> (Inr ss, c, w))"

text \<open>
  What \<open>runTUIWithDeps\<close> of run.go hands to \<open>New\<close>: a configuration path and three fetchers. The path of the pending
  clean-ups, the runner and the status fetcher are left unset; \<open>New\<close> fills in the last two. \<open>D\<close> are the facilities of the system.
\<close>

definition runTUIWithDeps ::
  "('w \<Rightarrow> time_text) \<Rightarrow> PlanValidators gomap \<Rightarrow> 'w provider_of \<Rightarrow> string \<Rightarrow> 'w GithubClient \<Rightarrow> 'w deps \<Rightarrow> 'w deps" where
  "runTUIWithDeps now_text validators prov cfgPath client D =
     D\<lparr>dpConfigPath := cfgPath, dpPendingPath := [], dpRunner := defaultRunner now_text validators prov,
       dpFetch := default_fetch (dpNet D) (Some (lastDeployFetcherFor client)), dpPipeline := pipelineFetcherFor client,
       dpLogs := logsFetcherFor client\<rparr>"

definition texted :: "'w deps \<Rightarrow> goerr option \<Rightarrow> terr option" where
  "texted D = map_option (\<lambda>e. (e, dpText D e))"

definition on_world :: "('w \<Rightarrow> 'a \<times> 'w) \<Rightarrow> 'w shared \<Rightarrow> 'a \<times> 'w shared" where
  "on_world f s = (case s of (slots, c, x, w) \<Rightarrow> (case f w of (a, w) \<Rightarrow> (a, (slots, c, x, w))))"

definition on_env :: "('w env \<Rightarrow> 'a \<times> 'w env) \<Rightarrow> 'w shared \<Rightarrow> 'a \<times> 'w shared" where
  "on_env f s = (case s of (slots, c, e) \<Rightarrow> (case f e of (a, e) \<Rightarrow> (a, (slots, c, e))))"

text \<open>\<open>if path == "" \<close> use the default location.\<close>

definition resolve_path :: "string \<Rightarrow> string res \<Rightarrow> string res" where
  "resolve_path path dflt = (if path = [] then dflt else Inr path)"

definition save_config :: "'z World_scheme deps \<Rightarrow> string \<Rightarrow> Config \<Rightarrow> 'z World_scheme env \<Rightarrow> goerr option \<times> 'z World_scheme env" where
  "save_config D path conf = Save (dpSchema D) (dpRounds D) (dpStart D) path (Some conf)"

section \<open>Start-up\<close>

definition loadPendingCmd :: "'z World_scheme deps \<Rightarrow> 'z World_scheme \<Rightarrow> msg \<times> 'z World_scheme" where
  "loadPendingCmd D w =
     (case resolve_path (dpPendingPath D) (dpDefaultPendingPath D) of
        Inl err \<Rightarrow> (PendingLoadedMsg None (Some (err, dpText D err)), w)
      | Inr path \<Rightarrow>
          (case LoadPending path w of
             (Inl err, w) \<Rightarrow> (PendingLoadedMsg None (Some (err, dpText D err)), w)
           | (Inr snap, w) \<Rightarrow> (PendingLoadedMsg snap None, w)))"

definition os_Stat :: "string \<Rightarrow> 'z World_scheme \<Rightarrow> bool option \<times> 'z World_scheme" where
  "os_Stat path w = (case sys w of (ok, w) \<Rightarrow> (if \<not> ok then None else Some (files w path \<noteq> None), w))"

definition loadConfigCmd :: "'z World_scheme deps \<Rightarrow> 'z World_scheme env \<Rightarrow> msg \<times> 'z World_scheme env" where
  "loadConfigCmd D e =
     (let failed = (\<lambda>err. ConfigLoadFailedMsg (err, dpText D err)) in
      case resolve_path (dpConfigPath D) (dpDefaultConfigPath D) of
        Inl err \<Rightarrow> (failed err, e)
      | Inr path \<Rightarrow>
          (case os_Stat path (snd e) of
             (None, w) \<Rightarrow> (failed [OSErr], (fst e, w))
           | (Some False, w) \<Rightarrow> (ConfigLoadedMsg (Some DefaultConfig) True, (fst e, w))
           | (Some True, w) \<Rightarrow>
               (case Load (dpSchema D) (dpStamp D) (dpRounds D) (dpStart D) path (fst e, w) of
                  (Inl err, e) \<Rightarrow> (failed err, e)
                | (Inr conf, e) \<Rightarrow>
                    if profiles_of (Some conf) = [] then (ConfigLoadedMsg (Some conf) True, e)
                    else (ConfigLoadedMsg (Some conf) False, e))))"

definition saveProfileCmd :: "'z World_scheme deps \<Rightarrow> Profile \<Rightarrow> Config option \<Rightarrow> 'z World_scheme env \<Rightarrow> msg \<times> 'z World_scheme env" where
  "saveProfileCmd D profile current e =
     (let conf = (case current of None \<Rightarrow> DefaultConfig | Some c \<Rightarrow> c);
          updated = conf\<lparr>cfProfiles := Some (profiles_of (Some conf) @ [profile])\<rparr> in
      case resolve_path (dpConfigPath D) (dpDefaultConfigPath D) of
        Inl err \<Rightarrow> (ProfileSaveFailedMsg (err, dpText D err), e)
      | Inr path \<Rightarrow>
          (case save_config D path updated e of
             (Some err, e) \<Rightarrow> (ProfileSaveFailedMsg (err, dpText D err), e)
           | (None, e) \<Rightarrow> (ProfileSavedMsg (Some updated), e)))"

section \<open>The new-project wizard\<close>

definition wizardPreflightCmd :: "'w deps \<Rightarrow> Profile \<Rightarrow> string \<Rightarrow> 'w \<Rightarrow> msg \<times> 'w" where
  "wizardPreflightCmd D profile name w =
     (case rnPreflight (dpRunner D) profile w of ((_, err), w) \<Rightarrow> (ProjectWizardPreflightMsg name (texted D err), w))"

definition wizardDomainCheckCmd :: "'w deps \<Rightarrow> Profile \<Rightarrow> string \<Rightarrow> 'w \<Rightarrow> msg \<times> 'w" where
  "wizardDomainCheckCmd D profile domain w =
     (case rnCheckDomainAvailable (dpRunner D) profile domain w of
        (None, w) \<Rightarrow> (ProjectWizardDomainCheckedMsg domain True None, w)
      | (Some err, w) \<Rightarrow> (ProjectWizardDomainCheckedMsg domain False (Some (err, dpText D err)), w))"

definition new_project :: "string \<Rightarrow> ProvisionPlan \<Rightarrow> Project" where
  "new_project wid plan = \<lparr>pjID = wid, pjDomain = PlanDomain plan, pjProfileAlias = ProfileAlias plan, pjRepo = [],
     pjLocalPath = [], pjStack = PlanStack plan, pjNodeVersion = PlanNodeVersion plan, pjImportedAt = None, pjSecretsMeta = []\<rparr>"

definition add_projects :: "Config \<Rightarrow> Project list \<Rightarrow> Config" where
  "add_projects conf ps = conf\<lparr>cfProjects := Some (cfgProjects (Some conf) @ ps)\<rparr>"

definition executed_msg :: "ProvisionPlan \<Rightarrow> ProvisionReport option \<Rightarrow> executed" where
  "executed_msg plan report = \<lparr>exPlan = plan, exReport = report, exErr = None, exProjectID = [], exProjectCfg = None,
     exSaveErr = None, exCredentials = None\<rparr>"

definition wizardExecuteCmd ::
  "'z World_scheme deps \<Rightarrow> Profile \<Rightarrow> ProvisionPlan \<Rightarrow> nat \<Rightarrow> Config option \<Rightarrow> 'z World_scheme shared
     \<Rightarrow> (msg \<times> 'z World_scheme shared) option" where
  "wizardExecuteCmd D profile plan slot conf s =
     (case s of (slots, c, x, w) \<Rightarrow>
     (case dpNewID D w of (wid, w) \<Rightarrow>
        (let st = NewStack (Some (NewFilePersisterWithProfile (dpPendingPath D) wid (ProfileAlias plan))) wid in
         case rnExecute (dpRunner D) profile plan st (x, w) of ((report, err), st, e) \<Rightarrow>
           (let slots = slots(slot := Some st); ex = executed_msg plan report in
            case (err, conf) of
              (Some er, _) \<Rightarrow> Some (ProjectWizardExecutedMsg (ex\<lparr>exErr := Some (er, dpExecText D er)\<rparr>), (slots, c, e))
            | (None, None) \<Rightarrow> None
            | (None, Some cf) \<Rightarrow>
           (case resolve_path (dpConfigPath D) (dpDefaultConfigPath D) of
              Inl er \<Rightarrow> Some (ProjectWizardExecutedMsg (ex\<lparr>exSaveErr := Some (er, dpText D er)\<rparr>), (slots, c, e))
            | Inr path \<Rightarrow>
                (let updated = add_projects cf [new_project wid plan] in
                 case save_config D path updated e of
                   (Some er, e) \<Rightarrow> Some (ProjectWizardExecutedMsg (ex\<lparr>exSaveErr := Some (er, dpText D er)\<rparr>), (slots, c, e))
                 | (None, e) \<Rightarrow>
                     (case RemovePending (dpPendingPath D) (snd e) of (_, w) \<Rightarrow>
                        Some (ProjectWizardExecutedMsg (ex\<lparr>exProjectID := wid, exProjectCfg := Some updated,
                           exCredentials := Option.bind report Credentials\<rparr>),
                         (slots(slot := None), c, fst e, w)))))))))"

text \<open>The stack an undo works on is shared with the slot, so the slot holds what the undo left of it.\<close>

definition wizardRollbackCmd ::
  "'z World_scheme deps \<Rightarrow> Profile \<Rightarrow> nat \<Rightarrow> 'z World_scheme shared \<Rightarrow> msg \<times> 'z World_scheme shared" where
  "wizardRollbackCmd D profile slot s =
     (case s of (slots, c, e) \<Rightarrow>
        (case slots slot of
           None \<Rightarrow> (ProjectWizardRolledBackMsg [] None, s)
         | Some st \<Rightarrow>
             (case rnRollback (dpRunner D) profile st e of ((results, err), st, e) \<Rightarrow>
                (case err of
                   Some er \<Rightarrow> (ProjectWizardRolledBackMsg results (texted D err), (slots(slot := Some st), c, e))
                 | None \<Rightarrow>
                     (case RemovePending (dpPendingPath D) (snd e) of (_, w) \<Rightarrow>
                        (ProjectWizardRolledBackMsg results None, (slots(slot := None), c, fst e, w)))))))"

definition resumeRollbackCmd ::
  "'z World_scheme deps \<Rightarrow> Config option \<Rightarrow> PendingCleanups option \<Rightarrow> 'z World_scheme env \<Rightarrow> msg \<times> 'z World_scheme env" where
  "resumeRollbackCmd D conf snap e =
     (case snap of
        None \<Rightarrow> (ProjectWizardRolledBackMsg [] None, e)
      | Some sn \<Rightarrow>
     (case ProfileByAlias conf (PendingAlias sn) of
        None \<Rightarrow> (ProjectWizardRolledBackMsg [] (texted D (Some [WizardE ErrInvalidPlan])), e)
      | Some profile \<Rightarrow>
          (let st = NewStack (Some (NewFilePersisterWithProfile (dpPendingPath D) (WizardID sn) (PendingAlias sn))) (WizardID sn) in
           case LoadSnapshot (Steps sn) st of
             (Some err, st) \<Rightarrow> (ProjectWizardRolledBackMsg [] (texted D (Some err)), e)
           | (None, st) \<Rightarrow>
               (case rnRollback (dpRunner D) profile st e of ((results, err), st, e) \<Rightarrow>
                  (case err of
                     Some er \<Rightarrow> (ProjectWizardRolledBackMsg results (texted D err), e)
                   | None \<Rightarrow>
                       (case RemovePending (dpPendingPath D) (snd e) of (_, w) \<Rightarrow>
                          (ProjectWizardRolledBackMsg results None, (fst e, w))))))))"

definition pendingDiscardCmd :: "'z World_scheme deps \<Rightarrow> 'z World_scheme \<Rightarrow> msg \<times> 'z World_scheme" where
  "pendingDiscardCmd D w =
     (case resolve_path (dpPendingPath D) (dpDefaultPendingPath D) of
        Inl err \<Rightarrow> (PendingDiscardedMsg (Some (err, dpText D err)), w)
      | Inr path \<Rightarrow> (case RemovePending path w of (err, w) \<Rightarrow> (PendingDiscardedMsg (texted D err), w)))"

section \<open>Actions, import and polling\<close>

definition defaultTailLines :: int where "defaultTailLines = 200"

definition projectActionCmd :: "'w deps \<Rightarrow> string \<Rightarrow> Profile \<Rightarrow> Project \<Rightarrow> 'w shared \<Rightarrow> msg \<times> 'w shared" where
  "projectActionCmd D kind profile project s =
     (case s of (slots, c, x, w) \<Rightarrow>
        (let R = dpRunner D; done = (\<lambda>out err. ProjectActionCompletedMsg kind (pjID project) out (texted D err)) in
         if kind = ProjectActionRestart then
           (case rnRestartApp R profile (pjDomain project) w of (err, w) \<Rightarrow>
              (done [] err, (slots, if err = None then snd (InvalidateEvent ''Restart'' c) else c, x, w)))
         else if kind = ProjectActionSSLRenew then
           (case rnRenewSSL R profile (pjDomain project) w of (err, w) \<Rightarrow>
              (done [] err, (slots, if err = None then snd (InvalidateEvent ''RenewSSL'' c) else c, x, w)))
         else if kind = ProjectActionLogs then
           (case rnTailLog R profile (pjDomain project) defaultTailLines w of
              (Inl err, w) \<Rightarrow> (done [] (Some err), (slots, c, x, w))
            | (Inr out, w) \<Rightarrow> (done out None, (slots, c, x, w)))
         else (done [] None, s)))"

definition import_row :: "(string \<Rightarrow> string) \<Rightarrow> Config option \<Rightarrow> Profile \<Rightarrow> Subdomain \<Rightarrow> ImportRow" where
  "import_row lower conf profile sub = \<lparr>irProfileAlias = pfAlias profile, irDomain = Domain sub, irType = SType sub,
     irNodeVersion = NodeVersion sub, irManaged = lower (Domain sub) \<in> (\<lambda>p. lower (pjDomain p)) ` set (cfgProjects conf)\<rparr>"

fun scan_profiles ::
  "'w deps \<Rightarrow> Config option \<Rightarrow> Profile list \<Rightarrow> ImportRow list \<Rightarrow> 'w \<Rightarrow> (terr + ImportRow list) \<times> 'w" where
  "scan_profiles D conf [] rows w = (Inr rows, w)"
| "scan_profiles D conf (p # ps) rows w =
     (case rnListProviderSubdomains (dpRunner D) p w of
        (Inl err, w) \<Rightarrow> (Inl (err, ''profile '' @ pfAlias p @ '': '' @ dpText D err), w)
      | (Inr subs, w) \<Rightarrow> scan_profiles D conf ps (rows @ map (import_row (dpLower D) conf p) subs) w)"

definition importScanCmd :: "'w deps \<Rightarrow> Config option \<Rightarrow> 'w \<Rightarrow> msg \<times> 'w" where
  "importScanCmd D conf w =
     (let ps = profiles_of conf in
      case scan_profiles D conf ps [] w of
        (Inl err, w) \<Rightarrow> (ImportScanCompletedMsg [] (length ps) (Some err), w)
      | (Inr rows, w) \<Rightarrow> (ImportScanCompletedMsg (sort_key irDomain rows) (length ps) None, w))"

definition stackForImportType :: "string \<Rightarrow> string" where
  "stackForImportType panelType =
     (let t = str_lower (trim_space panelType) in
      if t = ''nodejs'' \<or> t = ''node'' \<or> t = ''node.js'' then ''node-express''
      else if t = ''static'' \<or> t = ''html'' then ''static''
      else [])"

fun import_projects :: "('w \<Rightarrow> string \<times> 'w) \<Rightarrow> time_text \<Rightarrow> ImportRow list \<Rightarrow> 'w \<Rightarrow> Project list \<times> 'w" where
  "import_projects newID t [] w = ([], w)"
| "import_projects newID t (r # rs) w =
     (case newID w of (i, w) \<Rightarrow>
     (case import_projects newID t rs w of (ps, w) \<Rightarrow>
        (\<lparr>pjID = i, pjDomain = irDomain r, pjProfileAlias = irProfileAlias r, pjRepo = [], pjLocalPath = [],
          pjStack = stackForImportType (irType r), pjNodeVersion = irNodeVersion r, pjImportedAt = Some t,
          pjSecretsMeta = []\<rparr> # ps, w)))"

definition importPersistCmd ::
  "'z World_scheme deps \<Rightarrow> Config option \<Rightarrow> ImportRow list \<Rightarrow> 'z World_scheme env \<Rightarrow> msg \<times> 'z World_scheme env" where
  "importPersistCmd D conf rows e =
     (case resolve_path (dpConfigPath D) (dpDefaultConfigPath D) of
        Inl err \<Rightarrow> (ImportPersistedMsg None 0 (Some (err, dpText D err)), e)
      | Inr path \<Rightarrow>
          (let base = (case conf of None \<Rightarrow> DefaultConfig | Some c \<Rightarrow> c) in
           case utc_now (snd e) of (t, w) \<Rightarrow>
          (case import_projects (dpNewID D) t rows w of (ps, w) \<Rightarrow>
             (let updated = add_projects base ps in
              case save_config D path updated (fst e, w) of
                (Some err, e) \<Rightarrow> (ImportPersistedMsg None 0 (Some (err, dpText D err)), e)
              | (None, e) \<Rightarrow> (ImportPersistedMsg (Some updated) (length rows) None, e)))))"

definition refresh_run :: "'w deps \<Rightarrow> Project list \<Rightarrow> 'w shared \<Rightarrow> msg \<times> 'w shared" where
  "refresh_run D projects s =
     (case s of (slots, c, x, w) \<Rightarrow>
        (case dpFetch D projects c w of
           (Inl err, c, w) \<Rightarrow> (StatusRefreshFailedMsg (Some (err, dpText D err)), (slots, c, x, w))
         | (Inr ss, c, w) \<Rightarrow> (StatusRefreshedMsg ss, (slots, c, x, w))))"

definition zero_pipeline :: PipelineFetchResult where
  "zero_pipeline = \<lparr>pfrRun = None, pfrSteps = [], pfrRateLimitHint = []\<rparr>"

definition poll_run :: "'w deps \<Rightarrow> RepoRef \<Rightarrow> string \<Rightarrow> 'w shared \<Rightarrow> msg \<times> 'w shared" where
  "poll_run D ref prj s =
     (case s of (slots, c, x, w) \<Rightarrow>
        (case cached (dpNet D) ''tui.PipelineFetchResult'' (cicdPipelineCacheKey ref DefaultWorkflowFile) GitHubStepsTTL
                (\<lambda>w. as_probe PipelineProbe (dpPipeline D ref DefaultWorkflowFile w)) c w of (r, c, w) \<Rightarrow>
        (case ntNow (dpNet D) w of (t, w) \<Rightarrow>
           ((case r of
               Inr (PipelineProbe p, _) \<Rightarrow> CICDFetchedMsg prj p None t
             | Inr _ \<Rightarrow> CICDFetchedMsg prj zero_pipeline (texted D (Some [MiscE ErrTypeMismatch])) t
             | Inl err \<Rightarrow> CICDFetchedMsg prj zero_pipeline (texted D (Some err)) t),
            (slots, c, x, w)))))"

definition cicdLogsMaxLines :: int where "cicdLogsMaxLines = 50"

definition line_snapshot :: "WorkflowLogLine \<Rightarrow> CICDLogLineSnapshot" where
  "line_snapshot l = \<lparr>csJobName = llJobName l, csStepName = llStepName l, csText = llRaw l\<rparr>"

definition logs_run :: "'w deps \<Rightarrow> RepoRef \<Rightarrow> string \<Rightarrow> int \<Rightarrow> 'w \<Rightarrow> msg \<times> 'w" where
  "logs_run D ref prj runID w =
     (case dpLogs D ref runID cicdLogsMaxLines w of
        (Inl err, w) \<Rightarrow> (CICDLogsFetchedMsg prj runID [] (texted D (Some err)), w)
      | (Inr ls, w) \<Rightarrow> (CICDLogsFetchedMsg prj runID (map line_snapshot ls) None, w))"

section \<open>Running a command\<close>

text \<open>
  \<open>Quit\<close> ends the program; the spinner's tick has no case in \<open>Update\<close>. A wizard command without a slot dereferences
  nil, as does an execution that succeeds without a configuration.
\<close>

fun run_cmd :: "'z World_scheme deps \<Rightarrow> cmd \<Rightarrow> 'z World_scheme shared \<Rightarrow> (msg \<times> 'z World_scheme shared) option" where
  "run_cmd D Quit s = None"
| "run_cmd D SpinnerTick s = Some (OtherMsg, s)"
| "run_cmd D LoadConfig s = Some (on_env (loadConfigCmd D) s)"
| "run_cmd D LoadPendingFile s = Some (on_world (loadPendingCmd D) s)"
| "run_cmd D (RefreshVisibleProjects ps) s = Some (refresh_run D ps s)"
| "run_cmd D (ScheduleRefresh d) s = Some (RefreshTickMsg, s)"
| "run_cmd D (ScheduleCICDTick d) s = Some (CICDTickMsg, s)"
| "run_cmd D (PollCICDPipeline ref prj) s = Some (poll_run D ref prj s)"
| "run_cmd D (LoadCICDLogs ref prj runID) s = Some (on_world (logs_run D ref prj runID) s)"
| "run_cmd D (SaveProfile p conf) s = Some (on_env (saveProfileCmd D p conf) s)"
| "run_cmd D (WizardPreflight p name) s = Some (on_world (wizardPreflightCmd D p name) s)"
| "run_cmd D (WizardDomainCheck p domain) s = Some (on_world (wizardDomainCheckCmd D p domain) s)"
| "run_cmd D (WizardExecute p plan (Some slot) conf) s = wizardExecuteCmd D p plan slot conf s"
| "run_cmd D (WizardExecute p plan None conf) s = None"
| "run_cmd D (WizardRollback p (Some slot)) s = Some (wizardRollbackCmd D p slot s)"
| "run_cmd D (WizardRollback p None) s = None"
| "run_cmd D (ResumeRollback conf snap) s = Some (on_env (resumeRollbackCmd D conf snap) s)"
| "run_cmd D PendingDiscard s = Some (on_world (pendingDiscardCmd D) s)"
| "run_cmd D (RunProjectAction kind p prj) s = Some (projectActionCmd D kind p prj s)"
| "run_cmd D (ImportScan conf) s = Some (on_world (importScanCmd D conf) s)"
| "run_cmd D (ImportPersist conf rows) s = Some (on_env (importPersistCmd D conf rows) s)"

section \<open>The loop\<close>

text \<open>
  A state of the running program: the model, the commands in flight, and the shared state they work on. The operator may send
  any key, mouse event or window size at any time; any command in flight may answer next. After \<open>Quit\<close> the loop stops.
\<close>

record 'w ui =
  uiModel :: Model
  uiFlight :: "cmd multiset"
  uiShared :: "'w shared"

fun is_input :: "msg \<Rightarrow> bool" where
  "is_input (WindowSizeMsg _ _) = True"
| "is_input (MouseMsg _ _ _ _) = True"
| "is_input (KeyMsg _ _) = True"
| "is_input OtherMsg = True"
| "is_input _ = False"

text \<open>The effects of \<open>Update\<close> on the shared state: \<open>cancel\<close> and the invalidations; the others leave it alone.\<close>

fun apply_effect :: "effect \<Rightarrow> 'w shared \<Rightarrow> 'w shared" where
  "apply_effect Cancelled (slots, c, x, w) = (slots, c, Some 0, w)"
| "apply_effect (Invalidated key) (slots, c, x, w) = (slots, snd (Invalidate key c), x, w)"
| "apply_effect _ s = s"

inductive ui_step :: "ui_env \<Rightarrow> 'z World_scheme deps \<Rightarrow> 'z World_scheme ui \<Rightarrow> 'z World_scheme ui \<Rightarrow> bool" for E D where
  ui_input: "Quit \<notin># Q \<Longrightarrow> is_input ms \<Longrightarrow> Update E ms m = Some (m', cs, effs) \<Longrightarrow>
    ui_step E D \<lparr>uiModel = m, uiFlight = Q, uiShared = s\<rparr> \<lparr>uiModel = m', uiFlight = Q + mset cs, uiShared = fold apply_effect effs s\<rparr>"
| ui_answer: "Quit \<notin># Q \<Longrightarrow> c \<in># Q \<Longrightarrow> run_cmd D c s = Some (ms, s') \<Longrightarrow> Update E ms m = Some (m', cs, effs) \<Longrightarrow>
    ui_step E D \<lparr>uiModel = m, uiFlight = Q, uiShared = s\<rparr>
      \<lparr>uiModel = m', uiFlight = Q - {#c#} + mset cs, uiShared = fold apply_effect effs s'\<rparr>"

inductive_cases ui_stepE: "ui_step E D u u'"

definition ui_init :: "Options \<Rightarrow> string \<Rightarrow> 'w ui \<Rightarrow> bool" where
  "ui_init opts layout u \<longleftrightarrow> (\<exists>fetched. uiModel u = tui_New layout fetched opts) \<and> uiFlight u = mset (tui_Init (uiModel u))"

end
