(* ===== verification/Tui_Loop.thy ===== *)
theory Tui_Loop
  imports Tui_Commands
begin

text \<open>
  What the update loop guarantees: which commands a message may start, the invariants of the running program, and the places
  where it does not do what it means to.
\<close>

section \<open>Commands a message starts\<close>

lemmas tui_nothing = stay_def quit_now_def

lemmas catalog_keys = updateProviderCatalogKey_def
lemmas wizard_keys = updateProjectWizardKey_def wizard_step_key_def dispatchProjectWizardAsync_def keep_and_exit_def

text \<open>Commands that change a server, a file or the configuration.\<close>

fun guarded :: "cmd \<Rightarrow> bool" where
  "guarded (WizardExecute _ _ _ _) = True"
| "guarded (WizardRollback _ _) = True"
| "guarded (ResumeRollback _ _) = True"
| "guarded PendingDiscard = True"
| "guarded (RunProjectAction _ _ _) = True"
| "guarded (ImportPersist _ _) = True"
| "guarded (SaveProfile _ _) = True"
| "guarded _ = False"

fun key_consent :: "string \<Rightarrow> Model \<Rightarrow> cmd \<Rightarrow> bool" where
  "key_consent k m (WizardExecute p plan sl conf) \<longleftrightarrow>
     mState m = StateProjectWizard \<and> wfStep (mProject m) = ProjectStepReview \<and> (k = ''enter'' \<or> k = ''tab'')
     \<and> plan = form_plan (mProject m) \<and> sl = mSlot m \<and> conf = mCfg m"
| "key_consent k m (WizardRollback p sl) \<longleftrightarrow>
     mState m = StateProjectWizard \<and> wfStep (mProject m) = ProjectStepFailure \<and> (k = ''y'' \<or> k = ''Y'') \<and> sl = mSlot m"
| "key_consent k m (ResumeRollback conf snap) \<longleftrightarrow>
     mState m = StateResumeWizard \<and> (k = ''r'' \<or> k = ''R'') \<and> snap = rfSnapshot (mResume m) \<and> snap \<noteq> None
     \<and> rfLoadErr (mResume m) = None"
| "key_consent k m PendingDiscard \<longleftrightarrow>
     mState m = StateResumeWizard \<and> rfDiscarding (mResume m) \<and> k = ''enter''
     \<and> rfConfirmInput (mResume m) = discardPhrase (mResume m)"
| "key_consent k m (RunProjectAction kind p prj) \<longleftrightarrow>
     mState m = StateProjectDetail \<and> \<not> afRunning (mAction m) \<and> selectedProject m = Some prj
     \<and> (k, kind) \<in> {(''r'', ProjectActionRestart), (''s'', ProjectActionSSLRenew), (''v'', ProjectActionLogs)}"
| "key_consent k m (ImportPersist conf rows) \<longleftrightarrow>
     mState m = StateImportPreview \<and> (k = ''a'' \<or> k = ''A'') \<and> rows = unmanagedRows (ipRows (mImport m)) \<and> conf = mCfg m"
| "key_consent k m (SaveProfile p conf) \<longleftrightarrow>
     mState m = StateInitWizard \<and> ifStep (mInit m) = InitStepReview \<and> (k = ''enter'' \<or> k = ''tab'') \<and> \<not> ifSaving (mInit m)
     \<and> p = toProfile (mInit m) \<and> conf = mCfg m"
| "key_consent k m c \<longleftrightarrow> \<not> guarded c"

definition consent :: "msg \<Rightarrow> Model \<Rightarrow> cmd \<Rightarrow> bool" where
  "consent ms m c \<longleftrightarrow> (case ms of KeyMsg k r \<Rightarrow> key_consent k m c | _ \<Rightarrow> \<not> guarded c)"

lemma toProfile_saving [simp]: "toProfile (f\<lparr>ifSaving := b\<rparr>) = toProfile f"
  by (simp add: toProfile_def)

lemma form_plan_step [simp]: "form_plan (f\<lparr>wfStep := s\<rparr>) = form_plan f" "form_plan (f\<lparr>wfExecuting := b\<rparr>) = form_plan f"
  "form_plan (f\<lparr>wfErr := t\<rparr>) = form_plan f"
  by (simp_all add: form_plan_def Let_def)

lemma poll_unguarded: "c \<in> set (pollCICDPipelineCmd m) \<Longrightarrow> \<not> guarded c"
  by (auto simp: pollCICDPipelineCmd_def split: option.splits if_splits)

lemma logs_unguarded: "c \<in> set (loadCICDLogsCmd m i) \<Longrightarrow> \<not> guarded c"
  by (auto simp: loadCICDLogsCmd_def split: option.splits if_splits)

lemma schedule_unguarded [simp]: "\<not> guarded (scheduleRefresh i)" "\<not> guarded (scheduleCICDTick i)"
  "\<not> guarded (refreshVisibleProjectsCmd m)"
  by (simp_all add: scheduleRefresh_def scheduleCICDTick_def refreshVisibleProjectsCmd_def)

lemma init_consent:
  "updateInitWizardKey k r m = (m', cs, es) \<Longrightarrow> mState m = StateInitWizard \<Longrightarrow> c \<in> set cs \<Longrightarrow> key_consent k m c"
  by (auto simp: updateInitWizardKey_def tui_nothing Let_def split: if_splits option.splits)

lemma dashboard_unguarded: "updateDashboardKey k m = (m', cs, es) \<Longrightarrow> c \<in> set cs \<Longrightarrow> \<not> guarded c"
  by (auto simp: updateDashboardKey_def updateCICDModalKey_def move_selection_def onDashboardSelectionChanged_def
      beginImportScan_def openCICDLogsModal_def tui_nothing Let_def poll_unguarded logs_unguarded
      split: if_splits option.splits)

lemma detail_consent:
  "updateProjectDetailKey k m = (m', cs, es) \<Longrightarrow> mState m = StateProjectDetail \<Longrightarrow> c \<in> set cs \<Longrightarrow> key_consent k m c"
  by (auto simp: updateProjectDetailKey_def updateLiveLogsKey_def enterLiveLogsTab_def dispatchProjectAction_def tui_nothing
      Let_def split: if_splits option.splits)

lemma advance_async_cases:
  "project_validateAndAdvance conf f = (f', True) \<Longrightarrow>
   (wfStep f = ProjectStepDomain \<and> wfStep f' = ProjectStepDomain) \<or>
   (wfStep f = ProjectStepReview \<and> f' = f\<lparr>wfErr := [], wfStep := ProjectStepExecuting, wfExecuting := True\<rparr>)"
  by (cases "wfStep f") (auto simp: project_validateAndAdvance_def Let_def split: if_splits list.splits)

lemma dispatch_consent:
  assumes "project_validateAndAdvance (mCfg m) (mProject m) = (f', True)" "mState m = StateProjectWizard"
    "dispatchProjectWizardAsync (m\<lparr>mProject := f'\<rparr>) = (m', cs, es)" "c \<in> set cs" "k = ''tab'' \<or> k = ''enter''"
  shows "key_consent k m c"
  using advance_async_cases [OF assms(1)] assms(2-)
  by (auto simp: dispatchProjectWizardAsync_def tui_nothing Let_def split: option.splits if_splits)

lemma wizard_step_started:
  "mState m = StateProjectWizard \<Longrightarrow> \<forall>c\<in>set (fst (snd (wizard_step_key k r m))). key_consent k m c"
  unfolding wizard_step_key_def Let_def
  by (simp add: keep_and_exit_def tui_nothing split: option.split)

lemma wizard_step_consent:
  "wizard_step_key k r m = (m', cs, es) \<Longrightarrow> mState m = StateProjectWizard \<Longrightarrow> c \<in> set cs \<Longrightarrow> key_consent k m c"
  using wizard_step_started [of m k r] by auto

lemma wizard_consent:
  assumes "updateProjectWizardKey k r m = (m', cs, es)" "mState m = StateProjectWizard" "c \<in> set cs"
  shows "key_consent k m c"
proof (cases "k = ''tab'' \<or> k = ''enter''")
  case True
  obtain f' b where f': "project_validateAndAdvance (mCfg m) (mProject m) = (f', b)" by fastforce
  show ?thesis
  proof (cases b)
    case b: True
    with True f' assms(1) have "dispatchProjectWizardAsync (m\<lparr>mProject := f'\<rparr>) = (m', cs, es)"
      by (auto simp: updateProjectWizardKey_def)
    with f' b assms True show ?thesis by (intro dispatch_consent [of m f' m' cs es c k]) simp_all
  next
    case False
    with True f' assms show ?thesis by (auto simp: updateProjectWizardKey_def tui_nothing)
  qed
next
  case False
  with assms show ?thesis
    by (auto simp: updateProjectWizardKey_def keep_and_exit_def tui_nothing Let_def split: if_splits intro: wizard_step_consent)
qed

lemma resume_consent:
  "updateResumeWizardKey k r m = (m', cs, es) \<Longrightarrow> mState m = StateResumeWizard \<Longrightarrow> c \<in> set cs \<Longrightarrow> key_consent k m c"
  by (cases "rfLoadErr (mResume m)") (auto simp: updateResumeWizardKey_def tui_nothing Let_def split: if_splits option.splits)

lemma import_consent:
  "updateImportPreviewKey k m = (m', cs, es) \<Longrightarrow> mState m = StateImportPreview \<Longrightarrow> c \<in> set cs \<Longrightarrow> key_consent k m c"
  by (auto simp: updateImportPreviewKey_def tui_nothing Let_def split: if_splits)

lemma catalog_silent: "updateProviderCatalogKey E k m = (m', cs, es) \<Longrightarrow> cs = []"
  by (auto simp: catalog_keys tui_nothing Let_def split: if_splits option.splits)

lemma route_consent: "route_key E k r m = (m', cs, es) \<Longrightarrow> c \<in> set cs \<Longrightarrow> key_consent k m c"
proof (cases "mState m")
  case StateDashboard
  assume "route_key E k r m = (m', cs, es)" "c \<in> set cs"
  with StateDashboard have "\<not> guarded c" by (auto simp: route_key_def dest: dashboard_unguarded)
  then show ?thesis by (cases c) auto
qed (auto simp: route_key_def tui_nothing intro: init_consent detail_consent wizard_consent resume_consent import_consent
    dest!: catalog_silent)

text \<open>A key the handlers see has passed the overlays, and they see the model up to the alert and the viewport.\<close>

lemma selectedProject_viewport [simp]: "selectedProject (m\<lparr>mViewport := v\<rparr>) = selectedProject m"
  "selectedProject (m\<lparr>mAlert := a\<rparr>) = selectedProject m"
  by (simp_all add: selectedProject_def Let_def)

lemma key_consent_viewport [simp]: "key_consent k (m\<lparr>mViewport := v\<rparr>) c = key_consent k m c"
  by (cases c) simp_all

lemma key_consent_alert [simp]: "key_consent k (m\<lparr>mAlert := a\<rparr>) c = key_consent k m c"
  by (cases c) simp_all

lemma unguarded_consent: "\<not> guarded c \<Longrightarrow> key_consent k m c"
  by (cases c) auto

lemma overlay_quits: "handleOverlayKey k m = Some (m', cs, es) \<Longrightarrow> set cs \<subseteq> {Quit}"
  by (auto simp: handleOverlayKey_def tui_nothing split: if_splits)

lemma viewport_key_unconsumed: "handleViewportKey E k m = Some (False, m') \<Longrightarrow> m' = m"
  by (auto simp: handleViewportKey_def split: if_splits option.splits)

lemma overlay_none: "handleOverlayKey k m = None \<longleftrightarrow> \<not> hkOpen (mHostKey m) \<and> \<not> mHelp m"
  by (simp add: handleOverlayKey_def tui_nothing)

lemma updateKey_cases:
  assumes u: "updateKey E k r m = Some (m', cs, es)"
  obtains "set cs \<subseteq> {Quit}" | "route_key E k r (m\<lparr>mViewport := 0\<rparr>) = (m', cs, es)" "\<not> hkOpen (mHostKey m)" "\<not> mHelp m"
proof (cases "handleOverlayKey k m")
  case (Some x)
  with u have "handleOverlayKey k m = Some (m', cs, es)" by (simp add: updateKey_def)
  then show thesis by (intro that(1) overlay_quits)
next
  case None
  show thesis
  proof (cases "handleViewportKey E k m")
    case None
    with u \<open>handleOverlayKey k m = None\<close> show thesis
      by (intro that(1)) (auto simp: updateKey_def tui_nothing split: if_splits)
  next
    case (Some y)
    obtain b n where y: "y = (b, n)" by fastforce
    with u Some \<open>handleOverlayKey k m = None\<close> have "set cs \<subseteq> {Quit} \<or> \<not> b \<and> route_key E k r (n\<lparr>mViewport := 0\<rparr>) = (m', cs, es)"
      by (cases b) (auto simp: updateKey_def tui_nothing split: if_splits)
    moreover have "n = m" if "\<not> b" using Some y that viewport_key_unconsumed by auto
    ultimately show thesis using that None by (auto simp: overlay_none)
  qed
qed

lemma updateKey_consent: "updateKey E k r m = Some (m', cs, es) \<Longrightarrow> c \<in> set cs \<Longrightarrow> key_consent k m c"
  by (erule updateKey_cases) (auto dest!: subsetD intro: unguarded_consent dest: route_consent)

lemma message_unguarded:
  "Update E ms m = Some (m', cs, es) \<Longrightarrow> (\<And>k r. ms \<noteq> KeyMsg k r) \<Longrightarrow> c \<in> set cs \<Longrightarrow> \<not> guarded c"
  by (cases ms)
    (auto simp: tui_nothing on_config_def on_profile_saved_def applyPreflight_def applyExecution_def applyProjectAction_def
      applyImportPersisted_def on_refresh_failed_def on_tick_def applyCICDTick_def Let_def poll_unguarded
      split: option.splits if_splits prod.splits bool.splits)

lemma guarded_routed:
  assumes "Update E ms m = Some (m', cs, es)" "c \<in> set cs" "guarded c"
  shows "\<not> hkOpen (mHostKey m) \<and> \<not> mHelp m"
proof (cases ms)
  case (KeyMsg k r)
  with assms have "updateKey E k r (m\<lparr>mAlert := []\<rparr>) = Some (m', cs, es)" by simp
  then show ?thesis using assms(2,3) by (cases rule: updateKey_cases) auto
qed (use assms message_unguarded in blast)+

lemma started_consent:
  assumes u: "Update E ms m = Some (m', cs, es)" and c: "c \<in> set cs"
  shows "consent ms m c"
proof (cases "\<exists>k r. ms = KeyMsg k r")
  case True
  then obtain k r where "ms = KeyMsg k r" by blast
  then show ?thesis using u c updateKey_consent [of E k r "m\<lparr>mAlert := []\<rparr>"] by (simp add: consent_def)
next
  case False
  with message_unguarded [OF u _ c] have "\<not> guarded c" by blast
  with False show ?thesis by (simp add: consent_def split: msg.split)
qed

section \<open>A small program to run\<close>

definition demo_opts :: Options where
  "demo_opts = \<lparr>opRefreshInterval = 0, opInitialWidth = 0, opInitialHeight = 0, opLayoutOverride = [], opHasPipeline = False,
     opHasLogs = False, opMockHeaderMetrics = zero_metrics, opMockLiveLogLines = [\<lparr>lvLevel = [], lvText = ''ready'', lvRedacted = False\<rparr>],
     opMockCICDSnapshots = [], opPreloadedConfig = sample_conf\<rparr>"

definition demo_model :: Model where
  "demo_model = tui_New [] (\<lambda>_. None) demo_opts"

definition demo_env :: ui_env where
  "demo_env = \<lparr>enBodyLines = (\<lambda>_. 0), enPresets = Inr None, enErrText = (\<lambda>_. []), enClipboard = (\<lambda>_. None), enNow = 0\<rparr>"


definition discarding :: Model where
  "discarding = demo_model\<lparr>mState := StateResumeWizard,
     mResume := zero_resume_form\<lparr>rfDiscarding := True, rfConfirmInput := discardPhrase zero_resume_form\<rparr>\<rparr>"


section \<open>Panics\<close>

lemma viewport_panic:
  "handleViewportKey E k m = None \<longleftrightarrow> k = ''home'' \<and> mFocused m \<noteq> None \<and> mOffsets m = None"
  by (simp add: handleViewportKey_def ex_bool_eq split: option.split)

lemma updateKey_panic:
  "updateKey E k r m = None \<longleftrightarrow> k = ''home'' \<and> mFocused m \<noteq> None \<and> mOffsets m = None \<and> \<not> hkOpen (mHostKey m) \<and> \<not> mHelp m"
proof (cases "handleOverlayKey k m")
  case (Some x)
  then have "\<not> (\<not> hkOpen (mHostKey m) \<and> \<not> mHelp m)" using overlay_none [of k m] by simp
  with Some show ?thesis by (auto simp: updateKey_def)
next
  case None
  then have o: "\<not> hkOpen (mHostKey m) \<and> \<not> mHelp m" using overlay_none [of k m] by simp
  show ?thesis
  proof (cases "k = ''home''")
    case True
    with None o show ?thesis using viewport_panic [of E k m] by (auto simp: updateKey_def split: option.splits bool.splits)
  next
    case False
    then obtain b n where "handleViewportKey E k m = Some (b, n)" using viewport_panic [of E k m] by auto
    with None False show ?thesis by (cases b) (simp_all add: updateKey_def del: not_None_eq)
  qed
qed

text \<open>
  C37. The update loop panics on exactly one kind of input: the Home key while a tile has the focus and no tile was scrolled
  before, because the map of offsets is made by scrolling only. So on a dashboard with a scrollable tile, Tab followed by Home
  ends the program; every other message in every other state is handled.
\<close>

theorem update_panics_exactly:
  "(Update E ms m = None \<longleftrightarrow>
      (\<exists>r. ms = KeyMsg ''home'' r) \<and> mFocused m \<noteq> None \<and> mOffsets m = None \<and> \<not> hkOpen (mHostKey m) \<and> \<not> mHelp m)
   \<and> Update E (KeyMsg ''tab'' None) demo_model = Some (demo_model\<lparr>mFocused := Some SlotLogs\<rparr>, [], [])
   \<and> Update E (KeyMsg ''home'' None) (demo_model\<lparr>mFocused := Some SlotLogs\<rparr>) = None"
proof (intro conjI)
  show "Update E ms m = None \<longleftrightarrow>
      (\<exists>r. ms = KeyMsg ''home'' r) \<and> mFocused m \<noteq> None \<and> mOffsets m = None \<and> \<not> hkOpen (mHostKey m) \<and> \<not> mHelp m"
    using updateKey_panic by (cases ms) simp_all
  have f: "mState demo_model = StateDashboard" "mFocused demo_model = None" "mOffsets demo_model = None"
    "\<not> hkOpen (mHostKey demo_model)" "\<not> mHelp demo_model" "mAlert demo_model = []"
    by (simp_all add: demo_model_def tui_New_def demo_opts_def Let_def zero_host_key_def split: option.splits)
  have same: "demo_model\<lparr>mAlert := []\<rparr> = demo_model" by (rule Model.equality) (simp_all add: f)
  have "scrollableSlotCycle demo_model = [SlotProjects, SlotLogs]" by code_simp
  then show "Update E (KeyMsg ''tab'' None) demo_model = Some (demo_model\<lparr>mFocused := Some SlotLogs\<rparr>, [], [])"
    using f by (simp add: same updateKey_def overlay_none [THEN iffD2] cycleFocusedTile_def cycle_index_def tui_nothing)
  show "Update E (KeyMsg ''home'' None) (demo_model\<lparr>mFocused := Some SlotLogs\<rparr>) = None"
    using f by (simp add: updateKey_panic)
qed

end
