(* ===== verification/Tui_Wizard.thy ===== *)
theory Tui_Wizard
  imports Tui_Loop
begin

text \<open>
  The new-project wizard inside the running program: what its commands do with the stack of clean-ups, and how the messages of
  one run can meet the form of another.
\<close>

section \<open>Without a snapshot path\<close>

lemma replace_file_nowhere: "replace_file [] raw w \<noteq> (None, w')"
  by (simp add: replace_file_def os_rename_def split: prod.split sum.split option.split)

lemma SavePending_nowhere: "SavePending [] snap e \<noteq> (None, e')"
proof
  assume "SavePending [] snap e = (None, e')"
  then show False
    by (auto simp: SavePending_def Let_def replace_file_nowhere
        split: prod.splits option.splits bool.splits if_splits)
qed

lemma SavePending_fails: "(fst (SavePending [] snap e) = None) = False"
  by (metis SavePending_nowhere prod.collapse)

lemma persist_nowhere: "xs \<noteq> [] \<Longrightarrow> fst (NewFilePersisterWithProfile [] wid name xs e) \<noteq> None"
  by (simp add: NewFilePersisterWithProfile_def SavePending_fails split: prod.split del: not_None_eq)

lemma Push_nowhere:
  assumes "persist s = Some (NewFilePersisterWithProfile [] wid name)"
  shows "\<exists>er e'. Push x s e = (Some er, s, e')"
proof -
  obtain r e' where p: "NewFilePersisterWithProfile [] wid name (steps s @ [x]) (snd (check_ctx e)) = (r, e')"
    by (cases "NewFilePersisterWithProfile [] wid name (steps s @ [x]) (snd (check_ctx e))") auto
  with persist_nowhere [of "steps s @ [x]" wid name "snd (check_ctx e)"] obtain er where "r = Some er" by auto
  with p assms show ?thesis by (auto simp: Push_def Let_def split: prod.split option.split)
qed

lemma Execute_nowhere:
  assumes "persist s = Some (NewFilePersisterWithProfile [] wid name)"
  shows "\<exists>rep er e'. Execute nt reg p plan (Some s) e = ((rep, Some er), Some s, e')"
proof -
  have "\<exists>rep er e'. execute_subdomain nt h plan s e = ((rep, Some er), s, e')" for h
  proof -
    obtain r w where c: "CreateSubdomain h (PlanDomain plan) (PlanNodeVersion plan) (snd e) = (r, w)" by fastforce
    obtain er e' where "Push (subdomain_cleanup plan (nt w)) s (fst e, w) = (Some er, s, e')"
      using Push_nowhere [OF assms] by blast
    with c show ?thesis by (cases r) (simp_all add: execute_subdomain_def Let_def)
  qed
  then have "\<exists>rep er e'. some_stack (execute_subdomain nt h plan s e) = ((rep, Some er), Some s, e')" for h
    by (metis (no_types, lifting) prod.case some_stack_def)
  then show ?thesis by (cases p) (simp_all add: Execute_def split: option.split sum.split)
qed

lemma run_Execute_nowhere:
  assumes "persist s = Some (NewFilePersisterWithProfile [] wid name)"
  shows "\<exists>rep er e'. run_Execute nt reg prov profile plan s e = ((rep, Some er), s, e')"
proof (cases "prov profile")
  case (Inr p)
  then show ?thesis using Execute_nowhere [OF assms, of nt reg "Some p" plan e] by (auto simp: run_Execute_def)
qed (simp add: run_Execute_def)

lemma Rollback_nothing: "steps st = [] \<Longrightarrow> \<exists>r st' e'. Rollback rn st e = (([], r), st', e')"
  by (simp add: Rollback_def rollback_loop.simps [of _ st] Pop_def Let_def split: prod.split option.split)

lemma execute_without_path:
  fixes D :: "'z World_scheme deps"
  assumes "dpPendingPath D = []" "dpRunner D = defaultRunner nt reg prov"
  shows "\<exists>ex er st e'.
    run_cmd D (WizardExecute profile plan (Some slot) conf) (slots, c, e) =
      Some (ProjectWizardExecutedMsg ex, slots(slot := Some st), c, e')
    \<and> exErr ex = Some er \<and> steps st = []
    \<and> (\<exists>r s'. run_cmd D (WizardRollback profile (Some slot)) (slots(slot := Some st), c, e') =
          Some (ProjectWizardRolledBackMsg [] r, s'))"
proof -
  obtain x w where e: "e = (x, w)" by (cases e)
  obtain wid w1 where i: "dpNewID D w = (wid, w1)" by fastforce
  define st :: "'z World_scheme Stack" where "st = NewStack (Some (NewFilePersisterWithProfile (dpPendingPath D) wid (ProfileAlias plan))) wid"
  have "persist st = Some (NewFilePersisterWithProfile [] wid (ProfileAlias plan))" and n: "steps st = []"
    by (simp_all add: st_def assms NewStack_def)
  then obtain rep er e' where r: "run_Execute nt reg prov profile plan st (x, w1) = ((rep, Some er), st, e')"
    using run_Execute_nowhere by blast
  have "\<exists>r st' e''. run_Rollback prov profile st e' = (([], r), st', e'')"
    using Rollback_nothing [OF n] by (cases "prov profile") (simp_all add: run_Rollback_def)
  then have "\<exists>r s'. run_cmd D (WizardRollback profile (Some slot)) (slots(slot := Some st), c, e') =
      Some (ProjectWizardRolledBackMsg [] r, s')"
    using assms by (auto simp: wizardRollbackCmd_def defaultRunner_def split: option.split prod.split)
  with r n show ?thesis
    by (auto simp: e i assms(2) wizardExecuteCmd_def defaultRunner_def executed_msg_def Let_def st_def [symmetric])
qed

text \<open>A world whose panel is \<open>ideal_panel\<close>, and the program on it.\<close>

definition on_site :: "('r \<Rightarrow> 'a \<times> 'r) \<Rightarrow> 'r World_scheme \<Rightarrow> 'a \<times> 'r World_scheme" where
  "on_site f w = (case f (World.more w) of (a, r) \<Rightarrow> (a, World.more_update (\<lambda>_. r) w))"

definition site_panel :: "resource set World_scheme HostingProvider" where
  "site_panel = \<lparr>Name = ''smallhost'', CreateSubdomain = (\<lambda>d v. on_site (CreateSubdomain ideal_panel d v)),
     SetupSSL = (\<lambda>d. on_site (SetupSSL ideal_panel d)), CreateDatabase = (\<lambda>k n. on_site (CreateDatabase ideal_panel k n)),
     RestartNodeApp = (\<lambda>d w. (None, w)), GetDeployPath = (\<lambda>d. d), GetLogPath = (\<lambda>d. d), TailLog = (\<lambda>d n w. (Inr [], w)),
     CheckStatus = (\<lambda>w. (None, None, w)), ListSubdomains = (\<lambda>w. (Inr [], w)),
     RemoveSubdomain = (\<lambda>d. on_site (RemoveSubdomain ideal_panel d)),
     RemoveDatabase = (\<lambda>k n. on_site (RemoveDatabase ideal_panel k n)), RemoveSSL = (\<lambda>d. on_site (RemoveSSL ideal_panel d))\<rparr>"

definition site_world :: "resource set World_scheme" where
  "site_world = \<lparr>files = (\<lambda>_. None), outcomes = [], rnds = [''0a0b0c0d0e0f''], pid = 7, clock = (\<lambda>_. ''2026-01-02T03:04:05Z''),
     ticks = 0, past = [], \<dots> = {}\<rparr>"

definition site_deps :: "resource set World_scheme deps" where
  "site_deps = \<lparr>dpRunner = defaultRunner at_noon example_registry (\<lambda>_. Inr site_panel),
     dpNet = \<lparr>ntNow = (\<lambda>w. (0, w)), ntGet = (\<lambda>_ _ w. (Inr 200, w)), ntDial = (\<lambda>_ _ w. (Inr [0], w)), ntCtxErr = (\<lambda>_. None)\<rparr>,
     dpFetch = (\<lambda>_ c w. (Inr [], c, w)), dpPipeline = (\<lambda>_ _ w. (Inr zero_pipeline, w)), dpLogs = (\<lambda>_ _ _ w. (Inr [], w)),
     dpConfigPath = ''config.json'', dpPendingPath = [], dpDefaultConfigPath = Inr ''config.json'',
     dpDefaultPendingPath = Inr ''pending.json'', dpNewID = (\<lambda>w. (''w1'', w)), dpLower = str_lower, dpSchema = (\<lambda>_. True),
     dpStamp = (\<lambda>t. t), dpRounds = (\<lambda>_. \<lparr>lrCtx = None, lrFlock = Locked, lrDrift = 0, lrCancel = None, lrLate = 0\<rparr>),
     dpStart = 0, dpText = (\<lambda>_. ''error''), dpExecText = (\<lambda>_. ''error'')\<rparr>"

definition site_client :: "'w GithubClient" where
  "site_client = NewClient (CLITransport sample_codec no_gh) None None"

definition no_slots :: "nat \<Rightarrow> 'w Stack option" where "no_slots i = None"

text \<open>On this panel the subdomain stays: after the failed run and its rollback it is still there.\<close>

definition orphaned :: "resource set" where
  "orphaned =
     (case run_cmd site_deps (WizardExecute zero_profile example_plan (Some 0) sample_conf) (no_slots, NewCache 0, None, site_world) of
        Some (_, s) \<Rightarrow>
          (case run_cmd site_deps (WizardRollback zero_profile (Some 0)) s of
             Some (_, _, _, _, w) \<Rightarrow> World.more w
           | None \<Rightarrow> {})
      | None \<Rightarrow> {})"

lemma site_step: "validateStep (subdomain_cleanup example_plan ''2026-01-02T12:00:00Z'') = None"
  by code_simp

lemma site_validators: "PlanValidatorsFor example_registry ''smallhost'' = Inr smallhost_validators"
  using example_validators by (simp add: ideal_panel_def)

lemma orphaned_site: "orphaned = {Subdom ''a.pl''}"
  by (simp add: orphaned_def site_deps_def wizardExecuteCmd_def defaultRunner_def run_Execute_def Execute_def site_panel_def
      site_validators example_plan_valid execute_subdomain_def on_site_def ideal_panel_def site_world_def no_slots_def
      example_plan_def [THEN arg_cong, of PlanDomain] Push_def check_ctx_def NewStack_def some_stack_def Let_def at_noon_def site_step
      NewFilePersisterWithProfile_def SavePending_def utc_now_def PendingSchemaVersion_def zero_time_def
      replace_file_def pendingTempPath_def rand_hex_def writePendingTemp_def os_create_excl_def os_write_def os_rename_def
      os_remove_def set_file_def wizardRollbackCmd_def run_Rollback_def Rollback_def rollback_loop.simps Pop_def RemovePending_def errors_join_def)

text \<open>
  C36. No provisioning of the program ever succeeds, on any panel and in any world: it starts the interface without a path for the
  snapshot of pending clean-ups, and the commands of the wizard use that path as it is, so the first clean-up step cannot be
  recorded. The command ends with an error after the panel has created the subdomain, the stack of the run is empty, and
  the rollback that is offered undoes nothing: on a panel that keeps its contract the subdomain is still there.
\<close>

theorem wizard_without_snapshot_path:
  "(\<exists>ex er st e'.
    run_cmd (runTUIWithDeps nt reg prov path client D) (WizardExecute profile plan (Some slot) conf) (slots, c, e) =
      Some (ProjectWizardExecutedMsg ex, slots(slot := Some st), c, e')
    \<and> exErr ex = Some er \<and> steps st = []
    \<and> (\<exists>r s'. run_cmd (runTUIWithDeps nt reg prov path client D) (WizardRollback profile (Some slot)) (slots(slot := Some st), c, e') =
          Some (ProjectWizardRolledBackMsg [] r, s')))
   \<and> orphaned = {Subdom ''a.pl''}"
  by (intro conjI execute_without_path orphaned_site) (simp_all add: runTUIWithDeps_def)

section \<open>Messages that meet another form\<close>

text \<open>The model after a list of messages, with all commands they start; \<open>None\<close> is a panic.\<close>

fun run_msgs :: "ui_env \<Rightarrow> msg list \<Rightarrow> Model \<Rightarrow> (Model \<times> cmd list) option" where
  "run_msgs E [] m = Some (m, [])"
| "run_msgs E (ms # rest) m =
     (case Update E ms m of
        None \<Rightarrow> None
      | Some (m', cs, _) \<Rightarrow> map_option (\<lambda>(n, cs'). (n, cs @ cs')) (run_msgs E rest m'))"

definition enter :: msg where "enter = KeyMsg ''enter'' None"

definition starting :: Model where
  "starting = tui_New [] (\<lambda>_. None) (demo_opts\<lparr>opPreloadedConfig := None, opMockLiveLogLines := []\<rparr>)"

definition at_domain :: Model where
  "at_domain = starting\<lparr>mCfg := sample_conf, mState := StateProjectWizard, mSlot := Some 0, mProject := sample_form\<lparr>wfPreflightDone := True\<rparr>\<rparr>"

definition checked :: msg where
  "checked = ProjectWizardDomainCheckedMsg ''shop.example.pl'' True None"

definition left_over :: PendingCleanups where
  "left_over = \<lparr>SchemaVersion = 1, WizardID = ''w7'', PendingAlias = ''main'', UpdatedAt = ''2026-01-02T03:04:05Z'', Steps = []\<rparr>"

definition discard_keys :: "msg list" where
  "discard_keys = [KeyMsg ''d'' (Some ''d''), KeyMsg ''paste'' (Some (discardPhrase (zero_resume_form\<lparr>rfSnapshot := Some left_over\<rparr>))), enter,
     PendingDiscardedMsg None]"

section \<open>Properties of runs\<close>

text \<open>
  One confirmed plan can be executed twice: Enter at the domain step starts a domain check every time it is pressed, and the
  answer of a check moves the form to the review whatever step it has reached. So after two presses the answer of the second
  check takes a running execution back to the review, and confirming there starts a second execution of the same plan on the
  same stack while the first is still in flight.
\<close>

theorem plan_executed_twice:
  "map_option snd (run_msgs demo_env [enter, enter, checked, enter, checked, enter] at_domain) =
     Some [WizardDomainCheck (profile_or_zero sample_conf ''main'') ''shop.example.pl'',
           WizardDomainCheck (profile_or_zero sample_conf ''main'') ''shop.example.pl'',
           WizardExecute (profile_or_zero sample_conf ''main'') (form_plan sample_form) (Some 0) sample_conf,
           WizardExecute (profile_or_zero sample_conf ''main'') (form_plan sample_form) (Some 0) sample_conf]"
  by code_simp

text \<open>
  The order in which the two start-up commands answer decides whether the dashboard is ever refreshed: when the pending
  clean-ups are read before the configuration and then discarded, the program stands on the dashboard with no refresh timer
  and nothing in flight; in the other order the timer runs.
\<close>

theorem startup_order_decides:
  "map_option (\<lambda>(m, cs). (mState m, cs)) (run_msgs demo_env ([ConfigLoadedMsg sample_conf False, PendingLoadedMsg (Some left_over) None] @ discard_keys) starting)
     = Some (StateDashboard, [RefreshVisibleProjects [], ScheduleRefresh defaultRefreshInterval, PendingDiscard])
   \<and> map_option (\<lambda>(m, cs). (mState m, cs)) (run_msgs demo_env ([PendingLoadedMsg (Some left_over) None, ConfigLoadedMsg sample_conf False] @ discard_keys) starting)
     = Some (StateDashboard, [PendingDiscard])"
  by (rule conjI; code_simp)

end
