(* ===== verification/Tui_Safety.thy ===== *)
theory Tui_Safety
  imports Tui_Wizard
begin

text \<open>
  The invariants of the running interface: which parts of the model the key handlers leave alone, the single project action, the
  focus and the scrolling offsets, the overlays, and the count of the refresh timers.
\<close>

section \<open>What the handlers leave alone\<close>

definition frame :: "Model \<Rightarrow> Model \<Rightarrow> bool" where
  "frame m m' \<longleftrightarrow> mFocused m' = mFocused m \<and> mOffsets m' = mOffsets m \<and> mViewport m' = mViewport m \<and> mHostKey m' = mHostKey m
     \<and> (0 \<le> mSelected m \<longrightarrow> 0 \<le> mSelected m')"

lemma frame_refl [simp]: "frame m m"
  by (simp add: frame_def)

lemma frame_trans: "frame a b \<Longrightarrow> frame b c \<Longrightarrow> frame a c"
  by (simp add: frame_def)

lemma clampIndex_nonneg [simp]: "0 \<le> clampIndex i n"
  by (simp add: clampIndex_def)

lemma frame_updates [simp]:
  "frame m (m\<lparr>mProject := f\<rparr>)" "frame m (m\<lparr>mInit := i\<rparr>)" "frame m (m\<lparr>mResume := r\<rparr>)" "frame m (m\<lparr>mAlert := a\<rparr>)"
  "frame m (m\<lparr>mState := s\<rparr>)" "frame m (m\<lparr>mTab := t\<rparr>)"
  by (simp_all add: frame_def)

lemma init_frame: "frame m (fst (updateInitWizardKey k r m)) \<and> mAction (fst (updateInitWizardKey k r m)) = mAction m"
  unfolding updateInitWizardKey_def Let_def by (simp add: tui_nothing split: option.split)

lemma move_frame: "frame m (fst (move_selection d m)) \<and> mAction (fst (move_selection d m)) = mAction m"
  by (simp add: move_selection_def onDashboardSelectionChanged_def tui_nothing Let_def frame_def split: option.split)

lemma modal_frame: "frame m (fst (updateCICDModalKey k m)) \<and> mAction (fst (updateCICDModalKey k m)) = mAction m"
  by (simp add: updateCICDModalKey_def tui_nothing Let_def frame_def)

lemma logs_modal_frame: "frame m (fst (openCICDLogsModal m)) \<and> mAction (fst (openCICDLogsModal m)) = mAction m"
  by (simp add: openCICDLogsModal_def tui_nothing Let_def frame_def split: option.split)

lemma scan_frame: "frame m (fst (beginImportScan m)) \<and> mAction (fst (beginImportScan m)) = mAction m"
  by (simp add: beginImportScan_def tui_nothing Let_def frame_def)

lemma dashboard_frame: "frame m (fst (updateDashboardKey k m)) \<and> mAction (fst (updateDashboardKey k m)) = mAction m"
  using move_frame modal_frame logs_modal_frame scan_frame unfolding updateDashboardKey_def
  by (simp add: tui_nothing newStackSlot_def set_hint_def frame_def)

lemma detail_frame: "frame m (fst (updateProjectDetailKey k m))"
proof -
  have "frame m (fst (updateLiveLogsKey k m))" unfolding updateLiveLogsKey_def Let_def by (simp add: tui_nothing frame_def)
  moreover have "frame m (fst (enterLiveLogsTab m))"
    by (simp add: enterLiveLogsTab_def tui_nothing frame_def Let_def split: option.split)
  moreover have "frame m (fst (dispatchProjectAction a m))" for a
    by (simp add: dispatchProjectAction_def tui_nothing frame_def split: option.split)
  ultimately show ?thesis unfolding updateProjectDetailKey_def by (simp add: tui_nothing)
qed

lemma dispatch_frame: "frame m (fst (dispatchProjectWizardAsync m)) \<and> mAction (fst (dispatchProjectWizardAsync m)) = mAction m"
  by (simp add: dispatchProjectWizardAsync_def tui_nothing Let_def split: option.split)

lemma wizard_frame: "frame m (fst (updateProjectWizardKey k r m)) \<and> mAction (fst (updateProjectWizardKey k r m)) = mAction m"
proof -
  have k: "frame m (fst (keep_and_exit m)) \<and> mAction (fst (keep_and_exit m)) = mAction m"
    by (simp add: keep_and_exit_def tui_nothing frame_def)
  then have "frame m (fst (wizard_step_key k r m)) \<and> mAction (fst (wizard_step_key k r m)) = mAction m"
    unfolding wizard_step_key_def Let_def by (simp add: tui_nothing split: option.split)
  moreover have "frame m (fst (dispatchProjectWizardAsync (m\<lparr>mProject := f\<rparr>)))
      \<and> mAction (fst (dispatchProjectWizardAsync (m\<lparr>mProject := f\<rparr>))) = mAction m" for f
    using dispatch_frame [of "m\<lparr>mProject := f\<rparr>"] by (auto intro: frame_trans [of m "m\<lparr>mProject := f\<rparr>"])
  ultimately show ?thesis
    using k unfolding updateProjectWizardKey_def Let_def by (simp add: tui_nothing frame_def split: prod.split)
qed

lemma resume_frame: "frame m (fst (updateResumeWizardKey k r m)) \<and> mAction (fst (updateResumeWizardKey k r m)) = mAction m"
  unfolding updateResumeWizardKey_def Let_def by (simp add: tui_nothing split: option.split)

lemma import_frame: "frame m (fst (updateImportPreviewKey k m)) \<and> mAction (fst (updateImportPreviewKey k m)) = mAction m"
  unfolding updateImportPreviewKey_def Let_def by (simp add: tui_nothing frame_def)

lemma catalog_frame: "frame m (fst (updateProviderCatalogKey E k m)) \<and> mAction (fst (updateProviderCatalogKey E k m)) = mAction m"
  unfolding updateProviderCatalogKey_def set_hint_def select_row_def Let_def
  by (simp add: tui_nothing frame_def split: option.split)

lemmas handler_frames = init_frame dashboard_frame detail_frame wizard_frame resume_frame import_frame catalog_frame

lemma route_frame: "frame m (fst (route_key E k r m))"
  using handler_frames by (cases "mState m") (simp_all add: route_key_def tui_nothing)

lemma route_action_kept: "mState m \<noteq> StateProjectDetail \<Longrightarrow> mAction (fst (route_key E k r m)) = mAction m"
  using handler_frames by (cases "mState m") (simp_all add: route_key_def tui_nothing)

section \<open>Focus and offsets\<close>

definition tidy :: "Model \<Rightarrow> bool" where
  "tidy m \<longleftrightarrow> mFocused m \<in> {None, Some SlotCICD, Some SlotLogs} \<and> 0 \<le> mViewport m \<and> 0 \<le> mSelected m
     \<and> (\<forall>xs. mOffsets m = Some xs \<longrightarrow> (\<forall>p\<in>set xs. 0 \<le> snd p))"

lemma tidy_frame: "tidy m \<Longrightarrow> frame m m' \<Longrightarrow> tidy m'"
  by (simp add: tidy_def frame_def)

lemma scrollable_slots: "set (map fst (filter (\<lambda>t. snd t \<noteq> None) (dashboardBentoTiles m))) \<subseteq> {SlotCICD, SlotLogs}"
  by (auto simp: dashboardBentoTiles_def dashboardLiveLogsTile_def split: option.splits if_splits)

lemma cycle_slots:
  assumes "0 < i" "i < length (scrollableSlotCycle m)"
  shows "scrollableSlotCycle m ! i \<in> {SlotCICD, SlotLogs}"
proof -
  define xs where "xs = map fst (filter (\<lambda>t. snd t \<noteq> None) (dashboardBentoTiles m))"
  have "scrollableSlotCycle m = (if xs = [] then [] else SlotProjects # xs)"
    unfolding scrollableSlotCycle_def Let_def xs_def by (simp only: length_Cons length_0_conv One_nat_def nat.inject)
  then have "i - 1 < length xs" "scrollableSlotCycle m ! i = xs ! (i - 1)"
    using assms by (auto simp: nth_Cons' split: if_splits)
  moreover have "set xs \<subseteq> {SlotCICD, SlotLogs}" unfolding xs_def by (rule scrollable_slots)
  ultimately show ?thesis using nth_mem [of "i - 1" xs] by (metis subsetD)
qed

lemma cycle_focus: "mFocused (cycleFocusedTile d m) \<in> {None, Some SlotCICD, Some SlotLogs, mFocused m}"
proof -
  let ?n = "int (length (scrollableSlotCycle m))"
  define j where "j = (int (cycle_index (scrollableSlotCycle m) (mFocused m)) + d + ?n) mod ?n"
  have "scrollableSlotCycle m ! nat j \<in> {SlotCICD, SlotLogs}" if "scrollableSlotCycle m \<noteq> []" "j \<noteq> 0"
  proof -
    have "0 \<le> j" "j < ?n" using that by (simp_all add: j_def)
    then have "0 < j" "j < ?n" using that by simp_all
    then show ?thesis by (intro cycle_slots) (simp_all add: nat_less_iff)
  qed
  moreover have "cycleFocusedTile d m = (if scrollableSlotCycle m = [] then m else if j = 0 then m\<lparr>mFocused := None\<rparr>
      else m\<lparr>mFocused := Some (scrollableSlotCycle m ! nat j)\<rparr>)"
    unfolding cycleFocusedTile_def Let_def j_def ..
  ultimately show ?thesis by auto
qed

lemma cycle_tidy:
  "tidy m \<Longrightarrow> tidy (cycleFocusedTile d m)" "mAction (cycleFocusedTile d m) = mAction m" "mHostKey (cycleFocusedTile d m) = mHostKey m"
  using cycle_focus [of d m] by (auto simp: tidy_def cycleFocusedTile_def Let_def)

lemma slot_put_nonneg: "\<forall>p\<in>set xs. 0 \<le> snd p \<Longrightarrow> 0 \<le> v \<Longrightarrow> \<forall>p\<in>set (slot_put k v xs). 0 \<le> snd p"
  by (simp add: slot_put_def)

lemma tile_Scroll_nonneg: "0 \<le> hi \<Longrightarrow> 0 \<le> tile_Scroll hi o' d"
  by (simp add: tile_Scroll_def clampNonNegative_def)

lemma tile_limit: "find (\<lambda>t. fst t = s) (dashboardBentoTiles m) = Some (a, Some hi) \<Longrightarrow> 0 \<le> hi"
  by (auto simp: dashboardBentoTiles_def dashboardLiveLogsTile_def cicd_maxScrollOffset_def logs_maxScrollOffset_def
      split: option.splits if_splits)

lemma scroll_tile:
  "mFocused (scrollFocusedTileBy d m) = mFocused m" "mViewport (scrollFocusedTileBy d m) = mViewport m"
  "mSelected (scrollFocusedTileBy d m) = mSelected m" "mAction (scrollFocusedTileBy d m) = mAction m"
  "mHostKey (scrollFocusedTileBy d m) = mHostKey m"
  by (simp_all add: scrollFocusedTileBy_def Let_def split: option.split prod.split)

lemma scroll_tile_tidy: "tidy m \<Longrightarrow> tidy (scrollFocusedTileBy d m)"
  unfolding tidy_def scroll_tile
  by (auto simp: scrollFocusedTileBy_def Let_def slot_put_nonneg tile_limit tile_Scroll_nonneg slot_put_def
      split: option.splits prod.splits)

lemma clamp_viewport_props:
  "0 \<le> mViewport (clamp_viewport E m)" "mFocused (clamp_viewport E m) = mFocused m" "mOffsets (clamp_viewport E m) = mOffsets m"
  "mSelected (clamp_viewport E m) = mSelected m" "mAction (clamp_viewport E m) = mAction m" "mHostKey (clamp_viewport E m) = mHostKey m"
  by (simp_all add: clamp_viewport_def clampViewportOffset_def Let_def)

lemma scroll_view:
  "tidy m \<Longrightarrow> tidy (scrollViewportBy E d m)" "mAction (scrollViewportBy E d m) = mAction m" "mHostKey (scrollViewportBy E d m) = mHostKey m"
  by (simp_all add: tidy_def scrollViewportBy_def clamp_viewport_props)

lemma viewport_key:
  assumes "handleViewportKey E k m = Some (b, m')"
  shows "tidy m \<Longrightarrow> tidy m'" "mAction m' = mAction m" "mHostKey m' = mHostKey m"
proof -
  show "tidy m \<Longrightarrow> tidy m'"
    using assms scroll_tile_tidy [of m] scroll_view(1) [of m E]
    by (auto simp: handleViewportKey_def split: option.splits if_splits)
      (auto simp: tidy_def maxViewportOffset_def slot_put_def)
  show "mAction m' = mAction m" "mHostKey m' = mHostKey m"
    using assms by (auto simp: handleViewportKey_def scroll_tile scroll_view split: option.splits if_splits)
qed

section \<open>A step of the model\<close>

fun is_action :: "cmd \<Rightarrow> bool" where
  "is_action (RunProjectAction _ _ _) = True"
| "is_action _ = False"

text \<open>How a step changes the form of the running action: \<open>cs\<close> are the commands started.\<close>

definition action_step :: "Model \<Rightarrow> Model \<Rightarrow> cmd list \<Rightarrow> bool" where
  "action_step m m' cs \<longleftrightarrow>
     (filter is_action cs = [] \<and> afRunning (mAction m') = afRunning (mAction m)) \<or>
     (length (filter is_action cs) = 1 \<and> \<not> afRunning (mAction m) \<and> afRunning (mAction m'))"

lemma action_guarded: "is_action c \<Longrightarrow> guarded c"
  by (cases c) auto

lemma no_actions: "(\<And>c. c \<in> set cs \<Longrightarrow> \<not> is_action c) \<Longrightarrow> mAction m' = mAction m \<Longrightarrow> action_step m m' cs"
  by (auto simp: action_step_def filter_empty_conv)

lemma detail_action: "action_step m (fst (updateProjectDetailKey k m)) (fst (snd (updateProjectDetailKey k m)))"
proof -
  have "action_step m (fst (updateLiveLogsKey k m)) (fst (snd (updateLiveLogsKey k m)))"
    unfolding updateLiveLogsKey_def Let_def by (simp add: tui_nothing action_step_def)
  moreover have "action_step m (fst (enterLiveLogsTab m)) (fst (snd (enterLiveLogsTab m)))"
    by (simp add: enterLiveLogsTab_def tui_nothing action_step_def Let_def split: option.split)
  moreover have "action_step m (fst (dispatchProjectAction a m)) (fst (snd (dispatchProjectAction a m)))" for a
    by (simp add: dispatchProjectAction_def tui_nothing action_step_def split: option.split)
  moreover have "action_step m (m\<lparr>mState := s\<rparr>) []" "action_step m (m\<lparr>mTab := t\<rparr>) []" "action_step m m []" for s t
    by (simp_all add: action_step_def)
  ultimately show ?thesis unfolding updateProjectDetailKey_def by (simp add: tui_nothing)
qed

lemma route_action:
  assumes "route_key E k r m = (m', cs, es)"
  shows "action_step m m' cs"
proof (cases "mState m = StateProjectDetail")
  case True
  with assms show ?thesis using detail_action [of m k] by (simp add: route_key_def)
next
  case False
  have "\<not> is_action c" if "c \<in> set cs" for c
    using route_consent [OF assms that] False by (cases c) auto
  moreover have "mAction m' = mAction m" using route_action_kept [OF False, of E k r] assms by simp
  ultimately show ?thesis by (rule no_actions)
qed

text \<open>One key: it is handled on the spot, or the state's handler sees the model with the viewport at the top.\<close>

lemma overlay_forms:
  "handleOverlayKey k m = Some (m', cs, es) \<Longrightarrow>
   set cs \<subseteq> {Quit} \<and> (m' = m \<or> m' = m\<lparr>mHostKey := zero_host_key\<rparr> \<or> m' = m\<lparr>mHelp := False\<rparr>)"
  unfolding handleOverlayKey_def tui_nothing by (simp split: if_split_asm) (auto split: if_split_asm)

lemma overlay_local:
  assumes "handleOverlayKey k m = Some (m', cs, es)"
  shows "tidy m \<Longrightarrow> tidy m'" "mAction m' = mAction m" "hkOpen (mHostKey m') \<Longrightarrow> hkOpen (mHostKey m)" "set cs \<subseteq> {Quit}"
  using overlay_forms [OF assms] by (auto simp: tidy_def zero_host_key_def)

lemma key_forms:
  assumes "updateKey E k r m = Some (m', cs, es)"
  obtains "handleOverlayKey k m = Some (m', cs, es)"
  | "set cs \<subseteq> {Quit}" "m' = m \<or> m' = m\<lparr>mHelp := True, mViewport := 0\<rparr> \<or> (\<exists>d. m' = cycleFocusedTile d m) \<or> m' = m\<lparr>mFocused := None\<rparr>"
  | "cs = []" "handleViewportKey E k m = Some (True, m')"
  | "route_key E k r (m\<lparr>mViewport := 0\<rparr>) = (m', cs, es)"
proof (cases "handleOverlayKey k m")
  case (Some x)
  with assms show thesis by (intro that(1)) (simp add: updateKey_def)
next
  case None
  note o = this
  show thesis
  proof (cases "handleViewportKey E k m")
    case None
    with assms o show thesis by (intro that(2)) (auto simp: updateKey_def tui_nothing split: if_splits)
  next
    case (Some y)
    obtain b n where "y = (b, n)" by fastforce
    with Some have y: "handleViewportKey E k m = Some (b, n)" by simp
    show thesis
    proof (cases "k \<in> {''q'', ''ctrl+c'', ''?''} \<or> mState m = StateDashboard \<and> (k = ''tab'' \<or> k = ''shift+tab'' \<or> k = ''esc'' \<and> mFocused m \<noteq> None)")
      case True
      with assms o show thesis by (intro that(2)) (auto simp: updateKey_def tui_nothing split: if_splits)
    next
      case False
      with assms o y have "(if b then Some (stay n) else Some (route_key E k r (n\<lparr>mViewport := 0\<rparr>))) = Some (m', cs, es)"
        by (cases b) (auto simp: updateKey_def)
      then show thesis using y viewport_key_unconsumed [of E k m n] that(3,4) by (cases b) (auto simp: tui_nothing)
    qed
  qed
qed

lemma key_step:
  assumes u: "updateKey E k r m = Some (m', cs, es)"
  shows "tidy m \<Longrightarrow> tidy m'" "action_step m m' cs" "hkOpen (mHostKey m') \<Longrightarrow> hkOpen (mHostKey m)"
proof -
  have q: "action_step m m' cs" if "set cs \<subseteq> {Quit}" "mAction m' = mAction m" using that by (intro no_actions) auto
  have "(tidy m \<longrightarrow> tidy m') \<and> action_step m m' cs \<and> (hkOpen (mHostKey m') \<longrightarrow> hkOpen (mHostKey m))"
    using u
  proof (cases rule: key_forms)
    case 1
    with overlay_local [OF 1] q show ?thesis by auto
  next
    case 2
    have "tidy m \<Longrightarrow> tidy (m\<lparr>mHelp := True, mViewport := 0\<rparr>) \<and> tidy (m\<lparr>mFocused := None\<rparr>)" by (simp add: tidy_def)
    moreover have "mAction m' = mAction m \<and> mHostKey m' = mHostKey m" using 2(2) cycle_tidy(2,3) by auto
    ultimately show ?thesis using 2 q cycle_tidy(1) by auto
  next
    case 3
    with viewport_key [OF 3(2)] q show ?thesis by auto
  next
    case 4
    let ?m = "m\<lparr>mViewport := 0\<rparr>"
    have "frame ?m m'" using route_frame [of ?m E k r] 4 by simp
    moreover have "action_step ?m m' cs" using 4 by (rule route_action)
    ultimately show ?thesis by (auto simp: frame_def tidy_def action_step_def)
  qed
  then show "tidy m \<Longrightarrow> tidy m'" "action_step m m' cs" "hkOpen (mHostKey m') \<Longrightarrow> hkOpen (mHostKey m)" by blast+
qed

text \<open>Any other message.\<close>

fun completes :: "msg \<Rightarrow> bool" where
  "completes (ProjectActionCompletedMsg _ _ _ _) = True"
| "completes _ = False"

fun refused :: "msg \<Rightarrow> bool" where
  "refused (StatusRefreshFailedMsg _) = True"
| "refused _ = False"

lemma click_props:
  "(tidy m \<longrightarrow> tidy (handleLeftClick x y m)) \<and> mAction (handleLeftClick x y m) = mAction m
    \<and> mHostKey (handleLeftClick x y m) = mHostKey m"
  by (auto simp: handleLeftClick_def routeDashboardClick_def project_count_def drillIntoSelectedProject_def tidy_def Let_def
      split: State.split option.split Slot.split)

lemma mouse_props:
  "(tidy m \<longrightarrow> tidy (updateMouse E pr b x y m)) \<and> mAction (updateMouse E pr b x y m) = mAction m
    \<and> mHostKey (updateMouse E pr b x y m) = mHostKey m"
  using click_props [of m x y] scroll_tile_tidy [of m] scroll_view
  by (simp add: updateMouse_def scroll_tile split: mouse_button.split)

lemma raise_modal:
  "tryRaiseHostKeyModal err m = (b, m') \<Longrightarrow> mAction m' = mAction m \<and> (tidy m \<longrightarrow> tidy m')"
  by (auto simp: tryRaiseHostKeyModal_def Let_def tidy_def split: option.splits if_splits prod.splits)

lemma index_of_project_nonneg: "index_of_project i ps = Some k \<Longrightarrow> 0 \<le> k"
  by (induction ps arbitrary: k) (auto split: if_splits)

lemma model_frames:
  "frame m (applyDomainCheck av err m) \<and> mAction (applyDomainCheck av err m) = mAction m"
  "frame m (applyRollback rs err m) \<and> mAction (applyRollback rs err m) = mAction m"
  "frame m (applyPendingLoaded snap err m) \<and> mAction (applyPendingLoaded snap err m) = mAction m"
  "frame m (applyPendingDiscarded err m) \<and> mAction (applyPendingDiscarded err m) = mAction m"
  "frame m (applyImportScan rows err m) \<and> mAction (applyImportScan rows err m) = mAction m"
  "frame m (applyCICDFetched E prj res err t m) \<and> mAction (applyCICDFetched E prj res err t m) = mAction m"
  "frame m (applyCICDLogsFetched prj ls err m) \<and> mAction (applyCICDLogsFetched prj ls err m) = mAction m"
  by (simp_all add: applyDomainCheck_def applyRollback_def applyPendingLoaded_def applyPendingDiscarded_def applyImportScan_def
      applyCICDFetched_def applyCICDLogsFetched_def Let_def frame_def split: option.split)

lemma execution_frame: "frame m (fst (applyExecution ex m)) \<and> mAction (fst (applyExecution ex m)) = mAction m"
  by (simp add: applyExecution_def tui_nothing Let_def frame_def index_of_project_nonneg split: option.split)

lemma step_frames:
  "frame m (fst (applyPreflight name err m)) \<and> mAction (fst (applyPreflight name err m)) = mAction m"
  "frame m (fst (applyImportPersisted conf n err m)) \<and> mAction (fst (applyImportPersisted conf n err m)) = mAction m"
  "frame m (fst (on_config conf missing m)) \<and> mAction (fst (on_config conf missing m)) = mAction m"
  "frame m (fst (on_profile_saved conf m)) \<and> mAction (fst (on_profile_saved conf m)) = mAction m"
  "frame m (fst (on_tick m)) \<and> mAction (fst (on_tick m)) = mAction m"
  "frame m (fst (applyCICDTick m)) \<and> mAction (fst (applyCICDTick m)) = mAction m"
  by (simp_all add: applyPreflight_def applyImportPersisted_def on_config_def on_profile_saved_def on_tick_def applyCICDTick_def
      tui_nothing Let_def frame_def split: option.split)

lemma action_frame: "frame m (fst (applyProjectAction kind prj out err m)) \<and> \<not> afRunning (mAction (fst (applyProjectAction kind prj out err m)))"
  by (simp add: applyProjectAction_def tui_nothing Let_def frame_def)

lemma resize_props:
  "(tidy m \<longrightarrow> tidy (on_resize E w h m)) \<and> mAction (on_resize E w h m) = mAction m
   \<and> mHostKey (on_resize E w h m) = mHostKey m"
  by (simp_all add: on_resize_def Let_def clamp_viewport_props tidy_def)

lemma refused_props:
  "(tidy m \<longrightarrow> tidy (fst (on_refresh_failed err m))) \<and> mAction (fst (on_refresh_failed err m)) = mAction m"
proof -
  obtain b n where t: "tryRaiseHostKeyModal err m = (b, n)" by fastforce
  from raise_modal [OF t] show ?thesis by (cases b) (simp_all add: on_refresh_failed_def t tidy_def)
qed

lemma step_fst: "f = (m', cs, es) \<Longrightarrow> m' = fst f"
  by simp

lemma calm: "frame m m' \<and> mAction m' = mAction m \<Longrightarrow> (tidy m \<longrightarrow> tidy m') \<and> mAction m' = mAction m \<and> mHostKey m' = mHostKey m"
  by (auto simp: frame_def tidy_def)

fun special :: "msg \<Rightarrow> bool" where
  "special (KeyMsg _ _) = True"
| "special (MouseMsg _ _ _ _) = True"
| "special (WindowSizeMsg _ _) = True"
| "special (ProjectActionCompletedMsg _ _ _ _) = True"
| "special (StatusRefreshFailedMsg _) = True"
| "special _ = False"

lemma calm_message:
  "\<not> special ms \<Longrightarrow> frame m (fst (the (Update E ms m))) \<and> mAction (fst (the (Update E ms m))) = mAction m"
  by (cases ms) (simp_all add: tui_nothing step_frames model_frames execution_frame, simp_all add: frame_def)

lemma message_step:
  assumes "Update E ms m = Some (m', cs, es)" "\<And>k r. ms \<noteq> KeyMsg k r"
  shows "(tidy m \<longrightarrow> tidy m') \<and> (if completes ms then \<not> afRunning (mAction m') else mAction m' = mAction m)
    \<and> (refused ms \<or> mHostKey m' = mHostKey m)"
proof (cases "special ms")
  case True
  then show ?thesis
  proof (cases ms)
    case (ProjectActionCompletedMsg kind prj out err)
    with assms(1) action_frame [of m kind prj out err] show ?thesis by (simp add: frame_def tidy_def)
  next
    case (StatusRefreshFailedMsg err)
    with assms(1) refused_props [of m err] show ?thesis by simp
  next
    case (WindowSizeMsg w h)
    with assms(1) resize_props [of m E w h] show ?thesis by (simp add: tui_nothing)
  next
    case (MouseMsg pr b x y)
    with assms(1) mouse_props [of m E pr b x y] show ?thesis by (simp add: tui_nothing)
  qed (use assms(2) in simp_all)
next
  case False
  then have "\<not> completes ms" by (cases ms) simp_all
  with calm [OF calm_message [OF False, of m E]] assms(1) show ?thesis by simp
qed

section \<open>Answers of the commands\<close>

definition answers :: "cmd \<Rightarrow> msg \<Rightarrow> bool" where
  "answers c ms \<longleftrightarrow>
     (case c of
        Quit \<Rightarrow> False
      | SpinnerTick \<Rightarrow> ms = OtherMsg
      | LoadConfig \<Rightarrow> (\<exists>conf b. ms = ConfigLoadedMsg conf b) \<or> (\<exists>er. ms = ConfigLoadFailedMsg er)
      | LoadPendingFile \<Rightarrow> (\<exists>snap er. ms = PendingLoadedMsg snap er)
      | RefreshVisibleProjects _ \<Rightarrow> (\<exists>ss. ms = StatusRefreshedMsg ss) \<or> (\<exists>er. ms = StatusRefreshFailedMsg er)
      | ScheduleRefresh _ \<Rightarrow> ms = RefreshTickMsg
      | ScheduleCICDTick _ \<Rightarrow> ms = CICDTickMsg
      | PollCICDPipeline _ _ \<Rightarrow> (\<exists>prj r er t. ms = CICDFetchedMsg prj r er t)
      | LoadCICDLogs _ _ _ \<Rightarrow> (\<exists>prj i ls er. ms = CICDLogsFetchedMsg prj i ls er)
      | SaveProfile _ _ \<Rightarrow> (\<exists>conf. ms = ProfileSavedMsg conf) \<or> (\<exists>er. ms = ProfileSaveFailedMsg er)
      | WizardPreflight _ _ \<Rightarrow> (\<exists>name er. ms = ProjectWizardPreflightMsg name er)
      | WizardDomainCheck _ _ \<Rightarrow> (\<exists>dom av er. ms = ProjectWizardDomainCheckedMsg dom av er)
      | WizardExecute _ _ _ _ \<Rightarrow> (\<exists>ex. ms = ProjectWizardExecutedMsg ex)
      | WizardRollback _ _ \<Rightarrow> (\<exists>rs er. ms = ProjectWizardRolledBackMsg rs er)
      | ResumeRollback _ _ \<Rightarrow> (\<exists>rs er. ms = ProjectWizardRolledBackMsg rs er)
      | PendingDiscard \<Rightarrow> (\<exists>er. ms = PendingDiscardedMsg er)
      | RunProjectAction _ _ _ \<Rightarrow> (\<exists>kind prj out er. ms = ProjectActionCompletedMsg kind prj out er)
      | ImportScan _ \<Rightarrow> (\<exists>rows n er. ms = ImportScanCompletedMsg rows n er)
      | ImportPersist _ _ \<Rightarrow> (\<exists>conf n er. ms = ImportPersistedMsg conf n er))"

lemma execute_answers: "wizardExecuteCmd D p plan sl conf s = Some (ms, s') \<Longrightarrow> \<exists>ex. ms = ProjectWizardExecutedMsg ex"
  by (auto simp: wizardExecuteCmd_def Let_def split: prod.splits option.splits sum.splits)

lemma world_answers:
  "answers LoadPendingFile (fst (loadPendingCmd D w))" "answers (LoadCICDLogs ref prj i) (fst (logs_run D ref prj i w))"
  "answers (WizardPreflight p name) (fst (wizardPreflightCmd D p name w))"
  "answers (WizardDomainCheck p domain) (fst (wizardDomainCheckCmd D p domain w))"
  "answers PendingDiscard (fst (pendingDiscardCmd D w))" "answers (ImportScan conf) (fst (importScanCmd D conf w))"
  by (simp_all add: loadPendingCmd_def logs_run_def wizardPreflightCmd_def wizardDomainCheckCmd_def pendingDiscardCmd_def
      importScanCmd_def answers_def ex_bool_eq Let_def split: prod.split sum.split option.split)

lemma env_answers:
  "answers LoadConfig (fst (loadConfigCmd D e))" "answers (SaveProfile p conf) (fst (saveProfileCmd D p conf e))"
  "answers (ResumeRollback conf snap) (fst (resumeRollbackCmd D conf snap e))"
  "answers (ImportPersist conf rows) (fst (importPersistCmd D conf rows e))"
  by (simp_all add: loadConfigCmd_def saveProfileCmd_def resumeRollbackCmd_def importPersistCmd_def
      answers_def ex_bool_eq Let_def split: prod.split sum.split option.split bool.split)

lemma shared_answers:
  "answers (RefreshVisibleProjects ps) (fst (refresh_run D ps s))" "answers (PollCICDPipeline ref prj) (fst (poll_run D ref prj s))"
  "answers (WizardRollback p x) (fst (wizardRollbackCmd D p sl s))"
  "answers (RunProjectAction kind p prj') (fst (projectActionCmd D kind p prj' s))"
  by (simp_all add: refresh_run_def poll_run_def wizardRollbackCmd_def projectActionCmd_def
      answers_def Let_def split: prod.split sum.split option.split probe_value.split)

lemma on_world_answer: "(\<And>w. answers c (fst (f w))) \<Longrightarrow> answers c (fst (on_world f s))"
  by (simp add: on_world_def split: prod.split) (metis fst_conv)

lemma on_env_answer: "(\<And>e. answers c (fst (f e))) \<Longrightarrow> answers c (fst (on_env f s))"
  by (simp add: on_env_def split: prod.split) (metis fst_conv)

lemma run_cmd_answers: "run_cmd D c s = Some r \<Longrightarrow> answers c (fst r)"
proof (cases c)
  case (WizardExecute p plan sl conf)
  assume "run_cmd D c s = Some r"
  with WizardExecute show ?thesis by (cases sl; cases r) (auto simp: answers_def dest: execute_answers)
next
  case (WizardRollback p sl)
  assume "run_cmd D c s = Some r"
  with WizardRollback show ?thesis by (cases sl) (auto intro: shared_answers)
qed (auto intro: on_world_answer on_env_answer world_answers env_answers shared_answers simp: answers_def [of SpinnerTick]
    answers_def [of "ScheduleRefresh _"] answers_def [of "ScheduleCICDTick _"])

section \<open>Invariants of the loop\<close>

definition actions_in :: "cmd multiset \<Rightarrow> nat" where
  "actions_in Q = size (filter_mset is_action Q)"

definition ui_inv :: "'w ui \<Rightarrow> bool" where
  "ui_inv u \<longleftrightarrow> tidy (uiModel u) \<and> actions_in (uiFlight u) = (if afRunning (mAction (uiModel u)) then 1 else 0)"

lemma actions_in_add [simp]: "actions_in (Q + mset cs) = actions_in Q + length (filter is_action cs)"
  by (simp add: actions_in_def flip: mset_filter)

lemma actions_in_remove: "c \<in># Q \<Longrightarrow> actions_in (Q - {#c#}) = actions_in Q - (if is_action c then 1 else 0)"
  by (auto simp: actions_in_def size_Diff_singleton)

lemma action_completes: "answers c ms \<Longrightarrow> completes ms = is_action c"
  by (cases c) (auto simp: answers_def)

lemma answer_no_key: "answers c ms \<Longrightarrow> ms \<noteq> KeyMsg k r"
  by (cases c) (auto simp: answers_def)

lemma message_no_action:
  assumes "Update E ms m = Some (m', cs, es)" "\<And>k r. ms \<noteq> KeyMsg k r"
  shows "filter is_action cs = []"
  using message_unguarded [OF assms] action_guarded by (auto simp: filter_empty_conv)

lemma model_step:
  assumes "Update E ms m = Some (m', cs, es)" "\<not> completes ms"
  shows "(tidy m \<longrightarrow> tidy m') \<and> action_step m m' cs"
proof (cases "\<exists>k r. ms = KeyMsg k r")
  case True
  then obtain k r where "ms = KeyMsg k r" by blast
  with assms have "updateKey E k r (m\<lparr>mAlert := []\<rparr>) = Some (m', cs, es)" by simp
  from key_step(1,2) [OF this] show ?thesis by (simp add: tidy_def action_step_def)
next
  case False
  then show ?thesis
    using message_step [OF assms(1)] message_no_action [OF assms(1)] assms(2) by (auto simp: action_step_def)
qed

lemma ui_inv_step: "ui_step E D u u' \<Longrightarrow> ui_inv u \<Longrightarrow> ui_inv u'"
proof (induction rule: ui_step.induct)
  case (ui_input Q ms m m' cs es s)
  then have "\<not> completes ms" by (cases ms) auto
  with model_step [OF ui_input(3)] ui_input show ?case by (auto simp: ui_inv_def action_step_def split: if_splits)
next
  case (ui_answer Q c s ms s' m m' cs es)
  have a: "answers c ms" using run_cmd_answers [OF ui_answer(3)] by simp
  show ?case
  proof (cases "is_action c")
    case True
    with a have "completes ms" by (simp add: action_completes)
    with message_step [OF ui_answer(4)] message_no_action [OF ui_answer(4)] answer_no_key [OF a] True ui_answer
    show ?thesis by (auto simp: ui_inv_def actions_in_remove split: if_splits)
  next
    case False
    with a have "\<not> completes ms" by (simp add: action_completes)
    with model_step [OF ui_answer(4)] ui_answer False
    show ?thesis by (auto simp: ui_inv_def action_step_def actions_in_remove split: if_splits)
  qed
qed

lemma new_model:
  "tidy (tui_New layout fetched opts) \<and> mAction (tui_New layout fetched opts) = zero_action_form
   \<and> mHostKey (tui_New layout fetched opts) = zero_host_key"
  by (simp add: tui_New_def tidy_def applyMockStatuses_def Let_def split: option.split)

lemma ui_inv_init: "ui_init opts layout u \<Longrightarrow> ui_inv u"
  using new_model [of layout _ opts]
  by (auto simp: ui_init_def ui_inv_def zero_action_form_def actions_in_def tui_Init_def scheduleRefresh_def scheduleCICDTick_def)

interpretation ui_loop: transition_system "ui_init opts layout" "ui_step E D" ui_inv
  by unfold_locales (auto intro: ui_inv_init ui_inv_step)

lemma default_never_refused: "run_cmd (runTUIWithDeps nt reg prov path client D) c s = Some r \<Longrightarrow> \<not> refused (fst r)"
proof
  assume r: "run_cmd (runTUIWithDeps nt reg prov path client D) c s = Some r" "refused (fst r)"
  then obtain ps where c: "c = RefreshVisibleProjects ps"
    using run_cmd_answers [OF r(1)] by (cases c) (auto simp: answers_def)
  have "\<not> refused (fst (refresh_run (runTUIWithDeps nt reg prov path client D) ps s))"
    by (simp add: refresh_run_def runTUIWithDeps_def default_fetch_def split: prod.split)
  with r c show False by auto
qed

lemma modal_stays_closed:
  assumes "Update E ms m = Some (m', cs, es)" "\<not> refused ms" "\<not> hkOpen (mHostKey m)"
  shows "\<not> hkOpen (mHostKey m')"
proof (cases "\<exists>k r. ms = KeyMsg k r")
  case True
  then obtain k r where "ms = KeyMsg k r" by blast
  with assms have "updateKey E k r (m\<lparr>mAlert := []\<rparr>) = Some (m', cs, es)" by simp
  from key_step(3) [OF this] assms(3) show ?thesis by auto
next
  case False
  with message_step [OF assms(1)] assms(2,3) show ?thesis by auto
qed

definition modal_closed :: "'w ui \<Rightarrow> bool" where
  "modal_closed u \<longleftrightarrow> \<not> hkOpen (mHostKey (uiModel u))"

lemma modal_closed_step: "ui_step E (runTUIWithDeps nt reg prov path client D) u u' \<Longrightarrow> modal_closed u \<Longrightarrow> modal_closed u'"
proof (induction rule: ui_step.induct)
  case (ui_input Q ms m m' cs es s)
  then have "\<not> refused ms" by (cases ms) auto
  with modal_stays_closed [OF ui_input(3)] ui_input show ?case by (simp add: modal_closed_def)
next
  case (ui_answer Q c s ms s' m m' cs es)
  with modal_stays_closed [OF ui_answer(4)] default_never_refused [OF ui_answer(3)] show ?case by (simp add: modal_closed_def)
qed

lemma modal_closed_init: "ui_init opts layout u \<Longrightarrow> modal_closed u"
  using new_model [of layout _ opts] by (auto simp: ui_init_def modal_closed_def zero_host_key_def)

interpretation default_ui: transition_system "ui_init opts layout" "ui_step E (runTUIWithDeps nt reg prov path client D)" modal_closed
  by unfold_locales (auto intro: modal_closed_init modal_closed_step)

section \<open>The refresh timers\<close>

fun is_timer :: "cmd \<Rightarrow> bool" where
  "is_timer (ScheduleRefresh _) = True"
| "is_timer _ = False"

definition timers :: "cmd multiset \<Rightarrow> nat" where
  "timers Q = size (filter_mset is_timer Q)"

definition starts_no_timer :: "step \<Rightarrow> bool" where
  "starts_no_timer x \<longleftrightarrow> filter is_timer (fst (snd x)) = []"

lemma no_timer_cmds [simp]:
  "filter is_timer (pollCICDPipelineCmd m) = []" "filter is_timer (loadCICDLogsCmd m i) = []" "\<not> is_timer (scheduleCICDTick t)"
  "\<not> is_timer (refreshVisibleProjectsCmd m)" "is_timer (scheduleRefresh t)"
  by (simp_all add: pollCICDPipelineCmd_def loadCICDLogsCmd_def scheduleCICDTick_def refreshVisibleProjectsCmd_def
      scheduleRefresh_def split: option.split)

lemma stay_timer [simp]: "starts_no_timer (stay m)" "starts_no_timer (quit_now m)" "starts_no_timer (m, [], es)"
  by (simp_all add: starts_no_timer_def tui_nothing)

lemma dashboard_timer: "starts_no_timer (updateDashboardKey k m)"
proof -
  have "starts_no_timer (move_selection d m)" for d
    by (simp add: move_selection_def onDashboardSelectionChanged_def Let_def split: option.split) (simp add: starts_no_timer_def)
  moreover have "starts_no_timer (openCICDLogsModal m)"
    by (simp add: openCICDLogsModal_def Let_def split: option.split) (simp add: starts_no_timer_def)
  moreover have "starts_no_timer (updateCICDModalKey k m)" by (simp add: updateCICDModalKey_def Let_def)
  moreover have "starts_no_timer (beginImportScan m)" by (simp add: beginImportScan_def Let_def) (simp add: starts_no_timer_def)
  ultimately show ?thesis by (simp add: updateDashboardKey_def)
qed

lemma wizard_timer: "starts_no_timer (updateProjectWizardKey k r m)"
proof -
  have "starts_no_timer (dispatchProjectWizardAsync m)" for m
    by (simp add: dispatchProjectWizardAsync_def Let_def split: option.split) (simp add: starts_no_timer_def)
  moreover have "starts_no_timer (wizard_step_key k r m)"
    unfolding wizard_step_key_def Let_def by (simp add: keep_and_exit_def split: option.split) (simp add: starts_no_timer_def)
  ultimately show ?thesis unfolding updateProjectWizardKey_def Let_def by (simp add: keep_and_exit_def split: prod.split)
qed

lemma detail_timer: "starts_no_timer (updateProjectDetailKey k m)"
proof -
  have "starts_no_timer (updateLiveLogsKey k m)" unfolding updateLiveLogsKey_def Let_def by simp
  moreover have "starts_no_timer (enterLiveLogsTab m)" by (simp add: enterLiveLogsTab_def Let_def split: option.split)
  moreover have "starts_no_timer (dispatchProjectAction a m)" for a
    by (simp add: dispatchProjectAction_def split: option.split) (simp add: starts_no_timer_def)
  ultimately show ?thesis unfolding updateProjectDetailKey_def by simp
qed

lemma init_timer: "starts_no_timer (updateInitWizardKey k r m)"
  unfolding updateInitWizardKey_def Let_def by (simp split: option.split) (simp add: starts_no_timer_def)

lemma resume_timer: "starts_no_timer (updateResumeWizardKey k r m)"
  unfolding updateResumeWizardKey_def Let_def by (simp split: option.split) (simp add: starts_no_timer_def)

lemma import_timer: "starts_no_timer (updateImportPreviewKey k m)"
  unfolding updateImportPreviewKey_def Let_def by simp (simp add: starts_no_timer_def)

lemma catalog_timer: "starts_no_timer (updateProviderCatalogKey E k m)"
  unfolding updateProviderCatalogKey_def Let_def by (simp split: option.split)

lemma route_timer: "starts_no_timer (route_key E k r m)"
  using dashboard_timer wizard_timer detail_timer init_timer resume_timer import_timer catalog_timer
  by (simp add: route_key_def split: State.split)

lemma key_timer:
  assumes "updateKey E k r m = Some (m', cs, es)"
  shows "filter is_timer cs = []"
  using assms
proof (cases rule: key_forms)
  case 4
  then show ?thesis using route_timer [of E k r "m\<lparr>mViewport := 0\<rparr>"] by (simp add: starts_no_timer_def)
qed (auto dest!: overlay_local(4) simp: filter_empty_conv)

text \<open>The timers a message starts. A tick starts the next one; the others add one.\<close>

definition new_timers :: "msg \<Rightarrow> Model \<Rightarrow> nat" where
  "new_timers ms m =
     (case ms of
        ConfigLoadedMsg conf missing \<Rightarrow> of_bool (\<not> missing \<and> rfSnapshot (mResume m) = None \<and> rfLoadErr (mResume m) = None)
      | ProfileSavedMsg _ \<Rightarrow> 1
      | ProjectWizardExecutedMsg ex \<Rightarrow> of_bool (exErr ex = None \<and> exSaveErr ex = None)
      | ImportPersistedMsg _ _ err \<Rightarrow> of_bool (err = None)
      | StatusRefreshFailedMsg _ \<Rightarrow> 1
      | RefreshTickMsg \<Rightarrow> 1
      | _ \<Rightarrow> 0)"

lemma step_timers:
  "length (filter is_timer (fst (snd (on_config conf missing m)))) = new_timers (ConfigLoadedMsg conf missing) m"
  "length (filter is_timer (fst (snd (on_profile_saved conf m)))) = 1"
  "length (filter is_timer (fst (snd (applyExecution ex m)))) = new_timers (ProjectWizardExecutedMsg ex) m"
  "length (filter is_timer (fst (snd (applyImportPersisted conf n err m)))) = new_timers (ImportPersistedMsg conf n err) m"
  "length (filter is_timer (fst (snd (on_refresh_failed er m)))) = 1"
  "length (filter is_timer (fst (snd (on_tick m)))) = 1"
  "filter is_timer (fst (snd (applyPreflight name err m))) = []"
  "filter is_timer (fst (snd (applyProjectAction kind prj out err m))) = []"
  "filter is_timer (fst (snd (applyCICDTick m))) = []"
  by (simp_all add: on_config_def on_profile_saved_def applyExecution_def applyImportPersisted_def on_refresh_failed_def on_tick_def
      applyPreflight_def applyProjectAction_def applyCICDTick_def new_timers_def tui_nothing Let_def
      split: option.split prod.split bool.split)

lemma message_timers:
  assumes "Update E ms m = Some (m', cs, es)"
  shows "length (filter is_timer cs) = new_timers ms m"
proof -
  have "length (filter is_timer (fst (snd (the (Update E ms m))))) = new_timers ms m"
  proof (cases ms)
    case (KeyMsg k r)
    with assms have "updateKey E k r (m\<lparr>mAlert := []\<rparr>) = Some (m', cs, es)" by simp
    from key_timer [OF this] KeyMsg assms show ?thesis by (simp add: new_timers_def)
  qed (simp_all add: step_timers tui_nothing, simp_all add: new_timers_def)
  with assms show ?thesis by simp
qed

lemma timers_add [simp]: "timers (Q + mset cs) = timers Q + length (filter is_timer cs)"
  by (simp add: timers_def flip: mset_filter)

lemma timer_ticks: "answers c ms \<Longrightarrow> is_timer c = (ms = RefreshTickMsg)"
  by (cases c) (auto simp: answers_def)

lemma input_no_timer: "is_input ms \<Longrightarrow> new_timers ms m = 0"
  by (cases ms) (simp_all add: new_timers_def)

lemma ui_step_timers:
  assumes "ui_step E D u u'"
  shows "\<exists>ms. (is_input ms \<or> (\<exists>c. c \<in># uiFlight u \<and> answers c ms))
    \<and> timers (uiFlight u') = timers (uiFlight u) + (if ms = RefreshTickMsg then 0 else new_timers ms (uiModel u))"
  using assms
proof (cases rule: ui_step.cases)
  case (ui_input Q ms m m' cs es s)
  with message_timers [OF ui_input(5)] input_no_timer [of ms m] show ?thesis by (intro exI [of _ ms]) auto
next
  case (ui_answer Q c s ms s' m m' cs es)
  have a: "answers c ms" using run_cmd_answers [OF ui_answer(5)] by simp
  obtain Q' where q: "Q = add_mset c Q'" using ui_answer(4) by (metis multi_member_split)
  have "timers Q = timers Q' + of_bool (ms = RefreshTickMsg)"
    using timer_ticks [OF a] by (simp add: q timers_def)
  then have "timers (Q - {#c#} + mset cs) = timers Q + (if ms = RefreshTickMsg then 0 else new_timers ms m)"
    using message_timers [OF ui_answer(6)] by (simp add: q new_timers_def)
  with ui_answer a show ?thesis by (intro exI [of _ ms] conjI disjI2 exI [of _ c]) (simp_all only: ui.simps)
qed

section \<open>Properties\<close>

text \<open>A dashboard with one project, and a run that starts an action on it.\<close>

definition one_project :: "Config option" where
  "one_project = map_option (\<lambda>conf. add_projects conf [new_project ''p1'' (example_plan\<lparr>ProfileAlias := ''main''\<rparr>)]) sample_conf"

definition project_opts :: Options where
  "project_opts = demo_opts\<lparr>opPreloadedConfig := one_project, opMockLiveLogLines := []\<rparr>"

definition project_model :: Model where
  "project_model = tui_New [] (\<lambda>_. None) project_opts"

definition project_ui :: "Model \<Rightarrow> cmd list \<Rightarrow> resource set World_scheme ui" where
  "project_ui m cs = \<lparr>uiModel = m, uiFlight = mset (cs @ tui_Init project_model), uiShared = (no_slots, NewCache 0, None, site_world)\<rparr>"

definition detail_model :: Model where
  "detail_model = project_model\<lparr>mState := StateProjectDetail\<rparr>"

definition restarting :: Model where
  "restarting = detail_model\<lparr>mAction := zero_action_form\<lparr>afKind := ProjectActionRestart, afProjectID := ''p1'', afRunning := True\<rparr>\<rparr>"

definition restart_cmd :: cmd where
  "restart_cmd = RunProjectAction ProjectActionRestart (profile_or_zero sample_conf ''main'') (new_project ''p1'' example_plan)"

lemma press_right: "Update demo_env (KeyMsg ''right'' None) project_model = Some (detail_model, [], [])"
  by code_simp

lemma press_restart: "Update demo_env (KeyMsg ''r'' None) detail_model = Some (restarting, [restart_cmd], [])"
  by code_simp

lemma restarting_reached:
  "reached (ui_init project_opts []) (ui_step demo_env D) (project_ui restarting [restart_cmd])"
proof -
  have q: "Quit \<notin># uiFlight (project_ui m [])" for m
    by (simp add: project_ui_def tui_Init_def scheduleRefresh_def scheduleCICDTick_def)
  have "reached (ui_init project_opts []) (ui_step demo_env D) (project_ui project_model [])"
    by (rule reached_init) (auto simp: ui_init_def project_ui_def project_model_def)
  moreover have "ui_step demo_env D (project_ui project_model []) (project_ui detail_model [])"
    using ui_step.ui_input [OF q [of project_model] _ press_right, of D "uiShared (project_ui project_model [])"]
    by (simp add: project_ui_def)
  moreover have "ui_step demo_env D (project_ui detail_model []) (project_ui restarting [restart_cmd])"
    using ui_step.ui_input [OF q [of detail_model] _ press_restart, of D "uiShared (project_ui detail_model [])"]
    by (simp add: project_ui_def)
  ultimately show ?thesis by (meson reached_step)
qed

text \<open>
  C8. However input and answers interleave, at most one project action is in flight, exactly while the form says that one is
  running; the focus is on no tile or on one of the two that scroll, and the viewport, the selection and the scroll offsets are
  never negative.
\<close>

theorem one_action_at_a_time:
  assumes "reached (ui_init opts layout) (ui_step E D) u"
  shows "actions_in (uiFlight u) = (if afRunning (mAction (uiModel u)) then 1 else 0)
    \<and> mFocused (uiModel u) \<in> {None, Some SlotCICD, Some SlotLogs} \<and> 0 \<le> mViewport (uiModel u) \<and> 0 \<le> mSelected (uiModel u)
    \<and> (\<forall>p\<in>set (case mOffsets (uiModel u) of None \<Rightarrow> [] | Some xs \<Rightarrow> xs). 0 \<le> snd p)"
  using ui_loop.reached_inv [OF assms] by (cases "mOffsets (uiModel u)") (simp_all add: ui_inv_def tidy_def)

theorem one_action_at_a_time_witness:
  "actions_in (uiFlight (project_ui restarting [restart_cmd])) = 1 \<and> afRunning (mAction restarting)"
proof -
  have "afRunning (mAction restarting)" by (simp add: restarting_def)
  with one_action_at_a_time [OF restarting_reached [of "site_deps"]] show ?thesis by (simp add: project_ui_def)
qed

text \<open>
  C38. The host-key dialogue never opens in the program as it is wired: the default status fetcher reports every failure inside the
  snapshot of the project and returns no error, and the failed refresh is the only message that opens the dialogue. A project
  action that ends with a host-key mismatch only sets the alert line.
\<close>

theorem host_key_modal_never_opens:
  assumes "reached (ui_init opts layout) (ui_step E (runTUIWithDeps nt reg prov path client D)) u"
  shows "\<not> hkOpen (mHostKey (uiModel u)) \<and>
    (\<exists>m'. Update E (ProjectActionCompletedMsg kind prj out (Some ([SshE ErrHostKeyMismatch], t))) (uiModel u) = Some (m', [], [])
      \<and> mHostKey m' = mHostKey (uiModel u) \<and> mAlert m' = kind @ '' failed: '' @ t)"
  using default_ui.reached_inv [OF assms] by (simp add: modal_closed_def applyProjectAction_def tui_nothing Let_def)

theorem host_key_modal_never_opens_witness:
  "\<not> hkOpen (mHostKey (uiModel (project_ui restarting [restart_cmd]))) \<and>
   (\<exists>m'. Update demo_env (ProjectActionCompletedMsg ''restart'' ''p1'' [] (Some ([SshE ErrHostKeyMismatch], ''mismatch''))) restarting
       = Some (m', [], []) \<and> mAlert m' = ''restart failed: mismatch'')"
  using host_key_modal_never_opens [OF restarting_reached [of "runTUIWithDeps at_noon example_registry (\<lambda>_. Inr site_panel) [] site_client site_deps"],
      of "''restart''" "''p1''" "[]" "''mismatch''"]
  by (auto simp: project_ui_def)


definition refusing :: "resource set World_scheme deps" where
  "refusing = site_deps\<lparr>dpFetch := (\<lambda>_ c w. (Inl [OSErr], c, w))\<rparr>"

definition refusing_ui :: "Model \<Rightarrow> cmd multiset \<Rightarrow> resource set World_scheme ui" where
  "refusing_ui m Q = \<lparr>uiModel = m, uiFlight = Q, uiShared = (no_slots, NewCache 0, None, site_world)\<rparr>"

lemma refused_step:
  "ui_step demo_env refusing (refusing_ui demo_model {#RefreshVisibleProjects []#})
     (refusing_ui (demo_model\<lparr>mAlert := ''status refresh failed; showing cached data''\<rparr>) {#ScheduleRefresh defaultRefreshInterval#})"
proof -
  let ?s = "(no_slots, NewCache 0, None, site_world)"
  have r: "run_cmd refusing (RefreshVisibleProjects []) ?s = Some (StatusRefreshFailedMsg (Some ([OSErr], ''error'')), ?s)"
    by (simp add: refresh_run_def refusing_def site_deps_def)
  have "tryRaiseHostKeyModal (Some ([OSErr], t)) m = (False, m)" for t m
    by (simp add: tryRaiseHostKeyModal_def classifyHostKeyErr_def errors_is_def)
  moreover have "mRefresh demo_model = defaultRefreshInterval"
    by (simp add: demo_model_def tui_New_def demo_opts_def Let_def)
  ultimately have u: "Update demo_env (StatusRefreshFailedMsg (Some ([OSErr], ''error''))) demo_model =
      Some (demo_model\<lparr>mAlert := ''status refresh failed; showing cached data''\<rparr>, [ScheduleRefresh defaultRefreshInterval],
        [Emitted ''status.refresh_failed'' (classifyErrForTrace (Some ([OSErr], ''error'')))])"
    by (simp add: on_refresh_failed_def scheduleRefresh_def defaultRefreshInterval_def)
  show ?thesis using ui_step.ui_answer [OF _ _ r u, of "{#RefreshVisibleProjects []#}"] by (simp add: refusing_ui_def)
qed


end
