(* ===== verification/Cli.thy ===== *)
theory Cli
  imports World
begin

text \<open>
  The command line (\<open>src/cmd/webox/run.go\<close>): the argument parser with its context-dependent tokens, the checks across flags, and
  the choice of what is run. A usage error is a value of \<open>usage\<close>; its constructors stand for the messages.

  \<^item> \<open>ParseDuration\<close> is that of package \<open>time\<close>; the part behind a decimal point is taken exactly, where the library multiplies
    in floating point and may be one nanosecond off.
\<close>

section \<open>time.ParseDuration\<close>

definition duration_units :: "(string \<times> int) list" where
  "duration_units = [(''ns'', 1), (''us'', 1000), ([CHR 0xC2, CHR 0xB5, CHR ''s''], 1000), ([CHR 0xCE, CHR 0xBC, CHR ''s''], 1000),
     (''ms'', 1000000), (''s'', 1000000000), (''m'', 60000000000), (''h'', 3600000000000)]"

text \<open>The digits after the point: value and scale; further digits are ignored when the value would overflow.\<close>

fun leading_fraction :: "string \<Rightarrow> bool \<Rightarrow> int \<Rightarrow> int \<Rightarrow> int \<times> int" where
  "leading_fraction [] full f scale = (f, scale)"
| "leading_fraction (c # cs) full f scale =
     (let y = 10 * f + int (digit_val c) in
      if full \<or> f > (2 ^ 63 - 1) div 10 \<or> y > 2 ^ 63 then leading_fraction cs True f scale
      else leading_fraction cs False y (10 * scale))"

definition duration_term :: "string \<Rightarrow> (int \<times> string) option" where
  "duration_term s =
     (let ds = takeWhile is_digit s; r = dropWhile is_digit s; v = int (digits_val ds);
          dot = (r \<noteq> [] \<and> hd r = CHR ''.'');
          fs = (if dot then takeWhile is_digit (tl r) else []);
          r = (if dot then dropWhile is_digit (tl r) else r);
          in_unit = (\<lambda>c. c \<noteq> CHR ''.'' \<and> \<not> is_digit c)
      in if v > 2 ^ 63 \<or> ds = [] \<and> fs = [] then None
         else case map_of duration_units (takeWhile in_unit r) of
           None \<Rightarrow> None
         | Some unit \<Rightarrow>
             if v > 2 ^ 63 div unit then None
             else (case leading_fraction fs False 0 1 of (f, scale) \<Rightarrow>
               (let v = v * unit + f * unit div scale
                in if v > 2 ^ 63 then None else Some (v, dropWhile in_unit r))))"

lemma unit_not_Nil: "map_of duration_units u = Some k \<Longrightarrow> u \<noteq> []"
  by (auto simp: duration_units_def split: if_splits)

lemma duration_term_shorter: "duration_term s = Some (v, r) \<Longrightarrow> length r < length s"
proof -
  assume a: "duration_term s = Some (v, r)"
  define r1 where "r1 = dropWhile is_digit s"
  define r2 where "r2 = (if r1 \<noteq> [] \<and> hd r1 = CHR ''.'' then dropWhile is_digit (tl r1) else r1)"
  let ?u = "\<lambda>c. c \<noteq> CHR ''.'' \<and> \<not> is_digit c"
  have "takeWhile ?u r2 \<noteq> []" "r = dropWhile ?u r2"
    using a unit_not_Nil by (cases "r1 \<noteq> [] \<and> hd r1 = CHR ''.''";
      auto simp: duration_term_def Let_def r1_def [symmetric] r2_def split: if_splits option.splits prod.splits)+
  then have "length r < length r2"
    by (metis add_diff_cancel_right' length_append length_greater_0_conv less_add_same_cancel2 takeWhile_dropWhile_id)
  also have "length r2 \<le> length r1" by (auto simp: r2_def intro: le_trans [OF length_dropWhile_le])
  also have "length r1 \<le> length s" by (simp add: r1_def length_dropWhile_le)
  finally show ?thesis .
qed

function duration_terms :: "int \<Rightarrow> string \<Rightarrow> int option" where
  "duration_terms d s =
     (if s = [] then Some d
      else case duration_term s of
        None \<Rightarrow> None
      | Some (v, r) \<Rightarrow> if d + v > 2 ^ 63 then None else duration_terms (d + v) r)"
  by pat_completeness auto
termination by (relation "measure (length \<circ> snd)") (auto simp: duration_term_shorter)

declare duration_terms.simps [simp del]

definition ParseDuration :: "string \<Rightarrow> int option" where
  "ParseDuration s =
     (let neg = (s \<noteq> [] \<and> hd s = CHR ''-'');
          s = (if s \<noteq> [] \<and> (hd s = CHR ''-'' \<or> hd s = CHR ''+'') then tl s else s)
      in if s = ''0'' then Some 0
         else if s = [] then None
         else case duration_terms 0 s of
           None \<Rightarrow> None
         | Some d \<Rightarrow> if neg then Some (- d) else if d > 2 ^ 63 - 1 then None else Some d)"

section \<open>Options\<close>

record cli_opts =
  showVersion :: bool
  showHelp :: bool
  debug :: bool
  mock :: bool
  doctor :: bool
  doctorJSON :: bool
  doctorTarget :: string
  debugTracePath :: string
  providerNew :: bool
  providerNewName :: string
  providerPreset :: string
  providerDryRun :: bool
  presetID :: string
  presetProbe :: bool
  presetHost :: string
  presetUser :: string
  presetPort :: int
  presetTimeout :: int
  cpanelToken :: string
  cpanelAPIPort :: int
  cpanelSSHPort :: int
  cpanelNoSSH :: bool
  cpanelNoUAPI :: bool
  directadminLoginKey :: string
  directadminAPIPort :: int
  directadminSSHPort :: int
  directadminNoSSH :: bool
  directadminNoAPI :: bool

definition zero_opts :: cli_opts where
  "zero_opts = \<lparr>showVersion = False, showHelp = False, debug = False, mock = False, doctor = False, doctorJSON = False,
     doctorTarget = [], debugTracePath = [], providerNew = False, providerNewName = [], providerPreset = [], providerDryRun = False,
     presetID = [], presetProbe = False, presetHost = [], presetUser = [], presetPort = 0, presetTimeout = 0,
     cpanelToken = [], cpanelAPIPort = 0, cpanelSSHPort = 0, cpanelNoSSH = False, cpanelNoUAPI = False,
     directadminLoginKey = [], directadminAPIPort = 0, directadminSSHPort = 0, directadminNoSSH = False, directadminNoAPI = False\<rparr>"

datatype usage =
    UnknownArgument string
  | WrongContext string
  | TargetAlreadySet string
  | RequiresValue string
  | BadPort string string
  | BadTimeout string
  | JSONWithoutDoctor
  | ProbeWithoutID
  | NameMissing

definition maxTCPPort :: int where "maxTCPPort = 65535"

section \<open>Simple tokens\<close>

definition isPendingProviderNameSlot :: "cli_opts \<Rightarrow> bool" where
  "isPendingProviderNameSlot o' \<longleftrightarrow> providerNew o' \<and> providerNewName o' = []"

definition setDoctorTarget :: "string \<Rightarrow> cli_opts \<Rightarrow> usage + cli_opts" where
  "setDoctorTarget tgt o' =
     (if \<not> doctor o' then Inl (WrongContext tgt)
      else if doctorTarget o' \<noteq> [] \<and> doctorTarget o' \<noteq> tgt then Inl (TargetAlreadySet (doctorTarget o'))
      else Inr (o'\<lparr>doctorTarget := tgt\<rparr>))"

definition applyProbeFlag :: "cli_opts \<Rightarrow> usage + cli_opts" where
  "applyProbeFlag o' =
     (if doctorTarget o' \<noteq> ''preset'' then Inl (WrongContext ''--probe'') else Inr (o'\<lparr>presetProbe := True\<rparr>))"

definition applyDryRunFlag :: "cli_opts \<Rightarrow> usage + cli_opts" where
  "applyDryRunFlag o' =
     (if \<not> providerNew o' then Inl (WrongContext ''--dry-run'') else Inr (o'\<lparr>providerDryRun := True\<rparr>))"

definition applyNoSSHToggle :: "cli_opts \<Rightarrow> usage + cli_opts" where
  "applyNoSSHToggle o' =
     (if doctorTarget o' = ''cpanel'' then Inr (o'\<lparr>cpanelNoSSH := True\<rparr>)
      else if doctorTarget o' = ''directadmin'' then Inr (o'\<lparr>directadminNoSSH := True\<rparr>)
      else Inl (WrongContext ''--no-ssh''))"

definition applyCpanelToggle :: "string \<Rightarrow> cli_opts \<Rightarrow> cli_opts \<Rightarrow> usage + cli_opts" where
  "applyCpanelToggle name o' toggled = (if doctorTarget o' \<noteq> ''cpanel'' then Inl (WrongContext name) else Inr toggled)"

definition applyDirectadminToggle :: "string \<Rightarrow> cli_opts \<Rightarrow> cli_opts \<Rightarrow> usage + cli_opts" where
  "applyDirectadminToggle name o' toggled = (if doctorTarget o' \<noteq> ''directadmin'' then Inl (WrongContext name) else Inr toggled)"

definition targets :: "string list" where
  "targets = [''github'', ''preset'', ''cpanel'', ''directadmin'']"

definition applyContextualToken :: "string \<Rightarrow> cli_opts \<Rightarrow> usage + cli_opts" where
  "applyContextualToken arg o' =
     (if arg \<in> set targets then
        (if isPendingProviderNameSlot o' then Inr o' else setDoctorTarget arg o')
      else if arg = ''new'' \<and> \<not> providerNew o' then Inl (WrongContext ''new'')
      else Inr o')"

definition applySimpleFlag :: "string \<Rightarrow> cli_opts \<Rightarrow> usage + cli_opts" where
  "applySimpleFlag arg o' =
     (if arg = ''doctor'' then Inr (o'\<lparr>doctor := True\<rparr>)
      else if arg \<in> set targets \<or> arg = ''new'' then applyContextualToken arg o'
      else if arg = ''provider'' then Inr (o'\<lparr>providerNew := True\<rparr>)
      else if arg = ''--version'' then Inr (o'\<lparr>showVersion := True\<rparr>)
      else if arg = ''--help'' \<or> arg = ''-h'' then Inr (o'\<lparr>showHelp := True\<rparr>)
      else if arg = ''--debug'' then Inr (o'\<lparr>debug := True\<rparr>)
      else if arg = ''--mock'' then Inr (o'\<lparr>mock := True\<rparr>)
      else if arg = ''--json'' then Inr (o'\<lparr>doctorJSON := True\<rparr>)
      else if arg = ''--probe'' then applyProbeFlag o'
      else if arg = ''--dry-run'' then applyDryRunFlag o'
      else if arg = ''--no-ssh'' then applyNoSSHToggle o'
      else if arg = ''--no-uapi'' then applyCpanelToggle ''--no-uapi'' o' (o'\<lparr>cpanelNoUAPI := True\<rparr>)
      else if arg = ''--no-api'' then applyDirectadminToggle ''--no-api'' o' (o'\<lparr>directadminNoAPI := True\<rparr>)
      else Inr o')"

definition simple_tokens :: "string list" where
  "simple_tokens = [''doctor'', ''provider'', ''new'', ''--version'', ''--help'', ''-h'', ''--debug'', ''--mock'', ''--json'', ''--probe'',
     ''--dry-run'', ''--no-ssh'', ''--no-uapi'', ''--no-api'']"

definition simpleFlagHandled :: "string \<Rightarrow> cli_opts \<Rightarrow> bool" where
  "simpleFlagHandled arg o' \<longleftrightarrow>
     (if arg \<in> set targets then \<not> isPendingProviderNameSlot o' else arg \<in> set simple_tokens)"

section \<open>Flags with a value\<close>

definition CutPrefix :: "string \<Rightarrow> string \<Rightarrow> string option" where
  "CutPrefix s p = (if has_prefix s p then Some (drop (length p) s) else None)"

definition port_value :: "string \<Rightarrow> int option" where
  "port_value s = (case parse_int64 s of None \<Rightarrow> None | Some n \<Rightarrow> if n \<le> 0 \<or> n > maxTCPPort then None else Some n)"

definition isPresetOrCpanelContext :: "cli_opts \<Rightarrow> bool" where
  "isPresetOrCpanelContext o' \<longleftrightarrow> doctorTarget o' \<in> {''preset'', ''cpanel'', ''directadmin''}"

definition applySSHPortFlag :: "string \<Rightarrow> cli_opts \<Rightarrow> usage + cli_opts" where
  "applySSHPortFlag v o' =
     (if doctorTarget o' = ''cpanel'' then
        (case port_value v of None \<Rightarrow> Inl (BadPort ''--ssh-port'' v) | Some n \<Rightarrow> Inr (o'\<lparr>cpanelSSHPort := n\<rparr>))
      else if doctorTarget o' = ''directadmin'' then
        (case port_value v of None \<Rightarrow> Inl (BadPort ''--ssh-port'' v) | Some n \<Rightarrow> Inr (o'\<lparr>directadminSSHPort := n\<rparr>))
      else Inl (WrongContext ''--ssh-port''))"

definition applyAPIPortFlag :: "string \<Rightarrow> cli_opts \<Rightarrow> usage + cli_opts" where
  "applyAPIPortFlag v o' =
     (if doctorTarget o' = ''cpanel'' then
        (case port_value v of None \<Rightarrow> Inl (BadPort ''--api-port'' v) | Some n \<Rightarrow> Inr (o'\<lparr>cpanelAPIPort := n\<rparr>))
      else if doctorTarget o' = ''directadmin'' then
        (case port_value v of None \<Rightarrow> Inl (BadPort ''--api-port'' v) | Some n \<Rightarrow> Inr (o'\<lparr>directadminAPIPort := n\<rparr>))
      else Inl (WrongContext ''--api-port''))"

definition applyCpanelPrefixFlag :: "string \<Rightarrow> cli_opts \<Rightarrow> (usage + cli_opts) option" where
  "applyCpanelPrefixFlag arg o' =
     (case CutPrefix arg ''--token='' of
        Some tok \<Rightarrow> Some (if doctorTarget o' \<noteq> ''cpanel'' then Inl (WrongContext ''--token'')
                         else if tok = [] then Inl (RequiresValue ''--token'') else Inr (o'\<lparr>cpanelToken := tok\<rparr>))
      | None \<Rightarrow>
     (case CutPrefix arg ''--loginkey='' of
        Some key \<Rightarrow> Some (if doctorTarget o' \<noteq> ''directadmin'' then Inl (WrongContext ''--loginkey'')
                         else if key = [] then Inl (RequiresValue ''--loginkey'') else Inr (o'\<lparr>directadminLoginKey := key\<rparr>))
      | None \<Rightarrow>
     (case CutPrefix arg ''--api-port='' of
        Some v \<Rightarrow> Some (applyAPIPortFlag v o')
      | None \<Rightarrow>
     (case CutPrefix arg ''--ssh-port='' of
        Some v \<Rightarrow> Some (applySSHPortFlag v o')
      | None \<Rightarrow> None))))"

definition applyPresetProbeFlag :: "string \<Rightarrow> cli_opts \<Rightarrow> (usage + cli_opts) option" where
  "applyPresetProbeFlag arg o' =
     (case CutPrefix arg ''--host='' of
        Some h \<Rightarrow> Some (if \<not> isPresetOrCpanelContext o' then Inl (WrongContext ''--host'')
                       else if h = [] then Inl (RequiresValue ''--host'') else Inr (o'\<lparr>presetHost := h\<rparr>))
      | None \<Rightarrow>
     (case CutPrefix arg ''--user='' of
        Some u \<Rightarrow> Some (if \<not> isPresetOrCpanelContext o' then Inl (WrongContext ''--user'')
                       else if u = [] then Inl (RequiresValue ''--user'') else Inr (o'\<lparr>presetUser := u\<rparr>))
      | None \<Rightarrow>
     (case CutPrefix arg ''--port='' of
        Some v \<Rightarrow> Some (if doctorTarget o' \<noteq> ''preset'' then Inl (WrongContext ''--port'')
                       else case port_value v of None \<Rightarrow> Inl (BadPort ''--port'' v) | Some n \<Rightarrow> Inr (o'\<lparr>presetPort := n\<rparr>))
      | None \<Rightarrow>
     (case CutPrefix arg ''--timeout='' of
        Some v \<Rightarrow> Some (if \<not> isPresetOrCpanelContext o' then Inl (WrongContext ''--timeout'')
                       else case ParseDuration v of
                         None \<Rightarrow> Inl (BadTimeout v)
                       | Some d \<Rightarrow> if d \<le> 0 then Inl (BadTimeout v) else Inr (o'\<lparr>presetTimeout := d\<rparr>))
      | None \<Rightarrow> applyCpanelPrefixFlag arg o'))))"

definition applyPresetIDFlag :: "string \<Rightarrow> cli_opts \<Rightarrow> (usage + cli_opts) option" where
  "applyPresetIDFlag arg o' =
     (case CutPrefix arg ''--id='' of
        None \<Rightarrow> None
      | Some i \<Rightarrow> Some (if doctorTarget o' \<noteq> ''preset'' then Inl (WrongContext ''--id'')
                       else if i = [] then Inl (RequiresValue ''--id'') else Inr (o'\<lparr>presetID := i\<rparr>)))"

definition applyPrefixedFlag :: "string \<Rightarrow> cli_opts \<Rightarrow> usage + cli_opts" where
  "applyPrefixedFlag arg o' =
     (case CutPrefix arg ''--debug-trace='' of
        Some path \<Rightarrow> if path = [] then Inl (RequiresValue ''--debug-trace'') else Inr (o'\<lparr>debugTracePath := path\<rparr>)
      | None \<Rightarrow>
     (case CutPrefix arg ''--preset='' of
        Some p \<Rightarrow> if \<not> providerNew o' then Inl (WrongContext ''--preset'')
                  else if p = [] then Inl (RequiresValue ''--preset'') else Inr (o'\<lparr>providerPreset := p\<rparr>)
      | None \<Rightarrow>
     (case applyPresetIDFlag arg o' of
        Some r \<Rightarrow> r
      | None \<Rightarrow> (case applyPresetProbeFlag arg o' of Some r \<Rightarrow> r | None \<Rightarrow> Inr o'))))"

definition value_flags :: "string list" where
  "value_flags = [''--debug-trace='', ''--preset='', ''--id='', ''--host='', ''--user='', ''--port='', ''--timeout='', ''--token='',
     ''--loginkey='', ''--api-port='', ''--ssh-port='']"

definition prefixedFlagHandled :: "string \<Rightarrow> bool" where
  "prefixedFlagHandled arg \<longleftrightarrow> list_ex (has_prefix arg) value_flags"

section \<open>parseArgs\<close>

definition postParseValidation :: "cli_opts \<Rightarrow> usage option" where
  "postParseValidation o' =
     (if doctorJSON o' \<and> \<not> doctor o' then Some JSONWithoutDoctor
      else if presetProbe o' \<and> presetID o' = [] then Some ProbeWithoutID
      else if providerNew o' \<and> providerNewName o' = [] then Some NameMissing
      else None)"

definition parse_arg :: "string \<Rightarrow> cli_opts \<Rightarrow> usage + cli_opts" where
  "parse_arg arg o' =
     (case applySimpleFlag arg o' of
        Inl e \<Rightarrow> Inl e
      | Inr o1 \<Rightarrow>
          if simpleFlagHandled arg o1 then Inr o1
          else
            (case applyPrefixedFlag arg o1 of
               Inl e \<Rightarrow> Inl e
             | Inr o2 \<Rightarrow>
                 if prefixedFlagHandled arg then Inr o2
                 else if providerNew o2 \<and> providerNewName o2 = [] \<and> \<not> has_prefix arg ''-'' then Inr (o2\<lparr>providerNewName := arg\<rparr>)
                 else Inl (UnknownArgument arg)))"

fun parse_loop :: "string list \<Rightarrow> cli_opts \<Rightarrow> usage + cli_opts" where
  "parse_loop [] o' = Inr o'"
| "parse_loop (arg # args) o' = (case parse_arg arg o' of Inl e \<Rightarrow> Inl e | Inr o1 \<Rightarrow> parse_loop args o1)"

definition parseArgs :: "string list \<Rightarrow> usage + cli_opts" where
  "parseArgs args =
     (case parse_loop args zero_opts of
        Inl e \<Rightarrow> Inl e
      | Inr o' \<Rightarrow> (case postParseValidation o' of Some e \<Rightarrow> Inl e | None \<Rightarrow> Inr o'))"

section \<open>What is run\<close>

record presetOpts =
  poID :: string
  poJSON :: bool
  poProbe :: bool
  poHost :: string
  poUser :: string
  poPort :: int
  poTimeout :: int

record panelOpts =
  pnHost :: string
  pnUser :: string
  pnSecret :: string
  pnAPIPort :: int
  pnSSHPort :: int
  pnTimeout :: int
  pnJSON :: bool
  pnNoSSH :: bool
  pnNoAPI :: bool

datatype action =
    Misuse usage
  | PrintVersion
  | PrintHelp
  | Doctor bool
  | DoctorGitHub bool
  | DoctorPreset presetOpts
  | DoctorCpanel panelOpts
  | DoctorDirectadmin panelOpts
  | ProviderNew string string bool
  | Cockpit string
  | MockCockpit string

definition mockEnvActive :: "string \<Rightarrow> bool" where
  "mockEnvActive v \<longleftrightarrow> v \<noteq> [] \<and> v \<noteq> ''0'' \<and> v \<noteq> ''false'' \<and> v \<noteq> ''FALSE''"

text \<open>\<open>env\<close> is the value of \<open>WEBOX_MOCK\<close>; the cockpit is started with the path of the trace, empty for none.\<close>

definition runWithFullDeps :: "string \<Rightarrow> string list \<Rightarrow> action" where
  "runWithFullDeps env args =
     (case parseArgs args of
        Inl e \<Rightarrow> Misuse e
      | Inr o' \<Rightarrow>
          if showVersion o' then PrintVersion
          else if showHelp o' then PrintHelp
          else if doctor o' then
            (if doctorTarget o' = ''github'' then DoctorGitHub (doctorJSON o')
             else if doctorTarget o' = ''preset'' then
               DoctorPreset \<lparr>poID = presetID o', poJSON = doctorJSON o', poProbe = presetProbe o', poHost = presetHost o',
                 poUser = presetUser o', poPort = presetPort o', poTimeout = presetTimeout o'\<rparr>
             else if doctorTarget o' = ''cpanel'' then
               DoctorCpanel \<lparr>pnHost = presetHost o', pnUser = presetUser o', pnSecret = cpanelToken o', pnAPIPort = cpanelAPIPort o',
                 pnSSHPort = cpanelSSHPort o', pnTimeout = presetTimeout o', pnJSON = doctorJSON o', pnNoSSH = cpanelNoSSH o',
                 pnNoAPI = cpanelNoUAPI o'\<rparr>
             else if doctorTarget o' = ''directadmin'' then
               DoctorDirectadmin \<lparr>pnHost = presetHost o', pnUser = presetUser o', pnSecret = directadminLoginKey o',
                 pnAPIPort = directadminAPIPort o', pnSSHPort = directadminSSHPort o', pnTimeout = presetTimeout o',
                 pnJSON = doctorJSON o', pnNoSSH = directadminNoSSH o', pnNoAPI = directadminNoAPI o'\<rparr>
             else Doctor (doctorJSON o'))
          else if providerNew o' then ProviderNew (providerNewName o') (providerPreset o') (providerDryRun o')
          else if mock o' \<or> mockEnvActive env then MockCockpit (debugTracePath o')
          else Cockpit (debugTracePath o'))"

section \<open>Coherent options\<close>

definition port_ok :: "int \<Rightarrow> bool" where
  "port_ok n \<longleftrightarrow> 0 \<le> n \<and> n \<le> maxTCPPort"

definition name_ok :: "string \<Rightarrow> bool" where
  "name_ok n \<longleftrightarrow> \<not> has_prefix n ''-'' \<and> n \<noteq> ''doctor'' \<and> n \<noteq> ''provider'' \<and> n \<noteq> ''new''"

text \<open>The fields that belong to a target are set under that target only.\<close>

definition coherent :: "cli_opts \<Rightarrow> bool" where
  "coherent p \<longleftrightarrow>
     (doctorTarget p = [] \<or> doctor p \<and> doctorTarget p \<in> set targets)
   \<and> (doctorTarget p \<noteq> ''preset'' \<longrightarrow> \<not> presetProbe p \<and> presetID p = [] \<and> presetPort p = 0)
   \<and> (doctorTarget p \<notin> {''preset'', ''cpanel'', ''directadmin''} \<longrightarrow> presetHost p = [] \<and> presetUser p = [] \<and> presetTimeout p = 0)
   \<and> (doctorTarget p \<noteq> ''cpanel'' \<longrightarrow>
        cpanelToken p = [] \<and> cpanelAPIPort p = 0 \<and> cpanelSSHPort p = 0 \<and> \<not> cpanelNoSSH p \<and> \<not> cpanelNoUAPI p)
   \<and> (doctorTarget p \<noteq> ''directadmin'' \<longrightarrow>
        directadminLoginKey p = [] \<and> directadminAPIPort p = 0 \<and> directadminSSHPort p = 0 \<and> \<not> directadminNoSSH p
        \<and> \<not> directadminNoAPI p)
   \<and> port_ok (presetPort p) \<and> port_ok (cpanelAPIPort p) \<and> port_ok (cpanelSSHPort p) \<and> port_ok (directadminAPIPort p)
   \<and> port_ok (directadminSSHPort p) \<and> 0 \<le> presetTimeout p \<and> presetTimeout p < 2 ^ 63
   \<and> (\<not> providerNew p \<longrightarrow> providerNewName p = [] \<and> providerPreset p = [] \<and> \<not> providerDryRun p) \<and> name_ok (providerNewName p)"

definition complete_opts :: "cli_opts \<Rightarrow> bool" where
  "complete_opts p \<longleftrightarrow> (doctorJSON p \<longrightarrow> doctor p) \<and> (presetProbe p \<longrightarrow> presetID p \<noteq> []) \<and> (providerNew p \<longrightarrow> providerNewName p \<noteq> [])"

lemma name_ok_Nil [simp]: "name_ok []"
  by (simp add: name_ok_def)

lemma port_ok_0 [simp]: "port_ok 0"
  by (simp add: port_ok_def maxTCPPort_def)

lemma coherent_zero: "coherent zero_opts"
  by (simp add: coherent_def zero_opts_def port_ok_def maxTCPPort_def)

lemma port_value_ok: "port_value v = Some n \<Longrightarrow> port_ok n"
  by (auto simp: port_value_def port_ok_def split: option.splits if_splits)

lemma ParseDuration_range: "ParseDuration v = Some d \<Longrightarrow> d < 2 ^ 63"
proof -
  have t: "0 \<le> a \<Longrightarrow> duration_terms a s = Some d \<Longrightarrow> 0 \<le> d" for a d s
  proof (induction a s rule: duration_terms.induct)
    case (1 a s)
    have n: "duration_term s = Some (v, r) \<Longrightarrow> 0 \<le> v" for v r
    proof -
      have f: "0 \<le> x \<Longrightarrow> 0 < k \<Longrightarrow> 0 \<le> fst (leading_fraction ys b x k) \<and> 0 < snd (leading_fraction ys b x k)" for ys b x k
        by (induction ys b x k rule: leading_fraction.induct) (auto simp: Let_def)
      have u: "map_of duration_units w = Some k \<Longrightarrow> 0 \<le> k" for w k by (auto simp: duration_units_def split: if_splits)
      show "duration_term s = Some (v, r) \<Longrightarrow> 0 \<le> v"
        using f [of 0 1] by (auto simp: duration_term_def Let_def split: option.splits if_splits prod.splits dest!: u)
          (metis add_nonneg_nonneg fst_conv linorder_not_le mult_nonneg_nonneg of_nat_0_le_iff order_less_imp_le
            pos_imp_zdiv_nonneg_iff snd_conv zero_less_one)+
    qed
    from 1 n show ?case by (subst (asm) (2) duration_terms.simps) (auto split: if_splits option.splits prod.splits)
  qed
  assume "ParseDuration v = Some d"
  then show ?thesis using t [of 0] by (auto simp: ParseDuration_def Let_def split: if_splits option.splits) fastforce+
qed

lemma fresh_target: "coherent p \<Longrightarrow> doctorTarget p = [] \<Longrightarrow> doctor p \<Longrightarrow> t \<in> set targets \<Longrightarrow> coherent (p\<lparr>doctorTarget := t\<rparr>)"
  unfolding coherent_def by simp

lemma setDoctorTarget_coherent:
  assumes "setDoctorTarget t p = Inr q" "t \<in> set targets" "coherent p"
  shows "coherent q"
proof -
  have q: "q = p\<lparr>doctorTarget := t\<rparr>" "doctor p" "doctorTarget p = [] \<or> doctorTarget p = t"
    using assms(1) by (simp_all add: setDoctorTarget_def split: if_split_asm)
  then have "doctorTarget p = t \<Longrightarrow> q = p" by auto
  with q assms(2,3) fresh_target show ?thesis by auto
qed

lemma contextual_coherent: "applyContextualToken arg p = Inr q \<Longrightarrow> coherent p \<Longrightarrow> coherent q"
  using setDoctorTarget_coherent [of arg p q] by (auto simp: applyContextualToken_def split: if_split_asm)

lemma set_coherent:
  assumes "coherent p"
  shows "coherent (p\<lparr>doctor := True\<rparr>)" "coherent (p\<lparr>providerNew := True\<rparr>)" "coherent (p\<lparr>showVersion := True\<rparr>)"
    "coherent (p\<lparr>showHelp := True\<rparr>)" "coherent (p\<lparr>debug := True\<rparr>)" "coherent (p\<lparr>mock := True\<rparr>)"
    "coherent (p\<lparr>doctorJSON := True\<rparr>)" "coherent (p\<lparr>debugTracePath := t\<rparr>)"
    "doctorTarget p = ''preset'' \<Longrightarrow> coherent (p\<lparr>presetProbe := True\<rparr>)" "doctorTarget p = ''preset'' \<Longrightarrow> coherent (p\<lparr>presetID := t\<rparr>)"
    "providerNew p \<Longrightarrow> coherent (p\<lparr>providerDryRun := True\<rparr>)" "providerNew p \<Longrightarrow> coherent (p\<lparr>providerPreset := t\<rparr>)"
    "doctorTarget p = ''cpanel'' \<Longrightarrow> coherent (p\<lparr>cpanelNoSSH := True\<rparr>)"
    "doctorTarget p = ''cpanel'' \<Longrightarrow> coherent (p\<lparr>cpanelNoUAPI := True\<rparr>)"
    "doctorTarget p = ''cpanel'' \<Longrightarrow> coherent (p\<lparr>cpanelToken := t\<rparr>)"
    "doctorTarget p = ''directadmin'' \<Longrightarrow> coherent (p\<lparr>directadminNoSSH := True\<rparr>)"
    "doctorTarget p = ''directadmin'' \<Longrightarrow> coherent (p\<lparr>directadminNoAPI := True\<rparr>)"
    "doctorTarget p = ''directadmin'' \<Longrightarrow> coherent (p\<lparr>directadminLoginKey := t\<rparr>)"
    "isPresetOrCpanelContext p \<Longrightarrow> coherent (p\<lparr>presetHost := t\<rparr>)" "isPresetOrCpanelContext p \<Longrightarrow> coherent (p\<lparr>presetUser := t\<rparr>)"
    "isPresetOrCpanelContext p \<Longrightarrow> 0 \<le> d \<Longrightarrow> d < 2 ^ 63 \<Longrightarrow> coherent (p\<lparr>presetTimeout := d\<rparr>)"
    "doctorTarget p = ''preset'' \<Longrightarrow> port_ok n \<Longrightarrow> coherent (p\<lparr>presetPort := n\<rparr>)"
    "doctorTarget p = ''cpanel'' \<Longrightarrow> port_ok n \<Longrightarrow> coherent (p\<lparr>cpanelAPIPort := n\<rparr>)"
    "doctorTarget p = ''cpanel'' \<Longrightarrow> port_ok n \<Longrightarrow> coherent (p\<lparr>cpanelSSHPort := n\<rparr>)"
    "doctorTarget p = ''directadmin'' \<Longrightarrow> port_ok n \<Longrightarrow> coherent (p\<lparr>directadminAPIPort := n\<rparr>)"
    "doctorTarget p = ''directadmin'' \<Longrightarrow> port_ok n \<Longrightarrow> coherent (p\<lparr>directadminSSHPort := n\<rparr>)"
    "providerNew p \<Longrightarrow> name_ok t \<Longrightarrow> coherent (p\<lparr>providerNewName := t\<rparr>)"
  using assms unfolding coherent_def isPresetOrCpanelContext_def by auto

lemma toggles_coherent:
  "applyProbeFlag p = Inr q \<Longrightarrow> coherent p \<Longrightarrow> coherent q"
  "applyDryRunFlag p = Inr q \<Longrightarrow> coherent p \<Longrightarrow> coherent q"
  "applyNoSSHToggle p = Inr q \<Longrightarrow> coherent p \<Longrightarrow> coherent q"
  "applyCpanelToggle n p (p\<lparr>cpanelNoUAPI := True\<rparr>) = Inr q \<Longrightarrow> coherent p \<Longrightarrow> coherent q"
  "applyDirectadminToggle n p (p\<lparr>directadminNoAPI := True\<rparr>) = Inr q \<Longrightarrow> coherent p \<Longrightarrow> coherent q"
  unfolding applyProbeFlag_def applyDryRunFlag_def applyNoSSHToggle_def applyCpanelToggle_def applyDirectadminToggle_def
  by (auto split: if_split_asm intro: set_coherent)

lemma if_Inr: "(if b then x else y) = Inr q \<Longrightarrow> (b \<Longrightarrow> x = Inr q \<Longrightarrow> R) \<Longrightarrow> (\<not> b \<Longrightarrow> y = Inr q \<Longrightarrow> R) \<Longrightarrow> R"
  by (cases b) auto

lemma simple_coherent: "applySimpleFlag arg p = Inr q \<Longrightarrow> coherent p \<Longrightarrow> coherent q"
  unfolding applySimpleFlag_def
  by (elim if_Inr; (erule (1) contextual_coherent toggles_coherent)?; (simp only: sum.inject, erule subst, erule set_coherent | simp)?)

lemma set_port: "(case port_value v of None \<Rightarrow> Inl e | Some n \<Rightarrow> Inr (f n)) = Inr q \<Longrightarrow> \<exists>n. port_ok n \<and> q = f n"
  by (auto split: option.splits dest: port_value_ok)

lemma set_timeout:
  "(case ParseDuration v of None \<Rightarrow> Inl e | Some d \<Rightarrow> if d \<le> 0 then Inl e' else Inr (f d)) = Inr q \<Longrightarrow> \<exists>d. 0 \<le> d \<and> d < 2 ^ 63 \<and> q = f d"
  using ParseDuration_range [of v] by (auto split: option.splits if_split_asm) (metis linorder_not_le order_less_imp_le)

lemma port_flags_coherent:
  "applySSHPortFlag v p = Inr q \<Longrightarrow> coherent p \<Longrightarrow> coherent q"
  "applyAPIPortFlag v p = Inr q \<Longrightarrow> coherent p \<Longrightarrow> coherent q"
  unfolding applySSHPortFlag_def applyAPIPortFlag_def
  by (elim if_Inr; auto dest!: set_port intro: set_coherent)+

lemma case_Some: "(case x of None \<Rightarrow> a | Some y \<Rightarrow> Some (f y)) = Some (Inr q) \<Longrightarrow>
    (x = None \<Longrightarrow> a = Some (Inr q) \<Longrightarrow> R) \<Longrightarrow> (\<And>y. x = Some y \<Longrightarrow> f y = Inr q \<Longrightarrow> R) \<Longrightarrow> R"
  by (cases x) auto

lemma panel_flag_coherent: "applyCpanelPrefixFlag arg p = Some (Inr q) \<Longrightarrow> coherent p \<Longrightarrow> coherent q"
  unfolding applyCpanelPrefixFlag_def
  by (elim case_Some if_Inr) (auto intro: set_coherent dest: port_flags_coherent)

lemma probe_flag_coherent: "applyPresetProbeFlag arg p = Some (Inr q) \<Longrightarrow> coherent p \<Longrightarrow> coherent q"
  unfolding applyPresetProbeFlag_def
  by (elim case_Some if_Inr) (auto dest!: set_port set_timeout intro: set_coherent dest: panel_flag_coherent)

lemma id_flag_coherent: "applyPresetIDFlag arg p = Some (Inr q) \<Longrightarrow> coherent p \<Longrightarrow> coherent q"
  unfolding applyPresetIDFlag_def by (elim case_Some if_Inr) (auto intro: set_coherent)

lemma prefixed_coherent: "applyPrefixedFlag arg p = Inr q \<Longrightarrow> coherent p \<Longrightarrow> coherent q"
  unfolding applyPrefixedFlag_def
  by (auto split: option.splits if_split_asm intro: set_coherent dest: probe_flag_coherent id_flag_coherent)

lemma parse_arg_coherent: "parse_arg arg p = Inr q \<Longrightarrow> coherent p \<Longrightarrow> coherent q"
proof -
  assume r: "parse_arg arg p = Inr q" and c: "coherent p"
  then obtain o1 where o1: "applySimpleFlag arg p = Inr o1" by (auto simp: parse_arg_def split: sum.splits)
  from simple_coherent [OF o1 c] have c1: "coherent o1" .
  show ?thesis
  proof (cases "simpleFlagHandled arg o1")
    case True
    with r o1 c1 show ?thesis by (simp add: parse_arg_def)
  next
    case False
    with r o1 obtain o2 where o2: "applyPrefixedFlag arg o1 = Inr o2" by (auto simp: parse_arg_def split: sum.splits)
    from prefixed_coherent [OF o2 c1] have c2: "coherent o2" .
    have "name_ok arg" if "\<not> has_prefix arg ''-''"
      using False that by (auto simp: name_ok_def simpleFlagHandled_def simple_tokens_def targets_def)
    with r o1 o2 c2 False show ?thesis by (auto simp: parse_arg_def intro: set_coherent split: if_split_asm)
  qed
qed

lemma parse_loop_coherent: "parse_loop args p = Inr q \<Longrightarrow> coherent p \<Longrightarrow> coherent q"
  by (induction args arbitrary: p) (auto split: sum.splits dest: parse_arg_coherent)

section \<open>Writing options down\<close>

lemma parse_loop_append:
  "parse_loop (xs @ ys) p = (case parse_loop xs p of Inl e \<Rightarrow> Inl e | Inr q \<Rightarrow> parse_loop ys q)"
  by (induction xs arbitrary: p) (auto split: sum.split)

lemma digits_prefix: "list_all is_digit ds \<Longrightarrow> r = [] \<or> \<not> is_digit (hd r) \<Longrightarrow> takeWhile is_digit (ds @ r) = ds \<and> dropWhile is_digit (ds @ r) = r"
  by (induction ds) (auto simp: takeWhile_eq_Nil_iff dropWhile_eq_self_iff)

lemma ParseDuration_ns: "0 < n \<Longrightarrow> n < 2 ^ 63 \<Longrightarrow> ParseDuration (itoa n @ ''ns'') = Some n"
proof -
  assume n: "0 < n" "n < 2 ^ 63"
  let ?s = "nat_string (nat n)"
  have d: "list_all is_digit ?s" "?s \<noteq> []" "digits_val ?s = nat n"
    by (simp_all add: nat_string_digits nat_string_not_Nil digits_val_nat_string)
  then have h: "is_digit (hd (?s @ ''ns''))" by (cases ?s) auto
  have u: "\<not> is_digit CHR ''n''" "\<not> is_digit CHR ''s''" by (simp_all add: is_digit_def less_eq_char_def)
  with digits_prefix [OF d(1), of "''ns''"] have w: "takeWhile is_digit (?s @ ''ns'') = ?s" "dropWhile is_digit (?s @ ''ns'') = ''ns''" by auto
  have t: "duration_term (?s @ ''ns'') = Some (n, [])"
    using n d(2,3) u by (simp add: duration_term_def w duration_units_def Let_def)
  have "duration_terms 0 (?s @ ''ns'') = Some n"
    using n d(2) by (simp add: duration_terms.simps [of 0] duration_terms.simps [of _ "[]"] t)
  moreover have "hd (?s @ ''ns'') \<noteq> CHR ''-''" "hd (?s @ ''ns'') \<noteq> CHR ''+''"
    using h by (auto simp: is_digit_def less_eq_char_def)
  moreover have "?s @ ''ns'' \<noteq> ''0''" by (cases ?s rule: rev_cases) auto
  ultimately show ?thesis using n d(2) by (simp add: ParseDuration_def itoa_def Let_def)
qed

definition flag :: "bool \<Rightarrow> string \<Rightarrow> string list" where
  "flag b f = (if b then [f] else [])"

definition text_flag :: "string \<Rightarrow> string \<Rightarrow> string list" where
  "text_flag f v = (if v = [] then [] else [f @ v])"

definition port_flag :: "string \<Rightarrow> int \<Rightarrow> string list" where
  "port_flag f n = (if n = 0 then [] else [f @ itoa n])"

definition timeout_ok :: "int \<Rightarrow> bool" where
  "timeout_ok n \<longleftrightarrow> 0 \<le> n \<and> n < 2 ^ 63"

definition timeout_flag :: "int \<Rightarrow> string list" where
  "timeout_flag n = (if n = 0 then [] else [''--timeout='' @ itoa n @ ''ns''])"

definition write_args :: "cli_opts \<Rightarrow> string list" where
  "write_args p =
     flag (showVersion p) ''--version'' @ flag (showHelp p) ''--help'' @ flag (debug p) ''--debug'' @ flag (mock p) ''--mock''
     @ text_flag ''--debug-trace='' (debugTracePath p)
     @ flag (doctor p) ''doctor'' @ flag (doctorJSON p) ''--json'' @ text_flag [] (doctorTarget p)
     @ text_flag ''--id='' (presetID p) @ flag (presetProbe p) ''--probe'' @ port_flag ''--port='' (presetPort p)
     @ text_flag ''--host='' (presetHost p) @ text_flag ''--user='' (presetUser p)
     @ timeout_flag (presetTimeout p)
     @ text_flag ''--token='' (cpanelToken p) @ text_flag ''--loginkey='' (directadminLoginKey p)
     @ port_flag ''--api-port='' (cpanelAPIPort p + directadminAPIPort p)
     @ port_flag ''--ssh-port='' (cpanelSSHPort p + directadminSSHPort p)
     @ flag (cpanelNoSSH p \<or> directadminNoSSH p) ''--no-ssh'' @ flag (cpanelNoUAPI p) ''--no-uapi'' @ flag (directadminNoAPI p) ''--no-api''
     @ flag (providerNew p) ''provider'' @ text_flag [] (providerNewName p)
     @ text_flag ''--preset='' (providerPreset p) @ flag (providerDryRun p) ''--dry-run''"

lemma cut_simps [simp]: "CutPrefix (p @ v) p = Some v"
  by (simp add: CutPrefix_def)

lemmas simple_tests = parse_arg_def applySimpleFlag_def applyContextualToken_def simpleFlagHandled_def simple_tokens_def targets_def setDoctorTarget_def
  applyProbeFlag_def applyDryRunFlag_def applyNoSSHToggle_def applyCpanelToggle_def applyDirectadminToggle_def isPendingProviderNameSlot_def

lemma parse_simple_flags:
  "parse_arg ''--version'' p = Inr (p\<lparr>showVersion := True\<rparr>)"
  "parse_arg ''--help'' p = Inr (p\<lparr>showHelp := True\<rparr>)"
  "parse_arg ''--debug'' p = Inr (p\<lparr>debug := True\<rparr>)"
  "parse_arg ''--mock'' p = Inr (p\<lparr>mock := True\<rparr>)"
  "parse_arg ''doctor'' p = Inr (p\<lparr>doctor := True\<rparr>)"
  "parse_arg ''--json'' p = Inr (p\<lparr>doctorJSON := True\<rparr>)"
  "parse_arg ''provider'' p = Inr (p\<lparr>providerNew := True\<rparr>)"
  "doctorTarget p = ''preset'' \<Longrightarrow> parse_arg ''--probe'' p = Inr (p\<lparr>presetProbe := True\<rparr>)"
  "providerNew p \<Longrightarrow> parse_arg ''--dry-run'' p = Inr (p\<lparr>providerDryRun := True\<rparr>)"
  "doctorTarget p = ''cpanel'' \<Longrightarrow> parse_arg ''--no-ssh'' p = Inr (p\<lparr>cpanelNoSSH := True\<rparr>)"
  "doctorTarget p = ''directadmin'' \<Longrightarrow> parse_arg ''--no-ssh'' p = Inr (p\<lparr>directadminNoSSH := True\<rparr>)"
  "doctorTarget p = ''cpanel'' \<Longrightarrow> parse_arg ''--no-uapi'' p = Inr (p\<lparr>cpanelNoUAPI := True\<rparr>)"
  "doctorTarget p = ''directadmin'' \<Longrightarrow> parse_arg ''--no-api'' p = Inr (p\<lparr>directadminNoAPI := True\<rparr>)"
  by (simp_all add: simple_tests)

lemma parse_target:
  "doctor p \<Longrightarrow> doctorTarget p = [] \<Longrightarrow> providerNew p = False \<Longrightarrow> t \<in> set targets \<Longrightarrow> parse_arg t p = Inr (p\<lparr>doctorTarget := t\<rparr>)"
  by (auto simp: simple_tests)

lemmas flag_tests = simple_tests applyPrefixedFlag_def applyPresetIDFlag_def applyPresetProbeFlag_def applyCpanelPrefixFlag_def
  prefixedFlagHandled_def value_flags_def CutPrefix_def

lemma parse_value_flags:
  "v \<noteq> [] \<Longrightarrow> parse_arg (''--debug-trace='' @ v) p = Inr (p\<lparr>debugTracePath := v\<rparr>)"
  "v \<noteq> [] \<Longrightarrow> providerNew p \<Longrightarrow> parse_arg (''--preset='' @ v) p = Inr (p\<lparr>providerPreset := v\<rparr>)"
  "v \<noteq> [] \<Longrightarrow> doctorTarget p = ''preset'' \<Longrightarrow> parse_arg (''--id='' @ v) p = Inr (p\<lparr>presetID := v\<rparr>)"
  "v \<noteq> [] \<Longrightarrow> isPresetOrCpanelContext p \<Longrightarrow> parse_arg (''--host='' @ v) p = Inr (p\<lparr>presetHost := v\<rparr>)"
  "v \<noteq> [] \<Longrightarrow> isPresetOrCpanelContext p \<Longrightarrow> parse_arg (''--user='' @ v) p = Inr (p\<lparr>presetUser := v\<rparr>)"
  "v \<noteq> [] \<Longrightarrow> doctorTarget p = ''cpanel'' \<Longrightarrow> parse_arg (''--token='' @ v) p = Inr (p\<lparr>cpanelToken := v\<rparr>)"
  "v \<noteq> [] \<Longrightarrow> doctorTarget p = ''directadmin'' \<Longrightarrow> parse_arg (''--loginkey='' @ v) p = Inr (p\<lparr>directadminLoginKey := v\<rparr>)"
  by (simp_all add: flag_tests)

lemma port_value_itoa: "0 < n \<Longrightarrow> n \<le> maxTCPPort \<Longrightarrow> port_value (itoa n) = Some n"
  by (simp add: port_value_def parse_int64_itoa maxTCPPort_def in_int64_def)

lemma parse_number_flags:
  assumes "0 < n" "n \<le> maxTCPPort"
  shows "doctorTarget p = ''preset'' \<Longrightarrow> parse_arg (''--port='' @ itoa n) p = Inr (p\<lparr>presetPort := n\<rparr>)"
    "doctorTarget p = ''cpanel'' \<Longrightarrow> parse_arg (''--api-port='' @ itoa n) p = Inr (p\<lparr>cpanelAPIPort := n\<rparr>)"
    "doctorTarget p = ''directadmin'' \<Longrightarrow> parse_arg (''--api-port='' @ itoa n) p = Inr (p\<lparr>directadminAPIPort := n\<rparr>)"
    "doctorTarget p = ''cpanel'' \<Longrightarrow> parse_arg (''--ssh-port='' @ itoa n) p = Inr (p\<lparr>cpanelSSHPort := n\<rparr>)"
    "doctorTarget p = ''directadmin'' \<Longrightarrow> parse_arg (''--ssh-port='' @ itoa n) p = Inr (p\<lparr>directadminSSHPort := n\<rparr>)"
  using port_value_itoa [OF assms] by (simp_all add: flag_tests applyAPIPortFlag_def applySSHPortFlag_def)

lemma parse_timeout_flag:
  "0 < n \<Longrightarrow> n < 2 ^ 63 \<Longrightarrow> isPresetOrCpanelContext p
     \<Longrightarrow> parse_arg (''--timeout='' @ itoa n @ ''ns'') p = Inr (p\<lparr>presetTimeout := n\<rparr>)"
  using ParseDuration_ns [of n] by (simp add: flag_tests)

lemma parse_name:
  assumes v: "v \<noteq> []" "name_ok v" and p: "providerNew p" "providerNewName p = []"
  shows "parse_arg v p = Inr (p\<lparr>providerNewName := v\<rparr>)"
proof -
  obtain c w where cw: "v = c # w" and c: "c \<noteq> CHR ''-''" using v by (cases v) (auto simp: name_ok_def has_prefix_def)
  have "v \<noteq> ''doctor''" "v \<noteq> ''provider''" "v \<noteq> ''new''" using v by (auto simp: name_ok_def)
  moreover have "v \<noteq> CHR ''-'' # f" for f using c by (simp add: cw)
  ultimately have s: "applySimpleFlag v p = Inr p" "\<not> simpleFlagHandled v p"
    using p unfolding applySimpleFlag_def applyContextualToken_def simpleFlagHandled_def simple_tokens_def isPendingProviderNameSlot_def
    by simp_all
  have "CutPrefix v (CHR ''-'' # f) = None" "\<not> has_prefix v (CHR ''-'' # f)" for f using c by (simp_all add: cw CutPrefix_def has_prefix_def)
  then have "applyPrefixedFlag v p = Inr p" "\<not> prefixedFlagHandled v"
    by (simp_all add: applyPrefixedFlag_def applyPresetIDFlag_def applyPresetProbeFlag_def applyCpanelPrefixFlag_def prefixedFlagHandled_def
      value_flags_def)
  with s c p show ?thesis by (simp add: parse_arg_def cw)
qed

lemma write_if:
  "(b \<Longrightarrow> parse_arg f p = Inr q) \<Longrightarrow> (\<not> b \<Longrightarrow> q = p) \<Longrightarrow> parse_loop (flag b f @ ys) p = parse_loop ys q"
  "(v \<noteq> [] \<Longrightarrow> parse_arg (f @ v) p = Inr q) \<Longrightarrow> (v = [] \<Longrightarrow> q = p) \<Longrightarrow> parse_loop (text_flag f v @ ys) p = parse_loop ys q"
  "(n \<noteq> 0 \<Longrightarrow> parse_arg (f @ itoa n) p = Inr q) \<Longrightarrow> (n = 0 \<Longrightarrow> q = p) \<Longrightarrow> parse_loop (port_flag f n @ ys) p = parse_loop ys q"
  "(n \<noteq> 0 \<Longrightarrow> parse_arg (''--timeout='' @ itoa n @ ''ns'') p = Inr q) \<Longrightarrow> (n = 0 \<Longrightarrow> q = p) \<Longrightarrow> parse_loop (timeout_flag n @ ys) p = parse_loop ys q"
  for n :: int
  by (auto simp: flag_def text_flag_def port_flag_def timeout_flag_def)

lemma write_flags:
  "\<not> showVersion p \<Longrightarrow> parse_loop (flag b ''--version'' @ ys) p = parse_loop ys (p\<lparr>showVersion := b\<rparr>)"
  "\<not> showHelp p \<Longrightarrow> parse_loop (flag b ''--help'' @ ys) p = parse_loop ys (p\<lparr>showHelp := b\<rparr>)"
  "\<not> debug p \<Longrightarrow> parse_loop (flag b ''--debug'' @ ys) p = parse_loop ys (p\<lparr>debug := b\<rparr>)"
  "\<not> mock p \<Longrightarrow> parse_loop (flag b ''--mock'' @ ys) p = parse_loop ys (p\<lparr>mock := b\<rparr>)"
  "\<not> doctor p \<Longrightarrow> parse_loop (flag b ''doctor'' @ ys) p = parse_loop ys (p\<lparr>doctor := b\<rparr>)"
  "\<not> doctorJSON p \<Longrightarrow> parse_loop (flag b ''--json'' @ ys) p = parse_loop ys (p\<lparr>doctorJSON := b\<rparr>)"
  "\<not> providerNew p \<Longrightarrow> parse_loop (flag b ''provider'' @ ys) p = parse_loop ys (p\<lparr>providerNew := b\<rparr>)"
  "\<not> presetProbe p \<Longrightarrow> (b \<longrightarrow> doctorTarget p = ''preset'') \<Longrightarrow> parse_loop (flag b ''--probe'' @ ys) p = parse_loop ys (p\<lparr>presetProbe := b\<rparr>)"
  "\<not> providerDryRun p \<Longrightarrow> (b \<longrightarrow> providerNew p) \<Longrightarrow> parse_loop (flag b ''--dry-run'' @ ys) p = parse_loop ys (p\<lparr>providerDryRun := b\<rparr>)"
  "\<not> cpanelNoUAPI p \<Longrightarrow> (b \<longrightarrow> doctorTarget p = ''cpanel'') \<Longrightarrow> parse_loop (flag b ''--no-uapi'' @ ys) p = parse_loop ys (p\<lparr>cpanelNoUAPI := b\<rparr>)"
  "\<not> directadminNoAPI p \<Longrightarrow> (b \<longrightarrow> doctorTarget p = ''directadmin'')
     \<Longrightarrow> parse_loop (flag b ''--no-api'' @ ys) p = parse_loop ys (p\<lparr>directadminNoAPI := b\<rparr>)"
  by (cases b rule: bool.exhaust; hypsubst; rule write_if; (rule parse_simple_flags)?; simp)+

lemma write_texts:
  "debugTracePath p = [] \<Longrightarrow> parse_loop (text_flag ''--debug-trace='' v @ ys) p = parse_loop ys (p\<lparr>debugTracePath := v\<rparr>)"
  "providerPreset p = [] \<Longrightarrow> (v \<noteq> [] \<longrightarrow> providerNew p) \<Longrightarrow> parse_loop (text_flag ''--preset='' v @ ys) p = parse_loop ys (p\<lparr>providerPreset := v\<rparr>)"
  "presetID p = [] \<Longrightarrow> (v \<noteq> [] \<longrightarrow> doctorTarget p = ''preset'') \<Longrightarrow> parse_loop (text_flag ''--id='' v @ ys) p = parse_loop ys (p\<lparr>presetID := v\<rparr>)"
  "presetHost p = [] \<Longrightarrow> (v \<noteq> [] \<longrightarrow> isPresetOrCpanelContext p) \<Longrightarrow> parse_loop (text_flag ''--host='' v @ ys) p = parse_loop ys (p\<lparr>presetHost := v\<rparr>)"
  "presetUser p = [] \<Longrightarrow> (v \<noteq> [] \<longrightarrow> isPresetOrCpanelContext p) \<Longrightarrow> parse_loop (text_flag ''--user='' v @ ys) p = parse_loop ys (p\<lparr>presetUser := v\<rparr>)"
  "cpanelToken p = [] \<Longrightarrow> (v \<noteq> [] \<longrightarrow> doctorTarget p = ''cpanel'') \<Longrightarrow> parse_loop (text_flag ''--token='' v @ ys) p = parse_loop ys (p\<lparr>cpanelToken := v\<rparr>)"
  "directadminLoginKey p = [] \<Longrightarrow> (v \<noteq> [] \<longrightarrow> doctorTarget p = ''directadmin'')
     \<Longrightarrow> parse_loop (text_flag ''--loginkey='' v @ ys) p = parse_loop ys (p\<lparr>directadminLoginKey := v\<rparr>)"
  by (rule write_if, rule parse_value_flags; simp)+

lemma write_name:
  "providerNewName p = [] \<Longrightarrow> (v \<noteq> [] \<longrightarrow> providerNew p) \<Longrightarrow> name_ok v \<Longrightarrow> parse_loop (text_flag [] v @ ys) p = parse_loop ys (p\<lparr>providerNewName := v\<rparr>)"
  by (rule write_if; simp add: parse_name)

lemma write_target:
  "doctorTarget p = [] \<Longrightarrow> \<not> providerNew p \<Longrightarrow> t = [] \<or> doctor p \<and> t \<in> set targets
     \<Longrightarrow> parse_loop (text_flag [] t @ ys) p = parse_loop ys (p\<lparr>doctorTarget := t\<rparr>)"
  by (rule write_if; simp add: parse_target)

lemma write_numbers:
  "presetPort p = 0 \<Longrightarrow> port_ok n \<Longrightarrow> (n \<noteq> 0 \<longrightarrow> doctorTarget p = ''preset'') \<Longrightarrow> parse_loop (port_flag ''--port='' n @ ys) p = parse_loop ys (p\<lparr>presetPort := n\<rparr>)"
  "presetTimeout p = 0 \<Longrightarrow> timeout_ok n \<Longrightarrow> (n \<noteq> 0 \<longrightarrow> isPresetOrCpanelContext p)
     \<Longrightarrow> parse_loop (timeout_flag n @ ys) p = parse_loop ys (p\<lparr>presetTimeout := n\<rparr>)"
  by (rule write_if, rule parse_number_flags parse_timeout_flag; simp add: port_ok_def timeout_ok_def)+

lemma write_panel_ports:
  assumes "port_ok a" "port_ok d" "a \<noteq> 0 \<longrightarrow> doctorTarget p = ''cpanel''" "d \<noteq> 0 \<longrightarrow> doctorTarget p = ''directadmin''"
  shows "cpanelAPIPort p = 0 \<Longrightarrow> directadminAPIPort p = 0
      \<Longrightarrow> parse_loop (port_flag ''--api-port='' (a + d) @ ys) p = parse_loop ys (p\<lparr>cpanelAPIPort := a, directadminAPIPort := d\<rparr>)"
    "cpanelSSHPort p = 0 \<Longrightarrow> directadminSSHPort p = 0
      \<Longrightarrow> parse_loop (port_flag ''--ssh-port='' (a + d) @ ys) p = parse_loop ys (p\<lparr>cpanelSSHPort := a, directadminSSHPort := d\<rparr>)"
proof -
  consider "a = 0" "d = 0" | "a > 0" "d = 0" "doctorTarget p = ''cpanel''" | "a = 0" "d > 0" "doctorTarget p = ''directadmin''"
    using assms by (cases "a = 0"; cases "d = 0") (auto simp: port_ok_def)
  note c = this
  have port_le [simp]: "a \<le> maxTCPPort" "d \<le> maxTCPPort" using assms by (simp_all add: port_ok_def)
  show "cpanelAPIPort p = 0 \<Longrightarrow> directadminAPIPort p = 0
      \<Longrightarrow> parse_loop (port_flag ''--api-port='' (a + d) @ ys) p = parse_loop ys (p\<lparr>cpanelAPIPort := a, directadminAPIPort := d\<rparr>)"
    by (rule write_if; cases rule: c)
      (simp_all only: add_0_right add_0_left, simp_all del: append.simps add: parse_number_flags)
  show "cpanelSSHPort p = 0 \<Longrightarrow> directadminSSHPort p = 0
      \<Longrightarrow> parse_loop (port_flag ''--ssh-port='' (a + d) @ ys) p = parse_loop ys (p\<lparr>cpanelSSHPort := a, directadminSSHPort := d\<rparr>)"
    by (rule write_if; cases rule: c)
      (simp_all only: add_0_right add_0_left, simp_all del: append.simps add: parse_number_flags)
qed

lemma write_no_ssh:
  "\<not> cpanelNoSSH p \<Longrightarrow> \<not> directadminNoSSH p \<Longrightarrow> (a \<longrightarrow> doctorTarget p = ''cpanel'') \<Longrightarrow> (d \<longrightarrow> doctorTarget p = ''directadmin'')
     \<Longrightarrow> parse_loop (flag (a \<or> d) ''--no-ssh'' @ ys) p = parse_loop ys (p\<lparr>cpanelNoSSH := a, directadminNoSSH := d\<rparr>)"
  by (rule write_if; auto simp: parse_simple_flags)

lemmas write_steps = write_flags write_texts write_name write_target write_numbers write_panel_ports write_no_ssh

definition probe_target :: "string \<Rightarrow> bool" where
  "probe_target t \<longleftrightarrow> t \<in> {''preset'', ''cpanel'', ''directadmin''}"

lemma context_target: "isPresetOrCpanelContext p = probe_target (doctorTarget p)"
  by (simp add: isPresetOrCpanelContext_def probe_target_def)

text \<open>Each segment finds its own field still unset; \<open>coherent\<close> gives the target it needs.\<close>

lemma zero_fields:
  "\<not> showVersion zero_opts" "\<not> showHelp zero_opts" "\<not> debug zero_opts" "\<not> mock zero_opts" "\<not> doctor zero_opts" "\<not> doctorJSON zero_opts"
  "doctorTarget zero_opts = []" "debugTracePath zero_opts = []" "\<not> providerNew zero_opts" "providerNewName zero_opts = []"
  "providerPreset zero_opts = []" "\<not> providerDryRun zero_opts" "presetID zero_opts = []" "\<not> presetProbe zero_opts"
  "presetHost zero_opts = []" "presetUser zero_opts = []" "presetPort zero_opts = 0" "presetTimeout zero_opts = 0"
  "cpanelToken zero_opts = []" "cpanelAPIPort zero_opts = 0" "cpanelSSHPort zero_opts = 0" "\<not> cpanelNoSSH zero_opts"
  "\<not> cpanelNoUAPI zero_opts" "directadminLoginKey zero_opts = []" "directadminAPIPort zero_opts = 0"
  "directadminSSHPort zero_opts = 0" "\<not> directadminNoSSH zero_opts" "\<not> directadminNoAPI zero_opts"
  by (simp_all add: zero_opts_def)

lemma coherent_needs:
  assumes "coherent p"
  shows "doctorTarget p = [] \<or> doctor p \<and> doctorTarget p \<in> set targets"
    "presetProbe p \<longrightarrow> doctorTarget p = ''preset''" "presetID p \<noteq> [] \<longrightarrow> doctorTarget p = ''preset''"
    "presetPort p \<noteq> 0 \<longrightarrow> doctorTarget p = ''preset''" "presetHost p \<noteq> [] \<longrightarrow> probe_target (doctorTarget p)"
    "presetUser p \<noteq> [] \<longrightarrow> probe_target (doctorTarget p)" "presetTimeout p \<noteq> 0 \<longrightarrow> probe_target (doctorTarget p)"
    "cpanelToken p \<noteq> [] \<longrightarrow> doctorTarget p = ''cpanel''" "cpanelAPIPort p \<noteq> 0 \<longrightarrow> doctorTarget p = ''cpanel''"
    "cpanelSSHPort p \<noteq> 0 \<longrightarrow> doctorTarget p = ''cpanel''" "cpanelNoSSH p \<longrightarrow> doctorTarget p = ''cpanel''"
    "cpanelNoUAPI p \<longrightarrow> doctorTarget p = ''cpanel''" "directadminLoginKey p \<noteq> [] \<longrightarrow> doctorTarget p = ''directadmin''"
    "directadminAPIPort p \<noteq> 0 \<longrightarrow> doctorTarget p = ''directadmin''" "directadminSSHPort p \<noteq> 0 \<longrightarrow> doctorTarget p = ''directadmin''"
    "directadminNoSSH p \<longrightarrow> doctorTarget p = ''directadmin''" "directadminNoAPI p \<longrightarrow> doctorTarget p = ''directadmin''"
    "port_ok (presetPort p)" "port_ok (cpanelAPIPort p)" "port_ok (cpanelSSHPort p)" "port_ok (directadminAPIPort p)"
    "port_ok (directadminSSHPort p)" "timeout_ok (presetTimeout p)" "providerNewName p \<noteq> [] \<longrightarrow> providerNew p"
    "providerPreset p \<noteq> [] \<longrightarrow> providerNew p" "providerDryRun p \<longrightarrow> providerNew p" "name_ok (providerNewName p)"
  using assms unfolding coherent_def probe_target_def timeout_ok_def by auto

lemma write_last: "\<not> providerDryRun p \<Longrightarrow> (b \<longrightarrow> providerNew p) \<Longrightarrow> parse_loop (flag b ''--dry-run'') p = Inr (p\<lparr>providerDryRun := b\<rparr>)"
  using write_flags(9) [of p b "[]"] by simp

lemma write_all: "coherent p \<Longrightarrow> parse_loop (write_args p) zero_opts = Inr p"
  unfolding write_args_def
  by (simp add: write_steps write_last zero_fields coherent_needs context_target)

lemma parsed_complete: "parseArgs args = Inr p \<Longrightarrow> coherent p \<and> complete_opts p"
  using parse_loop_coherent [of args zero_opts p] coherent_zero
  by (auto simp: parseArgs_def complete_opts_def postParseValidation_def split: sum.splits option.splits if_split_asm)

text \<open>
  C11. The argument parser and the options it yields. The options it can return are exactly the coherent and complete ones: each
  field that belongs to a target is set under that target only, ports and timeout are within their ranges, the fields of
  \<open>provider new\<close> are set under that command only, and the checks across flags hold. Written down in a fixed order, such options are
  parsed back to themselves; so every result of a command line has a canonical command line with the same effect.
\<close>

theorem options_written_back:
  "((\<exists>args. parseArgs args = Inr p) \<longleftrightarrow> coherent p \<and> complete_opts p)
   \<and> (parseArgs (write_args p) = Inr p \<longleftrightarrow> coherent p \<and> complete_opts p)"
proof -
  have "parseArgs (write_args p) = Inr p" if "coherent p" "complete_opts p"
    using that write_all [of p] by (auto simp: parseArgs_def complete_opts_def postParseValidation_def)
  then show ?thesis using parsed_complete by blast
qed

lemma doctor_hides_provider:
  "runWithFullDeps env [''provider'', ''new'', ''x'', ''doctor''] = Doctor False"
  "runWithFullDeps env [''provider'', ''x''] = ProviderNew ''x'' [] False"
  "runWithFullDeps env [''provider'', ''new'', ''x'', ''new''] = ProviderNew ''x'' [] False"
  "runWithFullDeps env [''doctor'', ''preset'', ''--host=a''] = DoctorPreset \<lparr>poID = [], poJSON = False, poProbe = False, poHost = ''a'', poUser = [], poPort = 0, poTimeout = 0\<rparr>"
  "runWithFullDeps env [''--json''] = Misuse JSONWithoutDoctor"
  by (simp_all add: runWithFullDeps_def parseArgs_def flag_tests zero_opts_def isPresetOrCpanelContext_def postParseValidation_def)

end
