(* ===== verification/Directadmin.thy ===== *)
theory Directadmin
  imports Uapi Base64
begin

text \<open>
  The read-only DirectAdmin client (\<open>src/providers/directadmin/api\<close>): the HTTPS transport with its retries and the reading of
  HTTP answers (\<open>transport.go\<close>), the five reading methods with the decoder of lists (\<open>client.go\<close>, \<open>types.go\<close>), the same methods
  through \<open>curl\<close> on the panel's own machine (\<open>ssh.go\<close>, \<open>sshpool.go\<close>) and the composite of the two (\<open>composite.go\<close>).

  \<^item> The package has its own sentinels; an error is a chain of them with the foreign errors it wraps.
  \<^item> The HTTP exchange, the wait between attempts, the SSH runner and \<open>json.Unmarshal\<close> from bytes to a document are parameters, as
    for cPanel; decoding from the document on is modelled.
  \<^item> \<open>sort.Slice\<close> is taken to be stable; Go leaves the order of rows with equal names open.
\<close>

section \<open>Errors (errors.go)\<close>

datatype da_err =
    ErrInvalidEndpoint | ErrMissingCredentials | ErrAuthenticationFailed | ErrRateLimited | ErrServerError | ErrMalformedResponse
  | ErrTransportUnavailable | ErrAPIDisabled | ErrUnexpectedHTTPStatus | ErrSSHRunnerRequired | ErrCompositeRequiresBothReaders
  | ErrUnsupportedListShape

datatype da_link = Da da_err | Outer sentinel

type_synonym da_goerr = "da_link list"
type_synonym 'a da_res = "da_goerr + 'a"

definition da_is :: "da_goerr \<Rightarrow> da_err \<Rightarrow> bool" where
  "da_is e s \<longleftrightarrow> Da s \<in> set e"

definition outer :: "goerr \<Rightarrow> da_goerr" where
  "outer e = map Outer e"

section \<open>HTTP answers (transport.go)\<close>

definition disabled_phrases :: "string list" where
  "disabled_phrases = [''live api'', ''api disabled'', ''api is disabled'', ''feature is not available'']"

definition isAPIDisabledBody :: "string \<Rightarrow> bool" where
  "isAPIDisabledBody body = list_ex (contains (str_lower body)) disabled_phrases"

definition classifyHTTPStatus :: "int \<Rightarrow> string \<Rightarrow> da_goerr option" where
  "classifyHTTPStatus status body =
     (if status \<ge> 200 \<and> status < 300 then None
      else if status = 401 \<or> status = 403 then Some [Da ErrAuthenticationFailed]
      else if status = 429 then Some [Da ErrRateLimited]
      else if status = 404 then Some [Da ErrAPIDisabled]
      else if status = 503 then (if isAPIDisabledBody body then Some [Da ErrAPIDisabled] else Some [Da ErrServerError])
      else if status \<ge> 500 then Some [Da ErrServerError]
      else Some [Da ErrUnexpectedHTTPStatus])"

definition shouldRetry :: "da_goerr \<Rightarrow> bool" where
  "shouldRetry err =
     (if da_is err ErrRateLimited \<or> da_is err ErrServerError then True
      else if da_is err ErrAuthenticationFailed \<or> da_is err ErrMalformedResponse \<or> da_is err ErrAPIDisabled
        \<or> da_is err ErrUnexpectedHTTPStatus then False
      else True)"

section \<open>The HTTPS transport (transport.go)\<close>

definition maxRetries :: nat where "maxRetries = 3"
definition maxBodyBytes :: nat where "maxBodyBytes = 4194304"

record 'w da_transport =
  dtDo :: "http_req \<Rightarrow> 'w \<Rightarrow> http_out \<times> 'w"
  dtBase :: url
  dtUser :: string
  dtLoginKey :: string
  dtSleep :: "int \<Rightarrow> 'w \<Rightarrow> goerr option \<times> 'w"
  dtBackoff :: "nat \<Rightarrow> int"

definition backoff :: "nat \<Rightarrow> int" where
  "backoff attempt = 500 * 2 ^ (attempt - 1) * 1000000"

definition newTransport ::
  "(string \<Rightarrow> url option) \<Rightarrow> (http_req \<Rightarrow> 'w \<Rightarrow> http_out \<times> 'w) \<Rightarrow> (int \<Rightarrow> 'w \<Rightarrow> goerr option \<times> 'w) \<Rightarrow>
   string \<Rightarrow> string \<Rightarrow> string \<Rightarrow> 'w da_transport da_res" where
  "newTransport parse_url client sleep rawURL user loginKey =
     (if user = [] \<or> loginKey = [] then Inl [Da ErrMissingCredentials]
      else case parse_url rawURL of
        None \<Rightarrow> Inl [Da ErrInvalidEndpoint]
      | Some u \<Rightarrow>
          if uScheme u \<noteq> ''https'' \<or> uHost u = [] then Inl [Da ErrInvalidEndpoint]
          else Inr \<lparr>dtDo = client, dtBase = u, dtUser = user, dtLoginKey = loginKey, dtSleep = sleep, dtBackoff = backoff\<rparr>)"

text \<open>The endpoints, with the name of the user filled in.\<close>

definition EndpointWhoami :: string where "EndpointWhoami = ''whoami''"
definition EndpointListDomains :: "string \<Rightarrow> string" where "EndpointListDomains user = ''users/'' @ user @ ''/domains''"
definition EndpointListSubdomains :: "string \<Rightarrow> string" where "EndpointListSubdomains user = ''users/'' @ user @ ''/subdomains''"
definition EndpointListDatabases :: "string \<Rightarrow> string" where "EndpointListDatabases user = ''users/'' @ user @ ''/databases''"
definition EndpointListSSLCertificates :: "string \<Rightarrow> string" where
  "EndpointListSSLCertificates user = ''users/'' @ user @ ''/ssl/certificates''"

definition endpointURL :: "'w da_transport \<Rightarrow> string \<Rightarrow> url" where
  "endpointURL t path =
     (dtBase t)\<lparr>uPath := trim_right_slash (uPath (dtBase t)) @ ''/api/'' @ dropWhile (\<lambda>c. c = CHR ''/'') path\<rparr>"

definition sleepWithCtx :: "'w da_transport \<Rightarrow> int \<Rightarrow> 'w \<Rightarrow> da_goerr option \<times> 'w" where
  "sleepWithCtx t d w =
     (if d \<le> 0 then (None, w)
      else case dtSleep t d w of
        (Some e, w) \<Rightarrow> (Some (Da ErrTransportUnavailable # outer e), w)
      | (None, w) \<Rightarrow> (None, w))"

definition da_request :: "string \<Rightarrow> 'w da_transport \<Rightarrow> url \<Rightarrow> http_req" where
  "da_request version t u =
     \<lparr>rqURL = u,
      rqHeader = [(''User-Agent'', ''webox/'' @ version @ '' +https://github.com/dilitS/webox''),
                  (''Authorization'', ''Basic '' @ b64_encode (dtUser t @ '':'' @ dtLoginKey t)),
                  (''Accept'', ''application/json'')]\<rparr>"

definition singleCall :: "string \<Rightarrow> 'w da_transport \<Rightarrow> url \<Rightarrow> 'w \<Rightarrow> string da_res \<times> 'w" where
  "singleCall version t u w =
     (case dtDo t (da_request version t u) w of
        (BuildErr e, w) \<Rightarrow> (Inl (outer e), w)
      | (DoErr e, w) \<Rightarrow> (Inl (Da ErrTransportUnavailable # outer e), w)
      | (ReadErr e, w) \<Rightarrow> (Inl (outer e), w)
      | (Response code body, w) \<Rightarrow>
          (case classifyHTTPStatus code (take maxBodyBytes body) of
             Some e \<Rightarrow> (Inl e, w)
           | None \<Rightarrow> (Inr (take maxBodyBytes body), w)))"

text \<open>The loop of \<open>call\<close>; \<open>lastErr\<close> is the error of the previous round.\<close>

function call_rounds :: "string \<Rightarrow> 'w da_transport \<Rightarrow> url \<Rightarrow> nat \<Rightarrow> da_goerr \<Rightarrow> 'w \<Rightarrow> string da_res \<times> 'w" where
  "call_rounds version t u attempt lastErr w =
     (if attempt > maxRetries then (Inl lastErr, w)
      else case (if attempt > 0 then sleepWithCtx t (dtBackoff t attempt) w else (None, w)) of
        (Some e, w) \<Rightarrow> (Inl e, w)
      | (None, w) \<Rightarrow>
          (case singleCall version t u w of
             (Inr body, w) \<Rightarrow> (Inr body, w)
           | (Inl e, w) \<Rightarrow> if \<not> shouldRetry e then (Inl e, w) else call_rounds version t u (Suc attempt) e w))"
  by pat_completeness auto
termination
  by (relation "measure (\<lambda>(_, _, _, attempt, _, _). Suc maxRetries - attempt)") auto

declare call_rounds.simps [simp del]

definition call :: "string \<Rightarrow> 'w da_transport \<Rightarrow> url \<Rightarrow> 'w \<Rightarrow> string da_res \<times> 'w" where
  "call version t u w = call_rounds version t u 0 [] w"

section \<open>Rows (client.go)\<close>

record Domain =
  dmName :: string
  dmPrimary :: bool
  dmSSLEnabled :: bool
  dmBandwidthBytes :: int
  dmQuotaBytes :: int
  dmSuspended :: bool

record Subdomain =
  sbName :: string
  sbParent :: string
  sbSSLEnabled :: bool
  sbSuspended :: bool

record Database =
  dbRowName :: string
  dbRowUser :: string
  dbRowSizeMB :: int

record SSLCertificate =
  scDomain :: string
  scIssuer :: string
  scNotAfter :: string
  scLetsEncrypt :: bool

record WhoamiResponse =
  wiUsername :: string
  wiUserType :: string
  wiScopes :: "string list"

definition json_domain :: "json \<Rightarrow> Domain option" where
  "json_domain j = Option.bind (jmembers j) (\<lambda>m.
     Option.bind (jstring (jget ''domain'' m)) (\<lambda>n.
     Option.bind (jbool (jget ''is_primary'' m)) (\<lambda>p.
     Option.bind (jbool (jget ''ssl'' m)) (\<lambda>s.
     Option.bind (jint (jget ''bandwidth_bytes'' m)) (\<lambda>b.
     Option.bind (jint (jget ''quota_bytes'' m)) (\<lambda>q.
     Option.bind (jbool (jget ''suspended'' m)) (\<lambda>u.
       Some \<lparr>dmName = n, dmPrimary = p, dmSSLEnabled = s, dmBandwidthBytes = b, dmQuotaBytes = q, dmSuspended = u\<rparr>)))))))"

definition json_subdomain :: "json \<Rightarrow> Subdomain option" where
  "json_subdomain j = Option.bind (jmembers j) (\<lambda>m.
     Option.bind (jstring (jget ''subdomain'' m)) (\<lambda>n.
     Option.bind (jstring (jget ''parent_domain'' m)) (\<lambda>p.
     Option.bind (jbool (jget ''ssl'' m)) (\<lambda>s.
     Option.bind (jbool (jget ''suspended'' m)) (\<lambda>u.
       Some \<lparr>sbName = n, sbParent = p, sbSSLEnabled = s, sbSuspended = u\<rparr>)))))"

definition json_database_row :: "json \<Rightarrow> Database option" where
  "json_database_row j = Option.bind (jmembers j) (\<lambda>m.
     Option.bind (jstring (jget ''name'' m)) (\<lambda>n.
     Option.bind (jstring (jget ''user'' m)) (\<lambda>u.
     Option.bind (jint (jget ''size_mb'' m)) (\<lambda>s.
       Some \<lparr>dbRowName = n, dbRowUser = u, dbRowSizeMB = s\<rparr>))))"

definition json_certificate :: "json \<Rightarrow> SSLCertificate option" where
  "json_certificate j = Option.bind (jmembers j) (\<lambda>m.
     Option.bind (jstring (jget ''domain'' m)) (\<lambda>d.
     Option.bind (jstring (jget ''issuer'' m)) (\<lambda>i.
     Option.bind (jstring (jget ''not_after'' m)) (\<lambda>n.
     Option.bind (jbool (jget ''letsencrypt'' m)) (\<lambda>l.
       Some \<lparr>scDomain = d, scIssuer = i, scNotAfter = n, scLetsEncrypt = l\<rparr>)))))"

definition json_whoami :: "json \<Rightarrow> WhoamiResponse option" where
  "json_whoami j = Option.bind (jmembers j) (\<lambda>m.
     Option.bind (jstring (jget ''username'' m)) (\<lambda>n.
     Option.bind (jstring (jget ''user_type'' m)) (\<lambda>t.
     Option.bind (jlist jstring (jget ''scopes'' m)) (\<lambda>s.
       Some \<lparr>wiUsername = n, wiUserType = t, wiScopes = s\<rparr>))))"

section \<open>Lists in three shapes (client.go)\<close>

text \<open>A member of a map by its exact name; of several with one name the last counts.\<close>

definition exact_member :: "string \<Rightarrow> json \<Rightarrow> json option" where
  "exact_member key j = (case j of JObj kvs \<Rightarrow> map_of (rev kvs) key | _ \<Rightarrow> None)"

text \<open>The \<open>data\<close> slice of an envelope; \<open>None\<close> when the envelope does not decode or the slice is nil.\<close>

definition envelope_data :: "(json \<Rightarrow> 'a option) \<Rightarrow> json \<Rightarrow> 'a list option" where
  "envelope_data f j =
     Option.bind (jmembers j) (\<lambda>m.
     Option.bind (jlist f (jget ''data'' m)) (\<lambda>rows.
     Option.bind (jbool (jget ''success'' m)) (\<lambda>_.
       if jget ''data'' m = JNull then None else Some rows)))"

definition decodeList :: "(string \<Rightarrow> json option) \<Rightarrow> (json \<Rightarrow> 'a option) \<Rightarrow> string \<Rightarrow> string \<Rightarrow> 'a list da_res" where
  "decodeList unmarshal f body wrapperKey =
     (if body = [] then Inr []
      else case unmarshal body of
        None \<Rightarrow> Inl [Da ErrUnsupportedListShape]
      | Some j \<Rightarrow>
          (case (if wrapperKey = [] then None else Option.bind (exact_member wrapperKey j) (jlist f)) of
             Some out \<Rightarrow> Inr out
           | None \<Rightarrow>
          (case envelope_data f j of
             Some out \<Rightarrow> Inr out
           | None \<Rightarrow>
          (case jlist f j of
             Some out \<Rightarrow> Inr out
           | None \<Rightarrow> Inl [Da ErrUnsupportedListShape]))))"

section \<open>Readers (client.go, ssh.go)\<close>

record 'w da_reader =
  rdWhoami :: "'w \<Rightarrow> WhoamiResponse da_res \<times> 'w"
  rdListDomains :: "'w \<Rightarrow> Domain list da_res \<times> 'w"
  rdListSubdomains :: "'w \<Rightarrow> Subdomain list da_res \<times> 'w"
  rdListDatabases :: "'w \<Rightarrow> Database list da_res \<times> 'w"
  rdListSSLCertificates :: "'w \<Rightarrow> SSLCertificate list da_res \<times> 'w"
  rdTransport :: string

text \<open>The methods have one shape: fetch the body of a path, decode it, wrap the error of the decoder, sort.\<close>

definition da_read :: "('w \<Rightarrow> string da_res \<times> 'w) \<Rightarrow> (string \<Rightarrow> 'a da_res) \<Rightarrow> 'w \<Rightarrow> 'a da_res \<times> 'w" where
  "da_read fetch decode w =
     (case fetch w of
        (Inl e, w) \<Rightarrow> (Inl e, w)
      | (Inr body, w) \<Rightarrow> ((case decode body of Inl e \<Rightarrow> Inl (Da ErrMalformedResponse # e) | Inr x \<Rightarrow> Inr x), w))"

definition decode_whoami :: "(string \<Rightarrow> json option) \<Rightarrow> string \<Rightarrow> WhoamiResponse da_res" where
  "decode_whoami unmarshal body =
     (case Option.bind (unmarshal body) json_whoami of None \<Rightarrow> Inl [Outer (Foreign 0)] | Some x \<Rightarrow> Inr x)"

definition sorted_rows :: "('a \<Rightarrow> string) \<Rightarrow> 'a list da_res \<Rightarrow> 'a list da_res" where
  "sorted_rows name r = (case r of Inl e \<Rightarrow> Inl e | Inr rows \<Rightarrow> Inr (sort_key name rows))"

definition da_reader_of ::
  "(string \<Rightarrow> json option) \<Rightarrow> (string \<Rightarrow> 'w \<Rightarrow> string da_res \<times> 'w) \<Rightarrow> string \<Rightarrow> string \<Rightarrow> 'w da_reader" where
  "da_reader_of unmarshal fetch user label =
     \<lparr>rdWhoami = da_read (fetch EndpointWhoami) (decode_whoami unmarshal),
      rdListDomains = da_read (fetch (EndpointListDomains user))
        (\<lambda>body. sorted_rows dmName (decodeList unmarshal json_domain body ''domains'')),
      rdListSubdomains = da_read (fetch (EndpointListSubdomains user))
        (\<lambda>body. sorted_rows sbName (decodeList unmarshal json_subdomain body ''subdomains'')),
      rdListDatabases = da_read (fetch (EndpointListDatabases user))
        (\<lambda>body. sorted_rows dbRowName (decodeList unmarshal json_database_row body ''databases'')),
      rdListSSLCertificates = da_read (fetch (EndpointListSSLCertificates user))
        (\<lambda>body. sorted_rows scDomain (decodeList unmarshal json_certificate body ''certificates'')),
      rdTransport = label\<rparr>"

definition Client :: "(string \<Rightarrow> json option) \<Rightarrow> string \<Rightarrow> 'w da_transport \<Rightarrow> 'w da_reader" where
  "Client unmarshal version t =
     da_reader_of unmarshal (\<lambda>path. call version t (endpointURL t path)) (dtUser t) ''HTTPS''"

section \<open>curl over SSH (ssh.go, sshpool.go)\<close>

type_synonym 'w da_runner = "string \<Rightarrow> 'w \<Rightarrow> (string \<times> string \<times> int \<times> da_goerr option) \<times> 'w"

definition da_shellQuote :: "string \<Rightarrow> string" where
  "da_shellQuote s = [squote] @ replace_all s [squote] [squote, backslash, squote, squote] @ [squote]"

definition newline :: char where "newline = CHR 0x0A"

definition splitOnLastNewline :: "string \<Rightarrow> (string \<times> string) option" where
  "splitOnLastNewline b =
     (if newline \<notin> set b then None
      else Some (rev (tl (dropWhile (\<lambda>c. c \<noteq> newline) (rev b))), trim_space (rev (takeWhile (\<lambda>c. c \<noteq> newline) (rev b)))))"

text \<open>\<open>fmt.Sscanf(s, "%d")\<close> on a text without leading spaces: a sign, digits, and whatever follows.\<close>

definition scan_int :: "string \<Rightarrow> int option" where
  "scan_int s =
     (let sign = (if s \<noteq> [] \<and> (hd s = CHR ''-'' \<or> hd s = CHR ''+'') then [hd s] else []);
          ds = takeWhile is_digit (drop (length sign) s)
      in if ds = [] then None else parse_int64 (sign @ ds))"

definition curl_url :: "int \<Rightarrow> string \<Rightarrow> string" where
  "curl_url port path = ''https://localhost:'' @ itoa port @ ''/api/'' @ path"

definition curl_command :: "string \<Rightarrow> string \<Rightarrow> int \<Rightarrow> string \<Rightarrow> string" where
  "curl_command user loginKey port path =
     join '' '' [''curl'', ''-sk'', ''--max-time'', ''30'', ''--user'', da_shellQuote (user @ '':'' @ loginKey),
       ''--write-out'', da_shellQuote (backslash # ''n%{http_code}''), da_shellQuote (curl_url port path)]"

definition curl_answer :: "string \<times> string \<times> int \<times> da_goerr option \<Rightarrow> string da_res" where
  "curl_answer r =
     (case r of
        (stdout, stderr, code, Some e) \<Rightarrow> Inl e
      | (stdout, stderr, code, None) \<Rightarrow>
          if code \<noteq> 0 then Inl [Da ErrTransportUnavailable]
          else case splitOnLastNewline stdout of
            None \<Rightarrow> Inl [Da ErrMalformedResponse]
          | Some (body, statusStr) \<Rightarrow>
              (case scan_int statusStr of
                 None \<Rightarrow> Inl [Da ErrMalformedResponse, Outer (Foreign 0)]
               | Some status \<Rightarrow> (case classifyHTTPStatus status body of Some e \<Rightarrow> Inl e | None \<Rightarrow> Inr body)))"

definition fetch :: "'w da_runner \<Rightarrow> string \<Rightarrow> string \<Rightarrow> int \<Rightarrow> string \<Rightarrow> 'w \<Rightarrow> string da_res \<times> 'w" where
  "fetch run user loginKey port path w =
     (case run (curl_command user loginKey port path) w of (r, w) \<Rightarrow> (curl_answer r, w))"

definition SSHFallback :: "(string \<Rightarrow> json option) \<Rightarrow> 'w da_runner \<Rightarrow> string \<Rightarrow> string \<Rightarrow> int \<Rightarrow> 'w da_reader" where
  "SSHFallback unmarshal run user loginKey port = da_reader_of unmarshal (fetch run user loginKey port) user ''SSH''"

definition NewSSHFallback ::
  "(string \<Rightarrow> json option) \<Rightarrow> 'w da_runner option \<Rightarrow> string \<Rightarrow> string \<Rightarrow> int \<Rightarrow> 'w da_reader da_res" where
  "NewSSHFallback unmarshal runner user loginKey apiPort =
     (case runner of
        None \<Rightarrow> Inl [Da ErrSSHRunnerRequired]
      | Some run \<Rightarrow>
          if user = [] \<or> loginKey = [] then Inl [Da ErrMissingCredentials]
          else Inr (SSHFallback unmarshal run user loginKey (if apiPort = 0 then 2222 else apiPort)))"

text \<open>\<open>exec\<close> is \<open>ssh.Exec\<close> on the pool and the target; an exit status is not an error of the transport.\<close>

definition SSHPoolRunner :: "(string \<Rightarrow> 'w \<Rightarrow> (ExecResult \<times> goerr option) \<times> 'w) option \<Rightarrow> 'w da_runner" where
  "SSHPoolRunner pool command w =
     (case pool of
        None \<Rightarrow> (([], [], -1, Some [Da ErrTransportUnavailable]), w)
      | Some exec \<Rightarrow>
          (case exec command w of
             ((r, None), w) \<Rightarrow> ((Stdout r, Stderr r, ExitCode r, None), w)
           | ((r, Some e), w) \<Rightarrow>
               if list_ex (\<lambda>s. case s of ExitErr _ \<Rightarrow> True | _ \<Rightarrow> False) e
               then ((Stdout r, Stderr r, ExitCode r, None), w)
               else ((Stdout r, Stderr r, ExitCode r, Some (Da ErrTransportUnavailable # outer e)), w)))"

section \<open>Failing over (composite.go)\<close>

definition shouldFailover :: "da_goerr \<Rightarrow> bool" where
  "shouldFailover e = da_is e ErrTransportUnavailable"

definition tryComposite :: "'r option \<Rightarrow> 'r option \<Rightarrow> ('r \<Rightarrow> 'w \<Rightarrow> 'a da_res \<times> 'w) \<Rightarrow> 'w \<Rightarrow> 'a da_res \<times> 'w" where
  "tryComposite primary secondary op w =
     (case primary of
        None \<Rightarrow> (case secondary of None \<Rightarrow> (Inl [Da ErrTransportUnavailable], w) | Some s \<Rightarrow> op s w)
      | Some p \<Rightarrow>
          (case op p w of
             (Inr x, w) \<Rightarrow> (Inr x, w)
           | (Inl e, w) \<Rightarrow>
               (case secondary of
                  None \<Rightarrow> (Inl e, w)
                | Some s \<Rightarrow> if \<not> shouldFailover e then (Inl e, w) else op s w)))"

definition Composite :: "'w da_reader option \<Rightarrow> 'w da_reader option \<Rightarrow> 'w da_reader" where
  "Composite primary secondary =
     \<lparr>rdWhoami = tryComposite primary secondary rdWhoami,
      rdListDomains = tryComposite primary secondary rdListDomains,
      rdListSubdomains = tryComposite primary secondary rdListSubdomains,
      rdListDatabases = tryComposite primary secondary rdListDatabases,
      rdListSSLCertificates = tryComposite primary secondary rdListSSLCertificates,
      rdTransport =
        (case (primary, secondary) of
           (Some p, Some s) \<Rightarrow> rdTransport p @ ''+'' @ rdTransport s
         | (Some p, None) \<Rightarrow> rdTransport p
         | (None, Some s) \<Rightarrow> rdTransport s
         | (None, None) \<Rightarrow> ''?'')\<rparr>"

definition NewComposite :: "'w da_reader option \<Rightarrow> 'w da_reader option \<Rightarrow> 'w da_reader da_res" where
  "NewComposite primary secondary =
     (if primary = None \<or> secondary = None then Inl [Da ErrCompositeRequiresBothReaders]
      else Inr (Composite primary secondary))"

section \<open>What was sent\<close>

lemma da_is_simps [simp]: "da_is (Da x # e) y \<longleftrightarrow> x = y \<or> da_is e y" "\<not> da_is [] y" "\<not> da_is (outer g) y"
  by (auto simp: da_is_def outer_def)

lemma rounds_sent:
  assumes "\<And>rq w. sent (snd (dtDo t rq w)) = sent w @ [rq]" and "\<And>d w. sent (snd (dtSleep t d w)) = sent w"
  shows "\<exists>n \<le> Suc maxRetries - attempt. sent (snd (call_rounds version t u attempt lastErr w)) = sent w @ replicate n (da_request version t u)"
proof (induction "Suc maxRetries - attempt" arbitrary: attempt lastErr w)
  case 0
  then show ?case by (subst call_rounds.simps) auto
next
  case (Suc k)
  obtain s w1 where s: "(if attempt > 0 then sleepWithCtx t (dtBackoff t attempt) w else (None, w)) = (s, w1)" by fastforce
  have w1: "sent w1 = sent w"
    using s assms(2) [of "dtBackoff t attempt" w] by (auto simp: sleepWithCtx_def split: if_splits prod.splits option.splits)
  obtain r w2 where r: "singleCall version t u w1 = (r, w2)" by fastforce
  have w2: "sent w2 = sent w @ [da_request version t u]"
    using r w1 assms(1) [of "da_request version t u" w1] by (auto simp: singleCall_def split: prod.splits http_out.splits option.splits)
  have k: "k = Suc maxRetries - Suc attempt" "attempt \<le> maxRetries" using Suc(2) by simp_all
  note rec = Suc(1) [OF k(1)]
  have "\<exists>n \<le> Suc k. sent (snd (call_rounds version t u attempt lastErr w)) = sent w @ replicate n (da_request version t u)"
  proof (cases "s = None \<and> (\<exists>e. r = Inl e \<and> shouldRetry e)")
    case True
    then obtain e where e: "s = None" "r = Inl e" "shouldRetry e" by blast
    obtain n where "n \<le> k" "sent (snd (call_rounds version t u (Suc attempt) e w2)) = sent w2 @ replicate n (da_request version t u)"
      using rec [of e w2] k(1) by auto
    then show ?thesis using e k(2) s r w2 by (intro exI [of _ "Suc n"], subst call_rounds.simps) simp
  next
    case False
    then have "snd (call_rounds version t u attempt lastErr w) \<in> {w1, w2}"
      using k(2) s r by (subst call_rounds.simps) (auto split: option.splits sum.splits)
    then show ?thesis using w1 w2 by (auto intro: exI [of _ 0] exI [of _ "Suc 0"])
  qed
  then show ?case using Suc(2) by simp
qed

section \<open>Constant answers\<close>

lemma rounds_const:
  assumes r: "\<And>w. fst (singleCall version t u w) = r" and s: "\<And>d w. fst (dtSleep t d w) = None"
  shows "attempt \<le> maxRetries \<or> Inl lastErr = r \<Longrightarrow> fst (call_rounds version t u attempt lastErr w) = r"
proof (induction "Suc maxRetries - attempt" arbitrary: attempt lastErr w)
  case 0
  then show ?case by (subst call_rounds.simps) auto
next
  case (Suc k)
  obtain x w1 where x: "(if attempt > 0 then sleepWithCtx t (dtBackoff t attempt) w else (None, w)) = (x, w1)" by fastforce
  have n: "x = None"
    using x s [of "dtBackoff t attempt" w] by (auto simp: sleepWithCtx_def split: if_splits prod.splits option.splits)
  obtain w2 where q: "singleCall version t u w1 = (r, w2)" using r [of w1] by (metis surj_pair fst_conv)
  have k: "k = Suc maxRetries - Suc attempt" "attempt \<le> maxRetries" using Suc(2) by simp_all
  then show ?case using x n q Suc(1) [OF k(1), of "case r of Inl e \<Rightarrow> e" w2]
    by (subst call_rounds.simps) (auto split: sum.splits)
qed

lemma call_const: "(\<And>w. fst (singleCall version t u w) = r) \<Longrightarrow> (\<And>d w. fst (dtSleep t d w) = None) \<Longrightarrow> fst (call version t u w) = r"
  by (simp add: call_def rounds_const)

section \<open>The command\<close>

lemma quote_same: "da_shellQuote = Uapi.shellQuote"
  by (rule ext) (simp add: da_shellQuote_def Uapi.shellQuote_def)

definition curl_words :: "string \<Rightarrow> string \<Rightarrow> int \<Rightarrow> string \<Rightarrow> string list" where
  "curl_words user loginKey port path =
     [''curl'', ''-sk'', ''--max-time'', ''30'', ''--user'', user @ '':'' @ loginKey, ''--write-out'', backslash # ''n%{http_code}'',
      curl_url port path]"

theorem curl_command_words: "sh_words (curl_command user loginKey port path) = Some (curl_words user loginKey port path)"
proof -
  let ?q = "\<lambda>s. (da_shellQuote s, s)" and ?p = "\<lambda>s. (s, s)"
  let ?tws = "[?p ''curl'', ?p ''-sk'', ?p ''--max-time'', ?p ''30'', ?p ''--user'', ?q (user @ '':'' @ loginKey),
       ?p ''--write-out'', ?q (backslash # ''n%{http_code}''), ?q (curl_url port path)]"
  have "list_all (\<lambda>(t, w). reads_as t w) ?tws" by (simp add: quote_same reads_shellQuote reads_plain plain_simps)
  from reads_join [OF this] show ?thesis by (simp add: sh_words_def curl_command_def curl_words_def)
qed

section \<open>The answer of curl\<close>

lemma scan_itoa: "0 \<le> n \<Longrightarrow> n < 2 ^ 63 \<Longrightarrow> scan_int (itoa n) = Some n"
proof -
  assume n: "0 \<le> n" "n < 2 ^ 63"
  let ?s = "nat_string (nat n)"
  have i: "itoa n = ?s" using n by (simp add: itoa_def)
  have "is_digit (hd ?s)" by (rule nat_string_hd_digit)
  then have h: "hd ?s \<noteq> CHR ''-''" "hd ?s \<noteq> CHR ''+''" by auto
  have t: "takeWhile is_digit ?s = ?s" using nat_string_digits [of "nat n"] by (simp add: list_all_iff takeWhile_eq_all_conv)
  show ?thesis using n h i parse_int64_itoa [of n] by (simp add: scan_int_def in_int64_def Let_def t)
qed

lemma itoa_trim: "0 \<le> n \<Longrightarrow> trim_space (itoa n) = itoa n \<and> newline \<notin> set (itoa n)"
proof -
  assume n: "0 \<le> n"
  have d: "is_digit c" if "c \<in> set (itoa n)" for c
    using that n nat_string_digits [of "nat n"] by (auto simp: itoa_def list_all_iff)
  have "trim_space (itoa n) = itoa n"
    using d by (intro trim_space_ascii) (auto simp: is_digit_def less_eq_char_def less_char_def dest!: d)
  moreover have "newline \<notin> set (itoa n)" using d [of newline] by (auto simp: newline_def is_digit_def less_eq_char_def)
  ultimately show ?thesis ..
qed

lemma before_mark:
  "\<forall>c\<in>set xs. c \<noteq> z \<Longrightarrow> takeWhile (\<lambda>c. c \<noteq> z) (xs @ z # ys) = xs \<and> dropWhile (\<lambda>c. c \<noteq> z) (xs @ z # ys) = z # ys"
  by (induction xs) auto

lemma split_status: "0 \<le> n \<Longrightarrow> splitOnLastNewline (body @ newline # itoa n) = Some (body, itoa n)"
proof -
  assume n: "0 \<le> n"
  have a: "\<forall>c\<in>set (rev (itoa n)). c \<noteq> newline" using itoa_trim [OF n] by auto
  from before_mark [OF this, of "rev body"] show ?thesis using itoa_trim [OF n] by (simp add: splitOnLastNewline_def)
qed

lemma curl_answer_status:
  "0 \<le> n \<Longrightarrow> n < 2 ^ 63 \<Longrightarrow> curl_answer (body @ newline # itoa n, err, 0, None)
     = (case classifyHTTPStatus n body of Some e \<Rightarrow> Inl e | None \<Rightarrow> Inr body)"
  by (simp add: curl_answer_def split_status scan_itoa)

section \<open>A panel behind both transports\<close>

definition url_char :: "char \<Rightarrow> bool" where
  "url_char c \<longleftrightarrow> is_word_char c \<or> c \<in> set ''-.~''"

definition plain_path :: "string \<Rightarrow> bool" where
  "plain_path p \<longleftrightarrow> list_all (\<lambda>c. url_char c \<or> c = CHR ''/'') p"

text \<open>A panel that gives every path one answer, reached directly, and by a shell and \<open>curl\<close> on its own machine.\<close>

definition https_serves :: "(string \<Rightarrow> int \<times> string) \<Rightarrow> 'w da_transport \<Rightarrow> bool" where
  "https_serves panel t \<longleftrightarrow>
     (\<forall>rq w. fst (dtDo t rq w) = Response (fst (panel (uPath (rqURL rq)))) (snd (panel (uPath (rqURL rq)))))"

definition curl_runs :: "(string \<Rightarrow> int \<times> string) \<Rightarrow> string \<Rightarrow> string \<Rightarrow> int \<Rightarrow> 'w da_runner \<Rightarrow> bool" where
  "curl_runs panel user loginKey port run \<longleftrightarrow>
     (\<forall>cmd path w. plain_path path \<and> sh_words cmd = Some (curl_words user loginKey port path) \<longrightarrow>
        fst (run cmd w) = (snd (panel (''/api/'' @ path)) @ newline # itoa (fst (panel (''/api/'' @ path))), [], 0, None))"

definition panel_ok :: "(string \<Rightarrow> int \<times> string) \<Rightarrow> bool" where
  "panel_ok panel \<longleftrightarrow> (\<forall>p. 0 \<le> fst (panel p) \<and> fst (panel p) < 1000 \<and> length (snd (panel p)) \<le> maxBodyBytes)"

lemma body_same:
  assumes "https_serves panel t" "\<And>d w. fst (dtSleep t d w) = None" "trim_right_slash (uPath (dtBase t)) = []"
    "curl_runs panel (dtUser t) (dtLoginKey t) port run" "panel_ok panel" "plain_path path" "path \<noteq> []" "hd path \<noteq> CHR ''/''"
  shows "fst (call version t (endpointURL t path) w) = fst (fetch run (dtUser t) (dtLoginKey t) port path w')"
proof -
  obtain status body where a: "panel (''/api/'' @ path) = (status, body)" by fastforce
  let ?r = "case classifyHTTPStatus status body of Some e \<Rightarrow> Inl e | None \<Rightarrow> Inr body"
  have ok: "0 \<le> status" "status < 2 ^ 63" "length body \<le> maxBodyBytes"
    using assms(5) [unfolded panel_ok_def, rule_format, of "''/api/'' @ path"] a by simp_all
  have u: "uPath (endpointURL t path) = ''/api/'' @ path"
    using assms(3,7,8) by (cases path) (simp_all add: endpointURL_def)
  have "fst (singleCall version t (endpointURL t path) v) = ?r" for v
  proof -
    have "fst (dtDo t (da_request version t (endpointURL t path)) v) = Response status body"
      using assms(1) u a by (simp add: https_serves_def da_request_def)
    then show ?thesis using ok(3) by (auto simp: singleCall_def split: prod.splits option.splits)
  qed
  then have "fst (call version t (endpointURL t path) w) = ?r" by (rule call_const [OF _ assms(2)])
  moreover have "fst (run (curl_command (dtUser t) (dtLoginKey t) port path) w') = (body @ newline # itoa status, [], 0, None)"
    using assms(4) [unfolded curl_runs_def, rule_format, OF conjI, OF assms(6) curl_command_words] a by simp
  then have "fst (fetch run (dtUser t) (dtLoginKey t) port path w') = ?r"
    using curl_answer_status [OF ok(1,2), of body "[]"] by (simp add: fetch_def case_prod_beta)
  ultimately show ?thesis by simp
qed

lemma read_same: "fst (f w) = fst (g w') \<Longrightarrow> fst (da_read f d w) = fst (da_read g d w')"
  by (auto simp: da_read_def split: prod.splits sum.splits)

lemma plain_endpoints:
  assumes "list_all url_char user"
  shows "plain_path EndpointWhoami" "plain_path (EndpointListDomains user)" "plain_path (EndpointListSubdomains user)"
    "plain_path (EndpointListDatabases user)" "plain_path (EndpointListSSLCertificates user)"
proof -
  have "list_all (\<lambda>c. url_char c \<or> c = CHR ''/'') user" using assms by (auto simp: list_all_iff)
  moreover have "list_all (\<lambda>c. url_char c \<or> c = CHR ''/'') ''whoamiusers/domains/subdomains/databases/ssl/certificates''"
    by (simp add: url_char_def is_word_char_def less_eq_char_def)
  ultimately show "plain_path EndpointWhoami" "plain_path (EndpointListDomains user)" "plain_path (EndpointListSubdomains user)"
    "plain_path (EndpointListDatabases user)" "plain_path (EndpointListSSLCertificates user)"
    by (simp_all add: plain_path_def EndpointWhoami_def EndpointListDomains_def EndpointListSubdomains_def EndpointListDatabases_def
      EndpointListSSLCertificates_def)
qed

lemma endpoint_starts:
  "EndpointWhoami \<noteq> []" "hd EndpointWhoami \<noteq> CHR ''/''" "EndpointListDomains user \<noteq> []" "hd (EndpointListDomains user) \<noteq> CHR ''/''"
  "EndpointListSubdomains user \<noteq> []" "hd (EndpointListSubdomains user) \<noteq> CHR ''/''"
  "EndpointListDatabases user \<noteq> []" "hd (EndpointListDatabases user) \<noteq> CHR ''/''"
  "EndpointListSSLCertificates user \<noteq> []" "hd (EndpointListSSLCertificates user) \<noteq> CHR ''/''"
  by (simp_all add: EndpointWhoami_def EndpointListDomains_def EndpointListSubdomains_def EndpointListDatabases_def
    EndpointListSSLCertificates_def)

section \<open>Rows in every shape\<close>

definition domain_json :: "Domain \<Rightarrow> json" where
  "domain_json d = JObj [(''domain'', JStr (dmName d)), (''is_primary'', JBool (dmPrimary d)), (''ssl'', JBool (dmSSLEnabled d)),
     (''bandwidth_bytes'', JNum (dmBandwidthBytes d)), (''quota_bytes'', JNum (dmQuotaBytes d)), (''suspended'', JBool (dmSuspended d))]"

lemma json_domain_json:
  "in_int64 (dmBandwidthBytes d) \<Longrightarrow> in_int64 (dmQuotaBytes d) \<Longrightarrow> json_domain (domain_json d) = Some d"
  by (simp add: json_domain_def domain_json_def jget_Cons to_lower_def lower_char_def)

lemma rows_json:
  "\<forall>d\<in>set ds. in_int64 (dmBandwidthBytes d) \<and> in_int64 (dmQuotaBytes d) \<Longrightarrow> jlist json_domain (JArr (map domain_json ds)) = Some ds"
  by (rule jlist_map) (simp add: json_domain_json)

section \<open>Properties\<close>


text \<open>
  A list of domains is read alike in the three documented shapes, whatever else the wrappers hold, and comes out sorted by
  name. A list of plain names, which the comment on \<open>Domain\<close> promises to accept, is refused in each of them.
\<close>

theorem da_shapes:
  assumes "\<forall>d\<in>set ds. in_int64 (dmBandwidthBytes d) \<and> in_int64 (dmQuotaBytes d)" "body \<noteq> []"
    and "unmarshal body \<in> {Some (JObj [(''domains'', rows), (''success'', JBool b)]), Some (JObj [(''data'', rows), (''success'', JBool b)]), Some rows}"
  shows "rows = JArr (map domain_json ds) \<Longrightarrow> decodeList unmarshal json_domain body ''domains'' = Inr ds"
    "rows = JArr (map JStr (n # ns)) \<Longrightarrow> decodeList unmarshal json_domain body ''domains'' = Inl [Da ErrUnsupportedListShape]"
proof -
  have k: "jget ''data'' [(''domains'', r), (''success'', JBool b)] = JNull" "jget ''data'' [(''data'', r), (''success'', JBool b)] = r"
    "jget ''success'' [(''data'', r), (''success'', JBool b)] = JBool b" for r
    by (simp_all add: jget_Cons to_lower_def lower_char_def)
  have n: "jlist json_domain (JArr (map JStr (n # ns))) = None" by (simp add: json_domain_def)
  show "rows = JArr (map domain_json ds) \<Longrightarrow> decodeList unmarshal json_domain body ''domains'' = Inr ds"
    using assms(2,3) rows_json [OF assms(1)]
    by (elim insertE emptyE; simp add: decodeList_def exact_member_def envelope_data_def k del: jlist.simps)
  show "rows = JArr (map JStr (n # ns)) \<Longrightarrow> decodeList unmarshal json_domain body ''domains'' = Inl [Da ErrUnsupportedListShape]"
    using assms(2,3) n
    by (elim insertE emptyE; simp add: decodeList_def exact_member_def envelope_data_def k del: jlist.simps(1) list.map)
qed

text \<open>
  The login key leaves the machine over HTTPS only: a transport is built for an address with a host and that scheme alone, and a
  call sends one to four equal requests to that host.
\<close>

theorem da_key_over_https:
  assumes "newTransport parse_url client sleep rawURL user loginKey = Inr t"
    and "\<And>rq w. sent (snd (client rq w)) = sent w @ [rq]" and "\<And>d w. sent (snd (sleep d w)) = sent w"
  shows "\<exists>n \<le> 4. sent (snd (call version t (endpointURL t path) w)) = sent w @ replicate n (da_request version t (endpointURL t path))
    \<and> uScheme (rqURL (da_request version t (endpointURL t path))) = ''https'' \<and> uHost (rqURL (da_request version t (endpointURL t path))) \<noteq> []"
proof -
  have t: "dtDo t = client" "dtSleep t = sleep" "uScheme (dtBase t) = ''https''" "uHost (dtBase t) \<noteq> []"
    using assms(1) by (auto simp: newTransport_def split: if_splits option.splits)
  then show ?thesis
    using rounds_sent [of sent t 0 version "endpointURL t path" "[]" w] assms(2,3)
    by (simp add: call_def maxRetries_def da_request_def endpointURL_def)
qed

text \<open>
  A body that breaks off is not taken for a failure of the network: the composite does not fail over to SSH, although the comment
  on \<open>ErrTransportUnavailable\<close> calls it the class of all network-level failures.
\<close>

theorem broken_body_stays:
  assumes "\<And>rq w. fst (dtDo t rq w) = ReadErr e" "\<And>d w. fst (dtSleep t d w) = None"
  shows "fst (rdListDomains (Composite (Some (Client unmarshal version t)) (Some s)) w) = Inl (outer e)"
proof -
  have "fst (singleCall version t u v) = Inl (outer e)" for u v
  proof -
    obtain x where "dtDo t (da_request version t u) v = (ReadErr e, x)" using assms(1) [of "da_request version t u" v] by (metis prod.collapse)
    then show ?thesis by (simp add: singleCall_def)
  qed
  from call_const [OF this assms(2)] obtain x where
    "call version t (endpointURL t (EndpointListDomains (dtUser t))) w = (Inl (outer e), x)" by (metis prod.collapse)
  then show ?thesis by (simp add: Composite_def tryComposite_def shouldFailover_def Client_def da_reader_of_def da_read_def)
qed

section \<open>Witness\<close>

text \<open>A shell with \<open>curl\<close> on the panel's machine.\<close>

definition loopback :: "(string \<Rightarrow> int \<times> string) \<Rightarrow> int \<Rightarrow> 'w da_runner" where
  "loopback panel port cmd w =
     ((case sh_words cmd of
         None \<Rightarrow> ([], [], 2, None)
       | Some ws \<Rightarrow> (case panel (''/api/'' @ drop (length (curl_url port [])) (last ws)) of
           (status, body) \<Rightarrow> (body @ newline # itoa status, [], 0, None))), w)"

lemma loopback_runs: "curl_runs panel user loginKey port (loopback panel port)"
  by (auto simp: curl_runs_def loopback_def curl_words_def curl_url_def case_prod_beta)

definition busy_panel :: "string \<Rightarrow> int \<times> string" where
  "busy_panel p = (if p = ''/api/whoami'' then (200, ''w'') else (429, []))"

definition busy_transport :: "unit da_transport" where
  "busy_transport = \<lparr>dtDo = (\<lambda>rq w. (case busy_panel (uPath (rqURL rq)) of (status, body) \<Rightarrow> Response status body, w)),
     dtBase = \<lparr>uScheme = ''https'', uHost = ''da.example.com:2222'', uPath = ''/'', uQuery = []\<rparr>, dtUser = ''adam'', dtLoginKey = ''it's'',
     dtSleep = (\<lambda>_ w. (None, w)), dtBackoff = backoff\<rparr>"


end
