(* ===== verification/Provider_New.thy ===== *)
theory Provider_New
  imports Uapi Tui_Forms
begin

text \<open>
  The generator behind \<open>webox provider new\<close> (\<open>src/cmd/webox/provider_new.go\<close>): the checks of the name and the preset, the loop over
  the templates, and the rewriting of the import file.

  \<^item> Executing a template, \<open>go/format\<close> and the import parser of \<open>go/parser\<close> are parameters. The repository root is the working
    directory, an absolute clean path, so joining is concatenation; directories are not modelled.
  \<^item> \<open>os.WriteFile\<close> truncates first: a write that fails afterwards leaves an empty file.
\<close>

section \<open>Options\<close>

record providerNewOpts =
  pnoName :: string
  pnoPreset :: string
  pnoDryRun :: bool
  pnoRepoRoot :: string

record providerNewResult =
  Written :: "string list"
  Skipped :: "string list"
  ImportPatched :: bool

text \<open>\<open>BadInput\<close> is an error that wraps \<open>errProviderNew\<close>; any other failure is \<open>Failed\<close>.\<close>

datatype gen_err = BadInput | Failed

definition presetBlank :: string where "presetBlank = ''blank''"
definition presetCpanelUAPI :: string where "presetCpanelUAPI = ''cpanel-uapi''"
definition presetDirectAdmin :: string where "presetDirectAdmin = ''directadmin''"
definition presetCyberPanel :: string where "presetCyberPanel = ''cyberpanel''"
definition defaultPreset :: string where "defaultPreset = presetBlank"
definition providersImportsGo :: string where "providersImportsGo = ''cmd/webox/providers.go''"
definition walkthroughURL :: string where "walkthroughURL = ''docs/contributing/PROVIDER.md''"

definition supportedPresets :: "string list" where
  "supportedPresets = [presetBlank, presetCpanelUAPI, presetDirectAdmin, presetCyberPanel]"

definition name_head :: "char \<Rightarrow> bool" where "name_head c \<longleftrightarrow> CHR ''a'' \<le> c \<and> c \<le> CHR ''z''"

definition providerNamePattern :: re where
  "providerNamePattern = whole (Seq (Cls name_head) (between 2 31 (Cls (\<lambda>c. name_head c \<or> is_digit c \<or> c = CHR ''_''))))"

definition reservedProviderNames :: "string list" where
  "reservedProviderNames = [''smallhost'', ''mock'', ''main'', ''init'', ''test'', ''testing'']"

definition validateProviderNewOpts :: "string option \<Rightarrow> providerNewOpts \<Rightarrow> gen_err + providerNewOpts" where
  "validateProviderNewOpts wd opts =
     (let name = trim_space (pnoName opts); preset = trim_space (pnoPreset opts);
          preset = (if preset = [] then defaultPreset else preset)
      in if name = [] then Inl BadInput
         else if \<not> match_string providerNamePattern name then Inl BadInput
         else if name \<in> set reservedProviderNames then Inl BadInput
         else if preset \<notin> set supportedPresets then Inl BadInput
         else if pnoRepoRoot opts = [] then
           (case wd of
              None \<Rightarrow> Inl Failed
            | Some root \<Rightarrow> Inr (opts\<lparr>pnoName := name, pnoPreset := preset, pnoRepoRoot := root\<rparr>))
         else Inr (opts\<lparr>pnoName := name, pnoPreset := preset\<rparr>))"

section \<open>Templates\<close>

datatype ProviderTemplateRoot = RootPackage | RootFixture | RootOther int

record ProviderTemplateFile =
  RelPath :: string
  Root :: ProviderTemplateRoot
  Body :: string

record templateData =
  tdName :: string
  tdPackageName :: string
  tdDisplayName :: string
  tdPreset :: string
  tdWalkthroughURL :: string

definition presetDisplayName :: "string \<Rightarrow> string \<Rightarrow> string" where
  "presetDisplayName name preset =
     (if preset = presetCpanelUAPI then ''cPanel (UAPI)''
      else if preset = presetDirectAdmin then ''DirectAdmin''
      else if preset = presetCyberPanel then ''CyberPanel''
      else name)"

definition buildTemplateData :: "providerNewOpts \<Rightarrow> templateData" where
  "buildTemplateData opts =
     \<lparr>tdName = pnoName opts, tdPackageName = pnoName opts, tdDisplayName = presetDisplayName (pnoName opts) (pnoPreset opts),
      tdPreset = pnoPreset opts, tdWalkthroughURL = walkthroughURL\<rparr>"

text \<open>The library the generator runs on: \<open>template.Execute\<close>, \<open>format.Source\<close>, and the named imports of a Go file.\<close>

record go_tools =
  gtExecute :: "string \<Rightarrow> templateData \<Rightarrow> string option"
  gtFormat :: "string \<Rightarrow> string option"
  gtImports :: "string \<Rightarrow> (string option \<times> string) list option"

definition renderTemplate :: "go_tools \<Rightarrow> ProviderTemplateFile \<Rightarrow> templateData \<Rightarrow> string option" where
  "renderTemplate G f td =
     Option.bind (gtExecute G (Body f) td) (\<lambda>out. if has_suffix (RelPath f) ''.go'' then gtFormat G out else Some out)"

definition rel_path :: "string \<Rightarrow> ProviderTemplateFile \<Rightarrow> string" where
  "rel_path name f =
     (case Root f of
        RootPackage \<Rightarrow> ''providers/'' @ name @ ''/'' @ RelPath f
      | RootFixture \<Rightarrow> ''testing/fixtures/'' @ name @ ''/'' @ RelPath f
      | RootOther _ \<Rightarrow> RelPath f)"

definition under :: "string \<Rightarrow> string \<Rightarrow> string" where
  "under root rel = (if root = ''/'' then root @ rel else root @ ''/'' @ rel)"

definition absTemplatePath :: "string \<Rightarrow> string \<Rightarrow> ProviderTemplateFile \<Rightarrow> string" where
  "absTemplatePath repoRoot name f = under repoRoot (rel_path name f)"

section \<open>Files\<close>

definition pathExists :: "string \<Rightarrow> 'z World_scheme \<Rightarrow> bool option \<times> 'z World_scheme" where
  "pathExists p w = (case sys w of (ok, w) \<Rightarrow> (if \<not> ok then None else Some (files w p \<noteq> None), w))"

text \<open>\<open>MkdirAll\<close>, then opening with truncation, then the bytes.\<close>

definition writeFile :: "string \<Rightarrow> string \<Rightarrow> 'z World_scheme \<Rightarrow> bool \<times> 'z World_scheme" where
  "writeFile dst body w =
     (case sys w of (ok, w) \<Rightarrow>
        if \<not> ok then (False, w)
        else case os_write dst (Blob []) w of
          (False, w) \<Rightarrow> (False, w)
        | (True, w) \<Rightarrow> os_write dst (Blob body) w)"

section \<open>The import file\<close>

definition blank_prefix :: string where
  "blank_prefix = dquote # ''github.com/dilitS/webox/providers/''"

definition blank_import :: "string option \<times> string \<Rightarrow> string option" where
  "blank_import i =
     (case i of (name, path) \<Rightarrow>
        if name \<noteq> Some ''_'' \<or> \<not> has_prefix path blank_prefix then None
        else (let rest = drop (length blank_prefix) path;
                  short = (if has_suffix rest [dquote] then butlast rest else rest)
              in if short = [] then None else Some short))"

definition extractBlankProviderImports :: "go_tools \<Rightarrow> string \<Rightarrow> string list option" where
  "extractBlankProviderImports G src = map_option (\<lambda>imps. sort (List.map_filter blank_import imps)) (gtImports G src)"

definition lf :: string where "lf = [CHR 0x0A]"
definition tab :: string where "tab = [CHR 0x09]"
definition long_dash :: string where "long_dash = [CHR 0xE2, CHR 0x80, CHR 0x94]"

definition imports_head :: string where
  "imports_head =
     ''// Package main wires the production set of hosting provider'' @ lf
     @ ''// adapters via blank imports so their init() blocks register the'' @ lf
     @ ''// factories with `providers.Register` before `Run` looks them up.'' @ lf
     @ ''//'' @ lf
     @ ''// This file is generated by `webox provider new <name>` '' @ long_dash @ '' every'' @ lf
     @ ''// new adapter inserts itself into the sorted import block below.'' @ lf
     @ ''// Hand-editing is fine; the generator re-sorts on every run so'' @ lf
     @ ''// merge conflicts stay trivial.'' @ lf
     @ ''package main'' @ lf @ lf @ ''import ('' @ lf"

definition import_line :: "string \<Rightarrow> string" where
  "import_line name =
     tab @ ''_ '' @ go_quote (''github.com/dilitS/webox/providers/'' @ name) @ '' // register '' @ name @ '' factory'' @ lf"

definition renderProvidersImports :: "go_tools \<Rightarrow> string list \<Rightarrow> string" where
  "renderProvidersImports G names =
     (let b = imports_head @ concat (map import_line (sort names)) @ '')'' @ lf
      in case gtFormat G b of None \<Rightarrow> b | Some formatted \<Rightarrow> formatted)"

definition patchProvidersImports :: "go_tools \<Rightarrow> providerNewOpts \<Rightarrow> 'z World_scheme \<Rightarrow> (gen_err + bool) \<times> 'z World_scheme" where
  "patchProvidersImports G opts w =
     (let dst = under (pnoRepoRoot opts) providersImportsGo;
          put = (\<lambda>body w. case writeFile dst body w of (ok, w) \<Rightarrow> (if ok then Inr True else Inl Failed, w))
      in case pathExists dst w of
           (None, w) \<Rightarrow> (Inl Failed, w)
         | (Some False, w) \<Rightarrow>
             if pnoDryRun opts then (Inr True, w)
             else put (renderProvidersImports G [''smallhost'', pnoName opts]) w
         | (Some True, w) \<Rightarrow>
             (case os_ReadFile dst w of
                (Read (Blob current), w) \<Rightarrow>
                  (case extractBlankProviderImports G current of
                     None \<Rightarrow> (Inl Failed, w)
                   | Some imports \<Rightarrow>
                       if pnoName opts \<in> set imports then (Inr False, w)
                       else if pnoDryRun opts then (Inr True, w)
                       else put (renderProvidersImports G (sort (imports @ [pnoName opts]))) w)
              | (_, w) \<Rightarrow> (Inl Failed, w)))"

section \<open>The generator\<close>

fun gen_files ::
  "go_tools \<Rightarrow> providerNewOpts \<Rightarrow> ProviderTemplateFile list \<Rightarrow> providerNewResult \<Rightarrow> 'z World_scheme \<Rightarrow>
   (gen_err + providerNewResult) \<times> 'z World_scheme" where
  "gen_files G opts [] r w = (Inr r, w)"
| "gen_files G opts (f # fs) r w =
     (case renderTemplate G f (buildTemplateData opts) of
        None \<Rightarrow> (Inl Failed, w)
      | Some rendered \<Rightarrow>
          (let dst = absTemplatePath (pnoRepoRoot opts) (pnoName opts) f; rel = rel_path (pnoName opts) f in
           case pathExists dst w of
             (None, w) \<Rightarrow> (Inl Failed, w)
           | (Some True, w) \<Rightarrow> gen_files G opts fs (r\<lparr>Skipped := Skipped r @ [rel]\<rparr>) w
           | (Some False, w) \<Rightarrow>
               if pnoDryRun opts then gen_files G opts fs (r\<lparr>Written := Written r @ [rel]\<rparr>) w
               else (case writeFile dst rendered w of
                       (False, w) \<Rightarrow> (Inl Failed, w)
                     | (True, w) \<Rightarrow> gen_files G opts fs (r\<lparr>Written := Written r @ [rel]\<rparr>) w)))"

text \<open>\<open>templates\<close> is \<open>assets.ProviderTemplateFiles\<close>, \<open>wd\<close> the working directory.\<close>

definition generateProviderScaffold ::
  "go_tools \<Rightarrow> ProviderTemplateFile list option \<Rightarrow> string option \<Rightarrow> providerNewOpts \<Rightarrow> 'z World_scheme \<Rightarrow>
   (gen_err + providerNewResult) \<times> 'z World_scheme" where
  "generateProviderScaffold G templates wd opts w =
     (case validateProviderNewOpts wd opts of
        Inl e \<Rightarrow> (Inl e, w)
      | Inr opts \<Rightarrow>
          (case templates of
             None \<Rightarrow> (Inl Failed, w)
           | Some fs \<Rightarrow>
               (case gen_files G opts fs \<lparr>Written = [], Skipped = [], ImportPatched = False\<rparr> w of
                  (Inl e, w) \<Rightarrow> (Inl e, w)
                | (Inr r, w) \<Rightarrow>
                    (case patchProvidersImports G opts w of
                       (Inl e, w) \<Rightarrow> (Inl e, w)
                     | (Inr patched, w) \<Rightarrow>
                         (Inr \<lparr>Written = sort (Written r), Skipped = sort (Skipped r), ImportPatched = patched\<rparr>, w)))))"

definition exit_code :: "gen_err + 'a \<Rightarrow> int" where
  "exit_code r = (case r of Inr _ \<Rightarrow> 0 | Inl BadInput \<Rightarrow> 2 | Inl Failed \<Rightarrow> 1)"

definition runProviderNew ::
  "go_tools \<Rightarrow> ProviderTemplateFile list option \<Rightarrow> string option \<Rightarrow> providerNewOpts \<Rightarrow> 'z World_scheme \<Rightarrow> int \<times> 'z World_scheme" where
  "runProviderNew G templates wd opts w =
     (case validateProviderNewOpts wd opts of
        Inl e \<Rightarrow> (exit_code (Inl e :: gen_err + unit), w)
      | Inr opts \<Rightarrow> (case generateProviderScaffold G templates wd opts w of (r, w) \<Rightarrow> (exit_code r, w)))"

section \<open>What the generator leaves alone\<close>

lemma pathExists_world: "evolves p A w (snd (pathExists q w))" "files (snd (pathExists q w)) = files w" "past (snd (pathExists q w)) = past w"
  by (simp_all add: pathExists_def case_prod_beta)

lemma pathExists_some: "fst (pathExists q w) = Some b \<Longrightarrow> b = (files w q \<noteq> None)"
  by (auto simp: pathExists_def case_prod_beta split: if_splits)

lemma writeFile_other: "q \<noteq> p \<Longrightarrow> files w p \<in> A \<Longrightarrow> evolves p A w (snd (writeFile q body w))"
proof -
  assume a: "q \<noteq> p" "files w p \<in> A"
  obtain b w1 where s: "sys w = (b, w1)" by fastforce
  have e1: "evolves p A w w1" "files w1 p \<in> A" using a s evolves_sys [of p A w] sysD [OF s] by simp_all
  obtain c w2 where o: "os_write q (Blob []) w1 = (c, w2)" by fastforce
  have e2: "evolves p A w1 w2" using evolves_other(2) [OF a(1) e1(2), of "Blob []"] o by simp
  have "files w2 p \<in> A" using evolves_files [OF e2 e1(2)] .
  then have "evolves p A w2 (snd (os_write q (Blob body) w2))" by (rule evolves_other(2) [OF a(1)])
  then show ?thesis using s o e1 e2 by (auto simp: writeFile_def intro: evolves_trans split: bool.splits)
qed

lemma gen_files_keeps:
  assumes "files w p = Some c"
  shows "evolves p {Some c} w (snd (gen_files G opts fs r w))"
  using assms
proof (induction fs arbitrary: r w)
  case (Cons f fs)
  let ?dst = "absTemplatePath (pnoRepoRoot opts) (pnoName opts) f"
  obtain e w1 where e: "pathExists ?dst w = (e, w1)" by fastforce
  have w1: "evolves p {Some c} w w1" "files w1 p = Some c"
    using pathExists_world(1) [of p "{Some c}" w ?dst] pathExists_world(2) [of ?dst w] e Cons.prems by simp_all
  note go = Cons.IH [OF w1(2), THEN evolves_trans [OF w1(1)]]
  show ?case
  proof (cases "renderTemplate G f (buildTemplateData opts)")
    case (Some rendered)
    show ?thesis
    proof (cases "e = Some False \<and> \<not> pnoDryRun opts")
      case True
      then have ne: "?dst \<noteq> p" using pathExists_some [of ?dst w False] e Cons.prems by auto
      obtain b w2 where b: "writeFile ?dst rendered w1 = (b, w2)" by fastforce
      have w2: "evolves p {Some c} w1 w2" using writeFile_other [OF ne, of w1 "{Some c}" rendered] w1(2) b by simp
      have "files w2 p = Some c" using evolves_files [OF w2] w1(2) by simp
      from Cons.IH [OF this] w1(1) w2 show ?thesis
        using True Some e b by (auto simp: Let_def intro: evolves_trans split: bool.splits)
    next
      case False
      then show ?thesis using go w1(1) Some e by (auto simp: Let_def split: option.splits bool.splits)
    qed
  qed simp
qed simp

lemma patch_keeps:
  assumes "files w p = Some c" "p \<noteq> under (pnoRepoRoot opts) providersImportsGo"
  shows "evolves p {Some c} w (snd (patchProvidersImports G opts w))"
proof -
  let ?dst = "under (pnoRepoRoot opts) providersImportsGo"
  obtain e w1 where e: "pathExists ?dst w = (e, w1)" by fastforce
  have w1: "evolves p {Some c} w w1" "files w1 p = Some c"
    using pathExists_world(1) [of p "{Some c}" w ?dst] pathExists_world(2) [of ?dst w] e assms(1) by simp_all
  obtain q w2 where q: "os_ReadFile ?dst w1 = (q, w2)" by fastforce
  have w2: "evolves p {Some c} w w2" "files w2 p = Some c"
    using evolves_read [of p "{Some c}" w1 ?dst] q w1 evolves_trans evolves_files by fastforce+
  have put: "evolves p {Some c} w (snd (writeFile ?dst body v))" if "evolves p {Some c} w v" "files v p = Some c" for body v
    using writeFile_other [of ?dst p v "{Some c}" body] that assms(2) evolves_trans by fastforce
  show ?thesis using e q w1 w2 put
    by (auto simp: patchProvidersImports_def Let_def case_prod_beta split: option.splits bool.splits readout.splits content.splits)
qed

text \<open>Without a write nothing changes.\<close>

lemma gen_files_dry: "pnoDryRun opts \<Longrightarrow> files (snd (gen_files G opts fs r w)) = files w \<and> past (snd (gen_files G opts fs r w)) = past w"
proof (induction fs arbitrary: r w)
  case (Cons f fs)
  let ?dst = "absTemplatePath (pnoRepoRoot opts) (pnoName opts) f"
  obtain e w1 where e: "pathExists ?dst w = (e, w1)" by fastforce
  have "files w1 = files w" "past w1 = past w" using pathExists_world(2,3) [of ?dst w] e by simp_all
  then show ?case using Cons.IH [OF Cons.prems] Cons.prems e by (auto simp: Let_def split: option.splits bool.splits)
qed simp

lemma patch_dry:
  "pnoDryRun opts \<Longrightarrow> files (snd (patchProvidersImports G opts w)) = files w \<and> past (snd (patchProvidersImports G opts w)) = past w"
proof -
  assume d: "pnoDryRun opts"
  let ?dst = "under (pnoRepoRoot opts) providersImportsGo"
  obtain e w1 where e: "pathExists ?dst w = (e, w1)" by fastforce
  have w1: "files w1 = files w" "past w1 = past w" using pathExists_world(2,3) [of ?dst w] e by simp_all
  obtain q w2 where q: "os_ReadFile ?dst w1 = (q, w2)" by fastforce
  have "files w2 = files w1" "past w2 = past w1" using q by (auto simp: os_ReadFile_def split: prod.splits dest!: sysD)
  then show ?thesis using d e q w1
    by (auto simp: patchProvidersImports_def Let_def split: option.splits bool.splits readout.splits content.splits)
qed

section \<open>Validated options\<close>

lemma preset_trim: "p \<in> set supportedPresets \<Longrightarrow> trim_space p = p \<and> p \<noteq> []"
proof -
  assume p: "p \<in> set supportedPresets"
  then have "CHR 0x20 < c \<and> c < CHR 0x7F" if "c \<in> set p" for c
    using that by (auto simp: supportedPresets_def presetBlank_def presetCpanelUAPI_def presetDirectAdmin_def presetCyberPanel_def less_char_def)
  then show ?thesis using p trim_space_ascii [of p]
    by (auto simp: supportedPresets_def presetBlank_def presetCpanelUAPI_def presetDirectAdmin_def presetCyberPanel_def)
qed

lemma validated:
  assumes "validateProviderNewOpts wd opts = Inr v"
  shows "validateProviderNewOpts wd v = Inr v" "pnoDryRun v = pnoDryRun opts" "pnoName v = trim_space (pnoName opts)"
proof -
  define n where "n = trim_space (pnoName opts)"
  define q where "q = (if trim_space (pnoPreset opts) = [] then defaultPreset else trim_space (pnoPreset opts))"
  have *: "validateProviderNewOpts wd opts =
     (if n = [] then Inl BadInput else if \<not> match_string providerNamePattern n then Inl BadInput
      else if n \<in> set reservedProviderNames then Inl BadInput else if q \<notin> set supportedPresets then Inl BadInput
      else if pnoRepoRoot opts = [] then
        (case wd of None \<Rightarrow> Inl Failed | Some root \<Rightarrow> Inr (opts\<lparr>pnoName := n, pnoPreset := q, pnoRepoRoot := root\<rparr>))
      else Inr (opts\<lparr>pnoName := n, pnoPreset := q\<rparr>))"
    by (simp only: validateProviderNewOpts_def Let_def n_def q_def)
  have ok: "n \<noteq> []" "match_string providerNamePattern n" "n \<notin> set reservedProviderNames" "q \<in> set supportedPresets"
    using assms unfolding * by (simp_all split: if_split_asm)
  have v: "pnoName v = n" "pnoPreset v = q" "pnoDryRun v = pnoDryRun opts"
    "pnoRepoRoot v = [] \<Longrightarrow> wd = Some []"
    using assms ok unfolding * by (auto split: if_split_asm option.splits)
  have t: "trim_space n = n" by (simp add: n_def)
  show "pnoDryRun v = pnoDryRun opts" "pnoName v = trim_space (pnoName opts)" using v by (simp_all add: n_def)
  show "validateProviderNewOpts wd v = Inr v"
  proof (cases "pnoRepoRoot v = []")
    case True
    then have "v\<lparr>pnoName := n, pnoPreset := q, pnoRepoRoot := []\<rparr> = v" using v by simp
    then show ?thesis using True v ok t preset_trim [OF ok(4)] by (simp add: validateProviderNewOpts_def Let_def)
  next
    case False
    have "v\<lparr>pnoName := n, pnoPreset := q\<rparr> = v" using v by simp
    then show ?thesis using False v ok t preset_trim [OF ok(4)] by (simp add: validateProviderNewOpts_def Let_def)
  qed
qed

lemma run_validated:
  "validateProviderNewOpts wd opts = Inr v
     \<Longrightarrow> runProviderNew G templates wd opts w = (case generateProviderScaffold G templates wd v w of (r, w) \<Rightarrow> (exit_code r, w))"
  by (simp add: runProviderNew_def)

section \<open>Properties\<close>

text \<open>
  C26. The generator never touches a file that is there, except the import file: at every moment of a run, whatever system call fails,
  each other file keeps its content.
\<close>

theorem scaffold_keeps_files:
  assumes "validateProviderNewOpts wd opts = Inr v" "files w p = Some c" "p \<noteq> under (pnoRepoRoot v) providersImportsGo"
  shows "evolves p {Some c} w (snd (runProviderNew G templates wd opts w))"
proof (cases templates)
  case (Some fs)
  let ?r0 = "\<lparr>Written = [], Skipped = [], ImportPatched = False\<rparr>"
  obtain r w1 where g: "gen_files G v fs ?r0 w = (r, w1)" by fastforce
  have w1: "evolves p {Some c} w w1" using gen_files_keeps [OF assms(2), of G v fs ?r0] g by simp
  then have "files w1 p = Some c" using evolves_files assms(2) by fastforce
  from patch_keeps [OF this assms(3), of G] w1 have "evolves p {Some c} w (snd (patchProvidersImports G v w1))"
    by (rule evolves_trans [rotated])
  then show ?thesis using w1 g Some validated(1) [OF assms(1)]
    by (auto simp: run_validated [OF assms(1)] generateProviderScaffold_def split: sum.splits prod.splits)
qed (simp add: run_validated [OF assms(1)] generateProviderScaffold_def validated [OF assms(1)])

text \<open>A dry run changes no file, and neither does one with an invalid name or preset, the only case with exit code 2.\<close>

theorem scaffold_dry_run:
  assumes "pnoDryRun opts \<or> validateProviderNewOpts wd opts = Inl BadInput"
  shows "files (snd (runProviderNew G templates wd opts w)) = files w \<and> past (snd (runProviderNew G templates wd opts w)) = past w"
proof (cases "validateProviderNewOpts wd opts")
  case (Inr v)
  with assms have d: "pnoDryRun v" using validated(2) by auto
  show ?thesis
  proof (cases templates)
    case (Some fs)
    let ?r0 = "\<lparr>Written = [], Skipped = [], ImportPatched = False\<rparr>"
    obtain r w1 where g: "gen_files G v fs ?r0 w = (r, w1)" by fastforce
    show ?thesis
      using gen_files_dry [OF d, of G fs ?r0 w] patch_dry [OF d, of G w1] g Some validated(1) [OF Inr]
      by (auto simp: run_validated [OF Inr] generateProviderScaffold_def split: sum.splits prod.splits)
  qed (simp add: run_validated [OF Inr] generateProviderScaffold_def validated [OF Inr])
qed (simp add: runProviderNew_def)

lemma gen_files_error: "fst (gen_files G opts fs r w) = Inl e \<Longrightarrow> e = Failed"
  by (induction fs arbitrary: r w) (auto simp: Let_def split: option.splits prod.splits bool.splits if_split_asm)

lemma patch_error: "fst (patchProvidersImports G opts w) = Inl e \<Longrightarrow> e = Failed"
  by (auto simp: patchProvidersImports_def Let_def split: option.splits prod.splits bool.splits if_split_asm readout.splits content.splits)

theorem misuse_exit_code: "fst (runProviderNew G templates wd opts w) = 2 \<longleftrightarrow> validateProviderNewOpts wd opts = Inl BadInput"
proof (cases "validateProviderNewOpts wd opts")
  case (Inl e)
  then show ?thesis by (cases e) (simp_all add: runProviderNew_def exit_code_def)
next
  case (Inr v)
  have "fst (generateProviderScaffold G templates wd v w) \<noteq> Inl BadInput"
  proof (cases templates)
    case (Some fs)
    let ?r0 = "\<lparr>Written = [], Skipped = [], ImportPatched = False\<rparr>"
    obtain r w1 where g: "gen_files G v fs ?r0 w = (r, w1)" by fastforce
    obtain q w2 where q: "patchProvidersImports G v w1 = (q, w2)" by fastforce
    have "r \<noteq> Inl BadInput" "q \<noteq> Inl BadInput" using gen_files_error [of G v fs ?r0 w] patch_error [of G v w1] g q by auto
    then show ?thesis using Some g q validated(1) [OF Inr] by (auto simp: generateProviderScaffold_def split: sum.split)
  qed (simp add: generateProviderScaffold_def validated [OF Inr])
  then show ?thesis
    by (auto simp: run_validated [OF Inr] Inr exit_code_def split: prod.splits sum.splits gen_err.splits)
qed

text \<open>
  The import file is written anew from the provider imports alone: whatever else it held, other imports, comments or code, is gone,
  although the comment on \<open>extractBlankProviderImports\<close> says that foreign imports are preserved.
\<close>

theorem foreign_imports_lost:
  assumes "outcomes w = []" "\<not> pnoDryRun opts" "files w (under (pnoRepoRoot opts) providersImportsGo) = Some (Blob src)"
    and "extractBlankProviderImports G src = Some names" "pnoName opts \<notin> set names"
  shows "\<exists>w'. patchProvidersImports G opts w = (Inr True, w')
    \<and> files w' (under (pnoRepoRoot opts) providersImportsGo) = Some (Blob (renderProvidersImports G (sort (names @ [pnoName opts]))))"
  using assms
  by (simp add: patchProvidersImports_def Let_def pathExists_def os_ReadFile_def writeFile_def os_write_def set_file_def)

text \<open>A dry run reports a patch that was not made, although the comment on \<open>ImportPatched\<close> says that it is false then.\<close>

theorem dry_run_reports_patch:
  assumes "outcomes w = []" "pnoDryRun opts" "files w (under (pnoRepoRoot opts) providersImportsGo) = None"
  shows "patchProvidersImports G opts w = (Inr True, w)"
  using assms by (simp add: patchProvidersImports_def Let_def pathExists_def)

section \<open>Running it again\<close>

lemma pathExists_calm: "outcomes w = [] \<Longrightarrow> pathExists p w = (Some (files w p \<noteq> None), w)"
  by (simp add: pathExists_def)

lemma writeFile_calm:
  "outcomes w = [] \<Longrightarrow> \<exists>w'. writeFile p body w = (True, w') \<and> outcomes w' = [] \<and> files w' = (files w)(p := Some (Blob body))"
  by (simp add: writeFile_def os_write_def set_file_def Let_def)

definition text_file :: "content option \<Rightarrow> bool" where
  "text_file c \<longleftrightarrow> (\<forall>d. c \<noteq> Some (Doc d))"

text \<open>When no call fails and every template renders, all files are there afterwards.\<close>

lemma gen_files_calm:
  "outcomes w = [] \<Longrightarrow> \<not> pnoDryRun opts \<Longrightarrow> \<forall>f\<in>set fs. renderTemplate G f (buildTemplateData opts) \<noteq> None \<Longrightarrow>
   \<exists>r' w'. gen_files G opts fs r w = (Inr r', w') \<and> outcomes w' = [] \<and> (\<forall>p. files w p \<noteq> None \<longrightarrow> files w' p = files w p)
     \<and> (\<forall>f\<in>set fs. files w' (absTemplatePath (pnoRepoRoot opts) (pnoName opts) f) \<noteq> None)"
proof (induction fs arbitrary: r w)
  case (Cons f fs)
  let ?dst = "absTemplatePath (pnoRepoRoot opts) (pnoName opts) f"
  from Cons.prems(3) obtain body where b: "renderTemplate G f (buildTemplateData opts) = Some body" by auto
  obtain w1 where w: "writeFile ?dst body w = (True, w1)" "outcomes w1 = []" "files w1 = (files w)(?dst := Some (Blob body))"
    using writeFile_calm [OF Cons.prems(1)] by blast
  show ?case
  proof (cases "files w ?dst = None")
    case True
    with Cons.IH [OF w(2) Cons.prems(2)] Cons.prems(3) obtain r' w' where
      "gen_files G opts fs (r\<lparr>Written := Written r @ [rel_path (pnoName opts) f]\<rparr>) w1 = (Inr r', w')" "outcomes w' = []"
      "\<forall>p. files w1 p \<noteq> None \<longrightarrow> files w' p = files w1 p"
      "\<forall>f\<in>set fs. files w' (absTemplatePath (pnoRepoRoot opts) (pnoName opts) f) \<noteq> None"
      by (metis list.set_intros(2))
    then show ?thesis using b w True Cons.prems(1,2) by (auto simp: Let_def pathExists_calm)
  next
    case False
    with Cons.IH [OF Cons.prems(1,2)] Cons.prems(3) obtain r' w' where
      "gen_files G opts fs (r\<lparr>Skipped := Skipped r @ [rel_path (pnoName opts) f]\<rparr>) w = (Inr r', w')" "outcomes w' = []"
      "\<forall>p. files w p \<noteq> None \<longrightarrow> files w' p = files w p"
      "\<forall>f\<in>set fs. files w' (absTemplatePath (pnoRepoRoot opts) (pnoName opts) f) \<noteq> None"
      by (metis list.set_intros(2))
    then show ?thesis using b False Cons.prems(1) by (auto simp: Let_def pathExists_calm)
  qed
qed simp

lemma gen_files_skip:
  "outcomes w = [] \<Longrightarrow> \<forall>f\<in>set fs. renderTemplate G f (buildTemplateData opts) \<noteq> None \<Longrightarrow>
   \<forall>f\<in>set fs. files w (absTemplatePath (pnoRepoRoot opts) (pnoName opts) f) \<noteq> None \<Longrightarrow>
   gen_files G opts fs r w = (Inr (r\<lparr>Skipped := Skipped r @ map (rel_path (pnoName opts)) fs\<rparr>), w)"
proof (induction fs arbitrary: r)
  case (Cons f fs)
  then obtain body where "renderTemplate G f (buildTemplateData opts) = Some body" by auto
  with Cons show ?case by (simp add: Let_def pathExists_calm)
qed simp

text \<open>The import file lists the new name afterwards, if the parser finds the names that were written.\<close>

lemma patch_calm:
  assumes "outcomes w = []" "\<not> pnoDryRun opts" "\<And>names. list_all good names \<Longrightarrow> extractBlankProviderImports G (renderProvidersImports G names) = Some (sort names)"
    and "good ''smallhost''" "good (pnoName opts)" "text_file (files w (under (pnoRepoRoot opts) providersImportsGo))"
    and "\<And>s names. files w (under (pnoRepoRoot opts) providersImportsGo) = Some (Blob s) \<Longrightarrow> extractBlankProviderImports G s = Some names
      \<Longrightarrow> list_all good names"
    and "patchProvidersImports G opts w = (Inr patched, w')"
  shows "outcomes w' = []" "files w p \<noteq> None \<longrightarrow> files w' p \<noteq> None" "patchProvidersImports G opts w' = (Inr False, w')"
proof -
  let ?dst = "under (pnoRepoRoot opts) providersImportsGo"
  have again: "patchProvidersImports G opts v = (Inr False, v)"
    if "outcomes v = []" "files v ?dst = Some (Blob s)" "extractBlankProviderImports G s = Some names" "pnoName opts \<in> set names" for v s names
    using that by (simp add: patchProvidersImports_def Let_def pathExists_calm os_ReadFile_def)
  have *: "outcomes w' = [] \<and> (\<forall>p. files w p \<noteq> None \<longrightarrow> files w' p \<noteq> None) \<and> patchProvidersImports G opts w' = (Inr False, w')"
  proof (cases "files w ?dst")
    case None
    let ?names = "[''smallhost'', pnoName opts]"
    obtain v where v: "writeFile ?dst (renderProvidersImports G ?names) w = (True, v)" "outcomes v = []"
      "files v = (files w)(?dst := Some (Blob (renderProvidersImports G ?names)))"
      using writeFile_calm [OF assms(1)] by blast
    then have "w' = v" using assms(1,2,8) None by (simp add: patchProvidersImports_def Let_def pathExists_calm)
    moreover have "extractBlankProviderImports G (renderProvidersImports G ?names) = Some (sort ?names)" by (rule assms(3)) (simp add: assms)
    ultimately show ?thesis using v again [of v _ "sort ?names"] by simp
  next
    case (Some c)
    with assms(6) obtain s where s: "files w ?dst = Some (Blob s)" by (cases c) (auto simp: text_file_def)
    obtain names where n: "extractBlankProviderImports G s = Some names"
      using assms(1,8) s by (cases "extractBlankProviderImports G s") (simp_all add: patchProvidersImports_def Let_def pathExists_calm os_ReadFile_def)
    show ?thesis
    proof (cases "pnoName opts \<in> set names")
      case True
      from again [OF assms(1) s n True] assms(1,8) show ?thesis by simp
    next
      case False
      let ?names = "sort (names @ [pnoName opts])"
      obtain v where v: "writeFile ?dst (renderProvidersImports G ?names) w = (True, v)" "outcomes v = []"
        "files v = (files w)(?dst := Some (Blob (renderProvidersImports G ?names)))"
        using writeFile_calm [OF assms(1)] by blast
      then have "w' = v" using assms(1,2,8) s n False by (simp add: patchProvidersImports_def Let_def pathExists_calm os_ReadFile_def)
      moreover have "list_all good ?names" using assms(7) [OF s n] assms(5) by (simp add: list_all_iff)
      from assms(3) [OF this] have "extractBlankProviderImports G (renderProvidersImports G ?names) = Some (sort ?names)" .
      ultimately show ?thesis using v again [of v _ "sort ?names"] by simp
    qed
  qed
  then show "outcomes w' = []" "files w p \<noteq> None \<longrightarrow> files w' p \<noteq> None" "patchProvidersImports G opts w' = (Inr False, w')" by blast+
qed

text \<open>
  A second run changes nothing: after a run in which no system call failed, the same command writes no file, reports every template
  as skipped and the import as present.
\<close>

theorem scaffold_idempotent:
  assumes "outcomes w = []" "\<not> pnoDryRun opts" "validateProviderNewOpts wd opts = Inr v"
    and "\<forall>f\<in>set fs. renderTemplate G f (buildTemplateData v) \<noteq> None"
    and law: "\<And>names. list_all good names \<Longrightarrow> extractBlankProviderImports G (renderProvidersImports G names) = Some (sort names)"
    and good: "good ''smallhost''" "good (pnoName v)"
    and src: "files w (under (pnoRepoRoot v) providersImportsGo) = Some (Blob s)" "extractBlankProviderImports G s = Some present"
      "list_all good present"
    and run: "generateProviderScaffold G (Some fs) wd opts w = (Inr r, w')"
  shows "generateProviderScaffold G (Some fs) wd opts w'
     = (Inr \<lparr>Written = [], Skipped = sort (map (rel_path (pnoName v)) fs), ImportPatched = False\<rparr>, w')"
proof -
  let ?r0 = "\<lparr>Written = [], Skipped = [], ImportPatched = False\<rparr>"
  have d: "\<not> pnoDryRun v" using validated(2) [OF assms(3)] assms(2) by simp
  obtain r1 w1 where g: "gen_files G v fs ?r0 w = (Inr r1, w1)" "outcomes w1 = []"
    "\<forall>p. files w p \<noteq> None \<longrightarrow> files w1 p = files w p" "\<forall>f\<in>set fs. files w1 (absTemplatePath (pnoRepoRoot v) (pnoName v) f) \<noteq> None"
    using gen_files_calm [OF assms(1) d assms(4), of ?r0] by blast
  have f: "files w1 (under (pnoRepoRoot v) providersImportsGo) = Some (Blob s)" using g(3) src(1) by simp
  obtain patched where p: "patchProvidersImports G v w1 = (Inr patched, w')"
    using run g assms(3) by (auto simp: generateProviderScaffold_def split: prod.splits sum.splits)
  have bl: "list_all good names"
    if "files w1 (under (pnoRepoRoot v) providersImportsGo) = Some (Blob s')" "extractBlankProviderImports G s' = Some names" for s' names
    using that f src by simp
  have t: "text_file (files w1 (under (pnoRepoRoot v) providersImportsGo))" by (simp add: f text_file_def)
  have calm: "outcomes w' = []" by (rule patch_calm(1) [where good = good, OF g(2) d law good t bl p])
  have again: "patchProvidersImports G v w' = (Inr False, w')" by (rule patch_calm(3) [where good = good, OF g(2) d law good t bl p])
  have "files w1 q \<noteq> None \<longrightarrow> files w' q \<noteq> None" for q by (rule patch_calm(2) [where good = good, OF g(2) d law good t bl p])
  with g(4) have "\<forall>f\<in>set fs. files w' (absTemplatePath (pnoRepoRoot v) (pnoName v) f) \<noteq> None" by blast
  from gen_files_skip [OF calm assms(4) this]
  have "gen_files G v fs ?r0 w' = (Inr (?r0\<lparr>Skipped := map (rel_path (pnoName v)) fs\<rparr>), w')" by simp
  then show ?thesis using assms(3) again by (simp add: generateProviderScaffold_def)
qed

section \<open>Witness\<close>

definition plain_tools :: go_tools where
  "plain_tools = \<lparr>gtExecute = (\<lambda>body _. Some body), gtFormat = Some, gtImports = (\<lambda>_. Some [])\<rparr>"

definition doc_template :: ProviderTemplateFile where
  "doc_template = \<lparr>RelPath = ''doc.go'', Root = RootPackage, Body = ''package x''\<rparr>"

definition acme :: providerNewOpts where
  "acme = \<lparr>pnoName = ''acme'', pnoPreset = [], pnoDryRun = False, pnoRepoRoot = []\<rparr>"

definition worked_on :: "unit World_scheme" where
  "worked_on = \<lparr>files = (\<lambda>_. None)(''/repo/providers/acme/doc.go'' := Some (Blob ''mine'')), outcomes = [True, False], rnds = [], pid = 1,
     clock = (\<lambda>_. zero_time), ticks = 0, past = []\<rparr>"

lemma acme_valid:
  "validateProviderNewOpts (Some ''/repo'') acme = Inr (acme\<lparr>pnoPreset := ''blank'', pnoRepoRoot := ''/repo''\<rparr>)"
proof -
  have "trim_space ''acme'' = ''acme''" by (rule trim_space_ascii) (auto simp: less_char_def)
  moreover have "match_string providerNamePattern ''acme''" by code_simp
  ultimately show ?thesis
    by (simp add: validateProviderNewOpts_def acme_def reservedProviderNames_def supportedPresets_def defaultPreset_def presetBlank_def)
qed

theorem scaffold_keeps_files_witness:
  "evolves ''/repo/providers/acme/doc.go'' {Some (Blob ''mine'')} worked_on
     (snd (runProviderNew plain_tools (Some [doc_template]) (Some ''/repo'') acme worked_on))"
  by (rule scaffold_keeps_files [OF acme_valid]) (simp_all add: worked_on_def under_def providersImportsGo_def acme_def)

end
