(* ===== verification/Doctor.thy ===== *)
theory Doctor
  imports Log_Redact Config_Store Secrets
begin

text \<open>
  The diagnosis (\<open>src/services/doctor/doctor.go\<close>, \<open>check.go\<close>, \<open>github.go\<close>): the six default checks, the four GitHub checks, the
  report with its counts, its text, and the exit code.

  \<^item> \<open>dependencies\<close> and \<open>GitHubDeps\<close> are the seams of the code. An error is its chain with its text, as the messages print it.
  \<^item> The probe file of the directory check goes through the file system of \<open>World\<close>, where every call can fail.
  \<^item> The \<open>isTerminal\<close> test and the escape codes of the colours are the library's: \<open>paint\<close> stands for them.
\<close>

section \<open>Results and reports (check.go)\<close>

datatype Severity = SeverityInfo | SeverityWarn | SeverityFatal
datatype Status = StatusOK | StatusWarn | StatusFail | StatusSkipped

record Result =
  ID :: string
  Category :: string
  Severity :: Severity
  Status :: Status
  Message :: string
  Hint :: string

record Summary =
  smOK :: int
  smWarn :: int
  smFail :: int
  smSkipped :: int

record Platform =
  plOS :: string
  plArch :: string
  plGoVersion :: string

record Report =
  rpSchemaVersion :: int
  rpGeneratedAt :: time_text
  rpWeboxVersion :: string
  rpPlatform :: Platform
  rpChecks :: "Result list"
  rpSummary :: Summary

type_synonym 'z Check = "'z World_scheme \<Rightarrow> Result \<times> 'z World_scheme"

section \<open>Running (doctor.go)\<close>

definition reportSchemaVersion :: int where "reportSchemaVersion = 1"
definition exitWarn :: int where "exitWarn = 1"
definition exitFail :: int where "exitFail = 2"
definition ownerOnlyPerm :: nat where "ownerOnlyPerm = 384"  \<comment> \<open>0o600\<close>

definition ExitCode :: "Report \<Rightarrow> int" where
  "ExitCode report =
     (if smFail (rpSummary report) > 0 then exitFail else if smWarn (rpSummary report) > 0 then exitWarn else 0)"

record Options =
  oWeboxVersion :: string
  oPlatform :: Platform

text \<open>\<open>rt\<close> is what the running program answers for an option that is left empty.\<close>

definition New :: "Options \<Rightarrow> Options \<Rightarrow> Options" where
  "New rt opts =
     (let or = \<lambda>a b. if a = [] then b else a; p = oPlatform opts; q = oPlatform rt in
      \<lparr>oWeboxVersion = or (oWeboxVersion opts) (oWeboxVersion rt),
       oPlatform = \<lparr>plOS = or (plOS p) (plOS q), plArch = or (plArch p) (plArch q),
                    plGoVersion = or (plGoVersion p) (plGoVersion q)\<rparr>\<rparr>)"

definition tally :: "Status \<Rightarrow> Summary \<Rightarrow> Summary" where
  "tally st s =
     (case st of
        StatusOK \<Rightarrow> s\<lparr>smOK := smOK s + 1\<rparr>
      | StatusWarn \<Rightarrow> s\<lparr>smWarn := smWarn s + 1\<rparr>
      | StatusFail \<Rightarrow> s\<lparr>smFail := smFail s + 1\<rparr>
      | StatusSkipped \<Rightarrow> s\<lparr>smSkipped := smSkipped s + 1\<rparr>)"

fun run_checks :: "'z Check list \<Rightarrow> Result list \<Rightarrow> Summary \<Rightarrow> 'z World_scheme \<Rightarrow> (Result list \<times> Summary) \<times> 'z World_scheme" where
  "run_checks [] rs s w = ((rs, s), w)"
| "run_checks (c # cs) rs s w = (case c w of (r, w) \<Rightarrow> run_checks cs (rs @ [r]) (tally (Status r) s) w)"

definition Run :: "Options \<Rightarrow> 'z Check list \<Rightarrow> 'z World_scheme \<Rightarrow> Report \<times> 'z World_scheme" where
  "Run opts checks w =
     (case utc_now w of (now, w) \<Rightarrow>
        (case run_checks checks [] \<lparr>smOK = 0, smWarn = 0, smFail = 0, smSkipped = 0\<rparr> w of
           ((rs, s), w) \<Rightarrow>
             (\<lparr>rpSchemaVersion = reportSchemaVersion, rpGeneratedAt = now, rpWeboxVersion = oWeboxVersion opts,
               rpPlatform = oPlatform opts, rpChecks = rs, rpSummary = s\<rparr>, w)))"

section \<open>The text of a report\<close>

datatype Attribute = FgGreen | FgYellow | FgRed | FgBlue

definition statusLabel :: "Status \<Rightarrow> string \<times> Attribute" where
  "statusLabel st =
     (case st of
        StatusOK \<Rightarrow> (''OK'', FgGreen)
      | StatusWarn \<Rightarrow> (''WARN'', FgYellow)
      | StatusFail \<Rightarrow> (''FAIL'', FgRed)
      | StatusSkipped \<Rightarrow> (''SKIP'', FgBlue))"

definition writeTextCheck :: "(Attribute \<Rightarrow> string \<Rightarrow> string) \<Rightarrow> bool \<Rightarrow> Result \<Rightarrow> string" where
  "writeTextCheck paint useColor check =
     (case statusLabel (Status check) of (label, attr) \<Rightarrow>
        (let tag = ''['' @ label @ ''] '' in if useColor then paint attr tag else tag)
        @ ID check @ '': '' @ Message check
        @ (if Hint check \<noteq> [] then '' (hint: '' @ Hint check @ '')'' else [])
        @ [CHR 0x0A])"

definition WriteText :: "(Attribute \<Rightarrow> string \<Rightarrow> string) \<Rightarrow> (time_text \<Rightarrow> string) \<Rightarrow> bool \<Rightarrow> Report \<Rightarrow> string" where
  "WriteText paint stamp useColor report =
     ''webox doctor'' @ [CHR 0x0A]
     @ ''version: '' @ rpWeboxVersion report @ [CHR 0x0A]
     @ ''platform: '' @ plOS (rpPlatform report) @ ''/'' @ plArch (rpPlatform report) @ '' ''
     @ plGoVersion (rpPlatform report) @ [CHR 0x0A]
     @ ''generated_at: '' @ stamp (rpGeneratedAt report) @ [CHR 0x0A, CHR 0x0A]
     @ concat (map (writeTextCheck paint useColor) (rpChecks report))
     @ [CHR 0x0A] @ ''summary: '' @ itoa (smOK (rpSummary report)) @ '' ok, '' @ itoa (smWarn (rpSummary report)) @ '' warn, ''
     @ itoa (smFail (rpSummary report)) @ '' fail, '' @ itoa (smSkipped (rpSummary report)) @ '' skipped'' @ [CHR 0x0A]"

section \<open>The default checks (doctor.go)\<close>

text \<open>What \<open>os.Stat\<close> answers: the permission bits and whether the file is a socket, or an error.\<close>

datatype stat_answer = StatErr terr | FileInfo nat bool

definition errNotExist :: sentinel where "errNotExist = Foreign 3"

record dependencies =
  lookupEnv :: "string \<Rightarrow> string option"
  userConfigDir :: "terr + string"
  mkdirAll :: "string \<Rightarrow> terr option"
  randomNames :: "nat \<Rightarrow> string"
  createTempErr :: string
  stat :: "string \<Rightarrow> stat_answer"
  detectSecrets :: "terr option"  \<comment> \<open>\<open>None\<close>: a backend\<close>
  goVersion :: string

definition createTempTries :: nat where "createTempTries = 10000"

text \<open>\<open>os.CreateTemp(dir, "doctor-*")\<close>: a name that is taken is skipped, up to the number of tries.\<close>

fun createTemp :: "(nat \<Rightarrow> string) \<Rightarrow> string \<Rightarrow> nat \<Rightarrow> 'z World_scheme \<Rightarrow> string option \<times> 'z World_scheme" where
  "createTemp names dir 0 w = (None, w)"
| "createTemp names dir (Suc n) w =
     (case sys w of (ok, w) \<Rightarrow>
        if \<not> ok then (None, w)
        else let name = dir @ ''/doctor-'' @ names n in
             if files w name \<noteq> None then createTemp names dir n w
             else (Some name, set_file name (Some (Blob [])) w))"

definition resolveConfigDir :: "dependencies \<Rightarrow> terr + string" where
  "resolveConfigDir d =
     (case lookupEnv d ''XDG_CONFIG_HOME'' of
        Some (c # xdg) \<Rightarrow> Inr (fp_Join (c # xdg) ''webox'')
      | _ \<Rightarrow> (case userConfigDir d of Inl e \<Rightarrow> Inl e | Inr dir \<Rightarrow> Inr (fp_Join dir ''webox'')))"

definition secretsMasterPasswordOnWorkstation :: "(string \<Rightarrow> string option) \<Rightarrow> bool" where
  "secretsMasterPasswordOnWorkstation env =
     (\<not> list_ex (\<lambda>k. case env k of None \<Rightarrow> False | Some v \<Rightarrow> v \<notin> {[], ''false'', ''0''}) [''CI'', ''GITHUB_ACTIONS'', ''GITLAB_CI'']
      \<and> list_ex (\<lambda>k. case env k of None \<Rightarrow> False | Some v \<Rightarrow> v \<noteq> []) [''SSH_CLIENT'', ''DISPLAY'', ''XDG_SESSION_TYPE''])"

definition octal4 :: "nat \<Rightarrow> string" where
  "octal4 p = map (\<lambda>k. digit_char (p div k mod 8)) [512, 64, 8, 1]"

abbreviation check_result :: "string \<Rightarrow> string \<Rightarrow> Severity \<Rightarrow> Status \<Rightarrow> string \<Rightarrow> string \<Rightarrow> Result" where
  "check_result cat name sev st msg hint \<equiv>
     \<lparr>ID = cat @ ''.'' @ name, Category = cat, Severity = sev, Status = st, Message = msg, Hint = hint\<rparr>"

definition check_go_version :: "dependencies \<Rightarrow> Result" where
  "check_go_version d =
     check_result ''system'' ''go_version'' SeverityInfo StatusOK (''Go runtime available: '' @ goVersion d) []"

definition check_config_dir :: "dependencies \<Rightarrow> 'z Check" where
  "check_config_dir d w =
     (let res = check_result ''system'' ''config_dir_writable'' SeverityFatal in
      case resolveConfigDir d of
        Inl e \<Rightarrow> (res StatusFail (''Could not resolve Webox config directory: '' @ snd e)
                    ''Verify HOME / XDG_CONFIG_HOME and rerun `webox doctor`.'', w)
      | Inr configDir \<Rightarrow>
      (case mkdirAll d configDir of
        Some e \<Rightarrow> (res StatusFail (''Config directory '' @ configDir @ '' is not writable: '' @ snd e)
                     ''Fix permissions on the parent config directory.'', w)
      | None \<Rightarrow>
      (case createTemp (randomNames d) configDir createTempTries w of
        (None, w) \<Rightarrow> (res StatusFail (''Config directory '' @ configDir @ '' rejected a write probe: '' @ createTempErr d)
                        ''Ensure the current user can create files inside the Webox config dir.'', w)
      | (Some probePath, w) \<Rightarrow>
          (case os_remove probePath w of (_, w) \<Rightarrow>
             (res StatusOK (''Config directory '' @ configDir @ '' is writable.'') [], w)))))"

definition check_secrets_backend :: "dependencies \<Rightarrow> Result" where
  "check_secrets_backend d =
     (let res = check_result ''security'' ''secrets_backend'' in
      case detectSecrets d of
        None \<Rightarrow> res SeverityInfo StatusOK ''Secrets backend: os (system keyring available).'' []
      | Some (e, text) \<Rightarrow>
          if errors_is e (SecretsE ErrKeyringUnavailable) then
            res SeverityWarn StatusWarn ''Secrets backend: fallback (OS keyring unavailable).''
              ''This is expected on headless Linux / Docker / WSL. Webox will use secrets.enc with a master password.''
          else if errors_is e (SecretsE ErrBrokenKeyring) then
            res SeverityWarn StatusWarn ''Secrets backend: none (OS keyring probe write/read failed).''
              ''Inspect the desktop keychain service or switch to the encrypted fallback store.''
          else
            res SeverityFatal StatusFail (''Secrets backend: none (unexpected detection error: '' @ text @ '').'')
              ''Investigate the local keyring integration before trusting secret storage.'')"

definition check_master_password :: "dependencies \<Rightarrow> Result" where
  "check_master_password d =
     (let res = check_result ''security'' ''master_password_env'' in
      case lookupEnv d MasterPasswordEnv of
        Some (_ # _) \<Rightarrow>
          if secretsMasterPasswordOnWorkstation (lookupEnv d) then
            res SeverityWarn StatusWarn ''WEBOX_MASTER_PASSWORD is set on a workstation-like environment.''
              ''Prefer interactive unlock; this env var is only safe on ephemeral CI runners.''
          else res SeverityInfo StatusOK ''WEBOX_MASTER_PASSWORD is set in a CI-like environment.'' []
      | _ \<Rightarrow> res SeverityInfo StatusSkipped ''WEBOX_MASTER_PASSWORD is not set.'' [])"

definition check_secrets_perms :: "dependencies \<Rightarrow> Result" where
  "check_secrets_perms d =
     (let res = check_result ''security'' ''secrets_file_perms'' in
      case resolveConfigDir d of
        Inl e \<Rightarrow> res SeverityWarn StatusWarn (''Could not resolve secrets.enc path: '' @ snd e)
                   ''Verify HOME / XDG_CONFIG_HOME before using the encrypted fallback store.''
      | Inr configDir \<Rightarrow>
          (let secretsPath = fp_Join configDir ''secrets.enc'' in
           case stat d secretsPath of
             StatErr (e, text) \<Rightarrow>
               if errors_is e errNotExist then res SeverityInfo StatusSkipped (secretsPath @ '' is not present.'') []
               else res SeverityWarn StatusWarn (''Could not stat '' @ secretsPath @ '': '' @ text)
                      ''Check filesystem permissions before relying on the fallback secrets store.''
           | FileInfo perm _ \<Rightarrow>
               if perm \<noteq> ownerOnlyPerm then
                 res SeverityWarn StatusWarn (secretsPath @ '' permissions are '' @ octal4 perm @ '', expected 0600.'')
                   (''Run `chmod 600 '' @ secretsPath @ ''`.'')
               else res SeverityInfo StatusOK (secretsPath @ '' permissions are 0600.'') []))"

definition check_agent_socket :: "dependencies \<Rightarrow> Result" where
  "check_agent_socket d =
     (let res = check_result ''system'' ''ssh_agent_socket'' in
      case lookupEnv d ''SSH_AUTH_SOCK'' of
        Some (c # cs) \<Rightarrow>
          (let socketPath = c # cs in
           case stat d socketPath of
             StatErr (e, text) \<Rightarrow>
               if errors_is e errNotExist then
                 res SeverityWarn StatusWarn (''SSH agent socket '' @ socketPath @ '' does not exist.'')
                   ''Start an SSH agent or unset SSH_AUTH_SOCK if you rely on direct key files instead.''
               else res SeverityWarn StatusWarn (''Could not stat SSH agent socket '' @ socketPath @ '': '' @ text)
                      ''Verify SSH_AUTH_SOCK or your local SSH agent setup.''
           | FileInfo _ socket \<Rightarrow>
               if \<not> socket then
                 res SeverityWarn StatusWarn (''SSH_AUTH_SOCK points at '' @ socketPath @ '', but it is not a socket.'')
                   ''Verify that your shell exports the real SSH agent socket path.''
               else res SeverityInfo StatusOK (''SSH agent socket available at '' @ socketPath @ ''.'') [])
      | _ \<Rightarrow> res SeverityInfo StatusSkipped ''SSH_AUTH_SOCK is not set.'' [])"

definition defaultChecks :: "dependencies \<Rightarrow> 'z Check list" where
  "defaultChecks d =
     [Pair (check_go_version d), check_config_dir d, Pair (check_secrets_backend d), Pair (check_master_password d),
      Pair (check_secrets_perms d), Pair (check_agent_socket d)]"

section \<open>The GitHub checks (github.go)\<close>

record GitHubRateLimit =
  grLimit :: int
  grRemaining :: int
  grReset :: int

record GitHubDeps =
  LookupGH :: "terr + string"
  AuthStatus :: "terr + string"
  RateLimit :: "terr + GitHubRateLimit option"
  PATPresent :: "terr + bool"

definition authStatusOneLineCap :: nat where "authStatusOneLineCap = 240"

text \<open>\<open>strings.Split(line, sep)\<close> has two parts exactly when the separator occurs once: before and after it.\<close>

fun cut_at :: "string \<Rightarrow> string \<Rightarrow> (string \<times> string) option" where
  "cut_at sep [] = None"
| "cut_at sep (c # s) =
     (if has_prefix (c # s) sep then Some ([], drop (length sep) (c # s))
      else map_option (\<lambda>(a, b). (c # a, b)) (cut_at sep s))"

definition parseAccountClause :: "string \<Rightarrow> string \<Rightarrow> string" where
  "parseAccountClause line sep =
     (case cut_at sep line of
        None \<Rightarrow> []
      | Some (_, rest) \<Rightarrow> if contains rest sep then [] else takeWhile (\<lambda>c. c \<noteq> CHR '' '') rest)"

definition stripStatusGlyph :: "string \<Rightarrow> string" where
  "stripStatusGlyph line =
     (case find (has_prefix line) [[CHR 0xE2, CHR 0x9C, CHR 0x93], ''x''] of
        Some glyph \<Rightarrow> trim_space (trim_prefix line glyph)
      | None \<Rightarrow> line)"

fun account_of_lines :: "string list \<Rightarrow> string" where
  "account_of_lines [] = []"
| "account_of_lines (line # lines) =
     (let trimmed = stripStatusGlyph (trim_space line) in
      if \<not> has_prefix trimmed ''Logged in to'' then account_of_lines lines
      else let account = parseAccountClause trimmed '' account '' in
           if account \<noteq> [] then account
           else let account = parseAccountClause trimmed '' as '' in
                if account \<noteq> [] then account else account_of_lines lines)"

definition parseGHAccount :: "string \<Rightarrow> string" where
  "parseGHAccount raw = account_of_lines (split_char CHR 0x0A raw)"

definition trimOneLine :: "string \<Rightarrow> string" where
  "trimOneLine s0 =
     (let s = trim_space (replace_all s0 [CHR 0x0A] '' '') in
      if length s > authStatusOneLineCap then take authStatusOneLineCap s @ ''...'' else s)"

definition saturate :: "int \<Rightarrow> int" where
  "saturate n = (if n > 9223372036854775807 then 9223372036854775807 else if n < - 9223372036854775808 then - 9223372036854775808 else n)"

text \<open>\<open>now\<close> in nanoseconds since the epoch; a duration saturates. Whole minutes and hours are read off the duration.\<close>

definition formatResetWindow :: "int \<Rightarrow> int \<Rightarrow> string" where
  "formatResetWindow now epoch =
     (if epoch \<le> 0 then ''unknown''
      else let delta = saturate (epoch * 1000000000 - now); minutes = delta div 60000000000 in
           if delta < 0 then ''now''
           else if delta < 60000000000 then ''less than 1m''
           else if delta < 3600000000000 then ''in '' @ itoa minutes @ ''m''
           else ''in '' @ itoa (minutes div 60) @ ''h''
             @ (let m = itoa (minutes mod 60) in if length m < 2 then ''0'' @ m else m) @ ''m'')"

text \<open>
  The quota is low when the ratio is below one tenth; on the quotas GitHub answers (far below \<open>2 ^ 50\<close>) the comparison of the
  floating-point quotient with 0.1 is the comparison of the fractions.
\<close>

definition low_quota :: "GitHubRateLimit \<Rightarrow> bool" where
  "low_quota l \<longleftrightarrow> (if grLimit l > 0 then 10 * grRemaining l < grLimit l else 10 * grRemaining l > grLimit l)"

definition checkGHCLI :: "GitHubDeps \<Rightarrow> Result" where
  "checkGHCLI deps =
     (let res = check_result ''github'' ''gh_cli_available'';
          missing = res SeverityWarn StatusWarn ''gh CLI not found on PATH.''
            ''Install with `brew install gh` or see https://cli.github.com/. Webox can fall back to a PAT stored in the keyring.''
      in case LookupGH deps of
           Inl e \<Rightarrow> missing
         | Inr path \<Rightarrow> if path = [] then missing
                       else res SeverityInfo StatusOK (''gh CLI present at '' @ path @ ''.'') [])"

definition checkGHAuthStatus :: "GitHubDeps \<Rightarrow> Result" where
  "checkGHAuthStatus deps =
     (let res = check_result ''github'' ''gh_auth_status'' in
      case AuthStatus deps of
        Inl e \<Rightarrow> res SeverityWarn StatusWarn ''gh auth status unavailable.''
                   ''Run `gh auth login` or store a PAT under the `github:pat:default` keyring slot.''
      | Inr raw \<Rightarrow>
          (let account = parseGHAccount raw; redacted = Redact raw in
           if account = [] then
             res SeverityWarn StatusWarn ''gh CLI returned status but no active account was parsed.'' (trimOneLine redacted)
           else res SeverityInfo StatusOK (''gh CLI authenticated as '' @ account @ ''.'') []))"

definition checkRateLimit :: "int \<Rightarrow> GitHubDeps \<Rightarrow> Result" where
  "checkRateLimit now deps =
     (let res = check_result ''github'' ''api_rate_limit''; nothing = res SeverityInfo StatusSkipped ''GitHub /rate_limit returned no data.'' []
      in case RateLimit deps of
           Inl e \<Rightarrow> res SeverityWarn StatusWarn (''GitHub /rate_limit probe failed: '' @ Redact (snd e))
                      ''Verify network access to api.github.com or refresh the gh / PAT credentials.''
         | Inr None \<Rightarrow> nothing
         | Inr (Some limit) \<Rightarrow>
             if grLimit limit = 0 then nothing
             else let msg = ''GitHub rate limit: '' @ itoa (grRemaining limit) @ '' / '' @ itoa (grLimit limit)
                        @ '' remaining (reset '' @ formatResetWindow now (grReset limit) @ '').''
                  in if low_quota limit then
                       res SeverityWarn StatusWarn msg ''Below 10% of quota; back off or rotate the token until the reset window.''
                     else res SeverityInfo StatusOK msg [])"

definition checkPATSlot :: "GitHubDeps \<Rightarrow> Result" where
  "checkPATSlot deps =
     (let res = check_result ''github'' ''pat_keyring_slot'' in
      case PATPresent deps of
        Inl (e, text) \<Rightarrow>
          if errors_is e (SecretsE ErrKeyringUnavailable) then
            res SeverityInfo StatusSkipped ''Secrets backend unavailable; PAT slot not inspected.''
              ''Run `webox doctor` to confirm the secrets backend status (keyring vs encrypted fallback).''
          else res SeverityWarn StatusWarn (''PAT slot probe failed: '' @ Redact text)
                 ''Inspect the secrets backend with `webox doctor` before re-running this check.''
      | Inr present \<Rightarrow>
          if present then res SeverityInfo StatusOK ''GitHub PAT found in the secrets backend.'' []
          else res SeverityInfo StatusSkipped ''No GitHub PAT stored. Webox will rely on `gh auth` for API calls.'' [])"

definition githubChecks :: "int \<Rightarrow> GitHubDeps \<Rightarrow> 'z Check list" where
  "githubChecks now deps =
     [Pair (checkGHCLI deps), Pair (checkGHAuthStatus deps), Pair (checkRateLimit now deps), Pair (checkPATSlot deps)]"

text \<open>\<open>parseRateLimit\<close> after \<open>json.Unmarshal\<close> has read the bytes: the outer \<open>None\<close> is its error, the inner the missing data.\<close>

definition rate_limit_of :: "json \<Rightarrow> GitHubRateLimit option" where
  "rate_limit_of j =
     (case jmembers j of
        None \<Rightarrow> None
      | Some kvs \<Rightarrow>
          (case (jint (jget ''limit'' kvs), jint (jget ''remaining'' kvs), jint (jget ''reset'' kvs)) of
             (Some l, Some r, Some t) \<Rightarrow> Some \<lparr>grLimit = l, grRemaining = r, grReset = t\<rparr>
           | _ \<Rightarrow> None))"

definition parseRateLimit :: "json \<Rightarrow> GitHubRateLimit option option" where
  "parseRateLimit doc =
     (case jmembers doc of
        None \<Rightarrow> None
      | Some root \<Rightarrow>
     (case jmembers (jget ''resources'' root) of
        None \<Rightarrow> None
      | Some resources \<Rightarrow>
     (case rate_limit_of (jget ''core'' resources) of
        None \<Rightarrow> None
      | Some core \<Rightarrow> Some (if grLimit core = 0 then None else Some core))))"

section \<open>Counts and exit code\<close>

definition with_status :: "Status \<Rightarrow> Result list \<Rightarrow> int" where
  "with_status st rs = int (length (filter (\<lambda>r. Status r = st) rs))"

definition summary_of :: "Result list \<Rightarrow> Summary" where
  "summary_of rs =
     \<lparr>smOK = with_status StatusOK rs, smWarn = with_status StatusWarn rs, smFail = with_status StatusFail rs,
      smSkipped = with_status StatusSkipped rs\<rparr>"

lemma summary_Nil: "summary_of [] = \<lparr>smOK = 0, smWarn = 0, smFail = 0, smSkipped = 0\<rparr>"
  by (simp add: summary_of_def with_status_def)

lemma tally_summary: "tally (Status r) (summary_of rs) = summary_of (rs @ [r])"
  by (cases "Status r") (simp_all add: tally_def summary_of_def with_status_def)

lemma run_checks_summary:
  "run_checks cs rs0 (summary_of rs0) w = ((rs, s), w') \<Longrightarrow> s = summary_of rs \<and> length rs = length rs0 + length cs"
  by (induction cs arbitrary: rs0 w) (auto simp: tally_summary split: prod.splits)

lemma with_status_pos: "0 < with_status st rs \<longleftrightarrow> (\<exists>r\<in>set rs. Status r = st)"
  by (auto simp: with_status_def filter_empty_conv)

lemma ExitCode_iff:
  assumes "rpSummary report = summary_of (rpChecks report)"
  shows "ExitCode report = (if \<exists>r\<in>set (rpChecks report). Status r = StatusFail then 2
       else if \<exists>r\<in>set (rpChecks report). Status r = StatusWarn then 1 else 0)"
  using assms with_status_pos [of StatusFail "rpChecks report"] with_status_pos [of StatusWarn "rpChecks report"]
  by (simp add: ExitCode_def exitFail_def exitWarn_def summary_of_def)

lemma Run_summary:
  "rpSummary (fst (Run opts checks w)) = summary_of (rpChecks (fst (Run opts checks w)))
    \<and> length (rpChecks (fst (Run opts checks w))) = length checks"
  by (auto simp: Run_def summary_Nil [symmetric] split: prod.splits dest!: run_checks_summary)

text \<open>
  Every check gets one result, the summary counts the results, and the exit code says the worst of them: 2 when a check failed,
  else 1 when one warned, else 0.
\<close>

theorem Run_report:
  "let report = fst (Run opts checks w) in
   length (rpChecks report) = length checks \<and> rpSummary report = summary_of (rpChecks report)
   \<and> ExitCode report = (if \<exists>r\<in>set (rpChecks report). Status r = StatusFail then 2
       else if \<exists>r\<in>set (rpChecks report). Status r = StatusWarn then 1 else 0)"
  using Run_summary [of opts checks w] ExitCode_iff by (simp add: Let_def)

section \<open>What the diagnosis leaves behind\<close>

lemma createTemp_None: "createTemp names dir n w = (None, w') \<Longrightarrow> files w' = files w"
  by (induction names dir n w rule: createTemp.induct) (auto simp: Let_def split: prod.splits if_splits dest!: sysD)

lemma createTemp_Some:
  "createTemp names dir n w = (Some p, w') \<Longrightarrow>
   files w p = None \<and> files w' = (files w)(p \<mapsto> Blob []) \<and> (outcomes w = [] \<longrightarrow> outcomes w' = [])"
  by (induction names dir n w rule: createTemp.induct)
    (auto simp: Let_def set_file_def sys_def split: prod.splits if_splits list.splits)

lemma os_remove_files:
  "os_remove p w = (r, w') \<Longrightarrow> files w' = files w \<or> files w' = (files w)(p := None)"
  "os_remove p w = (r, w') \<Longrightarrow> outcomes w = [] \<Longrightarrow> files w' = (files w)(p := None)"
  by (auto simp: os_remove_def set_file_def Let_def sys_def fun_upd_idem split: prod.splits if_splits list.splits)

lemma check_config_dir_files:
  assumes "check_config_dir d w = (r, w')"
  shows "files w' = files w \<or> (\<exists>p. files w p = None \<and> files w' = (files w)(p \<mapsto> Blob []))"
  using assms
  by (auto simp: check_config_dir_def Let_def fun_upd_idem
      dest!: createTemp_None createTemp_Some os_remove_files(1) split: sum.splits option.splits prod.splits)

lemma check_config_dir_clean:
  assumes "check_config_dir d w = (r, w')" "outcomes w = []"
  shows "files w' = files w"
proof -
  have c: "files w'' = files w" if "createTemp names dir n w = (Some p, v)" "os_remove p v = (q, w'')" for names dir n p v q w''
    using createTemp_Some [OF that(1)] os_remove_files(2) [OF that(2)] assms(2) by (simp add: fun_upd_idem)
  show ?thesis using assms(1)
    by (auto simp: check_config_dir_def Let_def dest: createTemp_None c split: sum.splits option.splits prod.splits)
qed

text \<open>The report of the default checks, and the world they leave.\<close>

lemma Run_default:
  "Run opts (defaultChecks d) w =
     (case utc_now w of (now, v) \<Rightarrow>
      case check_config_dir d v of (r, w') \<Rightarrow>
        let rs = [check_go_version d, r, check_secrets_backend d, check_master_password d, check_secrets_perms d, check_agent_socket d] in
        (\<lparr>rpSchemaVersion = reportSchemaVersion, rpGeneratedAt = now, rpWeboxVersion = oWeboxVersion opts,
          rpPlatform = oPlatform opts, rpChecks = rs, rpSummary = summary_of rs\<rparr>, w'))"
  by (simp add: Run_def defaultChecks_def summary_Nil [symmetric] tally_summary Let_def split: prod.split)

lemma utc_now_fields: "utc_now w = (now, v) \<Longrightarrow> files v = files w \<and> outcomes v = outcomes w"
  by (auto simp: utc_now_def)

text \<open>
  The diagnosis leaves the files alone: whatever fails, the most that can remain is one new empty file, the probe whose removal
  failed; and nothing remains when no call fails.
\<close>

theorem doctor_leaves_files:
  "let w' = snd (Run opts (defaultChecks d) w) in
   (files w' = files w \<or> (\<exists>p. files w p = None \<and> files w' = (files w)(p \<mapsto> Blob [])))
   \<and> (outcomes w = [] \<longrightarrow> files w' = files w)"
proof -
  obtain now v where n: "utc_now w = (now, v)" by fastforce
  obtain r w' where c: "check_config_dir d v = (r, w')" by fastforce
  then have "snd (Run opts (defaultChecks d) w) = w'" by (simp add: Run_default n Let_def)
  then show ?thesis using check_config_dir_files [OF c] check_config_dir_clean [OF c] utc_now_fields [OF n] by (auto simp: Let_def)
qed

section \<open>When the exit code is 2\<close>

lemma pure_checks_fail:
  "Status (check_go_version d) \<noteq> StatusFail" "Status (check_master_password d) \<noteq> StatusFail"
  "Status (check_secrets_perms d) \<noteq> StatusFail" "Status (check_agent_socket d) \<noteq> StatusFail"
  by (auto simp: check_go_version_def check_master_password_def check_secrets_perms_def check_agent_socket_def Let_def
      split: option.split list.split sum.split stat_answer.split prod.split)

lemma check_secrets_backend_fail:
  "Status (check_secrets_backend d) = StatusFail \<longleftrightarrow>
   (\<exists>e. detectSecrets d = Some e \<and> \<not> errors_is (fst e) (SecretsE ErrKeyringUnavailable) \<and> \<not> errors_is (fst e) (SecretsE ErrBrokenKeyring))"
  by (auto simp: check_secrets_backend_def Let_def split: option.split)

lemma check_config_dir_fail:
  "Status (fst (check_config_dir d w)) = StatusFail \<longleftrightarrow>
   (case resolveConfigDir d of
      Inl _ \<Rightarrow> True
    | Inr dir \<Rightarrow> mkdirAll d dir \<noteq> None \<or> fst (createTemp (randomNames d) dir createTempTries w) = None)"
  by (auto simp: check_config_dir_def Let_def split: sum.split option.split prod.split)

text \<open>
  The diagnosis exits with 2 exactly when the configuration directory cannot be named or made or takes no probe, or the keyring
  answers an error that is neither of the two known ones. A loose file mode, a missing agent and a master password in the
  environment are never more than warnings.
\<close>

theorem doctor_exit_2:
  "ExitCode (fst (Run opts (defaultChecks d) w)) = 2 \<longleftrightarrow>
   (case resolveConfigDir d of
      Inl _ \<Rightarrow> True
    | Inr dir \<Rightarrow> mkdirAll d dir \<noteq> None \<or> fst (createTemp (randomNames d) dir createTempTries (snd (utc_now w))) = None)
   \<or> (\<exists>e. detectSecrets d = Some e \<and> \<not> errors_is (fst e) (SecretsE ErrKeyringUnavailable)
          \<and> \<not> errors_is (fst e) (SecretsE ErrBrokenKeyring))"
proof -
  obtain now v where n: "utc_now w = (now, v)" by fastforce
  obtain r w' where c: "check_config_dir d v = (r, w')" by fastforce
  have v: "snd (utc_now w) = v" by (simp add: n)
  show ?thesis
    using pure_checks_fail [of d] check_secrets_backend_fail [of d] check_config_dir_fail [of d v]
    unfolding v by (subst ExitCode_iff) (simp_all add: Run_default n c Let_def)
qed

theorem github_doctor_never_fails: "ExitCode (fst (Run opts (githubChecks now deps) w)) \<noteq> 2"
proof -
  have "Status (checkGHCLI deps) \<noteq> StatusFail" "Status (checkGHAuthStatus deps) \<noteq> StatusFail"
    "Status (checkRateLimit now deps) \<noteq> StatusFail" "Status (checkPATSlot deps) \<noteq> StatusFail"
    by (auto simp: checkGHCLI_def checkGHAuthStatus_def checkRateLimit_def checkPATSlot_def Let_def
        split: sum.split option.split prod.split)
  then show ?thesis
    by (subst ExitCode_iff)
      (auto simp: Run_def githubChecks_def summary_Nil [symmetric] tally_summary split: prod.split)
qed

section \<open>The master password in the environment\<close>

lemma same_workstation: "secretsMasterPasswordOnWorkstation = isWorkstationEnv"
  by (rule ext) (auto simp: secretsMasterPasswordOnWorkstation_def isWorkstationEnv_def split: option.splits)

text \<open>The doctor warns of a master password in the environment exactly when reading that password prints its own warning.\<close>

theorem master_password_warning:
  assumes "lookupEnv d MasterPasswordEnv = Some pwd" "pwd \<noteq> []"
  shows "Status (check_master_password d) = StatusWarn
    \<longleftrightarrow> WorkstationWarning \<in> set (snd (ReadMasterPassword (lookupEnv d) prompt terminal input))"
  using assms by (cases pwd) (auto simp: check_master_password_def ReadMasterPassword_def same_workstation Let_def)

text \<open>But an empty variable, which the doctor reports as not set, is taken as the password.\<close>

lemma empty_master_password:
  assumes "lookupEnv d MasterPasswordEnv = Some []"
  shows "Status (check_master_password d) = StatusSkipped"
    "fst (ReadMasterPassword (lookupEnv d) prompt terminal input) = Inr []"
  using assms by (auto simp: check_master_password_def ReadMasterPassword_def Let_def)

section \<open>What the GitHub checks show of the output they read\<close>

lemma trim_space_sub: "\<exists>a b. s = a @ trim_space s @ b"
proof -
  obtain a where a: "s = a @ strip_seqs space_seqs s" using strip_seqs_suffix by blast
  obtain b where "rev (strip_seqs space_seqs s) = b @ rev (trim_space s)"
    using strip_seqs_suffix [of "rev (strip_seqs space_seqs s)"] by (auto simp: trim_space_def)
  then have "strip_seqs space_seqs s = trim_space s @ rev b" by (metis rev_append rev_rev_ident)
  with a show ?thesis by metis
qed

lemma has_sub: "has L t \<Longrightarrow> has L (a @ t @ b)"
  by (simp add: has_append)

lemma newlines_to_spaces: "replace_all s [CHR 0x0A] '' '' = map (\<lambda>c. if c = CHR 0x0A then CHR '' '' else c) s"
  by (induction s "[CHR 0x0A]" "'' ''" rule: replace_all.induct) (auto simp: has_prefix_def)

lemma has_one_line:
  assumes "token_lang L" "has L (replace_all s [CHR 0x0A] '' '')"
  shows "has L s"
proof -
  let ?f = "\<lambda>c. if c = CHR 0x0A then CHR '' '' else c"
  obtain a w b where w: "map ?f s = a @ w @ b" "w \<in> L" using assms(2) by (auto simp: has_def newlines_to_spaces)
  then obtain a' w' b' where s: "s = a' @ w' @ b'" "w = map ?f w'" by (auto simp: map_eq_append_conv append_eq_map_conv)
  have "CHR '' '' \<notin> set w" using assms(1) w(2) by (auto simp: token_lang_def separators_def)
  then have "w = w'" using s(2) by (auto simp: image_iff intro!: map_idI)
  then show ?thesis using s(1) w(2) by (auto simp: has_def)
qed

text \<open>A word of a language without dots that ends in the dots of a cut text lies before them.\<close>

lemma has_dots:
  assumes "\<forall>w \<in> L. CHR ''.'' \<notin> set w \<and> w \<noteq> []" "has L (s @ ''...'')"
  shows "has L s"
proof -
  obtain a w b where w: "s @ ''...'' = a @ w @ b" "w \<in> L" using assms(2) by (auto simp: has_def)
  have d: "w \<noteq> []" "CHR ''.'' \<notin> set w" using assms(1) w(2) by auto
  have "length a + length w \<le> length s"
  proof (rule ccontr)
    assume "\<not> length a + length w \<le> length s"
    then have l: "length a + length w - 1 \<ge> length s" "length a + length w - 1 < length (s @ ''...'')"
      using arg_cong [OF w(1), of length] d(1) by (auto simp: Suc_le_eq)
    then have "(s @ ''...'') ! (length a + length w - 1) = CHR ''.''"
      by (auto simp: nth_append nth_Cons' less_Suc_eq)
    moreover have "(a @ w @ b) ! (length a + length w - 1) = last w"
      using d(1) by (cases w rule: rev_cases) (auto simp: nth_append)
    ultimately show False using w(1) d by (metis last_in_set)
  qed
  then have "take (length a + length w) s = take (length a + length w) (s @ ''...'')" by simp
  also have "\<dots> = a @ w" by (simp add: w(1))
  finally show ?thesis using w(2) hasI [of w L a "drop (length a + length w) s"] by (metis append.assoc append_take_drop_id)
qed

lemma trimOneLine_clean:
  assumes "token_lang L" "\<forall>w \<in> L. CHR ''.'' \<notin> set w" "\<not> has L s"
  shows "\<not> has L (trimOneLine s)"
proof -
  let ?t = "trim_space (replace_all s [CHR 0x0A] '' '')"
  have ne: "\<forall>w \<in> L. CHR ''.'' \<notin> set w \<and> w \<noteq> []" using assms(1,2) by (auto simp: token_lang_def)
  have t: "\<not> has L ?t"
    using has_one_line [OF assms(1), of s] has_sub [of L ?t] trim_space_sub [of "replace_all s [CHR 0x0A] '' ''"] assms(3) by metis
  then have "\<not> has L (take n ?t)" for n using has_append(1) [of L "take n ?t" "drop n ?t"] by auto
  then show ?thesis using t has_dots [OF ne] by (auto simp: trimOneLine_def Let_def)
qed

lemma no_dots: "over (\<lambda>c. c \<noteq> CHR ''.'') r \<Longrightarrow> \<forall>w \<in> lang r. CHR ''.'' \<notin> set w"
  using over_lang by (fastforce simp: list_all_iff)

definition token_res :: "re set" where "token_res = {ghRe, patRe, akiaRe, skRe}"

lemma dot_class [simp]:
  "red_alnum c \<Longrightarrow> c \<noteq> CHR ''.''" "red_word c \<Longrightarrow> c \<noteq> CHR ''.''" "red_digit c \<Longrightarrow> c \<noteq> CHR ''.''" "red_upper c \<Longrightarrow> c \<noteq> CHR ''.''"
  by (auto simp: red_word_def red_alnum_def red_digit_def red_upper_def is_letter_def less_eq_char_def)

lemma token_res:
  assumes "r \<in> token_res"
  shows "plain r" "token_lang (lang r)" "\<forall>w \<in> lang r. CHR ''.'' \<notin> set w" "\<not> match_string r (Redact s)"
proof -
  show "plain r" "token_lang (lang r)" "\<not> match_string r (Redact s)"
    using assms token_plain token_langs Redact_tokens [of s] by (auto simp: token_res_def)
  have "over (\<lambda>c. c \<noteq> CHR ''.'') r"
    using assms
    by (auto simp: token_res_def ghRe_def patRe_def akiaRe_def skRe_def broken_def opt_def)
  then show "\<forall>w \<in> lang r. CHR ''.'' \<notin> set w" by (rule no_dots)
qed

lemma after_space: "r \<in> token_res \<Longrightarrow> \<not> match_string r P \<Longrightarrow> \<not> match_string r (P @ '' '' @ Redact s)"
  using has_sep [of "lang r" "CHR '' ''" P "Redact s"] token_res [of r] by (auto simp: has_match separators_def)

lemma probe_prefixes:
  assumes "r \<in> token_res"
  shows "\<not> match_string r ''GitHub /rate_limit probe failed:''" "\<not> match_string r ''PAT slot probe failed:''"
  using assms unfolding token_res_def by (auto; code_simp)+

text \<open>
  No token of the command line's output reaches the report: where no account could be read off the output of
  \<open>gh auth status\<close>, the hint that quotes it holds no token, cut and put on one line as it is; neither do the messages that quote
  the error of the quota probe or of the secrets backend.
\<close>

theorem github_doctor_no_tokens:
  assumes "r \<in> token_res"
  shows "AuthStatus deps = Inr raw \<Longrightarrow> \<not> match_string r (Hint (checkGHAuthStatus deps))"
    and "RateLimit deps = Inl e \<Longrightarrow> \<not> match_string r (Message (checkRateLimit now deps))"
    and "PATPresent deps = Inl e \<Longrightarrow> Status (checkPATSlot deps) = StatusWarn \<Longrightarrow> \<not> match_string r (Message (checkPATSlot deps))"
proof -
  note t = token_res [OF assms]
  have nil: "\<not> has (lang r) []" using has_filler [OF t(2), of "[]"] by simp
  have "\<not> has (lang r) (trimOneLine (Redact raw))"
    using trimOneLine_clean [OF t(2,3)] t(1) t(4) [of raw] by (simp add: has_match)
  then show "AuthStatus deps = Inr raw \<Longrightarrow> \<not> match_string r (Hint (checkGHAuthStatus deps))"
    using nil t(1) by (simp add: checkGHAuthStatus_def has_match Let_def)
  show "RateLimit deps = Inl e \<Longrightarrow> \<not> match_string r (Message (checkRateLimit now deps))"
    using after_space [OF assms probe_prefixes(1) [OF assms], of "snd e"] by (simp add: checkRateLimit_def Let_def)
  show "PATPresent deps = Inl e \<Longrightarrow> Status (checkPATSlot deps) = StatusWarn \<Longrightarrow> \<not> match_string r (Message (checkPATSlot deps))"
    using after_space [OF assms probe_prefixes(2) [OF assms], of "snd e"]
    by (cases e) (auto simp: checkPATSlot_def Let_def split: if_splits)
qed

section \<open>The account\<close>

lemma contains_skip: "CHR '' '' \<notin> set x \<Longrightarrow> sep = CHR '' '' # t \<Longrightarrow> contains (x @ s) sep \<longleftrightarrow> contains s sep"
  by (induction x) (auto simp: has_prefix_def)

lemma cut_at_skip:
  "CHR '' '' \<notin> set x \<Longrightarrow> sep = CHR '' '' # t \<Longrightarrow> cut_at sep (x @ s) = map_option (\<lambda>ab. (x @ fst ab, snd ab)) (cut_at sep s)"
  by (induction x) (auto simp: has_prefix_def option.map_comp comp_def split_beta option.map_ident)

lemma takeWhile_name: "CHR '' '' \<notin> set x \<Longrightarrow> takeWhile (\<lambda>c. c \<noteq> CHR '' '') (x @ CHR '' '' # t) = x"
  by (induction x) auto

text \<open>The two shapes of the line, since version 2.40 of the command and before.\<close>

lemma clause_account:
  "CHR '' '' \<notin> set x \<Longrightarrow> parseAccountClause (''Logged in to github.com account '' @ x @ '' (keyring)'') '' account '' = x"
  by (simp add: parseAccountClause_def has_prefix_def contains_skip takeWhile_name)

lemma no_account:
  assumes "CHR '' '' \<notin> set x" "x \<noteq> ''account''"
  shows "cut_at '' account '' (CHR '' '' # x @ '' (oauth_token)'') = None"
proof -
  have "\<not> has_prefix (CHR '' '' # x @ '' (oauth_token)'') '' account ''"
  proof
    assume "has_prefix (CHR '' '' # x @ '' (oauth_token)'') '' account ''"
    then obtain t where "x @ '' (oauth_token)'' = ''account'' @ CHR '' '' # t" by (auto simp: has_prefix_iff)
    then have "takeWhile (\<lambda>c. c \<noteq> CHR '' '') (x @ '' (oauth_token)'') = ''account''" by simp
    then show False using assms takeWhile_name [of x "''(oauth_token)''"] by simp
  qed
  then show ?thesis using assms(1) by (subst cut_at.simps) (simp add: cut_at_skip has_prefix_def)
qed

lemma cut_at_as: "cut_at '' account '' y = None \<Longrightarrow> cut_at '' account '' (''Logged in to github.com as'' @ y) = None"
  by (simp add: has_prefix_def)

lemma clause_as:
  assumes "CHR '' '' \<notin> set x" "x \<noteq> ''account''"
  shows "parseAccountClause (''Logged in to github.com as '' @ x @ '' (oauth_token)'') '' account '' = []"
    and "parseAccountClause (''Logged in to github.com as '' @ x @ '' (oauth_token)'') '' as '' = x"
proof -
  have "cut_at '' account '' (''Logged in to github.com as'' @ CHR '' '' # x @ '' (oauth_token)'') = None"
    by (rule cut_at_as, rule no_account [OF assms])
  then show "parseAccountClause (''Logged in to github.com as '' @ x @ '' (oauth_token)'') '' account '' = []"
    by (simp add: parseAccountClause_def)
  show "parseAccountClause (''Logged in to github.com as '' @ x @ '' (oauth_token)'') '' as '' = x"
    using assms(1) by (simp add: parseAccountClause_def has_prefix_def contains_skip takeWhile_name)
qed

lemma trim_space_closed:
  assumes "\<And>q. q \<in> set space_seqs \<Longrightarrow> \<not> has_prefix s q" "\<And>q. q \<in> set space_seqs \<Longrightarrow> \<not> has_suffix s q"
  shows "trim_space s = s"
proof -
  have "strip_seqs space_seqs s = s" using assms(1) by (intro strip_seqs_id)
  moreover have "strip_seqs (map rev space_seqs) (rev s) = rev s"
    using assms(2) by (intro strip_seqs_id) (auto simp: has_suffix_def)
  ultimately show ?thesis by (simp add: trim_space_def)
qed

lemma trim_space_space: "trim_space (CHR '' '' # s) = trim_space s"
proof -
  have "strip_seqs space_seqs (CHR '' '' # s) = strip_seqs space_seqs s"
    by (rule strip_seqs_Cons_char) (auto simp: space_seqs_def has_prefix_def)
  then show ?thesis by (simp add: trim_space_def)
qed

lemma trim_word_paren:
  assumes "is_letter c"
  shows "trim_space (c # s @ '')'') = c # s @ '')''"
proof (rule trim_space_id)
  show "\<forall>q\<in>set space_seqs. hd (c # s @ '')'') \<noteq> hd q \<and> last (c # s @ '')'') \<noteq> last q"
    using assms by (auto simp: space_seqs_def is_letter_def)
qed

lemma trim_glyph_paren:
  "trim_space (CHR 0xE2 # CHR 0x9C # CHR 0x93 # s @ '')'') = CHR 0xE2 # CHR 0x9C # CHR 0x93 # s @ '')''"
  by (rule trim_space_closed) (auto simp: space_seqs_def has_prefix_def has_suffix_def)

lemma trim_modern:
  "trim_space (CHR 0xE2 # CHR 0x9C # CHR 0x93 # '' Logged in to github.com account '' @ x @ '' (keyring)'')
   = CHR 0xE2 # CHR 0x9C # CHR 0x93 # '' Logged in to github.com account '' @ x @ '' (keyring)''"
  "trim_space ('' Logged in to github.com account '' @ x @ '' (keyring)'') = ''Logged in to github.com account '' @ x @ '' (keyring)''"
  using trim_glyph_paren [of "'' Logged in to github.com account '' @ x @ '' (keyring''"]
    trim_word_paren [of "CHR ''L''" "''ogged in to github.com account '' @ x @ '' (keyring''"]
  by (simp_all add: trim_space_space is_letter_def)

lemma trim_legacy:
  "trim_space (''Logged in to github.com as '' @ x @ '' (oauth_token)'') = ''Logged in to github.com as '' @ x @ '' (oauth_token)''"
  using trim_word_paren [of "CHR ''L''" "''ogged in to github.com as '' @ x @ '' (oauth_token''"] by (simp add: is_letter_def)

text \<open>
  The account is read off the line whatever it is called, as long as it is a word; on the older line, other than \<open>account\<close>,
  where the clause of the newer line takes what follows it for the name.
\<close>

theorem parseGHAccount_line:
  assumes "x \<noteq> []" "set x \<inter> set [CHR '' '', CHR 0x0A] = {}"
  shows "parseGHAccount (CHR 0xE2 # CHR 0x9C # CHR 0x93 # '' Logged in to github.com account '' @ x @ '' (keyring)'') = x"
    and "x \<noteq> ''account'' \<Longrightarrow> parseGHAccount (''Logged in to github.com as '' @ x @ '' (oauth_token)'') = x"
proof -
  have n: "CHR '' '' \<notin> set x" "CHR 0x0A \<notin> set x" using assms(2) by auto
  show "parseGHAccount (CHR 0xE2 # CHR 0x9C # CHR 0x93 # '' Logged in to github.com account '' @ x @ '' (keyring)'') = x"
    using n clause_account [OF n(1)] trim_modern [of x] assms(1)
    by (simp add: parseGHAccount_def split_char_none stripStatusGlyph_def has_prefix_def trim_prefix_def Let_def)
  show "parseGHAccount (''Logged in to github.com as '' @ x @ '' (oauth_token)'') = x" if "x \<noteq> ''account''"
    using n clause_as [OF n(1) that] trim_legacy [of x] assms(1)
    by (simp add: parseGHAccount_def split_char_none stripStatusGlyph_def has_prefix_def trim_prefix_def Let_def)
qed

lemma account_named_account: "parseGHAccount ''Logged in to github.com as account (oauth_token)'' = ''(oauth_token)''"
  using trim_legacy [of "''account''"]
  by (simp add: parseGHAccount_def split_char_none stripStatusGlyph_def has_prefix_def parseAccountClause_def Let_def)

end
