(* ===== verification/Spec2Isabelle.thy ===== *)
theory Spec2Isabelle
  imports Cpanel Github Ssh_Pool Ssh_Exec Secrets Status_Cache Bento File_Sink Tui_Safety Cli Directadmin Provider_New Doctor
begin

text \<open>
  Verification of webox, a terminal cockpit that provisions and watches web projects on shared hosting.

  \<^bold>\<open>The program.\<close> A provider adapter (\<open>src/providers\<close>) turns panel operations into remote commands; the wizard
  (\<open>src/wizard\<close>) runs a provisioning plan against an adapter and GitHub and records, before it goes on, how to undo
  every step; commands travel over a pool of SSH connections with retries (\<open>src/ssh\<close>); configuration and secrets
  are files that several processes may write (\<open>src/config\<close>, \<open>src/secrets\<close>); the catalogue of hosting presets is read
  from embedded files (\<open>src/presets\<close>); the cockpit shows cached status (\<open>src/status\<close>), live logs
  (\<open>src/services/sshtail\<close>, \<open>src/tui/components\<close>) and a responsive grid (\<open>src/tui/bento\<close>); logs and traces are redacted
  (\<open>src/internal/log\<close>, \<open>src/internal/telemetry\<close>).

  \<^bold>\<open>Theories and sources.\<close>
  \<^item> \<open>Prelude\<close>: errors as chains of sentinels, contexts, Go maps, and the locale \<open>transition_system\<close> of which every
    step relation below is an interpretation.
  \<^item> \<open>Go_Strings\<close>, \<open>Regex\<close>, \<open>Base64\<close>: what the sources use of the packages \<open>strings\<close>, \<open>strconv\<close>, \<open>regexp\<close> and
    \<open>encoding/base64\<close>. \<open>matches\<close> is an executable leftmost-first matcher, \<open>Match\<close> its declarative reading, and
    \<open>matches_iff\<close> their equivalence.
  \<^item> \<open>Providers\<close>: the two registries of \<open>registry.go\<close> and \<open>validators.go\<close>, both interpretations of \<open>type_registry\<close>.
  \<^item> \<open>Smallhost\<close>: the small.pl adapter (\<open>providers/smallhost\<close>): validators, paths, output parsers, every method.
  \<^item> \<open>World\<close>: JSON documents and a file system whose every call may fail, with the history of its states.
  \<^item> \<open>Cleanup_Stack\<close>: the undo stack and its snapshot file (\<open>wizard/rollback.go\<close>, \<open>pending_cleanups.go\<close>); the locale
    \<open>snapshot_store\<close> is what the stack needs from its persister.
  \<^item> \<open>Wizard\<close>: plans, \<open>Execute\<close> and \<open>ExecuteGitHubProvision\<close> (\<open>wizard/plan.go\<close>, \<open>execute.go\<close>, \<open>github_execute.go\<close>).
  \<^item> \<open>Shell\<close>: how a POSIX shell splits a simple command into words, the reading the quoting theorems refer to.
  \<^item> \<open>Uapi\<close>: the cPanel client (\<open>providers/cpanel/uapi\<close>): the sixteen mutating requests with their checks, the HTTPS
    transport with its retry loop, \<open>uapi\<close> over SSH, the composites that fail over between them, and the list decoders.
    The locale \<open>gated_mutator\<close> is the mutation switch, interpreted on all three mutators.
  \<^item> \<open>Cpanel\<close>: the cPanel adapter (\<open>providers/cpanel\<close>): validators, properties, every method, the workflow data.
  \<^item> \<open>Ssh_Types\<close>, \<open>Ssh_Pool\<close>, \<open>Ssh_Exec\<close>: targets and host keys, the connection pool as a step relation over its
    critical sections, and execution with retries, back-off in double precision included.
  \<^item> \<open>Github\<close>: the GitHub service (\<open>services/github\<close>): the transports over \<open>gh\<close> and REST, the client that falls back
    from one to the other and serves the wizard as provisioner and cleanup runner, sealed secrets, workflow logs and the
    polling loop. The locale \<open>recording\<close> is what accounting for the requests needs of a transport.
  \<^item> \<open>Config_Store\<close>: validation, migration, the advisory lock, \<open>Save\<close> and \<open>Load\<close> (\<open>config/\<close>).
  \<^item> \<open>Secrets\<close>: the encrypted vault, the keyring and password entry (\<open>secrets/\<close>); the vault interprets
    \<open>secret_backend\<close>.
  \<^item> \<open>Presets\<close>: preset data, validation, loader and registry (\<open>presets/\<close>).
  \<^item> \<open>Log_Redact\<close>, \<open>File_Sink\<close>: the redaction rules, and the trace writer with its producers, drain goroutine and
    \<open>Close\<close> interleaved at every channel operation.
  \<^item> \<open>Ring_Buffer\<close>, \<open>Live_Logs\<close>: the circular buffer, an interpretation of \<open>bounded_queue\<close>, and the log stream that fills
    it, with escapes, severity and shell quoting.
  \<^item> \<open>Status_Cache\<close>: the stale-while-revalidate cache (\<open>status/\<close>) and its interleavings.
  \<^item> \<open>Bento\<close>: layout tiers, row budgets, hit-testing and clipping (\<open>tui/bento\<close>).
  \<^item> \<open>Tui_Forms\<close>, \<open>Tui_Model\<close>, \<open>Tui\<close>: the cockpit's update loop (\<open>tui/wizard.go\<close>, \<open>model.go\<close>, \<open>cicd.go\<close>,
    \<open>host_key_modal.go\<close>, \<open>provider_catalog.go\<close>, \<open>update.go\<close>, \<open>live_logs.go\<close>): the forms, the model, and \<open>Update\<close> with a handler
    per message and per screen. \<open>None\<close> is a panic.
  \<^item> \<open>Project_Status\<close>, \<open>Tui_Commands\<close>: the probes behind the dashboard (\<open>services/httpcheck\<close>) and the commands
    (\<open>tui/commands.go\<close>, \<open>wizard_runner.go\<close>, the fetchers of \<open>cmd/webox/run.go\<close>), and the relation \<open>ui_step\<close> that interleaves
    the operator's input with the answers of the commands in flight.
  \<^item> \<open>Tui_Loop\<close>, \<open>Tui_Wizard\<close>, \<open>Tui_Safety\<close>: what a message may start, the panics, the wizard's runs, and the invariants of the
    loop, two interpretations of \<open>transition_system\<close>.
  \<^item> \<open>Directadmin\<close>: the read-only DirectAdmin client over HTTPS and over \<open>curl\<close> through SSH (\<open>providers/directadmin/api\<close>).
  \<^item> \<open>Cli\<close>: the argument parser and the choice of what is run (\<open>cmd/webox/run.go\<close>).
  \<^item> \<open>Provider_New\<close>: the generator of provider skeletons (\<open>cmd/webox/provider_new.go\<close>).
  \<^item> \<open>Doctor\<close>: the default and the GitHub checks, the report and the exit code (\<open>services/doctor/doctor.go\<close>,
    \<open>check.go\<close>, \<open>github.go\<close>).

  \<^bold>\<open>What is shown.\<close> Provisioning followed by rollback restores the panel, whatever fails, up to the steps the
  errors name; the undo stack, the configuration and the vault survive crashes at every moment and read back what was
  written; the stack and the configuration hold no credential; commands need no quoting or are quoted, one parser
  apart; the pool respects its limit, loses no wake-up and shares no connection; retries replay only refusals, within
  their budget and schedule; locks, migrations and streams end; redacted text, the trace and the log tab hold no token of
  four kinds; the ring buffer and the cache behave as their abstract descriptions; a click means one slot; the
  preset loader accounts for every file. Where the code does less than its comments say, a theorem exhibits the run: an
  injected address, an orphaned resource, overlapping pushes, a panic between \<open>Record\<close> and \<open>Close\<close>, a vault update lost
  between processes, a value cached after its invalidation. The cPanel client sends nothing while its switch is off and
  at most four requests for a call; its decoders read three answer shapes alike; a database that could not be finished
  is taken away again; but a domain whose application is refused stays, and a repeated create reports its own work as
  another's. GitHub calls go out at most three times and are the same over both transports for plain names; sealed
  secrets open to what was sealed; waiting for a run with a timeout ends; log lines are free of tokens; but a removal
  fails when there is nothing left to remove. In the cockpit every change of a server, a file or the configuration comes from
  the key that asks for it, the wizards hand over profiles and plans the checks accept, and one project action runs at a
  time; but Tab and Home end the program, the wizard cannot record its first clean-up step with the path the program gives
  it, a plan can be executed twice, the refresh timers pile up or never start, and the host-key dialogue never opens. The
  options a command line yields are exactly the coherent ones, each with a command line of its own. The DirectAdmin client reads
  the same over both of its transports. The generator overwrites nothing but the import file, which loses all else it held.
  The doctor leaves at most its probe behind, fails only for the configuration directory or the keyring, and shows no token of what \<open>gh\<close> printed.

  \<^bold>\<open>Bounds and fuel.\<close> No definition of the program uses fuel: loops are structural or have a measure (the attempts
  left, the versions to migrate, the time to the deadline, the text ahead), and the one loop that may run for ever, the
  wait for a workflow run, is a partial function whose returning is proved. The only fuelled functions are the parser of
  the example cipher's text format in \<open>Secrets\<close>, whose fuel is the length of the text and proved enough, and the scaling
  loops of the double-precision rounding in \<open>Ssh_Exec\<close>, whose fuel covers the exponents of 64-bit durations. Integers
  are unbounded where the program cannot reach the bounds and wrap or saturate where it can: durations and shifts in the
  back-off, counters (\<open>64 word\<close>), ages in the cache, parsed numbers.

  \<^bold>\<open>Outside the model.\<close> Code that is not in the repository is a parameter with its documented behaviour as
  hypotheses: the remote shell, the \<open>gh\<close> program, the NaCl box, the JSON-schema validator, AES-GCM and Argon2, the operating-system
  keyring, \<open>singleflight\<close>, \<open>lipgloss\<close>, the HTTP exchange. Texts of error messages are modelled only where the code
  searches them, in \<open>Uapi\<close> and \<open>Github\<close>, or prints them, in \<open>Doctor\<close>; elsewhere errors are their sentinels. The network, the clock, the clipboard and the number of lines a screen has
  are parameters of the cockpit. Not modelled: the panel probes of the diagnostic subcommands and
  the host metrics; what the views paint, embedded assets and test support are left out for good.
\<close>

end
